(* ===== verification/Prelude.thy ===== *)
theory Prelude
  imports Main
begin

text \<open>
  Shared vocabulary of the development: the Python values that cross a boundary of the
  program, exceptions as values, the error monad of the pure domain rules, and generic
  lemmas on lists that the component theories share.

  Conventions. A \<open>UUID\<close> is its 128-bit integer value (the canonical text of a UUID has a
  fixed width, so its order is the order of the integers). A timezone-aware \<open>datetime\<close>
  is its instant in microseconds. Text is modelled over ASCII characters.
\<close>

named_theorems inversion_simps \<open>what the success of a step says about its parts\<close>
named_theorems frame_simps \<open>steps that leave a part of the tables alone\<close>
named_theorems committed_simps \<open>steps that leave the committed store alone\<close>

type_synonym uuid = nat
type_synonym timestamp = int

section \<open>Values\<close>

text \<open>Python values that occur in payloads, hashes, results and diagnostic contexts.\<close>

datatype pval =
    PNone
  | PBool bool
  | PInt int
  | PStr string
  | PUuid uuid
  | PTime timestamp
  | PList "pval list"
  | PDict "(string \<times> pval) list"

definition opt_str :: "string option \<Rightarrow> pval" where
  "opt_str x = (case x of None \<Rightarrow> PNone | Some s \<Rightarrow> PStr s)"

definition opt_uuid :: "uuid option \<Rightarrow> pval" where
  "opt_uuid x = (case x of None \<Rightarrow> PNone | Some s \<Rightarrow> PUuid s)"

definition opt_int :: "int option \<Rightarrow> pval" where
  "opt_int x = (case x of None \<Rightarrow> PNone | Some s \<Rightarrow> PInt s)"

definition opt_bool :: "bool option \<Rightarrow> pval" where
  "opt_bool x = (case x of None \<Rightarrow> PNone | Some s \<Rightarrow> PBool s)"

section \<open>Exceptions\<close>

text \<open>
  The exception classes a modelled operation can raise. The first group are the
  subclasses of \<open>DomainError\<close>, the second those of \<open>ApplicationError\<close>; the last
  group are the exceptions that no use case translates into a typed failure.
\<close>

datatype exn_class =
    InvalidTicketTransition | InvalidAppointmentTransition | InvalidWorkerEvent
  | InvalidEscalationRecovery | VersionConflict | InvariantViolation | PermissionDenied
  | ApplicationError | ResourceNotFound | AuthorizationFailed | IdempotencyConflict
  | PersistenceConflict | ActiveAppointmentExists | AppointmentTimeConflict
  | DatabaseIntegrityFailure
  | PyValueError | PyRuntimeError | PyKeyError | PyAssertionError | DataError | IntegrityError
  | LeaseLost | InjectedFault
  | TraceConflict | UnsafeTracePayload | UnsupportedOutboxEvent | ValidationError
  | OperationOutcomePermissionDenied
  | AgentThreadNotFound | AgentThreadPermissionDenied | AgentReliabilityConflict
  | HumanReviewPersistenceFailed
  | MCPClientError | MCPUnavailable | MCPTimeout | MCPContractViolation | MCPToolNotFound
  | MCPToolResultError | MutationNotSent | UnknownCommit | PolicyRetrievalFailed
  | ThreadIdentityConflict
  | LLMProviderUnavailable | LLMTimeout | StructuredOutputInvalid | ProviderExhausted
  | StateMergeConflict
  | EmbeddingProviderError | EmbeddingDimensionMismatch | EmbeddingProfileConflict
  | StalePolicyResult | PolicyImportConflict | PolicyEffectivePeriodConflict
  | PyTypeError | PyTimeoutError | PyConnectionError | GraphRecursionError | ApiError
  | ReplayTapeMiss | LiveMutationForbidden | ReplayConflict | ReplayIdempotencyConflict

datatype exn = Exn (exn_class: exn_class) (exn_code: string) (exn_context: "(string \<times> pval) list")

text \<open>\<open>isinstance (e, DomainError)\<close> and \<open>isinstance (e, ApplicationError)\<close>.\<close>

definition is_domain_error :: "exn \<Rightarrow> bool" where
  "is_domain_error e \<longleftrightarrow> exn_class e \<in>
     {InvalidTicketTransition, InvalidAppointmentTransition, InvalidWorkerEvent,
      InvalidEscalationRecovery, VersionConflict, InvariantViolation, PermissionDenied}"

definition is_persistence_conflict :: "exn \<Rightarrow> bool" where
  "is_persistence_conflict e \<longleftrightarrow> exn_class e \<in>
     {PersistenceConflict, ActiveAppointmentExists, AppointmentTimeConflict,
      DatabaseIntegrityFailure}"

definition is_application_error :: "exn \<Rightarrow> bool" where
  "is_application_error e \<longleftrightarrow> is_persistence_conflict e \<or> exn_class e \<in>
     {ApplicationError, ResourceNotFound, AuthorizationFailed, IdempotencyConflict}"

section \<open>The error monad of the pure rules\<close>

type_synonym 'a outcome = "exn + 'a"

definition bindE :: "'a outcome \<Rightarrow> ('a \<Rightarrow> 'b outcome) \<Rightarrow> 'b outcome" where
  "bindE m f = (case m of Inl e \<Rightarrow> Inl e | Inr x \<Rightarrow> f x)"

lemma bindE_simps [simp]:
  "bindE (Inl e) f = Inl e"
  "bindE (Inr x) f = f x"
  by (simp_all add: bindE_def)

lemma bindE_Inr_iff [inversion_simps]:
  "bindE m f = Inr y \<longleftrightarrow> (\<exists>x. m = Inr x \<and> f x = Inr y)"
  by (cases m) simp_all

lemma bindE_Inl_iff:
  "bindE m f = Inl e \<longleftrightarrow> m = Inl e \<or> (\<exists>x. m = Inr x \<and> f x = Inl e)"
  by (cases m) simp_all

lemma bindE_cong [fundef_cong]:
  assumes "m = m'" and "\<And>x. m' = Inr x \<Longrightarrow> f x = g x"
  shows "bindE m f = bindE m' g"
  using assms by (cases m') simp_all

text \<open>A guard that raises, followed by the rest of the body.\<close>

lemma raise_then_Inr_iff [inversion_simps]:
  "(if c then Inl e else m) = Inr y \<longleftrightarrow> \<not> c \<and> m = Inr y"
  by simp

section \<open>Lists\<close>

definition count_if :: "('a \<Rightarrow> bool) \<Rightarrow> 'a list \<Rightarrow> nat" where
  "count_if p xs = length (filter p xs)"

lemma count_if_simps [simp]:
  "count_if p [] = 0"
  "count_if p (x # xs) = (if p x then Suc (count_if p xs) else count_if p xs)"
  "count_if p (xs @ ys) = count_if p xs + count_if p ys"
  by (simp_all add: count_if_def)

lemma count_if_0_iff: "count_if p xs = 0 \<longleftrightarrow> (\<forall>x \<in> set xs. \<not> p x)"
  by (auto simp: count_if_def filter_empty_conv)

lemma find_Some_set: "find p xs = Some x \<Longrightarrow> x \<in> set xs \<and> p x"
  by (induction xs) (auto split: if_splits)

lemma find_map_key:
  assumes "\<And>x. key (f x) = key x"
  shows "find (\<lambda>x. key x = k) (map f xs) = map_option f (find (\<lambda>x. key x = k) xs)"
  by (induction xs) (auto simp: assms)

lemma find_append:
  "find p (xs @ ys) = (case find p xs of None \<Rightarrow> find p ys | Some x \<Rightarrow> Some x)"
  by (induction xs) auto

lemma find_distinct_key:
  assumes "distinct (map key xs)" and "x \<in> set xs"
  shows "find (\<lambda>y. key y = key x) xs = Some x"
  using assms by (induction xs) auto

text \<open>The last element, as Python's \<open>xs[-1] if xs else None\<close>.\<close>

definition last_opt :: "'a list \<Rightarrow> 'a option" where
  "last_opt xs = (if xs = [] then None else Some (last xs))"

lemma last_opt_simps [simp]:
  "last_opt [] = None"
  "last_opt (xs @ [x]) = Some x"
  by (simp_all add: last_opt_def)

lemma last_opt_append: "last_opt (xs @ ys) = (if ys = [] then last_opt xs else last_opt ys)"
  by (simp add: last_opt_def)

end
