(* ===== verification/Text.thy ===== *)
theory Text
  imports Prelude "HOL-Library.Char_ord" "HOL-Library.List_Lexorder"
begin

text \<open>
  The standard-library text functions that the program uses, over ASCII characters:
  \<open>str\<close> of integers and UUIDs, \<open>isoformat\<close> of an instant in UTC, \<open>strip\<close>, \<open>lower\<close>,
  \<open>split\<close>, PostgreSQL's \<open>btrim\<close>, and \<open>json.dumps\<close> with sorted keys. SHA-256 and
  \<open>uuid5\<close> stay parameters (\<open>Env\<close>).
\<close>

section \<open>Numbers\<close>

definition digit_char :: "nat \<Rightarrow> char" where
  "digit_char d = (''0123456789abcdef'' ! d)"

text \<open>Digits of a number in a base between 2 and 16, at least one digit.\<close>

fun base_text :: "nat \<Rightarrow> nat \<Rightarrow> string" where
  "base_text b n = (if b < 2 \<or> n < b then [digit_char (n mod 16)]
                    else base_text b (n div b) @ [digit_char (n mod b)])"

declare base_text.simps [simp del]

definition pad_left :: "nat \<Rightarrow> string \<Rightarrow> string" where
  "pad_left w s = replicate (w - length s) (CHR ''0'') @ s"

definition nat_text :: "nat \<Rightarrow> string" where
  "nat_text n = base_text 10 n"

text \<open>\<open>str (n)\<close> of a Python integer.\<close>

definition int_text :: "int \<Rightarrow> string" where
  "int_text i = (if i < 0 then CHR ''-'' # nat_text (nat (- i)) else nat_text (nat i))"

text \<open>\<open>str (u)\<close> of a UUID: 32 hexadecimal digits in groups of 8, 4, 4, 4 and 12.\<close>

definition uuid_text :: "uuid \<Rightarrow> string" where
  "uuid_text u =
     (let h = pad_left 32 (base_text 16 u)
      in take 8 h @ ''-'' @ take 4 (drop 8 h) @ ''-'' @ take 4 (drop 12 h) @ ''-'' @
         take 4 (drop 16 h) @ ''-'' @ drop 20 h)"

section \<open>Instants\<close>

text \<open>The proleptic Gregorian date of a number of days since 1970-01-01.\<close>

definition civil_from_days :: "int \<Rightarrow> int \<times> int \<times> int" where
  "civil_from_days days =
     (let z = days + 719468; era = z div 146097; doe = z mod 146097;
          yoe = (doe - doe div 1460 + doe div 36524 - doe div 146096) div 365;
          doy = doe - (365 * yoe + yoe div 4 - yoe div 100);
          mp = (5 * doy + 2) div 153;
          m = (if mp < 10 then mp + 3 else mp - 9)
      in (yoe + era * 400 + (if m \<le> 2 then 1 else 0), m, doy - (153 * mp + 2) div 5 + 1))"

definition padded :: "nat \<Rightarrow> int \<Rightarrow> string" where
  "padded w i = pad_left w (int_text i)"

text \<open>\<open>value.astimezone (UTC).isoformat ().replace ("+00:00", "Z")\<close>.\<close>

definition iso_utc :: "timestamp \<Rightarrow> string" where
  "iso_utc t =
     (let us = t mod 1000000; secs = t div 1000000;
          (y, m, d) = civil_from_days (secs div 86400); s = secs mod 86400
      in padded 4 y @ ''-'' @ padded 2 m @ ''-'' @ padded 2 d @ ''T'' @
         padded 2 (s div 3600) @ '':'' @ padded 2 (s div 60 mod 60) @ '':'' @ padded 2 (s mod 60) @
         (if us = 0 then [] else CHR ''.'' # padded 6 us) @ ''Z'')"

section \<open>Trimming, case and words\<close>

text \<open>The ASCII characters that \<open>str.isspace\<close> accepts.\<close>

definition py_space :: "char \<Rightarrow> bool" where
  "py_space c \<longleftrightarrow> (let n = of_char c :: nat in n \<in> {9, 10, 11, 12, 13, 28, 29, 30, 31, 32})"

definition strip_by :: "('a \<Rightarrow> bool) \<Rightarrow> 'a list \<Rightarrow> 'a list" where
  "strip_by p xs = rev (dropWhile p (rev (dropWhile p xs)))"

text \<open>\<open>value.strip ()\<close>; \<open>btrim (value)\<close> of PostgreSQL removes blanks only.\<close>

definition strip :: "string \<Rightarrow> string" where
  "strip s = strip_by py_space s"

definition btrim :: "string \<Rightarrow> string" where
  "btrim s = strip_by (\<lambda>c. c = CHR '' '') s"

definition lower_char :: "char \<Rightarrow> char" where
  "lower_char c = (let n = of_char c :: nat in if 65 \<le> n \<and> n \<le> 90 then char_of (n + 32) else c)"

definition lower :: "string \<Rightarrow> string" where
  "lower s = map lower_char s"

text \<open>\<open>value.split ()\<close>: the maximal runs without whitespace.\<close>

fun words_from :: "string \<Rightarrow> string \<Rightarrow> string list" where
  "words_from acc [] = (if acc = [] then [] else [rev acc])"
| "words_from acc (c # cs) =
     (if py_space c then (if acc = [] then words_from [] cs else rev acc # words_from [] cs)
      else words_from (c # acc) cs)"

definition split_words :: "string \<Rightarrow> string list" where
  "split_words s = words_from [] s"

fun join_with :: "string \<Rightarrow> string list \<Rightarrow> string" where
  "join_with sep [] = []"
| "join_with sep [w] = w"
| "join_with sep (w # v # ws) = w @ sep @ join_with sep (v # ws)"

section \<open>JSON\<close>

text \<open>\<open>_json_value\<close>: UUIDs and instants become their texts, containers are converted
  elementwise; the members of an enumeration are already their string values.\<close>

fun json_value :: "pval \<Rightarrow> pval" where
  "json_value (PUuid u) = PStr (uuid_text u)"
| "json_value (PTime t) = PStr (iso_utc t)"
| "json_value (PList xs) = PList (map json_value xs)"
| "json_value (PDict kvs) = PDict (map (\<lambda>(k, v). (k, json_value v)) kvs)"
| "json_value PNone = PNone"
| "json_value (PBool b) = PBool b"
| "json_value (PInt i) = PInt i"
| "json_value (PStr s) = PStr s"

definition json_escape :: "char \<Rightarrow> string" where
  "json_escape c =
     (let n = of_char c :: nat
      in if c = CHR ''\"'' then [CHR 0x5C, c]
         else if n = 92 then [c, c]
         else if n = 10 then [CHR 0x5C, CHR ''n'']
         else if n = 13 then [CHR 0x5C, CHR ''r'']
         else if n = 9 then [CHR 0x5C, CHR ''t'']
         else if n = 8 then [CHR 0x5C, CHR ''b'']
         else if n = 12 then [CHR 0x5C, CHR ''f'']
         else if n < 32 then CHR 0x5C # CHR ''u'' # pad_left 4 (base_text 16 n)
         else [c])"

definition json_string :: "string \<Rightarrow> string" where
  "json_string s = ''\"'' @ concat (map json_escape s) @ ''\"''"

text \<open>\<open>json.dumps (value, sort_keys=True, separators=(",", ":"))\<close> of a converted value.\<close>

fun json_dumps :: "pval \<Rightarrow> string" where
  "json_dumps PNone = ''null''"
| "json_dumps (PBool b) = (if b then ''true'' else ''false'')"
| "json_dumps (PInt i) = int_text i"
| "json_dumps (PStr s) = json_string s"
| "json_dumps (PUuid u) = json_string (uuid_text u)"
| "json_dumps (PTime t) = json_string (iso_utc t)"
| "json_dumps (PList xs) = ''['' @ join_with '','' (map json_dumps xs) @ '']''"
| "json_dumps (PDict kvs) =
     ''{'' @ join_with '',''
       (map snd (sort_key fst (map (\<lambda>(k, v). (k, json_string k @ '':'' @ json_dumps v)) kvs))) @ ''}''"

end
