(* ===== verification/Enums.thy ===== *)
theory Enums
  imports Prelude
begin

text \<open>
  The frozen enumerations of \<open>backend/app/domain/enums.py\<close>, their stored values, the
  explicit state sets, and the routing of failure reasons. Every enumeration of the source
  is a \<open>StrEnum\<close>: \<open><enum>_value\<close> is the string a member stands for. Members carry a
  prefix per enumeration, because several enumerations share member names.
\<close>

section \<open>Enumerations\<close>

datatype issue_category =
    IC_WATER_LEAK | IC_ELECTRICAL | IC_DOOR_LOCK

fun issue_category_value :: "issue_category \<Rightarrow> string" where
  "issue_category_value IC_WATER_LEAK = ''WATER_LEAK''"
| "issue_category_value IC_ELECTRICAL = ''ELECTRICAL''"
| "issue_category_value IC_DOOR_LOCK = ''DOOR_LOCK''"

datatype severity =
    SV_LOW | SV_MEDIUM | SV_HIGH | SV_EMERGENCY

fun severity_value :: "severity \<Rightarrow> string" where
  "severity_value SV_LOW = ''LOW''"
| "severity_value SV_MEDIUM = ''MEDIUM''"
| "severity_value SV_HIGH = ''HIGH''"
| "severity_value SV_EMERGENCY = ''EMERGENCY''"

datatype worker_skill_type =
    SK_PLUMBING | SK_ELECTRICAL | SK_LOCKSMITH

datatype ticket_status =
    TS_OPEN | TS_SCHEDULED | TS_IN_PROGRESS | TS_PENDING_ACCEPTANCE | TS_REWORK_REQUIRED
  | TS_ESCALATED | TS_CANCELLED | TS_CLOSED

fun ticket_status_value :: "ticket_status \<Rightarrow> string" where
  "ticket_status_value TS_OPEN = ''OPEN''"
| "ticket_status_value TS_SCHEDULED = ''SCHEDULED''"
| "ticket_status_value TS_IN_PROGRESS = ''IN_PROGRESS''"
| "ticket_status_value TS_PENDING_ACCEPTANCE = ''PENDING_ACCEPTANCE''"
| "ticket_status_value TS_REWORK_REQUIRED = ''REWORK_REQUIRED''"
| "ticket_status_value TS_ESCALATED = ''ESCALATED''"
| "ticket_status_value TS_CANCELLED = ''CANCELLED''"
| "ticket_status_value TS_CLOSED = ''CLOSED''"

datatype appointment_status =
    AS_BOOKED | AS_FULFILLED | AS_SUPERSEDED | AS_CANCELLED | AS_NO_SHOW

fun appointment_status_value :: "appointment_status \<Rightarrow> string" where
  "appointment_status_value AS_BOOKED = ''BOOKED''"
| "appointment_status_value AS_FULFILLED = ''FULFILLED''"
| "appointment_status_value AS_SUPERSEDED = ''SUPERSEDED''"
| "appointment_status_value AS_CANCELLED = ''CANCELLED''"
| "appointment_status_value AS_NO_SHOW = ''NO_SHOW''"

datatype appointment_purpose =
    AP_INITIAL_REPAIR | AP_REWORK

fun appointment_purpose_value :: "appointment_purpose \<Rightarrow> string" where
  "appointment_purpose_value AP_INITIAL_REPAIR = ''INITIAL_REPAIR''"
| "appointment_purpose_value AP_REWORK = ''REWORK''"

datatype worker_event_type =
    WE_ACCEPTED | WE_REJECTED | WE_DEPARTED | WE_ARRIVED | WE_STARTED | WE_COMPLETED
  | WE_FAILED_TO_COMPLETE | WE_CANCELLED | WE_NO_SHOW

fun worker_event_type_value :: "worker_event_type \<Rightarrow> string" where
  "worker_event_type_value WE_ACCEPTED = ''ACCEPTED''"
| "worker_event_type_value WE_REJECTED = ''REJECTED''"
| "worker_event_type_value WE_DEPARTED = ''DEPARTED''"
| "worker_event_type_value WE_ARRIVED = ''ARRIVED''"
| "worker_event_type_value WE_STARTED = ''STARTED''"
| "worker_event_type_value WE_COMPLETED = ''COMPLETED''"
| "worker_event_type_value WE_FAILED_TO_COMPLETE = ''FAILED_TO_COMPLETE''"
| "worker_event_type_value WE_CANCELLED = ''CANCELLED''"
| "worker_event_type_value WE_NO_SHOW = ''NO_SHOW''"

datatype actor_type =
    ACT_RESIDENT | ACT_OPERATOR | ACT_WORKER | ACT_SYSTEM

fun actor_type_value :: "actor_type \<Rightarrow> string" where
  "actor_type_value ACT_RESIDENT = ''RESIDENT''"
| "actor_type_value ACT_OPERATOR = ''OPERATOR''"
| "actor_type_value ACT_WORKER = ''WORKER''"
| "actor_type_value ACT_SYSTEM = ''SYSTEM''"

datatype cancellation_reason =
    CR_RESIDENT_CANCELLED | CR_WORKER_CANCELLED | CR_WORKER_REJECTED | CR_OPERATOR_CANCELLED
  | CR_SYSTEM_CANCELLED

fun cancellation_reason_value :: "cancellation_reason \<Rightarrow> string" where
  "cancellation_reason_value CR_RESIDENT_CANCELLED = ''RESIDENT_CANCELLED''"
| "cancellation_reason_value CR_WORKER_CANCELLED = ''WORKER_CANCELLED''"
| "cancellation_reason_value CR_WORKER_REJECTED = ''WORKER_REJECTED''"
| "cancellation_reason_value CR_OPERATOR_CANCELLED = ''OPERATOR_CANCELLED''"
| "cancellation_reason_value CR_SYSTEM_CANCELLED = ''SYSTEM_CANCELLED''"

datatype no_show_reason =
    NS_RESIDENT_NO_SHOW | NS_WORKER_NO_SHOW

fun no_show_reason_value :: "no_show_reason \<Rightarrow> string" where
  "no_show_reason_value NS_RESIDENT_NO_SHOW = ''RESIDENT_NO_SHOW''"
| "no_show_reason_value NS_WORKER_NO_SHOW = ''WORKER_NO_SHOW''"

datatype failure_reason =
    FR_REPAIR_INCOMPLETE | FR_FOLLOW_UP_REQUIRED | FR_SAFETY_RISK
  | FR_RESPONSIBILITY_CONFLICT | FR_SPECIAL_RESOURCE_REQUIRED | FR_INDETERMINATE

fun failure_reason_value :: "failure_reason \<Rightarrow> string" where
  "failure_reason_value FR_REPAIR_INCOMPLETE = ''REPAIR_INCOMPLETE''"
| "failure_reason_value FR_FOLLOW_UP_REQUIRED = ''FOLLOW_UP_REQUIRED''"
| "failure_reason_value FR_SAFETY_RISK = ''SAFETY_RISK''"
| "failure_reason_value FR_RESPONSIBILITY_CONFLICT = ''RESPONSIBILITY_CONFLICT''"
| "failure_reason_value FR_SPECIAL_RESOURCE_REQUIRED = ''SPECIAL_RESOURCE_REQUIRED''"
| "failure_reason_value FR_INDETERMINATE = ''INDETERMINATE''"

datatype failure_disposition_t =
    FD_REWORK | FD_ESCALATE

datatype acceptance_rejection_reason =
    RJ_ISSUE_NOT_RESOLVED | RJ_PROBLEM_RECURRED | RJ_WORK_QUALITY_CONCERN | RJ_OTHER

fun acceptance_rejection_reason_value :: "acceptance_rejection_reason \<Rightarrow> string" where
  "acceptance_rejection_reason_value RJ_ISSUE_NOT_RESOLVED = ''ISSUE_NOT_RESOLVED''"
| "acceptance_rejection_reason_value RJ_PROBLEM_RECURRED = ''PROBLEM_RECURRED''"
| "acceptance_rejection_reason_value RJ_WORK_QUALITY_CONCERN = ''WORK_QUALITY_CONCERN''"
| "acceptance_rejection_reason_value RJ_OTHER = ''OTHER''"

datatype ticket_action =
    TA_BOOK_APPOINTMENT | TA_START_WORK | TA_RESCHEDULE | TA_WORKER_REJECTED_INITIAL
  | TA_WORKER_REJECTED_REWORK | TA_WORKER_CANCELLED_INITIAL | TA_WORKER_CANCELLED_REWORK
  | TA_RESIDENT_CANCELLED_APPOINTMENT_INITIAL | TA_RESIDENT_CANCELLED_APPOINTMENT_REWORK
  | TA_REVIEWED_NO_SHOW | TA_COMPLETE_WORK | TA_FAIL_WORK_REWORK | TA_FAIL_WORK_ESCALATE
  | TA_RESIDENT_ACCEPT | TA_RESIDENT_REJECT | TA_CANCEL_TICKET | TA_ESCALATE

fun ticket_action_value :: "ticket_action \<Rightarrow> string" where
  "ticket_action_value TA_BOOK_APPOINTMENT = ''BOOK_APPOINTMENT''"
| "ticket_action_value TA_START_WORK = ''START_WORK''"
| "ticket_action_value TA_RESCHEDULE = ''RESCHEDULE''"
| "ticket_action_value TA_WORKER_REJECTED_INITIAL = ''WORKER_REJECTED_INITIAL''"
| "ticket_action_value TA_WORKER_REJECTED_REWORK = ''WORKER_REJECTED_REWORK''"
| "ticket_action_value TA_WORKER_CANCELLED_INITIAL = ''WORKER_CANCELLED_INITIAL''"
| "ticket_action_value TA_WORKER_CANCELLED_REWORK = ''WORKER_CANCELLED_REWORK''"
| "ticket_action_value TA_RESIDENT_CANCELLED_APPOINTMENT_INITIAL = ''RESIDENT_CANCELLED_APPOINTMENT_INITIAL''"
| "ticket_action_value TA_RESIDENT_CANCELLED_APPOINTMENT_REWORK = ''RESIDENT_CANCELLED_APPOINTMENT_REWORK''"
| "ticket_action_value TA_REVIEWED_NO_SHOW = ''REVIEWED_NO_SHOW''"
| "ticket_action_value TA_COMPLETE_WORK = ''COMPLETE_WORK''"
| "ticket_action_value TA_FAIL_WORK_REWORK = ''FAIL_WORK_REWORK''"
| "ticket_action_value TA_FAIL_WORK_ESCALATE = ''FAIL_WORK_ESCALATE''"
| "ticket_action_value TA_RESIDENT_ACCEPT = ''RESIDENT_ACCEPT''"
| "ticket_action_value TA_RESIDENT_REJECT = ''RESIDENT_REJECT''"
| "ticket_action_value TA_CANCEL_TICKET = ''CANCEL_TICKET''"
| "ticket_action_value TA_ESCALATE = ''ESCALATE''"

datatype appointment_action =
    AA_SUPERSEDE | AA_CANCEL | AA_FULFILL | AA_MARK_NO_SHOW

fun appointment_action_value :: "appointment_action \<Rightarrow> string" where
  "appointment_action_value AA_SUPERSEDE = ''SUPERSEDE''"
| "appointment_action_value AA_CANCEL = ''CANCEL''"
| "appointment_action_value AA_FULFILL = ''FULFILL''"
| "appointment_action_value AA_MARK_NO_SHOW = ''MARK_NO_SHOW''"

datatype escalation_disposition =
    ED_RESUME | ED_APPROVE_REWORK | ED_APPLY_RESIDENT_ACCEPTANCE | ED_CANCEL

fun escalation_disposition_value :: "escalation_disposition \<Rightarrow> string" where
  "escalation_disposition_value ED_RESUME = ''RESUME''"
| "escalation_disposition_value ED_APPROVE_REWORK = ''APPROVE_REWORK''"
| "escalation_disposition_value ED_APPLY_RESIDENT_ACCEPTANCE = ''APPLY_RESIDENT_ACCEPTANCE''"
| "escalation_disposition_value ED_CANCEL = ''CANCEL''"

datatype domain_fact =
    DF_TICKET_CREATED | DF_TICKET_TRANSITIONED | DF_APPOINTMENT_CREATED
  | DF_APPOINTMENT_TRANSITIONED | DF_WORKER_EVENT_OCCURRED
  | DF_RESIDENT_ACCEPTANCE_REQUIRED | DF_REWORK_REQUIRED | DF_HUMAN_REVIEW_REQUIRED
  | DF_APPOINTMENT_RESCHEDULED | DF_REWORK_APPOINTMENT_PLANNED

section \<open>Tables and state sets\<close>

fun issue_category_required_skill :: "issue_category \<Rightarrow> worker_skill_type" where
  "issue_category_required_skill IC_WATER_LEAK = SK_PLUMBING"
| "issue_category_required_skill IC_ELECTRICAL = SK_ELECTRICAL"
| "issue_category_required_skill IC_DOOR_LOCK = SK_LOCKSMITH"

definition terminal_ticket_statuses :: "ticket_status set" where
  "terminal_ticket_statuses = {TS_CANCELLED, TS_CLOSED}"

definition terminal_appointment_statuses :: "appointment_status set" where
  "terminal_appointment_statuses = {AS_FULFILLED, AS_SUPERSEDED, AS_CANCELLED, AS_NO_SHOW}"

definition escalatable_ticket_statuses :: "ticket_status set" where
  "escalatable_ticket_statuses =
     {TS_OPEN, TS_SCHEDULED, TS_IN_PROGRESS, TS_PENDING_ACCEPTANCE, TS_REWORK_REQUIRED}"

definition rework_failure_reasons :: "failure_reason set" where
  "rework_failure_reasons = {FR_REPAIR_INCOMPLETE, FR_FOLLOW_UP_REQUIRED}"

definition escalation_failure_reasons :: "failure_reason set" where
  "escalation_failure_reasons =
     {FR_SAFETY_RISK, FR_RESPONSIBILITY_CONFLICT, FR_SPECIAL_RESOURCE_REQUIRED, FR_INDETERMINATE}"

definition failure_disposition :: "failure_reason \<Rightarrow> failure_disposition_t" where
  "failure_disposition reason =
     (if reason \<in> rework_failure_reasons then FD_REWORK else FD_ESCALATE)"

definition ticket_follow_up_facts :: "ticket_status \<Rightarrow> domain_fact list" where
  "ticket_follow_up_facts status =
     (if status = TS_PENDING_ACCEPTANCE then [DF_RESIDENT_ACCEPTANCE_REQUIRED]
      else if status = TS_REWORK_REQUIRED then [DF_REWORK_REQUIRED]
      else if status = TS_ESCALATED then [DF_HUMAN_REVIEW_REQUIRED]
      else [])"

section \<open>Facts on the sets\<close>

lemma failure_disposition_ESCALATE_iff [simp]:
  "failure_disposition r = FD_ESCALATE \<longleftrightarrow> failure_disposition r \<noteq> FD_REWORK"
  by (cases "failure_disposition r") simp_all

text \<open>The two sets of failure reasons are a partition that \<open>failure_disposition\<close> follows.\<close>

lemma failure_disposition_partition:
  "failure_disposition r = FD_ESCALATE \<longleftrightarrow> r \<in> escalation_failure_reasons"
  by (cases r) (simp_all add: failure_disposition_def rework_failure_reasons_def
      escalation_failure_reasons_def)

lemma appointment_terminal_iff [simp]:
  "s \<in> terminal_appointment_statuses \<longleftrightarrow> s \<noteq> AS_BOOKED"
  by (cases s) (simp_all add: terminal_appointment_statuses_def)

lemma ticket_escalatable_iff [simp]:
  "s \<in> escalatable_ticket_statuses \<longleftrightarrow> s \<notin> {TS_ESCALATED, TS_CANCELLED, TS_CLOSED}"
  by (cases s) (simp_all add: escalatable_ticket_statuses_def)

lemma ticket_status_value_inj: "ticket_status_value a = ticket_status_value b \<longleftrightarrow> a = b"
  by (cases a; cases b) simp_all

lemma actor_type_value_inj: "actor_type_value a = actor_type_value b \<longleftrightarrow> a = b"
  by (cases a; cases b) simp_all

end
