(* ===== verification/DomainModels.thy ===== *)
theory DomainModels
  imports Enums
begin

text \<open>
  The immutable values of \<open>backend/app/domain/models.py\<close>. Optional fields keep their
  \<open>None\<close>; field names carry a prefix per class, because the classes share names.
\<close>

text \<open>\<open>OutcomeMetadata.reason_code\<close> is either kind of reason.\<close>

datatype outcome_reason = CancelReason cancellation_reason | NoShow no_show_reason

fun outcome_reason_value :: "outcome_reason \<Rightarrow> string" where
  "outcome_reason_value (CancelReason r) = cancellation_reason_value r"
| "outcome_reason_value (NoShow r) = no_show_reason_value r"

record OutcomeMetadata =
  om_actor_type :: actor_type
  om_actor_id :: uuid
  om_reason_code :: outcome_reason
  om_reason_text :: string
  om_evidence :: "string list"
  om_occurred_at :: timestamp

record FailureDetails =
  fd_reason :: failure_reason
  fd_worker_statement :: string
  fd_evidence :: "string list"

record AcceptanceRejection =
  ar_reason :: acceptance_rejection_reason
  ar_explanation :: "string option"

record AppointmentSnapshot =
  as_appointment_id :: uuid
  as_ticket_id :: uuid
  as_worker_id :: uuid
  as_purpose :: appointment_purpose
  as_starts_at :: timestamp
  as_ends_at :: timestamp
  as_status :: appointment_status
  as_version :: int
  as_supersedes :: "uuid option"

record AppointmentDraft =
  ad_appointment_id :: uuid
  ad_ticket_id :: uuid
  ad_worker_id :: uuid
  ad_purpose :: appointment_purpose
  ad_starts_at :: timestamp
  ad_ends_at :: timestamp
  ad_status :: appointment_status
  ad_supersedes :: "uuid option"

record TicketSnapshot =
  ts_ticket_id :: uuid
  ts_resident_id :: uuid
  ts_property_id :: uuid
  ts_issue_category :: issue_category
  ts_issue_location :: string
  ts_issue_description :: string
  ts_severity :: severity
  ts_status :: ticket_status
  ts_escalated_from :: "ticket_status option"
  ts_rework_count :: int
  ts_version :: int
  ts_cancelled_at :: "timestamp option"
  ts_closed_at :: "timestamp option"

record WorkerEventSnapshot =
  we_event_id :: uuid
  we_appointment_id :: uuid
  we_subject_worker_id :: uuid
  we_sequence_no :: int
  we_event_type :: worker_event_type
  we_external_event_key :: string
  we_request_hash :: string

end
