(* ===== verification/DomainInvariants.thy ===== *)
theory DomainInvariants
  imports DomainModels "HOL-Library.Product_Lexorder"
begin

text \<open>
  The cross-entity invariants of \<open>backend/app/domain/invariants.py\<close>, one definition per
  function, and what they decide: the in-memory overlap scan is shown equivalent to
  pairwise disjointness, the active-appointment loop to a count.
\<close>

definition ensure_expected_version :: "int \<Rightarrow> int \<Rightarrow> unit outcome" where
  "ensure_expected_version expected actual =
     (if expected \<noteq> actual
      then Inl (Exn VersionConflict ''version_conflict''
                  [(''expected'', PInt expected), (''actual'', PInt actual)])
      else Inr ())"

lemma ensure_expected_version_Inr [inversion_simps]:
  "ensure_expected_version e a = Inr u \<longleftrightarrow> e = a"
  by (simp add: ensure_expected_version_def)

section \<open>At most one active appointment\<close>

fun single_active_loop ::
  "(uuid \<rightharpoonup> nat) \<Rightarrow> AppointmentSnapshot list \<Rightarrow> unit outcome" where
  "single_active_loop booked_by_ticket [] = Inr ()"
| "single_active_loop booked_by_ticket (appointment # rest) =
     (if as_status appointment = AS_BOOKED
      then let count = (case booked_by_ticket (as_ticket_id appointment) of
                          None \<Rightarrow> 0 | Some n \<Rightarrow> n) + 1;
               booked' = booked_by_ticket(as_ticket_id appointment \<mapsto> count)
           in if count > 1
              then Inl (Exn InvariantViolation ''multiple_active_appointments''
                          [(''ticket_id'', PUuid (as_ticket_id appointment))])
              else single_active_loop booked' rest
      else single_active_loop booked_by_ticket rest)"

definition ensure_single_active_appointment :: "AppointmentSnapshot list \<Rightarrow> unit outcome" where
  "ensure_single_active_appointment appointments = single_active_loop Map.empty appointments"

section \<open>No overlapping bookings of a worker\<close>

fun overlap_scan :: "AppointmentSnapshot list \<Rightarrow> unit outcome" where
  "overlap_scan (left # right # rest) =
     (if as_worker_id left = as_worker_id right \<and> as_ends_at left > as_starts_at right
      then Inl (Exn InvariantViolation ''worker_booking_overlap''
             [(''worker_id'', PUuid (as_worker_id left)),
              (''left_appointment_id'', PUuid (as_appointment_id left)),
              (''right_appointment_id'', PUuid (as_appointment_id right))])
      else overlap_scan (right # rest))"
| "overlap_scan _ = Inr ()"

definition ensure_no_worker_overlap :: "AppointmentSnapshot list \<Rightarrow> unit outcome" where
  "ensure_no_worker_overlap appointments =
     overlap_scan (sort_key (\<lambda>item. (as_worker_id item, as_starts_at item))
                     (filter (\<lambda>item. as_status item = AS_BOOKED) appointments))"

section \<open>Guards\<close>

definition ensure_resident_authorized :: "bool \<Rightarrow> uuid \<Rightarrow> unit outcome" where
  "ensure_resident_authorized authorized ticket_id =
     (if \<not> authorized
      then Inl (Exn PermissionDenied ''resident_not_authorized'' [(''ticket_id'', PUuid ticket_id)])
      else Inr ())"

definition ensure_ticket_can_close :: "ticket_status \<Rightarrow> bool \<Rightarrow> unit outcome" where
  "ensure_ticket_can_close current_status resident_acceptance =
     (if current_status \<noteq> TS_PENDING_ACCEPTANCE \<or> \<not> resident_acceptance
      then Inl (Exn InvariantViolation ''ticket_cannot_close''
             [(''current_status'', PStr (ticket_status_value current_status)),
              (''resident_acceptance'', PBool resident_acceptance)])
      else Inr ())"

definition ensure_ticket_accepts_worker_event ::
  "ticket_status \<Rightarrow> worker_event_type \<Rightarrow> unit outcome" where
  "ensure_ticket_accepts_worker_event ticket_status event_type =
     (if ticket_status \<in> {TS_CLOSED, TS_CANCELLED}
      then Inl (Exn InvariantViolation ''terminal_ticket_rejects_worker_event''
             [(''current_status'', PStr (ticket_status_value ticket_status)),
              (''event'', PStr (worker_event_type_value event_type))])
      else Inr ())"

definition ensure_ticket_can_book :: "ticket_status \<Rightarrow> unit outcome" where
  "ensure_ticket_can_book ticket_status =
     (if ticket_status \<notin> {TS_OPEN, TS_REWORK_REQUIRED}
      then Inl (Exn InvariantViolation ''ticket_cannot_book''
             [(''current_status'', PStr (ticket_status_value ticket_status))])
      else Inr ())"

definition appointment_core where
  "appointment_core a =
     (as_ticket_id a, as_worker_id a, as_purpose a, as_starts_at a, as_ends_at a,
      as_status a, as_supersedes a)"

definition ensure_appointment_core_unchanged ::
  "AppointmentSnapshot \<Rightarrow> AppointmentSnapshot \<Rightarrow> unit outcome" where
  "ensure_appointment_core_unchanged original proposed =
     (if as_status original \<notin> terminal_appointment_statuses then Inr ()
      else if appointment_core original \<noteq> appointment_core proposed
      then Inl (Exn InvariantViolation ''terminal_appointment_core_changed''
             [(''appointment_id'', PUuid (as_appointment_id original))])
      else Inr ())"

definition ensure_resident_rejection_routes_to_rework :: "ticket_status \<Rightarrow> unit outcome" where
  "ensure_resident_rejection_routes_to_rework next_status =
     (if next_status \<noteq> TS_REWORK_REQUIRED
      then Inl (Exn InvariantViolation ''resident_rejection_must_rework''
             [(''next_status'', PStr (ticket_status_value next_status))])
      else Inr ())"

definition ensure_worker_completion_does_not_close :: "ticket_status \<Rightarrow> unit outcome" where
  "ensure_worker_completion_does_not_close next_status =
     (if next_status = TS_CLOSED
      then Inl (Exn InvariantViolation ''worker_completion_cannot_close'' [])
      else Inr ())"

section \<open>Aggregate consistency\<close>

definition ensure_aggregate_consistency ::
  "ticket_status \<Rightarrow> AppointmentSnapshot list \<Rightarrow> worker_event_type option \<Rightarrow> unit outcome" where
  "ensure_aggregate_consistency ticket_status appointments latest_worker_event =
     (let active = filter (\<lambda>item. as_status item = AS_BOOKED) appointments;
          fulfilled = filter (\<lambda>item. as_status item = AS_FULFILLED) appointments
      in if length active > 1
         then Inl (Exn InvariantViolation ''multiple_active_appointments'' [])
         else if ticket_status = TS_SCHEDULED \<and> length active \<noteq> 1
         then Inl (Exn InvariantViolation ''scheduled_ticket_requires_booking'' [])
         else if ticket_status = TS_IN_PROGRESS \<and>
                 (length active \<noteq> 1 \<or> latest_worker_event \<noteq> Some WE_STARTED)
         then Inl (Exn InvariantViolation ''in_progress_snapshot_conflict'' [])
         else if ticket_status = TS_PENDING_ACCEPTANCE \<and>
                 (fulfilled = [] \<or> latest_worker_event \<noteq> Some WE_COMPLETED)
         then Inl (Exn InvariantViolation ''acceptance_snapshot_conflict'' [])
         else if ticket_status \<in> {TS_OPEN, TS_REWORK_REQUIRED, TS_CANCELLED, TS_CLOSED} \<and>
                 active \<noteq> []
         then Inl (Exn InvariantViolation ''ticket_status_conflicts_with_booking''
                [(''current_status'', PStr (ticket_status_value ticket_status))])
         else Inr ())"

section \<open>Rework planning\<close>

record ReworkPlan =
  rp_ticket_id :: uuid
  rp_prior_appointment_id :: uuid
  rp_new_appointment :: AppointmentDraft
  rp_next_ticket_status :: ticket_status
  rp_next_rework_count :: int
  rp_facts :: "domain_fact list"

definition plan_rework_appointment ::
  "uuid \<Rightarrow> ticket_status \<Rightarrow> int \<Rightarrow> AppointmentSnapshot \<Rightarrow> AppointmentDraft \<Rightarrow> ReworkPlan outcome"
where
  "plan_rework_appointment ticket_id current_status current_rework_count prior replacement =
     (if current_status \<noteq> TS_REWORK_REQUIRED
      then Inl (Exn InvariantViolation ''ticket_not_ready_for_rework''
             [(''current_status'', PStr (ticket_status_value current_status))])
      else if current_rework_count < 1
      then Inl (Exn InvariantViolation ''rework_history_required'' [])
      else if as_ticket_id prior \<noteq> ticket_id \<or> ad_ticket_id replacement \<noteq> ticket_id
      then Inl (Exn InvariantViolation ''rework_must_reuse_ticket''
             [(''ticket_id'', PUuid ticket_id)])
      else if as_status prior \<notin> terminal_appointment_statuses
      then Inl (Exn InvariantViolation ''prior_appointment_must_be_terminal'' [])
      else if ad_status replacement \<noteq> AS_BOOKED
      then Inl (Exn InvariantViolation ''rework_replacement_must_be_booked'' [])
      else if ad_purpose replacement \<noteq> AP_REWORK
      then Inl (Exn InvariantViolation ''rework_appointment_purpose_required'' [])
      else if ad_appointment_id replacement = as_appointment_id prior
      then Inl (Exn InvariantViolation ''rework_requires_new_appointment'' [])
      else if ad_supersedes replacement \<noteq> None
      then Inl (Exn InvariantViolation ''rework_is_not_reschedule'' [])
      else Inr \<lparr>rp_ticket_id = ticket_id,
                rp_prior_appointment_id = as_appointment_id prior,
                rp_new_appointment = replacement,
                rp_next_ticket_status = TS_SCHEDULED,
                rp_next_rework_count = current_rework_count,
                rp_facts = [DF_REWORK_APPOINTMENT_PLANNED]\<rparr>)"


section \<open>What the scans decide\<close>

text \<open>The abstract specification: two bookings of one worker that share an instant.\<close>

definition bookings_clash :: "AppointmentSnapshot \<Rightarrow> AppointmentSnapshot \<Rightarrow> bool" where
  "bookings_clash a b \<longleftrightarrow> as_worker_id a = as_worker_id b \<and>
     as_starts_at a < as_ends_at b \<and> as_starts_at b < as_ends_at a"

definition booked_pairwise_disjoint :: "AppointmentSnapshot list \<Rightarrow> bool" where
  "booked_pairwise_disjoint appointments =
     sorted_wrt (\<lambda>a b. \<not> bookings_clash a b)
       (filter (\<lambda>item. as_status item = AS_BOOKED) appointments)"

lemma bookings_clash_sym: "bookings_clash a b \<longleftrightarrow> bookings_clash b a"
  by (auto simp: bookings_clash_def)

text \<open>A pairwise relation that is symmetric does not see the order of the list.\<close>

lemma sorted_wrt_insort_key_sym:
  assumes "\<And>a b. R a b = R b a"
  shows "sorted_wrt R (insort_key f x xs) \<longleftrightarrow> sorted_wrt R (x # xs)"
  using assms by (induction xs) (auto simp: set_insort_key)

lemma sorted_wrt_sort_key_sym:
  assumes "\<And>a b. R a b = R b a"
  shows "sorted_wrt R (sort_key f xs) \<longleftrightarrow> sorted_wrt R xs"
  using assms by (induction xs) (simp_all add: sorted_wrt_insort_key_sym)

definition booking_key where "booking_key item = (as_worker_id item, as_starts_at item)"

lemma overlap_scan_head:
  assumes sorted: "sorted (map booking_key (left # right # rest))"
    and later: "x \<in> set (right # rest)" and ok: "overlap_scan (left # right # rest) = Inr ()"
    and pos: "\<forall>a \<in> set (left # right # rest). as_starts_at a < as_ends_at a"
  shows "\<not> bookings_clash left x"
proof
  assume clash: "bookings_clash left x"
  have le: "booking_key left \<le> booking_key right" "booking_key right \<le> booking_key x"
    using sorted later by auto
  have same: "as_worker_id x = as_worker_id left"
    using clash by (simp add: bookings_clash_def)
  have mid: "as_worker_id right = as_worker_id left"
    using le same by (auto simp: booking_key_def less_eq_prod_def)
  have "as_starts_at right \<le> as_starts_at x"
    using le(2) same mid by (auto simp: booking_key_def less_eq_prod_def)
  moreover have "as_ends_at left \<le> as_starts_at right"
    using ok mid by (auto split: if_splits)
  ultimately show False using clash by (simp add: bookings_clash_def)
qed

lemma overlap_scan_iff:
  assumes "sorted (map booking_key xs)"
    and "\<forall>a \<in> set xs. as_starts_at a < as_ends_at a"
  shows "overlap_scan xs = Inr () \<longleftrightarrow> sorted_wrt (\<lambda>a b. \<not> bookings_clash a b) xs"
  using assms
proof (induction xs rule: overlap_scan.induct)
  case (1 left right rest)
  show ?case
  proof
    assume ok: "overlap_scan (left # right # rest) = Inr ()"
    then have "overlap_scan (right # rest) = Inr ()" by (auto split: if_splits)
    with ok 1 overlap_scan_head [OF "1.prems"(1) _ ok "1.prems"(2)]
    show "sorted_wrt (\<lambda>a b. \<not> bookings_clash a b) (left # right # rest)"
      by (auto split: if_splits)
  next
    assume pw: "sorted_wrt (\<lambda>a b. \<not> bookings_clash a b) (left # right # rest)"
    have "\<not> bookings_clash left right" using pw by simp
    moreover have "booking_key left \<le> booking_key right" using "1.prems"(1) by simp
    ultimately have "\<not> (as_worker_id left = as_worker_id right \<and>
        as_ends_at left > as_starts_at right)"
      using "1.prems"(2) by (auto simp: bookings_clash_def booking_key_def less_eq_prod_def)
    then show "overlap_scan (left # right # rest) = Inr ()"
      using 1 pw by simp
  qed
qed simp_all

text \<open>The sort-and-scan of \<open>ensure_no_worker_overlap\<close> accepts exactly the snapshots in
  which no two booked appointments of one worker share an instant, provided every booking has a
  positive length; comparing neighbours after sorting by worker and start misses no clash.\<close>

lemma ensure_no_worker_overlap_iff_disjoint:
  assumes "\<forall>a \<in> set appointments. as_status a = AS_BOOKED \<longrightarrow> as_starts_at a < as_ends_at a"
  shows "ensure_no_worker_overlap appointments = Inr () \<longleftrightarrow>
    booked_pairwise_disjoint appointments"
proof -
  let ?b = "filter (\<lambda>item. as_status item = AS_BOOKED) appointments"
  have key: "(\<lambda>item. (as_worker_id item, as_starts_at item)) = booking_key"
    by (simp add: fun_eq_iff booking_key_def)
  have "overlap_scan (sort_key booking_key ?b) = Inr () \<longleftrightarrow>
      sorted_wrt (\<lambda>a b. \<not> bookings_clash a b) (sort_key booking_key ?b)"
    using assms by (intro overlap_scan_iff) auto
  then show ?thesis
    by (simp add: ensure_no_worker_overlap_def booked_pairwise_disjoint_def key
        sorted_wrt_sort_key_sym bookings_clash_sym)
qed

definition booking_example :: "uuid \<Rightarrow> timestamp \<Rightarrow> timestamp \<Rightarrow> AppointmentSnapshot" where
  "booking_example i s e = \<lparr>as_appointment_id = i, as_ticket_id = i, as_worker_id = 7,
     as_purpose = AP_INITIAL_REPAIR, as_starts_at = s, as_ends_at = e, as_status = AS_BOOKED,
     as_version = 1, as_supersedes = None\<rparr>"


text \<open>The loop's counter for a ticket, 0 when the ticket has no entry yet.\<close>

definition booked_seen :: "(uuid \<rightharpoonup> nat) \<Rightarrow> uuid \<Rightarrow> nat" where
  "booked_seen m t = (case m t of None \<Rightarrow> 0 | Some n \<Rightarrow> n)"

definition booked_of :: "uuid \<Rightarrow> AppointmentSnapshot list \<Rightarrow> nat" where
  "booked_of t = count_if (\<lambda>a. as_status a = AS_BOOKED \<and> as_ticket_id a = t)"

lemma single_active_loop_iff:
  "single_active_loop m xs = Inr () \<longleftrightarrow>
     (\<forall>t. booked_of t xs = 0 \<or> booked_seen m t + booked_of t xs \<le> 1)"
proof (induction xs arbitrary: m)
  case Nil
  then show ?case by (simp add: booked_of_def)
next
  case (Cons a rest)
  let ?t = "as_ticket_id a" and ?n = "booked_seen m (as_ticket_id a)"
  show ?case
  proof (cases "as_status a = AS_BOOKED")
    case booked: True
    have of_a: "booked_of t (a # rest) = booked_of t rest + (if t = ?t then 1 else 0)" for t
      using booked by (simp add: booked_of_def)
    have seen': "booked_seen (m(?t \<mapsto> ?n + 1)) t = (if t = ?t then ?n + 1 else booked_seen m t)"
      for t by (simp add: booked_seen_def)
    have step: "single_active_loop m (a # rest) = Inr () \<longleftrightarrow>
        ?n = 0 \<and> single_active_loop (m(?t \<mapsto> ?n + 1)) rest = Inr ()"
      using booked by (simp add: booked_seen_def Let_def)
    show ?thesis
      unfolding step Cons.IH of_a seen' by (auto split: if_splits)
  next
    case False
    then show ?thesis using Cons.IH by (simp add: booked_of_def)
  qed
qed

text \<open>\<open>ensure_single_active_appointment\<close> passes exactly when every ticket has at most one
  BOOKED appointment in the snapshot.\<close>

lemma ensure_single_active_appointment_iff:
  "ensure_single_active_appointment appointments = Inr () \<longleftrightarrow>
     (\<forall>t. booked_of t appointments \<le> 1)"
  by (auto simp: ensure_single_active_appointment_def single_active_loop_iff booked_seen_def
      le_Suc_eq)

end
