(* ===== verification/Tickets.thy ===== *)
theory Tickets
  imports DomainInvariants
begin

text \<open>
  The repair-ticket rules of \<open>backend/app/domain/tickets.py\<close>: the frozen transition
  table, the precondition checks in their order, \<open>transition_ticket\<close>, ticket creation
  and the recovery of an escalated ticket. Every \<open>raise\<close> of the source is an \<open>Inl\<close>.
\<close>

section \<open>Requests and results\<close>

record TicketTransitionRequest =
  tr_current_status :: ticket_status
  tr_action :: ticket_action
  tr_actor_type :: actor_type
  tr_expected_version :: int
  tr_actual_version :: int
  tr_resident_authorized :: bool
  tr_has_active_booked_appointment :: bool
  tr_cancellation_reason :: "cancellation_reason option"
  tr_no_show_reason :: "no_show_reason option"
  tr_escalation_reason :: "string option"
  tr_evidence :: "string list"
  tr_resident_acceptance :: "bool option"
  tr_acceptance_rejection :: "AcceptanceRejection option"
  tr_failure :: "FailureDetails option"
  tr_rework_recorded :: bool
  tr_current_rework_count :: int

text \<open>The dataclass defaults of the optional fields.\<close>

definition TicketTransitionRequest_defaults ::
  "ticket_status \<Rightarrow> ticket_action \<Rightarrow> actor_type \<Rightarrow> int \<Rightarrow> int \<Rightarrow> TicketTransitionRequest" where
  "TicketTransitionRequest_defaults current_status action actor_type expected actual =
     \<lparr>tr_current_status = current_status, tr_action = action, tr_actor_type = actor_type,
      tr_expected_version = expected, tr_actual_version = actual,
      tr_resident_authorized = True, tr_has_active_booked_appointment = False,
      tr_cancellation_reason = None, tr_no_show_reason = None, tr_escalation_reason = None,
      tr_evidence = [], tr_resident_acceptance = None, tr_acceptance_rejection = None,
      tr_failure = None, tr_rework_recorded = False, tr_current_rework_count = 0\<rparr>"

record TicketTransitionResult =
  trr_previous_status :: ticket_status
  trr_next_status :: ticket_status
  trr_next_version :: int
  trr_facts :: "domain_fact list"
  trr_escalated_from_status :: "ticket_status option"
  trr_next_rework_count :: int

record TicketCreationRequest =
  tcr_actor_type :: actor_type
  tcr_resident_authorized :: bool
  tcr_issue_valid :: bool
  tcr_duplicate_allowed :: bool
  tcr_idempotency_accepted :: bool

record TicketCreationPlan =
  tcp_initial_status :: ticket_status
  tcp_initial_version :: int
  tcp_initial_rework_count :: int
  tcp_facts :: "domain_fact list"

definition default_creation_plan :: TicketCreationPlan where
  "default_creation_plan = \<lparr>tcp_initial_status = TS_OPEN, tcp_initial_version = 1,
     tcp_initial_rework_count = 0, tcp_facts = [DF_TICKET_CREATED]\<rparr>"

record TransitionSpec =
  spec_next_status :: ticket_status
  spec_allowed_actors :: "actor_type set"

section \<open>The frozen tables\<close>

abbreviation RESIDENT_OPERATOR :: "actor_type set" where
  "RESIDENT_OPERATOR \<equiv> {ACT_RESIDENT, ACT_OPERATOR}"

abbreviation WORKER_OPERATOR :: "actor_type set" where
  "WORKER_OPERATOR \<equiv> {ACT_WORKER, ACT_OPERATOR}"

abbreviation SYSTEM_OPERATOR :: "actor_type set" where
  "SYSTEM_OPERATOR \<equiv> {ACT_SYSTEM, ACT_OPERATOR}"

definition actions_requiring_booking :: "ticket_action set" where
  "actions_requiring_booking =
     {TA_BOOK_APPOINTMENT, TA_START_WORK, TA_RESCHEDULE, TA_WORKER_REJECTED_INITIAL,
      TA_WORKER_REJECTED_REWORK, TA_WORKER_CANCELLED_INITIAL, TA_WORKER_CANCELLED_REWORK,
      TA_RESIDENT_CANCELLED_APPOINTMENT_INITIAL, TA_RESIDENT_CANCELLED_APPOINTMENT_REWORK,
      TA_REVIEWED_NO_SHOW, TA_COMPLETE_WORK, TA_FAIL_WORK_REWORK, TA_FAIL_WORK_ESCALATE}"

fun action_cancellation_reason :: "ticket_action \<Rightarrow> cancellation_reason option" where
  "action_cancellation_reason TA_WORKER_REJECTED_INITIAL = Some CR_WORKER_REJECTED"
| "action_cancellation_reason TA_WORKER_REJECTED_REWORK = Some CR_WORKER_REJECTED"
| "action_cancellation_reason TA_WORKER_CANCELLED_INITIAL = Some CR_WORKER_CANCELLED"
| "action_cancellation_reason TA_WORKER_CANCELLED_REWORK = Some CR_WORKER_CANCELLED"
| "action_cancellation_reason TA_RESIDENT_CANCELLED_APPOINTMENT_INITIAL =
     Some CR_RESIDENT_CANCELLED"
| "action_cancellation_reason TA_RESIDENT_CANCELLED_APPOINTMENT_REWORK =
     Some CR_RESIDENT_CANCELLED"
| "action_cancellation_reason _ = None"

definition initial_appointment_actions :: "ticket_action set" where
  "initial_appointment_actions =
     {TA_WORKER_REJECTED_INITIAL, TA_WORKER_CANCELLED_INITIAL,
      TA_RESIDENT_CANCELLED_APPOINTMENT_INITIAL}"

definition rework_appointment_actions :: "ticket_action set" where
  "rework_appointment_actions =
     {TA_WORKER_REJECTED_REWORK, TA_WORKER_CANCELLED_REWORK,
      TA_RESIDENT_CANCELLED_APPOINTMENT_REWORK}"

definition transition_data ::
  "((ticket_status \<times> ticket_action) \<times> (ticket_status \<times> actor_type set)) list" where
  "transition_data =
    [((TS_OPEN, TA_BOOK_APPOINTMENT), (TS_SCHEDULED, RESIDENT_OPERATOR)),
     ((TS_OPEN, TA_CANCEL_TICKET), (TS_CANCELLED, RESIDENT_OPERATOR)),
     ((TS_SCHEDULED, TA_START_WORK), (TS_IN_PROGRESS, WORKER_OPERATOR)),
     ((TS_SCHEDULED, TA_RESCHEDULE), (TS_SCHEDULED, RESIDENT_OPERATOR)),
     ((TS_SCHEDULED, TA_WORKER_REJECTED_INITIAL), (TS_OPEN, WORKER_OPERATOR)),
     ((TS_SCHEDULED, TA_WORKER_REJECTED_REWORK), (TS_REWORK_REQUIRED, WORKER_OPERATOR)),
     ((TS_SCHEDULED, TA_WORKER_CANCELLED_INITIAL), (TS_OPEN, WORKER_OPERATOR)),
     ((TS_SCHEDULED, TA_WORKER_CANCELLED_REWORK),
        (TS_REWORK_REQUIRED, WORKER_OPERATOR)),
     ((TS_SCHEDULED, TA_RESIDENT_CANCELLED_APPOINTMENT_INITIAL),
        (TS_OPEN, RESIDENT_OPERATOR)),
     ((TS_SCHEDULED, TA_RESIDENT_CANCELLED_APPOINTMENT_REWORK),
        (TS_REWORK_REQUIRED, RESIDENT_OPERATOR)),
     ((TS_SCHEDULED, TA_CANCEL_TICKET), (TS_CANCELLED, RESIDENT_OPERATOR)),
     ((TS_SCHEDULED, TA_REVIEWED_NO_SHOW), (TS_ESCALATED, SYSTEM_OPERATOR)),
     ((TS_SCHEDULED, TA_RESIDENT_ACCEPT), (TS_CLOSED, {ACT_RESIDENT})),
     ((TS_IN_PROGRESS, TA_RESIDENT_ACCEPT), (TS_CLOSED, {ACT_RESIDENT})),
     ((TS_IN_PROGRESS, TA_COMPLETE_WORK), (TS_PENDING_ACCEPTANCE, WORKER_OPERATOR)),
     ((TS_IN_PROGRESS, TA_FAIL_WORK_REWORK), (TS_REWORK_REQUIRED, WORKER_OPERATOR)),
     ((TS_IN_PROGRESS, TA_FAIL_WORK_ESCALATE), (TS_ESCALATED, WORKER_OPERATOR)),
     ((TS_PENDING_ACCEPTANCE, TA_RESIDENT_ACCEPT), (TS_CLOSED, {ACT_RESIDENT})),
     ((TS_PENDING_ACCEPTANCE, TA_RESIDENT_REJECT),
        (TS_REWORK_REQUIRED, {ACT_RESIDENT})),
     ((TS_REWORK_REQUIRED, TA_BOOK_APPOINTMENT), (TS_SCHEDULED, RESIDENT_OPERATOR)),
     ((TS_REWORK_REQUIRED, TA_CANCEL_TICKET), (TS_CANCELLED, {ACT_OPERATOR}))]"

text \<open>The loop that adds an \<open>ESCALATE\<close> row for every escalatable status, then the frozen map.\<close>

definition transitions :: "ticket_status \<Rightarrow> ticket_action \<Rightarrow> TransitionSpec option" where
  "transitions status action =
     (if action = TA_ESCALATE \<and> status \<in> escalatable_ticket_statuses
      then Some \<lparr>spec_next_status = TS_ESCALATED, spec_allowed_actors = SYSTEM_OPERATOR\<rparr>
      else map_option (\<lambda>(s, a). \<lparr>spec_next_status = s, spec_allowed_actors = a\<rparr>)
             (map_of transition_data (status, action)))"

section \<open>Creation\<close>

definition plan_ticket_creation :: "TicketCreationRequest \<Rightarrow> TicketCreationPlan outcome" where
  "plan_ticket_creation request =
     (if tcr_actor_type request \<notin> {ACT_RESIDENT, ACT_OPERATOR}
      then Inl (Exn PermissionDenied ''actor_not_allowed''
             [(''actor'', PStr (actor_type_value (tcr_actor_type request))),
              (''action'', PStr ''CREATE'')])
      else if tcr_actor_type request = ACT_RESIDENT \<and> \<not> tcr_resident_authorized request
      then Inl (Exn PermissionDenied ''resident_not_authorized''
             [(''actor'', PStr (actor_type_value (tcr_actor_type request)))])
      else if \<not> tcr_issue_valid request
      then Inl (Exn InvalidTicketTransition ''invalid_issue'' [(''action'', PStr ''CREATE'')])
      else if \<not> tcr_duplicate_allowed request
      then Inl (Exn InvalidTicketTransition ''disallowed_duplicate'' [(''action'', PStr ''CREATE'')])
      else if \<not> tcr_idempotency_accepted request
      then Inl (Exn InvalidTicketTransition ''idempotency_not_accepted''
             [(''action'', PStr ''CREATE'')])
      else Inr default_creation_plan)"

section \<open>Preconditions\<close>

definition status_context :: "TicketTransitionRequest \<Rightarrow> (string \<times> pval) list" where
  "status_context request =
     [(''current_status'', PStr (ticket_status_value (tr_current_status request))),
      (''action'', PStr (ticket_action_value (tr_action request)))]"

definition rework_context :: "TicketTransitionRequest \<Rightarrow> (string \<times> pval) list" where
  "rework_context request =
     [(''action'', PStr (ticket_action_value (tr_action request))),
      (''current_rework_count'', PInt (tr_current_rework_count request))]"

definition check_resident_authorization :: "TicketTransitionRequest \<Rightarrow> unit outcome" where
  "check_resident_authorization request =
     (if tr_actor_type request = ACT_RESIDENT \<and> \<not> tr_resident_authorized request
      then Inl (Exn PermissionDenied ''resident_not_authorized''
             ((''actor'', PStr (actor_type_value (tr_actor_type request)))
               # status_context request))
      else Inr ())"

definition check_booking_context :: "TicketTransitionRequest \<Rightarrow> unit outcome" where
  "check_booking_context request =
     (if tr_action request \<in> actions_requiring_booking \<and>
         \<not> tr_has_active_booked_appointment request
      then Inl (Exn InvalidTicketTransition ''active_booking_required'' (status_context request))
      else if tr_action request = TA_BOOK_APPOINTMENT \<and>
         tr_current_status request = TS_REWORK_REQUIRED \<and> \<not> tr_rework_recorded request
      then Inl (Exn InvalidTicketTransition ''rework_record_required'' (status_context request))
      else if tr_action request \<in> initial_appointment_actions \<and>
         tr_current_rework_count request \<noteq> 0
      then Inl (Exn InvalidTicketTransition ''initial_appointment_rework_count_conflict''
             (rework_context request))
      else if tr_action request \<in> rework_appointment_actions \<and>
         tr_current_rework_count request < 1
      then Inl (Exn InvalidTicketTransition ''rework_appointment_count_required''
             (rework_context request))
      else if tr_action request = TA_BOOK_APPOINTMENT \<and>
         tr_current_status request = TS_REWORK_REQUIRED \<and> tr_current_rework_count request < 1
      then Inl (Exn InvalidTicketTransition ''rework_count_required'' (rework_context request))
      else Inr ())"

fun expected_ticket_cancellation_reason :: "actor_type \<Rightarrow> cancellation_reason option" where
  "expected_ticket_cancellation_reason ACT_RESIDENT = Some CR_RESIDENT_CANCELLED"
| "expected_ticket_cancellation_reason ACT_OPERATOR = Some CR_OPERATOR_CANCELLED"
| "expected_ticket_cancellation_reason _ = None"

definition cancellation_reason_pval :: "cancellation_reason option \<Rightarrow> pval" where
  "cancellation_reason_pval r = opt_str (map_option cancellation_reason_value r)"

text \<open>The block under \<open>if action is TicketAction.CANCEL_TICKET\<close>.\<close>

definition check_ticket_cancellation :: "TicketTransitionRequest \<Rightarrow> unit outcome" where
  "check_ticket_cancellation request =
     (if tr_cancellation_reason request = None
      then Inl (Exn InvalidTicketTransition ''cancellation_reason_required''
             (status_context request))
      else if tr_current_status request \<in> {TS_OPEN, TS_REWORK_REQUIRED} \<and>
         tr_has_active_booked_appointment request
      then Inl (Exn InvalidTicketTransition ''active_booking_forbids_cancellation''
             (status_context request))
      else if tr_cancellation_reason request \<noteq>
         expected_ticket_cancellation_reason (tr_actor_type request)
      then Inl (Exn InvalidTicketTransition ''ticket_cancellation_reason_mismatch''
             (status_context request @
               [(''actor'', PStr (actor_type_value (tr_actor_type request))),
                (''reason'', cancellation_reason_pval (tr_cancellation_reason request))]))
      else if tr_current_status request = TS_SCHEDULED \<and>
         \<not> tr_has_active_booked_appointment request
      then Inl (Exn InvalidTicketTransition ''scheduled_cancellation_requires_booking''
             (status_context request))
      else Inr ())"

definition check_cancellation_context :: "TicketTransitionRequest \<Rightarrow> unit outcome" where
  "check_cancellation_context request =
     bindE (if tr_action request = TA_CANCEL_TICKET
            then check_ticket_cancellation request else Inr ())
       (\<lambda>_. case action_cancellation_reason (tr_action request) of
          None \<Rightarrow> Inr ()
        | Some required \<Rightarrow>
            if tr_cancellation_reason request \<noteq> Some required
            then Inl (Exn InvalidTicketTransition ''appointment_cancellation_reason_mismatch''
                   (status_context request @
                     [(''reason'', cancellation_reason_pval (tr_cancellation_reason request))]))
            else Inr ())"

text \<open>\<open>not request.escalation_reason\<close>: absent or empty.\<close>

definition falsy_text :: "string option \<Rightarrow> bool" where
  "falsy_text x \<longleftrightarrow> x = None \<or> x = Some []"

definition check_resolution_context :: "TicketTransitionRequest \<Rightarrow> unit outcome" where
  "check_resolution_context request =
     (if tr_action request = TA_REVIEWED_NO_SHOW \<and>
         (tr_no_show_reason request = None \<or> tr_evidence request = [])
      then Inl (Exn InvalidTicketTransition ''reviewed_no_show_context_required''
             (status_context request))
      else if tr_action request = TA_ESCALATE \<and>
         (falsy_text (tr_escalation_reason request) \<or> tr_evidence request = [])
      then Inl (Exn InvalidTicketTransition ''escalation_context_required''
             (status_context request))
      else if tr_action request = TA_RESIDENT_ACCEPT \<and>
         tr_resident_acceptance request \<noteq> Some True
      then Inl (Exn InvalidTicketTransition ''explicit_resident_acceptance_required''
             (status_context request))
      else if tr_action request = TA_RESIDENT_REJECT \<and> tr_acceptance_rejection request = None
      then Inl (Exn InvalidTicketTransition ''acceptance_rejection_required''
             (status_context request))
      else Inr ())"

definition check_failure_context :: "TicketTransitionRequest \<Rightarrow> unit outcome" where
  "check_failure_context request =
     (if tr_action request \<notin> {TA_FAIL_WORK_REWORK, TA_FAIL_WORK_ESCALATE} then Inr ()
      else case tr_failure request of
        None \<Rightarrow> Inl (Exn InvalidTicketTransition ''failure_details_required''
                  (status_context request))
      | Some failure \<Rightarrow>
          let expected = (if tr_action request = TA_FAIL_WORK_REWORK then FD_REWORK
                          else FD_ESCALATE)
          in if failure_disposition (fd_reason failure) \<noteq> expected
             then Inl (Exn InvalidTicketTransition ''failure_disposition_mismatch''
                    (status_context request @
                      [(''reason'', PStr (failure_reason_value (fd_reason failure)))]))
             else if fd_worker_statement failure = [] \<or> fd_evidence failure = []
             then Inl (Exn InvalidTicketTransition ''failure_evidence_required''
                    (status_context request))
             else Inr ())"

definition check_ticket_preconditions :: "TicketTransitionRequest \<Rightarrow> int outcome" where
  "check_ticket_preconditions request =
     (if tr_current_rework_count request < 0
      then Inl (Exn InvalidTicketTransition ''invalid_rework_count''
             [(''current_rework_count'', PInt (tr_current_rework_count request))])
      else bindE (check_resident_authorization request)
        (\<lambda>_. bindE (check_booking_context request)
        (\<lambda>_. bindE (check_cancellation_context request)
        (\<lambda>_. bindE (check_resolution_context request)
        (\<lambda>_. bindE (check_failure_context request)
        (\<lambda>_. Inr (tr_current_rework_count request +
               (if tr_action request \<in> {TA_RESIDENT_REJECT, TA_FAIL_WORK_REWORK}
                then 1 else 0))))))))"

definition ticket_facts :: "ticket_status \<Rightarrow> domain_fact list" where
  "ticket_facts next_status = DF_TICKET_TRANSITIONED # ticket_follow_up_facts next_status"

section \<open>The transition\<close>

definition transition_ticket :: "TicketTransitionRequest \<Rightarrow> TicketTransitionResult outcome" where
  "transition_ticket request =
     bindE (ensure_expected_version (tr_expected_version request) (tr_actual_version request))
     (\<lambda>_. case transitions (tr_current_status request) (tr_action request) of
        None \<Rightarrow> Inl (Exn InvalidTicketTransition ''transition_not_allowed''
                  (status_context request @
                    [(''actor'', PStr (actor_type_value (tr_actor_type request)))]))
      | Some spec \<Rightarrow>
          if tr_actor_type request \<notin> spec_allowed_actors spec
          then Inl (Exn PermissionDenied ''actor_not_allowed''
                 (status_context request @
                   [(''target_status'', PStr (ticket_status_value (spec_next_status spec))),
                    (''actor'', PStr (actor_type_value (tr_actor_type request)))]))
          else bindE (check_ticket_preconditions request)
            (\<lambda>next_rework_count. Inr
               \<lparr>trr_previous_status = tr_current_status request,
                trr_next_status = spec_next_status spec,
                trr_next_version = tr_actual_version request + 1,
                trr_facts = ticket_facts (spec_next_status spec),
                trr_escalated_from_status =
                  (if spec_next_status spec = TS_ESCALATED
                   then Some (tr_current_status request) else None),
                trr_next_rework_count = next_rework_count\<rparr>))"

section \<open>Recovery of an escalated ticket\<close>

record EscalationRecoveryRequest =
  er_actor_type :: actor_type
  er_expected_version :: int
  er_actual_version :: int
  er_escalated_from_status :: "ticket_status option"
  er_appointment_status :: "appointment_status option"
  er_latest_worker_event :: "worker_event_type option"
  er_disposition :: escalation_disposition
  er_resident_acceptance :: "bool option"
  er_rework_recorded :: bool
  er_conflict_resolved :: bool
  er_current_rework_count :: int

definition status_opt_pval :: "ticket_status option \<Rightarrow> pval" where
  "status_opt_pval s = opt_str (map_option ticket_status_value s)"

definition no_safe_resume_target :: "EscalationRecoveryRequest \<Rightarrow> exn" where
  "no_safe_resume_target request = Exn InvalidEscalationRecovery ''no_safe_resume_target''
     [(''escalated_from_status'', status_opt_pval (er_escalated_from_status request)),
      (''appointment_status'',
         opt_str (map_option appointment_status_value (er_appointment_status request))),
      (''latest_worker_event'',
         opt_str (map_option worker_event_type_value (er_latest_worker_event request)))]"

definition derive_resume_target :: "EscalationRecoveryRequest \<Rightarrow> ticket_status outcome" where
  "derive_resume_target request =
     (let prior = er_escalated_from_status request;
          appointment = er_appointment_status request;
          event = er_latest_worker_event request
      in if appointment = Some AS_BOOKED \<and> event = Some WE_STARTED
         then (if prior = Some TS_IN_PROGRESS then Inr TS_IN_PROGRESS
               else Inl (no_safe_resume_target request))
         else if appointment = Some AS_BOOKED \<and>
           prior \<in> {Some TS_OPEN, Some TS_SCHEDULED, Some TS_REWORK_REQUIRED}
         then Inr TS_SCHEDULED
         else if appointment = Some AS_FULFILLED \<and> event = Some WE_COMPLETED \<and>
           prior \<in> {Some TS_IN_PROGRESS, Some TS_PENDING_ACCEPTANCE}
         then Inr TS_PENDING_ACCEPTANCE
         else if prior \<in> {Some TS_OPEN, Some TS_SCHEDULED}
         then Inr TS_OPEN
         else Inl (no_safe_resume_target request))"

text \<open>The branch on the disposition that picks the recovery target.\<close>

definition recovery_target :: "EscalationRecoveryRequest \<Rightarrow> ticket_status outcome" where
  "recovery_target request =
     (if er_disposition request = ED_RESUME then derive_resume_target request
      else if er_disposition request = ED_APPROVE_REWORK
      then (if \<not> er_rework_recorded request
            then Inl (Exn InvalidEscalationRecovery ''rework_record_required'' [])
            else Inr TS_REWORK_REQUIRED)
      else if er_disposition request = ED_APPLY_RESIDENT_ACCEPTANCE
      then (if er_escalated_from_status request \<noteq> Some TS_PENDING_ACCEPTANCE \<or>
               er_resident_acceptance request \<noteq> Some True \<or>
               er_appointment_status request \<noteq> Some AS_FULFILLED \<or>
               er_latest_worker_event request \<noteq> Some WE_COMPLETED
            then Inl (Exn InvalidEscalationRecovery ''resident_acceptance_evidence_required'' [])
            else Inr TS_CLOSED)
      else (if er_appointment_status request = Some AS_BOOKED \<or>
               er_escalated_from_status request \<notin>
                 {Some TS_OPEN, Some TS_SCHEDULED, Some TS_REWORK_REQUIRED}
            then Inl (Exn InvalidEscalationRecovery ''cancellation_not_safe'' [])
            else Inr TS_CANCELLED))"

definition recover_escalated_ticket ::
  "EscalationRecoveryRequest \<Rightarrow> TicketTransitionResult outcome" where
  "recover_escalated_ticket request =
     bindE (ensure_expected_version (er_expected_version request) (er_actual_version request))
     (\<lambda>_. if er_actor_type request \<noteq> ACT_OPERATOR
      then Inl (Exn PermissionDenied ''operator_required''
             [(''actor'', PStr (actor_type_value (er_actor_type request)))])
      else if er_escalated_from_status request \<notin> Some ` escalatable_ticket_statuses
      then Inl (Exn InvalidEscalationRecovery ''invalid_escalated_from_status''
             [(''escalated_from_status'', status_opt_pval (er_escalated_from_status request))])
      else if \<not> er_conflict_resolved request
      then Inl (Exn InvalidEscalationRecovery ''unresolved_conflict'' [])
      else if er_current_rework_count request < 0
      then Inl (Exn InvalidEscalationRecovery ''invalid_rework_count''
             [(''current_rework_count'', PInt (er_current_rework_count request))])
      else bindE (recovery_target request)
        (\<lambda>target. Inr
           \<lparr>trr_previous_status = TS_ESCALATED,
            trr_next_status = target,
            trr_next_version = er_actual_version request + 1,
            trr_facts = ticket_facts target,
            trr_escalated_from_status = None,
            trr_next_rework_count = er_current_rework_count request +
              (if er_disposition request = ED_APPROVE_REWORK then 1 else 0)\<rparr>))"


section \<open>What success of a transition says\<close>

lemma transition_ticket_Inr_iff:
  "transition_ticket r = Inr x \<longleftrightarrow>
     tr_expected_version r = tr_actual_version r \<and>
     (\<exists>spec n. transitions (tr_current_status r) (tr_action r) = Some spec \<and>
        tr_actor_type r \<in> spec_allowed_actors spec \<and>
        check_ticket_preconditions r = Inr n \<and>
        x = \<lparr>trr_previous_status = tr_current_status r,
             trr_next_status = spec_next_status spec,
             trr_next_version = tr_actual_version r + 1,
             trr_facts = ticket_facts (spec_next_status spec),
             trr_escalated_from_status =
               (if spec_next_status spec = TS_ESCALATED then Some (tr_current_status r) else None),
             trr_next_rework_count = n\<rparr>)"
  by (auto simp: transition_ticket_def inversion_simps split: option.splits)

lemma check_ticket_preconditions_InrD:
  assumes "check_ticket_preconditions r = Inr n"
  shows "0 \<le> tr_current_rework_count r"
    and "check_resident_authorization r = Inr ()" and "check_booking_context r = Inr ()"
    and "check_cancellation_context r = Inr ()" and "check_resolution_context r = Inr ()"
    and "check_failure_context r = Inr ()"
    and "n = tr_current_rework_count r +
      (if tr_action r \<in> {TA_RESIDENT_REJECT, TA_FAIL_WORK_REWORK} then 1 else 0)"
  using assms by (simp_all add: check_ticket_preconditions_def inversion_simps split: if_splits)

text \<open>The rows of the table, one disjunct per row, for case analysis.\<close>

lemma transitions_cases:
  assumes "transitions s a = Some spec"
  shows "(a = TA_ESCALATE \<and> s \<notin> {TS_ESCALATED, TS_CANCELLED, TS_CLOSED} \<and>
          spec = \<lparr>spec_next_status = TS_ESCALATED, spec_allowed_actors = SYSTEM_OPERATOR\<rparr>) \<or>
         ((s, a), (spec_next_status spec, spec_allowed_actors spec)) \<in> set transition_data"
  using assms
  by (auto simp: transitions_def split: if_splits dest: map_of_SomeD)

section \<open>The lifecycle as a relation\<close>

text \<open>
  The abstract lifecycle that the transition matrix of the design (\<open>docs/STATE_MACHINE.md\<close>)
  describes, one rule per business step, without actors, evidence and versions.
\<close>

inductive ticket_lifecycle :: "ticket_status \<Rightarrow> ticket_status \<Rightarrow> bool" where
  schedule: "s \<in> {TS_OPEN, TS_REWORK_REQUIRED} \<Longrightarrow> ticket_lifecycle s TS_SCHEDULED"
| replace_visit: "ticket_lifecycle TS_SCHEDULED TS_SCHEDULED"
| visit_lost: "t \<in> {TS_OPEN, TS_REWORK_REQUIRED} \<Longrightarrow> ticket_lifecycle TS_SCHEDULED t"
| work_starts: "ticket_lifecycle TS_SCHEDULED TS_IN_PROGRESS"
| work_ends: "t \<in> {TS_PENDING_ACCEPTANCE, TS_REWORK_REQUIRED} \<Longrightarrow> ticket_lifecycle TS_IN_PROGRESS t"
| rejected: "ticket_lifecycle TS_PENDING_ACCEPTANCE TS_REWORK_REQUIRED"
| accepted: "s \<in> {TS_SCHEDULED, TS_IN_PROGRESS, TS_PENDING_ACCEPTANCE} \<Longrightarrow>
    ticket_lifecycle s TS_CLOSED"
| cancelled: "s \<in> {TS_OPEN, TS_SCHEDULED, TS_REWORK_REQUIRED} \<Longrightarrow> ticket_lifecycle s TS_CANCELLED"
| escalated: "s \<notin> {TS_ESCALATED, TS_CANCELLED, TS_CLOSED} \<Longrightarrow> ticket_lifecycle s TS_ESCALATED"

inductive_cases lifecycle_fromE: "ticket_lifecycle s t"
inductive_simps lifecycle_terminal [simp]:
  "ticket_lifecycle TS_CLOSED t" "ticket_lifecycle TS_CANCELLED t"
  "ticket_lifecycle TS_ESCALATED t"

lemma table_in_lifecycle:
  assumes "((s, a), (t, actors)) \<in> set transition_data"
  shows "ticket_lifecycle s t"
  using assms by (auto simp: transition_data_def intro: ticket_lifecycle.intros)

lemma transitions_lifecycle:
  "transitions s a = Some spec \<Longrightarrow> ticket_lifecycle s (spec_next_status spec)"
  by (auto dest!: transitions_cases intro: table_in_lifecycle ticket_lifecycle.escalated)

text \<open>A complete request for an action, with the evidence every check asks for.\<close>

definition full_request :: "ticket_status \<Rightarrow> ticket_action \<Rightarrow> actor_type \<Rightarrow> int \<Rightarrow> TicketTransitionRequest"
where
  "full_request status action actor reworks =
     \<lparr>tr_current_status = status, tr_action = action, tr_actor_type = actor,
      tr_expected_version = 1, tr_actual_version = 1, tr_resident_authorized = True,
      tr_has_active_booked_appointment = (action \<noteq> TA_CANCEL_TICKET \<or> status = TS_SCHEDULED),
      tr_cancellation_reason = (if action = TA_CANCEL_TICKET then Some CR_OPERATOR_CANCELLED
                                else action_cancellation_reason action),
      tr_no_show_reason = Some NS_WORKER_NO_SHOW, tr_escalation_reason = Some ''review'',
      tr_evidence = [''log''], tr_resident_acceptance = Some True,
      tr_acceptance_rejection = Some \<lparr>ar_reason = RJ_OTHER, ar_explanation = None\<rparr>,
      tr_failure = Some \<lparr>fd_reason = FR_REPAIR_INCOMPLETE, fd_worker_statement = ''later'',
                        fd_evidence = [''photo'']\<rparr>,
      tr_rework_recorded = True, tr_current_rework_count = reworks\<rparr>"

lemmas transition_eval = transition_ticket_def transitions_def transition_data_def
  check_ticket_preconditions_def check_resident_authorization_def check_booking_context_def
  check_cancellation_context_def check_ticket_cancellation_def check_resolution_context_def
  check_failure_context_def actions_requiring_booking_def initial_appointment_actions_def
  rework_appointment_actions_def ensure_expected_version_def falsy_text_def
  failure_disposition_def rework_failure_reasons_def full_request_def

text \<open>For every edge of the lifecycle, a request that takes it.\<close>

fun edge_request :: "ticket_status \<Rightarrow> ticket_status \<Rightarrow> TicketTransitionRequest" where
  "edge_request TS_SCHEDULED TS_SCHEDULED = full_request TS_SCHEDULED TA_RESCHEDULE ACT_OPERATOR 0"
| "edge_request TS_SCHEDULED TS_OPEN =
     full_request TS_SCHEDULED TA_WORKER_REJECTED_INITIAL ACT_OPERATOR 0"
| "edge_request TS_SCHEDULED TS_REWORK_REQUIRED =
     full_request TS_SCHEDULED TA_WORKER_REJECTED_REWORK ACT_OPERATOR 1"
| "edge_request TS_SCHEDULED TS_IN_PROGRESS = full_request TS_SCHEDULED TA_START_WORK ACT_OPERATOR 0"
| "edge_request TS_IN_PROGRESS TS_REWORK_REQUIRED =
     full_request TS_IN_PROGRESS TA_FAIL_WORK_REWORK ACT_OPERATOR 0"
| "edge_request TS_PENDING_ACCEPTANCE TS_REWORK_REQUIRED =
     full_request TS_PENDING_ACCEPTANCE TA_RESIDENT_REJECT ACT_RESIDENT 0"
| "edge_request s TS_SCHEDULED = full_request s TA_BOOK_APPOINTMENT ACT_OPERATOR 1"
| "edge_request s TS_PENDING_ACCEPTANCE = full_request s TA_COMPLETE_WORK ACT_OPERATOR 0"
| "edge_request s TS_CLOSED = full_request s TA_RESIDENT_ACCEPT ACT_RESIDENT 0"
| "edge_request s TS_CANCELLED = full_request s TA_CANCEL_TICKET ACT_OPERATOR 0"
| "edge_request s t = full_request s TA_ESCALATE ACT_OPERATOR 0"

lemma edge_request_ok:
  assumes "ticket_lifecycle s t"
  shows "\<exists>x. transition_ticket (edge_request s t) = Inr x \<and>
    trr_previous_status x = s \<and> trr_next_status x = t"
  using assms by cases (auto, (cases s; auto simp: transition_eval)+)

section \<open>Properties of the transition\<close>


lemma terminal_has_no_transition:
  "s \<in> {TS_ESCALATED, TS_CANCELLED, TS_CLOSED} \<Longrightarrow> transitions s a = None"
  using transitions_lifecycle [of s a] by (cases "transitions s a") auto

text \<open>A closed, cancelled or escalated ticket accepts no ordinary command: whatever the action,
  the actor and the evidence, the answer is a version conflict or \<open>transition_not_allowed\<close>.\<close>

lemma transition_ticket_terminal_rejects:
  assumes "tr_current_status r \<in> {TS_ESCALATED, TS_CANCELLED, TS_CLOSED}"
  shows "\<exists>e. transition_ticket r = Inl e \<and>
    exn_class e = (if tr_expected_version r = tr_actual_version r
                   then InvalidTicketTransition else VersionConflict) \<and>
    exn_code e = (if tr_expected_version r = tr_actual_version r
                  then ''transition_not_allowed'' else ''version_conflict'')"
  using terminal_has_no_transition [OF assms, of "tr_action r"]
  by (simp add: transition_ticket_def ensure_expected_version_def)

text \<open>A ticket is closed by a transition only through the resident: the action is
  \<open>RESIDENT_ACCEPT\<close>, the actor an authorised resident, the acceptance explicit, and the ticket was
  scheduled, in progress or awaiting acceptance. No worker, operator or system request closes it.\<close>

lemma transition_ticket_closes_only_by_resident:
  assumes "transition_ticket r = Inr x" and "trr_next_status x = TS_CLOSED"
  shows "tr_action r = TA_RESIDENT_ACCEPT \<and> tr_actor_type r = ACT_RESIDENT \<and>
    tr_resident_authorized r \<and> tr_resident_acceptance r = Some True \<and>
    tr_current_status r \<in> {TS_SCHEDULED, TS_IN_PROGRESS, TS_PENDING_ACCEPTANCE}"
proof -
  from assms obtain spec n where spec: "transitions (tr_current_status r) (tr_action r) = Some spec"
    and actor: "tr_actor_type r \<in> spec_allowed_actors spec"
    and pre: "check_ticket_preconditions r = Inr n" and closed: "spec_next_status spec = TS_CLOSED"
    by (auto simp: transition_ticket_Inr_iff)
  have row: "tr_action r = TA_RESIDENT_ACCEPT \<and> spec_allowed_actors spec = {ACT_RESIDENT} \<and>
      tr_current_status r \<in> {TS_SCHEDULED, TS_IN_PROGRESS, TS_PENDING_ACCEPTANCE}"
    using transitions_cases [OF spec] closed by (auto simp: transition_data_def)
  then have "tr_actor_type r = ACT_RESIDENT" using actor by simp
  then show ?thesis
    using check_ticket_preconditions_InrD(2,5) [OF pre] row
    by (auto simp: check_resident_authorization_def check_resolution_context_def split: if_splits)
qed


text \<open>Entering \<open>REWORK_REQUIRED\<close>: by a counted action, or by losing the visit of a counted rework.\<close>

lemma rework_entry:
  assumes "transitions s a = Some spec" and "spec_next_status spec = TS_REWORK_REQUIRED"
  shows "a \<in> {TA_RESIDENT_REJECT, TA_FAIL_WORK_REWORK} \<and>
           s \<in> {TS_IN_PROGRESS, TS_PENDING_ACCEPTANCE} \<or>
         a \<in> rework_appointment_actions \<and> s = TS_SCHEDULED"
  using transitions_cases [OF assms(1)] assms(2)
  by (auto simp: transition_data_def rework_appointment_actions_def)

lemma counted_action_row:
  assumes "transitions s a = Some spec" and "a \<in> {TA_RESIDENT_REJECT, TA_FAIL_WORK_REWORK}"
  shows "spec_next_status spec = TS_REWORK_REQUIRED \<and>
    s \<in> {TS_IN_PROGRESS, TS_PENDING_ACCEPTANCE}"
  using assms by (cases s) (auto simp: transitions_def transition_data_def)

lemma transition_ticket_effects:
  assumes "transition_ticket r = Inr x"
  shows "trr_next_version x = tr_actual_version r + 1"
    and "trr_escalated_from_status x =
      (if trr_next_status x = TS_ESCALATED then Some (tr_current_status r) else None)"
    and "trr_next_rework_count x = tr_current_rework_count r +
      (if trr_next_status x = TS_REWORK_REQUIRED \<and>
          tr_current_status r \<in> {TS_IN_PROGRESS, TS_PENDING_ACCEPTANCE} then 1 else 0)"
    and "trr_next_status x = TS_REWORK_REQUIRED \<Longrightarrow> 1 \<le> trr_next_rework_count x"
proof -
  from assms obtain spec n where spec: "transitions (tr_current_status r) (tr_action r) = Some spec"
    and pre: "check_ticket_preconditions r = Inr n"
    and x: "trr_next_version x = tr_actual_version r + 1"
      "trr_next_status x = spec_next_status spec" "trr_next_rework_count x = n"
      "trr_escalated_from_status x =
        (if spec_next_status spec = TS_ESCALATED then Some (tr_current_status r) else None)"
    by (auto simp: transition_ticket_Inr_iff)
  note pre' = check_ticket_preconditions_InrD [OF pre]
  show "trr_next_version x = tr_actual_version r + 1"
    "trr_escalated_from_status x =
      (if trr_next_status x = TS_ESCALATED then Some (tr_current_status r) else None)"
    using x by simp_all
  show "trr_next_rework_count x = tr_current_rework_count r +
      (if trr_next_status x = TS_REWORK_REQUIRED \<and>
          tr_current_status r \<in> {TS_IN_PROGRESS, TS_PENDING_ACCEPTANCE} then 1 else 0)"
  proof -
    have "tr_action r \<in> {TA_RESIDENT_REJECT, TA_FAIL_WORK_REWORK} \<longleftrightarrow>
        spec_next_status spec = TS_REWORK_REQUIRED \<and>
        tr_current_status r \<in> {TS_IN_PROGRESS, TS_PENDING_ACCEPTANCE}"
    proof
      assume "tr_action r \<in> {TA_RESIDENT_REJECT, TA_FAIL_WORK_REWORK}"
      then show "spec_next_status spec = TS_REWORK_REQUIRED \<and>
          tr_current_status r \<in> {TS_IN_PROGRESS, TS_PENDING_ACCEPTANCE}"
        by (rule counted_action_row [OF spec])
    next
      assume *: "spec_next_status spec = TS_REWORK_REQUIRED \<and>
          tr_current_status r \<in> {TS_IN_PROGRESS, TS_PENDING_ACCEPTANCE}"
      then have "tr_current_status r \<noteq> TS_SCHEDULED" by auto
      with rework_entry [OF spec] * show "tr_action r \<in> {TA_RESIDENT_REJECT, TA_FAIL_WORK_REWORK}"
        by blast
    qed
    then show ?thesis unfolding x pre'(7) by simp
  qed
  show "1 \<le> trr_next_rework_count x" if "trr_next_status x = TS_REWORK_REQUIRED"
    using that x pre'(1,3,7) rework_entry [OF spec]
    by (auto simp: check_booking_context_def split: if_splits)
qed

text \<open>The bookkeeping of every successful transition: the version grows by exactly one, the
  prior status is saved exactly when the ticket is escalated, the rework count grows by one exactly
  when work in progress or work awaiting acceptance turns into rework, and a ticket that is in
  rework has a positive count.\<close>

lemma transition_ticket_bookkeeping:
  assumes "transition_ticket r = Inr x"
  shows "trr_next_version x = tr_actual_version r + 1 \<and>
    trr_escalated_from_status x =
      (if trr_next_status x = TS_ESCALATED then Some (tr_current_status r) else None) \<and>
    trr_next_rework_count x = tr_current_rework_count r +
      (if trr_next_status x = TS_REWORK_REQUIRED \<and>
          tr_current_status r \<in> {TS_IN_PROGRESS, TS_PENDING_ACCEPTANCE} then 1 else 0) \<and>
    (trr_next_status x = TS_REWORK_REQUIRED \<longrightarrow> 1 \<le> trr_next_rework_count x)"
  by (intro conjI impI transition_ticket_effects [OF assms])

section \<open>Properties of recovery\<close>

lemma recover_Inr_iff:
  "recover_escalated_ticket q = Inr y \<longleftrightarrow>
     er_expected_version q = er_actual_version q \<and> er_actor_type q = ACT_OPERATOR \<and>
     er_escalated_from_status q \<in> Some ` escalatable_ticket_statuses \<and>
     er_conflict_resolved q \<and> 0 \<le> er_current_rework_count q \<and>
     (\<exists>target. recovery_target q = Inr target \<and>
        y = \<lparr>trr_previous_status = TS_ESCALATED, trr_next_status = target,
             trr_next_version = er_actual_version q + 1, trr_facts = ticket_facts target,
             trr_escalated_from_status = None,
             trr_next_rework_count = er_current_rework_count q +
               (if er_disposition q = ED_APPROVE_REWORK then 1 else 0)\<rparr>)"
  by (auto simp: recover_escalated_ticket_def inversion_simps)

text \<open>Recovery is safe: only an operator recovers, the target never is \<open>ESCALATED\<close>, and each
  target needs its evidence in the reread snapshot. Work resumes only with a booking whose latest
  event is \<open>STARTED\<close>, acceptance only with a fulfilled visit and \<open>COMPLETED\<close>, closure only with
  the resident's acceptance on top of that, cancellation never while a booking is active, and a
  scheduled visit only while one is.\<close>

lemma recover_escalated_ticket_safe:
  assumes "recover_escalated_ticket q = Inr y"
  shows "er_actor_type q = ACT_OPERATOR \<and>
    (case trr_next_status y of
       TS_ESCALATED \<Rightarrow> False
     | TS_IN_PROGRESS \<Rightarrow> er_escalated_from_status q = Some TS_IN_PROGRESS \<and>
         er_appointment_status q = Some AS_BOOKED \<and> er_latest_worker_event q = Some WE_STARTED
     | TS_PENDING_ACCEPTANCE \<Rightarrow>
         er_appointment_status q = Some AS_FULFILLED \<and> er_latest_worker_event q = Some WE_COMPLETED
     | TS_CLOSED \<Rightarrow> er_resident_acceptance q = Some True \<and>
         er_appointment_status q = Some AS_FULFILLED \<and> er_latest_worker_event q = Some WE_COMPLETED
     | TS_CANCELLED \<Rightarrow> er_appointment_status q \<noteq> Some AS_BOOKED
     | TS_SCHEDULED \<Rightarrow> er_appointment_status q = Some AS_BOOKED
     | _ \<Rightarrow> True)"
  using assms
  by (auto simp: recover_Inr_iff recovery_target_def derive_resume_target_def Let_def
      split: if_splits)

definition recovery_example :: "ticket_status \<Rightarrow> appointment_status option \<Rightarrow>
    worker_event_type option \<Rightarrow> escalation_disposition \<Rightarrow> int \<Rightarrow> EscalationRecoveryRequest" where
  "recovery_example prior appointment event disposition reworks =
     \<lparr>er_actor_type = ACT_OPERATOR, er_expected_version = 3, er_actual_version = 3,
      er_escalated_from_status = Some prior, er_appointment_status = appointment,
      er_latest_worker_event = event, er_disposition = disposition,
      er_resident_acceptance = None, er_rework_recorded = True, er_conflict_resolved = True,
      er_current_rework_count = reworks\<rparr>"

lemmas recovery_eval = recover_escalated_ticket_def recovery_target_def
  derive_resume_target_def ensure_expected_version_def Let_def escalatable_ticket_statuses_def
  recovery_example_def

text \<open>What the service passes to the consistency check and to the recovery rule: the latest
  appointment of the ticket, if any.\<close>

definition latest_as_list :: "AppointmentSnapshot option \<Rightarrow> AppointmentSnapshot list" where
  "latest_as_list a = (case a of None \<Rightarrow> [] | Some x \<Rightarrow> [x])"

lemma consistency_resume_target:
  assumes "ensure_aggregate_consistency s (latest_as_list a) ev = Inr ()"
    and "s \<notin> {TS_ESCALATED, TS_CANCELLED, TS_CLOSED}" and "s = TS_SCHEDULED \<Longrightarrow> ev \<noteq> Some WE_STARTED"
    and "er_escalated_from_status q = Some s"
    and "er_appointment_status q = map_option as_status a" and "er_latest_worker_event q = ev"
  shows "derive_resume_target q =
    (if s = TS_REWORK_REQUIRED then Inl (no_safe_resume_target q) else Inr s)"
  using assms
  by (cases a; cases s; auto simp: ensure_aggregate_consistency_def latest_as_list_def
      derive_resume_target_def Let_def split: if_splits)


definition resume_request :: "TicketTransitionResult \<Rightarrow> appointment_status option \<Rightarrow>
    worker_event_type option \<Rightarrow> EscalationRecoveryRequest" where
  "resume_request x appointment event =
     \<lparr>er_actor_type = ACT_OPERATOR, er_expected_version = trr_next_version x,
      er_actual_version = trr_next_version x,
      er_escalated_from_status = trr_escalated_from_status x,
      er_appointment_status = appointment, er_latest_worker_event = event,
      er_disposition = ED_RESUME, er_resident_acceptance = None, er_rework_recorded = False,
      er_conflict_resolved = True, er_current_rework_count = trr_next_rework_count x\<rparr>"


end
