(* ===== verification/Appointments.thy ===== *)
theory Appointments
  imports DomainInvariants
begin

text \<open>
  The appointment rules of \<open>backend/app/domain/appointments.py\<close>: transitions of an
  existing appointment, creation of a booking, and the all-or-nothing reschedule plan.
\<close>

record AppointmentTransitionRequest =
  atr_current_status :: appointment_status
  atr_action :: appointment_action
  atr_actor_type :: actor_type
  atr_expected_version :: int
  atr_actual_version :: int
  atr_outcome :: "OutcomeMetadata option"

record AppointmentTransitionResult =
  atx_previous_status :: appointment_status
  atx_next_status :: appointment_status
  atx_next_version :: int
  atx_facts :: "domain_fact list"

record AppointmentCreationPlan =
  acp_new_appointment :: AppointmentDraft
  acp_next_ticket_status :: ticket_status
  acp_next_ticket_version :: int
  acp_facts :: "domain_fact list"

record ReschedulePlan =
  rs_old_appointment_id :: uuid
  rs_old_transition :: AppointmentTransitionResult
  rs_new_appointment :: AppointmentDraft
  rs_facts :: "domain_fact list"

fun appointment_transitions :: "appointment_action \<Rightarrow> appointment_status \<times> actor_type set" where
  "appointment_transitions AA_SUPERSEDE = (AS_SUPERSEDED, {ACT_RESIDENT, ACT_OPERATOR})"
| "appointment_transitions AA_CANCEL =
     (AS_CANCELLED, {ACT_RESIDENT, ACT_OPERATOR, ACT_WORKER, ACT_SYSTEM})"
| "appointment_transitions AA_FULFILL = (AS_FULFILLED, {ACT_RESIDENT, ACT_WORKER, ACT_OPERATOR})"
| "appointment_transitions AA_MARK_NO_SHOW = (AS_NO_SHOW, {ACT_OPERATOR, ACT_SYSTEM})"

fun cancellation_actors :: "cancellation_reason \<Rightarrow> actor_type" where
  "cancellation_actors CR_RESIDENT_CANCELLED = ACT_RESIDENT"
| "cancellation_actors CR_WORKER_CANCELLED = ACT_WORKER"
| "cancellation_actors CR_WORKER_REJECTED = ACT_WORKER"
| "cancellation_actors CR_OPERATOR_CANCELLED = ACT_OPERATOR"
| "cancellation_actors CR_SYSTEM_CANCELLED = ACT_SYSTEM"

fun no_show_actors :: "no_show_reason \<Rightarrow> actor_type" where
  "no_show_actors NS_RESIDENT_NO_SHOW = ACT_RESIDENT"
| "no_show_actors NS_WORKER_NO_SHOW = ACT_WORKER"

definition action_context :: "appointment_action \<Rightarrow> (string \<times> pval) list" where
  "action_context action = [(''action'', PStr (appointment_action_value action))]"

text \<open>The branch of \<open>_validate_outcome\<close> that derives the actor the reason code names.\<close>

definition expected_outcome_actor :: "appointment_action \<Rightarrow> outcome_reason \<Rightarrow> actor_type outcome" where
  "expected_outcome_actor action reason =
     (if action = AA_CANCEL
      then (case reason of
              CancelReason r \<Rightarrow> Inr (cancellation_actors r)
            | NoShow r \<Rightarrow> Inl (Exn InvalidAppointmentTransition ''cancellation_reason_required''
                             (action_context action)))
      else (case reason of
              NoShow r \<Rightarrow> Inr (no_show_actors r)
            | CancelReason r \<Rightarrow> Inl (Exn InvalidAppointmentTransition ''no_show_reason_required''
                                   (action_context action))))"

definition validate_outcome :: "appointment_action \<Rightarrow> OutcomeMetadata option \<Rightarrow> unit outcome" where
  "validate_outcome action outcome =
     (if action \<notin> {AA_CANCEL, AA_MARK_NO_SHOW}
      then (if outcome \<noteq> None
            then Inl (Exn InvalidAppointmentTransition ''outcome_not_allowed''
                   (action_context action))
            else Inr ())
      else case outcome of
        None \<Rightarrow> Inl (Exn InvalidAppointmentTransition ''complete_outcome_required''
                  (action_context action))
      | Some om \<Rightarrow>
          if om_reason_text om = [] \<or> om_evidence om = []
          then Inl (Exn InvalidAppointmentTransition ''complete_outcome_required''
                 (action_context action))
          else bindE (expected_outcome_actor action (om_reason_code om))
            (\<lambda>expected_actor.
               if om_actor_type om \<noteq> expected_actor
               then Inl (Exn InvalidAppointmentTransition ''outcome_actor_mismatch''
                      (action_context action @
                        [(''actor'', PStr (actor_type_value (om_actor_type om))),
                         (''reason'', PStr (outcome_reason_value (om_reason_code om)))]))
               else Inr ()))"

definition transition_appointment ::
  "AppointmentTransitionRequest \<Rightarrow> AppointmentTransitionResult outcome" where
  "transition_appointment request =
     bindE (ensure_expected_version (atr_expected_version request) (atr_actual_version request))
     (\<lambda>_. if atr_current_status request \<in> terminal_appointment_statuses
      then Inl (Exn InvalidAppointmentTransition ''terminal_appointment''
             ((''current_status'', PStr (appointment_status_value (atr_current_status request)))
               # action_context (atr_action request)))
      else let (next_status, allowed_actors) = appointment_transitions (atr_action request)
        in if atr_actor_type request \<notin> allowed_actors
           then Inl (Exn PermissionDenied ''actor_not_allowed''
                  ((''current_status'', PStr (appointment_status_value (atr_current_status request)))
                    # action_context (atr_action request) @
                    [(''target_status'', PStr (appointment_status_value next_status)),
                     (''actor'', PStr (actor_type_value (atr_actor_type request)))]))
           else bindE (validate_outcome (atr_action request) (atr_outcome request))
             (\<lambda>_. Inr \<lparr>atx_previous_status = atr_current_status request,
                       atx_next_status = next_status,
                       atx_next_version = atr_actual_version request + 1,
                       atx_facts = [DF_APPOINTMENT_TRANSITIONED]\<rparr>))"

definition plan_appointment_creation ::
  "AppointmentDraft \<Rightarrow> ticket_status \<Rightarrow> actor_type \<Rightarrow> int \<Rightarrow> int \<Rightarrow> AppointmentCreationPlan outcome"
where
  "plan_appointment_creation draft current_ticket_status actor expected actual =
     bindE (ensure_expected_version expected actual)
     (\<lambda>_. if actor \<notin> {ACT_RESIDENT, ACT_OPERATOR}
      then Inl (Exn PermissionDenied ''actor_not_allowed''
             [(''actor'', PStr (actor_type_value actor)), (''action'', PStr ''BOOK'')])
      else if current_ticket_status \<notin> {TS_OPEN, TS_REWORK_REQUIRED}
      then Inl (Exn InvalidAppointmentTransition ''ticket_not_bookable''
             [(''current_status'', PStr (ticket_status_value current_ticket_status))])
      else if ad_status draft \<noteq> AS_BOOKED
      then Inl (Exn InvalidAppointmentTransition ''new_appointment_must_be_booked'' [])
      else let expected_purpose =
             (if current_ticket_status = TS_REWORK_REQUIRED then AP_REWORK else AP_INITIAL_REPAIR)
        in if ad_purpose draft \<noteq> expected_purpose
           then Inl (Exn InvalidAppointmentTransition ''appointment_purpose_ticket_conflict''
                  [(''appointment_purpose'', PStr (appointment_purpose_value (ad_purpose draft))),
                   (''current_ticket_status'',
                      PStr (ticket_status_value current_ticket_status))])
           else if ad_supersedes draft \<noteq> None
           then Inl (Exn InvalidAppointmentTransition ''ordinary_booking_cannot_supersede'' [])
           else if ad_starts_at draft \<ge> ad_ends_at draft
           then Inl (Exn InvalidAppointmentTransition ''invalid_appointment_interval'' [])
           else Inr \<lparr>acp_new_appointment = draft, acp_next_ticket_status = TS_SCHEDULED,
                     acp_next_ticket_version = actual + 1,
                     acp_facts = [DF_APPOINTMENT_CREATED]\<rparr>)"

definition plan_reschedule ::
  "AppointmentSnapshot \<Rightarrow> AppointmentDraft \<Rightarrow> actor_type \<Rightarrow> int \<Rightarrow> ReschedulePlan outcome" where
  "plan_reschedule old replacement actor expected_version =
     bindE (transition_appointment
              \<lparr>atr_current_status = as_status old, atr_action = AA_SUPERSEDE,
               atr_actor_type = actor, atr_expected_version = expected_version,
               atr_actual_version = as_version old, atr_outcome = None\<rparr>)
     (\<lambda>transition. if ad_status replacement \<noteq> AS_BOOKED
      then Inl (Exn InvalidAppointmentTransition ''replacement_must_be_booked'' [])
      else if ad_appointment_id replacement = as_appointment_id old
      then Inl (Exn InvalidAppointmentTransition ''replacement_requires_new_identity'' [])
      else if ad_ticket_id replacement \<noteq> as_ticket_id old
      then Inl (Exn InvalidAppointmentTransition ''replacement_ticket_mismatch'' [])
      else if ad_purpose replacement \<noteq> as_purpose old
      then Inl (Exn InvalidAppointmentTransition ''reschedule_purpose_mismatch'' [])
      else if ad_supersedes replacement \<noteq> Some (as_appointment_id old)
      then Inl (Exn InvalidAppointmentTransition ''supersession_link_required'' [])
      else if ad_starts_at replacement \<ge> ad_ends_at replacement
      then Inl (Exn InvalidAppointmentTransition ''invalid_replacement_interval'' [])
      else Inr \<lparr>rs_old_appointment_id = as_appointment_id old, rs_old_transition = transition,
                rs_new_appointment = replacement, rs_facts = [DF_APPOINTMENT_RESCHEDULED]\<rparr>)"

section \<open>What success says\<close>

lemma transition_appointment_Inr_iff:
  "transition_appointment r = Inr x \<longleftrightarrow>
     atr_expected_version r = atr_actual_version r \<and> atr_current_status r = AS_BOOKED \<and>
     atr_actor_type r \<in> snd (appointment_transitions (atr_action r)) \<and>
     validate_outcome (atr_action r) (atr_outcome r) = Inr () \<and>
     x = \<lparr>atx_previous_status = AS_BOOKED,
          atx_next_status = fst (appointment_transitions (atr_action r)),
          atx_next_version = atr_actual_version r + 1,
          atx_facts = [DF_APPOINTMENT_TRANSITIONED]\<rparr>"
  by (auto simp: transition_appointment_def ensure_expected_version_def inversion_simps
      Let_def split: prod.splits)

lemma appointment_transitions_terminal [simp]:
  "fst (appointment_transitions a) \<noteq> AS_BOOKED"
  by (cases a) simp_all

lemma plan_appointment_creation_Inr_iff:
  "plan_appointment_creation draft s actor expected actual = Inr plan \<longleftrightarrow>
     expected = actual \<and> actor \<in> {ACT_RESIDENT, ACT_OPERATOR} \<and>
     s \<in> {TS_OPEN, TS_REWORK_REQUIRED} \<and> ad_status draft = AS_BOOKED \<and>
     ad_purpose draft = (if s = TS_REWORK_REQUIRED then AP_REWORK else AP_INITIAL_REPAIR) \<and>
     ad_supersedes draft = None \<and> ad_starts_at draft < ad_ends_at draft \<and>
     plan = \<lparr>acp_new_appointment = draft, acp_next_ticket_status = TS_SCHEDULED,
             acp_next_ticket_version = actual + 1, acp_facts = [DF_APPOINTMENT_CREATED]\<rparr>"
  by (auto simp: plan_appointment_creation_def ensure_expected_version_def inversion_simps Let_def)

lemma plan_reschedule_Inr_iff:
  "plan_reschedule old new actor expected = Inr plan \<longleftrightarrow>
     expected = as_version old \<and> as_status old = AS_BOOKED \<and>
     actor \<in> {ACT_RESIDENT, ACT_OPERATOR} \<and> ad_status new = AS_BOOKED \<and>
     ad_appointment_id new \<noteq> as_appointment_id old \<and> ad_ticket_id new = as_ticket_id old \<and>
     ad_purpose new = as_purpose old \<and> ad_supersedes new = Some (as_appointment_id old) \<and>
     ad_starts_at new < ad_ends_at new \<and>
     plan = \<lparr>rs_old_appointment_id = as_appointment_id old,
             rs_old_transition = \<lparr>atx_previous_status = AS_BOOKED, atx_next_status = AS_SUPERSEDED,
               atx_next_version = as_version old + 1, atx_facts = [DF_APPOINTMENT_TRANSITIONED]\<rparr>,
             rs_new_appointment = new, rs_facts = [DF_APPOINTMENT_RESCHEDULED]\<rparr>"
  by (auto simp: plan_reschedule_def transition_appointment_Inr_iff validate_outcome_def
      inversion_simps)

end
