(* ===== verification/WorkerEvents.thy ===== *)
theory WorkerEvents
  imports Tickets
begin

text \<open>
  Validation of maintenance-worker events and their effects on ticket and appointment, from
  \<open>backend/app/domain/worker_events.py\<close>, in the order of its checks.
\<close>

record WorkerEventRequest =
  wr_event_type :: worker_event_type
  wr_actor_type :: actor_type
  wr_appointment_id :: "uuid option"
  wr_ticket_status :: ticket_status
  wr_appointment_status :: appointment_status
  wr_appointment_purpose :: "appointment_purpose option"
  wr_current_rework_count :: int
  wr_expected_ticket_version :: int
  wr_actual_ticket_version :: int
  wr_expected_appointment_version :: int
  wr_actual_appointment_version :: int
  wr_prior_events :: "worker_event_type list"
  wr_confirmed_replay :: bool
  wr_cancellation_reason :: "cancellation_reason option"
  wr_no_show_reason :: "no_show_reason option"
  wr_failure :: "FailureDetails option"
  wr_evidence :: "string list"

record WorkerEventResult =
  wx_event_type :: worker_event_type
  wx_next_ticket_status :: ticket_status
  wx_next_appointment_status :: appointment_status
  wx_facts :: "domain_fact list"
  wx_requires_human_escalation :: bool
  wx_is_replay :: bool
  wx_next_rework_count :: int
  wx_cancellation_reason :: "cancellation_reason option"
  wx_failure_reason :: "failure_reason option"

definition event_actors :: "worker_event_type \<Rightarrow> actor_type set" where
  "event_actors event =
     (if event = WE_NO_SHOW then {ACT_OPERATOR, ACT_SYSTEM} else {ACT_WORKER, ACT_OPERATOR})"

definition pre_work_events :: "worker_event_type set" where
  "pre_work_events = {WE_ACCEPTED, WE_REJECTED, WE_DEPARTED, WE_ARRIVED, WE_CANCELLED, WE_NO_SHOW}"

definition terminal_events :: "worker_event_type set" where
  "terminal_events = {WE_REJECTED, WE_COMPLETED, WE_FAILED_TO_COMPLETE, WE_CANCELLED, WE_NO_SHOW}"

definition event_context :: "WorkerEventRequest \<Rightarrow> (string \<times> pval) list" where
  "event_context request = [(''event'', PStr (worker_event_type_value (wr_event_type request)))]"

definition prior_context :: "WorkerEventRequest \<Rightarrow> (string \<times> pval) list" where
  "prior_context request = event_context request @
     [(''prior_events'', PList (map (PStr \<circ> worker_event_type_value) (wr_prior_events request)))]"

definition validate_snapshots :: "WorkerEventRequest \<Rightarrow> unit outcome" where
  "validate_snapshots request =
     (if wr_appointment_id request = None
      then Inl (Exn InvalidWorkerEvent ''appointment_required'' (event_context request))
      else let expected_ticket =
             (if wr_event_type request \<in> pre_work_events \<union> {WE_STARTED}
              then TS_SCHEDULED else TS_IN_PROGRESS)
        in if wr_ticket_status request \<noteq> expected_ticket
           then Inl (Exn InvalidWorkerEvent ''ticket_state_mismatch''
                  (event_context request @
                    [(''current_status'', PStr (ticket_status_value (wr_ticket_status request))),
                     (''expected_status'', PStr (ticket_status_value expected_ticket))]))
           else if wr_appointment_status request \<noteq> AS_BOOKED
           then Inl (Exn InvalidWorkerEvent ''appointment_must_be_booked''
                  (event_context request @
                    [(''current_status'',
                        PStr (appointment_status_value (wr_appointment_status request)))]))
           else Inr ())"

definition validate_versions_and_purpose :: "WorkerEventRequest \<Rightarrow> unit outcome" where
  "validate_versions_and_purpose request =
     bindE (ensure_expected_version (wr_expected_ticket_version request)
              (wr_actual_ticket_version request))
     (\<lambda>_. bindE (ensure_expected_version (wr_expected_appointment_version request)
              (wr_actual_appointment_version request))
     (\<lambda>_. if wr_current_rework_count request < 0
      then Inl (Exn InvalidWorkerEvent ''invalid_rework_count''
             [(''current_rework_count'', PInt (wr_current_rework_count request))])
      else if wr_event_type request \<notin> {WE_REJECTED, WE_CANCELLED} then Inr ()
      else case wr_appointment_purpose request of
        None \<Rightarrow> Inl (Exn InvalidWorkerEvent ''appointment_purpose_required''
                  (event_context request))
      | Some purpose \<Rightarrow>
          if purpose \<noteq> (if wr_current_rework_count request > 0 then AP_REWORK
                         else AP_INITIAL_REPAIR)
          then Inl (Exn InvalidWorkerEvent ''appointment_purpose_snapshot_conflict''
                 (event_context request @
                   [(''appointment_purpose'', PStr (appointment_purpose_value purpose)),
                    (''current_rework_count'', PInt (wr_current_rework_count request))]))
          else Inr ()))"

fun required_predecessor :: "worker_event_type \<Rightarrow> worker_event_type option" where
  "required_predecessor WE_DEPARTED = Some WE_ACCEPTED"
| "required_predecessor WE_ARRIVED = Some WE_DEPARTED"
| "required_predecessor WE_COMPLETED = Some WE_STARTED"
| "required_predecessor WE_FAILED_TO_COMPLETE = Some WE_STARTED"
| "required_predecessor _ = None"

definition validate_sequence :: "WorkerEventRequest \<Rightarrow> unit outcome" where
  "validate_sequence request =
     (let event = wr_event_type request; prior = wr_prior_events request
      in if \<exists>item \<in> set prior. item \<in> terminal_events
         then Inl (Exn InvalidWorkerEvent ''event_after_terminal_event'' (prior_context request))
         else if event = WE_ACCEPTED \<and> prior \<noteq> []
         then Inl (Exn InvalidWorkerEvent ''accepted_must_be_first'' (prior_context request))
         else if event = WE_REJECTED \<and> prior \<noteq> []
         then Inl (Exn InvalidWorkerEvent ''rejection_too_late'' (prior_context request))
         else if required_predecessor event \<noteq> None \<and>
                 (prior = [] \<or> Some (last prior) \<noteq> required_predecessor event)
         then Inl (Exn InvalidWorkerEvent ''missing_predecessor''
                (prior_context request @
                  [(''required_event'',
                     opt_str (map_option worker_event_type_value (required_predecessor event)))]))
         else if event \<in> {WE_CANCELLED, WE_NO_SHOW} \<and> WE_STARTED \<in> set prior
         then Inl (Exn InvalidWorkerEvent ''outcome_after_start'' (prior_context request))
         else if event = WE_CANCELLED \<and> WE_ACCEPTED \<notin> set prior
         then Inl (Exn InvalidWorkerEvent ''cancellation_requires_acceptance''
                (prior_context request))
         else Inr ())"

text \<open>
  The effects of an accepted event: next ticket status, next appointment status, whether a
  human must step in, the failure reason, and the next rework count.
\<close>

record EventEffects =
  ef_ticket :: ticket_status
  ef_appointment :: appointment_status
  ef_escalation :: bool
  ef_failure_reason :: "failure_reason option"
  ef_rework_count :: int

definition lost_visit_status :: "WorkerEventRequest \<Rightarrow> ticket_status" where
  "lost_visit_status request =
     (if wr_appointment_purpose request = Some AP_REWORK then TS_REWORK_REQUIRED else TS_OPEN)"

definition event_effects :: "WorkerEventRequest \<Rightarrow> EventEffects outcome" where
  "event_effects request =
     (let event = wr_event_type request;
          unchanged = \<lparr>ef_ticket = wr_ticket_status request,
            ef_appointment = wr_appointment_status request, ef_escalation = False,
            ef_failure_reason = None, ef_rework_count = wr_current_rework_count request\<rparr>
      in if event = WE_REJECTED then
           (if wr_cancellation_reason request \<noteq> Some CR_WORKER_REJECTED
            then Inl (Exn InvalidWorkerEvent ''worker_rejected_reason_required''
                   (event_context request))
            else Inr (unchanged\<lparr>ef_ticket := lost_visit_status request,
                                ef_appointment := AS_CANCELLED\<rparr>))
         else if event = WE_STARTED then Inr (unchanged\<lparr>ef_ticket := TS_IN_PROGRESS\<rparr>)
         else if event = WE_COMPLETED then
           Inr (unchanged\<lparr>ef_ticket := TS_PENDING_ACCEPTANCE, ef_appointment := AS_FULFILLED\<rparr>)
         else if event = WE_FAILED_TO_COMPLETE then
           (case wr_failure request of
              None \<Rightarrow> Inl (Exn InvalidWorkerEvent ''complete_failure_details_required''
                        (event_context request))
            | Some failure \<Rightarrow>
                if fd_worker_statement failure = [] \<or> fd_evidence failure = []
                then Inl (Exn InvalidWorkerEvent ''complete_failure_details_required''
                       (event_context request))
                else let disposition = failure_disposition (fd_reason failure)
                  in Inr \<lparr>ef_ticket = (if disposition = FD_REWORK then TS_REWORK_REQUIRED
                                       else TS_ESCALATED),
                          ef_appointment = AS_FULFILLED,
                          ef_escalation = (disposition = FD_ESCALATE),
                          ef_failure_reason = Some (fd_reason failure),
                          ef_rework_count = wr_current_rework_count request +
                            (if disposition = FD_REWORK then 1 else 0)\<rparr>)
         else if event = WE_CANCELLED then
           (if wr_cancellation_reason request \<noteq> Some CR_WORKER_CANCELLED
            then Inl (Exn InvalidWorkerEvent ''worker_cancelled_reason_required''
                   (event_context request))
            else Inr (unchanged\<lparr>ef_ticket := lost_visit_status request,
                                ef_appointment := AS_CANCELLED\<rparr>))
         else if event = WE_NO_SHOW then
           (if wr_no_show_reason request = None \<or> wr_evidence request = []
            then Inl (Exn InvalidWorkerEvent ''reviewed_no_show_evidence_required''
                   (event_context request))
            else Inr (unchanged\<lparr>ef_ticket := TS_ESCALATED, ef_appointment := AS_NO_SHOW,
                                ef_escalation := True\<rparr>))
         else Inr unchanged)"

definition validate_worker_event :: "WorkerEventRequest \<Rightarrow> WorkerEventResult outcome" where
  "validate_worker_event request =
     bindE (validate_versions_and_purpose request)
     (\<lambda>_. if wr_actor_type request \<notin> event_actors (wr_event_type request)
      then Inl (Exn PermissionDenied ''actor_not_allowed''
             ((''actor'', PStr (actor_type_value (wr_actor_type request)))
               # event_context request))
      else if wr_confirmed_replay request
      then (if wr_appointment_id request = None
            then Inl (Exn InvalidWorkerEvent ''appointment_required'' (event_context request))
            else if wr_event_type request \<notin> set (wr_prior_events request)
            then Inl (Exn InvalidWorkerEvent ''replay_event_not_recorded'' (prior_context request))
            else Inr \<lparr>wx_event_type = wr_event_type request,
                      wx_next_ticket_status = wr_ticket_status request,
                      wx_next_appointment_status = wr_appointment_status request,
                      wx_facts = [], wx_requires_human_escalation = False, wx_is_replay = True,
                      wx_next_rework_count = wr_current_rework_count request,
                      wx_cancellation_reason = wr_cancellation_reason request,
                      wx_failure_reason = None\<rparr>)
      else bindE (validate_snapshots request)
        (\<lambda>_. bindE (validate_sequence request)
        (\<lambda>_. bindE (event_effects request)
        (\<lambda>ef. Inr \<lparr>wx_event_type = wr_event_type request,
                   wx_next_ticket_status = ef_ticket ef,
                   wx_next_appointment_status = ef_appointment ef,
                   wx_facts = DF_WORKER_EVENT_OCCURRED # ticket_follow_up_facts (ef_ticket ef),
                   wx_requires_human_escalation = ef_escalation ef, wx_is_replay = False,
                   wx_next_rework_count = ef_rework_count ef,
                   wx_cancellation_reason =
                     (if wr_event_type request \<in> {WE_REJECTED, WE_CANCELLED}
                      then wr_cancellation_reason request else None),
                   wx_failure_reason = ef_failure_reason ef\<rparr>))))"

section \<open>What success says\<close>

lemma validate_versions_and_purpose_InrD:
  assumes "validate_versions_and_purpose r = Inr u"
  shows "wr_expected_ticket_version r = wr_actual_ticket_version r"
    and "wr_expected_appointment_version r = wr_actual_appointment_version r"
    and "0 \<le> wr_current_rework_count r"
    and "wr_event_type r \<in> {WE_REJECTED, WE_CANCELLED} \<Longrightarrow> wr_appointment_purpose r =
      Some (if wr_current_rework_count r > 0 then AP_REWORK else AP_INITIAL_REPAIR)"
  using assms
  by (auto simp: validate_versions_and_purpose_def inversion_simps split: option.splits if_splits)

lemma validate_snapshots_InrD:
  assumes "validate_snapshots r = Inr u"
  shows "wr_appointment_id r \<noteq> None" and "wr_appointment_status r = AS_BOOKED"
    and "wr_ticket_status r = (if wr_event_type r \<in> {WE_COMPLETED, WE_FAILED_TO_COMPLETE}
      then TS_IN_PROGRESS else TS_SCHEDULED)"
  using assms
  by (cases "wr_event_type r"; auto simp: validate_snapshots_def pre_work_events_def Let_def
      split: if_splits)+

lemma validate_sequence_InrD:
  assumes "validate_sequence r = Inr u"
  shows "\<forall>e \<in> set (wr_prior_events r). e \<notin> terminal_events"
    and "wr_event_type r \<in> {WE_ACCEPTED, WE_REJECTED} \<Longrightarrow> wr_prior_events r = []"
    and "required_predecessor (wr_event_type r) = Some p \<Longrightarrow>
      wr_prior_events r \<noteq> [] \<and> last (wr_prior_events r) = p"
    and "wr_event_type r \<in> {WE_CANCELLED, WE_NO_SHOW} \<Longrightarrow> WE_STARTED \<notin> set (wr_prior_events r)"
    and "wr_event_type r = WE_CANCELLED \<Longrightarrow> WE_ACCEPTED \<in> set (wr_prior_events r)"
  using assms by (auto simp: validate_sequence_def Let_def split: if_splits)

lemma validate_worker_event_InrD:
  assumes "validate_worker_event r = Inr x" and "\<not> wr_confirmed_replay r"
  obtains ef where "validate_versions_and_purpose r = Inr ()"
    and "wr_actor_type r \<in> event_actors (wr_event_type r)"
    and "validate_snapshots r = Inr ()" and "validate_sequence r = Inr ()"
    and "event_effects r = Inr ef"
    and "wx_next_ticket_status x = ef_ticket ef"
    and "wx_next_appointment_status x = ef_appointment ef"
    and "wx_next_rework_count x = ef_rework_count ef"
  using assms by (auto simp: validate_worker_event_def inversion_simps)

section \<open>Agreement with the ticket table\<close>

text \<open>The ticket action that an event stands for (the mapping of the worker-event service).\<close>

definition event_ticket_action :: "WorkerEventRequest \<Rightarrow> ticket_action option" where
  "event_ticket_action r =
     (case wr_event_type r of
        WE_STARTED \<Rightarrow> Some TA_START_WORK
      | WE_COMPLETED \<Rightarrow> Some TA_COMPLETE_WORK
      | WE_NO_SHOW \<Rightarrow> Some TA_REVIEWED_NO_SHOW
      | WE_REJECTED \<Rightarrow> Some (if wr_appointment_purpose r = Some AP_REWORK
                           then TA_WORKER_REJECTED_REWORK else TA_WORKER_REJECTED_INITIAL)
      | WE_CANCELLED \<Rightarrow> Some (if wr_appointment_purpose r = Some AP_REWORK
                           then TA_WORKER_CANCELLED_REWORK else TA_WORKER_CANCELLED_INITIAL)
      | WE_FAILED_TO_COMPLETE \<Rightarrow> map_option (\<lambda>f.
          if failure_disposition (fd_reason f) = FD_REWORK then TA_FAIL_WORK_REWORK
          else TA_FAIL_WORK_ESCALATE) (wr_failure r)
      | _ \<Rightarrow> None)"

text \<open>The ticket request that carries the same facts.\<close>

definition event_ticket_request :: "WorkerEventRequest \<Rightarrow> ticket_action \<Rightarrow> TicketTransitionRequest" where
  "event_ticket_request r a =
     \<lparr>tr_current_status = wr_ticket_status r, tr_action = a, tr_actor_type = wr_actor_type r,
      tr_expected_version = wr_expected_ticket_version r,
      tr_actual_version = wr_actual_ticket_version r, tr_resident_authorized = True,
      tr_has_active_booked_appointment = (wr_appointment_status r = AS_BOOKED),
      tr_cancellation_reason = wr_cancellation_reason r,
      tr_no_show_reason = wr_no_show_reason r, tr_escalation_reason = None,
      tr_evidence = wr_evidence r, tr_resident_acceptance = None,
      tr_acceptance_rejection = None, tr_failure = wr_failure r,
      tr_rework_recorded = False, tr_current_rework_count = wr_current_rework_count r\<rparr>"

lemmas event_request_eval = event_ticket_request_def event_ticket_action_def transition_eval
  event_actors_def event_effects_def lost_visit_status_def

text \<open>C39: the effects of worker events and the frozen ticket table are two tables that agree. Every
  accepted event that stands for a ticket action is a transition the table accepts for the same
  actor, versions, evidence and rework count, with the same next status and rework count; every
  other accepted event leaves the ticket alone.\<close>

theorem worker_event_agrees_with_ticket_table:
  assumes ok: "validate_worker_event r = Inr x" and fresh: "\<not> wr_confirmed_replay r"
  shows "case event_ticket_action r of
      None \<Rightarrow> wx_next_ticket_status x = wr_ticket_status r \<and>
              wx_next_rework_count x = wr_current_rework_count r
    | Some a \<Rightarrow> \<exists>y. transition_ticket (event_ticket_request r a) = Inr y \<and>
              trr_next_status y = wx_next_ticket_status x \<and>
              trr_next_rework_count y = wx_next_rework_count x"
proof -
  from ok fresh obtain ef where vp: "validate_versions_and_purpose r = Inr ()"
    and actor: "wr_actor_type r \<in> event_actors (wr_event_type r)"
    and snap: "validate_snapshots r = Inr ()" and ef: "event_effects r = Inr ef"
    and x: "wx_next_ticket_status x = ef_ticket ef" "wx_next_rework_count x = ef_rework_count ef"
    by (rule validate_worker_event_InrD) auto
  note vp' = validate_versions_and_purpose_InrD [OF vp] and snap' = validate_snapshots_InrD [OF snap]
  show ?thesis
    using actor ef vp' snap' unfolding x
    by (cases "wr_event_type r")
      (auto simp: event_request_eval Let_def split: if_splits option.splits)
qed

definition event_example :: "worker_event_type \<Rightarrow> ticket_status \<Rightarrow> worker_event_type list \<Rightarrow> WorkerEventRequest"
where
  "event_example e status prior =
     \<lparr>wr_event_type = e, wr_actor_type = ACT_OPERATOR, wr_appointment_id = Some 5,
      wr_ticket_status = status, wr_appointment_status = AS_BOOKED,
      wr_appointment_purpose = Some AP_REWORK, wr_current_rework_count = 2,
      wr_expected_ticket_version = 4, wr_actual_ticket_version = 4,
      wr_expected_appointment_version = 1, wr_actual_appointment_version = 1,
      wr_prior_events = prior, wr_confirmed_replay = False,
      wr_cancellation_reason = (if e = WE_REJECTED then Some CR_WORKER_REJECTED
                                else if e = WE_CANCELLED then Some CR_WORKER_CANCELLED else None),
      wr_no_show_reason = Some NS_WORKER_NO_SHOW,
      wr_failure = Some \<lparr>fd_reason = FR_SAFETY_RISK, fd_worker_statement = ''gas'',
                        fd_evidence = [''photo'']\<rparr>,
      wr_evidence = [''log'']\<rparr>"

lemmas worker_event_eval = validate_worker_event_def validate_versions_and_purpose_def
  validate_snapshots_def validate_sequence_def event_effects_def lost_visit_status_def
  event_actors_def pre_work_events_def terminal_events_def ensure_expected_version_def
  failure_disposition_def rework_failure_reasons_def Let_def event_example_def

theorem worker_event_agrees_with_ticket_table_witness:
  "\<exists>x y. validate_worker_event (event_example WE_CANCELLED TS_SCHEDULED [WE_ACCEPTED]) = Inr x \<and>
     transition_ticket (event_ticket_request (event_example WE_CANCELLED TS_SCHEDULED [WE_ACCEPTED])
       TA_WORKER_CANCELLED_REWORK) = Inr y \<and>
     trr_next_status y = wx_next_ticket_status x \<and> wx_next_ticket_status x = TS_REWORK_REQUIRED"
proof -
  let ?r = "event_example WE_CANCELLED TS_SCHEDULED [WE_ACCEPTED]"
  obtain x where x: "validate_worker_event ?r = Inr x" "wx_next_ticket_status x = TS_REWORK_REQUIRED"
    by (simp add: worker_event_eval)
  have fresh: "\<not> wr_confirmed_replay ?r" by (simp add: event_example_def)
  have "event_ticket_action ?r = Some TA_WORKER_CANCELLED_REWORK"
    by (simp add: event_ticket_action_def event_example_def)
  with worker_event_agrees_with_ticket_table [OF x(1) fresh] x show ?thesis by auto
qed

section \<open>The event log of an appointment\<close>

text \<open>The logs that appending accepted events, one at a time, can produce.\<close>

inductive accepted_log :: "worker_event_type list \<Rightarrow> bool" where
  empty_log: "accepted_log []"
| append_event: "accepted_log (wr_prior_events r) \<Longrightarrow> validate_worker_event r = Inr x \<Longrightarrow>
    \<not> wr_confirmed_replay r \<Longrightarrow> accepted_log (wr_prior_events r @ [wr_event_type r])"

text \<open>What the design asks of a log: the outcome of a visit ends it, acceptance opens it, a
  rejection is alone, predecessors are immediate, and a visit that started is neither cancelled
  nor a no-show.\<close>

definition well_ordered_log :: "worker_event_type list \<Rightarrow> bool" where
  "well_ordered_log l \<longleftrightarrow>
     (\<forall>i < length l.
        (l ! i \<in> terminal_events \<longrightarrow> i = length l - 1) \<and>
        (l ! i = WE_ACCEPTED \<longrightarrow> i = 0) \<and>
        (l ! i = WE_REJECTED \<longrightarrow> l = [WE_REJECTED]) \<and>
        (\<forall>p. required_predecessor (l ! i) = Some p \<longrightarrow> 0 < i \<and> l ! (i - 1) = p) \<and>
        (l ! i \<in> {WE_CANCELLED, WE_NO_SHOW} \<longrightarrow> WE_STARTED \<notin> set l) \<and>
        (l ! i = WE_CANCELLED \<longrightarrow> WE_ACCEPTED \<in> set l))"

lemma well_ordered_log_append:
  assumes old: "well_ordered_log l"
    and no_terminal: "\<forall>e \<in> set l. e \<notin> terminal_events"
    and first: "e \<in> {WE_ACCEPTED, WE_REJECTED} \<Longrightarrow> l = []"
    and pred: "\<And>p. required_predecessor e = Some p \<Longrightarrow> l \<noteq> [] \<and> last l = p"
    and outcome: "e \<in> {WE_CANCELLED, WE_NO_SHOW} \<Longrightarrow> WE_STARTED \<notin> set l"
    and cancel: "e = WE_CANCELLED \<Longrightarrow> WE_ACCEPTED \<in> set l"
  shows "well_ordered_log (l @ [e])"
  unfolding well_ordered_log_def
proof (intro allI impI)
  fix i assume i: "i < length (l @ [e])"
  show "((l @ [e]) ! i \<in> terminal_events \<longrightarrow> i = length (l @ [e]) - 1) \<and>
    ((l @ [e]) ! i = WE_ACCEPTED \<longrightarrow> i = 0) \<and>
    ((l @ [e]) ! i = WE_REJECTED \<longrightarrow> l @ [e] = [WE_REJECTED]) \<and>
    (\<forall>p. required_predecessor ((l @ [e]) ! i) = Some p \<longrightarrow> 0 < i \<and> (l @ [e]) ! (i - 1) = p) \<and>
    ((l @ [e]) ! i \<in> {WE_CANCELLED, WE_NO_SHOW} \<longrightarrow> WE_STARTED \<notin> set (l @ [e])) \<and>
    ((l @ [e]) ! i = WE_CANCELLED \<longrightarrow> WE_ACCEPTED \<in> set (l @ [e]))"
  proof (cases "i < length l")
    case True
    then have at: "(l @ [e]) ! i = l ! i" "0 < i \<Longrightarrow> (l @ [e]) ! (i - 1) = l ! (i - 1)"
      using True by (auto simp: nth_append)
    have "l ! i \<notin> terminal_events" using no_terminal True by simp
    then have "l ! i \<notin> {WE_REJECTED, WE_CANCELLED, WE_NO_SHOW}"
      by (auto simp: terminal_events_def)
    with old True at \<open>l ! i \<notin> terminal_events\<close> show ?thesis
      by (auto simp: well_ordered_log_def)
  next
    case False
    with i have "i = length l" by simp
    then have "(l @ [e]) ! i = e" "0 < i \<Longrightarrow> (l @ [e]) ! (i - 1) = last l"
      by (simp_all add: nth_append last_conv_nth)
    then show ?thesis using first pred outcome cancel \<open>i = length l\<close> by auto
  qed
qed

lemma accepted_log_ordered:
  assumes "accepted_log l"
  shows "well_ordered_log l"
  using assms
proof (induction rule: accepted_log.induct)
  case empty_log
  show ?case by (simp add: well_ordered_log_def)
next
  case (append_event r x)
  from append_event.hyps(2,3) have "validate_sequence r = Inr ()"
    by (rule validate_worker_event_InrD) auto
  note seq = validate_sequence_InrD [OF this]
  show ?case
    using append_event.IH seq by (intro well_ordered_log_append) auto
qed

text \<open>Every event log that the validation lets grow is well ordered, so no event follows the
  outcome of a visit, nobody completes work that was not started just before, and a started visit is
  never turned into a cancellation or a no-show.\<close>

lemma accepted_log_well_ordered:
  assumes "accepted_log l"
  shows "well_ordered_log l"
  using assms by (rule accepted_log_ordered)


end
