(* ===== verification/Commands.thy ===== *)
theory Commands
  imports Text Tickets Appointments WorkerEvents
begin

text \<open>
  The typed commands and results of \<open>backend/app/application/models.py\<close>, the closed
  domain events of \<open>events.py\<close>, the records that cross the persistence ports
  (\<open>ports.py\<close>), the errors of \<open>errors.py\<close> as exceptions, and the request hash of
  \<open>service_support.py\<close>. Functions of the outside world are gathered in \<open>Env\<close>.
\<close>

section \<open>The outside world of one command\<close>

text \<open>
  \<open>hashlib.sha256\<close> and \<open>uuid5\<close> are parameters, \<open>env_new_id\<close> is what the id factory
  returns (a handler draws at most one identifier), \<open>env_now\<close> the transaction time that
  \<open>func.now ()\<close> and \<open>CURRENT_TIMESTAMP\<close> return.
\<close>

record Env =
  env_sha256 :: "string \<Rightarrow> string"
  env_uuid5 :: "uuid \<Rightarrow> string \<Rightarrow> uuid"
  env_new_id :: uuid
  env_now :: timestamp

section \<open>Commands\<close>

record MutationMetadata =
  mm_actor_type :: actor_type
  mm_actor_id :: uuid
  mm_trace_id :: uuid
  mm_idempotency_key :: string
  mm_occurred_at :: timestamp
  mm_run_id :: "uuid option"
  mm_thread_id :: "uuid option"
  mm_operation_id :: "uuid option"
  mm_request_fingerprint :: "string option"

record CreateTicketCommand =
  ct_metadata :: MutationMetadata
  ct_resident_id :: uuid
  ct_property_id :: uuid
  ct_issue_category :: issue_category
  ct_issue_location :: string
  ct_issue_description :: string
  ct_severity :: severity
  ct_allow_duplicate :: bool

record BookAppointmentCommand =
  ba_metadata :: MutationMetadata
  ba_ticket_id :: uuid
  ba_worker_id :: uuid
  ba_starts_at :: timestamp
  ba_ends_at :: timestamp
  ba_expected_ticket_version :: int

record RescheduleAppointmentCommand =
  ra_metadata :: MutationMetadata
  ra_ticket_id :: uuid
  ra_appointment_id :: uuid
  ra_worker_id :: uuid
  ra_starts_at :: timestamp
  ra_ends_at :: timestamp
  ra_expected_ticket_version :: int
  ra_expected_appointment_version :: int

record RecordWorkerEventCommand =
  rw_metadata :: MutationMetadata
  rw_ticket_id :: uuid
  rw_appointment_id :: uuid
  rw_subject_worker_id :: uuid
  rw_event_type :: worker_event_type
  rw_external_event_key :: string
  rw_expected_ticket_version :: int
  rw_expected_appointment_version :: int
  rw_cancellation_reason :: "cancellation_reason option"
  rw_no_show_reason :: "no_show_reason option"
  rw_reason_text :: "string option"
  rw_evidence :: "string list"
  rw_failure_reason :: "failure_reason option"
  rw_worker_statement :: "string option"

record ReviewRepairCommand =
  rr_metadata :: MutationMetadata
  rr_ticket_id :: uuid
  rr_expected_ticket_version :: int
  rr_accepted :: bool
  rr_expected_appointment_version :: "int option"
  rr_rejection_reason :: "acceptance_rejection_reason option"
  rr_explanation :: "string option"

record EscalateTicketCommand =
  et_metadata :: MutationMetadata
  et_ticket_id :: uuid
  et_expected_ticket_version :: int
  et_reason_code :: string
  et_reason_text :: string
  et_evidence :: "string list"

record RecoverTicketCommand =
  rc_metadata :: MutationMetadata
  rc_ticket_id :: uuid
  rc_expected_ticket_version :: int
  rc_disposition :: escalation_disposition
  rc_conflict_resolved :: bool
  rc_resident_acceptance :: "bool option"
  rc_rework_recorded :: bool
  rc_reason_text :: "string option"
  rc_evidence :: "string list"

record OperationResult =
  or_ok :: bool
  or_code :: string
  or_resource_type :: "string option"
  or_resource_id :: "uuid option"
  or_resource_version :: "int option"
  or_replayed :: bool
  or_data :: "(string \<times> pval) list"

section \<open>Records of the persistence ports\<close>

record TicketHistoryRecord =
  th_ticket_id :: uuid
  th_from_status :: "ticket_status option"
  th_to_status :: ticket_status
  th_action :: string
  th_actor_type :: actor_type
  th_actor_id :: uuid
  th_trace_id :: uuid
  th_version_before :: int
  th_version_after :: int
  th_reason_code :: "string option"
  th_reason_text :: "string option"
  th_evidence :: "string list"

record AppointmentHistoryRecord =
  ah_appointment_id :: uuid
  ah_from_status :: "appointment_status option"
  ah_to_status :: appointment_status
  ah_actor_type :: actor_type
  ah_actor_id :: uuid
  ah_trace_id :: uuid
  ah_version_before :: int
  ah_version_after :: int
  ah_occurred_at :: timestamp
  ah_reason_code :: "string option"
  ah_reason_text :: "string option"
  ah_evidence :: "string list"

record WorkerEventRecord = WorkerEventSnapshot +
  wer_actor_type :: actor_type
  wer_actor_id :: uuid
  wer_trace_id :: uuid
  wer_occurred_at :: timestamp
  wer_payload :: pval

text \<open>\<open>IdempotencyExecutionStatus\<close> and the response envelope that \<open>_result_payload\<close> builds.\<close>

datatype idempotency_status = IS_PENDING | IS_SUCCEEDED | IS_FAILED | IS_UNKNOWN

record ResponsePayload =
  rp_code :: string
  rp_resource_version :: "int option"
  rp_data :: "(string \<times> pval) list"

record StoredIdempotency =
  si_is_new :: bool
  si_request_hash :: string
  si_execution_status :: idempotency_status
  si_resource_type :: "string option"
  si_resource_id :: "uuid option"
  si_response_payload :: "ResponsePayload option"
  si_operation_id :: "uuid option"

section \<open>Domain events\<close>

datatype domain_event_type =
    EV_TICKET_CREATED | EV_TICKET_STATUS_CHANGED | EV_APPOINTMENT_BOOKED
  | EV_APPOINTMENT_RESCHEDULED | EV_TICKET_ESCALATED

fun domain_event_type_value :: "domain_event_type \<Rightarrow> string" where
  "domain_event_type_value EV_TICKET_CREATED = ''ticket.created''"
| "domain_event_type_value EV_TICKET_STATUS_CHANGED = ''ticket.status_changed''"
| "domain_event_type_value EV_APPOINTMENT_BOOKED = ''appointment.booked''"
| "domain_event_type_value EV_APPOINTMENT_RESCHEDULED = ''appointment.rescheduled''"
| "domain_event_type_value EV_TICKET_ESCALATED = ''ticket.escalated''"

datatype aggregate_type = AG_TICKET | AG_APPOINTMENT

fun aggregate_type_value :: "aggregate_type \<Rightarrow> string" where
  "aggregate_type_value AG_TICKET = ''repair_ticket''"
| "aggregate_type_value AG_APPOINTMENT = ''appointment''"

record DomainEvent =
  de_event_id :: uuid
  de_event_key :: string
  de_event_type :: domain_event_type
  de_aggregate_type :: aggregate_type
  de_aggregate_id :: uuid
  de_aggregate_version :: int
  de_operation_id :: uuid
  de_trace_id :: uuid
  de_run_id :: "uuid option"
  de_thread_id :: "uuid option"
  de_actor_type :: string
  de_actor_id :: uuid
  de_occurred_at :: timestamp
  de_payload :: "(string \<times> pval) list"

definition event_namespace :: uuid where
  "event_namespace = 0x26cffbaf1bf958f2a3afb040874b491b"

text \<open>\<open>"|".join\<close> of the parts of an f-string that separates them with bars.\<close>

definition operation_material :: "MutationMetadata \<Rightarrow> string \<Rightarrow> string" where
  "operation_material metadata scope =
     join_with ''|'' [scope, actor_type_value (mm_actor_type metadata),
       uuid_text (mm_actor_id metadata), mm_idempotency_key metadata]"

definition operation_id_for :: "Env \<Rightarrow> MutationMetadata \<Rightarrow> string \<Rightarrow> uuid" where
  "operation_id_for env metadata scope =
     (case mm_operation_id metadata of
        Some operation_id \<Rightarrow> operation_id
      | None \<Rightarrow> env_uuid5 env event_namespace (operation_material metadata scope))"

definition event_material ::
  "domain_event_type \<Rightarrow> uuid \<Rightarrow> int \<Rightarrow> uuid \<Rightarrow> string" where
  "event_material event_type aggregate_id aggregate_version operation_id =
     join_with ''|'' [domain_event_type_value event_type, uuid_text aggregate_id,
       int_text aggregate_version, uuid_text operation_id]"

definition build_domain_event ::
  "Env \<Rightarrow> domain_event_type \<Rightarrow> aggregate_type \<Rightarrow> uuid \<Rightarrow> int \<Rightarrow> MutationMetadata \<Rightarrow> string \<Rightarrow>
   (string \<times> pval) list \<Rightarrow> DomainEvent" where
  "build_domain_event env event_type aggregate_type aggregate_id aggregate_version metadata scope
     payload =
     (let operation_id = operation_id_for env metadata scope;
          event_key = env_sha256 env
            (event_material event_type aggregate_id aggregate_version operation_id)
      in \<lparr>de_event_id = env_uuid5 env event_namespace event_key, de_event_key = event_key,
          de_event_type = event_type, de_aggregate_type = aggregate_type,
          de_aggregate_id = aggregate_id, de_aggregate_version = aggregate_version,
          de_operation_id = operation_id, de_trace_id = mm_trace_id metadata,
          de_run_id = mm_run_id metadata, de_thread_id = mm_thread_id metadata,
          de_actor_type = actor_type_value (mm_actor_type metadata),
          de_actor_id = mm_actor_id metadata, de_occurred_at = mm_occurred_at metadata,
          de_payload = payload\<rparr>)"

section \<open>Payloads\<close>

text \<open>\<open>asdict\<close> of each command; nested dataclasses become nested dictionaries.\<close>

definition str_list :: "string list \<Rightarrow> pval" where
  "str_list xs = PList (map PStr xs)"

definition metadata_dict :: "MutationMetadata \<Rightarrow> (string \<times> pval) list" where
  "metadata_dict m =
     [(''actor_type'', PStr (actor_type_value (mm_actor_type m))),
      (''actor_id'', PUuid (mm_actor_id m)),
      (''trace_id'', PUuid (mm_trace_id m)),
      (''idempotency_key'', PStr (mm_idempotency_key m)),
      (''occurred_at'', PTime (mm_occurred_at m)),
      (''run_id'', opt_uuid (mm_run_id m)),
      (''thread_id'', opt_uuid (mm_thread_id m)),
      (''operation_id'', opt_uuid (mm_operation_id m)),
      (''request_fingerprint'', opt_str (mm_request_fingerprint m))]"

definition create_ticket_payload :: "CreateTicketCommand \<Rightarrow> (string \<times> pval) list" where
  "create_ticket_payload c =
     [(''metadata'', PDict (metadata_dict (ct_metadata c))),
      (''resident_id'', PUuid (ct_resident_id c)),
      (''property_id'', PUuid (ct_property_id c)),
      (''issue_category'', PStr (issue_category_value (ct_issue_category c))),
      (''issue_location'', PStr (ct_issue_location c)),
      (''issue_description'', PStr (ct_issue_description c)),
      (''severity'', PStr (severity_value (ct_severity c))),
      (''allow_duplicate'', PBool (ct_allow_duplicate c))]"

definition book_appointment_payload :: "BookAppointmentCommand \<Rightarrow> (string \<times> pval) list" where
  "book_appointment_payload c =
     [(''metadata'', PDict (metadata_dict (ba_metadata c))),
      (''ticket_id'', PUuid (ba_ticket_id c)),
      (''worker_id'', PUuid (ba_worker_id c)),
      (''starts_at'', PTime (ba_starts_at c)),
      (''ends_at'', PTime (ba_ends_at c)),
      (''expected_ticket_version'', PInt (ba_expected_ticket_version c))]"

definition reschedule_appointment_payload ::
  "RescheduleAppointmentCommand \<Rightarrow> (string \<times> pval) list" where
  "reschedule_appointment_payload c =
     [(''metadata'', PDict (metadata_dict (ra_metadata c))),
      (''ticket_id'', PUuid (ra_ticket_id c)),
      (''appointment_id'', PUuid (ra_appointment_id c)),
      (''worker_id'', PUuid (ra_worker_id c)),
      (''starts_at'', PTime (ra_starts_at c)),
      (''ends_at'', PTime (ra_ends_at c)),
      (''expected_ticket_version'', PInt (ra_expected_ticket_version c)),
      (''expected_appointment_version'', PInt (ra_expected_appointment_version c))]"

definition record_worker_event_payload ::
  "RecordWorkerEventCommand \<Rightarrow> (string \<times> pval) list" where
  "record_worker_event_payload c =
     [(''metadata'', PDict (metadata_dict (rw_metadata c))),
      (''ticket_id'', PUuid (rw_ticket_id c)),
      (''appointment_id'', PUuid (rw_appointment_id c)),
      (''subject_worker_id'', PUuid (rw_subject_worker_id c)),
      (''event_type'', PStr (worker_event_type_value (rw_event_type c))),
      (''external_event_key'', PStr (rw_external_event_key c)),
      (''expected_ticket_version'', PInt (rw_expected_ticket_version c)),
      (''expected_appointment_version'', PInt (rw_expected_appointment_version c)),
      (''cancellation_reason'',
         opt_str (map_option cancellation_reason_value (rw_cancellation_reason c))),
      (''no_show_reason'', opt_str (map_option no_show_reason_value (rw_no_show_reason c))),
      (''reason_text'', opt_str (rw_reason_text c)),
      (''evidence'', str_list (rw_evidence c)),
      (''failure_reason'', opt_str (map_option failure_reason_value (rw_failure_reason c))),
      (''worker_statement'', opt_str (rw_worker_statement c))]"

definition review_repair_payload :: "ReviewRepairCommand \<Rightarrow> (string \<times> pval) list" where
  "review_repair_payload c =
     [(''metadata'', PDict (metadata_dict (rr_metadata c))),
      (''ticket_id'', PUuid (rr_ticket_id c)),
      (''expected_ticket_version'', PInt (rr_expected_ticket_version c)),
      (''accepted'', PBool (rr_accepted c)),
      (''expected_appointment_version'', opt_int (rr_expected_appointment_version c)),
      (''rejection_reason'',
         opt_str (map_option acceptance_rejection_reason_value (rr_rejection_reason c))),
      (''explanation'', opt_str (rr_explanation c))]"

definition escalate_ticket_payload :: "EscalateTicketCommand \<Rightarrow> (string \<times> pval) list" where
  "escalate_ticket_payload c =
     [(''metadata'', PDict (metadata_dict (et_metadata c))),
      (''ticket_id'', PUuid (et_ticket_id c)),
      (''expected_ticket_version'', PInt (et_expected_ticket_version c)),
      (''reason_code'', PStr (et_reason_code c)),
      (''reason_text'', PStr (et_reason_text c)),
      (''evidence'', str_list (et_evidence c))]"

definition recover_ticket_payload :: "RecoverTicketCommand \<Rightarrow> (string \<times> pval) list" where
  "recover_ticket_payload c =
     [(''metadata'', PDict (metadata_dict (rc_metadata c))),
      (''ticket_id'', PUuid (rc_ticket_id c)),
      (''expected_ticket_version'', PInt (rc_expected_ticket_version c)),
      (''disposition'', PStr (escalation_disposition_value (rc_disposition c))),
      (''conflict_resolved'', PBool (rc_conflict_resolved c)),
      (''resident_acceptance'', opt_bool (rc_resident_acceptance c)),
      (''rework_recorded'', PBool (rc_rework_recorded c)),
      (''reason_text'', opt_str (rc_reason_text c)),
      (''evidence'', str_list (rc_evidence c))]"

section \<open>Request identity and results\<close>

text \<open>\<open>metadata.pop\<close> of the three retry-dependent keys.\<close>

definition retry_keys :: "string set" where
  "retry_keys = {''idempotency_key'', ''trace_id'', ''occurred_at''}"

fun semantic_entry :: "string \<times> pval \<Rightarrow> string \<times> pval" where
  "semantic_entry (k, PDict kvs) =
     (k, if k = ''metadata'' then PDict (filter (\<lambda>(f, _). f \<notin> retry_keys) kvs) else PDict kvs)"
| "semantic_entry (k, v) = (k, v)"

definition semantic_payload :: "(string \<times> pval) list \<Rightarrow> (string \<times> pval) list" where
  "semantic_payload payload = map semantic_entry payload"

definition request_hash :: "Env \<Rightarrow> (string \<times> pval) list \<Rightarrow> string" where
  "request_hash env payload =
     env_sha256 env (json_dumps (json_value (PDict (semantic_payload payload))))"

text \<open>\<open>metadata.request_fingerprint or _request_hash (payload)\<close>: an empty fingerprint is falsy.\<close>

definition request_digest :: "Env \<Rightarrow> MutationMetadata \<Rightarrow> (string \<times> pval) list \<Rightarrow> string" where
  "request_digest env metadata payload =
     (case mm_request_fingerprint metadata of
        Some fingerprint \<Rightarrow> if fingerprint = [] then request_hash env payload else fingerprint
      | None \<Rightarrow> request_hash env payload)"

definition json_dict :: "(string \<times> pval) list \<Rightarrow> (string \<times> pval) list" where
  "json_dict kvs = map (\<lambda>(k, v). (k, json_value v)) kvs"

definition result_payload :: "OperationResult \<Rightarrow> ResponsePayload" where
  "result_payload result =
     \<lparr>rp_code = or_code result, rp_resource_version = or_resource_version result,
      rp_data = json_dict (or_data result)\<rparr>"

definition replay_result ::
  "string option \<Rightarrow> uuid option \<Rightarrow> ResponsePayload option \<Rightarrow> OperationResult" where
  "replay_result resource_type resource_id payload =
     \<lparr>or_ok = True,
      or_code = (case payload of None \<Rightarrow> ''OK'' | Some p \<Rightarrow> rp_code p),
      or_resource_type = resource_type, or_resource_id = resource_id,
      or_resource_version = (case payload of None \<Rightarrow> None | Some p \<Rightarrow> rp_resource_version p),
      or_replayed = True,
      or_data = (case payload of None \<Rightarrow> [] | Some p \<Rightarrow> rp_data p)\<rparr>"

definition failure_result :: "exn \<Rightarrow> OperationResult" where
  "failure_result e =
     \<lparr>or_ok = False, or_code = exn_code e, or_resource_type = None, or_resource_id = None,
      or_resource_version = None, or_replayed = False,
      or_data = [(''context'', PDict (exn_context e))]\<rparr>"

text \<open>The success value of a handler.\<close>

definition success_result ::
  "string \<Rightarrow> string \<Rightarrow> uuid \<Rightarrow> int \<Rightarrow> (string \<times> pval) list \<Rightarrow> OperationResult" where
  "success_result code resource_type resource_id version data =
     \<lparr>or_ok = True, or_code = code, or_resource_type = Some resource_type,
      or_resource_id = Some resource_id, or_resource_version = Some version,
      or_replayed = False, or_data = data\<rparr>"

text \<open>The three retry keys do not reach the hash: a retry with a new trace, a new clock reading
  and even a new key still has the identity of the first request.\<close>

lemma semantic_metadata_eq:
  assumes "mm_actor_type m = mm_actor_type m'" and "mm_actor_id m = mm_actor_id m'"
    and "mm_run_id m = mm_run_id m'" and "mm_thread_id m = mm_thread_id m'"
    and "mm_operation_id m = mm_operation_id m'"
    and "mm_request_fingerprint m = mm_request_fingerprint m'"
  shows "semantic_entry (''metadata'', PDict (metadata_dict m)) =
    semantic_entry (''metadata'', PDict (metadata_dict m'))"
  using assms by (simp add: metadata_dict_def retry_keys_def)

end
