(* ===== verification/Store.thy ===== *)
theory Store
  imports Commands
begin

text \<open>
  The persistence layer under \<open>backend/app/infrastructure/database/\<close>: the tables as lists of
  rows (\<open>models/*.py\<close>), the transaction boundary (\<open>uow.py\<close>), the row mappings
  (\<open>mappers.py\<close>) and the SQL repositories (\<open>repositories/*.py\<close>), with the named constraints
  that PostgreSQL enforces.

  A use case runs as an \<open>action\<close> on a session: the committed tables and the working tables of
  the open transaction. Rows added to the SQLAlchemy session are inserted when they are added,
  and a violated constraint is reported there with the error that \<open>flush\<close> translates it to; in
  the handlers nothing that can fail lies between an \<open>add\<close> and the flush that follows it.
\<close>

section \<open>Rows\<close>

record UserRow =
  us_id :: uuid
  us_role :: string
  us_is_active :: bool

record PropertyRow =
  pr_id :: uuid
  pr_community_name :: string
  pr_building_no :: string
  pr_unit_no :: string
  pr_room_no :: string
  pr_address_text :: string
  pr_is_active :: bool

record RelationRow =
  rl_resident_id :: uuid
  rl_property_id :: uuid
  rl_is_active :: bool

record WorkerRow =
  wk_id :: uuid
  wk_name :: string
  wk_service_area :: string
  wk_is_active :: bool

text \<open>A bounded or unbounded \<open>tstzrange\<close> with its bound flags.\<close>

record TstzRange =
  rg_lower :: "timestamp option"
  rg_upper :: "timestamp option"
  rg_lower_inc :: bool
  rg_upper_inc :: bool

record AvailabilityRow =
  av_worker_id :: uuid
  av_range :: TstzRange

record TicketRow = TicketSnapshot +
  tk_created_at :: timestamp

text \<open>The six \<open>outcome_*\<close> columns, written together or left null.\<close>

record OutcomeColumns =
  oc_actor_type :: actor_type
  oc_actor_id :: uuid
  oc_reason_code :: string
  oc_reason_text :: string
  oc_evidence :: "string list"
  oc_occurred_at :: timestamp

text \<open>\<open>scheduled_range\<close> is \<open>[starts_at, ends_at)\<close>, the only shape that is written.\<close>

record AppointmentRow = AppointmentSnapshot +
  ap_outcome :: "OutcomeColumns option"
  ap_created_at :: timestamp

record IdempotencyRow =
  ir_scope :: string
  ir_actor_type :: actor_type
  ir_actor_id :: uuid
  ir_idempotency_key :: string
  ir_request_hash :: string
  ir_operation_id :: "uuid option"
  ir_execution_status :: idempotency_status
  ir_resource_type :: "string option"
  ir_resource_id :: "uuid option"
  ir_response_payload :: "ResponsePayload option"

datatype outbox_status = OS_PENDING | OS_PROCESSING | OS_DISPATCHED | OS_DEAD_LETTER

record OutboxRow = DomainEvent +
  ob_status :: outbox_status
  ob_available_at :: timestamp
  ob_claimed_by :: "string option"
  ob_claim_token :: "uuid option"
  ob_claim_expires_at :: "timestamp option"
  ob_attempt_count :: int
  ob_last_error_code :: "string option"
  ob_last_error_message :: "string option"
  ob_created_at :: timestamp
  ob_dispatched_at :: "timestamp option"

record db =
  db_users :: "UserRow list"
  db_properties :: "PropertyRow list"
  db_relations :: "RelationRow list"
  db_workers :: "WorkerRow list"
  db_skills :: "(uuid \<times> worker_skill_type) list"
  db_availability :: "AvailabilityRow list"
  db_tickets :: "TicketRow list"
  db_ticket_history :: "TicketHistoryRecord list"
  db_appointments :: "AppointmentRow list"
  db_appointment_history :: "AppointmentHistoryRecord list"
  db_worker_events :: "WorkerEventRecord list"
  db_idempotency :: "IdempotencyRow list"
  db_outbox :: "OutboxRow list"

section \<open>Sessions and actions\<close>

record session =
  se_committed :: db
  se_working :: db

type_synonym 'a action = "session \<Rightarrow> 'a outcome \<times> session"

definition returnA :: "'a \<Rightarrow> 'a action" where
  "returnA x s = (Inr x, s)"

definition raiseA :: "exn \<Rightarrow> 'a action" where
  "raiseA e s = (Inl e, s)"

definition bindA :: "'a action \<Rightarrow> ('a \<Rightarrow> 'b action) \<Rightarrow> 'b action" where
  "bindA m f s = (case m s of (Inl e, s') \<Rightarrow> (Inl e, s') | (Inr x, s') \<Rightarrow> f x s')"

text \<open>A pure rule of the domain layer, a read of the working tables, a write to them, a guard.\<close>

definition liftA :: "'a outcome \<Rightarrow> 'a action" where
  "liftA r s = (r, s)"

definition queryA :: "(db \<Rightarrow> 'a) \<Rightarrow> 'a action" where
  "queryA q s = (Inr (q (se_working s)), s)"

definition updateA :: "(db \<Rightarrow> db) \<Rightarrow> unit action" where
  "updateA g s = (Inr (), s\<lparr>se_working := g (se_working s)\<rparr>)"

definition raise_ifA :: "bool \<Rightarrow> exn \<Rightarrow> unit action" where
  "raise_ifA c e s = (if c then (Inl e, s) else (Inr (), s))"

text \<open>A statement that the database may refuse, and that otherwise writes.\<close>

definition writeA :: "(db \<Rightarrow> exn option) \<Rightarrow> (db \<Rightarrow> db) \<Rightarrow> unit action" where
  "writeA refused g s = (case refused (se_working s) of
      Some e \<Rightarrow> (Inl e, s)
    | None \<Rightarrow> (Inr (), s\<lparr>se_working := g (se_working s)\<rparr>))"

lemma action_Inr_iff [inversion_simps]:
  "returnA x s = (Inr y, s') \<longleftrightarrow> x = y \<and> s' = s"
  "raiseA e s = (Inr y, s') \<longleftrightarrow> False"
  "bindA m f s = (Inr y, s') \<longleftrightarrow> (\<exists>x s1. m s = (Inr x, s1) \<and> f x s1 = (Inr y, s'))"
  "liftA r s = (Inr y, s') \<longleftrightarrow> r = Inr y \<and> s' = s"
  "queryA q s = (Inr y, s') \<longleftrightarrow> q (se_working s) = y \<and> s' = s"
  "updateA g s = (Inr u, s') \<longleftrightarrow> s' = s\<lparr>se_working := g (se_working s)\<rparr>"
  "raise_ifA c e s = (Inr u, s') \<longleftrightarrow> \<not> c \<and> s' = s"
  "writeA refused g s = (Inr u, s') \<longleftrightarrow>
     refused (se_working s) = None \<and> s' = s\<lparr>se_working := g (se_working s)\<rparr>"
  by (auto simp: returnA_def raiseA_def bindA_def liftA_def queryA_def updateA_def raise_ifA_def
      writeA_def split: sum.splits prod.splits option.splits)

lemma action_split_Inr_iff [inversion_simps]:
  "(case z of None \<Rightarrow> a | Some x \<Rightarrow> f x) s = (Inr y, s') \<longleftrightarrow>
     z = None \<and> a s = (Inr y, s') \<or> (\<exists>x. z = Some x \<and> f x s = (Inr y, s'))"
  "(case w of Inl v \<Rightarrow> g v | Inr u \<Rightarrow> h u) s = (Inr y, s') \<longleftrightarrow>
     (\<exists>v. w = Inl v \<and> g v s = (Inr y, s')) \<or> (\<exists>u. w = Inr u \<and> h u s = (Inr y, s'))"
  "(if c then a else b) s = (Inr y, s') \<longleftrightarrow>
     c \<and> a s = (Inr y, s') \<or> \<not> c \<and> b s = (Inr y, s')"
  by (cases z; cases w; simp)+

text \<open>Actions that leave the committed tables alone, whatever their outcome.\<close>

definition uncommitted :: "'a action \<Rightarrow> bool" where
  "uncommitted m \<longleftrightarrow> (\<forall>s. se_committed (snd (m s)) = se_committed s)"

lemma uncommitted_basic [committed_simps]:
  "uncommitted (returnA x)" "uncommitted (raiseA e)" "uncommitted (liftA r)"
  "uncommitted (queryA q)" "uncommitted (updateA g)" "uncommitted (raise_ifA c e)"
  "uncommitted (writeA refused g)"
  by (auto simp: uncommitted_def returnA_def raiseA_def liftA_def queryA_def updateA_def
      raise_ifA_def writeA_def split: option.splits)

lemma uncommitted_bindA [committed_simps]:
  assumes "uncommitted m" and "\<And>x. uncommitted (f x)"
  shows "uncommitted (bindA m f)"
  unfolding uncommitted_def
proof
  fix s
  obtain r s1 where m: "m s = (r, s1)" by fastforce
  have "se_committed s1 = se_committed s"
    using assms(1) m by (auto simp: uncommitted_def dest: spec [of _ s])
  moreover have "se_committed (snd (f x s1)) = se_committed s1" for x
    using assms(2) by (auto simp: uncommitted_def)
  ultimately show "se_committed (snd (bindA m f s)) = se_committed s"
    using m by (auto simp: bindA_def split: sum.splits)
qed

lemma uncommitted_if [committed_simps]:
  "uncommitted a \<Longrightarrow> uncommitted b \<Longrightarrow> uncommitted (if c then a else b)"
  by simp

lemma uncommitted_case_option [committed_simps]:
  "uncommitted a \<Longrightarrow> (\<And>x. uncommitted (f x)) \<Longrightarrow>
   uncommitted (case x of None \<Rightarrow> a | Some y \<Rightarrow> f y)"
  by (cases x) simp_all

text \<open>Actions that leave a part of the working tables alone, and actions whose successful value
  satisfies a predicate.\<close>

definition keeps :: "(db \<Rightarrow> 'b) \<Rightarrow> 'a action \<Rightarrow> bool" where
  "keeps g m \<longleftrightarrow> (\<forall>s. g (se_working (snd (m s))) = g (se_working s))"

definition yields :: "('a \<Rightarrow> bool) \<Rightarrow> 'a action \<Rightarrow> bool" where
  "yields p m \<longleftrightarrow> (\<forall>s x s'. m s = (Inr x, s') \<longrightarrow> p x)"

lemma keeps_basic [frame_simps]:
  "keeps g (returnA x)" "keeps g (raiseA e)" "keeps g (liftA r)" "keeps g (queryA q)"
  "keeps g (raise_ifA c e)"
  "(\<And>d. g (f d) = g d) \<Longrightarrow> keeps g (updateA f)"
  "(\<And>d. g (f d) = g d) \<Longrightarrow> keeps g (writeA refused f)"
  by (auto simp: keeps_def returnA_def raiseA_def liftA_def queryA_def updateA_def
      raise_ifA_def writeA_def split: option.splits)

lemma keeps_bindA [frame_simps]:
  assumes "keeps g m" and "\<And>x. keeps g (f x)"
  shows "keeps g (bindA m f)"
  unfolding keeps_def
proof
  fix s
  obtain r s1 where m: "m s = (r, s1)" by fastforce
  have "g (se_working s1) = g (se_working s)"
    using assms(1) m by (auto simp: keeps_def dest: spec [of _ s])
  moreover have "g (se_working (snd (f x s1))) = g (se_working s1)" for x
    using assms(2) by (auto simp: keeps_def)
  ultimately show "g (se_working (snd (bindA m f s))) = g (se_working s)"
    using m by (auto simp: bindA_def split: sum.splits)
qed

lemma keeps_split [frame_simps]:
  "keeps g a \<Longrightarrow> keeps g b \<Longrightarrow> keeps g (if c then a else b)"
  "keeps g a \<Longrightarrow> (\<And>x. keeps g (h x)) \<Longrightarrow> keeps g (case z of None \<Rightarrow> a | Some y \<Rightarrow> h y)"
  by (simp_all split: option.splits)

lemma keepsD: "keeps g m \<Longrightarrow> m s = (r, s') \<Longrightarrow> g (se_working s') = g (se_working s)"
  unfolding keeps_def by (metis snd_conv)

lemma yields_basic [frame_simps]:
  "yields p (returnA x) \<longleftrightarrow> p x" "yields p (raiseA e)"
  by (auto simp: yields_def returnA_def raiseA_def)

lemma yields_bindA [frame_simps]: "(\<And>x. yields p (f x)) \<Longrightarrow> yields p (bindA m f)"
  by (auto simp: yields_def inversion_simps)

lemma yields_split [frame_simps]:
  "yields p a \<Longrightarrow> yields p b \<Longrightarrow> yields p (if c then a else b)"
  "yields p a \<Longrightarrow> (\<And>x. yields p (h x)) \<Longrightarrow> yields p (case z of None \<Rightarrow> a | Some y \<Rightarrow> h y)"
  by (simp_all split: option.splits)

lemma yieldsD: "yields p m \<Longrightarrow> m s = (Inr x, s') \<Longrightarrow> p x"
  by (auto simp: yields_def)

section \<open>Integrity errors\<close>

text \<open>What the driver's exception, its cause and its context offer about a violation.\<close>

record DriverError =
  dr_sqlstate :: "string option"
  dr_pgcode :: "string option"
  dr_constraint_name :: "string option"

text \<open>\<open>next (..., None)\<close> over the values that are not \<open>None\<close>.\<close>

definition first_some :: "'a option list \<Rightarrow> 'a option" where
  "first_some xs = (case find (\<lambda>x. x \<noteq> None) xs of None \<Rightarrow> None | Some x \<Rightarrow> x)"

definition named_constraints :: "(string \<times> (exn_class \<times> string)) list" where
  "named_constraints =
     [(''uq_appointments_ticket_booked'',
         (ActiveAppointmentExists, ''active_appointment_exists'')),
      (''ex_appointments_worker_booked_overlap'',
         (AppointmentTimeConflict, ''appointment_time_conflict'')),
      (''uq_appointments_supersedes_appointment_id'',
         (PersistenceConflict, ''reschedule_conflict'')),
      (''uq_worker_events_appointment_sequence'',
         (PersistenceConflict, ''worker_event_sequence_conflict'')),
      (''uq_worker_events_external_event_key'',
         (PersistenceConflict, ''worker_event_identity_conflict''))]"

definition state_codes :: "(string \<times> string) list" where
  "state_codes =
     [(''23505'', ''database_unique_conflict''), (''23P01'', ''database_exclusion_conflict''),
      (''23503'', ''database_foreign_key_conflict''), (''23514'', ''database_check_conflict'')]"

definition translate_integrity_error :: "DriverError list \<Rightarrow> exn" where
  "translate_integrity_error candidates =
     (let sqlstate = first_some (concat (map (\<lambda>c. [dr_sqlstate c, dr_pgcode c]) candidates));
          cname = first_some (map dr_constraint_name candidates);
          context = [(''constraint'', opt_str cname), (''sqlstate'', opt_str sqlstate)]
      in case map_of named_constraints (case cname of None \<Rightarrow> [] | Some c \<Rightarrow> c) of
           Some (error_type, code) \<Rightarrow> Exn error_type code context
         | None \<Rightarrow> Exn DatabaseIntegrityFailure
             (case map_of state_codes (case sqlstate of None \<Rightarrow> [] | Some s \<Rightarrow> s) of
                None \<Rightarrow> ''database_integrity_failure'' | Some code \<Rightarrow> code)
             (rev context))"

text \<open>Every translated error is a persistence conflict, so \<open>execute\<close> turns it into a failure.\<close>

lemma translate_integrity_error_conflict:
  "is_persistence_conflict (translate_integrity_error candidates)"
proof -
  have known: "c \<in> {ActiveAppointmentExists, AppointmentTimeConflict, PersistenceConflict}"
    if "map_of named_constraints k = Some (c, s)" for k c s
    using map_of_SomeD [OF that] by (auto simp: named_constraints_def)
  show ?thesis
    by (auto simp: translate_integrity_error_def is_persistence_conflict_def Let_def
        split: option.splits dest!: known)
qed

text \<open>The constraints of a table in their order: the name of the first one that fails.\<close>

definition first_failed :: "(bool \<times> 'a) list \<Rightarrow> 'a option" where
  "first_failed checks = map_option snd (find (\<lambda>c. \<not> fst c) checks)"

lemma first_failed_simps [simp]:
  "first_failed [] = None"
  "first_failed ((ok, x) # checks) = (if ok then first_failed checks else Some x)"
  by (simp_all add: first_failed_def)

definition constraint_error :: "string \<Rightarrow> string \<Rightarrow> exn" where
  "constraint_error sqlstate cname = translate_integrity_error
     [\<lparr>dr_sqlstate = Some sqlstate, dr_pgcode = Some sqlstate, dr_constraint_name = Some cname\<rparr>]"

text \<open>A row of the checks of one statement: does it hold, and the error \<open>flush\<close> raises if not.\<close>

definition unique_check :: "bool \<Rightarrow> string \<Rightarrow> bool \<times> exn" where
  "unique_check holds cname = (holds, constraint_error ''23505'' cname)"

definition row_check :: "bool \<Rightarrow> string \<Rightarrow> bool \<times> exn" where
  "row_check holds cname = (holds, constraint_error ''23514'' cname)"

definition exclusion_check :: "bool \<Rightarrow> string \<Rightarrow> bool \<times> exn" where
  "exclusion_check holds cname = (holds, constraint_error ''23P01'' cname)"

definition fk_check :: "bool \<Rightarrow> string \<Rightarrow> bool \<times> exn" where
  "fk_check holds cname = (holds, constraint_error ''23503'' cname)"

lemma first_failed_checks [simp]:
  "first_failed (unique_check ok n # cs) = None \<longleftrightarrow> ok \<and> first_failed cs = None"
  "first_failed (row_check ok n # cs) = None \<longleftrightarrow> ok \<and> first_failed cs = None"
  "first_failed (exclusion_check ok n # cs) = None \<longleftrightarrow> ok \<and> first_failed cs = None"
  "first_failed (fk_check ok n # cs) = None \<longleftrightarrow> ok \<and> first_failed cs = None"
  by (simp_all add: unique_check_def row_check_def exclusion_check_def fk_check_def)

lemma first_failed_True [simp]:
  "first_failed (unique_check True n # cs) = first_failed cs"
  "first_failed (row_check True n # cs) = first_failed cs"
  "first_failed (exclusion_check True n # cs) = first_failed cs"
  "first_failed (fk_check True n # cs) = first_failed cs"
  by (simp_all add: unique_check_def row_check_def exclusion_check_def fk_check_def)

lemma first_failed_append:
  "first_failed (xs @ ys) = None \<longleftrightarrow> first_failed xs = None \<and> first_failed ys = None"
  by (induction xs) (auto split: if_splits)

text \<open>
  The same violation in an \<open>UPDATE\<close> that a repository executes directly: nothing translates
  that exception, it leaves the use case as SQLAlchemy's \<open>IntegrityError\<close>.
\<close>

definition raw_error :: "exn \<Rightarrow> exn" where
  "raw_error e = Exn IntegrityError (exn_code e) (exn_context e)"

section \<open>Table constraints\<close>

text \<open>The CHECK constraints of \<open>repair_tickets\<close>.\<close>

definition ticket_row_checks :: "('a TicketSnapshot_scheme) \<Rightarrow> (bool \<times> exn) list" where
  "ticket_row_checks t =
     [row_check (0 \<le> ts_rework_count t) ''ck_repair_tickets_rework_count_nonnegative'',
      row_check (0 < ts_version t) ''ck_repair_tickets_version_positive'',
      row_check ((ts_status t = TS_ESCALATED) = (ts_escalated_from t \<noteq> None))
        ''ck_repair_tickets_escalation_prior_consistent'',
      row_check (ts_escalated_from t \<in> insert None (Some ` escalatable_ticket_statuses))
        ''ck_repair_tickets_escalation_prior_values'',
      row_check (btrim (ts_issue_location t) \<noteq> [] \<and> btrim (ts_issue_description t) \<noteq> [])
        ''ck_repair_tickets_issue_description_present'']"

definition ticket_insert_checks :: "TicketRow \<Rightarrow> db \<Rightarrow> (bool \<times> exn) list" where
  "ticket_insert_checks t d = ticket_row_checks t @
     [unique_check (ts_ticket_id t \<notin> ts_ticket_id ` set (db_tickets d)) ''pk_repair_tickets'',
      fk_check (ts_resident_id t \<in> us_id ` set (db_users d))
        ''fk_repair_tickets_resident_id_users'',
      fk_check (ts_property_id t \<in> pr_id ` set (db_properties d))
        ''fk_repair_tickets_property_id_properties'']"

text \<open>The CHECK constraints of \<open>appointments\<close>; an empty range is the one with equal bounds.\<close>

definition appointment_row_checks :: "AppointmentRow \<Rightarrow> (bool \<times> exn) list" where
  "appointment_row_checks a =
     [row_check (as_starts_at a \<noteq> as_ends_at a) ''ck_appointments_scheduled_range_nonempty'',
      row_check (0 < as_version a) ''ck_appointments_version_positive'',
      row_check (as_supersedes a \<noteq> Some (as_appointment_id a))
        ''ck_appointments_not_self_superseding'',
      row_check ((as_status a \<in> {AS_CANCELLED, AS_NO_SHOW}) = (ap_outcome a \<noteq> None))
        ''ck_appointments_terminal_outcome_metadata_consistent'']"

text \<open>The unique indexes and the exclusion constraint, against the other rows of the table.\<close>

definition ranges_overlap :: "'a AppointmentSnapshot_scheme \<Rightarrow> 'b AppointmentSnapshot_scheme \<Rightarrow> bool"
where
  "ranges_overlap a b \<longleftrightarrow> as_starts_at a < as_ends_at b \<and> as_starts_at b < as_ends_at a"

definition appointment_table_checks ::
  "AppointmentRow \<Rightarrow> AppointmentRow list \<Rightarrow> (bool \<times> exn) list" where
  "appointment_table_checks a others =
     [unique_check (\<forall>b \<in> set others. \<not> (as_status a = AS_BOOKED \<and> as_status b = AS_BOOKED \<and>
          as_ticket_id a = as_ticket_id b)) ''uq_appointments_ticket_booked'',
      unique_check (\<forall>b \<in> set others. as_supersedes a = None \<or> as_supersedes a \<noteq> as_supersedes b)
        ''uq_appointments_supersedes_appointment_id'',
      exclusion_check (\<forall>b \<in> set others. \<not> (as_status a = AS_BOOKED \<and> as_status b = AS_BOOKED \<and>
          as_worker_id a = as_worker_id b \<and> ranges_overlap a b))
        ''ex_appointments_worker_booked_overlap'']"

definition appointment_insert_checks :: "AppointmentRow \<Rightarrow> db \<Rightarrow> (bool \<times> exn) list" where
  "appointment_insert_checks a d = appointment_row_checks a @
     unique_check (as_appointment_id a \<notin> as_appointment_id ` set (db_appointments d))
       ''pk_appointments'' # appointment_table_checks a (db_appointments d) @
     [fk_check (as_ticket_id a \<in> ts_ticket_id ` set (db_tickets d))
        ''fk_appointments_ticket_id_repair_tickets'',
      fk_check (as_worker_id a \<in> wk_id ` set (db_workers d))
        ''fk_appointments_worker_id_workers'']"

definition worker_event_insert_checks :: "WorkerEventRecord \<Rightarrow> db \<Rightarrow> (bool \<times> exn) list" where
  "worker_event_insert_checks e d =
     [row_check (0 < we_sequence_no e) ''ck_worker_events_sequence_positive'',
      unique_check (we_event_id e \<notin> we_event_id ` set (db_worker_events d)) ''pk_worker_events'',
      unique_check (\<forall>b \<in> set (db_worker_events d).
          (we_appointment_id e, we_sequence_no e) \<noteq> (we_appointment_id b, we_sequence_no b))
        ''uq_worker_events_appointment_sequence'',
      unique_check (we_external_event_key e \<notin> we_external_event_key ` set (db_worker_events d))
        ''uq_worker_events_external_event_key'',
      fk_check (we_appointment_id e \<in> as_appointment_id ` set (db_appointments d))
        ''fk_worker_events_appointment_id_appointments'',
      fk_check (we_subject_worker_id e \<in> wk_id ` set (db_workers d))
        ''fk_worker_events_subject_worker_id_workers'']"

definition outbox_insert_checks :: "OutboxRow \<Rightarrow> db \<Rightarrow> (bool \<times> exn) list" where
  "outbox_insert_checks e d =
     [row_check (0 < de_aggregate_version e) ''ck_outbox_events_aggregate_version_positive'',
      row_check (0 \<le> ob_attempt_count e) ''ck_outbox_events_attempt_count_nonnegative'',
      unique_check (de_event_id e \<notin> de_event_id ` set (db_outbox d)) ''pk_outbox_events'',
      unique_check (de_event_key e \<notin> de_event_key ` set (db_outbox d))
        ''uq_outbox_events_event_key'']"

text \<open>The version step of both history tables.\<close>

definition history_checks :: "int \<Rightarrow> int \<Rightarrow> string \<Rightarrow> (bool \<times> exn) list" where
  "history_checks before after table_name =
     [row_check (0 \<le> before) (''ck_'' @ table_name @ ''_version_before_nonnegative''),
      row_check (after = before + 1) (''ck_'' @ table_name @ ''_version_step'')]"

section \<open>Ticket repository\<close>

definition ticket_to_snapshot :: "TicketRow \<Rightarrow> TicketSnapshot" where
  "ticket_to_snapshot row = TicketSnapshot.truncate row"

definition find_ticket :: "uuid \<Rightarrow> db \<Rightarrow> TicketSnapshot option" where
  "find_ticket ticket_id d =
     map_option ticket_to_snapshot (find (\<lambda>r. ts_ticket_id r = ticket_id) (db_tickets d))"

definition tickets_get :: "uuid \<Rightarrow> TicketSnapshot option action" where
  "tickets_get ticket_id = queryA (find_ticket ticket_id)"

definition resident_has_property :: "uuid \<Rightarrow> uuid \<Rightarrow> db \<Rightarrow> bool" where
  "resident_has_property resident_id property_id d \<longleftrightarrow>
     (\<exists>r \<in> set (db_relations d). rl_resident_id r = resident_id \<and>
        rl_property_id r = property_id \<and> rl_is_active r)"

definition actor_is_operator :: "uuid \<Rightarrow> db \<Rightarrow> bool" where
  "actor_is_operator actor_id d \<longleftrightarrow>
     (\<exists>u \<in> set (db_users d). us_id u = actor_id \<and> us_role u = ''OPERATOR'' \<and> us_is_active u)"

text \<open>The predicate that both exact-match queries select by.\<close>

definition exact_open_match :: "uuid \<Rightarrow> uuid \<Rightarrow> issue_category \<Rightarrow> string \<Rightarrow> TicketRow \<Rightarrow> bool" where
  "exact_open_match resident_id property_id category location r \<longleftrightarrow>
     ts_resident_id r = resident_id \<and> ts_property_id r = property_id \<and>
     ts_issue_category r = category \<and>
     lower (btrim (ts_issue_location r)) = lower (strip location) \<and>
     ts_status r \<notin> {TS_CLOSED, TS_CANCELLED}"

definition has_exact_open_match :: "uuid \<Rightarrow> uuid \<Rightarrow> issue_category \<Rightarrow> string \<Rightarrow> db \<Rightarrow> bool" where
  "has_exact_open_match resident_id property_id category location d \<longleftrightarrow>
     (\<exists>r \<in> set (db_tickets d). exact_open_match resident_id property_id category location r)"

definition find_exact_open_matches ::
  "uuid \<Rightarrow> uuid \<Rightarrow> issue_category \<Rightarrow> string \<Rightarrow> db \<Rightarrow> TicketSnapshot list" where
  "find_exact_open_matches resident_id property_id category location d =
     map ticket_to_snapshot (sort_key (\<lambda>r. (tk_created_at r, ts_ticket_id r))
       (filter (exact_open_match resident_id property_id category location) (db_tickets d)))"

definition ticket_row_of :: "Env \<Rightarrow> TicketSnapshot \<Rightarrow> TicketRow" where
  "ticket_row_of env snapshot =
     TicketSnapshot.extend snapshot \<lparr>tk_created_at = env_now env\<rparr>"

definition tickets_add :: "Env \<Rightarrow> TicketSnapshot \<Rightarrow> unit action" where
  "tickets_add env snapshot =
     writeA (\<lambda>d. first_failed (ticket_insert_checks (ticket_row_of env snapshot) d))
       (\<lambda>d. d\<lparr>db_tickets := db_tickets d @ [ticket_row_of env snapshot]\<rparr>)"

text \<open>The columns that the \<open>UPDATE\<close> sets; \<open>version\<close> is incremented in SQL.\<close>

definition ticket_columns :: "TicketSnapshot \<Rightarrow> TicketRow \<Rightarrow> TicketRow" where
  "ticket_columns snapshot r =
     r\<lparr>ts_status := ts_status snapshot, ts_escalated_from := ts_escalated_from snapshot,
       ts_rework_count := ts_rework_count snapshot, ts_version := ts_version r + 1,
       ts_cancelled_at := ts_cancelled_at snapshot, ts_closed_at := ts_closed_at snapshot\<rparr>"

definition ticket_hit :: "uuid \<Rightarrow> int \<Rightarrow> TicketRow \<Rightarrow> bool" where
  "ticket_hit ticket_id version r \<longleftrightarrow> ts_ticket_id r = ticket_id \<and> ts_version r = version"

definition ticket_update_refused :: "TicketSnapshot \<Rightarrow> int \<Rightarrow> db \<Rightarrow> exn option" where
  "ticket_update_refused snapshot expected_version d =
     (let hits = filter (ticket_hit (ts_ticket_id snapshot) expected_version) (db_tickets d)
      in if ts_version snapshot \<noteq> expected_version + 1
         then Some (Exn PersistenceConflict ''invalid_version_step'' [])
         else case first_failed (concat (map (ticket_row_checks \<circ> ticket_columns snapshot) hits)) of
             Some e \<Rightarrow> Some (raw_error e)
           | None \<Rightarrow>
               if length hits \<noteq> 1
               then Some (Exn PersistenceConflict ''version_conflict''
                      [(''resource_type'', PStr ''repair_ticket''),
                       (''resource_id'', PUuid (ts_ticket_id snapshot))])
               else None)"

definition write_ticket :: "TicketSnapshot \<Rightarrow> int \<Rightarrow> db \<Rightarrow> db" where
  "write_ticket snapshot expected_version d =
     d\<lparr>db_tickets := map (\<lambda>r. if ticket_hit (ts_ticket_id snapshot) expected_version r
                             then ticket_columns snapshot r else r) (db_tickets d)\<rparr>"

definition tickets_update :: "TicketSnapshot \<Rightarrow> int \<Rightarrow> unit action" where
  "tickets_update snapshot expected_version =
     writeA (ticket_update_refused snapshot expected_version)
       (write_ticket snapshot expected_version)"

definition tickets_add_history :: "TicketHistoryRecord \<Rightarrow> unit action" where
  "tickets_add_history h =
     writeA (\<lambda>d. first_failed (history_checks (th_version_before h) (th_version_after h)
                   ''ticket_status_history''))
       (\<lambda>d. d\<lparr>db_ticket_history := db_ticket_history d @ [h]\<rparr>)"

section \<open>Appointment repository\<close>

definition appointment_to_snapshot :: "AppointmentRow \<Rightarrow> AppointmentSnapshot" where
  "appointment_to_snapshot row = AppointmentSnapshot.truncate row"

definition find_appointment :: "uuid \<Rightarrow> db \<Rightarrow> AppointmentSnapshot option" where
  "find_appointment appointment_id d = map_option appointment_to_snapshot
     (find (\<lambda>r. as_appointment_id r = appointment_id) (db_appointments d))"

definition appointments_get :: "uuid \<Rightarrow> AppointmentSnapshot option action" where
  "appointments_get appointment_id = queryA (find_appointment appointment_id)"

text \<open>\<open>ORDER BY created_at DESC, id DESC LIMIT 1\<close>.\<close>

definition appointment_age_key :: "AppointmentRow \<Rightarrow> timestamp \<times> uuid" where
  "appointment_age_key r = (ap_created_at r, as_appointment_id r)"

definition latest_appointment :: "uuid \<Rightarrow> db \<Rightarrow> AppointmentSnapshot option" where
  "latest_appointment ticket_id d = map_option appointment_to_snapshot
     (last_opt (sort_key appointment_age_key
        (filter (\<lambda>r. as_ticket_id r = ticket_id) (db_appointments d))))"

definition latest_for_ticket :: "uuid \<Rightarrow> AppointmentSnapshot option action" where
  "latest_for_ticket ticket_id = queryA (latest_appointment ticket_id)"

definition active_for_ticket :: "uuid \<Rightarrow> AppointmentSnapshot option action" where
  "active_for_ticket ticket_id = queryA (\<lambda>d. map_option appointment_to_snapshot
     (find (\<lambda>r. as_ticket_id r = ticket_id \<and> as_status r = AS_BOOKED) (db_appointments d)))"

text \<open>\<open>normalize_service_area\<close> of \<open>slot_queries.py\<close>; \<open>casefold\<close> is \<open>lower\<close> on ASCII.\<close>

definition normalize_service_area :: "string \<Rightarrow> string" where
  "normalize_service_area value = join_with '' '' (split_words (lower (strip value)))"

text \<open>\<open>range @> [s, e)\<close>; the requested range is empty when \<open>s = e\<close>.\<close>

definition range_contains :: "TstzRange \<Rightarrow> timestamp \<Rightarrow> timestamp \<Rightarrow> bool" where
  "range_contains r s e \<longleftrightarrow> s = e \<or>
     ((case rg_lower r of None \<Rightarrow> True | Some l \<Rightarrow> l < s \<or> (l = s \<and> rg_lower_inc r)) \<and>
      (case rg_upper r of None \<Rightarrow> True | Some u \<Rightarrow> e \<le> u))"

definition eligible_rows ::
  "uuid \<Rightarrow> uuid \<Rightarrow> worker_skill_type \<Rightarrow> timestamp \<Rightarrow> timestamp \<Rightarrow> db \<Rightarrow> (string \<times> string) list"
where
  "eligible_rows worker_id property_id skill s e d =
     [(wk_service_area w, pr_community_name p).
        w \<leftarrow> db_workers d, k \<leftarrow> db_skills d, a \<leftarrow> db_availability d, p \<leftarrow> db_properties d,
        fst k = wk_id w \<and> av_worker_id a = wk_id w \<and> pr_id p = property_id \<and>
        wk_id w = worker_id \<and> wk_is_active w \<and> pr_is_active p \<and> snd k = skill \<and>
        range_contains (av_range a) s e]"

text \<open>Binding an inverted range is a data error of PostgreSQL that nothing translates.\<close>

definition worker_can_service ::
  "uuid \<Rightarrow> uuid \<Rightarrow> worker_skill_type \<Rightarrow> timestamp \<Rightarrow> timestamp \<Rightarrow> bool action" where
  "worker_can_service worker_id property_id skill starts_at ends_at =
     bindA (raise_ifA (ends_at < starts_at) (Exn DataError ''invalid_range'' []))
       (\<lambda>_. queryA (\<lambda>d. case eligible_rows worker_id property_id skill starts_at ends_at d of
              [] \<Rightarrow> False
            | (area, community) # _ \<Rightarrow>
                normalize_service_area area = normalize_service_area community))"

definition appointment_row_of :: "Env \<Rightarrow> AppointmentDraft \<Rightarrow> AppointmentRow" where
  "appointment_row_of env draft =
     \<lparr>as_appointment_id = ad_appointment_id draft, as_ticket_id = ad_ticket_id draft,
      as_worker_id = ad_worker_id draft, as_purpose = ad_purpose draft,
      as_starts_at = ad_starts_at draft, as_ends_at = ad_ends_at draft,
      as_status = ad_status draft, as_version = 1, as_supersedes = ad_supersedes draft,
      ap_outcome = None, ap_created_at = env_now env\<rparr>"

definition appointments_add :: "Env \<Rightarrow> AppointmentDraft \<Rightarrow> unit action" where
  "appointments_add env draft =
     writeA (\<lambda>d. if ad_ends_at draft < ad_starts_at draft
                 then Some (Exn DataError ''invalid_range'' [])
                 else first_failed (appointment_insert_checks (appointment_row_of env draft) d))
       (\<lambda>d. d\<lparr>db_appointments := db_appointments d @ [appointment_row_of env draft]\<rparr>)"

definition appointment_columns ::
  "AppointmentSnapshot \<Rightarrow> OutcomeColumns option \<Rightarrow> AppointmentRow \<Rightarrow> AppointmentRow" where
  "appointment_columns snapshot outcome r =
     r\<lparr>as_status := as_status snapshot, as_version := as_version r + 1,
       ap_outcome := (if outcome = None then ap_outcome r else outcome)\<rparr>"

definition appointment_hit :: "uuid \<Rightarrow> int \<Rightarrow> AppointmentRow \<Rightarrow> bool" where
  "appointment_hit appointment_id version r \<longleftrightarrow>
     as_appointment_id r = appointment_id \<and> as_version r = version"

definition appointment_update_refused ::
  "AppointmentSnapshot \<Rightarrow> int \<Rightarrow> OutcomeColumns option \<Rightarrow> db \<Rightarrow> exn option" where
  "appointment_update_refused snapshot expected_version outcome d =
     (let hit = appointment_hit (as_appointment_id snapshot) expected_version;
          hits = filter hit (db_appointments d);
          others = filter (\<lambda>r. \<not> hit r) (db_appointments d)
      in if as_version snapshot \<noteq> expected_version + 1
         then Some (Exn PersistenceConflict ''invalid_version_step'' [])
         else case first_failed (concat (map (\<lambda>r.
               let r' = appointment_columns snapshot outcome r
               in appointment_row_checks r' @ appointment_table_checks r' others) hits)) of
             Some e \<Rightarrow> Some (raw_error e)
           | None \<Rightarrow>
               if length hits \<noteq> 1
               then Some (Exn PersistenceConflict ''version_conflict''
                      [(''resource_type'', PStr ''appointment''),
                       (''resource_id'', PUuid (as_appointment_id snapshot))])
               else None)"

definition write_appointment ::
  "AppointmentSnapshot \<Rightarrow> int \<Rightarrow> OutcomeColumns option \<Rightarrow> db \<Rightarrow> db" where
  "write_appointment snapshot expected_version outcome d =
     d\<lparr>db_appointments :=
         map (\<lambda>r. if appointment_hit (as_appointment_id snapshot) expected_version r
                  then appointment_columns snapshot outcome r else r) (db_appointments d)\<rparr>"

definition appointments_update ::
  "AppointmentSnapshot \<Rightarrow> int \<Rightarrow> OutcomeColumns option \<Rightarrow> unit action" where
  "appointments_update snapshot expected_version outcome =
     writeA (appointment_update_refused snapshot expected_version outcome)
       (write_appointment snapshot expected_version outcome)"

definition appointments_add_history :: "AppointmentHistoryRecord \<Rightarrow> unit action" where
  "appointments_add_history h =
     writeA (\<lambda>d. first_failed (history_checks (ah_version_before h) (ah_version_after h)
                   ''appointment_status_history''))
       (\<lambda>d. d\<lparr>db_appointment_history := db_appointment_history d @ [h]\<rparr>)"

section \<open>Worker events, idempotency records and the outbox\<close>

definition worker_event_to_snapshot :: "WorkerEventRecord \<Rightarrow> WorkerEventSnapshot" where
  "worker_event_to_snapshot row = WorkerEventSnapshot.truncate row"

definition events_of :: "uuid \<Rightarrow> db \<Rightarrow> WorkerEventSnapshot list" where
  "events_of appointment_id d = map worker_event_to_snapshot
     (sort_key we_sequence_no
        (filter (\<lambda>r. we_appointment_id r = appointment_id) (db_worker_events d)))"

definition list_for_appointment :: "uuid \<Rightarrow> WorkerEventSnapshot list action" where
  "list_for_appointment appointment_id = queryA (events_of appointment_id)"

definition get_by_external_key :: "string \<Rightarrow> WorkerEventSnapshot option action" where
  "get_by_external_key key = queryA (\<lambda>d. map_option worker_event_to_snapshot
     (find (\<lambda>r. we_external_event_key r = key) (db_worker_events d)))"

definition worker_events_add :: "WorkerEventRecord \<Rightarrow> unit action" where
  "worker_events_add e =
     writeA (\<lambda>d. first_failed (worker_event_insert_checks e d))
       (\<lambda>d. d\<lparr>db_worker_events := db_worker_events d @ [e]\<rparr>)"

text \<open>The unique key of \<open>idempotency_records\<close>.\<close>

type_synonym idempotency_id = "string \<times> actor_type \<times> uuid \<times> string"

definition idempotency_id_of :: "IdempotencyRow \<Rightarrow> idempotency_id" where
  "idempotency_id_of r =
     (ir_scope r, ir_actor_type r, ir_actor_id r, ir_idempotency_key r)"

definition pending_row :: "idempotency_id \<Rightarrow> string \<Rightarrow> uuid \<Rightarrow> IdempotencyRow" where
  "pending_row k digest operation_id =
     (case k of (scope, actor_type, actor_id, key) \<Rightarrow>
        \<lparr>ir_scope = scope, ir_actor_type = actor_type, ir_actor_id = actor_id,
         ir_idempotency_key = key, ir_request_hash = digest,
         ir_operation_id = Some operation_id, ir_execution_status = IS_PENDING,
         ir_resource_type = None, ir_resource_id = None, ir_response_payload = None\<rparr>)"

definition find_idempotency :: "idempotency_id \<Rightarrow> db \<Rightarrow> IdempotencyRow option" where
  "find_idempotency k d = find (\<lambda>r. idempotency_id_of r = k) (db_idempotency d)"

text \<open>
  \<open>INSERT ... ON CONFLICT DO NOTHING\<close> on that key, then a select. Only the named constraint is
  an arbiter: an operation identity that another record holds is an integrity error of the
  statement, which nothing translates.
\<close>

definition stored_of :: "bool \<Rightarrow> IdempotencyRow \<Rightarrow> StoredIdempotency" where
  "stored_of is_new r =
     \<lparr>si_is_new = is_new, si_request_hash = ir_request_hash r,
      si_execution_status = ir_execution_status r, si_resource_type = ir_resource_type r,
      si_resource_id = ir_resource_id r, si_response_payload = ir_response_payload r,
      si_operation_id = ir_operation_id r\<rparr>"

definition idempotency_acquire ::
  "idempotency_id \<Rightarrow> string \<Rightarrow> uuid \<Rightarrow> StoredIdempotency action" where
  "idempotency_acquire k digest operation_id =
     bindA (queryA (find_idempotency k))
       (\<lambda>existing. case existing of
            Some r \<Rightarrow> returnA (stored_of False r)
          | None \<Rightarrow> bindA
              (writeA (\<lambda>d. if \<exists>r \<in> set (db_idempotency d). ir_operation_id r = Some operation_id
                           then Some (raw_error (constraint_error ''23505''
                                  ''uq_idempotency_records_operation_id''))
                           else None)
                 (\<lambda>d. d\<lparr>db_idempotency := db_idempotency d @ [pending_row k digest operation_id]\<rparr>))
              (\<lambda>_. returnA (stored_of True (pending_row k digest operation_id))))"

definition succeeded_row ::
  "string \<Rightarrow> uuid \<Rightarrow> ResponsePayload \<Rightarrow> IdempotencyRow \<Rightarrow> IdempotencyRow" where
  "succeeded_row resource_type resource_id payload r =
     r\<lparr>ir_execution_status := IS_SUCCEEDED, ir_resource_type := Some resource_type,
       ir_resource_id := Some resource_id, ir_response_payload := Some payload\<rparr>"

definition idempotency_succeed ::
  "idempotency_id \<Rightarrow> string \<Rightarrow> uuid \<Rightarrow> ResponsePayload \<Rightarrow> unit action" where
  "idempotency_succeed k resource_type resource_id payload =
     updateA (\<lambda>d. d\<lparr>db_idempotency := map (\<lambda>r. if idempotency_id_of r = k
         then succeeded_row resource_type resource_id payload r else r) (db_idempotency d)\<rparr>)"

definition outbox_row_of :: "Env \<Rightarrow> DomainEvent \<Rightarrow> OutboxRow" where
  "outbox_row_of env event = DomainEvent.extend event
     \<lparr>ob_status = OS_PENDING, ob_available_at = env_now env, ob_claimed_by = None,
      ob_claim_token = None, ob_claim_expires_at = None, ob_attempt_count = 0,
      ob_last_error_code = None, ob_last_error_message = None, ob_created_at = env_now env,
      ob_dispatched_at = None\<rparr>"

definition outbox_add :: "Env \<Rightarrow> DomainEvent \<Rightarrow> unit action" where
  "outbox_add env event =
     writeA (\<lambda>d. first_failed (outbox_insert_checks (outbox_row_of env event) d))
       (\<lambda>d. d\<lparr>db_outbox := db_outbox d @ [outbox_row_of env event]\<rparr>)"

section \<open>Transactions\<close>

definition commitA :: "unit action" where
  "commitA s = (Inr (), s\<lparr>se_committed := se_working s\<rparr>)"

definition rollbackA :: "unit action" where
  "rollbackA s = (Inr (), s\<lparr>se_working := se_committed s\<rparr>)"

text \<open>One unit of work on the committed tables: a session of its own, and what it never
  committed is rolled back when the block is left.\<close>

definition run_uow :: "'a action \<Rightarrow> db \<Rightarrow> 'a outcome \<times> db" where
  "run_uow m d = (let (r, s) = m \<lparr>se_committed = d, se_working = d\<rparr> in (r, se_committed s))"

end
