(* ===== verification/Service.thy ===== *)
theory Service
  imports Store
begin

text \<open>
  The shared mechanics of \<open>backend/app/application/service_support.py\<close>: the idempotent
  transaction around every mutation (\<open>_execute\<close>), authorization, history records and the
  status-changed event. The locale \<open>use_case\<close> states what a handler owes to \<open>_execute\<close>, and
  proves once what the transaction then guarantees to the caller.
\<close>

section \<open>The idempotent transaction\<close>

definition idempotency_key_of :: "string \<Rightarrow> MutationMetadata \<Rightarrow> idempotency_id" where
  "idempotency_key_of scope metadata =
     (scope, mm_actor_type metadata, mm_actor_id metadata, mm_idempotency_key metadata)"

text \<open>The body of the \<open>try\<close> block.\<close>

definition execute_body ::
  "Env \<Rightarrow> string \<Rightarrow> MutationMetadata \<Rightarrow> (string \<times> pval) list \<Rightarrow>
   (string \<Rightarrow> OperationResult action) \<Rightarrow> OperationResult action" where
  "execute_body env scope metadata payload handler =
     (let digest = request_digest env metadata payload;
          key = idempotency_key_of scope metadata
      in bindA (idempotency_acquire key digest (operation_id_for env metadata scope))
        (\<lambda>stored. if si_request_hash stored \<noteq> digest
           then raiseA (Exn IdempotencyConflict ''idempotency_payload_conflict''
                  [(''scope'', PStr scope)])
           else if \<not> si_is_new stored
           then (if si_execution_status stored \<noteq> IS_SUCCEEDED
                 then raiseA (Exn IdempotencyConflict ''idempotency_request_in_progress''
                        [(''scope'', PStr scope)])
                 else bindA rollbackA
                   (\<lambda>_. returnA (replay_result (si_resource_type stored)
                                  (si_resource_id stored) (si_response_payload stored))))
           else bindA (handler digest)
             (\<lambda>result. case (or_resource_type result, or_resource_id result) of
                  (Some resource_type, Some resource_id) \<Rightarrow>
                    if \<not> or_ok result
                    then raiseA (Exn PyRuntimeError
                           ''successful handler must return a resource identity'' [])
                    else bindA (idempotency_succeed key resource_type resource_id
                                  (result_payload result))
                      (\<lambda>_. bindA commitA (\<lambda>_. returnA result))
                | _ \<Rightarrow> raiseA (Exn PyRuntimeError
                         ''successful handler must return a resource identity'' []))))"

text \<open>The \<open>except (DomainError, ApplicationError)\<close> clause; other exceptions propagate.\<close>

definition execute ::
  "Env \<Rightarrow> string \<Rightarrow> MutationMetadata \<Rightarrow> (string \<times> pval) list \<Rightarrow>
   (string \<Rightarrow> OperationResult action) \<Rightarrow> OperationResult action" where
  "execute env scope metadata payload handler s =
     (case execute_body env scope metadata payload handler s of
        (Inr r, s') \<Rightarrow> (Inr r, s')
      | (Inl e, s') \<Rightarrow>
          if is_domain_error e \<or> is_application_error e
          then (Inr (failure_result e), snd (rollbackA s'))
          else (Inl e, s'))"

section \<open>Authorization, history and events\<close>

definition authorize_ticket :: "TicketSnapshot \<Rightarrow> MutationMetadata \<Rightarrow> unit action" where
  "authorize_ticket ticket metadata =
     (if mm_actor_type metadata = ACT_RESIDENT
      then bindA (queryA (resident_has_property (ts_resident_id ticket) (ts_property_id ticket)))
        (\<lambda>linked. raise_ifA (\<not> (mm_actor_id metadata = ts_resident_id ticket \<and> linked))
           (Exn AuthorizationFailed ''resident_not_authorized''
             [(''ticket_id'', PUuid (ts_ticket_id ticket))]))
      else if mm_actor_type metadata = ACT_OPERATOR
      then bindA (queryA (actor_is_operator (mm_actor_id metadata)))
        (\<lambda>operator. raise_ifA (\<not> operator) (Exn AuthorizationFailed ''operator_not_authorized'' []))
      else raiseA (Exn AuthorizationFailed ''actor_not_allowed'' []))"

definition emit_ticket_status_changed ::
  "Env \<Rightarrow> TicketSnapshot \<Rightarrow> TicketSnapshot \<Rightarrow> string \<Rightarrow> MutationMetadata \<Rightarrow> string \<Rightarrow> unit action"
where
  "emit_ticket_status_changed env before after action metadata scope =
     outbox_add env (build_domain_event env EV_TICKET_STATUS_CHANGED AG_TICKET
       (ts_ticket_id after) (ts_version after) metadata scope
       [(''from_status'', PStr (ticket_status_value (ts_status before))),
        (''to_status'', PStr (ticket_status_value (ts_status after))),
        (''action'', PStr action)])"

definition ticket_history ::
  "TicketSnapshot \<Rightarrow> TicketSnapshot \<Rightarrow> string \<Rightarrow> MutationMetadata \<Rightarrow> string option \<Rightarrow>
   string option \<Rightarrow> string list \<Rightarrow> TicketHistoryRecord" where
  "ticket_history before after action metadata reason_code reason_text evidence =
     \<lparr>th_ticket_id = ts_ticket_id before, th_from_status = Some (ts_status before),
      th_to_status = ts_status after, th_action = action,
      th_actor_type = mm_actor_type metadata, th_actor_id = mm_actor_id metadata,
      th_trace_id = mm_trace_id metadata, th_version_before = ts_version before,
      th_version_after = ts_version after, th_reason_code = reason_code,
      th_reason_text = reason_text, th_evidence = evidence\<rparr>"

definition appointment_history ::
  "AppointmentSnapshot \<Rightarrow> AppointmentSnapshot \<Rightarrow> MutationMetadata \<Rightarrow> string option \<Rightarrow>
   string option \<Rightarrow> string list \<Rightarrow> AppointmentHistoryRecord" where
  "appointment_history before after metadata reason_code reason_text evidence =
     \<lparr>ah_appointment_id = as_appointment_id before, ah_from_status = Some (as_status before),
      ah_to_status = as_status after, ah_actor_type = mm_actor_type metadata,
      ah_actor_id = mm_actor_id metadata, ah_trace_id = mm_trace_id metadata,
      ah_version_before = as_version before, ah_version_after = as_version after,
      ah_occurred_at = mm_occurred_at metadata, ah_reason_code = reason_code,
      ah_reason_text = reason_text, ah_evidence = evidence\<rparr>"

text \<open>The history record of an appointment that a command creates.\<close>

definition booking_history :: "uuid \<Rightarrow> MutationMetadata \<Rightarrow> AppointmentHistoryRecord" where
  "booking_history appointment_id metadata =
     \<lparr>ah_appointment_id = appointment_id, ah_from_status = None, ah_to_status = AS_BOOKED,
      ah_actor_type = mm_actor_type metadata, ah_actor_id = mm_actor_id metadata,
      ah_trace_id = mm_trace_id metadata, ah_version_before = 0, ah_version_after = 1,
      ah_occurred_at = mm_occurred_at metadata, ah_reason_code = None, ah_reason_text = None,
      ah_evidence = []\<rparr>"

lemmas repository_defs = tickets_get_def tickets_add_def tickets_update_def
  tickets_add_history_def appointments_get_def latest_for_ticket_def active_for_ticket_def
  worker_can_service_def appointments_add_def appointments_update_def appointments_add_history_def
  list_for_appointment_def get_by_external_key_def worker_events_add_def outbox_add_def
  authorize_ticket_def emit_ticket_status_changed_def write_ticket_def write_appointment_def

lemma repository_uncommitted [committed_simps]:
  "uncommitted (tickets_get i)" "uncommitted (tickets_add env t)"
  "uncommitted (tickets_update t v)" "uncommitted (tickets_add_history h)"
  "uncommitted (appointments_get i)" "uncommitted (latest_for_ticket i)"
  "uncommitted (active_for_ticket i)" "uncommitted (worker_can_service w p k b e)"
  "uncommitted (appointments_add env a)" "uncommitted (appointments_update s v x)"
  "uncommitted (appointments_add_history g)" "uncommitted (list_for_appointment i)"
  "uncommitted (get_by_external_key x2)" "uncommitted (worker_events_add r)"
  "uncommitted (idempotency_acquire key digest oid)"
  "uncommitted (idempotency_succeed key rt ri pl)" "uncommitted (outbox_add env ev)"
  "uncommitted (authorize_ticket t md)"
  "uncommitted (emit_ticket_status_changed env t t' act md sc)"
  unfolding repository_defs idempotency_acquire_def idempotency_succeed_def
  by (simp_all add: committed_simps)

section \<open>The contract between a handler and its transaction\<close>

definition run_use_case ::
  "(Env \<Rightarrow> 'c \<Rightarrow> string \<Rightarrow> OperationResult action) \<Rightarrow> string \<Rightarrow> ('c \<Rightarrow> MutationMetadata) \<Rightarrow>
   ('c \<Rightarrow> (string \<times> pval) list) \<Rightarrow> Env \<Rightarrow> 'c \<Rightarrow> db \<Rightarrow> OperationResult outcome \<times> db" where
  "run_use_case handler scope metadata_of payload_of env c =
     run_uow (execute env scope (metadata_of c) (payload_of c) (handler env c))"

text \<open>The tables after the idempotency record was acquired, and after it was settled.\<close>

definition acquired :: "idempotency_id \<Rightarrow> string \<Rightarrow> uuid \<Rightarrow> db \<Rightarrow> db" where
  "acquired k digest operation_id d =
     d\<lparr>db_idempotency := db_idempotency d @ [pending_row k digest operation_id]\<rparr>"

definition settled :: "idempotency_id \<Rightarrow> OperationResult \<Rightarrow> db \<Rightarrow> db" where
  "settled k result d =
     d\<lparr>db_idempotency := map (\<lambda>r. if idempotency_id_of r = k
         then succeeded_row (the (or_resource_type result)) (the (or_resource_id result))
                (result_payload result) r
         else r) (db_idempotency d)\<rparr>"

definition operation_taken :: "uuid \<Rightarrow> db \<Rightarrow> bool" where
  "operation_taken operation_id d \<longleftrightarrow>
     (\<exists>r \<in> set (db_idempotency d). ir_operation_id r = Some operation_id)"

lemma pending_row_simps [simp]:
  "idempotency_id_of (pending_row k digest op) = k"
  "ir_request_hash (pending_row k digest op) = digest"
  "ir_execution_status (pending_row k digest op) = IS_PENDING"
  "ir_operation_id (pending_row k digest op) = Some op"
  by (simp_all add: pending_row_def idempotency_id_of_def split: prod.splits)

lemma succeeded_row_simps [simp]:
  "idempotency_id_of (succeeded_row rt ri p r) = idempotency_id_of r"
  "ir_request_hash (succeeded_row rt ri p r) = ir_request_hash r"
  "ir_operation_id (succeeded_row rt ri p r) = ir_operation_id r"
  "ir_execution_status (succeeded_row rt ri p r) = IS_SUCCEEDED"
  "ir_resource_type (succeeded_row rt ri p r) = Some rt"
  "ir_resource_id (succeeded_row rt ri p r) = Some ri"
  "ir_response_payload (succeeded_row rt ri p r) = Some p"
  by (simp_all add: succeeded_row_def idempotency_id_of_def)

text \<open>The answer to a command whose key is on record.\<close>

definition recorded_answer :: "string \<Rightarrow> string \<Rightarrow> IdempotencyRow \<Rightarrow> OperationResult" where
  "recorded_answer scope digest r =
     (if ir_request_hash r \<noteq> digest
      then failure_result (Exn IdempotencyConflict ''idempotency_payload_conflict''
             [(''scope'', PStr scope)])
      else if ir_execution_status r \<noteq> IS_SUCCEEDED
      then failure_result (Exn IdempotencyConflict ''idempotency_request_in_progress''
             [(''scope'', PStr scope)])
      else replay_result (ir_resource_type r) (ir_resource_id r) (ir_response_payload r))"

text \<open>The success value that the contract asks for.\<close>

definition names_resource :: "OperationResult \<Rightarrow> bool" where
  "names_resource result \<longleftrightarrow>
     or_ok result \<and> or_resource_type result \<noteq> None \<and> or_resource_id result \<noteq> None"

locale use_case =
  fixes handler :: "Env \<Rightarrow> 'c \<Rightarrow> string \<Rightarrow> OperationResult action"
    and scope :: string
    and metadata_of :: "'c \<Rightarrow> MutationMetadata"
    and payload_of :: "'c \<Rightarrow> (string \<times> pval) list"
  assumes handler_uncommitted: "uncommitted (handler env c digest)"
    and handler_result: "handler env c digest s = (Inr result, s') \<Longrightarrow> names_resource result"
    and handler_idempotency: "handler env c digest s = (Inr result, s') \<Longrightarrow>
      db_idempotency (se_working s') = db_idempotency (se_working s)"
begin

abbreviation run where "run \<equiv> run_use_case handler scope metadata_of payload_of"

abbreviation key where "key c \<equiv> idempotency_key_of scope (metadata_of c)"

abbreviation digest_of where "digest_of env c \<equiv> request_digest env (metadata_of c) (payload_of c)"

abbreviation operation where "operation env c \<equiv> operation_id_for env (metadata_of c) scope"

text \<open>The session in which the handler of a new command runs.\<close>

abbreviation started where
  "started env c d \<equiv> \<lparr>se_committed = d,
     se_working = acquired (key c) (digest_of env c) (operation env c) d\<rparr>"

lemma run_recorded:
  assumes "find_idempotency (key c) d = Some r"
  shows "run env c d = (Inr (recorded_answer scope (digest_of env c) r), d)"
  using assms
  by (simp add: run_use_case_def run_uow_def execute_def execute_body_def idempotency_acquire_def
      bindA_def queryA_def returnA_def raiseA_def rollbackA_def recorded_answer_def stored_of_def
      is_application_error_def Let_def)

lemma run_operation_taken:
  assumes "find_idempotency (key c) d = None" and "operation_taken (operation env c) d"
  shows "\<exists>e. run env c d = (Inl e, d) \<and> exn_class e = IntegrityError"
  using assms
  by (simp add: run_use_case_def run_uow_def execute_def execute_body_def idempotency_acquire_def
      bindA_def queryA_def writeA_def operation_taken_def raw_error_def is_application_error_def
      is_domain_error_def is_persistence_conflict_def Let_def)

lemma run_fresh:
  assumes "find_idempotency (key c) d = None" and "\<not> operation_taken (operation env c) d"
  shows "run env c d =
    (case handler env c (digest_of env c) (started env c d) of
       (Inr result, s) \<Rightarrow> (Inr result, settled (key c) result (se_working s))
     | (Inl e, s) \<Rightarrow>
         (if is_domain_error e \<or> is_application_error e then Inr (failure_result e) else Inl e, d))"
proof -
  obtain a s where h: "handler env c (digest_of env c) (started env c d) = (a, s)" by fastforce
  have "se_committed s = d"
    using handler_uncommitted [of env c "digest_of env c"] h
    by (auto simp: uncommitted_def dest: spec [of _ "started env c d"])
  then show ?thesis
    using assms h handler_result [of env c "digest_of env c" "started env c d"] names_resource_def
    by (cases a) (auto simp: run_use_case_def run_uow_def execute_def execute_body_def
        idempotency_acquire_def bindA_def queryA_def writeA_def returnA_def raiseA_def rollbackA_def
        operation_taken_def acquired_def settled_def idempotency_succeed_def updateA_def commitA_def
        stored_of_def Let_def)
qed

text \<open>Atomicity: an answer that is not a success, and an exception, leave the tables as they were.\<close>

lemma run_atomic:
  assumes "run env c d = (answer, d')" and "\<forall>result. answer = Inr result \<longrightarrow> \<not> or_ok result"
  shows "d' = d"
proof (cases "find_idempotency (key c) d")
  case None
  show ?thesis
  proof (cases "operation_taken (operation env c) d")
    case True
    then show ?thesis using run_operation_taken [OF None True] assms(1) by auto
  next
    case False
    obtain a s where h: "handler env c (digest_of env c) (started env c d) = (a, s)" by fastforce
    show ?thesis
      using run_fresh [OF None False] assms h handler_result [of env c _ _ _ s]
      by (cases a) (auto simp: names_resource_def split: if_splits)
  qed
next
  case (Some r)
  then show ?thesis using run_recorded [OF Some] assms(1) by simp
qed

text \<open>A new success: the handler ran once, on tables that hold nothing but its own record.\<close>

lemma run_success_cases:
  assumes "run env c d = (Inr result, d')" and "or_ok result"
  obtains (replayed) r where "find_idempotency (key c) d = Some r" and "d' = d"
      and "ir_request_hash r = digest_of env c" and "ir_execution_status r = IS_SUCCEEDED"
      and "result = replay_result (ir_resource_type r) (ir_resource_id r) (ir_response_payload r)"
    | (fresh) s where "find_idempotency (key c) d = None" and "\<not> operation_taken (operation env c) d"
      and "handler env c (digest_of env c) (started env c d) = (Inr result, s)"
      and "d' = settled (key c) result (se_working s)"
proof (cases "find_idempotency (key c) d")
  case None
  have free: "\<not> operation_taken (operation env c) d"
    using run_operation_taken [OF None, of env] assms(1) by auto
  obtain a s where h: "handler env c (digest_of env c) (started env c d) = (a, s)" by fastforce
  show ?thesis
  proof (cases a)
    case (Inl e)
    then show ?thesis
      using run_fresh [OF None free] h assms by (simp add: failure_result_def split: if_splits)
  next
    case (Inr x)
    then have "x = result" "d' = settled (key c) result (se_working s)"
      using run_fresh [OF None free] h assms(1) by simp_all
    with fresh [OF None free] h Inr show ?thesis by simp
  qed
next
  case (Some r)
  then have "d' = d" and "result = recorded_answer scope (digest_of env c) r"
    using run_recorded [OF Some] assms(1) by simp_all
  with assms(2) show ?thesis
    by (intro replayed [OF Some])
      (simp_all add: recorded_answer_def failure_result_def split: if_splits)
qed

end

text \<open>The answer that a stored success gives to every retry.\<close>

definition retry_answer :: "OperationResult \<Rightarrow> OperationResult" where
  "retry_answer result =
     \<lparr>or_ok = True, or_code = or_code result, or_resource_type = or_resource_type result,
      or_resource_id = or_resource_id result, or_resource_version = or_resource_version result,
      or_replayed = True, or_data = json_dict (or_data result)\<rparr>"

text \<open>The record that a successful run leaves.\<close>

definition success_record ::
  "idempotency_id \<Rightarrow> string \<Rightarrow> uuid \<Rightarrow> OperationResult \<Rightarrow> IdempotencyRow" where
  "success_record k digest operation_id result =
     succeeded_row (the (or_resource_type result)) (the (or_resource_id result))
       (result_payload result) (pending_row k digest operation_id)"

lemma find_idempotency_map:
  assumes "\<And>r. idempotency_id_of (f r) = idempotency_id_of r"
  shows "find_idempotency k (d\<lparr>db_idempotency := map f (db_idempotency e)\<rparr>) =
    map_option f (find_idempotency k e)"
  using assms by (simp add: find_idempotency_def find_map_key)

lemma find_idempotency_key: "find_idempotency k d = Some r \<Longrightarrow> idempotency_id_of r = k"
  by (auto simp: find_idempotency_def dest: find_Some_set)

lemma find_settled:
  assumes "db_idempotency e = db_idempotency (acquired k digest op d)"
  shows "find_idempotency k' (settled k result e) =
    (case find_idempotency k' d of
       None \<Rightarrow> if k' = k then Some (success_record k digest op result) else None
     | Some r \<Rightarrow> Some (if k' = k then succeeded_row (the (or_resource_type result))
                  (the (or_resource_id result)) (result_payload result) r else r))"
proof -
  have find_e: "find_idempotency k' e = (case find_idempotency k' d of
      None \<Rightarrow> if k' = k then Some (pending_row k digest op) else None | Some r \<Rightarrow> Some r)"
    using assms by (auto simp: find_idempotency_def acquired_def find_append split: option.splits)
  show ?thesis
    unfolding settled_def
    by (subst find_idempotency_map)
      (auto simp: find_e success_record_def dest: find_idempotency_key split: option.splits)
qed

lemma replay_of_success:
  assumes "or_resource_type result \<noteq> None" and "or_resource_id result \<noteq> None"
  shows "recorded_answer scope digest (success_record k digest op result) = retry_answer result"
  using assms
  by (auto simp: recorded_answer_def success_record_def replay_result_def retry_answer_def
      result_payload_def)

context use_case
begin

text \<open>No later command of any kind touches the record of a key.\<close>

lemma run_keeps_record:
  assumes "find_idempotency k d = Some r"
  shows "find_idempotency k (snd (run env c d)) = Some r"
proof (cases "\<exists>result d'. run env c d = (Inr result, d') \<and> or_ok result")
  case True
  then obtain result d' where run: "run env c d = (Inr result, d')" "or_ok result" by blast
  then show ?thesis
  proof (cases rule: run_success_cases)
    case (replayed r)
    then show ?thesis using run assms by simp
  next
    case (fresh s)
    from handler_idempotency [OF fresh(3)]
    have "db_idempotency (se_working s) =
        db_idempotency (acquired (key c) (digest_of env c) (operation env c) d)" by simp
    from find_settled [OF this] fresh(1,4) run(1) assms show ?thesis by auto
  qed
next
  case False
  then have "snd (run env c d) = d" using run_atomic [of env c d] by (cases "run env c d") auto
  then show ?thesis using assms by simp
qed

text \<open>After a new success the key is on record, with the answer for every retry.\<close>

lemma run_records:
  assumes "run env c d = (Inr result, d')" and "or_ok result" and "\<not> or_replayed result"
  shows "find_idempotency (key c) d' =
    Some (success_record (key c) (digest_of env c) (operation env c) result)"
  using assms(1,2)
proof (cases rule: run_success_cases)
  case (replayed r)
  then show ?thesis using assms(3) by (simp add: replay_result_def)
next
  case (fresh s)
  from handler_idempotency [OF fresh(3)]
  have "db_idempotency (se_working s) =
      db_idempotency (acquired (key c) (digest_of env c) (operation env c) d)" by simp
  from find_settled [OF this] fresh(1,4) show ?thesis by simp
qed

lemma run_result_identity:
  assumes "run env c d = (Inr result, d')" and "or_ok result" and "\<not> or_replayed result"
  shows "or_resource_type result \<noteq> None \<and> or_resource_id result \<noteq> None"
  using assms(1,2)
proof (cases rule: run_success_cases)
  case (replayed r)
  then show ?thesis using assms(3) by (simp add: replay_result_def)
next
  case (fresh s)
  then show ?thesis using handler_result [OF fresh(3)] by (simp add: names_resource_def)
qed

text \<open>A retry is answered from the record, on every later state that still holds it.\<close>

lemma run_retry:
  assumes "find_idempotency (key c') d =
      Some (success_record (key c') digest op result)"
    and "or_resource_type result \<noteq> None" and "or_resource_id result \<noteq> None"
    and "digest_of env' c' = digest"
  shows "run env' c' d = (Inr (retry_answer result), d)"
  using run_recorded [OF assms(1), of env'] replay_of_success [OF assms(2,3)] assms(4) by simp

lemma run_payload_conflict:
  assumes "find_idempotency (key c') d = Some r" and "digest_of env' c' \<noteq> ir_request_hash r"
  shows "\<exists>answer. run env' c' d = (Inr answer, d) \<and> \<not> or_ok answer \<and>
    or_code answer = ''idempotency_payload_conflict''"
  using run_recorded [OF assms(1), of env'] assms(2)
  by (simp add: recorded_answer_def failure_result_def)

text \<open>Only finished requests are ever on record.\<close>

lemma run_no_pending:
  assumes "\<forall>r \<in> set (db_idempotency d). ir_execution_status r = IS_SUCCEEDED"
  shows "\<forall>r \<in> set (db_idempotency (snd (run env c d))). ir_execution_status r = IS_SUCCEEDED"
proof (cases "\<exists>result d'. run env c d = (Inr result, d') \<and> or_ok result")
  case True
  then obtain result d' where run: "run env c d = (Inr result, d')" "or_ok result" by blast
  then show ?thesis
  proof (cases rule: run_success_cases)
    case (replayed r)
    then show ?thesis using run assms by simp
  next
    case (fresh s)
    from handler_idempotency [OF fresh(3)] fresh(4) run(1) assms show ?thesis
      by (auto simp: settled_def acquired_def)
  qed
next
  case False
  then have "snd (run env c d) = d" using run_atomic [of env c d] by (cases "run env c d") auto
  then show ?thesis using assms by simp
qed

end

end
