(* ===== verification/TicketService.thy ===== *)
theory TicketService
  imports Service
begin

text \<open>
  The ticket use cases of \<open>backend/app/application/ticket_service.py\<close>: creation, resident
  review, escalation and recovery. Every handler is an action on the unit of work, in the
  order of the source; the interpretations at the end discharge the contract of \<open>use_case\<close>.
\<close>

section \<open>Creation\<close>

definition creation_authorized :: "CreateTicketCommand \<Rightarrow> bool \<Rightarrow> bool \<Rightarrow> bool" where
  "creation_authorized command linked operator =
     (if mm_actor_type (ct_metadata command) = ACT_RESIDENT
      then mm_actor_id (ct_metadata command) = ct_resident_id command \<and> linked
      else if mm_actor_type (ct_metadata command) = ACT_OPERATOR then linked \<and> operator
      else False)"

definition creation_request ::
  "CreateTicketCommand \<Rightarrow> bool \<Rightarrow> bool \<Rightarrow> TicketCreationRequest" where
  "creation_request command authorized exact_match =
     \<lparr>tcr_actor_type = mm_actor_type (ct_metadata command),
      tcr_resident_authorized = authorized,
      tcr_issue_valid = (strip (ct_issue_location command) \<noteq> [] \<and>
                         strip (ct_issue_description command) \<noteq> []),
      tcr_duplicate_allowed = (\<not> exact_match \<or>
        (ct_allow_duplicate command \<and> mm_actor_type (ct_metadata command) = ACT_OPERATOR)),
      tcr_idempotency_accepted = True\<rparr>"

definition created_ticket :: "uuid \<Rightarrow> CreateTicketCommand \<Rightarrow> TicketCreationPlan \<Rightarrow> TicketSnapshot" where
  "created_ticket ticket_id command plan =
     \<lparr>ts_ticket_id = ticket_id, ts_resident_id = ct_resident_id command,
      ts_property_id = ct_property_id command, ts_issue_category = ct_issue_category command,
      ts_issue_location = strip (ct_issue_location command),
      ts_issue_description = strip (ct_issue_description command),
      ts_severity = ct_severity command, ts_status = tcp_initial_status plan,
      ts_escalated_from = None, ts_rework_count = tcp_initial_rework_count plan,
      ts_version = tcp_initial_version plan, ts_cancelled_at = None, ts_closed_at = None\<rparr>"

definition creation_history :: "uuid \<Rightarrow> ticket_status \<Rightarrow> MutationMetadata \<Rightarrow> TicketHistoryRecord" where
  "creation_history ticket_id status metadata =
     \<lparr>th_ticket_id = ticket_id, th_from_status = None, th_to_status = status,
      th_action = ''CREATE'', th_actor_type = mm_actor_type metadata,
      th_actor_id = mm_actor_id metadata, th_trace_id = mm_trace_id metadata,
      th_version_before = 0, th_version_after = 1, th_reason_code = None, th_reason_text = None,
      th_evidence = []\<rparr>"

definition create_ticket_handler ::
  "Env \<Rightarrow> CreateTicketCommand \<Rightarrow> string \<Rightarrow> OperationResult action" where
  "create_ticket_handler env command digest =
     (let metadata = ct_metadata command; ticket_id = env_new_id env
      in bindA (queryA (resident_has_property (ct_resident_id command) (ct_property_id command)))
      (\<lambda>linked. bindA (queryA (actor_is_operator (mm_actor_id metadata)))
      (\<lambda>operator. bindA (queryA (has_exact_open_match (ct_resident_id command)
           (ct_property_id command) (ct_issue_category command) (ct_issue_location command)))
      (\<lambda>exact_match. bindA (liftA (plan_ticket_creation (creation_request command
           (creation_authorized command linked operator) exact_match)))
      (\<lambda>plan. let ticket = created_ticket ticket_id command plan
        in bindA (tickets_add env ticket)
      (\<lambda>_. bindA (tickets_add_history (creation_history ticket_id (ts_status ticket) metadata))
      (\<lambda>_. bindA (outbox_add env (build_domain_event env EV_TICKET_CREATED AG_TICKET ticket_id
             (ts_version ticket) metadata ''create_ticket''
             [(''status'', PStr (ticket_status_value (ts_status ticket))),
              (''issue_category'', PStr (issue_category_value (ts_issue_category ticket))),
              (''severity'', PStr (severity_value (ts_severity ticket))),
              (''property_id'', PStr (uuid_text (ts_property_id ticket))),
              (''resident_id'', PStr (uuid_text (ts_resident_id ticket)))]))
      (\<lambda>_. returnA (success_result ''TICKET_CREATED'' ''repair_ticket'' ticket_id 1
             [(''status'', PStr (ticket_status_value (ts_status ticket)))]))))))))) "

section \<open>Review\<close>

text \<open>The reason text of a confirmation, \<open>U+4F4F U+6237 ...\<close>, in UTF-8.\<close>

definition resident_confirmed_text :: string where
  "resident_confirmed_text = map char_of
     [0xE4, 0xBD, 0x8F, 0xE6, 0x88, 0xB7, 0xE7, 0x8E, 0xB0, 0xE5, 0x9C, 0xBA, 0xE7, 0xA1, 0xAE,
      0xE8, 0xAE, 0xA4, 0xE7, 0xBB, 0xB4, 0xE4, 0xBF, 0xAE, 0xE5, 0xB7, 0xB2, 0xE5, 0xAE, 0x8C,
      0xE6, 0x88, 0x90 :: nat]"

definition latest_event_type :: "WorkerEventSnapshot list \<Rightarrow> worker_event_type option" where
  "latest_event_type events = map_option we_event_type (last_opt events)"

definition review_action :: "ReviewRepairCommand \<Rightarrow> ticket_action" where
  "review_action command = (if rr_accepted command then TA_RESIDENT_ACCEPT else TA_RESIDENT_REJECT)"

definition review_rejection :: "ReviewRepairCommand \<Rightarrow> AcceptanceRejection option" where
  "review_rejection command =
     (if rr_accepted command then None
      else map_option (\<lambda>reason. \<lparr>ar_reason = reason, ar_explanation = rr_explanation command\<rparr>)
             (rr_rejection_reason command))"

definition review_request :: "ReviewRepairCommand \<Rightarrow> TicketSnapshot \<Rightarrow> TicketTransitionRequest" where
  "review_request command ticket =
     (TicketTransitionRequest_defaults (ts_status ticket) (review_action command)
        (mm_actor_type (rr_metadata command)) (rr_expected_ticket_version command)
        (ts_version ticket))
       \<lparr>tr_resident_authorized := True, tr_resident_acceptance := Some (rr_accepted command),
        tr_acceptance_rejection := review_rejection command,
        tr_current_rework_count := ts_rework_count ticket\<rparr>"

text \<open>\<open>command.expected_appointment_version or appointment.version\<close>: 0 is falsy.\<close>

definition review_appointment_version :: "ReviewRepairCommand \<Rightarrow> AppointmentSnapshot \<Rightarrow> int" where
  "review_appointment_version command appointment =
     (case rr_expected_appointment_version command of
        Some v \<Rightarrow> if v = 0 then as_version appointment else v
      | None \<Rightarrow> as_version appointment)"

definition fulfil_request ::
  "ReviewRepairCommand \<Rightarrow> AppointmentSnapshot \<Rightarrow> AppointmentTransitionRequest" where
  "fulfil_request command appointment =
     \<lparr>atr_current_status = as_status appointment, atr_action = AA_FULFILL,
      atr_actor_type = mm_actor_type (rr_metadata command),
      atr_expected_version = review_appointment_version command appointment,
      atr_actual_version = as_version appointment, atr_outcome = None\<rparr>"

text \<open>The block that fulfils a booked appointment when the resident accepts on site.\<close>

definition fulfil_on_acceptance :: "ReviewRepairCommand \<Rightarrow> AppointmentSnapshot \<Rightarrow> unit action" where
  "fulfil_on_acceptance command appointment =
     (if rr_accepted command \<and> as_status appointment = AS_BOOKED
      then bindA (liftA (transition_appointment (fulfil_request command appointment)))
        (\<lambda>decision. let updated = appointment\<lparr>as_status := atx_next_status decision,
                                    as_version := atx_next_version decision\<rparr>
          in bindA (appointments_update updated (as_version appointment) None)
          (\<lambda>_. appointments_add_history (appointment_history appointment updated
             (rr_metadata command) (Some ''RESIDENT_CONFIRMED_COMPLETE'')
             (Some resident_confirmed_text) [])))
      else returnA ())"

definition reviewed_ticket ::
  "ReviewRepairCommand \<Rightarrow> TicketSnapshot \<Rightarrow> TicketTransitionResult \<Rightarrow> TicketSnapshot" where
  "reviewed_ticket command ticket decision =
     ticket\<lparr>ts_status := trr_next_status decision, ts_version := trr_next_version decision,
       ts_rework_count := trr_next_rework_count decision, ts_escalated_from := None,
       ts_closed_at := (if rr_accepted command then Some (mm_occurred_at (rr_metadata command))
                        else None)\<rparr>"

text \<open>Everything after the consistency check.\<close>

definition review_repair_decided ::
  "Env \<Rightarrow> ReviewRepairCommand \<Rightarrow> TicketSnapshot \<Rightarrow> AppointmentSnapshot \<Rightarrow> OperationResult action"
where
  "review_repair_decided env command ticket appointment =
     (let metadata = rr_metadata command; action = ticket_action_value (review_action command)
      in bindA (raise_ifA (rr_accepted command \<and> ts_status ticket = TS_SCHEDULED \<and>
                           mm_occurred_at metadata < as_starts_at appointment)
           (Exn ApplicationError ''appointment_not_started'' []))
      (\<lambda>_. bindA (liftA (transition_ticket (review_request command ticket)))
      (\<lambda>decision. bindA (fulfil_on_acceptance command appointment)
      (\<lambda>_. let updated = reviewed_ticket command ticket decision
        in bindA (tickets_update updated (ts_version ticket))
      (\<lambda>_. bindA (tickets_add_history (ticket_history ticket updated action metadata
             (map_option acceptance_rejection_reason_value (rr_rejection_reason command))
             (rr_explanation command) []))
      (\<lambda>_. bindA (emit_ticket_status_changed env ticket updated action metadata ''review_repair'')
      (\<lambda>_. returnA (success_result
             (if rr_accepted command then ''REPAIR_ACCEPTED'' else ''REWORK_REQUESTED'')
             ''repair_ticket'' (ts_ticket_id ticket) (ts_version updated)
             [(''status'', PStr (ticket_status_value (ts_status updated))),
              (''rework_count'', PInt (ts_rework_count updated))])))))))) "

definition review_repair_handler ::
  "Env \<Rightarrow> ReviewRepairCommand \<Rightarrow> string \<Rightarrow> OperationResult action" where
  "review_repair_handler env command digest =
     bindA (tickets_get (rr_ticket_id command))
     (\<lambda>found. case found of
        None \<Rightarrow> raiseA (Exn ResourceNotFound ''ticket_not_found'' [])
      | Some ticket \<Rightarrow> bindA (queryA (resident_has_property (ts_resident_id ticket) (ts_property_id ticket)))
      (\<lambda>linked. bindA (raise_ifA (mm_actor_type (rr_metadata command) \<noteq> ACT_RESIDENT \<or>
             mm_actor_id (rr_metadata command) \<noteq> ts_resident_id ticket \<or> \<not> linked)
           (Exn AuthorizationFailed ''resident_not_authorized'' []))
      (\<lambda>_. bindA (latest_for_ticket (ts_ticket_id ticket))
      (\<lambda>latest. case latest of
         None \<Rightarrow> raiseA (Exn ResourceNotFound ''fulfilled_appointment_not_found'' [])
       | Some appointment \<Rightarrow> bindA (list_for_appointment (as_appointment_id appointment))
      (\<lambda>events. bindA (liftA (ensure_aggregate_consistency (ts_status ticket) [appointment]
             (latest_event_type events)))
      (\<lambda>_. review_repair_decided env command ticket appointment))))))"

section \<open>Escalation\<close>

definition escalate_request :: "EscalateTicketCommand \<Rightarrow> TicketSnapshot \<Rightarrow> TicketTransitionRequest" where
  "escalate_request command ticket =
     (TicketTransitionRequest_defaults (ts_status ticket) TA_ESCALATE
        (mm_actor_type (et_metadata command)) (et_expected_ticket_version command)
        (ts_version ticket))
       \<lparr>tr_escalation_reason := Some (et_reason_text command),
        tr_evidence := et_evidence command,
        tr_current_rework_count := ts_rework_count ticket\<rparr>"

definition escalated_ticket :: "TicketSnapshot \<Rightarrow> TicketTransitionResult \<Rightarrow> TicketSnapshot" where
  "escalated_ticket ticket decision =
     ticket\<lparr>ts_status := trr_next_status decision,
       ts_escalated_from := trr_escalated_from_status decision,
       ts_version := trr_next_version decision\<rparr>"

definition authorize_escalation :: "MutationMetadata \<Rightarrow> unit action" where
  "authorize_escalation metadata =
     (if mm_actor_type metadata = ACT_OPERATOR
      then bindA (queryA (actor_is_operator (mm_actor_id metadata)))
        (\<lambda>operator. raise_ifA (\<not> operator) (Exn AuthorizationFailed ''operator_not_authorized'' []))
      else raise_ifA (mm_actor_type metadata \<noteq> ACT_SYSTEM)
             (Exn AuthorizationFailed ''actor_not_allowed'' []))"

definition escalate_ticket_handler ::
  "Env \<Rightarrow> EscalateTicketCommand \<Rightarrow> string \<Rightarrow> OperationResult action" where
  "escalate_ticket_handler env command digest =
     bindA (tickets_get (et_ticket_id command))
     (\<lambda>found. case found of
        None \<Rightarrow> raiseA (Exn ResourceNotFound ''ticket_not_found'' [])
      | Some ticket \<Rightarrow> bindA (authorize_escalation (et_metadata command))
      (\<lambda>_. bindA (liftA (transition_ticket (escalate_request command ticket)))
      (\<lambda>decision. let updated = escalated_ticket ticket decision;
                      metadata = et_metadata command
        in bindA (tickets_update updated (ts_version ticket))
      (\<lambda>_. bindA (tickets_add_history (ticket_history ticket updated ''ESCALATE'' metadata
             (Some (et_reason_code command)) (Some (et_reason_text command))
             (et_evidence command)))
      (\<lambda>_. bindA (emit_ticket_status_changed env ticket updated ''ESCALATE'' metadata
             ''escalate_ticket'')
      (\<lambda>_. bindA (outbox_add env (build_domain_event env EV_TICKET_ESCALATED AG_TICKET
             (ts_ticket_id updated) (ts_version updated) metadata ''escalate_ticket''
             [(''from_status'', PStr (ticket_status_value (ts_status ticket))),
              (''to_status'', PStr (ticket_status_value (ts_status updated))),
              (''reason_code'', PStr (et_reason_code command))]))
      (\<lambda>_. returnA (success_result ''TICKET_ESCALATED'' ''repair_ticket'' (ts_ticket_id ticket)
             (ts_version updated)
             [(''status'', PStr (ticket_status_value (ts_status updated)))]))))))))"

section \<open>Recovery\<close>

definition recovery_request ::
  "RecoverTicketCommand \<Rightarrow> TicketSnapshot \<Rightarrow> AppointmentSnapshot option \<Rightarrow>
   WorkerEventSnapshot list \<Rightarrow> EscalationRecoveryRequest" where
  "recovery_request command ticket appointment events =
     \<lparr>er_actor_type = mm_actor_type (rc_metadata command),
      er_expected_version = rc_expected_ticket_version command,
      er_actual_version = ts_version ticket,
      er_escalated_from_status = ts_escalated_from ticket,
      er_appointment_status = map_option as_status appointment,
      er_latest_worker_event = latest_event_type events,
      er_disposition = rc_disposition command,
      er_resident_acceptance = rc_resident_acceptance command,
      er_rework_recorded = rc_rework_recorded command,
      er_conflict_resolved = rc_conflict_resolved command,
      er_current_rework_count = ts_rework_count ticket\<rparr>"

definition recovered_ticket ::
  "RecoverTicketCommand \<Rightarrow> TicketSnapshot \<Rightarrow> TicketTransitionResult \<Rightarrow> TicketSnapshot" where
  "recovered_ticket command ticket decision =
     ticket\<lparr>ts_status := trr_next_status decision, ts_escalated_from := None,
       ts_version := trr_next_version decision,
       ts_rework_count := trr_next_rework_count decision,
       ts_cancelled_at := (if trr_next_status decision = TS_CANCELLED
                           then Some (mm_occurred_at (rc_metadata command))
                           else ts_cancelled_at ticket),
       ts_closed_at := (if trr_next_status decision = TS_CLOSED
                        then Some (mm_occurred_at (rc_metadata command))
                        else ts_closed_at ticket)\<rparr>"

text \<open>The worker events of the latest appointment, none without one.\<close>

definition events_of_latest :: "AppointmentSnapshot option \<Rightarrow> WorkerEventSnapshot list action" where
  "events_of_latest appointment =
     (case appointment of
        None \<Rightarrow> returnA []
      | Some a \<Rightarrow> list_for_appointment (as_appointment_id a))"

definition recovery_action :: "RecoverTicketCommand \<Rightarrow> string" where
  "recovery_action command = ''RECOVER_'' @ escalation_disposition_value (rc_disposition command)"

definition recover_ticket_handler ::
  "Env \<Rightarrow> RecoverTicketCommand \<Rightarrow> string \<Rightarrow> OperationResult action" where
  "recover_ticket_handler env command digest =
     bindA (tickets_get (rc_ticket_id command))
     (\<lambda>found. case found of
        None \<Rightarrow> raiseA (Exn ResourceNotFound ''ticket_not_found'' [])
      | Some ticket \<Rightarrow> bindA (queryA (actor_is_operator (mm_actor_id (rc_metadata command))))
      (\<lambda>operator. bindA (raise_ifA (mm_actor_type (rc_metadata command) \<noteq> ACT_OPERATOR \<or> \<not> operator)
           (Exn AuthorizationFailed ''operator_not_authorized'' []))
      (\<lambda>_. bindA (raise_ifA (rc_disposition command = ED_APPLY_RESIDENT_ACCEPTANCE)
           (Exn AuthorizationFailed ''resident_acceptance_requires_resident_command'' []))
      (\<lambda>_. bindA (latest_for_ticket (ts_ticket_id ticket))
      (\<lambda>appointment. bindA (events_of_latest appointment)
      (\<lambda>events. bindA (liftA (recover_escalated_ticket
           (recovery_request command ticket appointment events)))
      (\<lambda>decision. let updated = recovered_ticket command ticket decision;
                      metadata = rc_metadata command
        in bindA (tickets_update updated (ts_version ticket))
      (\<lambda>_. bindA (tickets_add_history (ticket_history ticket updated (recovery_action command)
             metadata (Some (escalation_disposition_value (rc_disposition command)))
             (rc_reason_text command) (rc_evidence command)))
      (\<lambda>_. bindA (emit_ticket_status_changed env ticket updated (recovery_action command) metadata
             ''recover_ticket'')
      (\<lambda>_. returnA (success_result ''TICKET_RECOVERED'' ''repair_ticket'' (ts_ticket_id ticket)
             (ts_version updated)
             [(''status'', PStr (ticket_status_value (ts_status updated)))])))))))))))"

section \<open>The use cases\<close>

definition create_ticket where
  "create_ticket = run_use_case create_ticket_handler ''create_ticket'' ct_metadata
     create_ticket_payload"

definition review_repair where
  "review_repair = run_use_case review_repair_handler ''review_repair'' rr_metadata
     review_repair_payload"

definition escalate_ticket where
  "escalate_ticket = run_use_case escalate_ticket_handler ''escalate_ticket'' et_metadata
     escalate_ticket_payload"

definition recover_ticket where
  "recover_ticket = run_use_case recover_ticket_handler ''recover_ticket'' rc_metadata
     recover_ticket_payload"

section \<open>The contract of the handlers\<close>

lemma success_result_simps [simp]:
  "or_ok (success_result code rt ri v data)" "or_code (success_result code rt ri v data) = code"
  "or_resource_type (success_result code rt ri v data) = Some rt"
  "or_resource_id (success_result code rt ri v data) = Some ri"
  "or_resource_version (success_result code rt ri v data) = Some v"
  "or_data (success_result code rt ri v data) = data"
  "\<not> or_replayed (success_result code rt ri v data)"
  by (simp_all add: success_result_def)

lemma names_resource_success [simp]: "names_resource (success_result code rt ri v data)"
  by (simp add: names_resource_def)

lemmas ticket_handler_defs = create_ticket_handler_def review_repair_handler_def
  review_repair_decided_def fulfil_on_acceptance_def escalate_ticket_handler_def
  authorize_escalation_def recover_ticket_handler_def events_of_latest_def Let_def

lemma ticket_handlers_uncommitted [committed_simps]:
  "uncommitted (create_ticket_handler env c1 digest)"
  "uncommitted (review_repair_handler env c2 digest)"
  "uncommitted (escalate_ticket_handler env c3 digest)"
  "uncommitted (recover_ticket_handler env c4 digest)"
  unfolding ticket_handler_defs by (simp_all add: committed_simps)

lemma ticket_handlers_yield [frame_simps]:
  "yields names_resource (create_ticket_handler env c1 digest)"
  "yields names_resource (review_repair_handler env c2 digest)"
  "yields names_resource (escalate_ticket_handler env c3 digest)"
  "yields names_resource (recover_ticket_handler env c4 digest)"
  unfolding ticket_handler_defs by (simp_all add: frame_simps)

lemma ticket_handlers_keep [frame_simps]:
  "keeps db_idempotency (create_ticket_handler env c1 digest)"
  "keeps db_idempotency (review_repair_handler env c2 digest)"
  "keeps db_idempotency (escalate_ticket_handler env c3 digest)"
  "keeps db_idempotency (recover_ticket_handler env c4 digest)"
  unfolding ticket_handler_defs repository_defs by (simp_all add: frame_simps)

interpretation create_ticket_case: use_case create_ticket_handler "''create_ticket''" ct_metadata
  create_ticket_payload
  by unfold_locales (auto simp: committed_simps names_resource_def [symmetric]
      intro: yieldsD [OF ticket_handlers_yield(1)] keepsD [OF ticket_handlers_keep(1)])

interpretation review_repair_case: use_case review_repair_handler "''review_repair''" rr_metadata
  review_repair_payload
  by unfold_locales (auto simp: committed_simps names_resource_def [symmetric]
      intro: yieldsD [OF ticket_handlers_yield(2)] keepsD [OF ticket_handlers_keep(2)])

interpretation escalate_ticket_case: use_case escalate_ticket_handler "''escalate_ticket''"
  et_metadata escalate_ticket_payload
  by unfold_locales (auto simp: committed_simps names_resource_def [symmetric]
      intro: yieldsD [OF ticket_handlers_yield(3)] keepsD [OF ticket_handlers_keep(3)])

interpretation recover_ticket_case: use_case recover_ticket_handler "''recover_ticket''"
  rc_metadata recover_ticket_payload
  by unfold_locales (auto simp: committed_simps names_resource_def [symmetric]
      intro: yieldsD [OF ticket_handlers_yield(4)] keepsD [OF ticket_handlers_keep(4)])

end
