(* ===== verification/AppointmentService.thy ===== *)
theory AppointmentService
  imports TicketService
begin

text \<open>
  The booking use cases of \<open>backend/app/application/appointment_service.py\<close>: a formal booking
  and the atomic reschedule that supersedes one appointment by another.
\<close>

section \<open>Booking\<close>

definition booking_purpose :: "TicketSnapshot \<Rightarrow> appointment_purpose" where
  "booking_purpose ticket =
     (if ts_status ticket = TS_REWORK_REQUIRED then AP_REWORK else AP_INITIAL_REPAIR)"

definition booking_draft ::
  "uuid \<Rightarrow> BookAppointmentCommand \<Rightarrow> TicketSnapshot \<Rightarrow> AppointmentDraft" where
  "booking_draft appointment_id command ticket =
     \<lparr>ad_appointment_id = appointment_id, ad_ticket_id = ts_ticket_id ticket,
      ad_worker_id = ba_worker_id command, ad_purpose = booking_purpose ticket,
      ad_starts_at = ba_starts_at command, ad_ends_at = ba_ends_at command,
      ad_status = AS_BOOKED, ad_supersedes = None\<rparr>"

text \<open>The extra plan of a rework booking; its result is not used, its errors are.\<close>

definition check_rework_booking :: "TicketSnapshot \<Rightarrow> AppointmentDraft \<Rightarrow> unit action" where
  "check_rework_booking ticket draft =
     (if booking_purpose ticket = AP_REWORK
      then bindA (latest_for_ticket (ts_ticket_id ticket))
        (\<lambda>latest. case latest of
             None \<Rightarrow> raiseA (Exn ResourceNotFound ''prior_repair_appointment_not_found'' [])
           | Some prior \<Rightarrow> bindA (liftA (plan_rework_appointment (ts_ticket_id ticket)
                 (ts_status ticket) (ts_rework_count ticket) prior draft))
               (\<lambda>_. returnA ()))
      else returnA ())"

definition booked_ticket :: "TicketSnapshot \<Rightarrow> AppointmentCreationPlan \<Rightarrow> TicketSnapshot" where
  "booked_ticket ticket plan =
     ticket\<lparr>ts_status := acp_next_ticket_status plan, ts_version := acp_next_ticket_version plan,
       ts_escalated_from := None\<rparr>"

text \<open>Both use cases start with the ticket's owner or an operator, and an eligible worker.\<close>

definition require_eligible_worker ::
  "TicketSnapshot \<Rightarrow> uuid \<Rightarrow> timestamp \<Rightarrow> timestamp \<Rightarrow> unit action" where
  "require_eligible_worker ticket worker_id starts_at ends_at =
     bindA (worker_can_service worker_id (ts_property_id ticket)
              (issue_category_required_skill (ts_issue_category ticket)) starts_at ends_at)
       (\<lambda>eligible. raise_ifA (\<not> eligible)
          (Exn AuthorizationFailed ''worker_not_eligible'' [(''worker_id'', PUuid worker_id)]))"

definition book_appointment_handler ::
  "Env \<Rightarrow> BookAppointmentCommand \<Rightarrow> string \<Rightarrow> OperationResult action" where
  "book_appointment_handler env command digest =
     (let metadata = ba_metadata command; appointment_id = env_new_id env
      in bindA (raise_ifA (ba_starts_at command < mm_occurred_at metadata)
           (Exn ApplicationError ''appointment_time_in_past'' []))
      (\<lambda>_. bindA (tickets_get (ba_ticket_id command))
      (\<lambda>found. case found of
         None \<Rightarrow> raiseA (Exn ResourceNotFound ''ticket_not_found''
                   [(''ticket_id'', PUuid (ba_ticket_id command))])
       | Some ticket \<Rightarrow> bindA (authorize_ticket ticket metadata)
      (\<lambda>_. bindA (require_eligible_worker ticket (ba_worker_id command) (ba_starts_at command)
             (ba_ends_at command))
      (\<lambda>_. let draft = booking_draft appointment_id command ticket
        in bindA (liftA (plan_appointment_creation draft (ts_status ticket)
             (mm_actor_type metadata) (ba_expected_ticket_version command) (ts_version ticket)))
      (\<lambda>plan. bindA (check_rework_booking ticket draft)
      (\<lambda>_. let updated = booked_ticket ticket plan
        in bindA (tickets_update updated (ts_version ticket))
      (\<lambda>_. bindA (appointments_add env draft)
      (\<lambda>_. bindA (tickets_add_history (ticket_history ticket updated ''BOOK_APPOINTMENT''
             metadata None None []))
      (\<lambda>_. bindA (appointments_add_history (booking_history appointment_id metadata))
      (\<lambda>_. bindA (emit_ticket_status_changed env ticket updated ''BOOK_APPOINTMENT'' metadata
             ''book_appointment'')
      (\<lambda>_. bindA (outbox_add env (build_domain_event env EV_APPOINTMENT_BOOKED AG_APPOINTMENT
             appointment_id 1 metadata ''book_appointment''
             [(''ticket_id'', PStr (uuid_text (ts_ticket_id ticket))),
              (''worker_id'', PStr (uuid_text (ba_worker_id command))),
              (''purpose'', PStr (appointment_purpose_value (booking_purpose ticket))),
              (''starts_at'', PTime (ba_starts_at command)),
              (''ends_at'', PTime (ba_ends_at command))]))
      (\<lambda>_. returnA (success_result ''APPOINTMENT_BOOKED'' ''appointment'' appointment_id 1
             [(''ticket_id'', PStr (uuid_text (ts_ticket_id ticket))),
              (''ticket_version'', PInt (ts_version updated))]))))))))))))))"

section \<open>Rescheduling\<close>

definition replacement_draft ::
  "uuid \<Rightarrow> RescheduleAppointmentCommand \<Rightarrow> TicketSnapshot \<Rightarrow> AppointmentSnapshot \<Rightarrow> AppointmentDraft"
where
  "replacement_draft replacement_id command ticket old =
     \<lparr>ad_appointment_id = replacement_id, ad_ticket_id = ts_ticket_id ticket,
      ad_worker_id = ra_worker_id command, ad_purpose = as_purpose old,
      ad_starts_at = ra_starts_at command, ad_ends_at = ra_ends_at command,
      ad_status = AS_BOOKED, ad_supersedes = Some (as_appointment_id old)\<rparr>"

definition reschedule_request ::
  "RescheduleAppointmentCommand \<Rightarrow> TicketSnapshot \<Rightarrow> TicketTransitionRequest" where
  "reschedule_request command ticket =
     (TicketTransitionRequest_defaults (ts_status ticket) TA_RESCHEDULE
        (mm_actor_type (ra_metadata command)) (ra_expected_ticket_version command)
        (ts_version ticket))
       \<lparr>tr_resident_authorized := True, tr_has_active_booked_appointment := True,
        tr_current_rework_count := ts_rework_count ticket\<rparr>"

definition superseded_appointment :: "AppointmentSnapshot \<Rightarrow> ReschedulePlan \<Rightarrow> AppointmentSnapshot" where
  "superseded_appointment old plan =
     old\<lparr>as_status := atx_next_status (rs_old_transition plan),
       as_version := atx_next_version (rs_old_transition plan)\<rparr>"

definition reschedule_appointment_handler ::
  "Env \<Rightarrow> RescheduleAppointmentCommand \<Rightarrow> string \<Rightarrow> OperationResult action" where
  "reschedule_appointment_handler env command digest =
     (let metadata = ra_metadata command; replacement_id = env_new_id env
      in bindA (raise_ifA (ra_starts_at command < mm_occurred_at metadata)
           (Exn ApplicationError ''appointment_time_in_past'' []))
      (\<lambda>_. bindA (tickets_get (ra_ticket_id command))
      (\<lambda>found_ticket. bindA (appointments_get (ra_appointment_id command))
      (\<lambda>found_old. case found_ticket of
         None \<Rightarrow> raiseA (Exn ResourceNotFound ''ticket_not_found'' [])
       | Some ticket \<Rightarrow> case found_old of
         None \<Rightarrow> raiseA (Exn ResourceNotFound ''appointment_not_found'' [])
       | Some old \<Rightarrow> bindA (raise_ifA (as_ticket_id old \<noteq> ts_ticket_id ticket)
           (Exn ResourceNotFound ''appointment_not_found'' []))
      (\<lambda>_. bindA (authorize_ticket ticket metadata)
      (\<lambda>_. bindA (require_eligible_worker ticket (ra_worker_id command) (ra_starts_at command)
             (ra_ends_at command))
      (\<lambda>_. let draft = replacement_draft replacement_id command ticket old
        in bindA (liftA (plan_reschedule old draft (mm_actor_type metadata)
             (ra_expected_appointment_version command)))
      (\<lambda>plan. bindA (liftA (transition_ticket (reschedule_request command ticket)))
      (\<lambda>ticket_plan. let updated_ticket = ticket\<lparr>ts_version := trr_next_version ticket_plan\<rparr>;
                         updated_old = superseded_appointment old plan
        in bindA (tickets_update updated_ticket (ts_version ticket))
      (\<lambda>_. bindA (appointments_update updated_old (as_version old) None)
      (\<lambda>_. bindA (appointments_add env draft)
      (\<lambda>_. bindA (tickets_add_history (ticket_history ticket updated_ticket ''RESCHEDULE''
             metadata None None []))
      (\<lambda>_. bindA (appointments_add_history (appointment_history old updated_old metadata
             None None []))
      (\<lambda>_. bindA (appointments_add_history (booking_history replacement_id metadata))
      (\<lambda>_. bindA (outbox_add env (build_domain_event env EV_APPOINTMENT_RESCHEDULED
             AG_APPOINTMENT replacement_id 1 metadata ''reschedule_appointment''
             [(''ticket_id'', PStr (uuid_text (ts_ticket_id ticket))),
              (''previous_appointment_id'', PStr (uuid_text (as_appointment_id old))),
              (''worker_id'', PStr (uuid_text (ra_worker_id command))),
              (''starts_at'', PTime (ra_starts_at command)),
              (''ends_at'', PTime (ra_ends_at command))]))
      (\<lambda>_. returnA (success_result ''APPOINTMENT_RESCHEDULED'' ''appointment'' replacement_id 1
             [(''supersedes_appointment_id'', PStr (uuid_text (as_appointment_id old))),
              (''ticket_version'', PInt (ts_version updated_ticket))])))))))))))))))))"

section \<open>The use cases and their contract\<close>

definition book_appointment where
  "book_appointment = run_use_case book_appointment_handler ''book_appointment'' ba_metadata
     book_appointment_payload"

definition reschedule_appointment where
  "reschedule_appointment = run_use_case reschedule_appointment_handler
     ''reschedule_appointment'' ra_metadata reschedule_appointment_payload"

lemmas appointment_handler_defs = book_appointment_handler_def check_rework_booking_def
  require_eligible_worker_def reschedule_appointment_handler_def Let_def

lemma appointment_handlers_uncommitted [committed_simps]:
  "uncommitted (book_appointment_handler env c1 digest)"
  "uncommitted (reschedule_appointment_handler env c2 digest)"
  unfolding appointment_handler_defs by (simp_all add: committed_simps)

lemma appointment_handlers_yield [frame_simps]:
  "yields names_resource (book_appointment_handler env c1 digest)"
  "yields names_resource (reschedule_appointment_handler env c2 digest)"
  unfolding appointment_handler_defs by (simp_all add: frame_simps)

lemma appointment_handlers_keep [frame_simps]:
  "keeps db_idempotency (book_appointment_handler env c1 digest)"
  "keeps db_idempotency (reschedule_appointment_handler env c2 digest)"
  unfolding appointment_handler_defs repository_defs by (simp_all add: frame_simps)

interpretation book_appointment_case: use_case book_appointment_handler "''book_appointment''"
  ba_metadata book_appointment_payload
  by unfold_locales (auto simp: committed_simps
      intro: yieldsD [OF appointment_handlers_yield(1)] keepsD [OF appointment_handlers_keep(1)])

interpretation reschedule_case: use_case reschedule_appointment_handler
  "''reschedule_appointment''" ra_metadata reschedule_appointment_payload
  by unfold_locales (auto simp: committed_simps
      intro: yieldsD [OF appointment_handlers_yield(2)] keepsD [OF appointment_handlers_keep(2)])

end
