(* ===== verification/WorkerEventService.thy ===== *)
theory WorkerEventService
  imports AppointmentService
begin

text \<open>
  The worker-event use case of \<open>backend/app/application/worker_event_service.py\<close>: load and
  validate the context, apply the effects to ticket and appointment, append the event.
\<close>

section \<open>What the command says\<close>

text \<open>\<open>a or b\<close> on optional strings: an absent or empty left side is falsy.\<close>

definition text_or :: "string option \<Rightarrow> string option \<Rightarrow> string option" where
  "text_or a b = (if falsy_text a then b else a)"

text \<open>\<open>command.cancellation_reason or command.no_show_reason\<close>.\<close>

definition outcome_reason_of :: "RecordWorkerEventCommand \<Rightarrow> outcome_reason option" where
  "outcome_reason_of command =
     (case rw_cancellation_reason command of
        Some r \<Rightarrow> Some (CancelReason r)
      | None \<Rightarrow> map_option NoShow (rw_no_show_reason command))"

definition worker_reason_code :: "RecordWorkerEventCommand \<Rightarrow> string option" where
  "worker_reason_code command =
     (case outcome_reason_of command of
        Some r \<Rightarrow> Some (outcome_reason_value r)
      | None \<Rightarrow> map_option failure_reason_value (rw_failure_reason command))"

definition outcome_metadata ::
  "RecordWorkerEventCommand \<Rightarrow> TicketSnapshot \<Rightarrow> OutcomeMetadata option" where
  "outcome_metadata command ticket = map_option (\<lambda>reason.
     let (actor_type, actor_id) =
       (case reason of
          CancelReason r \<Rightarrow> (ACT_WORKER, rw_subject_worker_id command)
        | NoShow r \<Rightarrow> if r = NS_WORKER_NO_SHOW then (ACT_WORKER, rw_subject_worker_id command)
                      else (ACT_RESIDENT, ts_resident_id ticket))
     in \<lparr>om_actor_type = actor_type, om_actor_id = actor_id, om_reason_code = reason,
         om_reason_text = (case rw_reason_text command of None \<Rightarrow> [] | Some t \<Rightarrow> t),
         om_evidence = rw_evidence command,
         om_occurred_at = mm_occurred_at (rw_metadata command)\<rparr>) (outcome_reason_of command)"

definition worker_event_outcome ::
  "RecordWorkerEventCommand \<Rightarrow> TicketSnapshot \<Rightarrow> OutcomeColumns option" where
  "worker_event_outcome command ticket = map_option (\<lambda>om.
     \<lparr>oc_actor_type = om_actor_type om, oc_actor_id = om_actor_id om,
      oc_reason_code = outcome_reason_value (om_reason_code om),
      oc_reason_text = om_reason_text om, oc_evidence = om_evidence om,
      oc_occurred_at = om_occurred_at om\<rparr>) (outcome_metadata command ticket)"

definition appointment_action_of :: "worker_event_type \<Rightarrow> appointment_action" where
  "appointment_action_of event_type =
     (if event_type \<in> {WE_COMPLETED, WE_FAILED_TO_COMPLETE} then AA_FULFILL
      else if event_type = WE_NO_SHOW then AA_MARK_NO_SHOW else AA_CANCEL)"

text \<open>A missing failure reason is a \<open>ValueError\<close>, an event outside the mapping a \<open>KeyError\<close>.\<close>

definition worker_ticket_action ::
  "RecordWorkerEventCommand \<Rightarrow> appointment_purpose \<Rightarrow> ticket_action outcome" where
  "worker_ticket_action command purpose =
     (case rw_event_type command of
        WE_REJECTED \<Rightarrow> Inr (if purpose = AP_REWORK then TA_WORKER_REJECTED_REWORK
                          else TA_WORKER_REJECTED_INITIAL)
      | WE_CANCELLED \<Rightarrow> Inr (if purpose = AP_REWORK then TA_WORKER_CANCELLED_REWORK
                          else TA_WORKER_CANCELLED_INITIAL)
      | WE_FAILED_TO_COMPLETE \<Rightarrow>
          (case rw_failure_reason command of
             None \<Rightarrow> Inl (Exn PyValueError ''failure reason required'' [])
           | Some reason \<Rightarrow> Inr (if failure_disposition reason = FD_REWORK
                               then TA_FAIL_WORK_REWORK else TA_FAIL_WORK_ESCALATE))
      | WE_STARTED \<Rightarrow> Inr TA_START_WORK
      | WE_COMPLETED \<Rightarrow> Inr TA_COMPLETE_WORK
      | WE_NO_SHOW \<Rightarrow> Inr TA_REVIEWED_NO_SHOW
      | e \<Rightarrow> Inl (Exn PyKeyError (worker_event_type_value e) []))"

section \<open>Loading the context\<close>

record EventContext =
  ec_ticket :: TicketSnapshot
  ec_appointment :: AppointmentSnapshot
  ec_prior :: "WorkerEventSnapshot list"
  ec_decision :: WorkerEventResult

definition authorize_event_actor ::
  "RecordWorkerEventCommand \<Rightarrow> AppointmentSnapshot \<Rightarrow> unit action" where
  "authorize_event_actor command appointment =
     (let metadata = rw_metadata command
      in bindA (raise_ifA (as_worker_id appointment \<noteq> rw_subject_worker_id command)
           (Exn AuthorizationFailed ''worker_appointment_mismatch'' []))
      (\<lambda>_. if mm_actor_type metadata = ACT_WORKER
           then raise_ifA (mm_actor_id metadata \<noteq> rw_subject_worker_id command)
                  (Exn AuthorizationFailed ''worker_not_authorized'' [])
           else if mm_actor_type metadata = ACT_OPERATOR
           then bindA (queryA (actor_is_operator (mm_actor_id metadata)))
             (\<lambda>operator. raise_ifA (\<not> operator)
                (Exn AuthorizationFailed ''operator_not_authorized'' []))
           else raise_ifA (mm_actor_type metadata \<noteq> ACT_SYSTEM)
                  (Exn AuthorizationFailed ''actor_not_allowed'' [])))"

definition event_failure :: "RecordWorkerEventCommand \<Rightarrow> FailureDetails option" where
  "event_failure command = map_option (\<lambda>reason.
     \<lparr>fd_reason = reason,
      fd_worker_statement = (case rw_worker_statement command of None \<Rightarrow> [] | Some t \<Rightarrow> t),
      fd_evidence = rw_evidence command\<rparr>) (rw_failure_reason command)"

definition event_request ::
  "RecordWorkerEventCommand \<Rightarrow> TicketSnapshot \<Rightarrow> AppointmentSnapshot \<Rightarrow> WorkerEventSnapshot list \<Rightarrow>
   WorkerEventRequest" where
  "event_request command ticket appointment prior =
     \<lparr>wr_event_type = rw_event_type command,
      wr_actor_type = mm_actor_type (rw_metadata command),
      wr_appointment_id = Some (as_appointment_id appointment),
      wr_ticket_status = ts_status ticket, wr_appointment_status = as_status appointment,
      wr_appointment_purpose = Some (as_purpose appointment),
      wr_current_rework_count = ts_rework_count ticket,
      wr_expected_ticket_version = rw_expected_ticket_version command,
      wr_actual_ticket_version = ts_version ticket,
      wr_expected_appointment_version = rw_expected_appointment_version command,
      wr_actual_appointment_version = as_version appointment,
      wr_prior_events = map we_event_type prior, wr_confirmed_replay = False,
      wr_cancellation_reason = rw_cancellation_reason command,
      wr_no_show_reason = rw_no_show_reason command, wr_failure = event_failure command,
      wr_evidence = rw_evidence command\<rparr>"

definition replayed_event :: "WorkerEventSnapshot \<Rightarrow> OperationResult" where
  "replayed_event existing =
     (success_result ''WORKER_EVENT_REPLAYED'' ''worker_event'' (we_event_id existing)
        (we_sequence_no existing) [])\<lparr>or_replayed := True\<rparr>"

definition load_context ::
  "RecordWorkerEventCommand \<Rightarrow> string \<Rightarrow> (OperationResult + EventContext) action" where
  "load_context command digest =
     bindA (appointments_get (rw_appointment_id command))
     (\<lambda>found. case found of
        None \<Rightarrow> raiseA (Exn ResourceNotFound ''appointment_not_found'' [])
      | Some appointment \<Rightarrow> bindA (raise_ifA (as_ticket_id appointment \<noteq> rw_ticket_id command)
           (Exn ResourceNotFound ''appointment_not_found'' []))
      (\<lambda>_. bindA (list_for_appointment (as_appointment_id appointment))
      (\<lambda>prior. bindA (get_by_external_key (rw_external_event_key command))
      (\<lambda>existing. case existing of
         Some e \<Rightarrow> bindA (raise_ifA (we_request_hash e \<noteq> digest)
             (Exn IdempotencyConflict ''worker_event_payload_conflict'' []))
           (\<lambda>_. returnA (Inl (replayed_event e)))
       | None \<Rightarrow> bindA (tickets_get (rw_ticket_id command))
      (\<lambda>found_ticket. case found_ticket of
         None \<Rightarrow> raiseA (Exn ResourceNotFound ''ticket_not_found'' [])
       | Some ticket \<Rightarrow> bindA (authorize_event_actor command appointment)
      (\<lambda>_. bindA (liftA (validate_worker_event (event_request command ticket appointment prior)))
      (\<lambda>decision. returnA (Inr \<lparr>ec_ticket = ticket, ec_appointment = appointment,
           ec_prior = prior, ec_decision = decision\<rparr>))))))))"

section \<open>Effects\<close>

definition apply_appointment_effect ::
  "RecordWorkerEventCommand \<Rightarrow> TicketSnapshot \<Rightarrow> AppointmentSnapshot \<Rightarrow> AppointmentSnapshot \<Rightarrow>
   unit action" where
  "apply_appointment_effect command ticket appointment updated =
     bindA (liftA (transition_appointment
       \<lparr>atr_current_status = as_status appointment,
        atr_action = appointment_action_of (rw_event_type command),
        atr_actor_type = mm_actor_type (rw_metadata command),
        atr_expected_version = rw_expected_appointment_version command,
        atr_actual_version = as_version appointment,
        atr_outcome = outcome_metadata command ticket\<rparr>))
     (\<lambda>_. bindA (appointments_update updated (as_version appointment)
            (worker_event_outcome command ticket))
     (\<lambda>_. appointments_add_history (appointment_history appointment updated (rw_metadata command)
            (worker_reason_code command)
            (text_or (rw_reason_text command) (rw_worker_statement command))
            (rw_evidence command))))"

definition event_ticket :: "EventContext \<Rightarrow> TicketSnapshot" where
  "event_ticket context =
     (let ticket = ec_ticket context; decision = ec_decision context
      in ticket\<lparr>ts_status := wx_next_ticket_status decision,
           ts_escalated_from := (if wx_next_ticket_status decision = TS_ESCALATED
                                 then Some (ts_status ticket) else None),
           ts_rework_count := wx_next_rework_count decision,
           ts_version := ts_version ticket +
             (if wx_next_ticket_status decision \<noteq> ts_status ticket then 1 else 0)\<rparr>)"

definition event_appointment :: "EventContext \<Rightarrow> AppointmentSnapshot" where
  "event_appointment context =
     (let appointment = ec_appointment context; decision = ec_decision context
      in appointment\<lparr>as_status := wx_next_appointment_status decision,
           as_version := as_version appointment +
             (if wx_next_appointment_status decision \<noteq> as_status appointment then 1 else 0)\<rparr>)"

definition apply_ticket_effect ::
  "Env \<Rightarrow> RecordWorkerEventCommand \<Rightarrow> EventContext \<Rightarrow> unit action" where
  "apply_ticket_effect env command context =
     (let ticket = ec_ticket context; updated = event_ticket context;
          metadata = rw_metadata command
      in bindA (tickets_update updated (ts_version ticket))
      (\<lambda>_. bindA (liftA (worker_ticket_action command (as_purpose (ec_appointment context))))
      (\<lambda>action. bindA (tickets_add_history (ticket_history ticket updated
             (ticket_action_value action) metadata (worker_reason_code command)
             (text_or (rw_reason_text command) (rw_worker_statement command))
             (rw_evidence command)))
      (\<lambda>_. emit_ticket_status_changed env ticket updated (ticket_action_value action) metadata
             ''record_worker_event''))))"

definition apply_effects :: "Env \<Rightarrow> RecordWorkerEventCommand \<Rightarrow> EventContext \<Rightarrow> unit action" where
  "apply_effects env command context =
     (let ticket = ec_ticket context; appointment = ec_appointment context;
          decision = ec_decision context
      in bindA (if wx_next_ticket_status decision \<noteq> ts_status ticket
                then apply_ticket_effect env command context else returnA ())
      (\<lambda>_. if wx_next_appointment_status decision \<noteq> as_status appointment
           then apply_appointment_effect command ticket appointment (event_appointment context)
           else returnA ()))"

section \<open>Appending the event\<close>

definition event_record ::
  "Env \<Rightarrow> RecordWorkerEventCommand \<Rightarrow> string \<Rightarrow> EventContext \<Rightarrow> WorkerEventRecord" where
  "event_record env command digest context =
     \<lparr>we_event_id = env_new_id env, we_appointment_id = as_appointment_id (ec_appointment context),
      we_subject_worker_id = rw_subject_worker_id command,
      we_sequence_no = int (length (ec_prior context)) + 1,
      we_event_type = rw_event_type command,
      we_external_event_key = rw_external_event_key command, we_request_hash = digest,
      wer_actor_type = mm_actor_type (rw_metadata command),
      wer_actor_id = mm_actor_id (rw_metadata command),
      wer_trace_id = mm_trace_id (rw_metadata command),
      wer_occurred_at = mm_occurred_at (rw_metadata command),
      wer_payload = json_value (PDict (record_worker_event_payload command))\<rparr>"

definition append_event ::
  "Env \<Rightarrow> RecordWorkerEventCommand \<Rightarrow> string \<Rightarrow> EventContext \<Rightarrow> OperationResult action" where
  "append_event env command digest context =
     (let ticket = event_ticket context; appointment = event_appointment context
      in bindA (worker_events_add (event_record env command digest context))
      (\<lambda>_. returnA (success_result ''WORKER_EVENT_RECORDED'' ''worker_event'' (env_new_id env)
             (int (length (ec_prior context)) + 1)
             [(''ticket_status'', PStr (ticket_status_value (ts_status ticket))),
              (''ticket_version'', PInt (ts_version ticket)),
              (''appointment_status'', PStr (appointment_status_value (as_status appointment))),
              (''appointment_version'', PInt (as_version appointment))])))"

definition record_worker_event_handler ::
  "Env \<Rightarrow> RecordWorkerEventCommand \<Rightarrow> string \<Rightarrow> OperationResult action" where
  "record_worker_event_handler env command digest =
     bindA (load_context command digest)
     (\<lambda>loaded. case loaded of
        Inl replay \<Rightarrow> returnA replay
      | Inr context \<Rightarrow> bindA (apply_effects env command context)
           (\<lambda>_. append_event env command digest context))"

section \<open>The use case and its contract\<close>

definition record_worker_event where
  "record_worker_event = run_use_case record_worker_event_handler ''record_worker_event''
     rw_metadata record_worker_event_payload"

lemmas worker_event_handler_defs = record_worker_event_handler_def load_context_def
  authorize_event_actor_def apply_effects_def apply_ticket_effect_def
  apply_appointment_effect_def append_event_def Let_def

lemma uncommitted_case_sum [committed_simps]:
  "(\<And>x. uncommitted (f x)) \<Longrightarrow> (\<And>x. uncommitted (g x)) \<Longrightarrow>
   uncommitted (case z of Inl x \<Rightarrow> f x | Inr y \<Rightarrow> g y)"
  by (cases z) simp_all

lemma keeps_case_sum [frame_simps]:
  "(\<And>x. keeps h (f x)) \<Longrightarrow> (\<And>x. keeps h (g x)) \<Longrightarrow>
   keeps h (case z of Inl x \<Rightarrow> f x | Inr y \<Rightarrow> g y)"
  by (cases z) simp_all

lemma worker_event_handler_uncommitted [committed_simps]:
  "uncommitted (record_worker_event_handler env c digest)"
  unfolding worker_event_handler_defs by (simp add: committed_simps)

lemma worker_event_handler_keeps [frame_simps]:
  "keeps db_idempotency (record_worker_event_handler env c digest)"
  unfolding worker_event_handler_defs repository_defs by (simp add: frame_simps)

lemma load_context_replay:
  "load_context command digest s = (Inr (Inl replay), s') \<Longrightarrow> names_resource replay"
  unfolding load_context_def
  by (auto simp: inversion_simps replayed_event_def names_resource_def)

lemma worker_event_handler_yields:
  assumes "record_worker_event_handler env c digest s = (Inr result, s')"
  shows "names_resource result"
  using assms unfolding record_worker_event_handler_def append_event_def
  by (auto simp: inversion_simps Let_def dest: load_context_replay)

interpretation record_worker_event_case: use_case record_worker_event_handler
  "''record_worker_event''" rw_metadata record_worker_event_payload
  by unfold_locales (auto simp: committed_simps worker_event_handler_yields
      intro: keepsD [OF worker_event_handler_keeps])

end
