(* ===== verification/UseCases.thy ===== *)
theory UseCases
  imports WorkerEventService
begin

text \<open>
  The facade of \<open>backend/app/application/services.py\<close> over the seven mutations: one dispatch
  function, runs of many commands, and what the idempotent transaction guarantees across them.
\<close>

section \<open>The facade\<close>

datatype command =
    CreateTicket CreateTicketCommand
  | ReviewRepair ReviewRepairCommand
  | EscalateTicket EscalateTicketCommand
  | RecoverTicket RecoverTicketCommand
  | BookAppointment BookAppointmentCommand
  | RescheduleAppointment RescheduleAppointmentCommand
  | RecordWorkerEvent RecordWorkerEventCommand

fun dispatch :: "Env \<Rightarrow> command \<Rightarrow> db \<Rightarrow> OperationResult outcome \<times> db" where
  "dispatch env (CreateTicket c) = create_ticket env c"
| "dispatch env (ReviewRepair c) = review_repair env c"
| "dispatch env (EscalateTicket c) = escalate_ticket env c"
| "dispatch env (RecoverTicket c) = recover_ticket env c"
| "dispatch env (BookAppointment c) = book_appointment env c"
| "dispatch env (RescheduleAppointment c) = reschedule_appointment env c"
| "dispatch env (RecordWorkerEvent c) = record_worker_event env c"

fun command_metadata :: "command \<Rightarrow> MutationMetadata" where
  "command_metadata (CreateTicket c) = ct_metadata c"
| "command_metadata (ReviewRepair c) = rr_metadata c"
| "command_metadata (EscalateTicket c) = et_metadata c"
| "command_metadata (RecoverTicket c) = rc_metadata c"
| "command_metadata (BookAppointment c) = ba_metadata c"
| "command_metadata (RescheduleAppointment c) = ra_metadata c"
| "command_metadata (RecordWorkerEvent c) = rw_metadata c"

fun command_scope :: "command \<Rightarrow> string" where
  "command_scope (CreateTicket c) = ''create_ticket''"
| "command_scope (ReviewRepair c) = ''review_repair''"
| "command_scope (EscalateTicket c) = ''escalate_ticket''"
| "command_scope (RecoverTicket c) = ''recover_ticket''"
| "command_scope (BookAppointment c) = ''book_appointment''"
| "command_scope (RescheduleAppointment c) = ''reschedule_appointment''"
| "command_scope (RecordWorkerEvent c) = ''record_worker_event''"

fun command_payload :: "command \<Rightarrow> (string \<times> pval) list" where
  "command_payload (CreateTicket c) = create_ticket_payload c"
| "command_payload (ReviewRepair c) = review_repair_payload c"
| "command_payload (EscalateTicket c) = escalate_ticket_payload c"
| "command_payload (RecoverTicket c) = recover_ticket_payload c"
| "command_payload (BookAppointment c) = book_appointment_payload c"
| "command_payload (RescheduleAppointment c) = reschedule_appointment_payload c"
| "command_payload (RecordWorkerEvent c) = record_worker_event_payload c"

fun command_handler :: "Env \<Rightarrow> command \<Rightarrow> string \<Rightarrow> OperationResult action" where
  "command_handler env (CreateTicket c) = create_ticket_handler env c"
| "command_handler env (ReviewRepair c) = review_repair_handler env c"
| "command_handler env (EscalateTicket c) = escalate_ticket_handler env c"
| "command_handler env (RecoverTicket c) = recover_ticket_handler env c"
| "command_handler env (BookAppointment c) = book_appointment_handler env c"
| "command_handler env (RescheduleAppointment c) = reschedule_appointment_handler env c"
| "command_handler env (RecordWorkerEvent c) = record_worker_event_handler env c"

text \<open>Every service method is the same transaction around its own handler.\<close>

lemma dispatch_use_case:
  "dispatch env c d =
     run_use_case command_handler (command_scope c) command_metadata command_payload env c d"
  by (cases c) (simp_all add: run_use_case_def create_ticket_def review_repair_def
      escalate_ticket_def recover_ticket_def book_appointment_def reschedule_appointment_def
      record_worker_event_def)

lemmas handler_uncommitted_facts = create_ticket_case.handler_uncommitted
  review_repair_case.handler_uncommitted
  escalate_ticket_case.handler_uncommitted
  recover_ticket_case.handler_uncommitted
  book_appointment_case.handler_uncommitted
  reschedule_case.handler_uncommitted
  record_worker_event_case.handler_uncommitted

lemmas handler_result_facts = create_ticket_case.handler_result
  review_repair_case.handler_result
  escalate_ticket_case.handler_result
  recover_ticket_case.handler_result
  book_appointment_case.handler_result
  reschedule_case.handler_result
  record_worker_event_case.handler_result

lemmas handler_idempotency_facts = create_ticket_case.handler_idempotency
  review_repair_case.handler_idempotency
  escalate_ticket_case.handler_idempotency
  recover_ticket_case.handler_idempotency
  book_appointment_case.handler_idempotency
  reschedule_case.handler_idempotency
  record_worker_event_case.handler_idempotency

lemma command_handler_uncommitted: "uncommitted (command_handler env c digest)"
  by (cases c; simp only: command_handler.simps; rule handler_uncommitted_facts)

lemma command_handler_result:
  "command_handler env c digest s = (Inr result, s') \<Longrightarrow> names_resource result"
  by (cases c; simp only: command_handler.simps; erule handler_result_facts)

lemma command_handler_idempotency:
  "command_handler env c digest s = (Inr result, s') \<Longrightarrow>
     db_idempotency (se_working s') = db_idempotency (se_working s)"
  by (cases c; simp only: command_handler.simps; erule handler_idempotency_facts)

interpretation facade: use_case command_handler scope command_metadata command_payload
  for scope
  by unfold_locales (fact command_handler_uncommitted | erule command_handler_result |
      erule command_handler_idempotency)+

abbreviation command_key :: "command \<Rightarrow> idempotency_id" where
  "command_key c \<equiv> idempotency_key_of (command_scope c) (command_metadata c)"

abbreviation command_digest :: "Env \<Rightarrow> command \<Rightarrow> string" where
  "command_digest env c \<equiv> request_digest env (command_metadata c) (command_payload c)"

text \<open>A run of commands, each with its own environment.\<close>

fun run_commands :: "(Env \<times> command) list \<Rightarrow> db \<Rightarrow> db" where
  "run_commands [] d = d"
| "run_commands ((env, c) # rest) d = run_commands rest (snd (dispatch env c d))"

section \<open>Atomicity\<close>

text \<open>C3: a mutation is all or nothing. Whatever the command, if the caller does not get a success
  (a typed failure, or an exception that leaves the service) the tables are exactly those from
  before the command, including its idempotency record; and a success that is not a replay is the
  handler's own result, committed together with its idempotency record.\<close>

theorem dispatch_all_or_nothing:
  "case dispatch env c d of
     (Inl e, d') \<Rightarrow> d' = d
   | (Inr result, d') \<Rightarrow>
       if \<not> or_ok result then d' = d
       else (find_idempotency (command_key c) d \<noteq> None \<and> d' = d \<and> or_replayed result) \<or>
         (\<exists>s. command_handler env c (command_digest env c)
              \<lparr>se_committed = d, se_working = acquired (command_key c) (command_digest env c)
                 (operation_id_for env (command_metadata c) (command_scope c)) d\<rparr> = (Inr result, s) \<and>
            d' = settled (command_key c) result (se_working s))"
proof (cases "dispatch env c d")
  case (Pair answer d')
  then have run: "run_use_case command_handler (command_scope c) command_metadata command_payload
      env c d = (answer, d')" by (simp add: dispatch_use_case)
  show ?thesis
  proof (cases "\<exists>result. answer = Inr result \<and> or_ok result")
    case True
    then obtain result where r: "answer = Inr result" "or_ok result" by blast
    with run have "run_use_case command_handler (command_scope c) command_metadata command_payload
      env c d = (Inr result, d')" by simp
    from this r(2) show ?thesis
    proof (cases rule: facade.run_success_cases)
      case (replayed row)
      then show ?thesis using Pair r by (simp add: replay_result_def)
    next
      case (fresh s)
      then show ?thesis using Pair r by auto
    qed
  next
    case False
    then have "d' = d" using facade.run_atomic [OF run] by simp
    then show ?thesis using Pair False by (cases answer) auto
  qed
qed

section \<open>Exactly once\<close>

definition at_trace :: "uuid \<Rightarrow> timestamp \<Rightarrow> MutationMetadata \<Rightarrow> MutationMetadata" where
  "at_trace trace time m = m\<lparr>mm_trace_id := trace, mm_occurred_at := time\<rparr>"

text \<open>The command that a client sends again: same identity and content, a new trace and clock.\<close>

fun retry :: "uuid \<Rightarrow> timestamp \<Rightarrow> command \<Rightarrow> command" where
  "retry trace time (CreateTicket c) =
     CreateTicket (c\<lparr>ct_metadata := at_trace trace time (ct_metadata c)\<rparr>)"
| "retry trace time (ReviewRepair c) =
     ReviewRepair (c\<lparr>rr_metadata := at_trace trace time (rr_metadata c)\<rparr>)"
| "retry trace time (EscalateTicket c) =
     EscalateTicket (c\<lparr>et_metadata := at_trace trace time (et_metadata c)\<rparr>)"
| "retry trace time (RecoverTicket c) =
     RecoverTicket (c\<lparr>rc_metadata := at_trace trace time (rc_metadata c)\<rparr>)"
| "retry trace time (BookAppointment c) =
     BookAppointment (c\<lparr>ba_metadata := at_trace trace time (ba_metadata c)\<rparr>)"
| "retry trace time (RescheduleAppointment c) =
     RescheduleAppointment (c\<lparr>ra_metadata := at_trace trace time (ra_metadata c)\<rparr>)"
| "retry trace time (RecordWorkerEvent c) =
     RecordWorkerEvent (c\<lparr>rw_metadata := at_trace trace time (rw_metadata c)\<rparr>)"

lemma retry_metadata [simp]:
  "command_metadata (retry trace time c) = at_trace trace time (command_metadata c)"
  "command_scope (retry trace time c) = command_scope c"
  by (cases c; simp)+

lemma semantic_at_trace:
  "semantic_entry (''metadata'', PDict (metadata_dict (at_trace trace time m))) =
   semantic_entry (''metadata'', PDict (metadata_dict m))"
  by (rule semantic_metadata_eq) (simp_all add: at_trace_def)

lemma retry_payload:
  "semantic_payload (command_payload (retry trace time c)) = semantic_payload (command_payload c)"
  by (cases c)
    (simp_all add: semantic_payload_def semantic_at_trace create_ticket_payload_def
      review_repair_payload_def escalate_ticket_payload_def recover_ticket_payload_def
      book_appointment_payload_def reschedule_appointment_payload_def
      record_worker_event_payload_def del: semantic_entry.simps(1))

lemma retry_identity:
  assumes "env_sha256 env' = env_sha256 env"
  shows "command_key (retry trace time c) = command_key c"
    and "command_digest env' (retry trace time c) = command_digest env c"
proof -
  show "command_key (retry trace time c) = command_key c"
    by (simp add: idempotency_key_of_def at_trace_def)
  have "request_hash env' (command_payload (retry trace time c)) =
      request_hash env (command_payload c)"
    by (simp add: request_hash_def retry_payload assms)
  then show "command_digest env' (retry trace time c) = command_digest env c"
    by (simp add: request_digest_def at_trace_def split: option.splits)
qed

lemma run_commands_keep_record:
  "find_idempotency k d = Some r \<Longrightarrow> find_idempotency k (run_commands cs d) = Some r"
  by (induction cs d rule: run_commands.induct)
    (simp_all add: dispatch_use_case facade.run_keeps_record)

text \<open>C1: a mutation happens exactly once. After a command has succeeded, the same command sent
  again with a new trace and clock, after any number of other commands in between, changes nothing
  and is answered with the code, the resource, the version and the data of the first answer.\<close>

theorem retry_answered_exactly_once:
  assumes "dispatch env c d = (Inr result, d1)" and "or_ok result" and "\<not> or_replayed result"
    and "env_sha256 env' = env_sha256 env"
  shows "dispatch env' (retry trace time c) (run_commands cs d1) =
    (Inr (retry_answer result), run_commands cs d1)"
proof -
  let ?run = "\<lambda>env c. run_use_case command_handler (command_scope c) command_metadata
    command_payload env c"
  have run: "?run env c d = (Inr result, d1)"
    using assms(1) by (simp add: dispatch_use_case)
  note identity = retry_identity [OF assms(4), of trace time c]
  note resource = facade.run_result_identity [OF run assms(2,3)]
  from facade.run_records [OF run assms(2,3)] run_commands_keep_record [of "command_key c"]
  have "find_idempotency (command_key (retry trace time c)) (run_commands cs d1) =
      Some (success_record (command_key (retry trace time c)) (command_digest env c)
        (operation_id_for env (command_metadata c) (command_scope c)) result)"
    unfolding identity(1) by blast
  from facade.run_retry [OF this _ _ identity(2)] resource show ?thesis
    by (simp add: dispatch_use_case)
qed

text \<open>C2: an idempotency key never stands for two requests. Once a command has succeeded, any
  command of the same kind, actor and key whose content hashes differently is refused with
  \<open>idempotency_payload_conflict\<close>, for ever, and changes nothing.\<close>

theorem key_reuse_refused:
  assumes "dispatch env c d = (Inr result, d1)" and "or_ok result" and "\<not> or_replayed result"
    and "command_key c' = command_key c" and "command_digest env' c' \<noteq> command_digest env c"
  shows "\<exists>answer. dispatch env' c' (run_commands cs d1) = (Inr answer, run_commands cs d1) \<and>
    \<not> or_ok answer \<and> or_code answer = ''idempotency_payload_conflict''"
proof -
  have run: "run_use_case command_handler (command_scope c) command_metadata
      command_payload env c d = (Inr result, d1)"
    using assms(1) by (simp add: dispatch_use_case)
  let ?row = "success_record (command_key c) (command_digest env c)
    (operation_id_for env (command_metadata c) (command_scope c)) result"
  from facade.run_records [OF run assms(2,3)] run_commands_keep_record [of "command_key c"]
  have "find_idempotency (command_key c') (run_commands cs d1) = Some ?row"
    unfolding assms(4) by blast
  moreover have "ir_request_hash ?row = command_digest env c" by (simp add: success_record_def)
  ultimately show ?thesis
    using facade.run_payload_conflict [of "command_scope c'" c' _ ?row env'] assms(5)
    by (simp add: dispatch_use_case)
qed

end
