(* ===== verification/AuditTrail.thy ===== *)
theory AuditTrail
  imports UseCases
begin

text \<open>
  The history tables as an audit trail. \<open>replay_log\<close> runs the entries of one aggregate from
  nothing; a table is audited when the replay ends in the status and version of every row.
  The locale \<open>audited_table\<close> states how an \<open>UPDATE\<close> and an \<open>INSERT\<close> must pair with the log and
  proves that the pairing keeps the trail complete; tickets and appointments interpret it.
\<close>

section \<open>Replaying a log\<close>

text \<open>An entry: the status before (none for a creation) and after, the versions before and after.\<close>

type_synonym 's log_entry = "'s option \<times> 's \<times> int \<times> int"

fun replay_log :: "'s option \<times> int \<Rightarrow> 's log_entry list \<Rightarrow> ('s option \<times> int) option" where
  "replay_log state [] = Some state"
| "replay_log (status, version) ((from_status, to_status, before, after) # log) =
     (if from_status = status \<and> before = version \<and> after = version + 1
      then replay_log (Some to_status, after) log else None)"

lemma replay_log_append:
  "replay_log state (xs @ ys) =
     (case replay_log state xs of None \<Rightarrow> None | Some state' \<Rightarrow> replay_log state' ys)"
  by (induction state xs rule: replay_log.induct) auto

definition log_of ::
  "('h \<Rightarrow> uuid) \<Rightarrow> ('h \<Rightarrow> 's log_entry) \<Rightarrow> 'h list \<Rightarrow> uuid \<Rightarrow> 's log_entry list" where
  "log_of log_id entry log i = map entry (filter (\<lambda>h. log_id h = i) log)"

definition audited ::
  "('r \<Rightarrow> uuid) \<Rightarrow> ('r \<Rightarrow> 's) \<Rightarrow> ('r \<Rightarrow> int) \<Rightarrow> ('h \<Rightarrow> uuid) \<Rightarrow> ('h \<Rightarrow> 's log_entry) \<Rightarrow>
   'r list \<Rightarrow> 'h list \<Rightarrow> bool" where
  "audited row_id row_status row_version log_id entry rows log \<longleftrightarrow>
     distinct (map row_id rows) \<and>
     (\<forall>r \<in> set rows. replay_log (None, 0) (log_of log_id entry log (row_id r)) =
        Some (Some (row_status r), row_version r)) \<and>
     (\<forall>h \<in> set log. log_id h \<in> row_id ` set rows)"

locale audited_table =
  fixes row_id :: "'r \<Rightarrow> uuid" and row_status :: "'r \<Rightarrow> 's" and row_version :: "'r \<Rightarrow> int"
    and log_id :: "'h \<Rightarrow> uuid" and entry :: "'h \<Rightarrow> 's log_entry"
    and columns :: "'snap \<Rightarrow> 'r \<Rightarrow> 'r" and snap_status :: "'snap \<Rightarrow> 's"
  assumes columns_id: "row_id (columns n r) = row_id r"
    and columns_status: "row_status (columns n r) = snap_status n"
    and columns_version: "row_version (columns n r) = row_version r + 1"
begin

abbreviation ok where "ok \<equiv> audited row_id row_status row_version log_id entry"

abbreviation written where
  "written n i v rows \<equiv> map (\<lambda>r. if row_id r = i \<and> row_version r = v then columns n r else r) rows"

text \<open>A new row with its creation entry.\<close>

lemma ok_insert:
  assumes "ok rows log" and "row_id r \<notin> row_id ` set rows" and "row_version r = 1"
    and "log_id h = row_id r" and "entry h = (None, row_status r, 0, 1)"
  shows "ok (rows @ [r]) (log @ [h])"
proof -
  have "\<forall>h \<in> set log. log_id h \<noteq> row_id r"
    using assms(1,2) unfolding audited_def by metis
  then have "log_of log_id entry log (row_id r) = []"
    by (simp add: log_of_def filter_empty_conv)
  moreover have "log_of log_id entry (log @ [h]) (row_id x) = log_of log_id entry log (row_id x)"
    if "x \<in> set rows" for x
    using that assms(2,4) by (auto simp: log_of_def)
  ultimately show ?thesis
    using assms by (auto simp: audited_def log_of_def)
qed

text \<open>A compare-and-set that hits, with its entry.\<close>

lemma ok_update:
  assumes "ok rows log" and r: "r \<in> set rows" and "log_id h = row_id r"
    and "entry h = (Some (row_status r), snap_status n, row_version r, row_version r + 1)"
  shows "ok (written n (row_id r) (row_version r) rows) (log @ [h])"
proof -
  let ?w = "\<lambda>x. if row_id x = row_id r \<and> row_version x = row_version r then columns n x else x"
  have ids: "map row_id (map ?w rows) = map row_id rows" by (simp add: columns_id)
  have same: "x = r" if "x \<in> set rows" "row_id x = row_id r" for x
    using assms(1) r that by (auto simp: audited_def distinct_map dest: inj_onD)
  have one: "replay_log (None, 0) (log_of log_id entry (log @ [h]) (row_id (?w x))) =
      Some (Some (row_status (?w x)), row_version (?w x))" if x: "x \<in> set rows" for x
  proof (cases "row_id x = row_id r")
    case True
    then have "x = r" using same x by simp
    then show ?thesis
      using assms by (simp add: audited_def log_of_def replay_log_append columns_id columns_status
          columns_version)
  next
    case False
    then show ?thesis using assms x by (simp add: audited_def log_of_def)
  qed
  have rows': "\<forall>y \<in> set (map ?w rows). replay_log (None, 0) (log_of log_id entry (log @ [h]) (row_id y)) =
      Some (Some (row_status y), row_version y)"
  proof
    fix y assume "y \<in> set (map ?w rows)"
    then obtain x where "x \<in> set rows" "y = ?w x" by auto
    with one show "replay_log (None, 0) (log_of log_id entry (log @ [h]) (row_id y)) =
      Some (Some (row_status y), row_version y)" by blast
  qed
  have all_ids: "row_id ` set (map ?w rows) = row_id ` set rows" by (metis ids list.set_map)
  have "\<forall>x \<in> set (log @ [h]). log_id x \<in> row_id ` set rows"
    using assms(1,3) r by (auto simp: audited_def)
  moreover have "distinct (map row_id rows)" using assms(1) by (simp add: audited_def)
  ultimately show ?thesis using rows' unfolding audited_def ids all_ids by blast
qed

text \<open>Versions count the entries: no change of a row is missing from its trail.\<close>

lemma replay_version:
  "replay_log (s, v) log = Some (s', v') \<Longrightarrow> v' = v + int (length log)"
proof (induction log arbitrary: s v)
  case (Cons e log)
  obtain f t b a where "e = (f, t, b, a)" by (cases e)
  with Cons.prems have "replay_log (Some t, v + 1) log = Some (s', v')"
    by (simp split: if_splits)
  from Cons.IH [OF this] show ?case by simp
qed simp

lemma ok_version_counts:
  assumes "ok rows log" and "r \<in> set rows"
  shows "row_version r = int (length (log_of log_id entry log (row_id r)))"
  using assms replay_version [of None 0] by (auto simp: audited_def)

end

definition ticket_log_entry :: "TicketHistoryRecord \<Rightarrow> ticket_status log_entry" where
  "ticket_log_entry h =
     (th_from_status h, th_to_status h, th_version_before h, th_version_after h)"

definition appointment_log_entry :: "AppointmentHistoryRecord \<Rightarrow> appointment_status log_entry" where
  "appointment_log_entry h =
     (ah_from_status h, ah_to_status h, ah_version_before h, ah_version_after h)"

definition tickets_audited :: "db \<Rightarrow> bool" where
  "tickets_audited d \<longleftrightarrow>
     audited ts_ticket_id ts_status ts_version th_ticket_id ticket_log_entry
       (db_tickets d) (db_ticket_history d)"

definition appointments_audited :: "db \<Rightarrow> bool" where
  "appointments_audited d \<longleftrightarrow>
     audited as_appointment_id as_status as_version ah_appointment_id appointment_log_entry
       (db_appointments d) (db_appointment_history d)"

interpretation ticket_table: audited_table ts_ticket_id ts_status ts_version th_ticket_id
  ticket_log_entry ticket_columns ts_status
  by unfold_locales (simp_all add: ticket_columns_def)

interpretation appointment_table: audited_table as_appointment_id as_status as_version
  ah_appointment_id appointment_log_entry "\<lambda>(n, outcome). appointment_columns n outcome"
  "\<lambda>(n, outcome). as_status n"
  by unfold_locales (auto simp: appointment_columns_def split: prod.splits)

end
