(* ===== verification/Effects.thy ===== *)
theory Effects
  imports AuditTrail
begin

text \<open>
  What a successful handler has done to the tables: inversion of the repository operations and
  one effect lemma per handler, which the invariants of \<open>Lifecycle\<close> build on.
\<close>

section \<open>Repository operations\<close>

lemma repository_Inr_iff [inversion_simps]:
  "tickets_get i s = (Inr x, s') \<longleftrightarrow> find_ticket i (se_working s) = x \<and> s' = s"
  "appointments_get i s = (Inr y, s') \<longleftrightarrow> find_appointment i (se_working s) = y \<and> s' = s"
  "latest_for_ticket i s = (Inr y, s') \<longleftrightarrow> latest_appointment i (se_working s) = y \<and> s' = s"
  "list_for_appointment i s = (Inr es, s') \<longleftrightarrow> events_of i (se_working s) = es \<and> s' = s"
  "tickets_add env t s = (Inr u, s') \<longleftrightarrow>
     first_failed (ticket_insert_checks (ticket_row_of env t) (se_working s)) = None \<and>
     s' = s\<lparr>se_working := (se_working s)\<lparr>db_tickets :=
       db_tickets (se_working s) @ [ticket_row_of env t]\<rparr>\<rparr>"
  "tickets_update t v s = (Inr u, s') \<longleftrightarrow>
     ticket_update_refused t v (se_working s) = None \<and>
     s' = s\<lparr>se_working := write_ticket t v (se_working s)\<rparr>"
  "appointments_add env a s = (Inr u, s') \<longleftrightarrow>
     ad_starts_at a \<le> ad_ends_at a \<and>
     first_failed (appointment_insert_checks (appointment_row_of env a) (se_working s)) = None \<and>
     s' = s\<lparr>se_working := (se_working s)\<lparr>db_appointments :=
       db_appointments (se_working s) @ [appointment_row_of env a]\<rparr>\<rparr>"
  "appointments_update b v out s = (Inr u, s') \<longleftrightarrow>
     appointment_update_refused b v out (se_working s) = None \<and>
     s' = s\<lparr>se_working := write_appointment b v out (se_working s)\<rparr>"
  "tickets_add_history h s = (Inr u, s') \<longleftrightarrow>
     0 \<le> th_version_before h \<and> th_version_after h = th_version_before h + 1 \<and>
     s' = s\<lparr>se_working := (se_working s)\<lparr>db_ticket_history :=
       db_ticket_history (se_working s) @ [h]\<rparr>\<rparr>"
  "appointments_add_history g s = (Inr u, s') \<longleftrightarrow>
     0 \<le> ah_version_before g \<and> ah_version_after g = ah_version_before g + 1 \<and>
     s' = s\<lparr>se_working := (se_working s)\<lparr>db_appointment_history :=
       db_appointment_history (se_working s) @ [g]\<rparr>\<rparr>"
  "worker_events_add e s = (Inr u, s') \<longleftrightarrow>
     first_failed (worker_event_insert_checks e (se_working s)) = None \<and>
     s' = s\<lparr>se_working := (se_working s)\<lparr>db_worker_events :=
       db_worker_events (se_working s) @ [e]\<rparr>\<rparr>"
  unfolding tickets_get_def appointments_get_def latest_for_ticket_def list_for_appointment_def
    tickets_add_def tickets_update_def appointments_add_def appointments_update_def
    tickets_add_history_def appointments_add_history_def worker_events_add_def
    history_checks_def
  by (auto simp: inversion_simps)

text \<open>The outbox is no part of the business tables.\<close>

definition same_business :: "db \<Rightarrow> db \<Rightarrow> bool" where
  "same_business d d' \<longleftrightarrow>
     db_tickets d' = db_tickets d \<and> db_ticket_history d' = db_ticket_history d \<and>
     db_appointments d' = db_appointments d \<and>
     db_appointment_history d' = db_appointment_history d \<and>
     db_worker_events d' = db_worker_events d"

lemma outbox_add_InrD:
  "outbox_add env ev s = (Inr u, s') \<Longrightarrow> same_business (se_working s) (se_working s')"
  by (auto simp: outbox_add_def inversion_simps same_business_def)

lemma emit_InrD:
  "emit_ticket_status_changed env t t' a m sc s = (Inr u, s') \<Longrightarrow>
     same_business (se_working s) (se_working s')"
  unfolding emit_ticket_status_changed_def by (rule outbox_add_InrD)

text \<open>Authorization only reads.\<close>

lemma reads_Inr:
  "authorize_ticket t m s = (Inr u, s') \<Longrightarrow> s' = s"
  "authorize_escalation m s = (Inr u, s') \<Longrightarrow> s' = s"
  "authorize_event_actor w a s = (Inr u, s') \<Longrightarrow> s' = s"
  "require_eligible_worker t i b e s = (Inr u, s') \<Longrightarrow> s' = s"
  "events_of_latest la s = (Inr es, s') \<Longrightarrow> s' = s"
  unfolding authorize_ticket_def authorize_escalation_def authorize_event_actor_def
    require_eligible_worker_def worker_can_service_def events_of_latest_def list_for_appointment_def
    Let_def
  by (auto simp: inversion_simps)

lemma write_ticket_fields [simp]:
  "db_users (write_ticket t v d) = db_users d"
  "db_ticket_history (write_ticket t v d) = db_ticket_history d"
  "db_appointments (write_ticket t v d) = db_appointments d"
  "db_appointment_history (write_ticket t v d) = db_appointment_history d"
  "db_worker_events (write_ticket t v d) = db_worker_events d"
  "db_workers (write_ticket t v d) = db_workers d"
  "db_outbox (write_ticket t v d) = db_outbox d"
  "db_tickets (write_appointment b v out d) = db_tickets d"
  "db_ticket_history (write_appointment b v out d) = db_ticket_history d"
  "db_appointment_history (write_appointment b v out d) = db_appointment_history d"
  "db_worker_events (write_appointment b v out d) = db_worker_events d"
  "db_workers (write_appointment b v out d) = db_workers d"
  "db_outbox (write_appointment b v out d) = db_outbox d"
  by (simp_all add: write_ticket_def write_appointment_def)

text \<open>Snapshots show the columns of their row.\<close>

lemma ticket_to_snapshot_fields [simp]:
  "ts_ticket_id (ticket_to_snapshot r) = ts_ticket_id r"
  "ts_resident_id (ticket_to_snapshot r) = ts_resident_id r"
  "ts_property_id (ticket_to_snapshot r) = ts_property_id r"
  "ts_issue_category (ticket_to_snapshot r) = ts_issue_category r"
  "ts_issue_location (ticket_to_snapshot r) = ts_issue_location r"
  "ts_issue_description (ticket_to_snapshot r) = ts_issue_description r"
  "ts_severity (ticket_to_snapshot r) = ts_severity r"
  "ts_status (ticket_to_snapshot r) = ts_status r"
  "ts_escalated_from (ticket_to_snapshot r) = ts_escalated_from r"
  "ts_rework_count (ticket_to_snapshot r) = ts_rework_count r"
  "ts_version (ticket_to_snapshot r) = ts_version r"
  "ts_cancelled_at (ticket_to_snapshot r) = ts_cancelled_at r"
  "ts_closed_at (ticket_to_snapshot r) = ts_closed_at r"
  by (simp_all add: ticket_to_snapshot_def TicketSnapshot.truncate_def)

lemma appointment_to_snapshot_fields [simp]:
  "as_appointment_id (appointment_to_snapshot a) = as_appointment_id a"
  "as_ticket_id (appointment_to_snapshot a) = as_ticket_id a"
  "as_worker_id (appointment_to_snapshot a) = as_worker_id a"
  "as_purpose (appointment_to_snapshot a) = as_purpose a"
  "as_starts_at (appointment_to_snapshot a) = as_starts_at a"
  "as_ends_at (appointment_to_snapshot a) = as_ends_at a"
  "as_status (appointment_to_snapshot a) = as_status a"
  "as_version (appointment_to_snapshot a) = as_version a"
  "as_supersedes (appointment_to_snapshot a) = as_supersedes a"
  by (simp_all add: appointment_to_snapshot_def AppointmentSnapshot.truncate_def)

lemma worker_event_to_snapshot_fields [simp]:
  "we_event_id (worker_event_to_snapshot e) = we_event_id e"
  "we_appointment_id (worker_event_to_snapshot e) = we_appointment_id e"
  "we_sequence_no (worker_event_to_snapshot e) = we_sequence_no e"
  "we_event_type (worker_event_to_snapshot e) = we_event_type e"
  "we_request_hash (worker_event_to_snapshot e) = we_request_hash e"
  by (simp_all add: worker_event_to_snapshot_def WorkerEventSnapshot.truncate_def)

lemma find_ticket_SomeE:
  assumes "find_ticket i d = Some t"
  obtains r where "r \<in> set (db_tickets d)" and "ticket_to_snapshot r = t" and "ts_ticket_id r = i"
  using assms by (auto simp: find_ticket_def dest: find_Some_set)

lemma find_appointment_SomeE:
  assumes "find_appointment i d = Some a"
  obtains r where "r \<in> set (db_appointments d)" and "appointment_to_snapshot r = a"
    and "as_appointment_id r = i"
  using assms by (auto simp: find_appointment_def dest: find_Some_set)

lemma latest_appointment_SomeE:
  assumes "latest_appointment i d = Some a"
  obtains r where "r \<in> set (db_appointments d)" and "appointment_to_snapshot r = a"
    and "as_ticket_id r = i"
proof -
  let ?l = "sort_key appointment_age_key (filter (\<lambda>r. as_ticket_id r = i) (db_appointments d))"
  from assms have "?l \<noteq> []" and "a = appointment_to_snapshot (last ?l)"
    by (auto simp: latest_appointment_def last_opt_def split: if_splits)
  moreover from this have "last ?l \<in> set ?l" by (intro last_in_set)
  ultimately show ?thesis using that by auto
qed

lemma ticket_update_accepted:
  assumes "ticket_update_refused t v d = None"
  shows "ts_version t = v + 1"
    and "\<exists>r. filter (ticket_hit (ts_ticket_id t) v) (db_tickets d) = [r] \<and>
           first_failed (ticket_row_checks (ticket_columns t r)) = None"
  using assms by (auto simp: ticket_update_refused_def Let_def length_Suc_conv
      split: if_splits option.splits)

lemma appointment_update_accepted:
  assumes "appointment_update_refused a v out d = None"
  shows "as_version a = v + 1"
    and "\<exists>r. filter (appointment_hit (as_appointment_id a) v) (db_appointments d) = [r] \<and>
           first_failed (appointment_row_checks (appointment_columns a out r)) = None"
  using assms by (auto simp: appointment_update_refused_def Let_def length_Suc_conv first_failed_append
      split: if_splits option.splits)

section \<open>Changes of the ticket tables\<close>

definition ticket_same :: "db \<Rightarrow> db \<Rightarrow> bool" where
  "ticket_same d d' \<longleftrightarrow>
     db_tickets d' = db_tickets d \<and> db_ticket_history d' = db_ticket_history d"

definition ticket_created :: "db \<Rightarrow> db \<Rightarrow> bool" where
  "ticket_created d d' \<longleftrightarrow> (\<exists>r h.
     db_tickets d' = db_tickets d @ [r] \<and> db_ticket_history d' = db_ticket_history d @ [h] \<and>
     first_failed (ticket_insert_checks r d) = None \<and> ts_version r = 1 \<and> ts_status r = TS_OPEN \<and>
     ts_rework_count r = 0 \<and>
     th_ticket_id h = ts_ticket_id r \<and> ticket_log_entry h = (None, TS_OPEN, 0, 1))"

text \<open>One versioned update of a ticket that was read, paired with its history entry.\<close>

definition ticket_moved ::
  "(TicketSnapshot \<Rightarrow> TicketSnapshot \<Rightarrow> bool) \<Rightarrow> db \<Rightarrow> db \<Rightarrow> bool" where
  "ticket_moved move d d' \<longleftrightarrow> (\<exists>old new h.
     find_ticket (ts_ticket_id old) d = Some old \<and> ts_ticket_id new = ts_ticket_id old \<and>
     ticket_update_refused new (ts_version old) d = None \<and>
     db_tickets d' = db_tickets (write_ticket new (ts_version old) d) \<and>
     db_ticket_history d' = db_ticket_history d @ [h] \<and> th_ticket_id h = ts_ticket_id old \<and>
     ticket_log_entry h = (Some (ts_status old), ts_status new, ts_version old, ts_version new) \<and>
     move old new)"

text \<open>The moves of the lifecycle, and the recovery of an escalated ticket. Closing takes the
  acceptance of the resident of the ticket.\<close>

definition resident_accepts :: "command \<Rightarrow> TicketSnapshot \<Rightarrow> bool" where
  "resident_accepts c t \<longleftrightarrow>
     (case c of ReviewRepair review \<Rightarrow> rr_accepted review \<and>
        mm_actor_type (rr_metadata review) = ACT_RESIDENT \<and>
        mm_actor_id (rr_metadata review) = ts_resident_id t
      | _ \<Rightarrow> False)"

definition ticket_edge :: "command \<Rightarrow> TicketSnapshot \<Rightarrow> TicketSnapshot \<Rightarrow> bool" where
  "ticket_edge c old new \<longleftrightarrow>
     (ticket_lifecycle (ts_status old) (ts_status new) \<or>
      (ts_escalated_from old \<noteq> None \<and> ts_status new \<notin> {TS_ESCALATED, TS_CLOSED})) \<and>
     (ts_status new = TS_CLOSED \<longrightarrow> resident_accepts c old) \<and>
     ts_rework_count old \<le> ts_rework_count new"

definition ticket_step :: "command \<Rightarrow> db \<Rightarrow> db \<Rightarrow> bool" where
  "ticket_step c d d' \<longleftrightarrow>
     ticket_same d d' \<or> ticket_created d d' \<or> ticket_moved (ticket_edge c) d d'"

lemma find_ticket_id: "find_ticket i d = Some t \<Longrightarrow> ts_ticket_id t = i"
  by (auto elim: find_ticket_SomeE)

lemma ticket_row_of_fields [simp]:
  "ts_ticket_id (ticket_row_of env t) = ts_ticket_id t"
  "ts_status (ticket_row_of env t) = ts_status t"
  "ts_version (ticket_row_of env t) = ts_version t"
  "ts_rework_count (ticket_row_of env t) = ts_rework_count t"
  "ts_escalated_from (ticket_row_of env t) = ts_escalated_from t"
  by (simp_all add: ticket_row_of_def TicketSnapshot.extend_def)

lemma ticket_moved_intro:
  assumes "find_ticket i d = Some old" and "ts_ticket_id new = ts_ticket_id old"
    and "ticket_update_refused new (ts_version old) d = None"
    and "db_tickets d' = db_tickets (write_ticket new (ts_version old) d)"
    and "db_ticket_history d' = db_ticket_history d @ [ticket_history old new a m rc rt ev]"
    and "move old new"
  shows "ticket_moved move d d'"
  using assms find_ticket_id [OF assms(1)]
  unfolding ticket_moved_def
  by (intro exI [of _ old] exI [of _ new] exI [of _ "ticket_history old new a m rc rt ev"])
    (simp add: ticket_history_def ticket_log_entry_def)

lemma plan_ticket_creation_Inr:
  "plan_ticket_creation r = Inr plan \<Longrightarrow> plan = default_creation_plan"
  by (auto simp: plan_ticket_creation_def split: if_splits)

lemma updated_ticket_id [simp]:
  "ts_ticket_id (escalated_ticket t x) = ts_ticket_id t"
  "ts_ticket_id (recovered_ticket rc t x) = ts_ticket_id t"
  "ts_ticket_id (reviewed_ticket rr t x) = ts_ticket_id t"
  "ts_ticket_id (booked_ticket t plan) = ts_ticket_id t"
  "ts_ticket_id (event_ticket ctx) = ts_ticket_id (ec_ticket ctx)"
  by (simp_all add: escalated_ticket_def recovered_ticket_def reviewed_ticket_def
      booked_ticket_def event_ticket_def Let_def)

lemmas effect_dests = outbox_add_InrD emit_InrD reads_Inr

lemma create_ticket_step:
  assumes "create_ticket_handler env c digest s = (Inr result, s')"
  shows "ticket_created (se_working s) (se_working s')"
    and "db_appointments (se_working s') = db_appointments (se_working s)"
    and "db_appointment_history (se_working s') = db_appointment_history (se_working s)"
    and "db_worker_events (se_working s') = db_worker_events (se_working s)"
  using assms unfolding create_ticket_handler_def
  by (auto simp: inversion_simps Let_def created_ticket_def creation_history_def same_business_def
      ticket_created_def
      default_creation_plan_def ticket_log_entry_def dest!: plan_ticket_creation_Inr effect_dests)

text \<open>The tables other than those of tickets are untouched.\<close>

definition visits_same :: "db \<Rightarrow> db \<Rightarrow> bool" where
  "visits_same d d' \<longleftrightarrow>
     db_appointments d' = db_appointments d \<and>
     db_appointment_history d' = db_appointment_history d \<and>
     db_worker_events d' = db_worker_events d"

text \<open>What one versioned ticket update with its history entry leaves behind.\<close>

definition ticket_written ::
  "TicketSnapshot \<Rightarrow> TicketSnapshot \<Rightarrow> TicketHistoryRecord \<Rightarrow> db \<Rightarrow> db \<Rightarrow> bool" where
  "ticket_written old new h d d' \<longleftrightarrow>
     ticket_update_refused new (ts_version old) d = None \<and>
     db_tickets d' = db_tickets (write_ticket new (ts_version old) d) \<and>
     db_ticket_history d' = db_ticket_history d @ [h]"

lemma escalate_ticket_effect:
  assumes "escalate_ticket_handler env c digest s = (Inr result, s')"
  obtains ticket x h where "find_ticket (et_ticket_id c) (se_working s) = Some ticket"
    and "transition_ticket (escalate_request c ticket) = Inr x"
    and "ticket_written ticket (escalated_ticket ticket x)
      (ticket_history ticket (escalated_ticket ticket x) ''ESCALATE'' (et_metadata c)
        (Some (et_reason_code c)) (Some (et_reason_text c)) (et_evidence c))
      (se_working s) (se_working s')"
    and "visits_same (se_working s) (se_working s')"
  using assms unfolding escalate_ticket_handler_def
  by (auto simp: inversion_simps Let_def same_business_def visits_same_def ticket_written_def
      dest!: effect_dests intro!: that)

lemma recover_ticket_effect:
  assumes "recover_ticket_handler env c digest s = (Inr result, s')"
  obtains ticket latest events x where "find_ticket (rc_ticket_id c) (se_working s) = Some ticket"
    and "latest = latest_appointment (ts_ticket_id ticket) (se_working s)"
    and "events = (case latest of None \<Rightarrow> []
      | Some a \<Rightarrow> events_of (as_appointment_id a) (se_working s))"
    and "mm_actor_type (rc_metadata c) = ACT_OPERATOR"
    and "rc_disposition c \<noteq> ED_APPLY_RESIDENT_ACCEPTANCE"
    and "recover_escalated_ticket (recovery_request c ticket latest events) = Inr x"
    and "ticket_written ticket (recovered_ticket c ticket x)
      (ticket_history ticket (recovered_ticket c ticket x) (recovery_action c) (rc_metadata c)
        (Some (escalation_disposition_value (rc_disposition c))) (rc_reason_text c)
        (rc_evidence c)) (se_working s) (se_working s')"
    and "visits_same (se_working s) (se_working s')"
  using assms unfolding recover_ticket_handler_def events_of_latest_def
  by (auto simp: inversion_simps Let_def same_business_def visits_same_def ticket_written_def
      dest!: outbox_add_InrD emit_InrD intro!: that)

definition appointment_written ::
  "AppointmentSnapshot \<Rightarrow> AppointmentSnapshot \<Rightarrow> OutcomeColumns option \<Rightarrow>
   AppointmentHistoryRecord \<Rightarrow> db \<Rightarrow> db \<Rightarrow> bool" where
  "appointment_written old new outcome h d d' \<longleftrightarrow>
     appointment_update_refused new (as_version old) outcome d = None \<and>
     db_appointments d' = db_appointments (write_appointment new (as_version old) outcome d) \<and>
     db_appointment_history d' = db_appointment_history d @ [h]"

text \<open>The appointment that a resident's acceptance fulfils.\<close>

definition fulfilled_appointment ::
  "AppointmentSnapshot \<Rightarrow> AppointmentTransitionResult \<Rightarrow> AppointmentSnapshot" where
  "fulfilled_appointment a x =
     a\<lparr>as_status := atx_next_status x, as_version := atx_next_version x\<rparr>"

lemma appointment_update_refused_cong:
  assumes "db_appointments d = db_appointments d'"
  shows "appointment_update_refused a v out d = appointment_update_refused a v out d'"
  using assms by (simp add: appointment_update_refused_def)

lemma write_appointment_cong:
  assumes "db_appointments d = db_appointments d'"
  shows "db_appointments (write_appointment a v out d) = db_appointments (write_appointment a v out d')"
  using assms by (simp add: write_appointment_def)

lemma ticket_update_refused_cong:
  assumes "db_tickets d = db_tickets d'"
  shows "ticket_update_refused t v d = ticket_update_refused t v d'"
  using assms by (simp add: ticket_update_refused_def)

lemma write_ticket_cong:
  assumes "db_tickets d = db_tickets d'"
  shows "db_tickets (write_ticket t v d) = db_tickets (write_ticket t v d')"
  using assms by (simp add: write_ticket_def)

text \<open>Histories and the other aggregate do not matter to an update.\<close>

lemma update_frames [simp]:
  "appointment_update_refused a v out (d\<lparr>db_ticket_history := x\<rparr>) =
     appointment_update_refused a v out d"
  "appointment_update_refused a v out (write_ticket t w d) = appointment_update_refused a v out d"
  "ticket_update_refused t w (d\<lparr>db_appointment_history := y\<rparr>) = ticket_update_refused t w d"
  "ticket_update_refused t w (write_appointment a v out d) = ticket_update_refused t w d"
  "db_appointments (write_appointment a v out (d\<lparr>db_ticket_history := x\<rparr>)) =
     db_appointments (write_appointment a v out d)"
  "db_appointments (write_appointment a v out (write_ticket t w d)) =
     db_appointments (write_appointment a v out d)"
  "db_tickets (write_ticket t w (d\<lparr>db_appointment_history := y\<rparr>)) = db_tickets (write_ticket t w d)"
  "db_tickets (write_ticket t w (write_appointment a v out d)) = db_tickets (write_ticket t w d)"
  by (auto intro: appointment_update_refused_cong ticket_update_refused_cong write_ticket_cong
      write_appointment_cong)

definition review_moves_appointment ::
  "ReviewRepairCommand \<Rightarrow> AppointmentSnapshot \<Rightarrow> db \<Rightarrow> db \<Rightarrow> bool" where
  "review_moves_appointment c a d d' \<longleftrightarrow>
     (if rr_accepted c \<and> as_status a = AS_BOOKED
      then \<exists>y h. transition_appointment (fulfil_request c a) = Inr y \<and>
        ah_appointment_id h = as_appointment_id a \<and>
        appointment_log_entry h =
          (Some (as_status a), atx_next_status y, as_version a, atx_next_version y) \<and>
        appointment_written a (fulfilled_appointment a y) None h d d' \<and>
        db_worker_events d' = db_worker_events d
      else visits_same d d')"

lemma review_repair_effect:
  assumes "review_repair_handler env c digest s = (Inr result, s')"
  obtains ticket appointment x where
    "find_ticket (rr_ticket_id c) (se_working s) = Some ticket"
    and "latest_appointment (ts_ticket_id ticket) (se_working s) = Some appointment"
    and "ensure_aggregate_consistency (ts_status ticket) [appointment]
      (latest_event_type (events_of (as_appointment_id appointment) (se_working s))) = Inr ()"
    and "mm_actor_type (rr_metadata c) = ACT_RESIDENT"
    and "mm_actor_id (rr_metadata c) = ts_resident_id ticket"
    and "transition_ticket (review_request c ticket) = Inr x"
    and "ticket_written ticket (reviewed_ticket c ticket x)
      (ticket_history ticket (reviewed_ticket c ticket x) (ticket_action_value (review_action c))
        (rr_metadata c) (map_option acceptance_rejection_reason_value (rr_rejection_reason c))
        (rr_explanation c) []) (se_working s) (se_working s')"
    and "review_moves_appointment c appointment (se_working s) (se_working s')"
  using assms unfolding review_repair_handler_def review_repair_decided_def fulfil_on_acceptance_def
  by (auto simp: inversion_simps Let_def same_business_def visits_same_def ticket_written_def
      appointment_written_def fulfilled_appointment_def appointment_log_entry_def
      appointment_history_def review_moves_appointment_def dest!: outbox_add_InrD emit_InrD intro!: that)

definition appointment_inserted :: "AppointmentRow \<Rightarrow> AppointmentHistoryRecord \<Rightarrow> db \<Rightarrow> db \<Rightarrow> bool" where
  "appointment_inserted row h d d' \<longleftrightarrow>
     first_failed (appointment_insert_checks row d) = None \<and>
     as_starts_at row \<le> as_ends_at row \<and>
     db_appointments d' = db_appointments d @ [row] \<and>
     db_appointment_history d' = db_appointment_history d @ [h]"

lemma write_ticket_ids: "map ts_ticket_id (db_tickets (write_ticket t v d)) = map ts_ticket_id (db_tickets d)"
  by (simp add: write_ticket_def ticket_columns_def)

lemma write_appointment_ids:
  "map as_appointment_id (db_appointments (write_appointment a v out d)) =
     map as_appointment_id (db_appointments d)"
  by (simp add: write_appointment_def appointment_columns_def)

lemma appointment_insert_checks_write [simp]:
  "first_failed (appointment_insert_checks row (write_ticket t v d)) = None \<longleftrightarrow>
     first_failed (appointment_insert_checks row d) = None"
proof -
  have "ts_ticket_id ` set (db_tickets (write_ticket t v d)) = ts_ticket_id ` set (db_tickets d)"
    by (metis write_ticket_ids list.set_map)
  then show ?thesis by (simp add: appointment_insert_checks_def)
qed

lemma appointment_row_of_fields [simp]:
  "as_appointment_id (appointment_row_of env a) = ad_appointment_id a"
  "as_ticket_id (appointment_row_of env a) = ad_ticket_id a"
  "as_worker_id (appointment_row_of env a) = ad_worker_id a"
  "as_purpose (appointment_row_of env a) = ad_purpose a"
  "as_starts_at (appointment_row_of env a) = ad_starts_at a"
  "as_ends_at (appointment_row_of env a) = ad_ends_at a"
  "as_status (appointment_row_of env a) = ad_status a"
  "as_version (appointment_row_of env a) = 1"
  "as_supersedes (appointment_row_of env a) = ad_supersedes a"
  "ap_outcome (appointment_row_of env a) = None"
  "ap_created_at (appointment_row_of env a) = env_now env"
  by (simp_all add: appointment_row_of_def)

lemma draft_fields [simp]:
  "ad_appointment_id (booking_draft i b t) = i" "ad_ticket_id (booking_draft i b t) = ts_ticket_id t"
  "ad_worker_id (booking_draft i b t) = ba_worker_id b"
  "ad_purpose (booking_draft i b t) = booking_purpose t"
  "ad_starts_at (booking_draft i b t) = ba_starts_at b"
  "ad_ends_at (booking_draft i b t) = ba_ends_at b" "ad_status (booking_draft i b t) = AS_BOOKED"
  "ad_supersedes (booking_draft i b t) = None"
  "ad_appointment_id (replacement_draft i r t a) = i"
  "ad_ticket_id (replacement_draft i r t a) = ts_ticket_id t"
  "ad_worker_id (replacement_draft i r t a) = ra_worker_id r"
  "ad_purpose (replacement_draft i r t a) = as_purpose a"
  "ad_starts_at (replacement_draft i r t a) = ra_starts_at r"
  "ad_ends_at (replacement_draft i r t a) = ra_ends_at r"
  "ad_status (replacement_draft i r t a) = AS_BOOKED"
  "ad_supersedes (replacement_draft i r t a) = Some (as_appointment_id a)"
  by (simp_all add: booking_draft_def replacement_draft_def)

lemma check_rework_booking_Inr:
  assumes "check_rework_booking ticket draft s = (Inr u, s')"
  shows "s' = s"
    and "booking_purpose ticket = AP_REWORK \<Longrightarrow> \<exists>prior plan.
      latest_appointment (ts_ticket_id ticket) (se_working s) = Some prior \<and>
      plan_rework_appointment (ts_ticket_id ticket) (ts_status ticket) (ts_rework_count ticket)
        prior draft = Inr plan"
  using assms by (auto simp: check_rework_booking_def inversion_simps)

lemma book_appointment_effect:
  assumes "book_appointment_handler env c digest s = (Inr result, s')"
  obtains ticket plan where
    "find_ticket (ba_ticket_id c) (se_working s) = Some ticket"
    and "plan_appointment_creation (booking_draft (env_new_id env) c ticket) (ts_status ticket)
      (mm_actor_type (ba_metadata c)) (ba_expected_ticket_version c) (ts_version ticket) = Inr plan"
    and "booking_purpose ticket = AP_REWORK \<Longrightarrow> \<exists>prior plan.
      latest_appointment (ts_ticket_id ticket) (se_working s) = Some prior \<and>
      plan_rework_appointment (ts_ticket_id ticket) (ts_status ticket) (ts_rework_count ticket)
        prior (booking_draft (env_new_id env) c ticket) = Inr plan"
    and "mm_occurred_at (ba_metadata c) \<le> ba_starts_at c"
    and "ticket_written ticket (booked_ticket ticket plan)
      (ticket_history ticket (booked_ticket ticket plan) ''BOOK_APPOINTMENT'' (ba_metadata c)
        None None []) (se_working s) (se_working s')"
    and "appointment_inserted (appointment_row_of env (booking_draft (env_new_id env) c ticket))
      (booking_history (env_new_id env) (ba_metadata c)) (se_working s) (se_working s')"
    and "db_worker_events (se_working s') = db_worker_events (se_working s)"
  using assms unfolding book_appointment_handler_def
  by (auto simp: inversion_simps Let_def same_business_def ticket_written_def
      appointment_inserted_def dest!: effect_dests dest: check_rework_booking_Inr intro!: that)

text \<open>A reschedule writes the old row, then inserts its replacement, with both histories.\<close>

definition appointment_replaced ::
  "AppointmentSnapshot \<Rightarrow> AppointmentSnapshot \<Rightarrow> AppointmentHistoryRecord \<Rightarrow> AppointmentRow \<Rightarrow>
   AppointmentHistoryRecord \<Rightarrow> db \<Rightarrow> db \<Rightarrow> bool" where
  "appointment_replaced old new h row h' d d' \<longleftrightarrow>
     (\<exists>d1. appointment_written old new None h d d1 \<and> appointment_inserted row h' d1 d' \<and>
        map ts_ticket_id (db_tickets d1) = map ts_ticket_id (db_tickets d) \<and>
        db_workers d1 = db_workers d)"

lemma appointment_insert_checks_cong:
  assumes "db_appointments d = db_appointments e" and "db_workers d = db_workers e"
    and "map ts_ticket_id (db_tickets d) = map ts_ticket_id (db_tickets e)"
  shows "appointment_insert_checks row d = appointment_insert_checks row e"
proof -
  have "ts_ticket_id ` set (db_tickets d) = ts_ticket_id ` set (db_tickets e)"
    using assms(3) by (metis list.set_map)
  then show ?thesis using assms(1,2) by (simp add: appointment_insert_checks_def)
qed

lemma reschedule_appointment_effect:
  assumes "reschedule_appointment_handler env c digest s = (Inr result, s')"
  obtains ticket old plan x where
    "find_ticket (ra_ticket_id c) (se_working s) = Some ticket"
    and "find_appointment (ra_appointment_id c) (se_working s) = Some old"
    and "as_ticket_id old = ts_ticket_id ticket"
    and "plan_reschedule old (replacement_draft (env_new_id env) c ticket old)
      (mm_actor_type (ra_metadata c)) (ra_expected_appointment_version c) = Inr plan"
    and "transition_ticket (reschedule_request c ticket) = Inr x"
    and "mm_occurred_at (ra_metadata c) \<le> ra_starts_at c"
    and "ticket_written ticket (ticket\<lparr>ts_version := trr_next_version x\<rparr>)
      (ticket_history ticket (ticket\<lparr>ts_version := trr_next_version x\<rparr>) ''RESCHEDULE''
        (ra_metadata c) None None []) (se_working s) (se_working s')"
    and "appointment_replaced old (superseded_appointment old plan)
      (appointment_history old (superseded_appointment old plan) (ra_metadata c) None None [])
      (appointment_row_of env (replacement_draft (env_new_id env) c ticket old))
      (booking_history (env_new_id env) (ra_metadata c)) (se_working s) (se_working s')"
    and "db_worker_events (se_working s') = db_worker_events (se_working s)"
proof -
  let ?d = "se_working s" and ?d' = "se_working s'"
  from assms obtain ticket old plan x where main:
    "find_ticket (ra_ticket_id c) ?d = Some ticket" "find_appointment (ra_appointment_id c) ?d = Some old"
    "as_ticket_id old = ts_ticket_id ticket"
    "plan_reschedule old (replacement_draft (env_new_id env) c ticket old)
      (mm_actor_type (ra_metadata c)) (ra_expected_appointment_version c) = Inr plan"
    "transition_ticket (reschedule_request c ticket) = Inr x"
    "mm_occurred_at (ra_metadata c) \<le> ra_starts_at c"
    and ticket: "ticket_written ticket (ticket\<lparr>ts_version := trr_next_version x\<rparr>)
      (ticket_history ticket (ticket\<lparr>ts_version := trr_next_version x\<rparr>) ''RESCHEDULE''
        (ra_metadata c) None None []) ?d ?d'"
    and upd: "appointment_update_refused (superseded_appointment old plan) (as_version old) None ?d = None"
    and ins: "first_failed (appointment_insert_checks
      (appointment_row_of env (replacement_draft (env_new_id env) c ticket old))
      (write_appointment (superseded_appointment old plan) (as_version old) None
        (write_ticket (ticket\<lparr>ts_version := trr_next_version x\<rparr>) (ts_version ticket) ?d))) = None"
    and le: "ra_starts_at c \<le> ra_ends_at c"
    and rows: "db_appointments ?d' = db_appointments (write_appointment
        (superseded_appointment old plan) (as_version old) None ?d) @
      [appointment_row_of env (replacement_draft (env_new_id env) c ticket old)]"
    and hist: "db_appointment_history ?d' = db_appointment_history ?d @
      [appointment_history old (superseded_appointment old plan) (ra_metadata c) None None []] @
      [booking_history (env_new_id env) (ra_metadata c)]"
    and events: "db_worker_events ?d' = db_worker_events ?d"
    unfolding reschedule_appointment_handler_def
    by (auto simp: inversion_simps Let_def same_business_def ticket_written_def dest!: effect_dests)
  let ?d1 = "(write_appointment (superseded_appointment old plan) (as_version old) None ?d)
    \<lparr>db_appointment_history := db_appointment_history ?d @
      [appointment_history old (superseded_appointment old plan) (ra_metadata c) None None []]\<rparr>"
  have "first_failed (appointment_insert_checks
      (appointment_row_of env (replacement_draft (env_new_id env) c ticket old)) ?d1) = None"
    using ins by (subst appointment_insert_checks_cong [of ?d1 "write_appointment
      (superseded_appointment old plan) (as_version old) None
        (write_ticket (ticket\<lparr>ts_version := trr_next_version x\<rparr>) (ts_version ticket) ?d)"])
      (simp_all add: write_ticket_ids)
  then have "appointment_replaced old (superseded_appointment old plan)
      (appointment_history old (superseded_appointment old plan) (ra_metadata c) None None [])
      (appointment_row_of env (replacement_draft (env_new_id env) c ticket old))
      (booking_history (env_new_id env) (ra_metadata c)) ?d ?d'"
    using upd le rows hist unfolding appointment_replaced_def
    by (intro exI [of _ ?d1]) (simp add: appointment_written_def appointment_inserted_def)
  with main ticket events that show ?thesis by blast
qed

lemma load_context_new:
  assumes "load_context c digest s = (Inr (Inr ctx), s')"
  shows "s' = s"
    and "find_appointment (rw_appointment_id c) (se_working s) = Some (ec_appointment ctx)"
    and "as_ticket_id (ec_appointment ctx) = rw_ticket_id c"
    and "as_worker_id (ec_appointment ctx) = rw_subject_worker_id c"
    and "ec_prior ctx = events_of (as_appointment_id (ec_appointment ctx)) (se_working s)"
    and "find_ticket (rw_ticket_id c) (se_working s) = Some (ec_ticket ctx)"
    and "validate_worker_event (event_request c (ec_ticket ctx) (ec_appointment ctx)
      (ec_prior ctx)) = Inr (ec_decision ctx)"
  using assms unfolding load_context_def get_by_external_key_def authorize_event_actor_def
  by (auto simp: inversion_simps Let_def)

lemma load_context_old:
  assumes "load_context c digest s = (Inr (Inl replay), s')"
  shows "s' = s" and "or_replayed replay"
  using assms unfolding load_context_def get_by_external_key_def authorize_event_actor_def
  by (auto simp: inversion_simps Let_def replayed_event_def)

text \<open>What an event does to the ticket and to the appointment of its context.\<close>

definition event_moves_ticket :: "EventContext \<Rightarrow> db \<Rightarrow> db \<Rightarrow> bool" where
  "event_moves_ticket ctx d d' \<longleftrightarrow>
     (let old = ec_ticket ctx; new = event_ticket ctx
      in if wx_next_ticket_status (ec_decision ctx) \<noteq> ts_status old
         then \<exists>h. th_ticket_id h = ts_ticket_id old \<and>
           ticket_log_entry h = (Some (ts_status old), ts_status new, ts_version old, ts_version new) \<and>
           ticket_written old new h d d'
         else ticket_same d d')"

definition event_moves_appointment ::
  "RecordWorkerEventCommand \<Rightarrow> EventContext \<Rightarrow> db \<Rightarrow> db \<Rightarrow> bool" where
  "event_moves_appointment c ctx d d' \<longleftrightarrow>
     (let old = ec_appointment ctx; new = event_appointment ctx
      in if wx_next_appointment_status (ec_decision ctx) \<noteq> as_status old
         then \<exists>y h. transition_appointment \<lparr>atr_current_status = as_status old,
             atr_action = appointment_action_of (rw_event_type c),
             atr_actor_type = mm_actor_type (rw_metadata c),
             atr_expected_version = rw_expected_appointment_version c,
             atr_actual_version = as_version old,
             atr_outcome = outcome_metadata c (ec_ticket ctx)\<rparr> = Inr y \<and>
           ah_appointment_id h = as_appointment_id old \<and>
           appointment_log_entry h =
             (Some (as_status old), as_status new, as_version old, as_version new) \<and>
           appointment_written old new (worker_event_outcome c (ec_ticket ctx)) h d d'
         else db_appointments d' = db_appointments d \<and>
           db_appointment_history d' = db_appointment_history d)"

lemma apply_effects_effect:
  assumes "apply_effects env c ctx s = (Inr (), s')"
  shows "event_moves_ticket ctx (se_working s) (se_working s')"
    and "event_moves_appointment c ctx (se_working s) (se_working s')"
    and "db_worker_events (se_working s') = db_worker_events (se_working s)"
proof -
  let ?t = "ec_ticket ctx" and ?a = "ec_appointment ctx"
  from assms obtain s1 where one: "(if wx_next_ticket_status (ec_decision ctx) \<noteq> ts_status ?t
      then apply_ticket_effect env c ctx else returnA ()) s = (Inr (), s1)"
    and two: "(if wx_next_appointment_status (ec_decision ctx) \<noteq> as_status ?a
      then apply_appointment_effect c ?t ?a (event_appointment ctx) else returnA ()) s1 =
      (Inr (), s')"
    unfolding apply_effects_def Let_def action_Inr_iff(3) by auto
  have t: "event_moves_ticket ctx (se_working s) (se_working s1)"
    and frame: "visits_same (se_working s) (se_working s1)"
    using one unfolding apply_ticket_effect_def
    by (auto simp: inversion_simps Let_def ticket_written_def ticket_history_def ticket_same_def
        event_moves_ticket_def ticket_log_entry_def same_business_def visits_same_def
        dest!: emit_InrD split: if_splits)
  have a: "event_moves_appointment c ctx (se_working s1) (se_working s')"
    and frame': "ticket_same (se_working s1) (se_working s')"
      "db_worker_events (se_working s') = db_worker_events (se_working s1)"
    using two unfolding apply_appointment_effect_def
    by (auto simp: inversion_simps appointment_written_def appointment_history_def
        event_moves_appointment_def Let_def appointment_log_entry_def ticket_same_def
        split: if_splits)
  have "appointment_written old new out h (se_working s1) e =
      appointment_written old new out h (se_working s) e" for old new out h e
    using frame appointment_update_refused_cong [of "se_working s1" "se_working s"]
      write_appointment_cong [of "se_working s1" "se_working s"]
    by (simp add: appointment_written_def visits_same_def)
  then show "event_moves_appointment c ctx (se_working s) (se_working s')"
    using a frame
    by (auto simp: event_moves_appointment_def visits_same_def Let_def split: if_splits)
  show "event_moves_ticket ctx (se_working s) (se_working s')"
    using t frame'
    by (auto simp: event_moves_ticket_def ticket_written_def ticket_same_def Let_def
        split: if_splits)
  show "db_worker_events (se_working s') = db_worker_events (se_working s)"
    using frame frame' by (simp add: visits_same_def)
qed

lemma record_worker_event_effect:
  assumes "record_worker_event_handler env c digest s = (Inr result, s')"
  obtains (replayed) "se_working s' = se_working s" and "or_replayed result"
    | (recorded) ctx where
      "find_appointment (rw_appointment_id c) (se_working s) = Some (ec_appointment ctx)"
      and "as_ticket_id (ec_appointment ctx) = ts_ticket_id (ec_ticket ctx)"
      and "as_worker_id (ec_appointment ctx) = rw_subject_worker_id c"
      and "ec_prior ctx = events_of (as_appointment_id (ec_appointment ctx)) (se_working s)"
      and "find_ticket (ts_ticket_id (ec_ticket ctx)) (se_working s) = Some (ec_ticket ctx)"
      and "validate_worker_event (event_request c (ec_ticket ctx) (ec_appointment ctx)
        (ec_prior ctx)) = Inr (ec_decision ctx)"
      and "event_moves_ticket ctx (se_working s) (se_working s')"
      and "event_moves_appointment c ctx (se_working s) (se_working s')"
      and "db_worker_events (se_working s') =
        db_worker_events (se_working s) @ [event_record env c digest ctx]"
      and "\<exists>d. first_failed (worker_event_insert_checks (event_record env c digest ctx) d) = None \<and>
        db_worker_events d = db_worker_events (se_working s)"
proof -
  from assms obtain loaded s1 where load: "load_context c digest s = (Inr loaded, s1)"
    and rest: "(case loaded of Inl replay \<Rightarrow> returnA replay
      | Inr ctx \<Rightarrow> bindA (apply_effects env c ctx)
          (\<lambda>_. append_event env c digest ctx)) s1 = (Inr result, s')"
    unfolding record_worker_event_handler_def by (auto simp only: action_Inr_iff(3))
  show thesis
  proof (cases loaded)
    case (Inl replay)
    with rest load_context_old [OF load [unfolded Inl]] show ?thesis
      by (intro replayed) (simp_all add: inversion_simps)
  next
    case (Inr ctx)
    note lc = load_context_new [OF load [unfolded Inr]]
    have id: "rw_ticket_id c = ts_ticket_id (ec_ticket ctx)"
      using find_ticket_id [OF lc(6)] by simp
    from rest lc(1) Inr obtain s2 where ap: "apply_effects env c ctx s = (Inr (), s2)"
      and app: "append_event env c digest ctx s2 = (Inr result, s')"
      by (auto simp: inversion_simps)
    from app have last: "db_worker_events (se_working s') =
        db_worker_events (se_working s2) @ [event_record env c digest ctx]"
      "first_failed (worker_event_insert_checks (event_record env c digest ctx)
        (se_working s2)) = None" "db_tickets (se_working s') = db_tickets (se_working s2)"
      "db_ticket_history (se_working s') = db_ticket_history (se_working s2)"
      "db_appointments (se_working s') = db_appointments (se_working s2)"
      "db_appointment_history (se_working s') = db_appointment_history (se_working s2)"
      by (auto simp: append_event_def inversion_simps Let_def)
    note eff = apply_effects_effect [OF ap]
    show ?thesis
      using lc(2-7) eff last unfolding id
      by (intro recorded [of ctx])
        (auto simp: event_moves_ticket_def event_moves_appointment_def ticket_written_def
          appointment_written_def ticket_same_def Let_def)
  qed
qed

end
