(* ===== verification/Lifecycle.thy ===== *)
theory Lifecycle
  imports Effects
begin

text \<open>
  Invariants of every reachable store: the business tables after any sequence of commands. The
  steps of the tickets and of the appointments are characterised first; the audit trail, the
  lifecycle and the frozen terminal rows follow from them.
\<close>

section \<open>Ticket steps\<close>

lemma ticket_written_moved:
  assumes "ticket_written old new h d d'" and "find_ticket i d = Some old"
    and "ts_ticket_id new = ts_ticket_id old" and "th_ticket_id h = ts_ticket_id old"
    and "ticket_log_entry h = (Some (ts_status old), ts_status new, ts_version old, ts_version new)"
    and "move old new"
  shows "ticket_moved move d d'"
  using assms find_ticket_id [OF assms(2)] unfolding ticket_written_def ticket_moved_def by blast

lemma ticket_history_entry [simp]:
  "th_ticket_id (ticket_history t t' a m rc rt ev) = ts_ticket_id t"
  "ticket_log_entry (ticket_history t t' a m rc rt ev) =
     (Some (ts_status t), ts_status t', ts_version t, ts_version t')"
  by (simp_all add: ticket_history_def ticket_log_entry_def)

lemma transition_ticket_lifecycle:
  "transition_ticket r = Inr x \<Longrightarrow> ticket_lifecycle (tr_current_status r) (trr_next_status x)"
  by (auto simp: transition_ticket_Inr_iff dest: transitions_lifecycle)

lemma transition_ticket_close:
  assumes "transition_ticket r = Inr x" and "trr_next_status x = TS_CLOSED"
  shows "tr_action r = TA_RESIDENT_ACCEPT"
  using assms by (auto simp: transition_ticket_Inr_iff transition_data_def dest!: transitions_cases)

lemma transition_ticket_rework:
  "transition_ticket r = Inr x \<Longrightarrow> tr_current_rework_count r \<le> trr_next_rework_count x"
  by (auto simp: transition_ticket_Inr_iff check_ticket_preconditions_def inversion_simps)

lemma request_status [simp]:
  "tr_current_status (TicketTransitionRequest_defaults st a at ev av) = st"
  "tr_current_status (escalate_request ec t) = ts_status t"
  "tr_current_status (review_request rr t) = ts_status t"
  "tr_current_status (reschedule_request ra t) = ts_status t"
  "tr_current_rework_count (escalate_request ec t) = ts_rework_count t"
  "tr_current_rework_count (review_request rr t) = ts_rework_count t"
  "tr_action (escalate_request ec t) = TA_ESCALATE"
  "tr_action (review_request rr t) = review_action rr"
  by (simp_all add: TicketTransitionRequest_defaults_def escalate_request_def review_request_def
      reschedule_request_def)

lemma recover_from_escalated:
  assumes "recover_escalated_ticket r = Inr x" and "er_disposition r \<noteq> ED_APPLY_RESIDENT_ACCEPTANCE"
  shows "er_escalated_from_status r \<noteq> None \<and> trr_next_status x \<notin> {TS_ESCALATED, TS_CLOSED} \<and>
    er_current_rework_count r \<le> trr_next_rework_count x"
proof -
  from assms(1) have "er_escalated_from_status r \<noteq> None"
    and "recovery_target r = Inr (trr_next_status x)"
    and "er_current_rework_count r \<le> trr_next_rework_count x"
    by (auto simp: recover_escalated_ticket_def inversion_simps)
  then show ?thesis using assms(2)
    by (auto simp: recovery_target_def derive_resume_target_def Let_def split: if_splits)
qed

text \<open>An accepted event leaves the ticket alone or takes an edge of the lifecycle.\<close>

lemma validate_worker_event_lifecycle:
  assumes "validate_worker_event r = Inr x" and "\<not> wr_confirmed_replay r"
    and "wx_next_ticket_status x \<noteq> wr_ticket_status r"
  shows "ticket_lifecycle (wr_ticket_status r) (wx_next_ticket_status x)"
    and "wx_next_ticket_status x \<noteq> TS_CLOSED"
    and "wr_current_rework_count r \<le> wx_next_rework_count x"
proof -
  from assms(1,2) obtain ef where snap: "validate_snapshots r = Inr ()"
    and ef: "event_effects r = Inr ef" and x: "wx_next_ticket_status x = ef_ticket ef"
    and n: "wx_next_rework_count x = ef_rework_count ef"
    by (rule validate_worker_event_InrD) auto
  note st = validate_snapshots_InrD(3) [OF snap]
  show "ticket_lifecycle (wr_ticket_status r) (wx_next_ticket_status x)"
    and "wx_next_ticket_status x \<noteq> TS_CLOSED"
    and "wr_current_rework_count r \<le> wx_next_rework_count x"
    using ef st assms(3) unfolding x n
    by (cases "wr_event_type r",
      auto simp: event_effects_def lost_visit_status_def Let_def
        intro: ticket_lifecycle.intros split: if_splits option.splits)+
qed

lemma review_repair_ticket_step:
  assumes "review_repair_handler env cmd digest s = (Inr result, s')"
  shows "ticket_step (ReviewRepair cmd) (se_working s) (se_working s')"
proof -
  from assms obtain ticket x h where "find_ticket (rr_ticket_id cmd) (se_working s) = Some ticket"
    and actor: "mm_actor_type (rr_metadata cmd) = ACT_RESIDENT"
      "mm_actor_id (rr_metadata cmd) = ts_resident_id ticket"
    and x: "transition_ticket (review_request cmd ticket) = Inr x"
    and w: "ticket_written ticket (reviewed_ticket cmd ticket x) h (se_working s) (se_working s')"
    and h: "th_ticket_id h = ts_ticket_id ticket" "ticket_log_entry h = (Some (ts_status ticket),
      ts_status (reviewed_ticket cmd ticket x), ts_version ticket,
      ts_version (reviewed_ticket cmd ticket x))"
    by (rule review_repair_effect) auto
  moreover have "ticket_edge (ReviewRepair cmd) ticket (reviewed_ticket cmd ticket x)"
    using transition_ticket_lifecycle [OF x] transition_ticket_rework [OF x]
      transition_ticket_close [OF x] actor
    by (cases "rr_accepted cmd")
      (auto simp: ticket_edge_def reviewed_ticket_def resident_accepts_def review_action_def)
  ultimately have "ticket_moved (ticket_edge (ReviewRepair cmd)) (se_working s) (se_working s')"
    by (intro ticket_written_moved [OF w _ _ h]) simp_all
  then show ?thesis by (simp add: ticket_step_def)
qed

lemma escalate_ticket_ticket_step:
  assumes "escalate_ticket_handler env cmd digest s = (Inr result, s')"
  shows "ticket_step (EscalateTicket cmd) (se_working s) (se_working s')"
proof -
  from assms obtain ticket x where f: "find_ticket (et_ticket_id cmd) (se_working s) = Some ticket"
    and x: "transition_ticket (escalate_request cmd ticket) = Inr x"
    and w: "ticket_written ticket (escalated_ticket ticket x)
      (ticket_history ticket (escalated_ticket ticket x) ''ESCALATE'' (et_metadata cmd)
        (Some (et_reason_code cmd)) (Some (et_reason_text cmd)) (et_evidence cmd))
      (se_working s) (se_working s')"
    by (rule escalate_ticket_effect)
  have "ticket_edge (EscalateTicket cmd) ticket (escalated_ticket ticket x)"
    using transition_ticket_lifecycle [OF x] transition_ticket_close [OF x]
    by (auto simp: ticket_edge_def escalated_ticket_def)
  then have "ticket_moved (ticket_edge (EscalateTicket cmd)) (se_working s) (se_working s')"
    by (intro ticket_written_moved [OF w f]) simp_all
  then show ?thesis by (simp add: ticket_step_def)
qed

lemma recover_ticket_ticket_step:
  assumes "recover_ticket_handler env cmd digest s = (Inr result, s')"
  shows "ticket_step (RecoverTicket cmd) (se_working s) (se_working s')"
proof -
  from assms obtain ticket latest events x h where f: "find_ticket (rc_ticket_id cmd) (se_working s) = Some ticket"
    and not_close: "rc_disposition cmd \<noteq> ED_APPLY_RESIDENT_ACCEPTANCE"
    and x: "recover_escalated_ticket (recovery_request cmd ticket latest events) = Inr x"
    and w: "ticket_written ticket (recovered_ticket cmd ticket x) h (se_working s) (se_working s')"
    and h: "th_ticket_id h = ts_ticket_id ticket" "ticket_log_entry h = (Some (ts_status ticket),
      ts_status (recovered_ticket cmd ticket x), ts_version ticket,
      ts_version (recovered_ticket cmd ticket x))"
    by (rule recover_ticket_effect) auto
  have "ticket_edge (RecoverTicket cmd) ticket (recovered_ticket cmd ticket x)"
    using recover_from_escalated [OF x] not_close
    by (simp add: ticket_edge_def recovery_request_def recovered_ticket_def)
  then have "ticket_moved (ticket_edge (RecoverTicket cmd)) (se_working s) (se_working s')"
    by (intro ticket_written_moved [OF w f _ h]) simp_all
  then show ?thesis by (simp add: ticket_step_def)
qed

lemma book_appointment_ticket_step:
  assumes "book_appointment_handler env cmd digest s = (Inr result, s')"
  shows "ticket_step (BookAppointment cmd) (se_working s) (se_working s')"
proof -
  from assms obtain ticket plan h where f: "find_ticket (ba_ticket_id cmd) (se_working s) = Some ticket"
    and plan: "plan_appointment_creation (booking_draft (env_new_id env) cmd ticket)
      (ts_status ticket) (mm_actor_type (ba_metadata cmd)) (ba_expected_ticket_version cmd)
      (ts_version ticket) = Inr plan"
    and w: "ticket_written ticket (booked_ticket ticket plan) h (se_working s) (se_working s')"
    and h: "th_ticket_id h = ts_ticket_id ticket" "ticket_log_entry h = (Some (ts_status ticket),
      ts_status (booked_ticket ticket plan), ts_version ticket, ts_version (booked_ticket ticket plan))"
    by (rule book_appointment_effect) auto
  have "ticket_edge (BookAppointment cmd) ticket (booked_ticket ticket plan)"
    using plan by (auto simp: plan_appointment_creation_Inr_iff ticket_edge_def booked_ticket_def
        intro: ticket_lifecycle.intros)
  then have "ticket_moved (ticket_edge (BookAppointment cmd)) (se_working s) (se_working s')"
    by (intro ticket_written_moved [OF w f _ h]) simp_all
  then show ?thesis by (simp add: ticket_step_def)
qed

lemma reschedule_appointment_ticket_step:
  assumes "reschedule_appointment_handler env cmd digest s = (Inr result, s')"
  shows "ticket_step (RescheduleAppointment cmd) (se_working s) (se_working s')"
proof -
  from assms obtain ticket x h where f: "find_ticket (ra_ticket_id cmd) (se_working s) = Some ticket"
    and x: "transition_ticket (reschedule_request cmd ticket) = Inr x"
    and w: "ticket_written ticket (ticket\<lparr>ts_version := trr_next_version x\<rparr>) h
      (se_working s) (se_working s')"
    and h: "th_ticket_id h = ts_ticket_id ticket" "ticket_log_entry h = (Some (ts_status ticket),
      ts_status ticket, ts_version ticket, trr_next_version x)"
    by (rule reschedule_appointment_effect) auto
  have "ts_status ticket = TS_SCHEDULED"
    using x by (auto simp: transition_ticket_Inr_iff reschedule_request_def
        TicketTransitionRequest_defaults_def transition_data_def dest!: transitions_cases)
  then have "ticket_edge (RescheduleAppointment cmd) ticket (ticket\<lparr>ts_version := trr_next_version x\<rparr>)"
    by (simp add: ticket_edge_def ticket_lifecycle.replace_visit)
  then have "ticket_moved (ticket_edge (RescheduleAppointment cmd)) (se_working s) (se_working s')"
    using h by (intro ticket_written_moved [OF w f]) simp_all
  then show ?thesis by (simp add: ticket_step_def)
qed

lemma record_worker_event_ticket_step:
  assumes "record_worker_event_handler env cmd digest s = (Inr result, s')"
  shows "ticket_step (RecordWorkerEvent cmd) (se_working s) (se_working s')"
proof -
  show ?thesis
    using assms
  proof (cases rule: record_worker_event_effect)
    case replayed
    then show ?thesis by (simp add: ticket_step_def ticket_same_def)
  next
    case (recorded ctx)
    show ?thesis
    proof (cases "wx_next_ticket_status (ec_decision ctx) = ts_status (ec_ticket ctx)")
      case True
      with recorded(7) show ?thesis by (simp add: ticket_step_def event_moves_ticket_def Let_def)
    next
      case False
      with recorded(7) obtain h where h: "th_ticket_id h = ts_ticket_id (ec_ticket ctx)"
        "ticket_log_entry h = (Some (ts_status (ec_ticket ctx)), ts_status (event_ticket ctx),
          ts_version (ec_ticket ctx), ts_version (event_ticket ctx))"
        and w: "ticket_written (ec_ticket ctx) (event_ticket ctx) h (se_working s) (se_working s')"
        by (auto simp: event_moves_ticket_def Let_def)
      have "ticket_edge (RecordWorkerEvent cmd) (ec_ticket ctx) (event_ticket ctx)"
        using validate_worker_event_lifecycle(1-3) [OF recorded(6)] False
        by (simp add: event_request_def ticket_edge_def event_ticket_def Let_def)
      then have "ticket_moved (ticket_edge (RecordWorkerEvent cmd)) (se_working s) (se_working s')"
        by (intro ticket_written_moved [OF w recorded(5) _ h]) simp_all
      then show ?thesis by (simp add: ticket_step_def)
    qed
  qed
qed

lemma command_ticket_step:
  "command_handler env c digest s = (Inr result, s') \<Longrightarrow> ticket_step c (se_working s) (se_working s')"
  by (cases c) (auto simp: ticket_step_def [of _ _ "se_working s'"] dest: create_ticket_step(1)
      review_repair_ticket_step escalate_ticket_ticket_step recover_ticket_ticket_step
      book_appointment_ticket_step reschedule_appointment_ticket_step
      record_worker_event_ticket_step)

section \<open>Reachable stores\<close>

text \<open>A dispatched command changes nothing, or its handler ran to success.\<close>

lemma dispatch_effect:
  obtains (unchanged) "snd (dispatch env c d) = d"
    | (changed) result s x y where "command_handler env c (command_digest env c)
        \<lparr>se_committed = d, se_working = d\<lparr>db_idempotency := x\<rparr>\<rparr> = (Inr result, s)"
      and "snd (dispatch env c d) = (se_working s)\<lparr>db_idempotency := y\<rparr>"
proof (cases "dispatch env c d")
  case (Pair answer d')
  then have run: "run_use_case command_handler (command_scope c) command_metadata command_payload
      env c d = (answer, d')" by (simp add: dispatch_use_case)
  show thesis
  proof (cases "\<exists>result. answer = Inr result \<and> or_ok result")
    case True
    then obtain result where r: "answer = Inr result" "or_ok result" by blast
    from run have "run_use_case command_handler (command_scope c) command_metadata command_payload
      env c d = (Inr result, d')" unfolding r(1) .
    from this r(2) show thesis
    proof (cases rule: facade.run_success_cases)
      case (replayed row)
      then show ?thesis using unchanged Pair by simp
    next
      case (fresh s)
      then show ?thesis using changed Pair by (simp add: acquired_def settled_def)
    qed
  next
    case False
    then have "d' = d" using facade.run_atomic [OF run] by simp
    then show ?thesis using unchanged Pair by simp
  qed
qed

text \<open>The stores that commands can produce from a town without tickets, at increasing times.\<close>

definition no_business :: "db \<Rightarrow> bool" where
  "no_business d \<longleftrightarrow> db_tickets d = [] \<and> db_ticket_history d = [] \<and> db_appointments d = [] \<and>
     db_appointment_history d = [] \<and> db_worker_events d = [] \<and> db_idempotency d = []"

inductive reachable :: "timestamp \<Rightarrow> db \<Rightarrow> bool" where
  initial: "no_business d \<Longrightarrow> reachable t d"
| dispatched: "reachable t d \<Longrightarrow> t < env_now env \<Longrightarrow>
    reachable (env_now env) (snd (dispatch env c d))"

text \<open>An invariant of the business tables holds in every reachable store when it holds without
  rows, does not read the idempotency records, and every successful handler keeps it.\<close>

lemma reachable_induct_business:
  assumes "reachable t d"
    and start: "\<And>d t. no_business d \<Longrightarrow> J t d"
    and frame: "\<And>d t x. J t (d\<lparr>db_idempotency := x\<rparr>) = J t d"
    and later: "\<And>d t t'. J t d \<Longrightarrow> t < t' \<Longrightarrow> J t' d"
    and step: "\<And>env c digest s s' result t. J t (se_working s) \<Longrightarrow> t < env_now env \<Longrightarrow>
      command_handler env c digest s = (Inr result, s') \<Longrightarrow> J (env_now env) (se_working s')"
  shows "J t d"
  using assms(1)
proof (induction rule: reachable.induct)
  case (initial d t)
  then show ?case by (rule start)
next
  case (dispatched t d env c)
  show ?case
  proof (cases rule: dispatch_effect [of env c d])
    case unchanged
    then show ?thesis using later [OF dispatched.IH dispatched.hyps(2)] by simp
  next
    case (changed result s x y)
    from step [OF _ dispatched.hyps(2) changed(1)] dispatched.IH changed(2)
    show ?thesis by (simp add: frame)
  qed
qed

section \<open>The ticket trail\<close>

lemma filter_eq_single: "distinct xs \<Longrightarrow> r \<in> set xs \<Longrightarrow> filter (\<lambda>x. x = r) xs = [r]"
  by (induction xs) (auto simp: filter_empty_conv)

lemma ticket_row_unique:
  assumes "distinct (map ts_ticket_id (db_tickets d))" and "find_ticket i d = Some t"
  shows "\<exists>r \<in> set (db_tickets d). ticket_to_snapshot r = t \<and>
    filter (ticket_hit i (ts_version t)) (db_tickets d) = [r]"
proof -
  from assms(2) obtain r where r: "r \<in> set (db_tickets d)" "ticket_to_snapshot r = t"
    "ts_ticket_id r = i" by (rule find_ticket_SomeE)
  have "filter (ticket_hit i (ts_version t)) (db_tickets d) = filter (\<lambda>x. x = r) (db_tickets d)"
    using assms(1) r by (intro filter_cong)
      (auto simp: ticket_hit_def distinct_map inj_on_def)
  also have "\<dots> = [r]"
    using assms(1) r(1) by (simp add: distinct_map filter_eq_single)
  finally show ?thesis using r by blast
qed

lemma tickets_audited_step:
  assumes "tickets_audited d" and "ticket_step c d d'"
  shows "tickets_audited d'"
proof -
  consider "ticket_same d d'" | "ticket_created d d'" | "ticket_moved (ticket_edge c) d d'"
    using assms(2) by (auto simp: ticket_step_def)
  then show ?thesis
  proof cases
    case 1
    then show ?thesis using assms(1) by (simp add: tickets_audited_def ticket_same_def)
  next
    case 2
    then obtain r h where "db_tickets d' = db_tickets d @ [r]"
      "db_ticket_history d' = db_ticket_history d @ [h]"
      "ts_ticket_id r \<notin> ts_ticket_id ` set (db_tickets d)"
      "ts_version r = 1" "th_ticket_id h = ts_ticket_id r"
      "ticket_log_entry h = (None, ts_status r, 0, 1)"
      by (auto simp: ticket_created_def ticket_insert_checks_def first_failed_append)
    then show ?thesis
      using ticket_table.ok_insert [of "db_tickets d" "db_ticket_history d" r h] assms(1)
      by (simp add: tickets_audited_def)
  next
    case 3
    then obtain old new h where old: "find_ticket (ts_ticket_id old) d = Some old"
      and id: "ts_ticket_id new = ts_ticket_id old"
      and ok: "ticket_update_refused new (ts_version old) d = None"
      and rows: "db_tickets d' = db_tickets (write_ticket new (ts_version old) d)"
      and log: "db_ticket_history d' = db_ticket_history d @ [h]" "th_ticket_id h = ts_ticket_id old"
        "ticket_log_entry h = (Some (ts_status old), ts_status new, ts_version old, ts_version new)"
      by (auto simp: ticket_moved_def)
    obtain r where r: "r \<in> set (db_tickets d)" "ticket_to_snapshot r = old"
      using old by (rule find_ticket_SomeE)
    have "ts_version new = ts_version old + 1" using ticket_update_accepted(1) [OF ok] .
    moreover have "ts_ticket_id old = ts_ticket_id r" "ts_version old = ts_version r"
      "ts_status old = ts_status r" using r(2) by auto
    ultimately show ?thesis
      using ticket_table.ok_update [of "db_tickets d" "db_ticket_history d" r h new] assms(1) r(1) log
      by (simp add: tickets_audited_def rows write_ticket_def ticket_hit_def id cong: if_cong)
  qed
qed

lemma reachable_tickets_audited: "reachable t d \<Longrightarrow> tickets_audited d"
proof (erule reachable_induct_business [where J = "\<lambda>t. tickets_audited"])
  show "tickets_audited d" if "no_business d" for d
    using that by (simp add: tickets_audited_def audited_def no_business_def)
  show "tickets_audited (d\<lparr>db_idempotency := x\<rparr>) = tickets_audited d" for d x
    by (simp add: tickets_audited_def)
qed (auto intro: tickets_audited_step command_ticket_step)

section \<open>Appointment steps\<close>

definition appointment_same :: "db \<Rightarrow> db \<Rightarrow> bool" where
  "appointment_same d d' \<longleftrightarrow>
     db_appointments d' = db_appointments d \<and>
     db_appointment_history d' = db_appointment_history d"

text \<open>One versioned update that ends a booking, paired with its history entry.\<close>

definition appointment_ended :: "db \<Rightarrow> db \<Rightarrow> bool" where
  "appointment_ended d d' \<longleftrightarrow> (\<exists>r old new outcome h.
     r \<in> set (db_appointments d) \<and> appointment_to_snapshot r = old \<and>
     as_appointment_id new = as_appointment_id old \<and>
     as_status old = AS_BOOKED \<and> as_status new \<noteq> AS_BOOKED \<and>
     ah_appointment_id h = as_appointment_id old \<and>
     appointment_log_entry h =
       (Some (as_status old), as_status new, as_version old, as_version new) \<and>
     appointment_written old new outcome h d d')"

definition appointment_added :: "db \<Rightarrow> db \<Rightarrow> bool" where
  "appointment_added d d' \<longleftrightarrow> (\<exists>row h. appointment_inserted row h d d' \<and> as_version row = 1 \<and>
     as_status row = AS_BOOKED \<and> as_starts_at row < as_ends_at row \<and>
     ah_appointment_id h = as_appointment_id row \<and>
     appointment_log_entry h = (None, AS_BOOKED, 0, 1))"

definition appointment_step :: "db \<Rightarrow> db \<Rightarrow> bool" where
  "appointment_step d d' \<longleftrightarrow>
     appointment_same d d' \<or> appointment_ended d d' \<or> appointment_added d d' \<or>
     (\<exists>e. appointment_ended d e \<and> appointment_added e d')"

lemma history_entry [simp]:
  "ah_appointment_id (appointment_history a a' m rc rt ev) = as_appointment_id a"
  "appointment_log_entry (appointment_history a a' m rc rt ev) =
     (Some (as_status a), as_status a', as_version a, as_version a')"
  "ah_appointment_id (booking_history i m) = i"
  "appointment_log_entry (booking_history i m) = (None, AS_BOOKED, 0, 1)"
  by (simp_all add: appointment_history_def booking_history_def appointment_log_entry_def)

lemma create_ticket_appointment_step:
  assumes "create_ticket_handler env cmd digest s = (Inr result, s')"
  shows "appointment_same (se_working s) (se_working s')"
  using create_ticket_step(2,3) [OF assms] by (simp add: appointment_same_def)

lemma escalate_ticket_appointment_step:
  assumes "escalate_ticket_handler env cmd digest s = (Inr result, s')"
  shows "appointment_same (se_working s) (se_working s')"
  using assms by (rule escalate_ticket_effect) (simp add: appointment_same_def visits_same_def)

lemma recover_ticket_appointment_step:
  assumes "recover_ticket_handler env cmd digest s = (Inr result, s')"
  shows "appointment_same (se_working s) (se_working s')"
  using assms by (rule recover_ticket_effect) (simp add: appointment_same_def visits_same_def)

lemma review_repair_appointment_step:
  assumes "review_repair_handler env cmd digest s = (Inr result, s')"
  shows "appointment_step (se_working s) (se_working s')"
proof -
  from assms obtain ticket :: TicketSnapshot and a where
    latest: "latest_appointment (ts_ticket_id ticket) (se_working s) = Some a"
    and eff: "review_moves_appointment cmd a (se_working s) (se_working s')"
    by (rule review_repair_effect) blast
  obtain r where r: "r \<in> set (db_appointments (se_working s))" "appointment_to_snapshot r = a"
    using latest by (rule latest_appointment_SomeE)
  show ?thesis
  proof (cases "rr_accepted cmd \<and> as_status a = AS_BOOKED")
    case True
    with eff obtain y h where y: "transition_appointment (fulfil_request cmd a) = Inr y"
      and h: "ah_appointment_id h = as_appointment_id a"
        "appointment_log_entry h = (Some (as_status a), atx_next_status y, as_version a,
          atx_next_version y)"
      and w: "appointment_written a (fulfilled_appointment a y) None h (se_working s) (se_working s')"
      by (auto simp: review_moves_appointment_def)
    have "atx_next_status y \<noteq> AS_BOOKED"
      using y by (auto simp: transition_appointment_Inr_iff)
    then have "appointment_ended (se_working s) (se_working s')"
      using True r h w unfolding appointment_ended_def
      by (intro exI [of _ r] exI [of _ a] exI [of _ "fulfilled_appointment a y"] exI [of _ None]
          exI [of _ h]) (simp add: fulfilled_appointment_def)
    then show ?thesis by (simp add: appointment_step_def)
  next
    case False
    with eff show ?thesis
      by (auto simp: review_moves_appointment_def appointment_step_def appointment_same_def
          visits_same_def)
  qed
qed

lemma book_appointment_appointment_step:
  assumes "book_appointment_handler env cmd digest s = (Inr result, s')"
  shows "appointment_added (se_working s) (se_working s')"
proof -
  from assms obtain ticket plan where
    plan: "plan_appointment_creation (booking_draft (env_new_id env) cmd ticket) (ts_status ticket)
      (mm_actor_type (ba_metadata cmd)) (ba_expected_ticket_version cmd) (ts_version ticket) = Inr plan"
    and ins: "appointment_inserted (appointment_row_of env (booking_draft (env_new_id env) cmd ticket))
      (booking_history (env_new_id env) (ba_metadata cmd)) (se_working s) (se_working s')"
    by (rule book_appointment_effect) blast
  have "ba_starts_at cmd < ba_ends_at cmd" using plan by (simp add: plan_appointment_creation_Inr_iff)
  with ins show ?thesis unfolding appointment_added_def
    by (intro exI [of _ "appointment_row_of env (booking_draft (env_new_id env) cmd ticket)"]
        exI [of _ "booking_history (env_new_id env) (ba_metadata cmd)"]) simp
qed

lemma reschedule_appointment_appointment_step:
  assumes "reschedule_appointment_handler env cmd digest s = (Inr result, s')"
  shows "\<exists>e. appointment_ended (se_working s) e \<and> appointment_added e (se_working s')"
proof -
  from assms obtain ticket old plan where
    old: "find_appointment (ra_appointment_id cmd) (se_working s) = Some old"
    and plan: "plan_reschedule old (replacement_draft (env_new_id env) cmd ticket old)
      (mm_actor_type (ra_metadata cmd)) (ra_expected_appointment_version cmd) = Inr plan"
    and rep: "appointment_replaced old (superseded_appointment old plan)
      (appointment_history old (superseded_appointment old plan) (ra_metadata cmd) None None [])
      (appointment_row_of env (replacement_draft (env_new_id env) cmd ticket old))
      (booking_history (env_new_id env) (ra_metadata cmd)) (se_working s) (se_working s')"
    by (rule reschedule_appointment_effect) blast
  obtain r where r: "r \<in> set (db_appointments (se_working s))" "appointment_to_snapshot r = old"
    using old by (rule find_appointment_SomeE)
  from rep obtain e where w: "appointment_written old (superseded_appointment old plan) None
      (appointment_history old (superseded_appointment old plan) (ra_metadata cmd) None None [])
      (se_working s) e"
    and i: "appointment_inserted (appointment_row_of env (replacement_draft (env_new_id env) cmd ticket old))
      (booking_history (env_new_id env) (ra_metadata cmd)) e (se_working s')"
    by (auto simp: appointment_replaced_def)
  have "appointment_ended (se_working s) e"
    using r w plan unfolding appointment_ended_def
    by (intro exI [of _ r] exI [of _ old] exI [of _ "superseded_appointment old plan"]
        exI [of _ None] exI [of _ "appointment_history old (superseded_appointment old plan)
          (ra_metadata cmd) None None []"])
      (auto simp: superseded_appointment_def plan_reschedule_Inr_iff)
  moreover have "ra_starts_at cmd < ra_ends_at cmd"
    using plan by (simp add: plan_reschedule_Inr_iff)
  with i have "appointment_added e (se_working s')" unfolding appointment_added_def
    by (intro exI [of _ "appointment_row_of env (replacement_draft (env_new_id env) cmd ticket old)"]
        exI [of _ "booking_history (env_new_id env) (ra_metadata cmd)"]) simp
  ultimately show ?thesis by blast
qed

lemma record_worker_event_appointment_step:
  assumes "record_worker_event_handler env cmd digest s = (Inr result, s')"
  shows "appointment_step (se_working s) (se_working s')"
  using assms
proof (cases rule: record_worker_event_effect)
  case replayed
  then show ?thesis by (simp add: appointment_step_def appointment_same_def)
next
  case (recorded ctx)
  let ?a = "ec_appointment ctx"
  show ?thesis
  proof (cases "wx_next_appointment_status (ec_decision ctx) = as_status ?a")
    case True
    with recorded(8) show ?thesis
      by (simp add: appointment_step_def appointment_same_def event_moves_appointment_def Let_def)
  next
    case False
    obtain r where r: "r \<in> set (db_appointments (se_working s))" "appointment_to_snapshot r = ?a"
      using recorded(1) by (rule find_appointment_SomeE)
    from False recorded(8) obtain y h where booked: "as_status ?a = AS_BOOKED"
      and h: "ah_appointment_id h = as_appointment_id ?a" "appointment_log_entry h =
        (Some (as_status ?a), as_status (event_appointment ctx), as_version ?a,
         as_version (event_appointment ctx))"
      and w: "appointment_written ?a (event_appointment ctx)
        (worker_event_outcome cmd (ec_ticket ctx)) h (se_working s) (se_working s')"
      by (auto simp: event_moves_appointment_def Let_def transition_appointment_Inr_iff)
    have "as_status (event_appointment ctx) \<noteq> AS_BOOKED"
      using False booked by (simp add: event_appointment_def Let_def)
    then have "appointment_ended (se_working s) (se_working s')"
      using r booked h w unfolding appointment_ended_def
      by (intro exI [of _ r] exI [of _ ?a] exI [of _ "event_appointment ctx"]
          exI [of _ "worker_event_outcome cmd (ec_ticket ctx)"] exI [of _ h])
        (simp add: event_appointment_def Let_def)
    then show ?thesis by (simp add: appointment_step_def)
  qed
qed

lemma command_appointment_step:
  "command_handler env c digest s = (Inr result, s') \<Longrightarrow>
     appointment_step (se_working s) (se_working s')"
  using review_repair_appointment_step record_worker_event_appointment_step
  by (cases c) (auto simp: appointment_step_def dest: create_ticket_appointment_step
      escalate_ticket_appointment_step recover_ticket_appointment_step
      book_appointment_appointment_step reschedule_appointment_appointment_step)

section \<open>The appointment table\<close>

text \<open>The same store again, with the updated row singled out.\<close>

lemma appointment_ended_row:
  assumes "distinct (map as_appointment_id (db_appointments d))" and "appointment_ended d d'"
  obtains r new outcome h where "r \<in> set (db_appointments d)" and "as_status r = AS_BOOKED"
    and "as_status new \<noteq> AS_BOOKED" and "as_appointment_id new = as_appointment_id r"
    and "db_appointments d' =
      map (\<lambda>x. if x = r then appointment_columns new outcome r else x) (db_appointments d)"
    and "db_appointment_history d' = db_appointment_history d @ [h]"
    and "ah_appointment_id h = as_appointment_id r"
    and "appointment_log_entry h =
      (Some (as_status r), as_status new, as_version r, as_version r + 1)"
    and "first_failed (appointment_row_checks (appointment_columns new outcome r)) = None"
proof -
  from assms(2) obtain r old new outcome h where r: "r \<in> set (db_appointments d)"
    "appointment_to_snapshot r = old" and st: "as_status old = AS_BOOKED" "as_status new \<noteq> AS_BOOKED"
    and id: "as_appointment_id new = as_appointment_id old"
    and h: "ah_appointment_id h = as_appointment_id old" "appointment_log_entry h =
      (Some (as_status old), as_status new, as_version old, as_version new)"
    and w: "appointment_update_refused new (as_version old) outcome d = None"
      "db_appointments d' = db_appointments (write_appointment new (as_version old) outcome d)"
      "db_appointment_history d' = db_appointment_history d @ [h]"
    by (auto simp: appointment_ended_def appointment_written_def)
  have fields: "as_appointment_id old = as_appointment_id r" "as_version old = as_version r"
    "as_status old = as_status r" using r(2) by auto
  have hit: "appointment_hit (as_appointment_id new) (as_version old) x \<longleftrightarrow> x = r"
    if "x \<in> set (db_appointments d)" for x
    using assms(1) r(1) that fields id by (auto simp: appointment_hit_def distinct_map inj_on_def)
  have rows: "db_appointments d' =
      map (\<lambda>x. if x = r then appointment_columns new outcome r else x) (db_appointments d)"
    unfolding w(2) write_appointment_def using hit by simp
  have "filter (appointment_hit (as_appointment_id new) (as_version old)) (db_appointments d) =
      filter (\<lambda>x. x = r) (db_appointments d)"
    by (intro filter_cong) (simp_all add: hit)
  then have "filter (appointment_hit (as_appointment_id new) (as_version old)) (db_appointments d) = [r]"
    using assms(1) r(1) by (simp add: distinct_map filter_eq_single)
  then have "first_failed (appointment_row_checks (appointment_columns new outcome r)) = None"
    using appointment_update_accepted(2) [OF w(1)] by simp
  moreover have "as_version new = as_version r + 1"
    using appointment_update_accepted(1) [OF w(1)] fields by simp
  ultimately show thesis
    using that [of r new outcome h] r(1) st id h rows w(3) fields by simp
qed

text \<open>What the table promises about every row and about every pair of rows.\<close>

definition appointment_row_ok :: "AppointmentRow \<Rightarrow> bool" where
  "appointment_row_ok a \<longleftrightarrow> as_starts_at a < as_ends_at a \<and> 0 < as_version a \<and>
     as_supersedes a \<noteq> Some (as_appointment_id a) \<and>
     (as_status a \<in> {AS_CANCELLED, AS_NO_SHOW} \<longleftrightarrow> ap_outcome a \<noteq> None)"

definition appointment_pair_ok :: "AppointmentRow \<Rightarrow> AppointmentRow \<Rightarrow> bool" where
  "appointment_pair_ok a b \<longleftrightarrow>
     (as_status a = AS_BOOKED \<and> as_status b = AS_BOOKED \<longrightarrow>
        as_ticket_id a \<noteq> as_ticket_id b \<and>
        \<not> (as_worker_id a = as_worker_id b \<and> ranges_overlap a b)) \<and>
     (as_supersedes a = None \<or> as_supersedes a \<noteq> as_supersedes b)"

definition appointments_ok :: "db \<Rightarrow> bool" where
  "appointments_ok d \<longleftrightarrow> appointments_audited d \<and>
     (\<forall>a \<in> set (db_appointments d). appointment_row_ok a) \<and>
     (\<forall>a \<in> set (db_appointments d). \<forall>b \<in> set (db_appointments d). a \<noteq> b \<longrightarrow> appointment_pair_ok a b)"

lemma appointments_ok_distinct:
  "appointments_ok d \<Longrightarrow> distinct (map as_appointment_id (db_appointments d))"
  by (simp add: appointments_ok_def appointments_audited_def audited_def)

lemma appointment_columns_fields [simp]:
  "as_appointment_id (appointment_columns new out r) = as_appointment_id r"
  "as_ticket_id (appointment_columns new out r) = as_ticket_id r"
  "as_worker_id (appointment_columns new out r) = as_worker_id r"
  "as_purpose (appointment_columns new out r) = as_purpose r"
  "as_starts_at (appointment_columns new out r) = as_starts_at r"
  "as_ends_at (appointment_columns new out r) = as_ends_at r"
  "as_supersedes (appointment_columns new out r) = as_supersedes r"
  "as_status (appointment_columns new out r) = as_status new"
  "as_version (appointment_columns new out r) = as_version r + 1"
  "ap_created_at (appointment_columns new out r) = ap_created_at r"
  by (simp_all add: appointment_columns_def)

lemma pair_ok_ended:
  assumes "appointment_pair_ok a b" and "as_status new \<noteq> AS_BOOKED"
  shows "appointment_pair_ok (appointment_columns new out a) b"
    and "appointment_pair_ok a (appointment_columns new out b)"
  using assms by (auto simp: appointment_pair_ok_def)

lemma appointments_ok_ended:
  assumes ok: "appointments_ok d" and "appointment_ended d d'"
  shows "appointments_ok d'"
proof -
  from appointments_ok_distinct [OF ok] assms(2) obtain r new out h where
    r: "r \<in> set (db_appointments d)" "as_status r = AS_BOOKED" "as_status new \<noteq> AS_BOOKED"
    and id: "as_appointment_id new = as_appointment_id r"
    and rows: "db_appointments d' =
      map (\<lambda>x. if x = r then appointment_columns new out r else x) (db_appointments d)"
    and log: "db_appointment_history d' = db_appointment_history d @ [h]"
      "ah_appointment_id h = as_appointment_id r"
      "appointment_log_entry h = (Some (as_status r), as_status new, as_version r, as_version r + 1)"
    and checks: "first_failed (appointment_row_checks (appointment_columns new out r)) = None"
    by (rule appointment_ended_row)
  have uniq: "x = r" if "x \<in> set (db_appointments d)" "as_appointment_id x = as_appointment_id r" for x
    using appointments_ok_distinct [OF ok] r(1) that by (auto simp: distinct_map inj_on_def)
  then have "db_appointments d' = map (\<lambda>x. if as_appointment_id x = as_appointment_id r \<and>
      as_version x = as_version r then (\<lambda>(n, o'). appointment_columns n o') (new, out) x else x)
      (db_appointments d)" unfolding rows by (intro map_cong) auto
  with appointment_table.ok_update [of "db_appointments d" "db_appointment_history d" r h "(new, out)"]
    ok r(1) log have "appointments_audited d'"
    by (simp add: appointments_ok_def appointments_audited_def)
  moreover have "\<forall>a \<in> set (db_appointments d'). appointment_row_ok a"
    using ok checks r(1) unfolding rows
    by (auto simp: appointments_ok_def appointment_row_checks_def appointment_row_ok_def
        simp del: appointment_columns_fields(8))
  moreover have "\<forall>a \<in> set (db_appointments d'). \<forall>b \<in> set (db_appointments d'). a \<noteq> b \<longrightarrow>
      appointment_pair_ok a b"
    using ok r unfolding rows appointments_ok_def by (auto intro: pair_ok_ended)
  ultimately show ?thesis by (simp add: appointments_ok_def)
qed

lemma appointment_pair_ok_sym: "appointment_pair_ok a b \<longleftrightarrow> appointment_pair_ok b a"
  by (auto simp: appointment_pair_ok_def ranges_overlap_def)

lemma appointments_ok_added:
  assumes ok: "appointments_ok d" and "appointment_added d d'"
  shows "appointments_ok d'"
proof -
  from assms(2) obtain row h where
    checks: "first_failed (appointment_insert_checks row d) = None"
    and rows: "db_appointments d' = db_appointments d @ [row]"
    and log: "db_appointment_history d' = db_appointment_history d @ [h]"
      "ah_appointment_id h = as_appointment_id row"
      "appointment_log_entry h = (None, AS_BOOKED, 0, 1)"
    and row: "as_version row = 1" "as_status row = AS_BOOKED" "as_starts_at row < as_ends_at row"
    by (auto simp: appointment_added_def appointment_inserted_def)
  have new: "as_appointment_id row \<notin> as_appointment_id ` set (db_appointments d)"
    and row_ok: "appointment_row_ok row"
    and pairs: "\<forall>b \<in> set (db_appointments d). appointment_pair_ok row b"
    using checks row by (auto simp: appointment_insert_checks_def appointment_row_checks_def
        appointment_table_checks_def appointment_row_ok_def appointment_pair_ok_def)
  have "appointments_audited d'"
    using appointment_table.ok_insert [of "db_appointments d" "db_appointment_history d" row h] ok
      new log row unfolding rows log(1) appointments_ok_def appointments_audited_def by simp
  moreover have "\<forall>a \<in> set (db_appointments d'). appointment_row_ok a"
    using ok row_ok by (auto simp: rows appointments_ok_def)
  moreover have "\<forall>a \<in> set (db_appointments d'). \<forall>b \<in> set (db_appointments d'). a \<noteq> b \<longrightarrow>
      appointment_pair_ok a b"
    using ok pairs appointment_pair_ok_sym by (auto simp: rows appointments_ok_def)
  ultimately show ?thesis by (simp add: appointments_ok_def)
qed

lemma appointments_ok_step:
  assumes "appointments_ok d" and "appointment_step d d'"
  shows "appointments_ok d'"
proof -
  have "appointments_ok d'" if "appointment_same d d'"
    using assms(1) that
    by (simp add: appointment_same_def appointments_ok_def appointments_audited_def)
  then show ?thesis
    using assms appointments_ok_ended appointments_ok_added unfolding appointment_step_def by blast
qed

lemma reachable_appointments_ok: "reachable t d \<Longrightarrow> appointments_ok d"
proof (erule reachable_induct_business [where J = "\<lambda>t. appointments_ok"])
  show "appointments_ok d" if "no_business d" for d
    using that by (simp add: appointments_ok_def appointments_audited_def audited_def no_business_def)
  show "appointments_ok (d\<lparr>db_idempotency := x\<rparr>) = appointments_ok d" for d x
    by (simp add: appointments_ok_def appointments_audited_def)
qed (auto intro: appointments_ok_step command_appointment_step)

section \<open>Properties of reachable stores\<close>

text \<open>C6: the histories are a complete audit trail. In every reachable store, replaying the history
  entries of a ticket or of an appointment from nothing never meets a gap and ends exactly in the
  status and version of its row, so every change was recorded, in order, and the version counts the
  changes.\<close>

theorem histories_replay_to_rows:
  assumes "reachable t d"
  shows "(\<forall>r \<in> set (db_tickets d).
      replay_log (None, 0) (log_of th_ticket_id ticket_log_entry (db_ticket_history d)
        (ts_ticket_id r)) = Some (Some (ts_status r), ts_version r) \<and>
      ts_version r = int (length (filter (\<lambda>h. th_ticket_id h = ts_ticket_id r)
        (db_ticket_history d)))) \<and>
    (\<forall>a \<in> set (db_appointments d).
      replay_log (None, 0) (log_of ah_appointment_id appointment_log_entry
        (db_appointment_history d) (as_appointment_id a)) = Some (Some (as_status a), as_version a))"
proof -
  have "tickets_audited d" and "appointments_audited d"
    using reachable_tickets_audited [OF assms] reachable_appointments_ok [OF assms]
    by (simp_all add: appointments_ok_def)
  then show ?thesis
    using ticket_table.ok_version_counts [of "db_tickets d" "db_ticket_history d"]
    by (auto simp: tickets_audited_def appointments_audited_def audited_def log_of_def)
qed

text \<open>C5: the store never double-books. In every reachable store a ticket has at most one BOOKED
  appointment, two BOOKED appointments of one worker never share an instant, no two appointments
  supersede the same one, and an appointment carries outcome data exactly when it was cancelled or
  was a no-show.\<close>

theorem no_double_booking:
  assumes "reachable t d" and "a \<in> set (db_appointments d)"
  shows "(\<forall>b \<in> set (db_appointments d). a \<noteq> b \<longrightarrow>
      (as_status a = AS_BOOKED \<and> as_status b = AS_BOOKED \<longrightarrow> as_ticket_id a \<noteq> as_ticket_id b \<and>
        \<not> (as_worker_id a = as_worker_id b \<and> ranges_overlap a b)) \<and>
      (as_supersedes a = None \<or> as_supersedes a \<noteq> as_supersedes b)) \<and>
    as_starts_at a < as_ends_at a \<and>
    (as_status a \<in> {AS_CANCELLED, AS_NO_SHOW} \<longleftrightarrow> ap_outcome a \<noteq> None)"
proof -
  have row: "appointment_row_ok a"
    and pair: "\<And>b. b \<in> set (db_appointments d) \<Longrightarrow> a \<noteq> b \<Longrightarrow> appointment_pair_ok a b"
    using reachable_appointments_ok [OF assms(1)] assms(2) by (auto simp: appointments_ok_def)
  then show ?thesis by (simp add: appointment_row_ok_def appointment_pair_ok_def)
qed

end
