(* ===== verification/Demo.thy ===== *)
theory Demo
  imports UseCases
begin

text \<open>
  A small town on which the properties are exercised: one resident, one operator, one property,
  one plumber, and commands for each use case. The hash functions keep enough of their input to
  tell the events of one command apart.
\<close>

definition demo_env :: "nat \<Rightarrow> timestamp \<Rightarrow> Env" where
  "demo_env k now =
     \<lparr>env_sha256 = (\<lambda>s. char_of k # take 8 s),
      env_uuid5 = (\<lambda>_ s. 1000 * k + of_char (s ! 8)), env_new_id = 100 + k, env_now = now\<rparr>"

definition demo_meta :: "nat \<Rightarrow> actor_type \<Rightarrow> uuid \<Rightarrow> timestamp \<Rightarrow> MutationMetadata" where
  "demo_meta k actor actor_id time =
     \<lparr>mm_actor_type = actor, mm_actor_id = actor_id, mm_trace_id = 500 + k,
      mm_idempotency_key = [char_of k], mm_occurred_at = time, mm_run_id = None,
      mm_thread_id = None, mm_operation_id = Some k, mm_request_fingerprint = Some ''fp''\<rparr>"

definition town :: db where
  "town =
     \<lparr>db_users = [\<lparr>us_id = 1, us_role = ''RESIDENT'', us_is_active = True\<rparr>,
                  \<lparr>us_id = 2, us_role = ''OPERATOR'', us_is_active = True\<rparr>],
      db_properties = [\<lparr>pr_id = 3, pr_community_name = ''Oak'', pr_building_no = ''1'',
                        pr_unit_no = ''1'', pr_room_no = ''101'', pr_address_text = ''Oak 1'',
                        pr_is_active = True\<rparr>],
      db_relations = [\<lparr>rl_resident_id = 1, rl_property_id = 3, rl_is_active = True\<rparr>],
      db_workers = [\<lparr>wk_id = 4, wk_name = ''Ann'', wk_service_area = ''Oak'',
                     wk_is_active = True\<rparr>],
      db_skills = [(4, SK_PLUMBING)],
      db_availability = [\<lparr>av_worker_id = 4, av_range = \<lparr>rg_lower = None, rg_upper = None,
                          rg_lower_inc = False, rg_upper_inc = False\<rparr>\<rparr>],
      db_tickets = [], db_ticket_history = [], db_appointments = [],
      db_appointment_history = [], db_worker_events = [], db_idempotency = [], db_outbox = []\<rparr>"

definition create_command :: CreateTicketCommand where
  "create_command =
     \<lparr>ct_metadata = demo_meta 1 ACT_RESIDENT 1 10, ct_resident_id = 1, ct_property_id = 3,
      ct_issue_category = IC_WATER_LEAK, ct_issue_location = ''sink'',
      ct_issue_description = ''drips'', ct_severity = SV_LOW, ct_allow_duplicate = False\<rparr>"

definition book_command :: "nat \<Rightarrow> int \<Rightarrow> timestamp \<Rightarrow> BookAppointmentCommand" where
  "book_command k version time =
     \<lparr>ba_metadata = demo_meta k ACT_RESIDENT 1 time, ba_ticket_id = 101, ba_worker_id = 4,
      ba_starts_at = time + 10, ba_ends_at = time + 20, ba_expected_ticket_version = version\<rparr>"

section \<open>Evaluation\<close>

lemmas monad_eval = run_use_case_def run_uow_def execute_def execute_body_def
  idempotency_acquire_def idempotency_succeed_def bindA_def queryA_def returnA_def raiseA_def
  rollbackA_def commitA_def updateA_def writeA_def liftA_def raise_ifA_def Let_def
  stored_of_def pending_row_def succeeded_row_def idempotency_key_of_def idempotency_id_of_def
  find_idempotency_def request_digest_def operation_id_for_def

lemmas repository_eval = repository_defs find_ticket_def find_appointment_def
  ticket_to_snapshot_def appointment_to_snapshot_def worker_event_to_snapshot_def
  TicketSnapshot.truncate_def TicketSnapshot.extend_def AppointmentSnapshot.truncate_def
  WorkerEventSnapshot.truncate_def DomainEvent.extend_def
  resident_has_property_def actor_is_operator_def has_exact_open_match_def exact_open_match_def
  ticket_row_of_def ticket_insert_checks_def ticket_row_checks_def ticket_columns_def
  ticket_hit_def ticket_update_refused_def history_checks_def latest_appointment_def
  appointment_age_key_def eligible_rows_def range_contains_def appointment_row_of_def
  appointment_insert_checks_def appointment_row_checks_def appointment_table_checks_def
  ranges_overlap_def appointment_columns_def appointment_hit_def appointment_update_refused_def
  events_of_def worker_event_insert_checks_def outbox_row_of_def outbox_insert_checks_def

lemmas event_eval = build_domain_event_def operation_id_for_def event_material_def
  demo_env_def demo_meta_def

lemmas text_eval = strip_def strip_by_def py_space_def btrim_def lower_def lower_char_def

lemmas create_eval = create_ticket_def create_ticket_handler_def creation_request_def
  creation_authorized_def created_ticket_def creation_history_def plan_ticket_creation_def
  default_creation_plan_def

lemmas book_eval = book_appointment_def book_appointment_handler_def booking_purpose_def
  booking_draft_def check_rework_booking_def booked_ticket_def require_eligible_worker_def
  plan_appointment_creation_def ensure_expected_version_def booking_history_def
  ticket_history_def normalize_service_area_def split_words_def

lemmas demo_eval = monad_eval result_payload_def json_dict_def repository_eval event_eval text_eval create_eval book_eval
  success_result_def create_command_def book_command_def

text \<open>The town after the resident has reported a leak.\<close>

definition town_created :: db where
  "town_created =
     town\<lparr>db_tickets := [\<lparr>ts_ticket_id = 101, ts_resident_id = Suc 0,
       ts_property_id = 3, ts_issue_category = IC_WATER_LEAK, ts_issue_location = ''sink'',
       ts_issue_description = ''drips'', ts_severity = SV_LOW, ts_status = TS_OPEN,
       ts_escalated_from = None, ts_rework_count = 0, ts_version = 1, ts_cancelled_at = None,
       ts_closed_at = None, tk_created_at = 10\<rparr>], db_ticket_history :=
       [\<lparr>th_ticket_id = 101, th_from_status = None, th_to_status = TS_OPEN, th_action =
       ''CREATE'', th_actor_type = ACT_RESIDENT, th_actor_id = Suc 0, th_trace_id = 501,
       th_version_before = 0, th_version_after = 1, th_reason_code = None, th_reason_text =
       None, th_evidence = []\<rparr>], db_idempotency := [\<lparr>ir_scope = ''create_ticket'',
       ir_actor_type = ACT_RESIDENT, ir_actor_id = Suc 0, ir_idempotency_key = [char_of (Suc
       0)], ir_request_hash = ''fp'', ir_operation_id = Some (Suc 0), ir_execution_status =
       IS_SUCCEEDED, ir_resource_type = Some ''repair_ticket'', ir_resource_id = Some 101,
       ir_response_payload = Some \<lparr>rp_code = ''TICKET_CREATED'', rp_resource_version =
       Some 1, rp_data = [(''status'', PStr ''OPEN'')]\<rparr>\<rparr>], db_outbox :=
       [\<lparr>de_event_id = 1099, de_event_key = [char_of (Suc 0), CHR ''t'', CHR ''i'', CHR
       ''c'', CHR ''k'', CHR ''e'', CHR ''t'', CHR ''.'', CHR ''c''], de_event_type =
       EV_TICKET_CREATED, de_aggregate_type = AG_TICKET, de_aggregate_id = 101,
       de_aggregate_version = 1, de_operation_id = Suc 0, de_trace_id = 501, de_run_id = None,
       de_thread_id = None, de_actor_type = ''RESIDENT'', de_actor_id = Suc 0, de_occurred_at =
       10, de_payload = [(''status'', PStr ''OPEN''), (''issue_category'', PStr ''WATER_LEAK''),
       (''severity'', PStr ''LOW''), (''property_id'', PStr (uuid_text 3)), (''resident_id'',
       PStr (uuid_text (Suc 0)))], ob_status = OS_PENDING, ob_available_at = 10, ob_claimed_by =
       None, ob_claim_token = None, ob_claim_expires_at = None, ob_attempt_count = 0,
       ob_last_error_code = None, ob_last_error_message = None, ob_created_at = 10,
       ob_dispatched_at = None\<rparr>]\<rparr>"

lemma create_runs:
  "dispatch (demo_env 1 10) (CreateTicket create_command) town =
     (Inr \<lparr>or_ok = True, or_code = ''TICKET_CREATED'', or_resource_type = Some
       ''repair_ticket'', or_resource_id = Some 101, or_resource_version = Some 1, or_replayed =
       False, or_data = [(''status'', PStr ''OPEN'')]\<rparr>, town_created)"
  by (simp add: demo_eval town_def town_created_def )

text \<open>The town after the first visit was booked.\<close>

definition town_booked :: db where
  "town_booked =
     town\<lparr>db_tickets := [\<lparr>ts_ticket_id = 101, ts_resident_id = Suc 0,
       ts_property_id = 3, ts_issue_category = IC_WATER_LEAK, ts_issue_location = ''sink'',
       ts_issue_description = ''drips'', ts_severity = SV_LOW, ts_status = TS_SCHEDULED,
       ts_escalated_from = None, ts_rework_count = 0, ts_version = 2, ts_cancelled_at = None,
       ts_closed_at = None, tk_created_at = 10\<rparr>], db_ticket_history :=
       [\<lparr>th_ticket_id = 101, th_from_status = None, th_to_status = TS_OPEN, th_action =
       ''CREATE'', th_actor_type = ACT_RESIDENT, th_actor_id = Suc 0, th_trace_id = 501,
       th_version_before = 0, th_version_after = 1, th_reason_code = None, th_reason_text =
       None, th_evidence = []\<rparr>, \<lparr>th_ticket_id = 101, th_from_status = Some
       TS_OPEN, th_to_status = TS_SCHEDULED, th_action = ''BOOK_APPOINTMENT'', th_actor_type =
       ACT_RESIDENT, th_actor_id = Suc 0, th_trace_id = 502, th_version_before = 1,
       th_version_after = 2, th_reason_code = None, th_reason_text = None, th_evidence =
       []\<rparr>], db_appointments := [\<lparr>as_appointment_id = 102, as_ticket_id = 101,
       as_worker_id = 4, as_purpose = AP_INITIAL_REPAIR, as_starts_at = 30, as_ends_at = 40,
       as_status = AS_BOOKED, as_version = 1, as_supersedes = None, ap_outcome = None,
       ap_created_at = 20\<rparr>], db_appointment_history := [\<lparr>ah_appointment_id = 102,
       ah_from_status = None, ah_to_status = AS_BOOKED, ah_actor_type = ACT_RESIDENT,
       ah_actor_id = Suc 0, ah_trace_id = 502, ah_version_before = 0, ah_version_after = 1,
       ah_occurred_at = 20, ah_reason_code = None, ah_reason_text = None, ah_evidence =
       []\<rparr>], db_idempotency := [\<lparr>ir_scope = ''create_ticket'', ir_actor_type =
       ACT_RESIDENT, ir_actor_id = Suc 0, ir_idempotency_key = [char_of (Suc 0)],
       ir_request_hash = ''fp'', ir_operation_id = Some (Suc 0), ir_execution_status =
       IS_SUCCEEDED, ir_resource_type = Some ''repair_ticket'', ir_resource_id = Some 101,
       ir_response_payload = Some \<lparr>rp_code = ''TICKET_CREATED'', rp_resource_version =
       Some 1, rp_data = [(''status'', PStr ''OPEN'')]\<rparr>\<rparr>, \<lparr>ir_scope =
       ''book_appointment'', ir_actor_type = ACT_RESIDENT, ir_actor_id = Suc 0,
       ir_idempotency_key = [char_of (2::nat)], ir_request_hash = ''fp'', ir_operation_id = Some 2,
       ir_execution_status = IS_SUCCEEDED, ir_resource_type = Some ''appointment'',
       ir_resource_id = Some 102, ir_response_payload = Some \<lparr>rp_code =
       ''APPOINTMENT_BOOKED'', rp_resource_version = Some 1, rp_data = [(''ticket_id'', PStr
       (uuid_text 101)), (''ticket_version'', PInt 2)]\<rparr>\<rparr>], db_outbox :=
       [\<lparr>de_event_id = 1099, de_event_key = [char_of (Suc 0), CHR ''t'', CHR ''i'', CHR
       ''c'', CHR ''k'', CHR ''e'', CHR ''t'', CHR ''.'', CHR ''c''], de_event_type =
       EV_TICKET_CREATED, de_aggregate_type = AG_TICKET, de_aggregate_id = 101,
       de_aggregate_version = 1, de_operation_id = Suc 0, de_trace_id = 501, de_run_id = None,
       de_thread_id = None, de_actor_type = ''RESIDENT'', de_actor_id = Suc 0, de_occurred_at =
       10, de_payload = [(''status'', PStr ''OPEN''), (''issue_category'', PStr ''WATER_LEAK''),
       (''severity'', PStr ''LOW''), (''property_id'', PStr (uuid_text 3)), (''resident_id'',
       PStr (uuid_text (Suc 0)))], ob_status = OS_PENDING, ob_available_at = 10, ob_claimed_by =
       None, ob_claim_token = None, ob_claim_expires_at = None, ob_attempt_count = 0,
       ob_last_error_code = None, ob_last_error_message = None, ob_created_at = 10,
       ob_dispatched_at = None\<rparr>, \<lparr>de_event_id = 2115, de_event_key = [char_of (2::nat),
       CHR ''t'', CHR ''i'', CHR ''c'', CHR ''k'', CHR ''e'', CHR ''t'', CHR ''.'', CHR ''s''],
       de_event_type = EV_TICKET_STATUS_CHANGED, de_aggregate_type = AG_TICKET, de_aggregate_id
       = 101, de_aggregate_version = 2, de_operation_id = 2, de_trace_id = 502, de_run_id =
       None, de_thread_id = None, de_actor_type = ''RESIDENT'', de_actor_id = Suc 0,
       de_occurred_at = 20, de_payload = [(''from_status'', PStr ''OPEN''), (''to_status'', PStr
       ''SCHEDULED''), (''action'', PStr ''BOOK_APPOINTMENT'')], ob_status = OS_PENDING,
       ob_available_at = 20, ob_claimed_by = None, ob_claim_token = None, ob_claim_expires_at =
       None, ob_attempt_count = 0, ob_last_error_code = None, ob_last_error_message = None,
       ob_created_at = 20, ob_dispatched_at = None\<rparr>, \<lparr>de_event_id = 2109,
       de_event_key = [char_of (2::nat), CHR ''a'', CHR ''p'', CHR ''p'', CHR ''o'', CHR ''i'', CHR
       ''n'', CHR ''t'', CHR ''m''], de_event_type = EV_APPOINTMENT_BOOKED, de_aggregate_type =
       AG_APPOINTMENT, de_aggregate_id = 102, de_aggregate_version = 1, de_operation_id = 2,
       de_trace_id = 502, de_run_id = None, de_thread_id = None, de_actor_type = ''RESIDENT'',
       de_actor_id = Suc 0, de_occurred_at = 20, de_payload = [(''ticket_id'', PStr (uuid_text
       101)), (''worker_id'', PStr (uuid_text 4)), (''purpose'', PStr ''INITIAL_REPAIR''),
       (''starts_at'', PTime 30), (''ends_at'', PTime 40)], ob_status = OS_PENDING,
       ob_available_at = 20, ob_claimed_by = None, ob_claim_token = None, ob_claim_expires_at =
       None, ob_attempt_count = 0, ob_last_error_code = None, ob_last_error_message = None,
       ob_created_at = 20, ob_dispatched_at = None\<rparr>]\<rparr>"

lemma book_runs:
  "dispatch (demo_env 2 20) (BookAppointment (book_command 2 1 20)) town_created =
     (Inr \<lparr>or_ok = True, or_code = ''APPOINTMENT_BOOKED'', or_resource_type = Some
       ''appointment'', or_resource_id = Some 102, or_resource_version = Some 1, or_replayed =
       False, or_data = [(''ticket_id'', PStr (uuid_text 101)), (''ticket_version'', PInt
       2)]\<rparr>, town_booked)"
  by (simp add: demo_eval town_def town_booked_def town_created_def)

section \<open>Exactly once, on the town\<close>

theorem retry_answered_exactly_once_witness:
  "\<exists>result. dispatch (demo_env 1 10) (CreateTicket create_command) town =
       (Inr result, town_created) \<and>
     dispatch (demo_env 1 99) (retry 77 99 (CreateTicket create_command))
       (run_commands [(demo_env 2 20, BookAppointment (book_command 2 1 20))] town_created) =
     (Inr (retry_answer result), town_booked)"
proof -
  have hash: "env_sha256 (demo_env 1 99) = env_sha256 (demo_env 1 10)" by (simp add: demo_env_def)
  have runs: "run_commands [(demo_env 2 20, BookAppointment (book_command 2 1 20))] town_created =
      town_booked" by (simp only: run_commands.simps book_runs snd_conv)
  show ?thesis
    using retry_answered_exactly_once [OF create_runs _ _ hash, of 77 99
        "[(demo_env 2 20, BookAppointment (book_command 2 1 20))]"] create_runs
    unfolding runs by simp
qed

definition other_command :: CreateTicketCommand where
  "other_command = create_command\<lparr>ct_metadata :=
     (ct_metadata create_command)\<lparr>mm_request_fingerprint := Some ''other''\<rparr>\<rparr>"

theorem key_reuse_refused_witness:
  "\<exists>answer. dispatch (demo_env 3 30) (CreateTicket other_command) town_created =
       (Inr answer, town_created) \<and> \<not> or_ok answer \<and>
     or_code answer = ''idempotency_payload_conflict''"
proof -
  have "command_key (CreateTicket other_command) = command_key (CreateTicket create_command)"
    and "command_digest (demo_env 3 30) (CreateTicket other_command) \<noteq>
      command_digest (demo_env 1 10) (CreateTicket create_command)"
    by (simp_all add: other_command_def create_command_def demo_meta_def idempotency_key_of_def
        request_digest_def)
  from key_reuse_refused [OF create_runs _ _ this, of "[]"] show ?thesis by simp
qed

end
