(* ===== verification/Journeys.thy ===== *)
theory Journeys
  imports Lifecycle Demo
begin

text \<open>
  What happens to a row over time: every ticket row follows the lifecycle under any command, terminal
  rows are frozen, and the reachable stores of the demo town on which these properties are exercised.
\<close>

section \<open>The ticket table\<close>

definition ticket_row_ok :: "TicketRow \<Rightarrow> bool" where
  "ticket_row_ok r \<longleftrightarrow> 0 \<le> ts_rework_count r \<and> 0 < ts_version r \<and>
     (ts_status r = TS_ESCALATED \<longleftrightarrow> ts_escalated_from r \<noteq> None) \<and>
     ts_escalated_from r \<in> insert None (Some ` escalatable_ticket_statuses)"

definition tickets_ok :: "db \<Rightarrow> bool" where
  "tickets_ok d \<longleftrightarrow> tickets_audited d \<and> (\<forall>r \<in> set (db_tickets d). ticket_row_ok r)"

lemma ticket_row_checks_ok: "first_failed (ticket_row_checks r) = None \<Longrightarrow> ticket_row_ok r"
  by (simp add: ticket_row_checks_def ticket_row_ok_def)

lemma tickets_ok_distinct: "tickets_ok d \<Longrightarrow> distinct (map ts_ticket_id (db_tickets d))"
  by (simp add: tickets_ok_def tickets_audited_def audited_def)

lemma ticket_columns_fields [simp]:
  "ts_ticket_id (ticket_columns new r) = ts_ticket_id r"
  "ts_resident_id (ticket_columns new r) = ts_resident_id r"
  "ts_property_id (ticket_columns new r) = ts_property_id r"
  "ts_issue_category (ticket_columns new r) = ts_issue_category r"
  "ts_issue_location (ticket_columns new r) = ts_issue_location r"
  "ts_issue_description (ticket_columns new r) = ts_issue_description r"
  "ts_severity (ticket_columns new r) = ts_severity r"
  "tk_created_at (ticket_columns new r) = tk_created_at r"
  "ts_status (ticket_columns new r) = ts_status new"
  "ts_escalated_from (ticket_columns new r) = ts_escalated_from new"
  "ts_rework_count (ticket_columns new r) = ts_rework_count new"
  "ts_version (ticket_columns new r) = ts_version r + 1"
  by (simp_all add: ticket_columns_def)

text \<open>The store after a versioned ticket update, with the updated row singled out.\<close>

lemma ticket_moved_row:
  assumes "distinct (map ts_ticket_id (db_tickets d))" and "ticket_moved move d d'"
  obtains r new where "r \<in> set (db_tickets d)" and "move (ticket_to_snapshot r) new"
    and "db_tickets d' = map (\<lambda>x. if x = r then ticket_columns new r else x) (db_tickets d)"
    and "first_failed (ticket_row_checks (ticket_columns new r)) = None"
proof -
  from assms(2) obtain old new where old: "find_ticket (ts_ticket_id old) d = Some old"
    and id: "ts_ticket_id new = ts_ticket_id old"
    and ok: "ticket_update_refused new (ts_version old) d = None"
    and rows: "db_tickets d' = db_tickets (write_ticket new (ts_version old) d)"
    and move: "move old new"
    by (auto simp: ticket_moved_def)
  obtain r where r: "r \<in> set (db_tickets d)" "ticket_to_snapshot r = old"
    "filter (ticket_hit (ts_ticket_id old) (ts_version old)) (db_tickets d) = [r]"
    using ticket_row_unique [OF assms(1) old] by blast
  have "{x \<in> set (db_tickets d). ticket_hit (ts_ticket_id old) (ts_version old) x} = {r}"
    using arg_cong [OF r(3), of set] by simp
  then have hit: "ticket_hit (ts_ticket_id old) (ts_version old) x \<longleftrightarrow> x = r"
    if "x \<in> set (db_tickets d)" for x
    using that by blast
  have "db_tickets d' = map (\<lambda>x. if x = r then ticket_columns new r else x) (db_tickets d)"
    unfolding rows write_ticket_def using hit by (simp add: id)
  moreover have "first_failed (ticket_row_checks (ticket_columns new r)) = None"
    using ticket_update_accepted(2) [OF ok] r(3) by (simp add: id)
  ultimately show thesis using that [of r new] r move by simp
qed

lemma tickets_ok_step:
  assumes ok: "tickets_ok d" and step: "ticket_step c d d'"
  shows "tickets_ok d'"
proof -
  consider "ticket_same d d'" | "ticket_created d d'" | "ticket_moved (ticket_edge c) d d'"
    using step by (auto simp: ticket_step_def)
  then have "\<forall>r \<in> set (db_tickets d'). ticket_row_ok r"
  proof cases
    case 1
    then show ?thesis using ok by (simp add: ticket_same_def tickets_ok_def)
  next
    case 2
    then show ?thesis using ok
      by (auto simp: ticket_created_def tickets_ok_def ticket_insert_checks_def first_failed_append
          intro: ticket_row_checks_ok)
  next
    case 3
    with tickets_ok_distinct [OF ok] obtain r new where
      rows: "db_tickets d' = map (\<lambda>x. if x = r then ticket_columns new r else x) (db_tickets d)"
      and "first_failed (ticket_row_checks (ticket_columns new r)) = None"
      by (rule ticket_moved_row)
    then have "ticket_row_ok (ticket_columns new r)" by (intro ticket_row_checks_ok)
    then show ?thesis using ok unfolding rows by (auto simp: tickets_ok_def)
  qed
  then show ?thesis
    using tickets_audited_step [OF _ step] ok by (simp add: tickets_ok_def)
qed

text \<open>Invariants of the ticket and appointment tables under any command, at any time.\<close>

lemma dispatch_keeps:
  assumes "J d" and "\<And>d x. J (d\<lparr>db_idempotency := x\<rparr>) = J d"
    and "\<And>digest s s' result. J (se_working s) \<Longrightarrow>
      command_handler env c digest s = (Inr result, s') \<Longrightarrow> J (se_working s')"
  shows "J (snd (dispatch env c d))"
proof (cases rule: dispatch_effect [of env c d])
  case unchanged
  then show ?thesis using assms(1) by simp
next
  case (changed result s x y)
  from assms(3) [OF _ changed(1)] assms(1) changed(2) show ?thesis by (simp add: assms(2))
qed

definition tables_ok :: "db \<Rightarrow> bool" where
  "tables_ok d \<longleftrightarrow> tickets_ok d \<and> appointments_ok d"

lemma tables_ok_frame: "tables_ok (d\<lparr>db_idempotency := x\<rparr>) = tables_ok d"
  by (simp add: tables_ok_def tickets_ok_def tickets_audited_def appointments_ok_def
      appointments_audited_def)

lemma tables_ok_dispatch: "tables_ok d \<Longrightarrow> tables_ok (snd (dispatch env c d))"
proof (erule dispatch_keeps [where J = tables_ok])
  show "tables_ok (se_working s')" if "tables_ok (se_working s)"
    and "command_handler env c digest s = (Inr result, s')" for digest s s' result
    using that by (auto simp: tables_ok_def intro: tickets_ok_step command_ticket_step
        appointments_ok_step command_appointment_step)
qed (rule tables_ok_frame)

lemma tables_ok_initial: "no_business d \<Longrightarrow> tables_ok d"
  by (simp add: no_business_def tables_ok_def tickets_ok_def tickets_audited_def appointments_ok_def
      appointments_audited_def audited_def)

lemma reachable_tables_ok: "reachable t d \<Longrightarrow> tables_ok d"
  by (induction rule: reachable.induct) (auto intro: tables_ok_initial tables_ok_dispatch)

section \<open>Rows over time\<close>

text \<open>What identifies a repair request, and never changes.\<close>

definition same_report :: "TicketRow \<Rightarrow> TicketRow \<Rightarrow> bool" where
  "same_report r r' \<longleftrightarrow>
     ts_ticket_id r' = ts_ticket_id r \<and> ts_resident_id r' = ts_resident_id r \<and>
     ts_property_id r' = ts_property_id r \<and> ts_issue_category r' = ts_issue_category r \<and>
     ts_issue_location r' = ts_issue_location r \<and>
     ts_issue_description r' = ts_issue_description r \<and> ts_severity r' = ts_severity r \<and>
     tk_created_at r' = tk_created_at r"

definition ticket_row_moved :: "command \<Rightarrow> TicketRow \<Rightarrow> TicketRow \<Rightarrow> bool" where
  "ticket_row_moved c r r' \<longleftrightarrow>
     ts_version r' = ts_version r + 1 \<and> ts_rework_count r \<le> ts_rework_count r' \<and>
     (ticket_lifecycle (ts_status r) (ts_status r') \<or>
      (ts_status r = TS_ESCALATED \<and> ts_status r' \<notin> {TS_ESCALATED, TS_CLOSED})) \<and>
     (ts_status r' = TS_CLOSED \<longrightarrow> resident_accepts c (ticket_to_snapshot r))"

lemma ticket_row_step:
  assumes ok: "tickets_ok d" and step: "ticket_step c d d'" and r: "r \<in> set (db_tickets d)"
  shows "\<exists>r' \<in> set (db_tickets d'). same_report r r' \<and> (r' = r \<or> ticket_row_moved c r r')"
proof -
  consider "ticket_same d d'" | "ticket_created d d'" | "ticket_moved (ticket_edge c) d d'"
    using step by (auto simp: ticket_step_def)
  then show ?thesis
  proof cases
    case 1
    then show ?thesis using r by (auto simp: ticket_same_def same_report_def)
  next
    case 2
    then show ?thesis using r by (auto simp: ticket_created_def same_report_def)
  next
    case 3
    with tickets_ok_distinct [OF ok] obtain x new where
      edge: "ticket_edge c (ticket_to_snapshot x) new"
      and rows: "db_tickets d' = map (\<lambda>y. if y = x then ticket_columns new y else y) (db_tickets d)"
      by (rule ticket_moved_row) (auto cong: if_cong)
    show ?thesis
    proof (cases "r = x")
      case True
      have "ticket_row_ok r" using ok r by (simp add: tickets_ok_def)
      then have "ticket_row_moved c r (ticket_columns new r)"
        using edge True by (auto simp: ticket_row_moved_def ticket_edge_def ticket_row_ok_def)
      moreover have "ticket_columns new r \<in> set (db_tickets d')" using r True rows by force
      moreover have "same_report r (ticket_columns new r)" by (simp add: same_report_def)
      ultimately show ?thesis by blast
    next
      case False
      then show ?thesis using r rows by (force simp: same_report_def)
    qed
  qed
qed

lemma ticket_row_dispatch:
  assumes ok: "tickets_ok d" and r: "r \<in> set (db_tickets d)"
  shows "\<exists>r' \<in> set (db_tickets (snd (dispatch env c d))).
    same_report r r' \<and> (r' = r \<or> ticket_row_moved c r r')"
proof (cases rule: dispatch_effect [of env c d])
  case unchanged
  then show ?thesis using r by (auto simp: same_report_def)
next
  case (changed result s x y)
  have "tickets_ok (d\<lparr>db_idempotency := x\<rparr>)"
    using ok by (simp add: tickets_ok_def tickets_audited_def)
  then show ?thesis
    using ticket_row_step [OF _ command_ticket_step [OF changed(1)], of r] r changed(2) by simp
qed

text \<open>C4: every ticket follows the lifecycle under every command. In a reachable store, whatever is
  dispatched, the row of a ticket stays, keeps everything that identifies the request, and either
  does not change at all or gains exactly one version along an edge of the lifecycle (or out of
  ESCALATED); its rework count never falls, and it becomes CLOSED only when the command is the
  acceptance of its own resident.\<close>

theorem every_ticket_follows_lifecycle:
  assumes "reachable t d" and "r \<in> set (db_tickets d)"
  shows "\<exists>r' \<in> set (db_tickets (snd (dispatch env c d))). same_report r r' \<and>
    (r' = r \<or>
     ts_version r' = ts_version r + 1 \<and> ts_rework_count r \<le> ts_rework_count r' \<and>
     (ticket_lifecycle (ts_status r) (ts_status r') \<or>
      (ts_status r = TS_ESCALATED \<and> ts_status r' \<notin> {TS_ESCALATED, TS_CLOSED})) \<and>
     (ts_status r' = TS_CLOSED \<longrightarrow> resident_accepts c (ticket_to_snapshot r)))"
  using ticket_row_dispatch [OF _ assms(2), of env c] reachable_tables_ok [OF assms(1)]
  by (simp add: tables_ok_def ticket_row_moved_def)

lemma terminal_ticket_stays:
  assumes "tickets_ok d" and "r \<in> set (db_tickets d)" and "ts_status r \<in> terminal_ticket_statuses"
  shows "r \<in> set (db_tickets (snd (dispatch env c d)))"
proof -
  have "\<not> ticket_row_moved c r r'" for r'
    using assms(3) by (auto simp: ticket_row_moved_def terminal_ticket_statuses_def
        elim: ticket_lifecycle.cases)
  then show ?thesis using ticket_row_dispatch [OF assms(1,2), of env c] by blast
qed

lemma ended_appointment_step:
  assumes ok: "appointments_ok d" and "appointment_step d d'" and a: "a \<in> set (db_appointments d)"
    and st: "as_status a \<noteq> AS_BOOKED"
  shows "a \<in> set (db_appointments d')"
proof -
  have same: "a \<in> set (db_appointments e)" if "appointment_same d e" for e
    using that a by (simp add: appointment_same_def)
  have ended: "a \<in> set (db_appointments e)" if end_: "appointment_ended d e" for e
  proof -
    from appointments_ok_distinct [OF ok] end_ obtain r new out where "as_status r = AS_BOOKED"
      and "db_appointments e = map (\<lambda>x. if x = r then appointment_columns new out r else x)
        (db_appointments d)"
      by (rule appointment_ended_row) blast
    then show ?thesis using a st by force
  qed
  have added: "a \<in> set (db_appointments e')"
    if "appointment_added e e'" and "a \<in> set (db_appointments e)" for e e'
    using that by (auto simp: appointment_added_def appointment_inserted_def)
  show ?thesis using assms(2) same ended added a unfolding appointment_step_def by blast
qed

lemma ended_appointment_stays:
  assumes "appointments_ok d" and "a \<in> set (db_appointments d)" and "as_status a \<noteq> AS_BOOKED"
  shows "a \<in> set (db_appointments (snd (dispatch env c d)))"
proof (cases rule: dispatch_effect [of env c d])
  case unchanged
  then show ?thesis using assms by simp
next
  case (changed result s x y)
  have "appointments_ok (d\<lparr>db_idempotency := x\<rparr>)"
    using assms(1) by (simp add: appointments_ok_def appointments_audited_def)
  then show ?thesis
    using ended_appointment_step [OF _ command_appointment_step [OF changed(1)], of a] assms(2,3)
      changed(2) by simp
qed

text \<open>Terminal means terminal. Once a ticket is CANCELLED or CLOSED, or an appointment is no
  longer BOOKED, no sequence of commands, at whatever times, ever changes any column of its row.\<close>

lemma terminal_rows_frozen:
  assumes "reachable t d"
  shows "(\<forall>r \<in> set (db_tickets d). ts_status r \<in> terminal_ticket_statuses \<longrightarrow>
      r \<in> set (db_tickets (run_commands cs d))) \<and>
    (\<forall>a \<in> set (db_appointments d). as_status a \<in> terminal_appointment_statuses \<longrightarrow>
      a \<in> set (db_appointments (run_commands cs d)))"
  using reachable_tables_ok [OF assms]
proof (induction cs arbitrary: d)
  case (Cons c cs)
  then show ?case
    using terminal_ticket_stays [of d _ "fst c" "snd c"] ended_appointment_stays [of d _ "fst c" "snd c"]
      tables_ok_dispatch [of d "fst c" "snd c"]
    by (cases c) (auto simp: tables_ok_def terminal_appointment_statuses_def)
qed simp

end
