(* ===== verification/Scenarios.thy ===== *)
theory Scenarios
  imports Journeys
begin

text \<open>
  Journeys of the demo ticket: the resident accepts on site; an operator escalates the booked ticket
  and approves rework. Each state is what the dispatched command computes, and the witnesses of the
  properties of reachable stores are evaluated on them.
\<close>

definition review_command :: ReviewRepairCommand where
  "review_command =
     \<lparr>rr_metadata = demo_meta 3 ACT_RESIDENT 1 30, rr_ticket_id = 101,
      rr_expected_ticket_version = 2, rr_accepted = True, rr_expected_appointment_version = None,
      rr_rejection_reason = None, rr_explanation = None\<rparr>"

definition escalate_command :: EscalateTicketCommand where
  "escalate_command =
     \<lparr>et_metadata = demo_meta 4 ACT_OPERATOR 2 25, et_ticket_id = 101,
      et_expected_ticket_version = 2, et_reason_code = ''LEAK'', et_reason_text = ''flood'',
      et_evidence = [''photo'']\<rparr>"

definition rework_command :: RecoverTicketCommand where
  "rework_command =
     \<lparr>rc_metadata = demo_meta 5 ACT_OPERATOR 2 26, rc_ticket_id = 101,
      rc_expected_ticket_version = 3, rc_disposition = ED_APPROVE_REWORK, rc_conflict_resolved = True,
      rc_resident_acceptance = None, rc_rework_recorded = True, rc_reason_text = Some ''again'',
      rc_evidence = []\<rparr>"

lemmas review_eval = review_command_def review_repair_def review_repair_handler_def
  review_repair_decided_def fulfil_on_acceptance_def fulfil_request_def review_request_def
  review_action_def review_rejection_def review_appointment_version_def reviewed_ticket_def
  latest_event_type_def TicketTransitionRequest_defaults_def transition_eval
  ensure_aggregate_consistency_def ensure_single_active_appointment_def
  transition_appointment_def validate_outcome_def appointment_history_def
  emit_ticket_status_changed_def resident_confirmed_text_def ticket_history_def last_opt_def
  appointment_transitions.simps

lemmas escalation_eval = escalate_command_def escalate_ticket_def escalate_ticket_handler_def
  authorize_escalation_def escalate_request_def escalated_ticket_def
  rework_command_def recover_ticket_def recover_ticket_handler_def recovery_request_def
  recovered_ticket_def events_of_latest_def recovery_action_def recovery_eval

text \<open>The resident accepts on site: the visit is fulfilled and the ticket closed.\<close>

definition town_closed :: db where
  "town_closed =
     town\<lparr>db_tickets := [\<lparr>ts_ticket_id = 101, ts_resident_id = Suc 0,
       ts_property_id = 3, ts_issue_category = IC_WATER_LEAK, ts_issue_location = ''sink'',
       ts_issue_description = ''drips'', ts_severity = SV_LOW, ts_status = TS_CLOSED,
       ts_escalated_from = None, ts_rework_count = 0, ts_version = 3, ts_cancelled_at = None,
       ts_closed_at = Some 30, tk_created_at = 10\<rparr>], db_ticket_history :=
       [\<lparr>th_ticket_id = 101, th_from_status = None, th_to_status = TS_OPEN, th_action =
       ''CREATE'', th_actor_type = ACT_RESIDENT, th_actor_id = Suc 0, th_trace_id = 501,
       th_version_before = 0, th_version_after = 1, th_reason_code = None, th_reason_text =
       None, th_evidence = []\<rparr>, \<lparr>th_ticket_id = 101, th_from_status = Some
       TS_OPEN, th_to_status = TS_SCHEDULED, th_action = ''BOOK_APPOINTMENT'', th_actor_type =
       ACT_RESIDENT, th_actor_id = Suc 0, th_trace_id = 502, th_version_before = 1,
       th_version_after = 2, th_reason_code = None, th_reason_text = None, th_evidence =
       []\<rparr>, \<lparr>th_ticket_id = 101, th_from_status = Some TS_SCHEDULED, th_to_status
       = TS_CLOSED, th_action = ''RESIDENT_ACCEPT'', th_actor_type = ACT_RESIDENT, th_actor_id =
       Suc 0, th_trace_id = 503, th_version_before = 2, th_version_after = 3, th_reason_code =
       None, th_reason_text = None, th_evidence = []\<rparr>], db_appointments :=
       [\<lparr>as_appointment_id = 102, as_ticket_id = 101, as_worker_id = 4, as_purpose =
       AP_INITIAL_REPAIR, as_starts_at = 30, as_ends_at = 40, as_status = AS_FULFILLED,
       as_version = 2, as_supersedes = None, ap_outcome = None, ap_created_at = 20\<rparr>],
       db_appointment_history := [\<lparr>ah_appointment_id = 102, ah_from_status = None,
       ah_to_status = AS_BOOKED, ah_actor_type = ACT_RESIDENT, ah_actor_id = Suc 0, ah_trace_id
       = 502, ah_version_before = 0, ah_version_after = 1, ah_occurred_at = 20, ah_reason_code =
       None, ah_reason_text = None, ah_evidence = []\<rparr>, \<lparr>ah_appointment_id = 102,
       ah_from_status = Some AS_BOOKED, ah_to_status = AS_FULFILLED, ah_actor_type =
       ACT_RESIDENT, ah_actor_id = Suc 0, ah_trace_id = 503, ah_version_before = 1,
       ah_version_after = 2, ah_occurred_at = 30, ah_reason_code = Some
       ''RESIDENT_CONFIRMED_COMPLETE'', ah_reason_text = Some [char_of (228::nat), char_of
       (189::nat), char_of (143::nat), char_of (230::nat), char_of (136::nat), char_of
       (183::nat), char_of (231::nat), char_of (142::nat), char_of (176::nat), char_of
       (229::nat), char_of (156::nat), char_of (186::nat), char_of (231::nat), char_of
       (161::nat), char_of (174::nat), char_of (232::nat), char_of (174::nat), char_of
       (164::nat), char_of (231::nat), char_of (187::nat), char_of (180::nat), char_of
       (228::nat), char_of (191::nat), char_of (174::nat), char_of (229::nat), char_of
       (183::nat), char_of (178::nat), char_of (229::nat), char_of (174::nat), char_of
       (140::nat), char_of (230::nat), char_of (136::nat), char_of (144::nat)], ah_evidence =
       []\<rparr>], db_idempotency := [\<lparr>ir_scope = ''create_ticket'', ir_actor_type =
       ACT_RESIDENT, ir_actor_id = Suc 0, ir_idempotency_key = [char_of (Suc 0)],
       ir_request_hash = ''fp'', ir_operation_id = Some (Suc 0), ir_execution_status =
       IS_SUCCEEDED, ir_resource_type = Some ''repair_ticket'', ir_resource_id = Some 101,
       ir_response_payload = Some \<lparr>rp_code = ''TICKET_CREATED'', rp_resource_version =
       Some 1, rp_data = [(''status'', PStr ''OPEN'')]\<rparr>\<rparr>, \<lparr>ir_scope =
       ''book_appointment'', ir_actor_type = ACT_RESIDENT, ir_actor_id = Suc 0,
       ir_idempotency_key = [char_of (2::nat)], ir_request_hash = ''fp'', ir_operation_id = Some
       2, ir_execution_status = IS_SUCCEEDED, ir_resource_type = Some ''appointment'',
       ir_resource_id = Some 102, ir_response_payload = Some \<lparr>rp_code =
       ''APPOINTMENT_BOOKED'', rp_resource_version = Some 1, rp_data = [(''ticket_id'', PStr
       (uuid_text 101)), (''ticket_version'', PInt 2)]\<rparr>\<rparr>, \<lparr>ir_scope =
       ''review_repair'', ir_actor_type = ACT_RESIDENT, ir_actor_id = Suc 0, ir_idempotency_key
       = [char_of (3::nat)], ir_request_hash = ''fp'', ir_operation_id = Some 3,
       ir_execution_status = IS_SUCCEEDED, ir_resource_type = Some ''repair_ticket'',
       ir_resource_id = Some 101, ir_response_payload = Some \<lparr>rp_code =
       ''REPAIR_ACCEPTED'', rp_resource_version = Some 3, rp_data = [(''status'', PStr
       ''CLOSED''), (''rework_count'', PInt 0)]\<rparr>\<rparr>], db_outbox :=
       [\<lparr>de_event_id = 1099, de_event_key = [char_of (Suc 0), CHR ''t'', CHR ''i'', CHR
       ''c'', CHR ''k'', CHR ''e'', CHR ''t'', CHR ''.'', CHR ''c''], de_event_type =
       EV_TICKET_CREATED, de_aggregate_type = AG_TICKET, de_aggregate_id = 101,
       de_aggregate_version = 1, de_operation_id = Suc 0, de_trace_id = 501, de_run_id = None,
       de_thread_id = None, de_actor_type = ''RESIDENT'', de_actor_id = Suc 0, de_occurred_at =
       10, de_payload = [(''status'', PStr ''OPEN''), (''issue_category'', PStr ''WATER_LEAK''),
       (''severity'', PStr ''LOW''), (''property_id'', PStr (uuid_text 3)), (''resident_id'',
       PStr (uuid_text (Suc 0)))], ob_status = OS_PENDING, ob_available_at = 10, ob_claimed_by =
       None, ob_claim_token = None, ob_claim_expires_at = None, ob_attempt_count = 0,
       ob_last_error_code = None, ob_last_error_message = None, ob_created_at = 10,
       ob_dispatched_at = None\<rparr>, \<lparr>de_event_id = 2115, de_event_key = [char_of
       (2::nat), CHR ''t'', CHR ''i'', CHR ''c'', CHR ''k'', CHR ''e'', CHR ''t'', CHR ''.'',
       CHR ''s''], de_event_type = EV_TICKET_STATUS_CHANGED, de_aggregate_type = AG_TICKET,
       de_aggregate_id = 101, de_aggregate_version = 2, de_operation_id = 2, de_trace_id = 502,
       de_run_id = None, de_thread_id = None, de_actor_type = ''RESIDENT'', de_actor_id = Suc 0,
       de_occurred_at = 20, de_payload = [(''from_status'', PStr ''OPEN''), (''to_status'', PStr
       ''SCHEDULED''), (''action'', PStr ''BOOK_APPOINTMENT'')], ob_status = OS_PENDING,
       ob_available_at = 20, ob_claimed_by = None, ob_claim_token = None, ob_claim_expires_at =
       None, ob_attempt_count = 0, ob_last_error_code = None, ob_last_error_message = None,
       ob_created_at = 20, ob_dispatched_at = None\<rparr>, \<lparr>de_event_id = 2109,
       de_event_key = [char_of (2::nat), CHR ''a'', CHR ''p'', CHR ''p'', CHR ''o'', CHR ''i'',
       CHR ''n'', CHR ''t'', CHR ''m''], de_event_type = EV_APPOINTMENT_BOOKED,
       de_aggregate_type = AG_APPOINTMENT, de_aggregate_id = 102, de_aggregate_version = 1,
       de_operation_id = 2, de_trace_id = 502, de_run_id = None, de_thread_id = None,
       de_actor_type = ''RESIDENT'', de_actor_id = Suc 0, de_occurred_at = 20, de_payload =
       [(''ticket_id'', PStr (uuid_text 101)), (''worker_id'', PStr (uuid_text 4)),
       (''purpose'', PStr ''INITIAL_REPAIR''), (''starts_at'', PTime 30), (''ends_at'', PTime
       40)], ob_status = OS_PENDING, ob_available_at = 20, ob_claimed_by = None, ob_claim_token
       = None, ob_claim_expires_at = None, ob_attempt_count = 0, ob_last_error_code = None,
       ob_last_error_message = None, ob_created_at = 20, ob_dispatched_at = None\<rparr>,
       \<lparr>de_event_id = 3115, de_event_key = [char_of (3::nat), CHR ''t'', CHR ''i'', CHR
       ''c'', CHR ''k'', CHR ''e'', CHR ''t'', CHR ''.'', CHR ''s''], de_event_type =
       EV_TICKET_STATUS_CHANGED, de_aggregate_type = AG_TICKET, de_aggregate_id = 101,
       de_aggregate_version = 3, de_operation_id = 3, de_trace_id = 503, de_run_id = None,
       de_thread_id = None, de_actor_type = ''RESIDENT'', de_actor_id = Suc 0, de_occurred_at =
       30, de_payload = [(''from_status'', PStr ''SCHEDULED''), (''to_status'', PStr
       ''CLOSED''), (''action'', PStr ''RESIDENT_ACCEPT'')], ob_status = OS_PENDING,
       ob_available_at = 30, ob_claimed_by = None, ob_claim_token = None, ob_claim_expires_at =
       None, ob_attempt_count = 0, ob_last_error_code = None, ob_last_error_message = None,
       ob_created_at = 30, ob_dispatched_at = None\<rparr>]\<rparr>"

lemma review_runs:
  "dispatch (demo_env 3 30) (ReviewRepair review_command) town_booked =
     (Inr \<lparr>or_ok = True, or_code = ''REPAIR_ACCEPTED'', or_resource_type = Some
       ''repair_ticket'', or_resource_id = Some 101, or_resource_version = Some 3, or_replayed =
       False, or_data = [(''status'', PStr ''CLOSED''), (''rework_count'', PInt 0)]\<rparr>,
       town_closed)"
  by (simp add: demo_eval town_def town_closed_def town_booked_def review_eval)

text \<open>An operator escalates the booked ticket; the visit stays booked.\<close>

definition town_escalated :: db where
  "town_escalated =
     town\<lparr>db_tickets := [\<lparr>ts_ticket_id = 101, ts_resident_id = Suc 0,
       ts_property_id = 3, ts_issue_category = IC_WATER_LEAK, ts_issue_location = ''sink'',
       ts_issue_description = ''drips'', ts_severity = SV_LOW, ts_status = TS_ESCALATED,
       ts_escalated_from = Some TS_SCHEDULED, ts_rework_count = 0, ts_version = 3,
       ts_cancelled_at = None, ts_closed_at = None, tk_created_at = 10\<rparr>],
       db_ticket_history := [\<lparr>th_ticket_id = 101, th_from_status = None, th_to_status =
       TS_OPEN, th_action = ''CREATE'', th_actor_type = ACT_RESIDENT, th_actor_id = Suc 0,
       th_trace_id = 501, th_version_before = 0, th_version_after = 1, th_reason_code = None,
       th_reason_text = None, th_evidence = []\<rparr>, \<lparr>th_ticket_id = 101,
       th_from_status = Some TS_OPEN, th_to_status = TS_SCHEDULED, th_action =
       ''BOOK_APPOINTMENT'', th_actor_type = ACT_RESIDENT, th_actor_id = Suc 0, th_trace_id =
       502, th_version_before = 1, th_version_after = 2, th_reason_code = None, th_reason_text =
       None, th_evidence = []\<rparr>, \<lparr>th_ticket_id = 101, th_from_status = Some
       TS_SCHEDULED, th_to_status = TS_ESCALATED, th_action = ''ESCALATE'', th_actor_type =
       ACT_OPERATOR, th_actor_id = 2, th_trace_id = 504, th_version_before = 2, th_version_after
       = 3, th_reason_code = Some ''LEAK'', th_reason_text = Some ''flood'', th_evidence =
       [''photo'']\<rparr>], db_appointments := [\<lparr>as_appointment_id = 102, as_ticket_id =
       101, as_worker_id = 4, as_purpose = AP_INITIAL_REPAIR, as_starts_at = 30, as_ends_at =
       40, as_status = AS_BOOKED, as_version = 1, as_supersedes = None, ap_outcome = None,
       ap_created_at = 20\<rparr>], db_appointment_history := [\<lparr>ah_appointment_id = 102,
       ah_from_status = None, ah_to_status = AS_BOOKED, ah_actor_type = ACT_RESIDENT,
       ah_actor_id = Suc 0, ah_trace_id = 502, ah_version_before = 0, ah_version_after = 1,
       ah_occurred_at = 20, ah_reason_code = None, ah_reason_text = None, ah_evidence =
       []\<rparr>], db_idempotency := [\<lparr>ir_scope = ''create_ticket'', ir_actor_type =
       ACT_RESIDENT, ir_actor_id = Suc 0, ir_idempotency_key = [char_of (Suc 0)],
       ir_request_hash = ''fp'', ir_operation_id = Some (Suc 0), ir_execution_status =
       IS_SUCCEEDED, ir_resource_type = Some ''repair_ticket'', ir_resource_id = Some 101,
       ir_response_payload = Some \<lparr>rp_code = ''TICKET_CREATED'', rp_resource_version =
       Some 1, rp_data = [(''status'', PStr ''OPEN'')]\<rparr>\<rparr>, \<lparr>ir_scope =
       ''book_appointment'', ir_actor_type = ACT_RESIDENT, ir_actor_id = Suc 0,
       ir_idempotency_key = [char_of (2::nat)], ir_request_hash = ''fp'', ir_operation_id = Some
       2, ir_execution_status = IS_SUCCEEDED, ir_resource_type = Some ''appointment'',
       ir_resource_id = Some 102, ir_response_payload = Some \<lparr>rp_code =
       ''APPOINTMENT_BOOKED'', rp_resource_version = Some 1, rp_data = [(''ticket_id'', PStr
       (uuid_text 101)), (''ticket_version'', PInt 2)]\<rparr>\<rparr>, \<lparr>ir_scope =
       ''escalate_ticket'', ir_actor_type = ACT_OPERATOR, ir_actor_id = 2, ir_idempotency_key =
       [char_of (4::nat)], ir_request_hash = ''fp'', ir_operation_id = Some 4,
       ir_execution_status = IS_SUCCEEDED, ir_resource_type = Some ''repair_ticket'',
       ir_resource_id = Some 101, ir_response_payload = Some \<lparr>rp_code =
       ''TICKET_ESCALATED'', rp_resource_version = Some 3, rp_data = [(''status'', PStr
       ''ESCALATED'')]\<rparr>\<rparr>], db_outbox := [\<lparr>de_event_id = 1099, de_event_key
       = [char_of (Suc 0), CHR ''t'', CHR ''i'', CHR ''c'', CHR ''k'', CHR ''e'', CHR ''t'', CHR
       ''.'', CHR ''c''], de_event_type = EV_TICKET_CREATED, de_aggregate_type = AG_TICKET,
       de_aggregate_id = 101, de_aggregate_version = 1, de_operation_id = Suc 0, de_trace_id =
       501, de_run_id = None, de_thread_id = None, de_actor_type = ''RESIDENT'', de_actor_id =
       Suc 0, de_occurred_at = 10, de_payload = [(''status'', PStr ''OPEN''),
       (''issue_category'', PStr ''WATER_LEAK''), (''severity'', PStr ''LOW''),
       (''property_id'', PStr (uuid_text 3)), (''resident_id'', PStr (uuid_text (Suc 0)))],
       ob_status = OS_PENDING, ob_available_at = 10, ob_claimed_by = None, ob_claim_token =
       None, ob_claim_expires_at = None, ob_attempt_count = 0, ob_last_error_code = None,
       ob_last_error_message = None, ob_created_at = 10, ob_dispatched_at = None\<rparr>,
       \<lparr>de_event_id = 2115, de_event_key = [char_of (2::nat), CHR ''t'', CHR ''i'', CHR
       ''c'', CHR ''k'', CHR ''e'', CHR ''t'', CHR ''.'', CHR ''s''], de_event_type =
       EV_TICKET_STATUS_CHANGED, de_aggregate_type = AG_TICKET, de_aggregate_id = 101,
       de_aggregate_version = 2, de_operation_id = 2, de_trace_id = 502, de_run_id = None,
       de_thread_id = None, de_actor_type = ''RESIDENT'', de_actor_id = Suc 0, de_occurred_at =
       20, de_payload = [(''from_status'', PStr ''OPEN''), (''to_status'', PStr ''SCHEDULED''),
       (''action'', PStr ''BOOK_APPOINTMENT'')], ob_status = OS_PENDING, ob_available_at = 20,
       ob_claimed_by = None, ob_claim_token = None, ob_claim_expires_at = None, ob_attempt_count
       = 0, ob_last_error_code = None, ob_last_error_message = None, ob_created_at = 20,
       ob_dispatched_at = None\<rparr>, \<lparr>de_event_id = 2109, de_event_key = [char_of
       (2::nat), CHR ''a'', CHR ''p'', CHR ''p'', CHR ''o'', CHR ''i'', CHR ''n'', CHR ''t'',
       CHR ''m''], de_event_type = EV_APPOINTMENT_BOOKED, de_aggregate_type = AG_APPOINTMENT,
       de_aggregate_id = 102, de_aggregate_version = 1, de_operation_id = 2, de_trace_id = 502,
       de_run_id = None, de_thread_id = None, de_actor_type = ''RESIDENT'', de_actor_id = Suc 0,
       de_occurred_at = 20, de_payload = [(''ticket_id'', PStr (uuid_text 101)), (''worker_id'',
       PStr (uuid_text 4)), (''purpose'', PStr ''INITIAL_REPAIR''), (''starts_at'', PTime 30),
       (''ends_at'', PTime 40)], ob_status = OS_PENDING, ob_available_at = 20, ob_claimed_by =
       None, ob_claim_token = None, ob_claim_expires_at = None, ob_attempt_count = 0,
       ob_last_error_code = None, ob_last_error_message = None, ob_created_at = 20,
       ob_dispatched_at = None\<rparr>, \<lparr>de_event_id = 4115, de_event_key = [char_of
       (4::nat), CHR ''t'', CHR ''i'', CHR ''c'', CHR ''k'', CHR ''e'', CHR ''t'', CHR ''.'',
       CHR ''s''], de_event_type = EV_TICKET_STATUS_CHANGED, de_aggregate_type = AG_TICKET,
       de_aggregate_id = 101, de_aggregate_version = 3, de_operation_id = 4, de_trace_id = 504,
       de_run_id = None, de_thread_id = None, de_actor_type = ''OPERATOR'', de_actor_id = 2,
       de_occurred_at = 25, de_payload = [(''from_status'', PStr ''SCHEDULED''), (''to_status'',
       PStr ''ESCALATED''), (''action'', PStr ''ESCALATE'')], ob_status = OS_PENDING,
       ob_available_at = 25, ob_claimed_by = None, ob_claim_token = None, ob_claim_expires_at =
       None, ob_attempt_count = 0, ob_last_error_code = None, ob_last_error_message = None,
       ob_created_at = 25, ob_dispatched_at = None\<rparr>, \<lparr>de_event_id = 4101,
       de_event_key = [char_of (4::nat), CHR ''t'', CHR ''i'', CHR ''c'', CHR ''k'', CHR ''e'',
       CHR ''t'', CHR ''.'', CHR ''e''], de_event_type = EV_TICKET_ESCALATED, de_aggregate_type
       = AG_TICKET, de_aggregate_id = 101, de_aggregate_version = 3, de_operation_id = 4,
       de_trace_id = 504, de_run_id = None, de_thread_id = None, de_actor_type = ''OPERATOR'',
       de_actor_id = 2, de_occurred_at = 25, de_payload = [(''from_status'', PStr
       ''SCHEDULED''), (''to_status'', PStr ''ESCALATED''), (''reason_code'', PStr ''LEAK'')],
       ob_status = OS_PENDING, ob_available_at = 25, ob_claimed_by = None, ob_claim_token =
       None, ob_claim_expires_at = None, ob_attempt_count = 0, ob_last_error_code = None,
       ob_last_error_message = None, ob_created_at = 25, ob_dispatched_at =
       None\<rparr>]\<rparr>"

lemma escalate_runs:
  "dispatch (demo_env 4 25) (EscalateTicket escalate_command) town_booked =
     (Inr \<lparr>or_ok = True, or_code = ''TICKET_ESCALATED'', or_resource_type = Some
       ''repair_ticket'', or_resource_id = Some 101, or_resource_version = Some 3, or_replayed =
       False, or_data = [(''status'', PStr ''ESCALATED'')]\<rparr>, town_escalated)"
  by (simp add: demo_eval town_def town_escalated_def town_booked_def review_eval escalation_eval)

text \<open>The operator approves rework while the first visit is still booked.\<close>

definition town_rework :: db where
  "town_rework =
     town\<lparr>db_tickets := [\<lparr>ts_ticket_id = 101, ts_resident_id = Suc 0,
       ts_property_id = 3, ts_issue_category = IC_WATER_LEAK, ts_issue_location = ''sink'',
       ts_issue_description = ''drips'', ts_severity = SV_LOW, ts_status = TS_REWORK_REQUIRED,
       ts_escalated_from = None, ts_rework_count = 1, ts_version = 4, ts_cancelled_at = None,
       ts_closed_at = None, tk_created_at = 10\<rparr>], db_ticket_history :=
       [\<lparr>th_ticket_id = 101, th_from_status = None, th_to_status = TS_OPEN, th_action =
       ''CREATE'', th_actor_type = ACT_RESIDENT, th_actor_id = Suc 0, th_trace_id = 501,
       th_version_before = 0, th_version_after = 1, th_reason_code = None, th_reason_text =
       None, th_evidence = []\<rparr>, \<lparr>th_ticket_id = 101, th_from_status = Some
       TS_OPEN, th_to_status = TS_SCHEDULED, th_action = ''BOOK_APPOINTMENT'', th_actor_type =
       ACT_RESIDENT, th_actor_id = Suc 0, th_trace_id = 502, th_version_before = 1,
       th_version_after = 2, th_reason_code = None, th_reason_text = None, th_evidence =
       []\<rparr>, \<lparr>th_ticket_id = 101, th_from_status = Some TS_SCHEDULED, th_to_status
       = TS_ESCALATED, th_action = ''ESCALATE'', th_actor_type = ACT_OPERATOR, th_actor_id = 2,
       th_trace_id = 504, th_version_before = 2, th_version_after = 3, th_reason_code = Some
       ''LEAK'', th_reason_text = Some ''flood'', th_evidence = [''photo'']\<rparr>,
       \<lparr>th_ticket_id = 101, th_from_status = Some TS_ESCALATED, th_to_status =
       TS_REWORK_REQUIRED, th_action = ''RECOVER_APPROVE_REWORK'', th_actor_type = ACT_OPERATOR,
       th_actor_id = 2, th_trace_id = 505, th_version_before = 3, th_version_after = 4,
       th_reason_code = Some ''APPROVE_REWORK'', th_reason_text = Some ''again'', th_evidence =
       []\<rparr>], db_appointments := [\<lparr>as_appointment_id = 102, as_ticket_id = 101,
       as_worker_id = 4, as_purpose = AP_INITIAL_REPAIR, as_starts_at = 30, as_ends_at = 40,
       as_status = AS_BOOKED, as_version = 1, as_supersedes = None, ap_outcome = None,
       ap_created_at = 20\<rparr>], db_appointment_history := [\<lparr>ah_appointment_id = 102,
       ah_from_status = None, ah_to_status = AS_BOOKED, ah_actor_type = ACT_RESIDENT,
       ah_actor_id = Suc 0, ah_trace_id = 502, ah_version_before = 0, ah_version_after = 1,
       ah_occurred_at = 20, ah_reason_code = None, ah_reason_text = None, ah_evidence =
       []\<rparr>], db_idempotency := [\<lparr>ir_scope = ''create_ticket'', ir_actor_type =
       ACT_RESIDENT, ir_actor_id = Suc 0, ir_idempotency_key = [char_of (Suc 0)],
       ir_request_hash = ''fp'', ir_operation_id = Some (Suc 0), ir_execution_status =
       IS_SUCCEEDED, ir_resource_type = Some ''repair_ticket'', ir_resource_id = Some 101,
       ir_response_payload = Some \<lparr>rp_code = ''TICKET_CREATED'', rp_resource_version =
       Some 1, rp_data = [(''status'', PStr ''OPEN'')]\<rparr>\<rparr>, \<lparr>ir_scope =
       ''book_appointment'', ir_actor_type = ACT_RESIDENT, ir_actor_id = Suc 0,
       ir_idempotency_key = [char_of (2::nat)], ir_request_hash = ''fp'', ir_operation_id = Some
       2, ir_execution_status = IS_SUCCEEDED, ir_resource_type = Some ''appointment'',
       ir_resource_id = Some 102, ir_response_payload = Some \<lparr>rp_code =
       ''APPOINTMENT_BOOKED'', rp_resource_version = Some 1, rp_data = [(''ticket_id'', PStr
       (uuid_text 101)), (''ticket_version'', PInt 2)]\<rparr>\<rparr>, \<lparr>ir_scope =
       ''escalate_ticket'', ir_actor_type = ACT_OPERATOR, ir_actor_id = 2, ir_idempotency_key =
       [char_of (4::nat)], ir_request_hash = ''fp'', ir_operation_id = Some 4,
       ir_execution_status = IS_SUCCEEDED, ir_resource_type = Some ''repair_ticket'',
       ir_resource_id = Some 101, ir_response_payload = Some \<lparr>rp_code =
       ''TICKET_ESCALATED'', rp_resource_version = Some 3, rp_data = [(''status'', PStr
       ''ESCALATED'')]\<rparr>\<rparr>, \<lparr>ir_scope = ''recover_ticket'', ir_actor_type =
       ACT_OPERATOR, ir_actor_id = 2, ir_idempotency_key = [char_of (5::nat)], ir_request_hash =
       ''fp'', ir_operation_id = Some 5, ir_execution_status = IS_SUCCEEDED, ir_resource_type =
       Some ''repair_ticket'', ir_resource_id = Some 101, ir_response_payload = Some
       \<lparr>rp_code = ''TICKET_RECOVERED'', rp_resource_version = Some 4, rp_data =
       [(''status'', PStr ''REWORK_REQUIRED'')]\<rparr>\<rparr>], db_outbox :=
       [\<lparr>de_event_id = 1099, de_event_key = [char_of (Suc 0), CHR ''t'', CHR ''i'', CHR
       ''c'', CHR ''k'', CHR ''e'', CHR ''t'', CHR ''.'', CHR ''c''], de_event_type =
       EV_TICKET_CREATED, de_aggregate_type = AG_TICKET, de_aggregate_id = 101,
       de_aggregate_version = 1, de_operation_id = Suc 0, de_trace_id = 501, de_run_id = None,
       de_thread_id = None, de_actor_type = ''RESIDENT'', de_actor_id = Suc 0, de_occurred_at =
       10, de_payload = [(''status'', PStr ''OPEN''), (''issue_category'', PStr ''WATER_LEAK''),
       (''severity'', PStr ''LOW''), (''property_id'', PStr (uuid_text 3)), (''resident_id'',
       PStr (uuid_text (Suc 0)))], ob_status = OS_PENDING, ob_available_at = 10, ob_claimed_by =
       None, ob_claim_token = None, ob_claim_expires_at = None, ob_attempt_count = 0,
       ob_last_error_code = None, ob_last_error_message = None, ob_created_at = 10,
       ob_dispatched_at = None\<rparr>, \<lparr>de_event_id = 2115, de_event_key = [char_of
       (2::nat), CHR ''t'', CHR ''i'', CHR ''c'', CHR ''k'', CHR ''e'', CHR ''t'', CHR ''.'',
       CHR ''s''], de_event_type = EV_TICKET_STATUS_CHANGED, de_aggregate_type = AG_TICKET,
       de_aggregate_id = 101, de_aggregate_version = 2, de_operation_id = 2, de_trace_id = 502,
       de_run_id = None, de_thread_id = None, de_actor_type = ''RESIDENT'', de_actor_id = Suc 0,
       de_occurred_at = 20, de_payload = [(''from_status'', PStr ''OPEN''), (''to_status'', PStr
       ''SCHEDULED''), (''action'', PStr ''BOOK_APPOINTMENT'')], ob_status = OS_PENDING,
       ob_available_at = 20, ob_claimed_by = None, ob_claim_token = None, ob_claim_expires_at =
       None, ob_attempt_count = 0, ob_last_error_code = None, ob_last_error_message = None,
       ob_created_at = 20, ob_dispatched_at = None\<rparr>, \<lparr>de_event_id = 2109,
       de_event_key = [char_of (2::nat), CHR ''a'', CHR ''p'', CHR ''p'', CHR ''o'', CHR ''i'',
       CHR ''n'', CHR ''t'', CHR ''m''], de_event_type = EV_APPOINTMENT_BOOKED,
       de_aggregate_type = AG_APPOINTMENT, de_aggregate_id = 102, de_aggregate_version = 1,
       de_operation_id = 2, de_trace_id = 502, de_run_id = None, de_thread_id = None,
       de_actor_type = ''RESIDENT'', de_actor_id = Suc 0, de_occurred_at = 20, de_payload =
       [(''ticket_id'', PStr (uuid_text 101)), (''worker_id'', PStr (uuid_text 4)),
       (''purpose'', PStr ''INITIAL_REPAIR''), (''starts_at'', PTime 30), (''ends_at'', PTime
       40)], ob_status = OS_PENDING, ob_available_at = 20, ob_claimed_by = None, ob_claim_token
       = None, ob_claim_expires_at = None, ob_attempt_count = 0, ob_last_error_code = None,
       ob_last_error_message = None, ob_created_at = 20, ob_dispatched_at = None\<rparr>,
       \<lparr>de_event_id = 4115, de_event_key = [char_of (4::nat), CHR ''t'', CHR ''i'', CHR
       ''c'', CHR ''k'', CHR ''e'', CHR ''t'', CHR ''.'', CHR ''s''], de_event_type =
       EV_TICKET_STATUS_CHANGED, de_aggregate_type = AG_TICKET, de_aggregate_id = 101,
       de_aggregate_version = 3, de_operation_id = 4, de_trace_id = 504, de_run_id = None,
       de_thread_id = None, de_actor_type = ''OPERATOR'', de_actor_id = 2, de_occurred_at = 25,
       de_payload = [(''from_status'', PStr ''SCHEDULED''), (''to_status'', PStr ''ESCALATED''),
       (''action'', PStr ''ESCALATE'')], ob_status = OS_PENDING, ob_available_at = 25,
       ob_claimed_by = None, ob_claim_token = None, ob_claim_expires_at = None, ob_attempt_count
       = 0, ob_last_error_code = None, ob_last_error_message = None, ob_created_at = 25,
       ob_dispatched_at = None\<rparr>, \<lparr>de_event_id = 4101, de_event_key = [char_of
       (4::nat), CHR ''t'', CHR ''i'', CHR ''c'', CHR ''k'', CHR ''e'', CHR ''t'', CHR ''.'',
       CHR ''e''], de_event_type = EV_TICKET_ESCALATED, de_aggregate_type = AG_TICKET,
       de_aggregate_id = 101, de_aggregate_version = 3, de_operation_id = 4, de_trace_id = 504,
       de_run_id = None, de_thread_id = None, de_actor_type = ''OPERATOR'', de_actor_id = 2,
       de_occurred_at = 25, de_payload = [(''from_status'', PStr ''SCHEDULED''), (''to_status'',
       PStr ''ESCALATED''), (''reason_code'', PStr ''LEAK'')], ob_status = OS_PENDING,
       ob_available_at = 25, ob_claimed_by = None, ob_claim_token = None, ob_claim_expires_at =
       None, ob_attempt_count = 0, ob_last_error_code = None, ob_last_error_message = None,
       ob_created_at = 25, ob_dispatched_at = None\<rparr>, \<lparr>de_event_id = 5115,
       de_event_key = [char_of (5::nat), CHR ''t'', CHR ''i'', CHR ''c'', CHR ''k'', CHR ''e'',
       CHR ''t'', CHR ''.'', CHR ''s''], de_event_type = EV_TICKET_STATUS_CHANGED,
       de_aggregate_type = AG_TICKET, de_aggregate_id = 101, de_aggregate_version = 4,
       de_operation_id = 5, de_trace_id = 505, de_run_id = None, de_thread_id = None,
       de_actor_type = ''OPERATOR'', de_actor_id = 2, de_occurred_at = 26, de_payload =
       [(''from_status'', PStr ''ESCALATED''), (''to_status'', PStr ''REWORK_REQUIRED''),
       (''action'', PStr ''RECOVER_APPROVE_REWORK'')], ob_status = OS_PENDING, ob_available_at =
       26, ob_claimed_by = None, ob_claim_token = None, ob_claim_expires_at = None,
       ob_attempt_count = 0, ob_last_error_code = None, ob_last_error_message = None,
       ob_created_at = 26, ob_dispatched_at = None\<rparr>]\<rparr>"

lemma rework_runs:
  "dispatch (demo_env 5 26) (RecoverTicket rework_command) town_escalated =
     (Inr \<lparr>or_ok = True, or_code = ''TICKET_RECOVERED'', or_resource_type = Some
       ''repair_ticket'', or_resource_id = Some 101, or_resource_version = Some 4, or_replayed =
       False, or_data = [(''status'', PStr ''REWORK_REQUIRED'')]\<rparr>, town_rework)"
  by (simp add: demo_eval town_def town_rework_def town_escalated_def review_eval escalation_eval)

section \<open>These stores are reachable\<close>

lemma town_no_business: "no_business town"
  by (simp add: no_business_def town_def)

lemma demo_time [simp]: "env_now (demo_env k now) = now"
  by (simp add: demo_env_def)

lemma reachable_run:
  assumes "dispatch (demo_env k now) c d = (answer, d')" and "reachable t d" and "t < now"
  shows "reachable now d'"
  using reachable.dispatched [OF assms(2), of "demo_env k now" c] assms(1,3) by simp

lemma town_booked_reachable: "reachable 20 town_booked"
  by (rule reachable_run [OF book_runs reachable_run [OF create_runs
        reachable.initial [OF town_no_business, of 0]]]) simp_all

lemma town_closed_reachable: "reachable 30 town_closed"
  by (rule reachable_run [OF review_runs town_booked_reachable]) simp

lemma town_rework_reachable: "reachable 26 town_rework"
  by (rule reachable_run [OF rework_runs reachable_run [OF escalate_runs town_booked_reachable]])
    simp_all

lemma town_booked_rows:
  "\<exists>r. db_tickets town_booked = [r] \<and> ts_status r = TS_SCHEDULED \<and> ts_version r = 2 \<and>
     ts_ticket_id r = 101"
  "\<exists>a. db_appointments town_booked = [a] \<and> as_status a = AS_BOOKED"
  by (simp_all add: town_booked_def)

theorem histories_replay_to_rows_witness:
  "\<exists>r. db_tickets town_booked = [r] \<and> ts_version r = 2 \<and>
     length (filter (\<lambda>h. th_ticket_id h = ts_ticket_id r) (db_ticket_history town_booked)) = 2"
proof -
  from town_booked_rows(1) obtain r where r: "db_tickets town_booked = [r]" "ts_version r = 2"
    by blast
  with histories_replay_to_rows [OF town_booked_reachable] show ?thesis by auto
qed

theorem no_double_booking_witness:
  "\<exists>a. db_appointments town_booked = [a] \<and> as_status a = AS_BOOKED \<and>
     as_starts_at a < as_ends_at a \<and> ap_outcome a = None"
proof -
  from town_booked_rows(2) obtain a where a: "db_appointments town_booked = [a]"
    "as_status a = AS_BOOKED" by blast
  with no_double_booking [OF town_booked_reachable, of a] show ?thesis by simp
qed

theorem every_ticket_follows_lifecycle_witness:
  "\<exists>r r'. db_tickets town_booked = [r] \<and> r' \<in> set (db_tickets town_closed) \<and> same_report r r' \<and>
     ts_status r' = TS_CLOSED \<and> ts_version r' = ts_version r + 1 \<and>
     resident_accepts (ReviewRepair review_command) (ticket_to_snapshot r)"
proof -
  from town_booked_rows(1) obtain r where r: "db_tickets town_booked = [r]"
    "ts_status r = TS_SCHEDULED" by blast
  obtain x where x: "db_tickets town_closed = [x]" "ts_status x = TS_CLOSED"
    by (simp add: town_closed_def)
  show ?thesis
    using every_ticket_follows_lifecycle [OF town_booked_reachable, of r "demo_env 3 30"
        "ReviewRepair review_command"] r x
    unfolding review_runs by auto
qed


section \<open>Rework approved over a booking\<close>


end
