(* ===== verification/Access.thy ===== *)
theory Access
  imports Scenarios
begin

text \<open>
  Who can change what: the authorization that every successful command implies, and the one hole in
  it, the creation of a ticket by an operator.
\<close>

section \<open>The policy\<close>

definition acts_for_resident :: "MutationMetadata \<Rightarrow> uuid \<Rightarrow> uuid \<Rightarrow> db \<Rightarrow> bool" where
  "acts_for_resident m resident prop d \<longleftrightarrow> mm_actor_type m = ACT_RESIDENT \<and>
     mm_actor_id m = resident \<and> resident_has_property resident prop d"

definition acts_as_operator :: "MutationMetadata \<Rightarrow> db \<Rightarrow> bool" where
  "acts_as_operator m d \<longleftrightarrow>
     mm_actor_type m = ACT_OPERATOR \<and> actor_is_operator (mm_actor_id m) d"

definition may_manage :: "MutationMetadata \<Rightarrow> uuid \<Rightarrow> db \<Rightarrow> bool" where
  "may_manage m ticket_id d \<longleftrightarrow> acts_as_operator m d \<or>
     (\<exists>t. find_ticket ticket_id d = Some t \<and>
        acts_for_resident m (ts_resident_id t) (ts_property_id t) d)"

definition may_report :: "RecordWorkerEventCommand \<Rightarrow> db \<Rightarrow> bool" where
  "may_report c d \<longleftrightarrow> (\<exists>a. find_appointment (rw_appointment_id c) d = Some a \<and>
     as_ticket_id a = rw_ticket_id c \<and> as_worker_id a = rw_subject_worker_id c \<and>
     mm_actor_type (rw_metadata c) \<in> event_actors (rw_event_type c) \<and>
     (acts_as_operator (rw_metadata c) d \<or> mm_actor_type (rw_metadata c) = ACT_SYSTEM \<or>
      mm_actor_type (rw_metadata c) = ACT_WORKER \<and> mm_actor_id (rw_metadata c) = as_worker_id a))"

fun authorized_command :: "command \<Rightarrow> db \<Rightarrow> bool" where
  "authorized_command (CreateTicket c) d \<longleftrightarrow>
     acts_for_resident (ct_metadata c) (ct_resident_id c) (ct_property_id c) d \<or>
     mm_actor_type (ct_metadata c) = ACT_OPERATOR"
| "authorized_command (ReviewRepair c) d \<longleftrightarrow>
     mm_actor_type (rr_metadata c) = ACT_RESIDENT \<and> may_manage (rr_metadata c) (rr_ticket_id c) d"
| "authorized_command (EscalateTicket c) d \<longleftrightarrow>
     acts_as_operator (et_metadata c) d \<or> mm_actor_type (et_metadata c) = ACT_SYSTEM"
| "authorized_command (RecoverTicket c) d \<longleftrightarrow> acts_as_operator (rc_metadata c) d"
| "authorized_command (BookAppointment c) d \<longleftrightarrow> may_manage (ba_metadata c) (ba_ticket_id c) d"
| "authorized_command (RescheduleAppointment c) d \<longleftrightarrow>
     may_manage (ra_metadata c) (ra_ticket_id c) d"
| "authorized_command (RecordWorkerEvent c) d \<longleftrightarrow> may_report c d"

section \<open>What a successful handler has checked\<close>

lemma authorize_ticket_InrD:
  assumes "authorize_ticket t m s = (Inr u, s')" and "find_ticket i (se_working s) = Some t"
  shows "may_manage m i (se_working s)"
  using assms unfolding authorize_ticket_def
  by (auto simp: inversion_simps may_manage_def acts_for_resident_def acts_as_operator_def
      split: if_splits)

lemma create_ticket_authorized:
  assumes "create_ticket_handler env c digest s = (Inr result, s')"
  shows "authorized_command (CreateTicket c) (se_working s)"
  using assms unfolding create_ticket_handler_def
  by (auto simp: inversion_simps Let_def plan_ticket_creation_def creation_request_def
      creation_authorized_def acts_for_resident_def split: if_splits)

lemma review_repair_authorized:
  assumes "review_repair_handler env c digest s = (Inr result, s')"
  shows "authorized_command (ReviewRepair c) (se_working s)"
  using assms unfolding review_repair_handler_def
  by (auto simp: inversion_simps may_manage_def acts_for_resident_def)

lemma escalate_ticket_authorized:
  assumes "escalate_ticket_handler env c digest s = (Inr result, s')"
  shows "authorized_command (EscalateTicket c) (se_working s)"
  using assms unfolding escalate_ticket_handler_def authorize_escalation_def
  by (auto simp: inversion_simps acts_as_operator_def split: if_splits)

lemma recover_ticket_authorized:
  assumes "recover_ticket_handler env c digest s = (Inr result, s')"
  shows "authorized_command (RecoverTicket c) (se_working s)"
  using assms unfolding recover_ticket_handler_def
  by (auto simp: inversion_simps acts_as_operator_def)

lemma book_appointment_authorized:
  assumes "book_appointment_handler env c digest s = (Inr result, s')"
  shows "authorized_command (BookAppointment c) (se_working s)"
  using assms unfolding book_appointment_handler_def
  by (auto simp: inversion_simps Let_def dest: authorize_ticket_InrD)

lemma reschedule_appointment_authorized:
  assumes "reschedule_appointment_handler env c digest s = (Inr result, s')"
  shows "authorized_command (RescheduleAppointment c) (se_working s)"
  using assms unfolding reschedule_appointment_handler_def
  by (auto simp: inversion_simps Let_def dest: authorize_ticket_InrD)

lemma load_context_authorized:
  assumes "load_context c digest s = (Inr (Inr ctx), s')"
  shows "may_report c (se_working s)"
proof -
  note lc = load_context_new [OF assms]
  from assms have "authorize_event_actor c (ec_appointment ctx) s = (Inr (), s)"
    unfolding load_context_def get_by_external_key_def
    by (auto simp: inversion_simps dest: reads_Inr)
  then have "acts_as_operator (rw_metadata c) (se_working s) \<or>
      mm_actor_type (rw_metadata c) = ACT_SYSTEM \<or> mm_actor_type (rw_metadata c) = ACT_WORKER \<and>
      mm_actor_id (rw_metadata c) = as_worker_id (ec_appointment ctx)"
    by (auto simp: authorize_event_actor_def inversion_simps Let_def acts_as_operator_def
        split: if_splits)
  moreover have "mm_actor_type (rw_metadata c) \<in> event_actors (rw_event_type c)"
    using lc(7) by (auto simp: validate_worker_event_def inversion_simps event_request_def)
  ultimately show ?thesis using lc(2-4) unfolding may_report_def by blast
qed

lemma record_worker_event_authorized:
  assumes "record_worker_event_handler env c digest s = (Inr result, s')" and "\<not> or_replayed result"
  shows "authorized_command (RecordWorkerEvent c) (se_working s)"
proof -
  from assms(1) obtain loaded s1 where load: "load_context c digest s = (Inr loaded, s1)"
    and rest: "(case loaded of Inl replay \<Rightarrow> returnA replay
      | Inr ctx \<Rightarrow> bindA (apply_effects env c ctx)
          (\<lambda>_. append_event env c digest ctx)) s1 = (Inr result, s')"
    unfolding record_worker_event_handler_def by (auto simp only: action_Inr_iff(3))
  show ?thesis
  proof (cases loaded)
    case (Inl replay)
    then show ?thesis using load_context_old [OF load [unfolded Inl]] rest assms(2)
      by (simp add: inversion_simps)
  next
    case (Inr ctx)
    then show ?thesis using load_context_authorized [of c digest s ctx s1] load by simp
  qed
qed

lemma command_authorized:
  assumes "command_handler env c digest s = (Inr result, s')" and "\<not> or_replayed result"
  shows "authorized_command c (se_working s)"
  using assms
  by (cases c) (simp_all add: create_ticket_authorized review_repair_authorized
      escalate_ticket_authorized recover_ticket_authorized book_appointment_authorized
      reschedule_appointment_authorized record_worker_event_authorized del: authorized_command.simps)

lemma authorized_command_frame:
  "authorized_command c (d\<lparr>db_idempotency := x\<rparr>) = authorized_command c d"
  by (cases c) (simp_all add: may_manage_def may_report_def acts_for_resident_def
      acts_as_operator_def resident_has_property_def actor_is_operator_def find_ticket_def
      find_appointment_def)

text \<open>C8: nobody acts without authority. A command that succeeds anew was sent by the linked
  resident of the ticket, by an active operator, by the worker of the appointment or by the system,
  as each use case demands; the creation of a ticket by an operator is the one case that checks
  nothing about the actor.\<close>

theorem success_implies_authority:
  assumes "dispatch env c d = (Inr result, d')" and "or_ok result" and "\<not> or_replayed result"
  shows "authorized_command c d"
proof -
  have run: "run_use_case command_handler (command_scope c) command_metadata command_payload
      env c d = (Inr result, d')" using assms(1) by (simp add: dispatch_use_case)
  from this assms(2) show ?thesis
  proof (cases rule: facade.run_success_cases)
    case (replayed row)
    then show ?thesis using assms(3) by (simp add: replay_result_def)
  next
    case (fresh s)
    then show ?thesis
      using command_authorized [OF fresh(3) assms(3)]
      by (simp add: acquired_def authorized_command_frame)
  qed
qed

theorem success_implies_authority_witness:
  "authorized_command (BookAppointment (book_command 2 1 20)) town_created \<and>
   may_manage (ba_metadata (book_command 2 1 20)) 101 town_created"
  using success_implies_authority [OF book_runs] by (simp add: book_command_def)

section \<open>Creation by an operator\<close>

definition impostor_command :: CreateTicketCommand where
  "impostor_command =
     create_command\<lparr>ct_metadata := demo_meta 7 ACT_OPERATOR 9 10, ct_property_id := 8\<rparr>"

definition open_town :: db where
  "open_town = town\<lparr>db_properties := db_properties town @
     [\<lparr>pr_id = 8, pr_community_name = ''Elm'', pr_building_no = ''2'', pr_unit_no = ''1'',
       pr_room_no = ''7'', pr_address_text = ''Elm 2'', pr_is_active = False\<rparr>]\<rparr>"

text \<open>C35: the authorization of an operator who creates a ticket is computed and then ignored. The
  plan is the same whether the operator was found authorized or not, and a stranger who merely calls
  himself an operator opens a ticket on a property that the resident has no link to.\<close>

theorem operator_creation_unauthorized:
  "(\<forall>c e. plan_ticket_creation (creation_request
        (c\<lparr>ct_metadata := ct_metadata c\<lparr>mm_actor_type := ACT_OPERATOR\<rparr>\<rparr>) False e) =
      plan_ticket_creation (creation_request
        (c\<lparr>ct_metadata := ct_metadata c\<lparr>mm_actor_type := ACT_OPERATOR\<rparr>\<rparr>) True e)) \<and>
   \<not> acts_as_operator (ct_metadata impostor_command) open_town \<and>
   \<not> resident_has_property (ct_resident_id impostor_command) (ct_property_id impostor_command)
       open_town \<and>
   (\<exists>result d' r. dispatch (demo_env 7 10) (CreateTicket impostor_command) open_town =
      (Inr result, d') \<and> or_ok result \<and> or_code result = ''TICKET_CREATED'' \<and>
      db_tickets d' = [r] \<and> ts_property_id r = 8 \<and> ts_status r = TS_OPEN)"
proof (intro conjI)
  show "\<exists>result d' r. dispatch (demo_env 7 10) (CreateTicket impostor_command) open_town =
      (Inr result, d') \<and> or_ok result \<and> or_code result = ''TICKET_CREATED'' \<and>
      db_tickets d' = [r] \<and> ts_property_id r = 8 \<and> ts_status r = TS_OPEN"
    by (simp add: demo_eval impostor_command_def open_town_def town_def)
qed (auto simp: plan_ticket_creation_def creation_request_def acts_as_operator_def
    actor_is_operator_def resident_has_property_def impostor_command_def open_town_def town_def
    create_command_def demo_meta_def)

end
