(* ===== verification/EventLog.thy ===== *)
theory EventLog
  imports Scenarios
begin

text \<open>
  The worker events of an appointment in the reachable stores: numbered without gaps, accepted one
  by one by \<open>validate_worker_event\<close>, and silent about the outcome while the visit is booked.
\<close>

section \<open>Reading the log back\<close>

lemma insort_key_append_last:
  "f x \<le> f e \<Longrightarrow> insort_key f x (ys @ [e]) = insort_key f x ys @ [e]"
  by (induction ys) auto

lemma sort_key_append_last:
  "\<forall>x \<in> set xs. f x \<le> f e \<Longrightarrow> sort_key f (xs @ [e]) = sort_key f xs @ [e]"
  by (induction xs) (simp_all add: insort_key_append_last)

lemma events_of_append:
  assumes "db_worker_events d' = db_worker_events d @ [e]"
    and "map we_sequence_no (events_of (we_appointment_id e) d) =
      map int [1..<Suc (length (events_of (we_appointment_id e) d))]"
    and "we_sequence_no e = int (length (events_of (we_appointment_id e) d)) + 1"
  shows "events_of i d' = (if i = we_appointment_id e
    then events_of i d @ [worker_event_to_snapshot e] else events_of i d)"
proof (cases "i = we_appointment_id e")
  case True
  let ?rows = "filter (\<lambda>r. we_appointment_id r = i) (db_worker_events d)"
  have "we_sequence_no ` set ?rows = set (map we_sequence_no (events_of i d))"
    by (force simp: events_of_def)
  then have "we_sequence_no ` set ?rows = set (map int [1..<Suc (length (events_of i d))])"
    using assms(2) True by simp
  then have "we_sequence_no x \<le> we_sequence_no e" if "x \<in> set ?rows" for x
    using that assms(3) True by (auto dest!: equalityD1 subsetD [of _ _ "we_sequence_no x"])
  then show ?thesis
    using assms(1) True by (simp add: events_of_def sort_key_append_last)
qed (use assms(1) in \<open>simp add: events_of_def\<close>)

lemma events_of_same: "db_worker_events d' = db_worker_events d \<Longrightarrow> events_of i d' = events_of i d"
  by (simp add: events_of_def)

section \<open>What a command does to the log\<close>

definition event_recorded :: "db \<Rightarrow> db \<Rightarrow> bool" where
  "event_recorded d d' \<longleftrightarrow> (\<exists>e r x a.
     db_worker_events d' = db_worker_events d @ [e] \<and> validate_worker_event r = Inr x \<and>
     \<not> wr_confirmed_replay r \<and> we_event_type e = wr_event_type r \<and>
     wr_prior_events r = map we_event_type (events_of (we_appointment_id e) d) \<and>
     we_sequence_no e = int (length (events_of (we_appointment_id e) d)) + 1 \<and>
     a \<in> set (db_appointments d) \<and> as_appointment_id a = we_appointment_id e \<and>
     as_status a = AS_BOOKED \<and>
     (we_event_type e \<in> terminal_events \<longrightarrow> appointment_ended d d' \<and>
        (\<forall>b \<in> set (db_appointments d'). as_appointment_id b = we_appointment_id e \<longrightarrow>
           as_status b \<noteq> AS_BOOKED)))"

lemma terminal_event_ends_visit:
  assumes "validate_worker_event r = Inr x" and "\<not> wr_confirmed_replay r"
  shows "wr_appointment_status r = AS_BOOKED"
    and "wr_event_type r \<in> terminal_events \<Longrightarrow> wx_next_appointment_status x \<noteq> AS_BOOKED"
proof -
  from assms obtain ef where snap: "validate_snapshots r = Inr ()"
    and ef: "event_effects r = Inr ef" and x: "wx_next_appointment_status x = ef_appointment ef"
    by (rule validate_worker_event_InrD) auto
  show "wr_appointment_status r = AS_BOOKED" using validate_snapshots_InrD [OF snap] by simp
  show "wx_next_appointment_status x \<noteq> AS_BOOKED" if "wr_event_type r \<in> terminal_events"
    using that ef unfolding x
    by (cases "wr_event_type r")
      (auto simp: event_effects_def terminal_events_def Let_def split: if_splits option.splits)
qed

lemma record_worker_event_log:
  assumes "record_worker_event_handler env c digest s = (Inr result, s')"
    and ok: "appointments_ok (se_working s)"
  shows "se_working s' = se_working s \<or> event_recorded (se_working s) (se_working s')"
  using assms(1)
proof (cases rule: record_worker_event_effect)
  case (recorded ctx)
  let ?a = "ec_appointment ctx" and ?e = "event_record env c digest ctx"
    and ?r = "event_request c (ec_ticket ctx) (ec_appointment ctx) (ec_prior ctx)"
  obtain a where a: "a \<in> set (db_appointments (se_working s))" "appointment_to_snapshot a = ?a"
    using recorded(1) by (rule find_appointment_SomeE)
  have key: "as_appointment_id a = as_appointment_id ?a" "as_version a = as_version ?a"
    "as_status a = as_status ?a"
    unfolding a(2) [symmetric] by simp_all
  have fresh: "\<not> wr_confirmed_replay ?r" by (simp add: event_request_def)
  note ends = terminal_event_ends_visit [OF recorded(6) fresh]
  have booked: "as_status ?a = AS_BOOKED" using ends(1) by (simp add: event_request_def)
  have over: "appointment_ended (se_working s) (se_working s') \<and>
      (\<forall>b \<in> set (db_appointments (se_working s')). as_appointment_id b = as_appointment_id ?a \<longrightarrow>
        as_status b \<noteq> AS_BOOKED)" if "rw_event_type c \<in> terminal_events"
  proof -
    have next_: "wx_next_appointment_status (ec_decision ctx) \<noteq> AS_BOOKED"
      using ends(2) that by (simp add: event_request_def)
    with recorded(8) booked obtain h where
      h: "ah_appointment_id h = as_appointment_id ?a" "appointment_log_entry h =
        (Some (as_status ?a), as_status (event_appointment ctx), as_version ?a,
         as_version (event_appointment ctx))"
      and w: "appointment_written ?a (event_appointment ctx)
        (worker_event_outcome c (ec_ticket ctx)) h (se_working s) (se_working s')"
      by (auto simp: event_moves_appointment_def Let_def)
    have new: "as_status (event_appointment ctx) \<noteq> AS_BOOKED"
      "as_appointment_id (event_appointment ctx) = as_appointment_id ?a"
      using next_ by (simp_all add: event_appointment_def Let_def)
    have "appointment_ended (se_working s) (se_working s')"
      using a booked new h w unfolding appointment_ended_def by blast
    moreover have "as_status b \<noteq> AS_BOOKED" if b: "b \<in> set (db_appointments (se_working s'))"
      "as_appointment_id b = as_appointment_id ?a" for b
    proof -
      from w obtain x where x: "x \<in> set (db_appointments (se_working s))"
        "b = (if appointment_hit (as_appointment_id ?a) (as_version ?a) x
          then appointment_columns (event_appointment ctx) (worker_event_outcome c (ec_ticket ctx)) x
          else x)"
        using b(1) new(2) by (auto simp: appointment_written_def write_appointment_def)
      have "as_appointment_id x = as_appointment_id a" using x(2) b(2) key by (auto split: if_splits)
      then have "x = a"
        using appointments_ok_distinct [OF ok] x(1) a(1) by (auto simp: distinct_map inj_on_def)
      then show ?thesis using x(2) new(1) key by (simp add: appointment_hit_def)
    qed
    ultimately show ?thesis by blast
  qed
  have rec: "we_appointment_id ?e = as_appointment_id ?a" "we_event_type ?e = rw_event_type c"
    "we_sequence_no ?e = int (length (ec_prior ctx)) + 1" "wr_event_type ?r = rw_event_type c"
    "wr_prior_events ?r = map we_event_type (ec_prior ctx)"
    by (simp_all add: event_record_def event_request_def)
  have "event_recorded (se_working s) (se_working s')"
    unfolding event_recorded_def
    using recorded(4,6,9) a(1) key fresh booked over rec
    by (intro exI [of _ ?e] exI [of _ ?r] exI [of _ "ec_decision ctx"] exI [of _ a])
      simp
  then show ?thesis by blast
qed simp

lemma command_event_log:
  assumes "command_handler env c digest s = (Inr result, s')" and "appointments_ok (se_working s)"
  shows "db_worker_events (se_working s') = db_worker_events (se_working s) \<or>
    event_recorded (se_working s) (se_working s')"
proof (cases c)
  case (ReviewRepair rr)
  with assms(1) obtain ticket :: TicketSnapshot and a where
    "review_moves_appointment rr a (se_working s) (se_working s')"
    by (auto elim: review_repair_effect)
  then show ?thesis by (auto simp: review_moves_appointment_def visits_same_def split: if_splits)
next
  case (RecordWorkerEvent rw)
  then show ?thesis using record_worker_event_log [of env rw digest s result s'] assms by auto
next
  case (EscalateTicket ec)
  then show ?thesis using assms(1) by (auto elim!: escalate_ticket_effect simp: visits_same_def)
next
  case (RecoverTicket rc)
  then show ?thesis using assms(1) by (auto elim!: recover_ticket_effect simp: visits_same_def)
next
  case (BookAppointment ba)
  then show ?thesis using assms(1) by (auto elim!: book_appointment_effect)
next
  case (RescheduleAppointment ra)
  then show ?thesis using assms(1) by (auto elim!: reschedule_appointment_effect)
qed (use assms(1) create_ticket_step(4) in auto)

section \<open>The log in every reachable store\<close>

definition logs_ok :: "db \<Rightarrow> bool" where
  "logs_ok d \<longleftrightarrow>
     (\<forall>i. accepted_log (map we_event_type (events_of i d)) \<and>
        map we_sequence_no (events_of i d) = map int [1..<Suc (length (events_of i d))]) \<and>
     (\<forall>e \<in> set (db_worker_events d). we_appointment_id e \<in> as_appointment_id ` set (db_appointments d)) \<and>
     (\<forall>a \<in> set (db_appointments d). as_status a = AS_BOOKED \<longrightarrow>
        (\<forall>e \<in> set (events_of (as_appointment_id a) d). we_event_type e \<notin> terminal_events))"

lemma ended_rows:
  assumes "appointments_ok d" and "appointment_ended d d'"
  shows "as_appointment_id ` set (db_appointments d') = as_appointment_id ` set (db_appointments d)"
    and "\<forall>b \<in> set (db_appointments d'). as_status b = AS_BOOKED \<longrightarrow> b \<in> set (db_appointments d)"
proof -
  from appointments_ok_distinct [OF assms(1)] assms(2) obtain r new out where
    st: "as_status new \<noteq> AS_BOOKED" and rows: "db_appointments d' =
      map (\<lambda>x. if x = r then appointment_columns new out x else x) (db_appointments d)"
    by (rule appointment_ended_row) (auto cong: if_cong)
  show "as_appointment_id ` set (db_appointments d') = as_appointment_id ` set (db_appointments d)"
    unfolding rows set_map image_image by (intro image_cong) auto
  show "\<forall>b \<in> set (db_appointments d'). as_status b = AS_BOOKED \<longrightarrow> b \<in> set (db_appointments d)"
    using st unfolding rows by auto
qed

lemma step_rows:
  assumes ok: "appointments_ok d" and step: "appointment_step d d'"
  shows "as_appointment_id ` set (db_appointments d) \<subseteq> as_appointment_id ` set (db_appointments d')"
    and "\<forall>b \<in> set (db_appointments d'). as_status b = AS_BOOKED \<longrightarrow>
      b \<in> set (db_appointments d) \<or>
      as_appointment_id b \<notin> as_appointment_id ` set (db_appointments d)"
proof -
  have one: "as_appointment_id ` set (db_appointments e) = as_appointment_id ` set (db_appointments d)"
    "\<forall>b \<in> set (db_appointments e). as_status b = AS_BOOKED \<longrightarrow> b \<in> set (db_appointments d)"
    if "appointment_same d e \<or> appointment_ended d e" for e
    using that ended_rows [OF ok, of e] by (auto simp: appointment_same_def)
  have new: "\<exists>row. set (db_appointments d') = insert row (set (db_appointments e)) \<and>
      as_appointment_id row \<notin> as_appointment_id ` set (db_appointments e)"
    if "appointment_added e d'" for e
    using that by (auto simp: appointment_added_def appointment_inserted_def
        appointment_insert_checks_def appointment_table_checks_def first_failed_append)
  consider "appointment_same d d' \<or> appointment_ended d d'"
    | e where "appointment_same d e \<or> appointment_ended d e" "appointment_added e d'"
    using step by (auto simp: appointment_step_def appointment_same_def)
  then have "as_appointment_id ` set (db_appointments d) \<subseteq> as_appointment_id ` set (db_appointments d') \<and>
    (\<forall>b \<in> set (db_appointments d'). as_status b = AS_BOOKED \<longrightarrow> b \<in> set (db_appointments d) \<or>
      as_appointment_id b \<notin> as_appointment_id ` set (db_appointments d))"
  proof cases
    case 1
    then show ?thesis using one [OF 1] by blast
  next
    case 2
    then show ?thesis using one [OF 2(1)] new [OF 2(2)] by auto
  qed
  then show "as_appointment_id ` set (db_appointments d) \<subseteq> as_appointment_id ` set (db_appointments d')"
    and "\<forall>b \<in> set (db_appointments d'). as_status b = AS_BOOKED \<longrightarrow>
      b \<in> set (db_appointments d) \<or>
      as_appointment_id b \<notin> as_appointment_id ` set (db_appointments d)" by simp_all
qed

lemma logs_ok_no_events:
  assumes "logs_ok d" and "i \<notin> as_appointment_id ` set (db_appointments d)"
  shows "events_of i d = []"
proof -
  have "filter (\<lambda>r. we_appointment_id r = i) (db_worker_events d) = []"
    using assms by (auto simp: logs_ok_def filter_empty_conv)
  then show ?thesis by (simp add: events_of_def)
qed

lemma logs_ok_same:
  assumes ok: "logs_ok d" "appointments_ok d" and same: "db_worker_events d' = db_worker_events d"
    and step: "appointment_step d d'"
  shows "logs_ok d'"
proof -
  have events: "events_of i d' = events_of i d" for i by (rule events_of_same) (rule same)
  show ?thesis
    using ok(1) step_rows [OF ok(2) step] logs_ok_no_events [OF ok(1)]
    unfolding logs_ok_def events same by fastforce
qed

lemma logs_ok_recorded:
  assumes ok: "logs_ok d" "appointments_ok d" and rec: "event_recorded d d'"
    and step: "appointment_step d d'"
  shows "logs_ok d'"
proof -
  from rec obtain e r x a where rows: "db_worker_events d' = db_worker_events d @ [e]"
    and valid: "validate_worker_event r = Inr x" "\<not> wr_confirmed_replay r"
    and e: "we_event_type e = wr_event_type r"
      "wr_prior_events r = map we_event_type (events_of (we_appointment_id e) d)"
      "we_sequence_no e = int (length (events_of (we_appointment_id e) d)) + 1"
    and a: "a \<in> set (db_appointments d)" "as_appointment_id a = we_appointment_id e"
    and over: "we_event_type e \<in> terminal_events \<longrightarrow> (\<forall>b \<in> set (db_appointments d').
      as_appointment_id b = we_appointment_id e \<longrightarrow> as_status b \<noteq> AS_BOOKED)"
    by (auto simp: event_recorded_def)
  have logs: "accepted_log (map we_event_type (events_of i d))"
    "map we_sequence_no (events_of i d) = map int [1..<Suc (length (events_of i d))]" for i
    using ok(1) by (simp_all add: logs_ok_def)
  note events = events_of_append [OF rows logs(2) e(3)]
  have grown: "accepted_log (map we_event_type (events_of (we_appointment_id e) d) @ [we_event_type e])"
    using accepted_log.append_event [OF _ valid] logs(1) e by simp
  note steps = step_rows [OF ok(2) step]
  have "we_event_type f \<notin> terminal_events"
    if b: "b \<in> set (db_appointments d')" "as_status b = AS_BOOKED"
      and f: "f \<in> set (events_of (as_appointment_id b) d')" for b f
  proof (cases "f \<in> set (events_of (as_appointment_id b) d)")
    case True
    then show ?thesis
      using steps(2) b ok(1) logs_ok_no_events [OF ok(1)] unfolding logs_ok_def by fastforce
  next
    case False
    then have "as_appointment_id b = we_appointment_id e" "f = worker_event_to_snapshot e"
      using f events by (auto split: if_splits)
    then show ?thesis using over b by auto
  qed
  moreover have "we_appointment_id f \<in> as_appointment_id ` set (db_appointments d')"
    if "f \<in> set (db_worker_events d')" for f
    using that ok(1) steps(1) a unfolding rows logs_ok_def by force
  moreover have "accepted_log (map we_event_type (events_of i d')) \<and>
      map we_sequence_no (events_of i d') = map int [1..<Suc (length (events_of i d'))]" for i
    using logs grown e(3) events by (simp add: Suc_le_eq empty_log)
  ultimately show ?thesis unfolding logs_ok_def by blast
qed

lemma logs_ok_frame: "logs_ok (d\<lparr>db_idempotency := x\<rparr>) = logs_ok d"
  by (simp add: logs_ok_def events_of_def)

lemma logs_ok_dispatch:
  assumes "logs_ok d" and "tables_ok d"
  shows "logs_ok (snd (dispatch env c d))"
proof -
  let ?J = "\<lambda>d. logs_ok d \<and> appointments_ok d"
  have "?J (snd (dispatch env c d))"
  proof (rule dispatch_keeps [where J = ?J])
    show "?J d" using assms by (simp add: tables_ok_def)
    show "?J (d\<lparr>db_idempotency := x\<rparr>) = ?J d" for d x
      by (simp add: logs_ok_frame appointments_ok_def appointments_audited_def)
    show "?J (se_working s')" if J: "?J (se_working s)"
      and run: "command_handler env c digest s = (Inr result, s')" for digest s s' result
    proof -
      note step = command_appointment_step [OF run]
      have "logs_ok (se_working s')"
        using command_event_log [OF run] J logs_ok_same [OF _ _ _ step] logs_ok_recorded [OF _ _ _ step]
        by blast
      then show ?thesis using appointments_ok_step [OF _ step] J by blast
    qed
  qed
  then show ?thesis by simp
qed

lemma reachable_logs_ok: "reachable t d \<Longrightarrow> logs_ok d"
proof (induction rule: reachable.induct)
  case (initial d t)
  then show ?case by (simp add: no_business_def logs_ok_def events_of_def empty_log)
next
  case (dispatched t d env c)
  then show ?case using logs_ok_dispatch reachable_tables_ok by blast
qed

text \<open>C7: the stored event logs are sound. In every reachable store the events of an appointment are
  numbered from 1 without a gap, their order is the one the design asks for (nothing follows an
  outcome, predecessors are immediate, a started visit is neither cancelled nor missed), every event
  belongs to an appointment, and a visit whose outcome was reported is no longer BOOKED.\<close>

theorem stored_logs_sound:
  assumes "reachable t d"
  shows "well_ordered_log (map we_event_type (events_of i d)) \<and>
    map we_sequence_no (events_of i d) = map int [1..<Suc (length (events_of i d))] \<and>
    (\<forall>e \<in> set (events_of i d). \<exists>a \<in> set (db_appointments d). as_appointment_id a = i \<and>
       (we_event_type e \<in> terminal_events \<longrightarrow> as_status a \<noteq> AS_BOOKED))"
proof -
  note ok = reachable_logs_ok [OF assms]
  have "\<exists>a \<in> set (db_appointments d). as_appointment_id a = i \<and>
      (we_event_type e \<in> terminal_events \<longrightarrow> as_status a \<noteq> AS_BOOKED)"
    if "e \<in> set (events_of i d)" for e
  proof -
    have "i \<in> as_appointment_id ` set (db_appointments d)"
      using logs_ok_no_events [OF ok, of i] that by fastforce
    then show ?thesis using ok that unfolding logs_ok_def by blast
  qed
  then show ?thesis using ok accepted_log_ordered unfolding logs_ok_def by blast
qed

section \<open>A visit that has started\<close>

definition start_command :: RecordWorkerEventCommand where
  "start_command =
     \<lparr>rw_metadata = demo_meta 3 ACT_WORKER 4 31, rw_ticket_id = 101, rw_appointment_id = 102,
      rw_subject_worker_id = 4, rw_event_type = WE_STARTED, rw_external_event_key = ''ev1'',
      rw_expected_ticket_version = 2, rw_expected_appointment_version = 1,
      rw_cancellation_reason = None, rw_no_show_reason = None, rw_reason_text = None,
      rw_evidence = [], rw_failure_reason = None, rw_worker_statement = None\<rparr>"

lemmas start_eval = start_command_def record_worker_event_def record_worker_event_handler_def
  load_context_def authorize_event_actor_def event_request_def event_failure_def
  apply_effects_def apply_ticket_effect_def event_ticket_def event_appointment_def
  append_event_def event_record_def record_worker_event_payload_def metadata_dict_def
  worker_ticket_action_def worker_reason_code_def outcome_reason_of_def text_or_def
  validate_worker_event_def validate_versions_and_purpose_def validate_snapshots_def
  validate_sequence_def event_effects_def event_actors_def pre_work_events_def terminal_events_def
  ticket_follow_up_facts_def emit_ticket_status_changed_def ticket_history_def last_opt_def
  opt_str_def opt_uuid_def opt_int_def opt_bool_def str_list_def

text \<open>The worker has started.\<close>

definition town_started :: db where
  "town_started =
     town\<lparr>db_tickets := [\<lparr>ts_ticket_id = 101, ts_resident_id = Suc 0,
       ts_property_id = 3, ts_issue_category = IC_WATER_LEAK, ts_issue_location = ''sink'',
       ts_issue_description = ''drips'', ts_severity = SV_LOW, ts_status = TS_IN_PROGRESS,
       ts_escalated_from = None, ts_rework_count = 0, ts_version = 3, ts_cancelled_at = None,
       ts_closed_at = None, tk_created_at = 10\<rparr>], db_ticket_history :=
       [\<lparr>th_ticket_id = 101, th_from_status = None, th_to_status = TS_OPEN, th_action =
       ''CREATE'', th_actor_type = ACT_RESIDENT, th_actor_id = Suc 0, th_trace_id = 501,
       th_version_before = 0, th_version_after = 1, th_reason_code = None, th_reason_text =
       None, th_evidence = []\<rparr>, \<lparr>th_ticket_id = 101, th_from_status = Some
       TS_OPEN, th_to_status = TS_SCHEDULED, th_action = ''BOOK_APPOINTMENT'', th_actor_type =
       ACT_RESIDENT, th_actor_id = Suc 0, th_trace_id = 502, th_version_before = 1,
       th_version_after = 2, th_reason_code = None, th_reason_text = None, th_evidence =
       []\<rparr>, \<lparr>th_ticket_id = 101, th_from_status = Some TS_SCHEDULED, th_to_status
       = TS_IN_PROGRESS, th_action = ''START_WORK'', th_actor_type = ACT_WORKER, th_actor_id =
       4, th_trace_id = 503, th_version_before = 2, th_version_after = 3, th_reason_code = None,
       th_reason_text = None, th_evidence = []\<rparr>], db_appointments :=
       [\<lparr>as_appointment_id = 102, as_ticket_id = 101, as_worker_id = 4, as_purpose =
       AP_INITIAL_REPAIR, as_starts_at = 30, as_ends_at = 40, as_status = AS_BOOKED, as_version
       = 1, as_supersedes = None, ap_outcome = None, ap_created_at = 20\<rparr>],
       db_appointment_history := [\<lparr>ah_appointment_id = 102, ah_from_status = None,
       ah_to_status = AS_BOOKED, ah_actor_type = ACT_RESIDENT, ah_actor_id = Suc 0, ah_trace_id
       = 502, ah_version_before = 0, ah_version_after = 1, ah_occurred_at = 20, ah_reason_code =
       None, ah_reason_text = None, ah_evidence = []\<rparr>], db_worker_events :=
       [\<lparr>we_event_id = 103, we_appointment_id = 102, we_subject_worker_id = 4,
       we_sequence_no = 1, we_event_type = WE_STARTED, we_external_event_key = ''ev1'',
       we_request_hash = ''fp'', wer_actor_type = ACT_WORKER, wer_actor_id = 4, wer_trace_id =
       503, wer_occurred_at = 31, wer_payload = PDict [(''metadata'', PDict [(''actor_type'',
       PStr ''WORKER''), (''actor_id'', PStr (uuid_text 4)), (''trace_id'', PStr (uuid_text
       503)), (''idempotency_key'', PStr [char_of (3::nat)]), (''occurred_at'', PStr (iso_utc
       31)), (''run_id'', PNone), (''thread_id'', PNone), (''operation_id'', PStr (uuid_text
       3)), (''request_fingerprint'', PStr ''fp'')]), (''ticket_id'', PStr (uuid_text 101)),
       (''appointment_id'', PStr (uuid_text 102)), (''subject_worker_id'', PStr (uuid_text 4)),
       (''event_type'', PStr ''STARTED''), (''external_event_key'', PStr ''ev1''),
       (''expected_ticket_version'', PInt 2), (''expected_appointment_version'', PInt 1),
       (''cancellation_reason'', PNone), (''no_show_reason'', PNone), (''reason_text'', PNone),
       (''evidence'', PList []), (''failure_reason'', PNone), (''worker_statement'',
       PNone)]\<rparr>], db_idempotency := [\<lparr>ir_scope = ''create_ticket'', ir_actor_type
       = ACT_RESIDENT, ir_actor_id = Suc 0, ir_idempotency_key = [char_of (Suc 0)],
       ir_request_hash = ''fp'', ir_operation_id = Some (Suc 0), ir_execution_status =
       IS_SUCCEEDED, ir_resource_type = Some ''repair_ticket'', ir_resource_id = Some 101,
       ir_response_payload = Some \<lparr>rp_code = ''TICKET_CREATED'', rp_resource_version =
       Some 1, rp_data = [(''status'', PStr ''OPEN'')]\<rparr>\<rparr>, \<lparr>ir_scope =
       ''book_appointment'', ir_actor_type = ACT_RESIDENT, ir_actor_id = Suc 0,
       ir_idempotency_key = [char_of (2::nat)], ir_request_hash = ''fp'', ir_operation_id = Some
       2, ir_execution_status = IS_SUCCEEDED, ir_resource_type = Some ''appointment'',
       ir_resource_id = Some 102, ir_response_payload = Some \<lparr>rp_code =
       ''APPOINTMENT_BOOKED'', rp_resource_version = Some 1, rp_data = [(''ticket_id'', PStr
       (uuid_text 101)), (''ticket_version'', PInt 2)]\<rparr>\<rparr>, \<lparr>ir_scope =
       ''record_worker_event'', ir_actor_type = ACT_WORKER, ir_actor_id = 4, ir_idempotency_key
       = [char_of (3::nat)], ir_request_hash = ''fp'', ir_operation_id = Some 3,
       ir_execution_status = IS_SUCCEEDED, ir_resource_type = Some ''worker_event'',
       ir_resource_id = Some 103, ir_response_payload = Some \<lparr>rp_code =
       ''WORKER_EVENT_RECORDED'', rp_resource_version = Some 1, rp_data = [(''ticket_status'',
       PStr ''IN_PROGRESS''), (''ticket_version'', PInt 3), (''appointment_status'', PStr
       ''BOOKED''), (''appointment_version'', PInt 1)]\<rparr>\<rparr>], db_outbox :=
       [\<lparr>de_event_id = 1099, de_event_key = [char_of (Suc 0), CHR ''t'', CHR ''i'', CHR
       ''c'', CHR ''k'', CHR ''e'', CHR ''t'', CHR ''.'', CHR ''c''], de_event_type =
       EV_TICKET_CREATED, de_aggregate_type = AG_TICKET, de_aggregate_id = 101,
       de_aggregate_version = 1, de_operation_id = Suc 0, de_trace_id = 501, de_run_id = None,
       de_thread_id = None, de_actor_type = ''RESIDENT'', de_actor_id = Suc 0, de_occurred_at =
       10, de_payload = [(''status'', PStr ''OPEN''), (''issue_category'', PStr ''WATER_LEAK''),
       (''severity'', PStr ''LOW''), (''property_id'', PStr (uuid_text 3)), (''resident_id'',
       PStr (uuid_text (Suc 0)))], ob_status = OS_PENDING, ob_available_at = 10, ob_claimed_by =
       None, ob_claim_token = None, ob_claim_expires_at = None, ob_attempt_count = 0,
       ob_last_error_code = None, ob_last_error_message = None, ob_created_at = 10,
       ob_dispatched_at = None\<rparr>, \<lparr>de_event_id = 2115, de_event_key = [char_of
       (2::nat), CHR ''t'', CHR ''i'', CHR ''c'', CHR ''k'', CHR ''e'', CHR ''t'', CHR ''.'',
       CHR ''s''], de_event_type = EV_TICKET_STATUS_CHANGED, de_aggregate_type = AG_TICKET,
       de_aggregate_id = 101, de_aggregate_version = 2, de_operation_id = 2, de_trace_id = 502,
       de_run_id = None, de_thread_id = None, de_actor_type = ''RESIDENT'', de_actor_id = Suc 0,
       de_occurred_at = 20, de_payload = [(''from_status'', PStr ''OPEN''), (''to_status'', PStr
       ''SCHEDULED''), (''action'', PStr ''BOOK_APPOINTMENT'')], ob_status = OS_PENDING,
       ob_available_at = 20, ob_claimed_by = None, ob_claim_token = None, ob_claim_expires_at =
       None, ob_attempt_count = 0, ob_last_error_code = None, ob_last_error_message = None,
       ob_created_at = 20, ob_dispatched_at = None\<rparr>, \<lparr>de_event_id = 2109,
       de_event_key = [char_of (2::nat), CHR ''a'', CHR ''p'', CHR ''p'', CHR ''o'', CHR ''i'',
       CHR ''n'', CHR ''t'', CHR ''m''], de_event_type = EV_APPOINTMENT_BOOKED,
       de_aggregate_type = AG_APPOINTMENT, de_aggregate_id = 102, de_aggregate_version = 1,
       de_operation_id = 2, de_trace_id = 502, de_run_id = None, de_thread_id = None,
       de_actor_type = ''RESIDENT'', de_actor_id = Suc 0, de_occurred_at = 20, de_payload =
       [(''ticket_id'', PStr (uuid_text 101)), (''worker_id'', PStr (uuid_text 4)),
       (''purpose'', PStr ''INITIAL_REPAIR''), (''starts_at'', PTime 30), (''ends_at'', PTime
       40)], ob_status = OS_PENDING, ob_available_at = 20, ob_claimed_by = None, ob_claim_token
       = None, ob_claim_expires_at = None, ob_attempt_count = 0, ob_last_error_code = None,
       ob_last_error_message = None, ob_created_at = 20, ob_dispatched_at = None\<rparr>,
       \<lparr>de_event_id = 3115, de_event_key = [char_of (3::nat), CHR ''t'', CHR ''i'', CHR
       ''c'', CHR ''k'', CHR ''e'', CHR ''t'', CHR ''.'', CHR ''s''], de_event_type =
       EV_TICKET_STATUS_CHANGED, de_aggregate_type = AG_TICKET, de_aggregate_id = 101,
       de_aggregate_version = 3, de_operation_id = 3, de_trace_id = 503, de_run_id = None,
       de_thread_id = None, de_actor_type = ''WORKER'', de_actor_id = 4, de_occurred_at = 31,
       de_payload = [(''from_status'', PStr ''SCHEDULED''), (''to_status'', PStr
       ''IN_PROGRESS''), (''action'', PStr ''START_WORK'')], ob_status = OS_PENDING,
       ob_available_at = 31, ob_claimed_by = None, ob_claim_token = None, ob_claim_expires_at =
       None, ob_attempt_count = 0, ob_last_error_code = None, ob_last_error_message = None,
       ob_created_at = 31, ob_dispatched_at = None\<rparr>]\<rparr>"

lemma start_runs:
  "dispatch (demo_env 3 31) (RecordWorkerEvent start_command) town_booked =
     (Inr \<lparr>or_ok = True, or_code = ''WORKER_EVENT_RECORDED'', or_resource_type = Some
       ''worker_event'', or_resource_id = Some 103, or_resource_version = Some 1, or_replayed =
       False, or_data = [(''ticket_status'', PStr ''IN_PROGRESS''), (''ticket_version'', PInt
       3), (''appointment_status'', PStr ''BOOKED''), (''appointment_version'', PInt
       1)]\<rparr>, town_started)"
  by (simp add: demo_eval town_def town_started_def town_booked_def transition_eval start_eval)

theorem stored_logs_sound_witness:
  "\<exists>e. events_of 102 town_started = [e] \<and> we_event_type e = WE_STARTED \<and> we_sequence_no e = 1 \<and>
     well_ordered_log [WE_STARTED] \<and>
     (\<exists>a \<in> set (db_appointments town_started). as_appointment_id a = 102)"
proof -
  have reach: "reachable 31 town_started"
    by (rule reachable_run [OF start_runs town_booked_reachable]) simp
  obtain e where e: "events_of 102 town_started = [e]" "we_event_type e = WE_STARTED"
    by (simp add: events_of_def town_started_def)
  with stored_logs_sound [OF reach, of 102] show ?thesis by auto
qed

end
