(* ===== verification/Slots.thy ===== *)
theory Slots
  imports Store
begin

text \<open>
  Candidate slots, after \<open>backend/app/application/slot_queries.py\<close>: validation of a query, the
  half-hour grid, the two nested loops over workers and start times, and the stable ordering of the
  result. Every result is checked against what a slot promises: on the grid, inside the window,
  covered by an availability, free of bookings, and no better slot left out.
\<close>

section \<open>Times and read models\<close>

text \<open>A Python \<open>datetime\<close>: its instant, and its offset from UTC unless it is naive. Times of day
  are those of the fixed offset.\<close>

record PyTime =
  pt_instant :: timestamp
  pt_offset :: "timestamp option"

record TimeWindow =
  tw_starts_at :: timestamp
  tw_ends_at :: timestamp
  tw_lower_inclusive :: bool

record SlotWorkerSource =
  sw_worker_id :: uuid
  sw_worker_name :: string
  sw_skill_type :: worker_skill_type
  sw_service_area :: string
  sw_open_ticket_count :: int
  sw_availability :: "TimeWindow list"
  sw_booked_intervals :: "TimeWindow list"

record AvailableSlot =
  sl_worker_id :: uuid
  sl_worker_name :: string
  sl_skill_type :: worker_skill_type
  sl_service_area :: string
  sl_service_area_matched :: bool
  sl_scheduled_start :: timestamp
  sl_scheduled_end :: timestamp
  sl_open_ticket_count :: int
  sl_rank :: int
  sl_slot_granularity_minutes :: int

definition SLOT_GRANULARITY_MINUTES :: int where "SLOT_GRANULARITY_MINUTES = 30"
definition MAX_SLOT_RESULTS :: int where "MAX_SLOT_RESULTS = 100"

text \<open>\<open>timedelta(minutes=n)\<close>, in microseconds.\<close>

definition minutes_delta :: "int \<Rightarrow> timestamp" where
  "minutes_delta n = n * 60000000"

section \<open>Validation and the grid\<close>

definition ensure_aware :: "PyTime \<Rightarrow> string \<Rightarrow> unit outcome" where
  "ensure_aware value field =
     (if pt_offset value = None
      then Inl (Exn ApplicationError ''timezone_required'' [(''field'', PStr field)])
      else Inr ())"

definition validate_slot_query :: "PyTime \<Rightarrow> PyTime \<Rightarrow> int \<Rightarrow> int \<Rightarrow> unit outcome" where
  "validate_slot_query start stop duration_minutes max_results =
     bindE (ensure_aware start ''search_window_start'')
     (\<lambda>_. bindE (ensure_aware stop ''search_window_end'')
     (\<lambda>_. if pt_instant stop \<le> pt_instant start
      then Inl (Exn ApplicationError ''invalid_search_window'' [])
      else if duration_minutes \<le> 0
      then Inl (Exn ApplicationError ''invalid_requested_duration'' [])
      else if \<not> (1 \<le> max_results \<and> max_results \<le> MAX_SLOT_RESULTS)
      then Inl (Exn ApplicationError ''invalid_max_results''
             [(''maximum'', PInt MAX_SLOT_RESULTS)])
      else Inr ()))"

text \<open>\<open>replace(second=0, microsecond=0)\<close> on the wall clock of the offset, then the step to the next
  half hour; the result keeps the offset.\<close>

definition ceil_to_slot_boundary :: "PyTime \<Rightarrow> PyTime outcome" where
  "ceil_to_slot_boundary value =
     bindE (ensure_aware value ''search_window_start'')
     (\<lambda>_. let off = (case pt_offset value of None \<Rightarrow> 0 | Some z \<Rightarrow> z);
              local = pt_instant value + off;
              base = local - local mod minutes_delta 1;
              remainder = (base div minutes_delta 1) mod 60 mod SLOT_GRANULARITY_MINUTES
          in if remainder = 0 \<and> local mod minutes_delta 1 = 0
             then Inr (value\<lparr>pt_instant := base - off\<rparr>)
             else let minutes = (if remainder \<noteq> 0 then SLOT_GRANULARITY_MINUTES - remainder
                                 else SLOT_GRANULARITY_MINUTES)
                  in Inr (value\<lparr>pt_instant := base + minutes_delta minutes - off\<rparr>))"

definition covered :: "timestamp \<Rightarrow> timestamp \<Rightarrow> TimeWindow \<Rightarrow> bool" where
  "covered candidate_start candidate_end window =
     (if candidate_start < tw_starts_at window \<or> tw_ends_at window < candidate_end then False
      else \<not> (candidate_start = tw_starts_at window \<and> \<not> tw_lower_inclusive window))"

definition overlaps :: "timestamp \<Rightarrow> timestamp \<Rightarrow> TimeWindow \<Rightarrow> bool" where
  "overlaps candidate_start candidate_end window \<longleftrightarrow>
     candidate_start < tw_ends_at window \<and> tw_starts_at window < candidate_end"

section \<open>Generation\<close>

definition slot_of :: "SlotWorkerSource \<Rightarrow> timestamp \<Rightarrow> timestamp \<Rightarrow> AvailableSlot" where
  "slot_of worker start stop =
     \<lparr>sl_worker_id = sw_worker_id worker, sl_worker_name = sw_worker_name worker,
      sl_skill_type = sw_skill_type worker, sl_service_area = sw_service_area worker,
      sl_service_area_matched = True, sl_scheduled_start = start, sl_scheduled_end = stop,
      sl_open_ticket_count = sw_open_ticket_count worker, sl_rank = 0,
      sl_slot_granularity_minutes = SLOT_GRANULARITY_MINUTES\<rparr>"

definition free_at :: "SlotWorkerSource \<Rightarrow> timestamp \<Rightarrow> timestamp \<Rightarrow> bool" where
  "free_at worker start stop \<longleftrightarrow>
     (\<exists>window \<in> set (sw_availability worker). covered start stop window) \<and>
     \<not> (\<exists>booking \<in> set (sw_booked_intervals worker). overlaps start stop booking)"

text \<open>The \<open>while\<close> loop over the start times of one worker, with \<open>seen\<close> and \<open>candidates\<close>.\<close>

type_synonym slot_state = "(uuid \<times> timestamp) list \<times> AvailableSlot list"

function worker_loop ::
  "SlotWorkerSource \<Rightarrow> timestamp \<Rightarrow> timestamp \<Rightarrow> timestamp \<Rightarrow> slot_state \<Rightarrow> slot_state" where
  "worker_loop worker duration search_end start (seen, candidates) =
     (if search_end < start + duration then (seen, candidates)
      else worker_loop worker duration search_end (start + minutes_delta SLOT_GRANULARITY_MINUTES)
        (if (sw_worker_id worker, start) \<notin> set seen \<and> free_at worker start (start + duration)
         then (seen @ [(sw_worker_id worker, start)],
               candidates @ [slot_of worker start (start + duration)])
         else (seen, candidates)))"
  by pat_completeness auto

termination
  by (relation "measure (\<lambda>(_, duration, search_end, start, _). nat (search_end + 1 - start - duration))")
    (auto simp: minutes_delta_def SLOT_GRANULARITY_MINUTES_def)

declare worker_loop.simps [simp del]

fun sources_loop ::
  "string \<Rightarrow> timestamp \<Rightarrow> timestamp \<Rightarrow> timestamp \<Rightarrow> SlotWorkerSource list \<Rightarrow> slot_state \<Rightarrow> slot_state"
where
  "sources_loop target duration search_end first_start [] state = state"
| "sources_loop target duration search_end first_start (worker # workers) state =
     sources_loop target duration search_end first_start workers
       (if normalize_service_area (sw_service_area worker) \<noteq> target then state
        else worker_loop worker duration search_end first_start state)"

definition slot_key :: "AvailableSlot \<Rightarrow> timestamp \<times> int \<times> uuid" where
  "slot_key item = (sl_scheduled_start item, sl_open_ticket_count item, sl_worker_id item)"

definition rank_slots :: "AvailableSlot list \<Rightarrow> AvailableSlot list" where
  "rank_slots ordered = map (\<lambda>(index, item). item\<lparr>sl_rank := int index\<rparr>) (enumerate 1 ordered)"

definition generate_available_slots ::
  "SlotWorkerSource list \<Rightarrow> string \<Rightarrow> PyTime \<Rightarrow> PyTime \<Rightarrow> int \<Rightarrow> int \<Rightarrow> AvailableSlot list outcome"
where
  "generate_available_slots sources target_service_area search_window_start search_window_end
     requested_duration_minutes max_results =
     bindE (validate_slot_query search_window_start search_window_end
              requested_duration_minutes max_results)
     (\<lambda>_. bindE (ceil_to_slot_boundary search_window_start)
     (\<lambda>first_start.
        let candidates = snd (sources_loop (normalize_service_area target_service_area)
              (minutes_delta requested_duration_minutes) (pt_instant search_window_end)
              (pt_instant first_start) sources ([], []))
        in Inr (rank_slots (take (nat max_results) (sort_key slot_key candidates)))))"

section \<open>The grid\<close>

abbreviation half_hour :: timestamp where "half_hour \<equiv> minutes_delta SLOT_GRANULARITY_MINUTES"

lemma half_hour_value [simp]: "half_hour = 1800000000"
  by (simp add: minutes_delta_def SLOT_GRANULARITY_MINUTES_def)

lemma next_half_hour:
  fixes local :: int
  defines "q \<equiv> local div 60000000"
  shows "q mod 30 = 0 \<Longrightarrow> local mod 60000000 = 0 \<Longrightarrow> local mod 1800000000 = 0"
    and "q mod 30 = 0 \<Longrightarrow> local mod 60000000 \<noteq> 0 \<Longrightarrow>
      let b = local - local mod 60000000 + 1800000000
      in b mod 1800000000 = 0 \<and> local \<le> b \<and> b < local + 1800000000"
    and "q mod 30 \<noteq> 0 \<Longrightarrow>
      let b = local - local mod 60000000 + (30 - q mod 30) * 60000000
      in b mod 1800000000 = 0 \<and> local \<le> b \<and> b < local + 1800000000"
proof -
  have split: "local = 60000000 * q + local mod 60000000" unfolding q_def by simp
  have base: "local - local mod 60000000 = 1800000000 * (q div 30) + 60000000 * (q mod 30)"
    using split mult_div_mod_eq [of 30 q] by linarith
  have r: "0 \<le> local mod 60000000" "local mod 60000000 < 60000000" by simp_all
  show "local mod 1800000000 = 0" if "q mod 30 = 0" "local mod 60000000 = 0"
    using base that by (metis add.right_neutral diff_zero mod_mult_self1_is_0 mult_zero_right)
  show "let b = local - local mod 60000000 + 1800000000
      in b mod 1800000000 = 0 \<and> local \<le> b \<and> b < local + 1800000000"
    if "q mod 30 = 0" "local mod 60000000 \<noteq> 0"
    using base that r by (simp add: Let_def) linarith
  have q: "0 < q mod 30" "q mod 30 < 30" if "q mod 30 \<noteq> 0"
    using that by (simp_all add: order.not_eq_order_implies_strict)
  show "let b = local - local mod 60000000 + (30 - q mod 30) * 60000000
      in b mod 1800000000 = 0 \<and> local \<le> b \<and> b < local + 1800000000" if "q mod 30 \<noteq> 0"
  proof -
    have b: "local - local mod 60000000 + (30 - q mod 30) * 60000000 = 1800000000 * (q div 30 + 1)"
      using base by (simp add: algebra_simps)
    have "local \<le> 1800000000 * (q div 30 + 1) \<and> 1800000000 * (q div 30 + 1) < local + 1800000000"
      using base r q [OF that] by (simp add: algebra_simps) linarith?
    then show ?thesis unfolding Let_def b by simp
  qed
qed

lemma ceil_least:
  assumes "pt_offset value = Some z"
  shows "\<exists>b. ceil_to_slot_boundary value = Inr b \<and> pt_offset b = Some z \<and>
    (pt_instant b + z) mod half_hour = 0 \<and>
    pt_instant value \<le> pt_instant b \<and> pt_instant b < pt_instant value + half_hour"
proof -
  let ?local = "pt_instant value + z"
  let ?q = "?local div 60000000" and ?base = "?local - ?local mod 60000000"
  have base: "?base div 60000000 = ?q" by (simp add: minus_mod_eq_mult_div)
  have rem: "?q mod 60 mod 30 = ?q mod 30" by (simp add: mod_mod_cancel)
  have ceil: "ceil_to_slot_boundary value = Inr (value\<lparr>pt_instant :=
      (if ?q mod 30 = 0 \<and> ?local mod 60000000 = 0 then ?base
       else ?base + (if ?q mod 30 \<noteq> 0 then 30 - ?q mod 30 else 30) * 60000000) - z\<rparr>)"
    using assms by (simp only: ceil_to_slot_boundary_def ensure_aware_def Let_def minutes_delta_def
        SLOT_GRANULARITY_MINUTES_def mult_1 option.simps base rem if_False bindE_simps)
      (simp split: if_split)
  define b where "b = (if ?q mod 30 = 0 \<and> ?local mod 60000000 = 0 then ?base
    else ?base + (if ?q mod 30 \<noteq> 0 then 30 - ?q mod 30 else 30) * 60000000)"
  have "b mod half_hour = 0 \<and> ?local \<le> b \<and> b < ?local + half_hour"
    unfolding half_hour_value b_def using next_half_hour [of ?local]
    by (cases "?q mod 30 = 0"; cases "?local mod 60000000 = 0") (simp_all add: Let_def)
  moreover have "ceil_to_slot_boundary value = Inr (value\<lparr>pt_instant := b - z\<rparr>)"
    by (simp only: ceil b_def)
  ultimately show ?thesis using assms by auto
qed

text \<open>\<open>ceil_to_slot_boundary\<close> returns the first half hour of the local clock that is not before
  its argument, whatever the offset; the result keeps the offset, and no time is moved by half an
  hour or more.\<close>

lemma ceil_to_slot_boundary_least:
  assumes "pt_offset value = Some z"
  shows "\<exists>b. ceil_to_slot_boundary value = Inr b \<and> pt_offset b = Some z \<and>
    (pt_instant b + z) mod half_hour = 0 \<and>
    pt_instant value \<le> pt_instant b \<and> pt_instant b < pt_instant value + half_hour"
  using assms by (rule ceil_least)


section \<open>The loops\<close>

lemma free_at_window:
  assumes "free_at w s e"
  shows "(\<exists>window \<in> set (sw_availability w). tw_starts_at window \<le> s \<and> e \<le> tw_ends_at window \<and>
       (tw_lower_inclusive window \<or> tw_starts_at window < s)) \<and>
    (\<forall>booking \<in> set (sw_booked_intervals w). e \<le> tw_starts_at booking \<or>
       tw_ends_at booking \<le> s)"
proof -
  from assms obtain window where "window \<in> set (sw_availability w)" "covered s e window"
    by (auto simp: free_at_def)
  moreover have "\<not> overlaps s e b" if "b \<in> set (sw_booked_intervals w)" for b
    using assms that by (auto simp: free_at_def)
  ultimately show ?thesis
    by (intro conjI bexI [of _ window] ballI)
      (auto simp: covered_def overlaps_def not_less split: if_splits)
qed


definition slot_identity :: "AvailableSlot \<Rightarrow> uuid \<times> timestamp" where
  "slot_identity c = (sl_worker_id c, sl_scheduled_start c)"

lemma slot_identity_of [simp]: "slot_identity (slot_of w start stop) = (sw_worker_id w, start)"
  by (simp add: slot_identity_def slot_of_def)

text \<open>The start times that the loop of a worker visits.\<close>

definition on_grid :: "timestamp \<Rightarrow> timestamp \<Rightarrow> timestamp \<Rightarrow> timestamp \<Rightarrow> bool" where
  "on_grid first duration search_end start \<longleftrightarrow>
     first \<le> start \<and> (start - first) mod half_hour = 0 \<and> start + duration \<le> search_end"

lemma on_grid_unfold:
  "on_grid first duration stop start \<longleftrightarrow>
     first + duration \<le> stop \<and> (start = first \<or> on_grid (first + half_hour) duration stop start)"
proof -
  have shift: "(start - (first + half_hour)) mod half_hour = (start - first) mod half_hour"
    by (metis diff_diff_eq minus_mod_self2)
  have gap: "first + half_hour \<le> start" if "first \<le> start" "start \<noteq> first"
    "(start - first) mod half_hour = 0"
    using that zdvd_imp_le [of half_hour "start - first"] by (simp add: mod_eq_0_iff_dvd)
  show ?thesis
    unfolding on_grid_def shift using gap half_hour_value by (cases "start = first") auto
qed

definition feasible :: "SlotWorkerSource \<Rightarrow> timestamp \<Rightarrow> timestamp \<Rightarrow> timestamp \<Rightarrow> timestamp \<Rightarrow> bool" where
  "feasible w first duration search_end start \<longleftrightarrow>
     on_grid first duration search_end start \<and> free_at w start (start + duration)"

lemma worker_loop_result:
  assumes "worker_loop w duration stop first (seen, cs) = (seen', cs')"
    and "seen = map slot_identity cs" and "distinct seen"
  shows "seen' = map slot_identity cs' \<and> distinct seen' \<and>
    set cs' = set cs \<union> {slot_of w start (start + duration) |start.
      feasible w first duration stop start \<and> (sw_worker_id w, start) \<notin> set seen}"
  using assms
proof (induction w duration stop first "(seen, cs)" arbitrary: seen cs rule: worker_loop.induct)
  case (1 w duration stop first seen cs)
  show ?case
  proof (cases "stop < first + duration")
    case True
    then have "\<not> on_grid first duration stop start" for start by (auto simp: on_grid_def)
    then show ?thesis using 1(2-) True by (auto simp: worker_loop.simps feasible_def)
  next
    case False
    let ?new = "(sw_worker_id w, first) \<notin> set seen \<and> free_at w first (first + duration)"
    let ?seen = "if ?new then seen @ [(sw_worker_id w, first)] else seen"
      and ?cs = "if ?new then cs @ [slot_of w first (first + duration)] else cs"
    have run: "worker_loop w duration stop (first + half_hour) (?seen, ?cs) = (seen', cs')"
      using 1(2) False worker_loop.simps [of w duration stop first seen cs]
      by (cases ?new) auto
    have pair: "(?seen, ?cs) = (if ?new then (seen @ [(sw_worker_id w, first)],
        cs @ [slot_of w first (first + duration)]) else (seen, cs))" by simp
    have later: "start \<noteq> first" if "on_grid (first + half_hour) duration stop start" for start
      using that by (auto simp: on_grid_def)
    from 1(1) [OF False pair [symmetric] run] 1(3,4)
    have "seen' = map slot_identity cs' \<and> distinct seen' \<and>
      set cs' = set ?cs \<union> {slot_of w start (start + duration) |start.
        feasible w (first + half_hour) duration stop start \<and> (sw_worker_id w, start) \<notin> set ?seen}"
      by auto
    moreover have "feasible w first duration stop start \<longleftrightarrow>
        (start = first \<and> free_at w first (first + duration)) \<or>
        feasible w (first + half_hour) duration stop start" for start
      using on_grid_unfold [of first duration stop start] False by (auto simp: feasible_def)
    ultimately show ?thesis using later by (auto simp: feasible_def split: if_splits)
  qed
qed

definition matches_area :: "string \<Rightarrow> SlotWorkerSource \<Rightarrow> bool" where
  "matches_area target w \<longleftrightarrow> normalize_service_area (sw_service_area w) = target"

lemma sources_loop_result:
  assumes "sources_loop target duration stop first ws (seen, cs) = (seen', cs')"
    and "seen = map slot_identity cs" and "distinct seen"
  shows "seen' = map slot_identity cs' \<and> distinct seen' \<and> set cs \<subseteq> set cs' \<and>
    (\<forall>c \<in> set cs'. c \<in> set cs \<or> (\<exists>w \<in> set ws. \<exists>start. matches_area target w \<and>
      feasible w first duration stop start \<and> c = slot_of w start (start + duration))) \<and>
    (\<forall>w \<in> set ws. \<forall>start. matches_area target w \<longrightarrow> feasible w first duration stop start \<longrightarrow>
      (sw_worker_id w, start) \<in> set seen')"
  using assms
proof (induction ws arbitrary: seen cs)
  case (Cons w ws)
  show ?case
  proof (cases "matches_area target w")
    case False
    then have "sources_loop target duration stop first ws (seen, cs) = (seen', cs')"
      using Cons.prems(1) by (simp add: matches_area_def)
    from Cons.IH [OF this Cons.prems(2,3)] show ?thesis
      using False by (metis list.set_intros(2) set_ConsD)
  next
    case True
    obtain seen1 cs1 where one: "worker_loop w duration stop first (seen, cs) = (seen1, cs1)"
      by (cases "worker_loop w duration stop first (seen, cs)")
    note r = worker_loop_result [OF one Cons.prems(2,3)]
    have run: "sources_loop target duration stop first ws (seen1, cs1) = (seen', cs')"
      using Cons.prems(1) True one by (simp add: matches_area_def)
    note seen1 = conjunct1 [OF r] conjunct1 [OF conjunct2 [OF r]]
    note rest = Cons.IH [OF run seen1]
    have "(sw_worker_id w, start) \<in> set seen'" if "feasible w first duration stop start" for start
    proof -
      have "(sw_worker_id w, start) \<in> set seen1"
      proof (cases "(sw_worker_id w, start) \<in> set seen")
        case True
        then show ?thesis using r Cons.prems(2) by auto
      next
        case False
        then have "slot_of w start (start + duration) \<in> set cs1" using r that by blast
        then show ?thesis unfolding seen1(1) by (force simp: image_iff)
      qed
      moreover have "set seen1 \<subseteq> set seen'" using rest seen1(1) by auto
      ultimately show ?thesis by blast
    qed
    note own = this
    have first_part: "\<forall>c \<in> set cs1. c \<in> set cs \<or> (\<exists>start. feasible w first duration stop start \<and>
        c = slot_of w start (start + duration))" "set cs \<subseteq> set cs1"
      using r by blast+
    show ?thesis
    proof (intro conjI)
      show "seen' = map slot_identity cs'" "distinct seen'" "set cs \<subseteq> set cs'"
        using rest first_part(2) by blast+
      show "\<forall>c \<in> set cs'. c \<in> set cs \<or> (\<exists>w \<in> set (w # ws). \<exists>start. matches_area target w \<and>
          feasible w first duration stop start \<and> c = slot_of w start (start + duration))"
        using conjunct1 [OF conjunct2 [OF conjunct2 [OF conjunct2 [OF rest]]]] first_part(1) True
        by (metis list.set_intros)
      show "\<forall>w \<in> set (w # ws). \<forall>start. matches_area target w \<longrightarrow>
          feasible w first duration stop start \<longrightarrow> (sw_worker_id w, start) \<in> set seen'"
        using rest own by (metis set_ConsD)
    qed
  qed
qed simp

lemma generate_slots_Inr:
  assumes "generate_available_slots ws area start stop minutes n = Inr slots"
  obtains first cs where "ceil_to_slot_boundary start = Inr first"
    and "validate_slot_query start stop minutes n = Inr ()"
    and "slots = rank_slots (take (nat n) (sort_key slot_key cs))"
    and "distinct (map slot_identity cs)"
    and "\<forall>c \<in> set cs. \<exists>w \<in> set ws. \<exists>s. matches_area (normalize_service_area area) w \<and>
      feasible w (pt_instant first) (minutes_delta minutes) (pt_instant stop) s \<and>
      c = slot_of w s (s + minutes_delta minutes)"
    and "\<forall>w \<in> set ws. \<forall>s. matches_area (normalize_service_area area) w \<longrightarrow>
      feasible w (pt_instant first) (minutes_delta minutes) (pt_instant stop) s \<longrightarrow>
      (sw_worker_id w, s) \<in> slot_identity ` set cs"
proof -
  from assms obtain first where first: "ceil_to_slot_boundary start = Inr first"
    and v: "validate_slot_query start stop minutes n = Inr ()"
    and slots: "slots = rank_slots (take (nat n) (sort_key slot_key
      (snd (sources_loop (normalize_service_area area) (minutes_delta minutes) (pt_instant stop)
        (pt_instant first) ws ([], [])))))"
    by (auto simp: generate_available_slots_def inversion_simps Let_def)
  obtain seen cs where run: "sources_loop (normalize_service_area area) (minutes_delta minutes)
      (pt_instant stop) (pt_instant first) ws ([], []) = (seen, cs)" by fastforce
  note result = sources_loop_result [OF run]
  have r: "seen = map slot_identity cs" "distinct seen"
    "\<forall>c \<in> set cs. \<exists>w \<in> set ws. \<exists>s. matches_area (normalize_service_area area) w \<and>
      feasible w (pt_instant first) (minutes_delta minutes) (pt_instant stop) s \<and>
      c = slot_of w s (s + minutes_delta minutes)"
    "\<forall>w \<in> set ws. \<forall>s. matches_area (normalize_service_area area) w \<longrightarrow>
      feasible w (pt_instant first) (minutes_delta minutes) (pt_instant stop) s \<longrightarrow>
      (sw_worker_id w, s) \<in> set seen"
    using conjunct1 [OF result] conjunct2 [OF result] by simp_all
  have "set seen = slot_identity ` set cs" using r(1) by simp
  with first v slots run r show thesis by (intro that [of first cs]) simp_all
qed

lemma rank_slots_nth:
  "length (rank_slots xs) = length xs"
  "i < length xs \<Longrightarrow> rank_slots xs ! i = (xs ! i)\<lparr>sl_rank := int i + 1\<rparr>"
  by (simp_all add: rank_slots_def nth_enumerate_eq)

text \<open>A query on a day of one worker: free from 00:00 (excluded) to 03:00 with a visit from 01:00 to
  01:30, and asked from one microsecond past midnight.\<close>

definition day_worker :: SlotWorkerSource where
  "day_worker = \<lparr>sw_worker_id = 5, sw_worker_name = ''Li'', sw_skill_type = SK_PLUMBING,
    sw_service_area = '' North  Gate'', sw_open_ticket_count = 2,
    sw_availability = [\<lparr>tw_starts_at = 0, tw_ends_at = 10800000000, tw_lower_inclusive = False\<rparr>],
    sw_booked_intervals =
      [\<lparr>tw_starts_at = 3600000000, tw_ends_at = 5400000000, tw_lower_inclusive = True\<rparr>]\<rparr>"

definition day_start :: PyTime where "day_start = \<lparr>pt_instant = 1, pt_offset = Some 0\<rparr>"
definition day_end :: PyTime where "day_end = \<lparr>pt_instant = 10800000000, pt_offset = Some 0\<rparr>"

lemma day_eval:
  "generate_available_slots [day_worker] ''north gate'' day_start day_end 60 1 =
     Inr [(slot_of day_worker 5400000000 9000000000)\<lparr>sl_rank := 1\<rparr>]"
  "generate_available_slots [day_worker] ''north gate'' day_start day_end 60 2 =
     Inr [(slot_of day_worker 5400000000 9000000000)\<lparr>sl_rank := 1\<rparr>,
          (slot_of day_worker 7200000000 10800000000)\<lparr>sl_rank := 2\<rparr>]"
  by code_simp+

lemma validated_bounds:
  assumes "validate_slot_query start stop minutes n = Inr ()"
  shows "1 \<le> n" "n \<le> 100" "0 < minutes" "pt_instant start < pt_instant stop"
  using assms by (auto simp: validate_slot_query_def ensure_aware_def MAX_SLOT_RESULTS_def
      inversion_simps not_le split: if_splits)

lemma offered_slot_sound:
  assumes "generate_available_slots ws area start stop minutes n = Inr slots"
    and "slot \<in> set slots"
  shows "\<exists>w \<in> set ws. sl_worker_id slot = sw_worker_id w \<and>
    normalize_service_area (sw_service_area w) = normalize_service_area area \<and>
    pt_instant start \<le> sl_scheduled_start slot \<and>
    sl_scheduled_end slot = sl_scheduled_start slot + minutes_delta minutes \<and>
    sl_scheduled_end slot \<le> pt_instant stop \<and> sl_scheduled_start slot < sl_scheduled_end slot \<and>
    (\<exists>z. pt_offset start = Some z \<and> (sl_scheduled_start slot + z) mod half_hour = 0) \<and>
    (\<exists>window \<in> set (sw_availability w). tw_starts_at window \<le> sl_scheduled_start slot \<and>
       sl_scheduled_end slot \<le> tw_ends_at window \<and>
       (tw_lower_inclusive window \<or> tw_starts_at window < sl_scheduled_start slot)) \<and>
    (\<forall>booking \<in> set (sw_booked_intervals w). sl_scheduled_end slot \<le> tw_starts_at booking \<or>
       tw_ends_at booking \<le> sl_scheduled_start slot)"
proof -
  from assms(1) obtain first cs where first: "ceil_to_slot_boundary start = Inr first"
    and v: "validate_slot_query start stop minutes n = Inr ()"
    and slots: "slots = rank_slots (take (nat n) (sort_key slot_key cs))"
    and cs: "\<forall>c \<in> set cs. \<exists>w \<in> set ws. \<exists>s. matches_area (normalize_service_area area) w \<and>
      feasible w (pt_instant first) (minutes_delta minutes) (pt_instant stop) s \<and>
      c = slot_of w s (s + minutes_delta minutes)"
    by (rule generate_slots_Inr)
  from assms(2) slots obtain i where i: "i < length (take (nat n) (sort_key slot_key cs))"
    "slot = (take (nat n) (sort_key slot_key cs) ! i)\<lparr>sl_rank := int i + 1\<rparr>"
    by (metis in_set_conv_nth rank_slots_nth)
  then have "take (nat n) (sort_key slot_key cs) ! i \<in> set cs"
    by (metis nth_mem in_set_takeD set_sort)
  with cs obtain w s where w: "w \<in> set ws" "matches_area (normalize_service_area area) w"
    and f: "feasible w (pt_instant first) (minutes_delta minutes) (pt_instant stop) s"
    and slot: "slot = (slot_of w s (s + minutes_delta minutes))\<lparr>sl_rank := int i + 1\<rparr>"
    using i(2) by metis
  from v obtain z where z: "pt_offset start = Some z"
    by (auto simp: validate_slot_query_def ensure_aware_def inversion_simps split: if_splits)
  from ceil_least [OF z] first have b: "(pt_instant first + z) mod half_hour = 0"
    "pt_instant start \<le> pt_instant first" by auto
  have grid: "pt_instant first \<le> s" "(s - pt_instant first) mod half_hour = 0"
    "s + minutes_delta minutes \<le> pt_instant stop"
    "free_at w s (s + minutes_delta minutes)"
    using f by (simp_all add: feasible_def on_grid_def)
  have "(s + z) mod half_hour = 0"
    using b(1) grid(2) mod_add_eq [of "s - pt_instant first" half_hour "pt_instant first + z"]
    by (simp only: diff_add_cancel add.assoc [symmetric] add_0 mod_0)
  moreover have "(\<exists>window \<in> set (sw_availability w). tw_starts_at window \<le> s \<and>
       s + minutes_delta minutes \<le> tw_ends_at window \<and>
       (tw_lower_inclusive window \<or> tw_starts_at window < s)) \<and>
    (\<forall>booking \<in> set (sw_booked_intervals w). s + minutes_delta minutes \<le> tw_starts_at booking \<or>
       tw_ends_at booking \<le> s)"
    using grid(4) by (rule free_at_window)
  moreover have "sl_worker_id slot = sw_worker_id w" "sl_scheduled_start slot = s"
    "sl_scheduled_end slot = s + minutes_delta minutes"
    by (simp_all add: slot slot_of_def)
  moreover have "normalize_service_area (sw_service_area w) = normalize_service_area area"
    using w(2) by (simp add: matches_area_def)
  moreover have "s < s + minutes_delta minutes"
    using validated_bounds(3) [OF v] by (simp add: minutes_delta_def)
  moreover have "pt_instant start \<le> s" using b(2) grid(1) by simp
  ultimately show ?thesis
    using w(1) z grid(3) by (intro bexI [of _ w]) simp_all
qed

text \<open>Every offered slot is sound. It belongs to a worker of the target area, starts on the half
  hour grid inside the search window, has exactly the requested length, lies in one availability of
  that worker (also at its excluded lower bound) and touches none of the worker's bookings.\<close>

lemma offered_slots_sound:
  assumes "generate_available_slots ws area start stop minutes n = Inr slots"
    and "slot \<in> set slots"
  shows "\<exists>w \<in> set ws. sl_worker_id slot = sw_worker_id w \<and>
    normalize_service_area (sw_service_area w) = normalize_service_area area \<and>
    pt_instant start \<le> sl_scheduled_start slot \<and>
    sl_scheduled_end slot = sl_scheduled_start slot + minutes_delta minutes \<and>
    sl_scheduled_end slot \<le> pt_instant stop \<and> sl_scheduled_start slot < sl_scheduled_end slot \<and>
    (\<exists>z. pt_offset start = Some z \<and> (sl_scheduled_start slot + z) mod half_hour = 0) \<and>
    (\<exists>window \<in> set (sw_availability w). tw_starts_at window \<le> sl_scheduled_start slot \<and>
       sl_scheduled_end slot \<le> tw_ends_at window \<and>
       (tw_lower_inclusive window \<or> tw_starts_at window < sl_scheduled_start slot)) \<and>
    (\<forall>booking \<in> set (sw_booked_intervals w). sl_scheduled_end slot \<le> tw_starts_at booking \<or>
       tw_ends_at booking \<le> sl_scheduled_start slot)"
  using assms by (rule offered_slot_sound)


lemma rank_slots_map [simp]:
  "map slot_identity (rank_slots xs) = map slot_identity xs"
  "map slot_key (rank_slots xs) = map slot_key xs"
  "map sl_rank (rank_slots xs) = map int [1..<Suc (length xs)]"
  by (intro nth_equalityI;
      simp add: rank_slots_nth slot_identity_def slot_key_def add.commute del: upt_Suc)+

text \<open>The answer is bounded and ordered. It holds at most \<open>max_results\<close> slots, never more than a
  hundred, ranked 1, 2, 3, \<open>\<dots>\<close>, in order of start time, then load of the worker, then worker; and
  no worker is offered twice at one time.\<close>

lemma offered_slots_ordered:
  assumes "generate_available_slots ws area start stop minutes n = Inr slots"
  shows "int (length slots) \<le> n \<and> length slots \<le> 100 \<and>
    map sl_rank slots = map int [1..<Suc (length slots)] \<and>
    sorted (map slot_key slots) \<and> distinct (map slot_identity slots)"
proof -
  from assms obtain cs where v: "validate_slot_query start stop minutes n = Inr ()"
    and slots: "slots = rank_slots (take (nat n) (sort_key slot_key cs))"
    and d: "distinct (map slot_identity cs)"
    by (rule generate_slots_Inr)
  have "distinct (map slot_identity (sort_key slot_key cs))"
    using d by (simp add: distinct_map)
  then have "distinct (take (nat n) (map slot_identity (sort_key slot_key cs)))"
    by (rule distinct_take)
  moreover have "sorted (take (nat n) (map slot_key (sort_key slot_key cs)))"
    by (intro sorted_wrt_take sorted_sort_key)
  moreover have "length slots \<le> nat n" by (simp add: slots rank_slots_nth(1))
  ultimately show ?thesis
    using validated_bounds [OF v]
    by (auto simp: slots take_map rank_slots_nth(1) min_def simp del: upt_Suc)
qed

text \<open>Nothing better is left out. Where the sources name each worker once, a start time on the
  grid at which a worker of the area is free is offered, unless the answer is already full of slots
  that come before it.\<close>

lemma offered_slots_best:
  assumes "generate_available_slots ws area start stop minutes n = Inr slots"
    and "distinct (map sw_worker_id ws)" and "w \<in> set ws"
    and "normalize_service_area (sw_service_area w) = normalize_service_area area"
    and "pt_offset start = Some z" and "pt_instant start \<le> s" and "(s + z) mod half_hour = 0"
    and "s + minutes_delta minutes \<le> pt_instant stop"
    and "free_at w s (s + minutes_delta minutes)"
  shows "(\<exists>slot \<in> set slots. sl_worker_id slot = sw_worker_id w \<and> sl_scheduled_start slot = s) \<or>
    int (length slots) = n \<and>
    (\<forall>slot \<in> set slots. slot_key slot \<le> (s, sw_open_ticket_count w, sw_worker_id w))"
proof -
  from assms(1) obtain first cs where first: "ceil_to_slot_boundary start = Inr first"
    and v: "validate_slot_query start stop minutes n = Inr ()"
    and slots: "slots = rank_slots (take (nat n) (sort_key slot_key cs))"
    and sound: "\<forall>c \<in> set cs. \<exists>w \<in> set ws. \<exists>s. matches_area (normalize_service_area area) w \<and>
      feasible w (pt_instant first) (minutes_delta minutes) (pt_instant stop) s \<and>
      c = slot_of w s (s + minutes_delta minutes)"
    and complete: "\<forall>w \<in> set ws. \<forall>s. matches_area (normalize_service_area area) w \<longrightarrow>
      feasible w (pt_instant first) (minutes_delta minutes) (pt_instant stop) s \<longrightarrow>
      (sw_worker_id w, s) \<in> slot_identity ` set cs"
    by (rule generate_slots_Inr)
  from ceil_least [OF assms(5)] first have b: "(pt_instant first + z) mod half_hour = 0"
    "pt_instant first < pt_instant start + half_hour" by auto
  have grid: "(s - pt_instant first) mod half_hour = 0"
    using b(1) assms(7) mod_diff_eq [of "s + z" half_hour "pt_instant first + z"] by simp
  have "pt_instant first \<le> s"
  proof (rule ccontr)
    assume "\<not> pt_instant first \<le> s"
    then have "half_hour \<le> pt_instant first - s"
      using grid zdvd_imp_le [of half_hour "pt_instant first - s"]
      by (simp add: mod_eq_0_iff_dvd dvd_diff_commute)
    then show False using b(2) assms(6) by simp
  qed
  then have "feasible w (pt_instant first) (minutes_delta minutes) (pt_instant stop) s"
    using grid assms(8,9) by (simp add: feasible_def on_grid_def)
  then obtain c where c: "c \<in> set cs" "slot_identity c = (sw_worker_id w, s)"
    using complete assms(3,4) by (fastforce simp: matches_area_def)
  have key: "slot_key c = (s, sw_open_ticket_count w, sw_worker_id w)"
  proof -
    from sound c(1) obtain w' s' where "w' \<in> set ws" "c = slot_of w' s' (s' + minutes_delta minutes)"
      by blast
    moreover have "w' = w"
      using c(2) calculation assms(2,3) by (auto simp: distinct_map inj_on_def)
    ultimately show ?thesis
      using c(2) by (simp only: slot_identity_of) (simp add: slot_key_def slot_of_def)
  qed
  let ?xs = "sort_key slot_key cs" and ?n = "nat n"
  show ?thesis
  proof (cases "c \<in> set (take ?n ?xs)")
    case True
    then have "slot_identity c \<in> set (map slot_identity slots)" unfolding slots by simp
    then show ?thesis using c(2) by (auto simp: slot_identity_def)
  next
    case False
    have "c \<in> set (take ?n ?xs @ drop ?n ?xs)"
      using c(1) by (simp only: append_take_drop_id set_sort)
    then have later: "c \<in> set (drop ?n ?xs)" using False unfolding set_append by blast
    then have full: "?n < length ?xs" by (metis drop_eq_Nil empty_iff list.set(1) not_le)
    have "sorted (map slot_key (take ?n ?xs @ drop ?n ?xs))" by simp
    then have "\<forall>x \<in> set (map slot_key (take ?n ?xs)). x \<le> slot_key c"
      using later unfolding map_append sorted_append by auto
    then have "\<forall>x \<in> set (map slot_key slots). x \<le> slot_key c" unfolding slots by simp
    moreover have "int (length slots) = n"
      using full validated_bounds(1) [OF v] by (simp add: slots rank_slots_nth(1))
    ultimately show ?thesis by (auto simp: key)
  qed
qed


end
