(* ===== verification/Queries.thy ===== *)
theory Queries
  imports Slots Demo
begin

text \<open>
  The read side, after \<open>backend/app/application/query_service.py\<close> with its read models
  (\<open>query_models.py\<close>) and the selections of
  \<open>infrastructure/database/repositories/query.py\<close>. A query is an action on a session that is
  never committed. The lists of tickets and the ticket detail, which join columns that no
  use case writes, are not modelled.
\<close>

section \<open>Queries and read models\<close>

record QueryActor =
  qa_actor_type :: actor_type
  qa_actor_id :: uuid

record GetResidentPropertyQuery =
  gp_actor :: QueryActor
  gp_resident_id :: uuid
  gp_property_id :: uuid

record FindOpenRepairTicketsQuery =
  fo_actor :: QueryActor
  fo_resident_id :: uuid
  fo_property_id :: uuid
  fo_issue_category :: issue_category
  fo_normalized_issue_location :: string

record GetTicketSnapshotQuery =
  gs_actor :: QueryActor
  gs_ticket_id :: uuid

record ListAvailableSlotsQuery =
  la_actor :: QueryActor
  la_property_id :: uuid
  la_issue_category :: issue_category
  la_search_window_start :: PyTime
  la_search_window_end :: PyTime
  la_requested_duration_minutes :: int
  la_max_results :: int
  la_excluded_appointment_id :: "uuid option"

record ResidentPropertyView =
  rv_resident_id :: uuid
  rv_property_id :: uuid
  rv_community_name :: string
  rv_building_no :: string
  rv_unit_no :: string
  rv_room_no :: string
  rv_address_text :: string

record OpenRepairTicketView =
  ov_ticket_id :: uuid
  ov_ticket_version :: int
  ov_resident_id :: uuid
  ov_property_id :: uuid
  ov_issue_category :: issue_category
  ov_issue_location :: string
  ov_severity :: severity
  ov_ticket_status :: ticket_status
  ov_rework_count :: int

record AppointmentView =
  av_appointment_id :: uuid
  av_appointment_worker_id :: uuid
  av_purpose :: appointment_purpose
  av_status :: appointment_status
  av_scheduled_start :: timestamp
  av_scheduled_end :: timestamp
  av_appointment_version :: int

record WorkerEventView =
  wv_event_id :: uuid
  wv_event_type :: worker_event_type
  wv_sequence_no :: int
  wv_subject_worker_id :: uuid

record TicketView =
  tv_ticket_id :: uuid
  tv_ticket_version :: int
  tv_resident_id :: uuid
  tv_property_id :: uuid
  tv_issue_category :: issue_category
  tv_issue_location :: string
  tv_severity :: severity
  tv_ticket_status :: ticket_status
  tv_rework_count :: int
  tv_escalated_from_status :: "ticket_status option"
  tv_active_appointment :: "AppointmentView option"
  tv_latest_worker_event :: "WorkerEventView option"

section \<open>Selections\<close>

definition property_view :: "uuid \<Rightarrow> PropertyRow \<Rightarrow> ResidentPropertyView" where
  "property_view resident_id row =
     \<lparr>rv_resident_id = resident_id, rv_property_id = pr_id row,
      rv_community_name = pr_community_name row, rv_building_no = pr_building_no row,
      rv_unit_no = pr_unit_no row, rv_room_no = pr_room_no row,
      rv_address_text = pr_address_text row\<rparr>"

text \<open>The join of active properties with the active relations of a resident.\<close>

definition linked_properties :: "uuid \<Rightarrow> db \<Rightarrow> PropertyRow list" where
  "linked_properties resident_id d =
     [p. p \<leftarrow> db_properties d, r \<leftarrow> db_relations d,
         rl_property_id r = pr_id p \<and> pr_is_active p \<and>
         rl_resident_id r = resident_id \<and> rl_is_active r]"

text \<open>\<open>scalar_one_or_none\<close>: a second row is an error that nothing translates.\<close>

definition get_property :: "uuid \<Rightarrow> uuid \<Rightarrow> ResidentPropertyView option action" where
  "get_property resident_id property_id =
     bindA (queryA (\<lambda>d. filter (\<lambda>p. pr_id p = property_id) (linked_properties resident_id d)))
       (\<lambda>rows. case rows of
            [] \<Rightarrow> returnA None
          | row # others \<Rightarrow>
              if others = [] then returnA (Some (property_view resident_id row))
              else raiseA (Exn DataError ''multiple_results_found'' []))"

definition get_property_service_area :: "uuid \<Rightarrow> string option action" where
  "get_property_service_area property_id = queryA (\<lambda>d. map_option pr_community_name
     (find (\<lambda>p. pr_id p = property_id \<and> pr_is_active p) (db_properties d)))"

text \<open>Text columns are ordered by code point.\<close>

definition list_resident_properties_rows :: "uuid \<Rightarrow> ResidentPropertyView list action" where
  "list_resident_properties_rows resident_id = queryA (\<lambda>d. map (property_view resident_id)
     (sort_key (\<lambda>p. (pr_community_name p, pr_building_no p, pr_room_no p))
        (linked_properties resident_id d)))"

text \<open>\<open>range && [s, e)\<close>; an empty range overlaps nothing.\<close>

definition range_overlaps :: "TstzRange \<Rightarrow> timestamp \<Rightarrow> timestamp \<Rightarrow> bool" where
  "range_overlaps r s e \<longleftrightarrow> s < e \<and>
     (case rg_lower r of None \<Rightarrow> True | Some l \<Rightarrow> l < e) \<and>
     (case rg_upper r of None \<Rightarrow> True | Some u \<Rightarrow> s < u \<or> (s = u \<and> rg_upper_inc r))"

definition skilled_workers :: "worker_skill_type \<Rightarrow> db \<Rightarrow> WorkerRow list" where
  "skilled_workers skill d = sort_key wk_id
     [w. w \<leftarrow> db_workers d, k \<leftarrow> db_skills d,
         fst k = wk_id w \<and> wk_is_active w \<and> snd k = skill]"

text \<open>The three dictionaries of the method, as functions of a worker: availability and bookings
  that meet the search window, and the number of distinct open tickets.\<close>

definition availability_windows :: "db \<Rightarrow> timestamp \<Rightarrow> timestamp \<Rightarrow> uuid \<Rightarrow> TimeWindow list" where
  "availability_windows d s e worker_id = concat (map (\<lambda>a.
       case (rg_lower (av_range a), rg_upper (av_range a)) of
         (Some l, Some u) \<Rightarrow> [\<lparr>tw_starts_at = l, tw_ends_at = u,
                              tw_lower_inclusive = rg_lower_inc (av_range a)\<rparr>]
       | _ \<Rightarrow> [])
     (filter (\<lambda>a. av_worker_id a = worker_id \<and> range_overlaps (av_range a) s e)
        (db_availability d)))"

definition booked_windows ::
  "db \<Rightarrow> timestamp \<Rightarrow> timestamp \<Rightarrow> uuid option \<Rightarrow> uuid \<Rightarrow> TimeWindow list" where
  "booked_windows d s e excluded worker_id = map (\<lambda>a.
       \<lparr>tw_starts_at = as_starts_at a, tw_ends_at = as_ends_at a, tw_lower_inclusive = True\<rparr>)
     (filter (\<lambda>a. as_worker_id a = worker_id \<and> as_status a = AS_BOOKED \<and>
          as_starts_at a < as_ends_at a \<and> s < e \<and> as_starts_at a < e \<and> s < as_ends_at a \<and>
          (case excluded of None \<Rightarrow> True | Some x \<Rightarrow> as_appointment_id a \<noteq> x))
        (db_appointments d))"

definition open_ticket_count :: "db \<Rightarrow> uuid \<Rightarrow> int" where
  "open_ticket_count d worker_id = int (length (remdups
     [as_ticket_id a. a \<leftarrow> db_appointments d, t \<leftarrow> db_tickets d,
        ts_ticket_id t = as_ticket_id a \<and> as_worker_id a = worker_id \<and>
        as_status a = AS_BOOKED \<and> ts_status t \<notin> {TS_CANCELLED, TS_CLOSED}]))"

definition slot_worker_source ::
  "worker_skill_type \<Rightarrow> timestamp \<Rightarrow> timestamp \<Rightarrow> uuid option \<Rightarrow> db \<Rightarrow> WorkerRow \<Rightarrow> SlotWorkerSource"
where
  "slot_worker_source skill s e excluded d w =
     \<lparr>sw_worker_id = wk_id w, sw_worker_name = wk_name w, sw_skill_type = skill,
      sw_service_area = wk_service_area w, sw_open_ticket_count = open_ticket_count d (wk_id w),
      sw_availability = availability_windows d s e (wk_id w),
      sw_booked_intervals = booked_windows d s e excluded (wk_id w)\<rparr>"

text \<open>The range literals are bound after the workers were read, so an inverted window is an error
  only when there is a worker.\<close>

definition list_slot_worker_sources ::
  "worker_skill_type \<Rightarrow> timestamp \<Rightarrow> timestamp \<Rightarrow> uuid option \<Rightarrow> SlotWorkerSource list action"
where
  "list_slot_worker_sources skill s e excluded =
     bindA (queryA (skilled_workers skill))
     (\<lambda>workers. if workers = [] then returnA []
        else bindA (raise_ifA (e < s) (Exn DataError ''invalid_range'' []))
          (\<lambda>_. queryA (\<lambda>d. map (slot_worker_source skill s e excluded d) workers)))"

section \<open>Query service\<close>

definition authorize_property :: "QueryActor \<Rightarrow> uuid \<Rightarrow> uuid \<Rightarrow> unit action" where
  "authorize_property actor resident_id property_id =
     (if qa_actor_type actor = ACT_RESIDENT
      then bindA (queryA (resident_has_property (qa_actor_id actor) property_id))
        (\<lambda>has_property. if qa_actor_id actor \<noteq> resident_id \<or> \<not> has_property
           then raiseA (Exn AuthorizationFailed ''resident_not_authorized'' [])
           else returnA ())
      else bindA (queryA (actor_is_operator (qa_actor_id actor)))
        (\<lambda>operator. if qa_actor_type actor = ACT_OPERATOR \<and> operator then returnA ()
           else raiseA (Exn AuthorizationFailed ''actor_not_authorized'' [])))"

definition get_resident_property :: "GetResidentPropertyQuery \<Rightarrow> ResidentPropertyView action" where
  "get_resident_property query =
     bindA (authorize_property (gp_actor query) (gp_resident_id query) (gp_property_id query))
     (\<lambda>_. bindA (get_property (gp_resident_id query) (gp_property_id query))
     (\<lambda>result. case result of
          None \<Rightarrow> raiseA (Exn ResourceNotFound ''property_relation_not_found'' [])
        | Some found \<Rightarrow> returnA found))"

definition open_ticket_view :: "TicketSnapshot \<Rightarrow> OpenRepairTicketView" where
  "open_ticket_view ticket =
     \<lparr>ov_ticket_id = ts_ticket_id ticket, ov_ticket_version = ts_version ticket,
      ov_resident_id = ts_resident_id ticket, ov_property_id = ts_property_id ticket,
      ov_issue_category = ts_issue_category ticket, ov_issue_location = ts_issue_location ticket,
      ov_severity = ts_severity ticket, ov_ticket_status = ts_status ticket,
      ov_rework_count = ts_rework_count ticket\<rparr>"

definition find_open_repair_tickets ::
  "FindOpenRepairTicketsQuery \<Rightarrow> OpenRepairTicketView list action" where
  "find_open_repair_tickets query =
     bindA (authorize_property (fo_actor query) (fo_resident_id query) (fo_property_id query))
     (\<lambda>_. bindA (queryA (find_exact_open_matches (fo_resident_id query) (fo_property_id query)
                   (fo_issue_category query) (fo_normalized_issue_location query)))
     (\<lambda>tickets. returnA (map open_ticket_view tickets)))"

definition appointment_view :: "AppointmentSnapshot \<Rightarrow> AppointmentView" where
  "appointment_view active =
     \<lparr>av_appointment_id = as_appointment_id active,
      av_appointment_worker_id = as_worker_id active, av_purpose = as_purpose active,
      av_status = as_status active, av_scheduled_start = as_starts_at active,
      av_scheduled_end = as_ends_at active, av_appointment_version = as_version active\<rparr>"

definition worker_event_view :: "WorkerEventSnapshot \<Rightarrow> WorkerEventView" where
  "worker_event_view event =
     \<lparr>wv_event_id = we_event_id event, wv_event_type = we_event_type event,
      wv_sequence_no = we_sequence_no event,
      wv_subject_worker_id = we_subject_worker_id event\<rparr>"

definition ticket_view ::
  "TicketSnapshot \<Rightarrow> AppointmentSnapshot option \<Rightarrow> WorkerEventSnapshot list \<Rightarrow> TicketView" where
  "ticket_view ticket active events =
     \<lparr>tv_ticket_id = ts_ticket_id ticket, tv_ticket_version = ts_version ticket,
      tv_resident_id = ts_resident_id ticket, tv_property_id = ts_property_id ticket,
      tv_issue_category = ts_issue_category ticket, tv_issue_location = ts_issue_location ticket,
      tv_severity = ts_severity ticket, tv_ticket_status = ts_status ticket,
      tv_rework_count = ts_rework_count ticket,
      tv_escalated_from_status = ts_escalated_from ticket,
      tv_active_appointment = map_option appointment_view active,
      tv_latest_worker_event = map_option worker_event_view (last_opt events)\<rparr>"

definition get_ticket_snapshot :: "GetTicketSnapshotQuery \<Rightarrow> TicketView action" where
  "get_ticket_snapshot query =
     bindA (tickets_get (gs_ticket_id query))
     (\<lambda>found. case found of
          None \<Rightarrow> raiseA (Exn ResourceNotFound ''ticket_not_found'' [])
        | Some ticket \<Rightarrow>
            bindA (authorize_property (gs_actor query) (ts_resident_id ticket) (ts_property_id ticket))
            (\<lambda>_. bindA (active_for_ticket (ts_ticket_id ticket))
            (\<lambda>active. bindA (case active of Some a \<Rightarrow> returnA (Some a)
                             | None \<Rightarrow> latest_for_ticket (ts_ticket_id ticket))
            (\<lambda>latest. bindA (case latest of None \<Rightarrow> returnA []
                             | Some a \<Rightarrow> list_for_appointment (as_appointment_id a))
            (\<lambda>events. returnA (ticket_view ticket active events))))))"

definition authorize_slot_query :: "QueryActor \<Rightarrow> uuid \<Rightarrow> unit action" where
  "authorize_slot_query actor property_id =
     (if qa_actor_type actor = ACT_RESIDENT
      then bindA (queryA (resident_has_property (qa_actor_id actor) property_id))
        (\<lambda>has_property. if has_property then returnA ()
           else raiseA (Exn AuthorizationFailed ''resident_not_authorized'' []))
      else if qa_actor_type actor = ACT_OPERATOR
      then bindA (queryA (actor_is_operator (qa_actor_id actor)))
        (\<lambda>operator. if operator then returnA ()
           else raiseA (Exn AuthorizationFailed ''operator_not_authorized'' []))
      else raiseA (Exn AuthorizationFailed ''actor_not_authorized'' []))"

definition list_available_slots :: "ListAvailableSlotsQuery \<Rightarrow> AvailableSlot list action" where
  "list_available_slots query =
     bindA (liftA (validate_slot_query (la_search_window_start query)
              (la_search_window_end query) (la_requested_duration_minutes query)
              (la_max_results query)))
     (\<lambda>_. bindA (authorize_slot_query (la_actor query) (la_property_id query))
     (\<lambda>_. bindA (get_property_service_area (la_property_id query))
     (\<lambda>area. case area of
          None \<Rightarrow> raiseA (Exn ResourceNotFound ''property_not_found'' [])
        | Some service_area \<Rightarrow>
            bindA (list_slot_worker_sources
                     (issue_category_required_skill (la_issue_category query))
                     (pt_instant (la_search_window_start query))
                     (pt_instant (la_search_window_end query))
                     (la_excluded_appointment_id query))
            (\<lambda>sources. liftA (generate_available_slots sources service_area
                (la_search_window_start query) (la_search_window_end query)
                (la_requested_duration_minutes query) (la_max_results query))))))"

definition list_resident_properties :: "QueryActor \<Rightarrow> ResidentPropertyView list action" where
  "list_resident_properties actor =
     (if qa_actor_type actor \<noteq> ACT_RESIDENT
      then raiseA (Exn AuthorizationFailed ''resident_required'' [])
      else list_resident_properties_rows (qa_actor_id actor))"

section \<open>Offered slots against the tables\<close>

lemma list_available_slots_Inr:
  assumes "run_uow (list_available_slots query) d = (Inr slots, d')"
  obtains area where
    "map_option pr_community_name
       (find (\<lambda>p. pr_id p = la_property_id query \<and> pr_is_active p) (db_properties d)) = Some area"
    and "generate_available_slots
       (map (slot_worker_source (issue_category_required_skill (la_issue_category query))
              (pt_instant (la_search_window_start query)) (pt_instant (la_search_window_end query))
              (la_excluded_appointment_id query) d)
          (skilled_workers (issue_category_required_skill (la_issue_category query)) d))
       area (la_search_window_start query) (la_search_window_end query)
       (la_requested_duration_minutes query) (la_max_results query) = Inr slots"
proof -
  obtain s where run: "list_available_slots query \<lparr>se_committed = d, se_working = d\<rparr> = (Inr slots, s)"
    using assms by (auto simp: run_uow_def split: prod.splits)
  then obtain area where
    area: "map_option pr_community_name
       (find (\<lambda>p. pr_id p = la_property_id query \<and> pr_is_active p) (db_properties d)) = Some area"
    and gen: "\<exists>sources. generate_available_slots sources
       area (la_search_window_start query) (la_search_window_end query)
       (la_requested_duration_minutes query) (la_max_results query) = Inr slots \<and>
       sources = map (slot_worker_source (issue_category_required_skill (la_issue_category query))
              (pt_instant (la_search_window_start query)) (pt_instant (la_search_window_end query))
              (la_excluded_appointment_id query) d)
          (skilled_workers (issue_category_required_skill (la_issue_category query)) d)"
    by (auto simp: list_available_slots_def authorize_slot_query_def get_property_service_area_def
        list_slot_worker_sources_def inversion_simps)
  then show thesis using that by blast
qed

lemma skilled_workers_set:
  "w \<in> set (skilled_workers skill d) \<longleftrightarrow>
     w \<in> set (db_workers d) \<and> wk_is_active w \<and> (wk_id w, skill) \<in> set (db_skills d)"
  by (force simp: skilled_workers_def)

lemma availability_windows_set:
  assumes "win \<in> set (availability_windows d s e worker_id)"
  shows "\<exists>a \<in> set (db_availability d). av_worker_id a = worker_id \<and>
    rg_lower (av_range a) = Some (tw_starts_at win) \<and>
    rg_upper (av_range a) = Some (tw_ends_at win) \<and>
    rg_lower_inc (av_range a) = tw_lower_inclusive win"
  using assms by (auto simp: availability_windows_def split: option.splits)

lemma eligible_rows_areas:
  assumes "distinct (map wk_id (db_workers d))" and "distinct (map pr_id (db_properties d))"
    and "w \<in> set (db_workers d)" and "p \<in> set (db_properties d)"
    and "r \<in> set (eligible_rows (wk_id w) (pr_id p) skill s e d)"
  shows "r = (wk_service_area w, pr_community_name p)"
proof -
  from assms(5) obtain w' p' where "w' \<in> set (db_workers d)" "wk_id w' = wk_id w"
    "p' \<in> set (db_properties d)" "pr_id p' = pr_id p" "r = (wk_service_area w', pr_community_name p')"
    by (auto simp: eligible_rows_def)
  then show ?thesis using assms(1-4) by (auto simp: distinct_map inj_on_def)
qed

text \<open>C20: an offered slot is bookable. Where the tables name each worker and each property once, and
  no appointment is left out of the search, \<open>worker_can_service\<close> accepts the worker of an offered
  slot for the property, the issue and the times of the slot, and no BOOKED appointment of the
  worker touches it.\<close>

theorem offered_slot_is_bookable:
  assumes "run_uow (list_available_slots query) d = (Inr slots, d')"
    and "slot \<in> set slots" and "la_excluded_appointment_id query = None"
    and "distinct (map wk_id (db_workers d))" and "distinct (map pr_id (db_properties d))"
  shows "run_uow (worker_can_service (sl_worker_id slot) (la_property_id query)
      (issue_category_required_skill (la_issue_category query))
      (sl_scheduled_start slot) (sl_scheduled_end slot)) d = (Inr True, d) \<and>
    (\<forall>a \<in> set (db_appointments d). as_worker_id a = sl_worker_id slot \<longrightarrow> as_status a = AS_BOOKED \<longrightarrow>
       as_starts_at a < as_ends_at a \<longrightarrow>
       as_ends_at a \<le> sl_scheduled_start slot \<or> sl_scheduled_end slot \<le> as_starts_at a)"
proof -
  let ?skill = "issue_category_required_skill (la_issue_category query)"
  let ?s = "pt_instant (la_search_window_start query)" and ?e = "pt_instant (la_search_window_end query)"
  from assms(1) obtain area where
    area: "map_option pr_community_name
       (find (\<lambda>p. pr_id p = la_property_id query \<and> pr_is_active p) (db_properties d)) = Some area"
    and gen: "generate_available_slots (map (slot_worker_source ?skill ?s ?e None d)
       (skilled_workers ?skill d)) area (la_search_window_start query) (la_search_window_end query)
       (la_requested_duration_minutes query) (la_max_results query) = Inr slots"
    using assms(3) by (rule_tac list_available_slots_Inr) auto
  from area obtain p where p: "p \<in> set (db_properties d)" "pr_id p = la_property_id query"
    "pr_is_active p" "area = pr_community_name p"
    by (auto dest: find_Some_set)
  from offered_slot_sound [OF gen assms(2)] obtain w win where
    w: "w \<in> set (skilled_workers ?skill d)" "sl_worker_id slot = wk_id w"
      "normalize_service_area (wk_service_area w) = normalize_service_area area"
    and times: "?s \<le> sl_scheduled_start slot" "sl_scheduled_end slot \<le> ?e"
      "sl_scheduled_start slot < sl_scheduled_end slot"
    and win: "win \<in> set (availability_windows d ?s ?e (wk_id w))"
      "tw_starts_at win \<le> sl_scheduled_start slot" "sl_scheduled_end slot \<le> tw_ends_at win"
      "tw_lower_inclusive win \<or> tw_starts_at win < sl_scheduled_start slot"
    and free: "\<forall>booking \<in> set (booked_windows d ?s ?e None (wk_id w)).
      sl_scheduled_end slot \<le> tw_starts_at booking \<or> tw_ends_at booking \<le> sl_scheduled_start slot"
    by (auto simp: slot_worker_source_def)
  from w(1) have row: "w \<in> set (db_workers d)" "wk_is_active w" "(wk_id w, ?skill) \<in> set (db_skills d)"
    by (simp_all add: skilled_workers_set)
  from availability_windows_set [OF win(1)] obtain a where a: "a \<in> set (db_availability d)"
    "av_worker_id a = wk_id w" and range: "rg_lower (av_range a) = Some (tw_starts_at win)"
    "rg_upper (av_range a) = Some (tw_ends_at win)" "rg_lower_inc (av_range a) = tw_lower_inclusive win"
    by blast
  have "range_contains (av_range a) (sl_scheduled_start slot) (sl_scheduled_end slot)"
    using win(2-) range by (auto simp: range_contains_def)
  note a = a this
  let ?rows = "eligible_rows (wk_id w) (pr_id p) ?skill (sl_scheduled_start slot) (sl_scheduled_end slot) d"
  have "(wk_service_area w, pr_community_name p) \<in> set ?rows"
    using row p a by (force simp: eligible_rows_def)
  then obtain r more where rows: "?rows = r # more" by (cases ?rows) auto
  have r: "r = (wk_service_area w, pr_community_name p)"
  proof -
    have "r \<in> set ?rows" by (simp add: rows)
    then show ?thesis by (rule eligible_rows_areas [OF assms(4,5) row(1) p(1)])
  qed
  have "run_uow (worker_can_service (sl_worker_id slot) (la_property_id query) ?skill
      (sl_scheduled_start slot) (sl_scheduled_end slot)) d = (Inr True, d)"
    using times(3) w(2,3) p rows r
    by (simp add: run_uow_def worker_can_service_def bindA_def raise_ifA_def queryA_def)
  moreover have "as_ends_at b \<le> sl_scheduled_start slot \<or> sl_scheduled_end slot \<le> as_starts_at b"
    if "b \<in> set (db_appointments d)" "as_worker_id b = wk_id w" "as_status b = AS_BOOKED"
      "as_starts_at b < as_ends_at b" for b
  proof (rule ccontr)
    assume touch: "\<not> ?thesis"
    have "\<lparr>tw_starts_at = as_starts_at b, tw_ends_at = as_ends_at b, tw_lower_inclusive = True\<rparr>
        \<in> set (booked_windows d ?s ?e None (wk_id w))"
      using that times touch by (auto simp: booked_windows_def)
    from bspec [OF free this] show False using touch by auto
  qed
  ultimately show ?thesis using w(2) by simp
qed

text \<open>The town with a working day for its plumber, and a query of its resident.\<close>

definition working_town :: db where
  "working_town = town\<lparr>db_availability := [\<lparr>av_worker_id = 4, av_range = \<lparr>rg_lower = Some 0,
     rg_upper = Some 7200000000, rg_lower_inc = True, rg_upper_inc = False\<rparr>\<rparr>]\<rparr>"

definition slot_query :: "uuid \<Rightarrow> ListAvailableSlotsQuery" where
  "slot_query actor_id =
     \<lparr>la_actor = \<lparr>qa_actor_type = ACT_RESIDENT, qa_actor_id = actor_id\<rparr>, la_property_id = 3,
      la_issue_category = IC_WATER_LEAK, la_search_window_start = day_start,
      la_search_window_end = day_end, la_requested_duration_minutes = 60, la_max_results = 5,
      la_excluded_appointment_id = None\<rparr>"

lemma slot_query_eval:
  "map_sum id (map (\<lambda>slot. (sl_worker_id slot, sl_scheduled_start slot, sl_scheduled_end slot)))
     (fst (run_uow (list_available_slots (slot_query 1)) working_town)) =
   Inr [(4, 1800000000, 5400000000), (4, 3600000000, 7200000000)]"
  by code_simp

theorem offered_slot_is_bookable_witness:
  "run_uow (worker_can_service 4 3 SK_PLUMBING 1800000000 5400000000) working_town =
     (Inr True, working_town)"
proof -
  obtain slot other d' where
    run: "run_uow (list_available_slots (slot_query 1)) working_town = (Inr [slot, other], d')"
    and slot: "sl_worker_id slot = 4" "sl_scheduled_start slot = 1800000000"
      "sl_scheduled_end slot = 5400000000"
    using slot_query_eval
    by (cases "run_uow (list_available_slots (slot_query 1)) working_town"; cases "fst (run_uow (list_available_slots (slot_query 1)) working_town)")
      (auto simp: map_eq_Cons_conv)
  from offered_slot_is_bookable [OF run, of slot] slot show ?thesis
    by (simp add: working_town_def town_def slot_query_def)
qed

section \<open>Who may read\<close>

definition may_read_property :: "QueryActor \<Rightarrow> uuid \<Rightarrow> db \<Rightarrow> bool" where
  "may_read_property actor property_id d \<longleftrightarrow>
     qa_actor_type actor = ACT_RESIDENT \<and> resident_has_property (qa_actor_id actor) property_id d \<or>
     qa_actor_type actor = ACT_OPERATOR \<and> actor_is_operator (qa_actor_id actor) d"

lemma authorize_property_Inr:
  "authorize_property actor resident_id property_id s = (Inr u, s') \<longleftrightarrow> s' = s \<and>
     may_read_property actor property_id (se_working s) \<and>
     (qa_actor_type actor = ACT_RESIDENT \<longrightarrow> qa_actor_id actor = resident_id)"
  by (cases "qa_actor_type actor")
    (auto simp: authorize_property_def may_read_property_def inversion_simps)

lemma run_uow_Inr:
  "run_uow m d = (Inr x, d') \<longleftrightarrow>
     (\<exists>s. m \<lparr>se_committed = d, se_working = d\<rparr> = (Inr x, s) \<and> d' = se_committed s)"
  by (auto simp: run_uow_def split: prod.splits)

text \<open>A ticket is shown only to its own resident while he is linked to its property, or to an
  active operator; and what is shown are the columns of its row, its BOOKED appointment and nothing
  of another ticket.\<close>

lemma ticket_shown_only_to_its_people:
  assumes "run_uow (get_ticket_snapshot query) d = (Inr view, d')"
  shows "\<exists>ticket. find_ticket (gs_ticket_id query) d = Some ticket \<and>
    tv_ticket_status view = ts_status ticket \<and> tv_ticket_version view = ts_version ticket \<and>
    (\<forall>a. tv_active_appointment view = Some a \<longrightarrow> (\<exists>row \<in> set (db_appointments d).
       as_ticket_id row = gs_ticket_id query \<and> as_status row = AS_BOOKED \<and>
       a = appointment_view (appointment_to_snapshot row))) \<and>
    (qa_actor_type (gs_actor query) = ACT_RESIDENT \<and>
       qa_actor_id (gs_actor query) = ts_resident_id ticket \<and>
       resident_has_property (ts_resident_id ticket) (ts_property_id ticket) d \<or>
     qa_actor_type (gs_actor query) = ACT_OPERATOR \<and> actor_is_operator (qa_actor_id (gs_actor query)) d)"
proof -
  from assms obtain ticket where ticket: "find_ticket (gs_ticket_id query) d = Some ticket"
    and auth: "may_read_property (gs_actor query) (ts_property_id ticket) d"
      "qa_actor_type (gs_actor query) = ACT_RESIDENT \<longrightarrow>
         qa_actor_id (gs_actor query) = ts_resident_id ticket"
    and view: "\<exists>events. view = ticket_view ticket (map_option appointment_to_snapshot
      (find (\<lambda>r. as_ticket_id r = ts_ticket_id ticket \<and> as_status r = AS_BOOKED)
         (db_appointments d))) events"
    by (auto simp: run_uow_Inr get_ticket_snapshot_def tickets_get_def active_for_ticket_def
        authorize_property_Inr inversion_simps latest_for_ticket_def list_for_appointment_def)
  have "ts_ticket_id ticket = gs_ticket_id query"
    using ticket by (auto simp: find_ticket_def ticket_to_snapshot_def TicketSnapshot.truncate_def
        dest!: find_Some_set)
  with ticket auth view show ?thesis
    by (auto simp: ticket_view_def may_read_property_def dest!: find_Some_set)
qed

lemma ticket_query_eval:
  "map_sum id (\<lambda>view. (tv_ticket_status view, tv_ticket_version view)) (fst (run_uow
     (get_ticket_snapshot \<lparr>gs_actor = \<lparr>qa_actor_type = ACT_RESIDENT, qa_actor_id = 1\<rparr>,
        gs_ticket_id = 101\<rparr>) town_created)) = Inr (TS_OPEN, 1)"
  by code_simp


end
