(* ===== verification/LeaseQueue.thy ===== *)
theory LeaseQueue
  imports Prelude
begin

text \<open>
  Tables whose rows are claimed for a while and acknowledged under a fencing token: what the outbox
  (\<open>backend/app/outbox/repository.py\<close>) and the reconciliation cases
  (\<open>backend/app/reconciliation/repository.py\<close>) share. A claim takes the first eligible rows in an
  order and gives each a fresh token; an acknowledgement is an update that hits only the row that is
  still held under the token. The locale states the contract once: a token is good for one
  acknowledgement, and only until its row is claimed anew.
\<close>

section \<open>Selecting, replacing, compare-and-set\<close>

text \<open>\<open>SELECT ... WHERE ... ORDER BY ... LIMIT ... FOR UPDATE SKIP LOCKED\<close>.\<close>

definition select_rows ::
  "('r \<Rightarrow> bool) \<Rightarrow> ('r \<Rightarrow> 'k::linorder) \<Rightarrow> nat \<Rightarrow> 'r list \<Rightarrow> 'r list" where
  "select_rows p order limit rows = take limit (sort_key order (filter p rows))"

text \<open>The rows of a table after some of them, found by their key, were changed.\<close>

definition replace_rows :: "('r \<Rightarrow> 'k) \<Rightarrow> 'r list \<Rightarrow> 'r list \<Rightarrow> 'r list" where
  "replace_rows key changed rows =
     map (\<lambda>r. case find (\<lambda>c. key c = key r) changed of None \<Rightarrow> r | Some c \<Rightarrow> c) rows"

text \<open>\<open>UPDATE ... WHERE\<close> of a predicate that should hit; no hit is an error.\<close>

definition compare_and_set :: "('r \<Rightarrow> bool) \<Rightarrow> ('r \<Rightarrow> 'r) \<Rightarrow> exn \<Rightarrow> 'r list \<Rightarrow> 'r list outcome" where
  "compare_and_set p f stale rows =
     (if \<exists>r \<in> set rows. p r then Inr (map (\<lambda>r. if p r then f r else r) rows) else Inl stale)"

text \<open>The selected rows, each with its own token.\<close>

definition take_leases :: "(uuid \<Rightarrow> 'r \<Rightarrow> 'r) \<Rightarrow> (nat \<Rightarrow> uuid) \<Rightarrow> 'r list \<Rightarrow> 'r list" where
  "take_leases take_one token rows = map (\<lambda>(i, r). take_one (token i) r) (enumerate 0 rows)"

lemma compare_and_set_Inr [inversion_simps]:
  "compare_and_set p f stale rows = Inr rows' \<longleftrightarrow>
     (\<exists>r \<in> set rows. p r) \<and> rows' = map (\<lambda>r. if p r then f r else r) rows"
  by (auto simp: compare_and_set_def)

lemma compare_and_set_Inl:
  "compare_and_set p f stale rows = Inl e \<longleftrightarrow> (\<forall>r \<in> set rows. \<not> p r) \<and> e = stale"
  by (auto simp: compare_and_set_def)

lemma select_rows_set: "r \<in> set (select_rows p order limit rows) \<Longrightarrow> r \<in> set rows \<and> p r"
  unfolding select_rows_def by (auto dest: in_set_takeD)

lemma select_rows_length: "length (select_rows p order limit rows) \<le> limit"
  by (simp add: select_rows_def)

lemma select_rows_nonempty:
  assumes "r \<in> set rows" and "p r" and "0 < limit"
  shows "select_rows p order limit rows \<noteq> []"
proof -
  have "length (filter p rows) \<noteq> 0" using assms(1,2) by (auto simp: filter_empty_conv)
  then have "sort_key order (filter p rows) \<noteq> []" by (metis length_0_conv length_sort)
  then show ?thesis using assms(3) by (simp add: select_rows_def)
qed

lemma select_rows_distinct:
  "distinct (map key rows) \<Longrightarrow> distinct (map key (select_rows p order limit rows))"
proof -
  assume "distinct (map key rows)"
  then have "distinct (map key (sort_key order (filter p rows)))"
    by (simp add: distinct_map inj_on_def)
  then show ?thesis unfolding select_rows_def take_map [symmetric] by (rule distinct_take)
qed

lemma take_leases_nth:
  "length (take_leases f token rows) = length rows"
  "i < length rows \<Longrightarrow> take_leases f token rows ! i = f (token i) (rows ! i)"
  by (simp_all add: take_leases_def nth_enumerate_eq)

lemma take_leases_map:
  assumes "\<And>t r. key (f t r) = key r"
  shows "map key (take_leases f token rows) = map key rows"
  by (rule nth_equalityI) (simp_all add: take_leases_nth assms)

lemma take_leases_set:
  "c \<in> set (take_leases f token rows) \<longleftrightarrow> (\<exists>i < length rows. c = f (token i) (rows ! i))"
  by (auto simp: in_set_conv_nth take_leases_nth)

text \<open>A row after a claim: left alone, or taken under one of the tokens.\<close>

lemma replaced_leases:
  assumes "\<And>t r. key (f t r) = key r" and "distinct (map key rows)"
    and "set picked \<subseteq> set rows" and "r' \<in> set (replace_rows key (take_leases f token picked) rows)"
  shows "r' \<in> set rows \<and> key r' \<notin> key ` set picked \<or>
    (\<exists>i < length picked. picked ! i \<in> set rows \<and> r' = take_leases f token picked ! i)"
proof -
  from assms(4) obtain r where r: "r \<in> set rows"
    "r' = (case find (\<lambda>c. key c = key r) (take_leases f token picked) of None \<Rightarrow> r | Some c \<Rightarrow> c)"
    by (auto simp: replace_rows_def)
  show ?thesis
  proof (cases "find (\<lambda>c. key c = key r) (take_leases f token picked)")
    case None
    have keys: "key ` set picked = key ` set (take_leases f token picked)"
      using arg_cong [OF take_leases_map [of key f token picked], of set] assms(1) by simp
    have "key r \<notin> key ` set picked"
      unfolding keys using None by (auto simp: find_None_iff)
    then show ?thesis using r None by simp
  next
    case (Some c)
    then have "c \<in> set (take_leases f token picked)" by (simp add: find_Some_set)
    then obtain i where "i < length picked" "c = f (token i) (picked ! i)"
      by (auto simp: take_leases_set)
    then have "r' = take_leases f token picked ! i" "picked ! i \<in> set rows" "i < length picked"
      using r Some assms(3) nth_mem [of i picked] by (auto simp: take_leases_nth)
    then show ?thesis by blast
  qed
qed

text \<open>What a claim keeps of every row, it keeps of the table.\<close>

lemma replaced_leases_map:
  assumes "\<And>t r. key (f t r) = key r" and "\<And>t r. g (f t r) = g r"
    and "distinct (map key rows)" and "set picked \<subseteq> set rows"
  shows "map g (replace_rows key (take_leases f token picked) rows) = map g rows"
proof -
  have "g (case find (\<lambda>c. key c = key r) (take_leases f token picked) of None \<Rightarrow> r | Some c \<Rightarrow> c) = g r"
    if r: "r \<in> set rows" for r
  proof (cases "find (\<lambda>c. key c = key r) (take_leases f token picked)")
    case (Some c)
    then have c: "c \<in> set (take_leases f token picked)" "key c = key r"
      by (auto dest: find_Some_set)
    then obtain i where i: "i < length picked" "c = f (token i) (picked ! i)"
      by (auto simp: take_leases_set)
    then have "picked ! i \<in> set rows" "key (picked ! i) = key r"
      using assms(1,4) c(2) nth_mem [of i picked] by auto
    then have "picked ! i = r" using assms(3) r by (auto simp: distinct_map inj_on_def)
    then show ?thesis using Some i assms(2) by simp
  qed simp
  then show ?thesis by (simp add: replace_rows_def)
qed

section \<open>The contract of a leased table\<close>

text \<open>Histories of a table: it starts without claims and grows by unclaimed rows, claims issue tokens
  that were never issued before, and acknowledgements that succeed are recorded by their token.\<close>

inductive lease_history ::
  "('r \<Rightarrow> uuid) \<Rightarrow> ('r \<Rightarrow> (string \<times> uuid) option) \<Rightarrow>
   ('q \<Rightarrow> string \<Rightarrow> (nat \<Rightarrow> uuid) \<Rightarrow> 'r list \<Rightarrow> 'r list \<times> 'r list) \<Rightarrow>
   ('a \<Rightarrow> uuid \<Rightarrow> string \<Rightarrow> uuid \<Rightarrow> 'r list \<Rightarrow> 'r list outcome) \<Rightarrow>
   'r list \<Rightarrow> uuid set \<Rightarrow> uuid list \<Rightarrow> bool"
  for row_id holder claim settle where
  empty: "lease_history row_id holder claim settle [] {} []"
| insert: "lease_history row_id holder claim settle rows issued acked \<Longrightarrow>
    row_id r \<notin> row_id ` set rows \<Longrightarrow> holder r = None \<Longrightarrow>
    lease_history row_id holder claim settle (rows @ [r]) issued acked"
| claim: "lease_history row_id holder claim settle rows issued acked \<Longrightarrow>
    claim q w token rows = (cs, rows') \<Longrightarrow> inj token \<Longrightarrow> \<forall>i. token i \<notin> issued \<Longrightarrow>
    lease_history row_id holder claim settle rows' (issued \<union> token ` {..<length cs}) acked"
| settle: "lease_history row_id holder claim settle rows issued acked \<Longrightarrow>
    settle a i w t rows = Inr rows' \<Longrightarrow>
    lease_history row_id holder claim settle rows' issued (t # acked)"

locale leased_table =
  fixes row_id :: "'r \<Rightarrow> uuid"
    and holder :: "'r \<Rightarrow> (string \<times> uuid) option"
    and claim :: "'q \<Rightarrow> string \<Rightarrow> (nat \<Rightarrow> uuid) \<Rightarrow> 'r list \<Rightarrow> 'r list \<times> 'r list"
    and settle :: "'a \<Rightarrow> uuid \<Rightarrow> string \<Rightarrow> uuid \<Rightarrow> 'r list \<Rightarrow> 'r list outcome"
  assumes claim_ids: "claim q w token rows = (cs, rows') \<Longrightarrow> map row_id rows' = map row_id rows"
    and claim_holder: "claim q w token rows = (cs, rows') \<Longrightarrow> i < length cs \<Longrightarrow>
      holder (cs ! i) = Some (w, token i)"
    and claim_rows: "claim q w token rows = (cs, rows') \<Longrightarrow> distinct (map row_id rows) \<Longrightarrow>
      r' \<in> set rows' \<Longrightarrow> r' \<in> set rows \<or> (\<exists>i < length cs. r' = cs ! i)"
    and settle_hit: "settle a i w t rows = Inr rows' \<Longrightarrow>
      \<exists>r \<in> set rows. row_id r = i \<and> holder r = Some (w, t)"
    and settle_ids: "settle a i w t rows = Inr rows' \<Longrightarrow> map row_id rows' = map row_id rows"
    and settle_row: "settle a i w t rows = Inr rows' \<Longrightarrow> r' \<in> set rows' \<Longrightarrow>
      r' \<in> set rows \<and> \<not> (row_id r' = i \<and> holder r' = Some (w, t)) \<or>
      row_id r' = i \<and> holder r' = None"
begin

text \<open>The tokens of a history: those acknowledged and those held are issued, no token is held by
  two rows, and an acknowledged token is neither held nor acknowledged again.\<close>

definition tokens_ok :: "'r list \<Rightarrow> uuid set \<Rightarrow> uuid list \<Rightarrow> bool" where
  "tokens_ok rows issued acked \<longleftrightarrow> distinct (map row_id rows) \<and> distinct acked \<and>
     set acked \<subseteq> issued \<and>
     (\<forall>r \<in> set rows. \<forall>v t. holder r = Some (v, t) \<longrightarrow> t \<in> issued \<and> t \<notin> set acked) \<and>
     (\<forall>r \<in> set rows. \<forall>r' \<in> set rows. \<forall>v v' t. holder r = Some (v, t) \<longrightarrow>
        holder r' = Some (v', t) \<longrightarrow> r = r')"

lemma tokens_ok_claim:
  assumes "tokens_ok rows issued acked" and claim: "claim q w token rows = (cs, rows')"
    and "inj token" and fresh: "\<forall>i. token i \<notin> issued"
  shows "tokens_ok rows' (issued \<union> token ` {..<length cs}) acked"
proof -
  have ids: "distinct (map row_id rows)" using assms(1) by (simp add: tokens_ok_def)
  have origin: "r \<in> set rows \<and> t \<in> issued \<and> t \<notin> set acked \<or>
      (\<exists>i < length cs. r = cs ! i \<and> t = token i)" if "r \<in> set rows'" "holder r = Some (v, t)" for r v t
    using claim_rows [OF claim ids that(1)] claim_holder [OF claim] that(2) assms(1)
    by (auto simp: tokens_ok_def)
  have "r = r'" if "r \<in> set rows'" "r' \<in> set rows'" "holder r = Some (v, t)" "holder r' = Some (v', t)"
    for r r' v v' t
    using origin [OF that(1,3)] origin [OF that(2,4)] that(3,4) fresh assms(1,3)
    unfolding tokens_ok_def by (metis injD)
  moreover have "t \<in> issued \<union> token ` {..<length cs} \<and> t \<notin> set acked"
    if "r \<in> set rows'" "holder r = Some (v, t)" for r v t
    using origin [OF that] fresh assms(1) by (auto simp: tokens_ok_def)
  ultimately show ?thesis
    using assms(1) claim_ids [OF claim] unfolding tokens_ok_def by (simp add: le_supI1)
qed

lemma tokens_ok_settle:
  assumes "tokens_ok rows issued acked" and settle: "settle a i w t rows = Inr rows'"
  shows "tokens_ok rows' issued (t # acked)"
proof -
  obtain r where r: "r \<in> set rows" "row_id r = i" "holder r = Some (w, t)"
    using settle_hit [OF settle] by blast
  have held: "t \<in> issued" "t \<notin> set acked" using assms(1) r by (auto simp: tokens_ok_def)
  have old: "x \<in> set rows \<and> s \<noteq> t" if "x \<in> set rows'" "holder x = Some (v, s)" for x v s
    using settle_row [OF settle that(1)] that(2) r assms(1) unfolding tokens_ok_def
    by (metis option.distinct(1))
  show ?thesis
    using assms(1) held old settle_ids [OF settle] unfolding tokens_ok_def by (simp, metis)
qed

text \<open>A token is good for one acknowledgement, and only while its row is held under it.\<close>

lemma acknowledged_once:
  "lease_history row_id holder claim settle rows issued acked \<Longrightarrow> tokens_ok rows issued acked"
proof (induction rule: lease_history.induct)
  case empty
  show ?case by (simp add: tokens_ok_def)
next
  case (insert rows issued acked r)
  then show ?case by (auto simp: tokens_ok_def)
next
  case (claim rows issued acked q w token cs rows')
  then show ?case by (blast intro: tokens_ok_claim)
next
  case (settle rows issued acked a i w t rows')
  then show ?case by (blast intro: tokens_ok_settle)
qed

lemma stale_token_refused:
  assumes "\<forall>r \<in> set rows. row_id r = i \<longrightarrow> holder r \<noteq> Some (w, t)"
  shows "\<exists>e. settle a i w t rows = Inl e"
  using settle_hit assms by (cases "settle a i w t rows") blast+

end

end
