(* ===== verification/Trace.thy ===== *)
theory Trace
  imports Store
begin

text \<open>
  Persistent agent runs and their trace, after \<open>backend/app/trace/models.py\<close> (the closed
  payload), \<open>sanitizer.py\<close>, \<open>runtime.py\<close> and the two tables of
  \<open>infrastructure/database/models/observability.py\<close>. Every operation is one transaction: it
  returns the new tables, or an error that leaves them alone.
\<close>

section \<open>Closed payloads\<close>

datatype field_kind = FK_TEXT | FK_UUID | FK_BOOL | FK_INT "int option"

text \<open>The fields of \<open>TracePayload\<close>; an integer may have a least value.\<close>

definition trace_fields :: "(string \<times> field_kind) list" where
  "trace_fields =
     [(''summary'', FK_TEXT), (''error_code'', FK_TEXT), (''retryable'', FK_BOOL),
      (''workflow_stage'', FK_TEXT), (''run_status'', FK_TEXT), (''interrupt_kind'', FK_TEXT),
      (''node_name'', FK_TEXT), (''tool_name'', FK_TEXT), (''result_code'', FK_TEXT),
      (''replayed'', FK_BOOL), (''latency_ms'', FK_INT (Some 0)), (''ticket_id'', FK_UUID),
      (''appointment_id'', FK_UUID), (''property_id'', FK_UUID), (''resident_id'', FK_UUID),
      (''worker_id'', FK_UUID), (''aggregate_type'', FK_TEXT), (''aggregate_id'', FK_UUID),
      (''aggregate_version'', FK_INT (Some 1)), (''operation_id'', FK_UUID),
      (''from_status'', FK_TEXT), (''to_status'', FK_TEXT), (''status'', FK_TEXT),
      (''action'', FK_TEXT), (''issue_category'', FK_TEXT), (''severity'', FK_TEXT),
      (''purpose'', FK_TEXT), (''reason_code'', FK_TEXT), (''starts_at'', FK_TEXT),
      (''ends_at'', FK_TEXT), (''previous_appointment_id'', FK_UUID),
      (''original_run_id'', FK_UUID), (''idempotency_key_fingerprint'', FK_TEXT),
      (''provider'', FK_TEXT), (''model'', FK_TEXT), (''prompt_id'', FK_TEXT),
      (''prompt_version'', FK_TEXT), (''prompt_hash'', FK_TEXT), (''schema_version'', FK_TEXT),
      (''input_hash'', FK_TEXT), (''input_character_count'', FK_INT (Some 0)),
      (''context_message_count'', FK_INT (Some 0)), (''thinking_mode'', FK_TEXT),
      (''attempt_count'', FK_INT (Some 1)), (''input_tokens'', FK_INT (Some 0)),
      (''output_tokens'', FK_INT (Some 0)), (''total_tokens'', FK_INT (Some 0)),
      (''finish_reason'', FK_TEXT), (''provider_request_id'', FK_TEXT), (''success'', FK_BOOL),
      (''deterministic_template_fallback'', FK_BOOL)]"

text \<open>The canonical text of a UUID, 8-4-4-4-12 hexadecimal digits. The other spellings that
  Pydantic reads are never written by the program.\<close>

definition hex_char :: "char \<Rightarrow> bool" where
  "hex_char c \<longleftrightarrow> c \<in> set ''0123456789abcdefABCDEF''"

definition uuid_string :: "string \<Rightarrow> bool" where
  "uuid_string s \<longleftrightarrow> length s = 36 \<and>
     s ! 8 = CHR ''-'' \<and> s ! 13 = CHR ''-'' \<and> s ! 18 = CHR ''-'' \<and> s ! 23 = CHR ''-'' \<and>
     list_all hex_char (take 8 s @ take 4 (drop 9 s) @ take 4 (drop 14 s) @ take 4 (drop 19 s) @
       drop 24 s)"

text \<open>Strict validation of one value read from JSON.\<close>

definition field_accepts :: "field_kind \<Rightarrow> pval \<Rightarrow> bool" where
  "field_accepts k v =
     (case v of
        PNone \<Rightarrow> True
      | PStr s \<Rightarrow> k = FK_TEXT \<or> k = FK_UUID \<and> uuid_string s
      | PBool b \<Rightarrow> k = FK_BOOL
      | PInt i \<Rightarrow> (case k of FK_INT None \<Rightarrow> True | FK_INT (Some least) \<Rightarrow> least \<le> i | _ \<Rightarrow> False)
      | _ \<Rightarrow> False)"

definition valid_trace_item :: "string \<times> pval \<Rightarrow> bool" where
  "valid_trace_item item =
     (case map_of trace_fields (fst item) of None \<Rightarrow> False | Some k \<Rightarrow> field_accepts k (snd item))"

text \<open>A payload is the list of its fields that are set; \<open>model_validate_json\<close> of a dictionary.\<close>

type_synonym trace_payload = "(string \<times> pval) list"

definition validate_payload :: "trace_payload \<Rightarrow> trace_payload outcome" where
  "validate_payload data =
     (if list_all valid_trace_item data then Inr (filter (\<lambda>(k, v). v \<noteq> PNone) data)
      else Inl (Exn ValidationError ''trace_payload'' []))"

section \<open>Sanitizing\<close>

definition SENSITIVE_KEYS :: "string list" where
  "SENSITIVE_KEYS =
     [''authorization'', ''access_token'', ''refresh_token'', ''jwt'', ''password'',
      ''password_hash'', ''secret'', ''database_url'', ''api_key'', ''cookie'', ''set-cookie'',
      ''idempotency_key'', ''idempotency-key'', ''conversation_messages'', ''pending_operation'',
      ''checkpoint'', ''checkpoint_blob'', ''traceback'', ''stack_trace'', ''sql'', ''dsn'',
      ''mcp_request'', ''mcp_response'', ''provider_prompt'', ''prompt'']"

record TraceSanitizer =
  sz_max_payload_bytes :: nat
  sz_max_string_length :: nat

definition make_sanitizer :: "nat \<Rightarrow> nat \<Rightarrow> TraceSanitizer outcome" where
  "make_sanitizer max_payload_bytes max_string_length =
     (if max_payload_bytes < 128 \<or> max_string_length < 16
      then Inl (Exn PyValueError ''trace limits are too small'' [])
      else Inr \<lparr>sz_max_payload_bytes = max_payload_bytes, sz_max_string_length = max_string_length\<rparr>)"

text \<open>\<open>_clean\<close>; \<open>casefold\<close> is \<open>lower\<close> on ASCII, and every modelled value has a supported type.\<close>

fun clean :: "nat \<Rightarrow> pval \<Rightarrow> pval outcome"
  and clean_items :: "nat \<Rightarrow> (string \<times> pval) list \<Rightarrow> (string \<times> pval) list outcome"
  and clean_list :: "nat \<Rightarrow> pval list \<Rightarrow> pval list outcome"
where
  "clean n PNone = Inr PNone"
| "clean n (PBool b) = Inr (PBool b)"
| "clean n (PInt i) = Inr (PInt i)"
| "clean n (PStr s) = Inr (PStr (take n s))"
| "clean n (PUuid u) = Inr (PStr (uuid_text u))"
| "clean n (PTime t) = Inr (PStr (iso_utc t))"
| "clean n (PList xs) = bindE (clean_list n xs) (\<lambda>ys. Inr (PList ys))"
| "clean n (PDict kvs) = bindE (clean_items n kvs) (\<lambda>items. Inr (PDict items))"
| "clean_items n [] = Inr []"
| "clean_items n ((k, v) # kvs) =
     (if lower k \<in> set SENSITIVE_KEYS
      then Inl (Exn UnsafeTracePayload (''sensitive trace key rejected: '' @ lower k) [])
      else bindE (clean n v)
        (\<lambda>x. bindE (clean_items n kvs) (\<lambda>items. Inr ((k, x) # items))))"
| "clean_list n [] = Inr []"
| "clean_list n (x # xs) = bindE (clean n x) (\<lambda>y. bindE (clean_list n xs) (\<lambda>ys. Inr (y # ys)))"

definition sanitize :: "TraceSanitizer \<Rightarrow> trace_payload \<Rightarrow> (string \<times> pval) list outcome" where
  "sanitize z payload =
     bindE (clean_items (sz_max_string_length z) (filter (\<lambda>(k, v). v \<noteq> PNone) payload))
     (\<lambda>value. if sz_max_payload_bytes z < length (json_dumps (PDict value))
        then Inl (Exn UnsafeTracePayload ''trace payload exceeds configured byte limit'' [])
        else Inr value)"

section \<open>Tables\<close>

datatype agent_run_status = AR_RUNNING | AR_INTERRUPTED | AR_COMPLETED | AR_FAILED_SAFE | AR_FAILED

fun agent_run_status_value :: "agent_run_status \<Rightarrow> string" where
  "agent_run_status_value AR_RUNNING = ''RUNNING''"
| "agent_run_status_value AR_INTERRUPTED = ''INTERRUPTED''"
| "agent_run_status_value AR_COMPLETED = ''COMPLETED''"
| "agent_run_status_value AR_FAILED_SAFE = ''FAILED_SAFE''"
| "agent_run_status_value AR_FAILED = ''FAILED''"

datatype agent_run_trigger = RT_THREAD_CREATED | RT_MESSAGE | RT_RESUME | RT_OPERATOR_ACTION

datatype trace_source =
  SRC_API | SRC_AGENT | SRC_MCP | SRC_DOMAIN | SRC_OUTBOX | SRC_RECONCILIATION | SRC_REPLAY

datatype message_outcome = MO_COMPLETED | MO_FAILED | MO_ESCALATED

datatype required_user_action =
  RA_NONE | RA_PROVIDE_DETAILS | RA_SELECT_SLOT | RA_CONFIRM_ACTION | RA_CONTACT_OPERATOR | RA_RETRY

record AgentRun =
  rn_id :: uuid
  rn_thread_id :: "uuid option"
  rn_trace_id :: uuid
  rn_trigger :: agent_run_trigger
  rn_status :: agent_run_status
  rn_actor_type :: string
  rn_actor_id :: uuid
  rn_user_id :: "uuid option"
  rn_property_id :: "uuid option"
  rn_initial_intent_version :: "int option"
  rn_final_intent_version :: "int option"
  rn_last_sequence :: int
  rn_started_at :: timestamp
  rn_finished_at :: "timestamp option"
  rn_terminal_event_type :: "string option"
  rn_error_code :: "string option"
  rn_message_outcome :: "message_outcome option"
  rn_required_user_action :: required_user_action

record AgentTraceEvent =
  te_id :: uuid
  te_event_key :: string
  te_run_id :: "uuid option"
  te_thread_id :: "uuid option"
  te_trace_id :: uuid
  te_sequence_number :: "int option"
  te_source :: trace_source
  te_event_type :: string
  te_node_name :: "string option"
  te_operation_id :: "uuid option"
  te_payload :: "(string \<times> pval) list"
  te_occurred_at :: timestamp

record TraceDb =
  td_runs :: "AgentRun list"
  td_events :: "AgentTraceEvent list"

section \<open>Rows and their constraints\<close>

definition lifecycle_terminal_events :: "string list" where
  "lifecycle_terminal_events =
     [''run_interrupted'', ''run_completed'', ''run_failed_safe'', ''run_failed'']"

definition message_terminal_events :: "string list" where
  "message_terminal_events = [''message.completed'', ''message.failed'', ''message.escalated'']"

definition post_terminal_audit_sources :: "trace_source set" where
  "post_terminal_audit_sources = {SRC_DOMAIN, SRC_OUTBOX, SRC_RECONCILIATION}"

fun terminal_event_of :: "agent_run_status \<Rightarrow> string option" where
  "terminal_event_of AR_RUNNING = None"
| "terminal_event_of AR_INTERRUPTED = Some ''run_interrupted''"
| "terminal_event_of AR_COMPLETED = Some ''run_completed''"
| "terminal_event_of AR_FAILED_SAFE = Some ''run_failed_safe''"
| "terminal_event_of AR_FAILED = Some ''run_failed''"

definition run_row_checks :: "AgentRun \<Rightarrow> (bool \<times> exn) list" where
  "run_row_checks r =
     [row_check (rn_actor_type r \<in> {''RESIDENT'', ''OPERATOR'', ''WORKER'', ''SYSTEM''})
        ''ck_agent_runs_actor_type_values'',
      row_check (0 \<le> rn_last_sequence r) ''ck_agent_runs_last_sequence_nonnegative'',
      row_check ((rn_status r = AR_RUNNING) = (rn_finished_at r = None))
        ''ck_agent_runs_finish_time_matches_status'',
      row_check (rn_terminal_event_type r = terminal_event_of (rn_status r))
        ''ck_agent_runs_terminal_event_matches_status'',
      row_check ((rn_status r = AR_RUNNING) = (rn_message_outcome r = None))
        ''ck_agent_runs_message_outcome_matches_status'']"

definition run_insert_checks :: "AgentRun \<Rightarrow> TraceDb \<Rightarrow> (bool \<times> exn) list" where
  "run_insert_checks r d = run_row_checks r @
     [unique_check (rn_id r \<notin> rn_id ` set (td_runs d)) ''pk_agent_runs'',
      unique_check (rn_trace_id r \<notin> rn_trace_id ` set (td_runs d)) ''uq_agent_runs_trace_id'']"

text \<open>At most one event of a run has a type of the list.\<close>

definition one_per_run :: "string list \<Rightarrow> AgentTraceEvent \<Rightarrow> TraceDb \<Rightarrow> bool" where
  "one_per_run types e d \<longleftrightarrow> te_event_type e \<notin> set types \<or> te_run_id e = None \<or>
     (\<forall>x \<in> set (td_events d). te_run_id x \<noteq> te_run_id e \<or> te_event_type x \<notin> set types)"

definition event_insert_checks :: "AgentTraceEvent \<Rightarrow> TraceDb \<Rightarrow> (bool \<times> exn) list" where
  "event_insert_checks e d =
     [row_check (case te_run_id e of None \<Rightarrow> te_sequence_number e = None
                 | Some _ \<Rightarrow> (case te_sequence_number e of None \<Rightarrow> False | Some n \<Rightarrow> 0 < n))
        ''ck_agent_trace_events_run_sequence_pair_valid'',
      unique_check (te_id e \<notin> te_id ` set (td_events d)) ''pk_agent_trace_events'',
      unique_check (te_event_key e \<notin> te_event_key ` set (td_events d))
        ''uq_agent_trace_events_event_key'',
      unique_check (te_run_id e = None \<or> (\<forall>x \<in> set (td_events d).
          (te_run_id x, te_sequence_number x) \<noteq> (te_run_id e, te_sequence_number e)))
        ''uq_agent_trace_events_run_sequence'',
      unique_check (one_per_run lifecycle_terminal_events e d)
        ''uq_agent_trace_events_lifecycle_terminal_per_run'',
      unique_check (one_per_run message_terminal_events e d)
        ''uq_agent_trace_events_message_terminal_per_run'',
      fk_check (case te_run_id e of None \<Rightarrow> True | Some i \<Rightarrow> i \<in> rn_id ` set (td_runs d))
        ''fk_agent_trace_events_run_id_agent_runs'']"

definition find_run :: "uuid \<Rightarrow> TraceDb \<Rightarrow> AgentRun option" where
  "find_run run_id d = find (\<lambda>r. rn_id r = run_id) (td_runs d)"

definition event_by_key :: "string \<Rightarrow> TraceDb \<Rightarrow> AgentTraceEvent option" where
  "event_by_key key d = find (\<lambda>e. te_event_key e = key) (td_events d)"

definition insert_run :: "AgentRun \<Rightarrow> TraceDb \<Rightarrow> TraceDb outcome" where
  "insert_run r d = (case first_failed (run_insert_checks r d) of
      Some e \<Rightarrow> Inl (raw_error e) | None \<Rightarrow> Inr (d\<lparr>td_runs := td_runs d @ [r]\<rparr>))"

definition insert_event :: "AgentTraceEvent \<Rightarrow> TraceDb \<Rightarrow> TraceDb outcome" where
  "insert_event e d = (case first_failed (event_insert_checks e d) of
      Some x \<Rightarrow> Inl (raw_error x) | None \<Rightarrow> Inr (d\<lparr>td_events := td_events d @ [e]\<rparr>))"

definition update_run :: "AgentRun \<Rightarrow> TraceDb \<Rightarrow> TraceDb outcome" where
  "update_run r d = (case first_failed (run_row_checks r) of
      Some e \<Rightarrow> Inl (raw_error e)
    | None \<Rightarrow> Inr (d\<lparr>td_runs := map (\<lambda>x. if rn_id x = rn_id r then r else x) (td_runs d)\<rparr>))"

section \<open>The runtime\<close>

record StartRun =
  sr_run_id :: uuid
  sr_thread_id :: "uuid option"
  sr_trace_id :: uuid
  sr_trigger :: agent_run_trigger
  sr_actor_type :: string
  sr_actor_id :: uuid
  sr_user_id :: "uuid option"
  sr_property_id :: "uuid option"
  sr_initial_intent_version :: "int option"
  sr_started_at :: timestamp

record AppendEvent =
  ae_event_key :: string
  ae_run_id :: "uuid option"
  ae_thread_id :: "uuid option"
  ae_trace_id :: uuid
  ae_source :: trace_source
  ae_event_type :: string
  ae_payload :: trace_payload
  ae_occurred_at :: timestamp
  ae_node_name :: "string option"
  ae_operation_id :: "uuid option"

text \<open>A \<open>TraceRuntime\<close>: its sanitizer, and SHA-256 as a parameter.\<close>

record TraceRuntime =
  rt_sanitizer :: TraceSanitizer
  rt_sha256 :: "string \<Rightarrow> string"

definition event_key :: "TraceRuntime \<Rightarrow> uuid \<Rightarrow> string \<Rightarrow> string \<Rightarrow> string" where
  "event_key rt run_id event_type suffix =
     rt_sha256 rt (join_with ''|'' [uuid_text run_id, event_type, suffix])"

definition started_run :: "StartRun \<Rightarrow> AgentRun" where
  "started_run command =
     \<lparr>rn_id = sr_run_id command, rn_thread_id = sr_thread_id command,
      rn_trace_id = sr_trace_id command, rn_trigger = sr_trigger command,
      rn_status = AR_RUNNING, rn_actor_type = sr_actor_type command,
      rn_actor_id = sr_actor_id command, rn_user_id = sr_user_id command,
      rn_property_id = sr_property_id command,
      rn_initial_intent_version = sr_initial_intent_version command,
      rn_final_intent_version = None, rn_last_sequence = 1,
      rn_started_at = sr_started_at command, rn_finished_at = None,
      rn_terminal_event_type = None, rn_error_code = None, rn_message_outcome = None,
      rn_required_user_action = RA_NONE\<rparr>"

text \<open>\<open>_event_model\<close>; \<open>event_id\<close> is the fresh \<open>uuid4\<close>.\<close>

definition event_model ::
  "TraceRuntime \<Rightarrow> uuid \<Rightarrow> AgentRun option \<Rightarrow> int option \<Rightarrow> AppendEvent \<Rightarrow> AgentTraceEvent outcome"
where
  "event_model rt event_id run sequence command =
     bindE (sanitize (rt_sanitizer rt) (ae_payload command))
     (\<lambda>payload. Inr
        \<lparr>te_id = event_id, te_event_key = ae_event_key command,
         te_run_id = map_option rn_id run,
         te_thread_id = (case run of None \<Rightarrow> ae_thread_id command | Some r \<Rightarrow> rn_thread_id r),
         te_trace_id = (case run of None \<Rightarrow> ae_trace_id command | Some r \<Rightarrow> rn_trace_id r),
         te_sequence_number = sequence, te_source = ae_source command,
         te_event_type = ae_event_type command, te_node_name = ae_node_name command,
         te_operation_id = ae_operation_id command, te_payload = payload,
         te_occurred_at = ae_occurred_at command\<rparr>)"

definition lifecycle_event ::
  "TraceRuntime \<Rightarrow> uuid \<Rightarrow> string \<Rightarrow> trace_payload \<Rightarrow> timestamp \<Rightarrow> AppendEvent" where
  "lifecycle_event rt run_id event_type payload occurred_at =
     \<lparr>ae_event_key = event_key rt run_id event_type [], ae_run_id = Some run_id,
      ae_thread_id = None, ae_trace_id = 0, ae_source = SRC_AGENT, ae_event_type = event_type,
      ae_payload = payload, ae_occurred_at = occurred_at, ae_node_name = None,
      ae_operation_id = None\<rparr>"

definition start_run ::
  "TraceRuntime \<Rightarrow> uuid \<Rightarrow> StartRun \<Rightarrow> TraceDb \<Rightarrow> (AgentRun \<times> TraceDb) outcome" where
  "start_run rt event_id command d =
     (case find_run (sr_run_id command) d of
        Some existing \<Rightarrow> Inr (existing, d)
      | None \<Rightarrow>
          let run = started_run command
          in bindE (event_model rt event_id (Some run) (Some 1)
                 (lifecycle_event rt (sr_run_id command) ''run_started''
                    [(''run_status'', PStr (agent_run_status_value AR_RUNNING))]
                    (sr_started_at command)))
             (\<lambda>event. bindE (insert_run run d)
             (\<lambda>d1. bindE (insert_event event d1) (\<lambda>d2. Inr (run, d2)))))"

definition append_trace_event ::
  "TraceRuntime \<Rightarrow> uuid \<Rightarrow> AppendEvent \<Rightarrow> TraceDb \<Rightarrow> (AgentTraceEvent \<times> TraceDb) outcome" where
  "append_trace_event rt event_id command d =
     (case event_by_key (ae_event_key command) d of
        Some existing \<Rightarrow> Inr (existing, d)
      | None \<Rightarrow>
          (case ae_run_id command of
             None \<Rightarrow> bindE (event_model rt event_id None None command)
               (\<lambda>event. bindE (insert_event event d) (\<lambda>d1. Inr (event, d1)))
           | Some run_id \<Rightarrow>
               (case find_run run_id d of
                  None \<Rightarrow> Inl (Exn TraceConflict ''trace run not found'' [])
                | Some run \<Rightarrow>
                    if ae_event_type command \<in> set lifecycle_terminal_events
                    then Inl (Exn TraceConflict ''lifecycle terminal events must use finish_run'' [])
                    else if rn_status run \<noteq> AR_RUNNING \<and>
                            ae_source command \<notin> post_terminal_audit_sources
                    then Inl (Exn TraceConflict
                           ''control-plane trace events are closed after run termination'' [])
                    else let advanced = run\<lparr>rn_last_sequence := rn_last_sequence run + 1\<rparr>
                      in bindE (event_model rt event_id (Some advanced)
                             (Some (rn_last_sequence advanced)) command)
                         (\<lambda>event. bindE (update_run advanced d)
                         (\<lambda>d1. bindE (insert_event event d1) (\<lambda>d2. Inr (event, d2)))))))"

definition finished_run ::
  "AgentRun \<Rightarrow> agent_run_status \<Rightarrow> timestamp \<Rightarrow> int option \<Rightarrow> string option \<Rightarrow> AgentRun" where
  "finished_run run status occurred_at final_intent_version error_code =
     (let failed = status \<in> {AR_FAILED, AR_FAILED_SAFE}
      in run\<lparr>rn_last_sequence := rn_last_sequence run + 1, rn_status := status,
           rn_finished_at := Some occurred_at,
           rn_terminal_event_type := terminal_event_of status,
           rn_final_intent_version := final_intent_version, rn_error_code := error_code,
           rn_message_outcome := Some (if failed then MO_FAILED else MO_COMPLETED),
           rn_required_user_action := (if failed then RA_RETRY else RA_NONE)\<rparr>)"

definition finish_run ::
  "TraceRuntime \<Rightarrow> uuid \<Rightarrow> uuid \<Rightarrow> agent_run_status \<Rightarrow> timestamp \<Rightarrow> int option \<Rightarrow> string option \<Rightarrow>
   TraceDb \<Rightarrow> (AgentRun \<times> TraceDb) outcome" where
  "finish_run rt event_id run_id status occurred_at final_intent_version error_code d =
     (case terminal_event_of status of
        None \<Rightarrow> Inl (Exn PyValueError ''finish status must be terminal'' [])
      | Some event_type \<Rightarrow>
          (case find_run run_id d of
             None \<Rightarrow> Inl (Exn TraceConflict ''trace run not found'' [])
           | Some run \<Rightarrow>
               if rn_status run \<noteq> AR_RUNNING
               then if rn_status run \<noteq> status
                    then Inl (Exn TraceConflict ''run already finished with another status'' [])
                    else Inr (run, d)
               else let finished = finished_run run status occurred_at final_intent_version error_code
                 in bindE (event_model rt event_id (Some finished)
                        (Some (rn_last_sequence finished))
                        (lifecycle_event rt run_id event_type
                           [(''run_status'', PStr (agent_run_status_value status)),
                            (''error_code'', opt_str error_code)] occurred_at))
                    (\<lambda>event. bindE (update_run finished d)
                    (\<lambda>d1. bindE (insert_event event d1) (\<lambda>d2. Inr (finished, d2))))))"

section \<open>Reading\<close>

definition get_run :: "uuid \<Rightarrow> TraceDb \<Rightarrow> AgentRun option" where
  "get_run run_id d = find_run run_id d"

text \<open>\<open>LIMIT\<close> and \<open>OFFSET\<close>.\<close>

definition page :: "nat \<Rightarrow> nat \<Rightarrow> 'a list \<Rightarrow> 'a list" where
  "page limit offset rows = take limit (drop offset rows)"

definition list_runs :: "uuid \<Rightarrow> nat \<Rightarrow> nat \<Rightarrow> TraceDb \<Rightarrow> AgentRun list" where
  "list_runs thread_id limit offset d = page limit offset
     (rev (sort_key (\<lambda>r. (rn_started_at r, rn_id r))
        (filter (\<lambda>r. rn_thread_id r = Some thread_id) (td_runs d))))"

definition sequence_of :: "AgentTraceEvent \<Rightarrow> int" where
  "sequence_of e = (case te_sequence_number e of None \<Rightarrow> 0 | Some n \<Rightarrow> n)"

definition list_events ::
  "uuid \<Rightarrow> trace_source option \<Rightarrow> nat \<Rightarrow> nat \<Rightarrow> TraceDb \<Rightarrow> AgentTraceEvent list" where
  "list_events run_id source limit offset d = page limit offset (sort_key sequence_of
     (filter (\<lambda>e. te_run_id e = Some run_id \<and> (case source of None \<Rightarrow> True | Some x \<Rightarrow> te_source e = x))
        (td_events d)))"

section \<open>The log of a run\<close>

definition run_log :: "uuid \<Rightarrow> TraceDb \<Rightarrow> AgentTraceEvent list" where
  "run_log run_id d = filter (\<lambda>e. te_run_id e = Some run_id) (td_events d)"

definition numbered :: "int \<Rightarrow> AgentTraceEvent list \<Rightarrow> bool" where
  "numbered n log \<longleftrightarrow> n = int (length log) \<and>
     map te_sequence_number log = map (\<lambda>i. Some (int i)) [1..<Suc (length log)]"

text \<open>A running run has no terminal event; a finished one has exactly one, the one of its status,
  and only audit sources speak after it.\<close>

definition terminated :: "agent_run_status \<Rightarrow> AgentTraceEvent list \<Rightarrow> bool" where
  "terminated status log \<longleftrightarrow>
     (if status = AR_RUNNING
      then \<forall>e \<in> set log. te_event_type e \<notin> set lifecycle_terminal_events
      else \<exists>pre e post. log = pre @ e # post \<and>
        Some (te_event_type e) = terminal_event_of status \<and>
        (\<forall>x \<in> set (pre @ post). te_event_type x \<notin> set lifecycle_terminal_events) \<and>
        (\<forall>x \<in> set post. te_source x \<in> post_terminal_audit_sources))"

definition run_ok :: "AgentRun \<Rightarrow> AgentTraceEvent list \<Rightarrow> bool" where
  "run_ok r log \<longleftrightarrow> numbered (rn_last_sequence r) log \<and> terminated (rn_status r) log"

definition trace_ok :: "TraceDb \<Rightarrow> bool" where
  "trace_ok d \<longleftrightarrow> distinct (map rn_id (td_runs d)) \<and>
     distinct (map te_event_key (td_events d)) \<and>
     (\<forall>e \<in> set (td_events d). \<forall>i. te_run_id e = Some i \<longrightarrow> i \<in> rn_id ` set (td_runs d)) \<and>
     (\<forall>r \<in> set (td_runs d). run_ok r (run_log (rn_id r) d))"

lemma numbered_snoc:
  "numbered n log \<Longrightarrow> te_sequence_number e = Some (n + 1) \<Longrightarrow> numbered (n + 1) (log @ [e])"
  by (simp add: numbered_def)

lemma terminated_append:
  assumes "terminated status log" and "te_event_type e \<notin> set lifecycle_terminal_events"
    and "status \<noteq> AR_RUNNING \<longrightarrow> te_source e \<in> post_terminal_audit_sources"
  shows "terminated status (log @ [e])"
proof (cases "status = AR_RUNNING")
  case True
  then show ?thesis using assms by (auto simp: terminated_def)
next
  case False
  with assms(1) obtain pre t post where "log = pre @ t # post"
    "Some (te_event_type t) = terminal_event_of status"
    "\<forall>x \<in> set (pre @ post). te_event_type x \<notin> set lifecycle_terminal_events"
    "\<forall>x \<in> set post. te_source x \<in> post_terminal_audit_sources"
    by (auto simp: terminated_def)
  then show ?thesis
    using False assms(2,3) unfolding terminated_def if_not_P [OF False]
    by (rule_tac exI [of _ pre], rule_tac exI [of _ t], rule_tac exI [of _ "post @ [e]"]) auto
qed

lemma terminated_finish:
  assumes "terminated AR_RUNNING log" and "terminal_event_of status = Some (te_event_type e)"
  shows "terminated status (log @ [e])"
proof -
  have "status \<noteq> AR_RUNNING" using assms(2) by auto
  then show ?thesis
    using assms unfolding terminated_def
    by (simp, rule_tac exI [of _ log], rule_tac exI [of _ e], rule_tac exI [of _ "[]"]) simp
qed

text \<open>One more event of run \<open>i\<close>, whose row alone may change.\<close>

lemma trace_ok_extend:
  assumes ok: "trace_ok d"
    and events: "td_events d' = td_events d @ [e]" "te_run_id e = Some i"
      "te_event_key e \<notin> te_event_key ` set (td_events d)"
    and runs: "distinct (map rn_id (td_runs d'))" "i \<in> rn_id ` set (td_runs d')"
      "rn_id ` set (td_runs d) \<subseteq> rn_id ` set (td_runs d')"
    and rows: "\<And>r. r \<in> set (td_runs d') \<Longrightarrow> r \<in> set (td_runs d) \<and> rn_id r \<noteq> i \<or>
      rn_id r = i \<and> run_ok r (run_log i d @ [e])"
  shows "trace_ok d'"
proof -
  have log: "run_log j d' = (if j = i then run_log i d @ [e] else run_log j d)" for j
    using events(1,2) by (simp add: run_log_def)
  have "run_ok r (run_log (rn_id r) d')" if "r \<in> set (td_runs d')" for r
    using rows [OF that] ok log by (auto simp: trace_ok_def)
  moreover have "j \<in> rn_id ` set (td_runs d')" if "x \<in> set (td_events d')" "te_run_id x = Some j" for x j
    using that ok events runs unfolding trace_ok_def by (auto simp: subset_iff)
  ultimately show ?thesis
    using ok events runs by (auto simp: trace_ok_def)
qed

lemma insert_event_Inr [inversion_simps]:
  "insert_event e d = Inr d' \<longleftrightarrow> first_failed (event_insert_checks e d) = None \<and>
     d' = d\<lparr>td_events := td_events d @ [e]\<rparr>"
  by (auto simp: insert_event_def split: option.splits)

lemma insert_run_Inr [inversion_simps]:
  "insert_run r d = Inr d' \<longleftrightarrow> first_failed (run_insert_checks r d) = None \<and>
     d' = d\<lparr>td_runs := td_runs d @ [r]\<rparr>"
  by (auto simp: insert_run_def split: option.splits)

lemma update_run_Inr [inversion_simps]:
  "update_run r d = Inr d' \<longleftrightarrow> first_failed (run_row_checks r) = None \<and>
     d' = d\<lparr>td_runs := map (\<lambda>x. if rn_id x = rn_id r then r else x) (td_runs d)\<rparr>"
  by (auto simp: update_run_def split: option.splits)

lemma event_insert_checks_key:
  "first_failed (event_insert_checks e d) = None \<Longrightarrow> te_event_key e \<notin> te_event_key ` set (td_events d)"
  by (simp add: event_insert_checks_def)

lemma event_model_fields:
  assumes "event_model rt event_id run sequence command = Inr e"
  shows "te_run_id e = map_option rn_id run \<and> te_sequence_number e = sequence \<and>
    te_event_type e = ae_event_type command \<and> te_source e = ae_source command \<and>
    te_event_key e = ae_event_key command"
  using assms by (auto simp: event_model_def inversion_simps)

lemma finished_run_fields [simp]:
  "rn_id (finished_run run status t v c) = rn_id run"
  "rn_last_sequence (finished_run run status t v c) = rn_last_sequence run + 1"
  "rn_status (finished_run run status t v c) = status"
  by (simp_all add: finished_run_def Let_def)

lemma find_run_Some: "find_run i d = Some r \<Longrightarrow> r \<in> set (td_runs d) \<and> rn_id r = i"
  by (auto simp: find_run_def dest: find_Some_set)

lemma find_run_None: "find_run i d = None \<longleftrightarrow> i \<notin> rn_id ` set (td_runs d)"
  by (auto simp: find_run_def find_None_iff)

lemma map_replace_ids:
  "map rn_id (map (\<lambda>x. if rn_id x = rn_id r then r else x) xs) = map rn_id xs"
  by simp

text \<open>A run that gains one event and one row update keeps the log sound.\<close>

lemma trace_ok_advance:
  assumes ok: "trace_ok d" and run: "find_run i d = Some run"
    and new: "rn_id run' = i" "rn_last_sequence run' = rn_last_sequence run + 1"
    and e: "te_run_id e = Some i" "te_sequence_number e = Some (rn_last_sequence run + 1)"
      "te_event_key e \<notin> te_event_key ` set (td_events d)"
    and stop: "terminated (rn_status run) (run_log i d) \<Longrightarrow>
      terminated (rn_status run') (run_log i d @ [e])"
  shows "trace_ok (d\<lparr>td_runs := map (\<lambda>x. if rn_id x = i then run' else x) (td_runs d),
    td_events := td_events d @ [e]\<rparr>)"
proof -
  have r: "run \<in> set (td_runs d)" "rn_id run = i" using find_run_Some [OF run] by simp_all
  then have old: "run_ok run (run_log i d)" using ok by (auto simp: trace_ok_def)
  then have now: "run_ok run' (run_log i d @ [e])"
    using new e(2) stop by (simp add: run_ok_def numbered_snoc)
  have ids: "map rn_id (map (\<lambda>x. if rn_id x = i then run' else x) (td_runs d)) = map rn_id (td_runs d)"
    using new(1) by simp
  let ?d = "d\<lparr>td_runs := map (\<lambda>x. if rn_id x = i then run' else x) (td_runs d),
    td_events := td_events d @ [e]\<rparr>"
  have runs: "td_runs ?d = map (\<lambda>x. if rn_id x = i then run' else x) (td_runs d)" by simp
  have set: "rn_id ` set (td_runs ?d) = rn_id ` set (td_runs d)"
    unfolding runs using arg_cong [OF ids, of set] by (simp only: set_map)
  show ?thesis
  proof (rule trace_ok_extend [OF ok _ e(1) e(3)])
    show "distinct (map rn_id (td_runs ?d))"
      unfolding runs ids using ok by (simp add: trace_ok_def)
    show "i \<in> rn_id ` set (td_runs ?d)" "rn_id ` set (td_runs d) \<subseteq> rn_id ` set (td_runs ?d)"
      unfolding set using r by auto
  qed (use new(1) now in \<open>auto split: if_splits\<close>)
qed

lemma start_run_ok:
  assumes "trace_ok d" and "start_run rt event_id command d = Inr (run, d')"
  shows "trace_ok d'"
proof (cases "find_run (sr_run_id command) d")
  case None
  let ?i = "sr_run_id command"
  obtain e where e: "te_run_id e = Some ?i" "te_sequence_number e = Some 1" "te_event_type e = ''run_started''"
    and run: "run = started_run command"
    and checks: "first_failed (run_insert_checks run d) = None"
    and key: "te_event_key e \<notin> te_event_key ` set (td_events d)"
    and d': "d' = d\<lparr>td_runs := td_runs d @ [run], td_events := td_events d @ [e]\<rparr>"
    using assms(2) None
    by (fastforce simp: start_run_def Let_def inversion_simps started_run_def lifecycle_event_def
        dest!: event_insert_checks_key event_model_fields)
  have "run_log ?i d = []"
    using assms(1) None by (auto simp: trace_ok_def find_run_None run_log_def filter_empty_conv)
  then have "run_ok run (run_log ?i d @ [e])"
    using e run by (simp add: run_ok_def numbered_def terminated_def started_run_def
        lifecycle_terminal_events_def)
  moreover have "\<forall>r \<in> set (td_runs d). rn_id r \<noteq> ?i"
    using None by (auto simp: find_run_None image_iff)
  ultimately show ?thesis
    using assms(1) e key run unfolding d'
    by (intro trace_ok_extend [OF assms(1), of _ e ?i])
      (auto simp: trace_ok_def started_run_def)
qed (use assms in \<open>simp add: start_run_def\<close>)

lemma append_trace_event_ok:
  assumes "trace_ok d" and "append_trace_event rt event_id command d = Inr (e, d')"
  shows "trace_ok d'"
proof (cases "event_by_key (ae_event_key command) d")
  case None
  show ?thesis
  proof (cases "ae_run_id command")
    case None
    then show ?thesis
      using assms \<open>event_by_key (ae_event_key command) d = None\<close>
      by (auto simp: append_trace_event_def inversion_simps trace_ok_def run_log_def
          dest!: event_insert_checks_key event_model_fields)
  next
    case (Some i)
    then obtain run where run: "find_run i d = Some run"
      using assms(2) \<open>event_by_key (ae_event_key command) d = None\<close>
      by (auto simp: append_trace_event_def split: option.splits)
    let ?run' = "run\<lparr>rn_last_sequence := rn_last_sequence run + 1\<rparr>"
    from assms(2) \<open>event_by_key (ae_event_key command) d = None\<close> Some run
    have e: "te_run_id e = Some i" "te_sequence_number e = Some (rn_last_sequence run + 1)"
      and type: "te_event_type e \<notin> set lifecycle_terminal_events"
      and source: "rn_status run \<noteq> AR_RUNNING \<longrightarrow> te_source e \<in> post_terminal_audit_sources"
      and key: "te_event_key e \<notin> te_event_key ` set (td_events d)"
      and d': "d' = d\<lparr>td_runs := map (\<lambda>x. if rn_id x = i then ?run' else x) (td_runs d),
        td_events := td_events d @ [e]\<rparr>"
      by (auto simp: append_trace_event_def Let_def inversion_simps dest!: event_insert_checks_key event_model_fields dest: find_run_Some
          split: if_splits)
    show ?thesis
      unfolding d' using find_run_Some [OF run] terminated_append [OF _ type source]
      by (intro trace_ok_advance [OF assms(1) run _ _ e key]) simp_all
  qed
qed (use assms in \<open>simp add: append_trace_event_def\<close>)

lemma finish_run_ok:
  assumes "trace_ok d"
    and "finish_run rt event_id i status occurred_at final_intent_version error_code d = Inr (r, d')"
  shows "trace_ok d'"
proof -
  from assms(2) obtain event_type run where type: "terminal_event_of status = Some event_type"
    and run: "find_run i d = Some run"
    by (auto simp: finish_run_def split: option.splits)
  show ?thesis
  proof (cases "rn_status run = AR_RUNNING")
    case True
    let ?run' = "finished_run run status occurred_at final_intent_version error_code"
    from assms(2) type run True obtain e
      where e: "te_run_id e = Some i" "te_sequence_number e = Some (rn_last_sequence run + 1)"
      and et: "te_event_type e = event_type"
      and key: "te_event_key e \<notin> te_event_key ` set (td_events d)"
      and d': "d' = d\<lparr>td_runs := map (\<lambda>x. if rn_id x = i then ?run' else x) (td_runs d),
        td_events := td_events d @ [e]\<rparr>"
      by (auto simp: finish_run_def Let_def inversion_simps lifecycle_event_def
          dest!: event_insert_checks_key event_model_fields dest: find_run_Some)
    have "terminated status (run_log i d @ [e])" if "terminated AR_RUNNING (run_log i d)"
      using terminated_finish [OF that] type et by simp
    then show ?thesis
      unfolding d' using find_run_Some [OF run] True
      by (intro trace_ok_advance [OF assms(1) run _ _ e key])
        simp_all
  next
    case False
    then show ?thesis using assms type run by (auto simp: finish_run_def split: if_splits)
  qed
qed

text \<open>The tables that calls of the runtime can lead to.\<close>

inductive trace_reachable :: "TraceRuntime \<Rightarrow> TraceDb \<Rightarrow> bool" for rt where
  empty: "trace_reachable rt \<lparr>td_runs = [], td_events = []\<rparr>"
| start: "trace_reachable rt d \<Longrightarrow> start_run rt event_id command d = Inr (run, d') \<Longrightarrow>
    trace_reachable rt d'"
| append: "trace_reachable rt d \<Longrightarrow> append_trace_event rt event_id command' d = Inr (e, d') \<Longrightarrow>
    trace_reachable rt d'"
| finish: "trace_reachable rt d \<Longrightarrow>
    finish_run rt event_id i status occurred_at final_intent_version error_code d = Inr (run, d') \<Longrightarrow>
    trace_reachable rt d'"

lemma trace_reachable_ok: "trace_reachable rt d \<Longrightarrow> trace_ok d"
proof (induction rule: trace_reachable.induct)
  case empty
  show ?case by (simp add: trace_ok_def)
qed (blast intro: start_run_ok append_trace_event_ok finish_run_ok)+

text \<open>C32: in every trace that the runtime can write, the events of a run are numbered 1, 2, 3,
  \<open>\<dots>\<close> without gap up to its \<open>last_sequence\<close>; a finished run has exactly one terminal event,
  the one of its status, after which only audit sources write; and event keys are unique.\<close>

theorem run_logs_sound:
  assumes "trace_reachable rt d" and "run \<in> set (td_runs d)"
  shows "numbered (rn_last_sequence run) (run_log (rn_id run) d) \<and>
    terminated (rn_status run) (run_log (rn_id run) d) \<and>
    distinct (map te_event_key (td_events d))"
  using trace_reachable_ok [OF assms(1)] assms(2) by (auto simp: trace_ok_def run_ok_def)

text \<open>A run that starts, calls a tool, completes and is followed by an event of the domain.\<close>

definition demo_runtime :: TraceRuntime where
  "demo_runtime = \<lparr>rt_sanitizer = \<lparr>sz_max_payload_bytes = 4096, sz_max_string_length = 64\<rparr>,
     rt_sha256 = (\<lambda>s. s)\<rparr>"

definition demo_start :: StartRun where
  "demo_start = \<lparr>sr_run_id = 7, sr_thread_id = None, sr_trace_id = 8, sr_trigger = RT_MESSAGE,
     sr_actor_type = ''RESIDENT'', sr_actor_id = 1, sr_user_id = Some 1, sr_property_id = None,
     sr_initial_intent_version = None, sr_started_at = 5\<rparr>"

definition demo_append :: "string \<Rightarrow> trace_source \<Rightarrow> AppendEvent" where
  "demo_append event_type source = \<lparr>ae_event_key = event_type, ae_run_id = Some 7,
     ae_thread_id = None, ae_trace_id = 8, ae_source = source, ae_event_type = event_type,
     ae_payload = [(''tool_name'', PStr ''find'')], ae_occurred_at = 6, ae_node_name = None,
     ae_operation_id = None\<rparr>"

definition state_of :: "('a \<times> TraceDb) outcome \<Rightarrow> TraceDb" where
  "state_of r = (case r of Inl _ \<Rightarrow> \<lparr>td_runs = [], td_events = []\<rparr> | Inr (_, d) \<Rightarrow> d)"

definition demo_trace1 :: TraceDb where
  "demo_trace1 = state_of (start_run demo_runtime 20 demo_start \<lparr>td_runs = [], td_events = []\<rparr>)"

definition demo_trace2 :: TraceDb where
  "demo_trace2 = state_of (append_trace_event demo_runtime 21 (demo_append ''tool'' SRC_AGENT) demo_trace1)"

definition demo_trace3 :: TraceDb where
  "demo_trace3 = state_of (finish_run demo_runtime 22 7 AR_COMPLETED 9 None None demo_trace2)"

definition demo_trace4 :: TraceDb where
  "demo_trace4 =
     state_of (append_trace_event demo_runtime 23 (demo_append ''domain'' SRC_DOMAIN) demo_trace3)"

definition succeeded :: "'a outcome \<Rightarrow> bool" where
  "succeeded r = (case r of Inl _ \<Rightarrow> False | Inr _ \<Rightarrow> True)"

lemma state_of_Inr: "succeeded r \<Longrightarrow> \<exists>x. r = Inr (x, state_of r)"
  by (auto simp: succeeded_def state_of_def split: sum.splits)

lemma demo_trace_reachable: "trace_reachable demo_runtime demo_trace4"
proof -
  have "succeeded (start_run demo_runtime 20 demo_start \<lparr>td_runs = [], td_events = []\<rparr>)"
    "succeeded (append_trace_event demo_runtime 21 (demo_append ''tool'' SRC_AGENT) demo_trace1)"
    "succeeded (finish_run demo_runtime 22 7 AR_COMPLETED 9 None None demo_trace2)"
    "succeeded (append_trace_event demo_runtime 23 (demo_append ''domain'' SRC_DOMAIN) demo_trace3)"
    by code_simp+
  then show ?thesis
    unfolding demo_trace4_def demo_trace3_def demo_trace2_def demo_trace1_def
    by (meson state_of_Inr trace_reachable.intros)
qed

theorem run_logs_sound_witness:
  "\<exists>run \<in> set (td_runs demo_trace4). rn_status run = AR_COMPLETED \<and> rn_last_sequence run = 4 \<and>
    terminated (rn_status run) (run_log (rn_id run) demo_trace4)"
proof -
  have "map (\<lambda>r. (rn_status r, rn_last_sequence r)) (td_runs demo_trace4) = [(AR_COMPLETED, 4)]"
    by code_simp
  then obtain run where "run \<in> set (td_runs demo_trace4)" "rn_status run = AR_COMPLETED"
    "rn_last_sequence run = 4"
    by (auto simp: map_eq_Cons_conv)
  with run_logs_sound [OF demo_trace_reachable, of run] show ?thesis by blast
qed

end
