(* ===== verification/Outbox.thy ===== *)
theory Outbox
  imports LeaseQueue Trace
begin

text \<open>
  Delivery of the transactional outbox, after \<open>backend/app/outbox/repository.py\<close> (claims and
  acknowledgements), \<open>consumer.py\<close> (the projection of a domain event into the trace) and
  \<open>dispatcher.py\<close> (one batch). The rows are those that the use cases insert (theory Store), the
  trace is that of theory Trace. Claims, projections and acknowledgements are separate transactions,
  so that other dispatchers run between them.
\<close>

section \<open>Repository\<close>

record ClaimQuery =
  cq_now :: timestamp
  cq_lease_seconds :: int
  cq_batch_size :: nat
  cq_locked :: "uuid set"

definition seconds_delta :: "int \<Rightarrow> timestamp" where
  "seconds_delta n = n * 1000000"

definition claim_eligible :: "timestamp \<Rightarrow> OutboxRow \<Rightarrow> bool" where
  "claim_eligible now r \<longleftrightarrow>
     ob_status r = OS_PENDING \<and> ob_available_at r \<le> now \<or>
     ob_status r = OS_PROCESSING \<and>
       (case ob_claim_expires_at r of None \<Rightarrow> False | Some t \<Rightarrow> t \<le> now)"

definition claim_order :: "OutboxRow \<Rightarrow> timestamp \<times> timestamp \<times> uuid" where
  "claim_order r = (ob_available_at r, ob_created_at r, de_event_id r)"

definition take_claim :: "string \<Rightarrow> timestamp \<Rightarrow> uuid \<Rightarrow> OutboxRow \<Rightarrow> OutboxRow" where
  "take_claim worker_id expires token r =
     r\<lparr>ob_status := OS_PROCESSING, ob_claimed_by := Some worker_id, ob_claim_token := Some token,
       ob_claim_expires_at := Some expires\<rparr>"

definition claim_batch ::
  "ClaimQuery \<Rightarrow> string \<Rightarrow> (nat \<Rightarrow> uuid) \<Rightarrow> OutboxRow list \<Rightarrow> OutboxRow list \<times> OutboxRow list" where
  "claim_batch query worker_id token rows =
     (let picked = select_rows
            (\<lambda>r. claim_eligible (cq_now query) r \<and> de_event_id r \<notin> cq_locked query)
            claim_order (cq_batch_size query) rows;
          expires = cq_now query + seconds_delta (cq_lease_seconds query);
          claimed = take_leases (take_claim worker_id expires) token picked
      in (claimed, replace_rows de_event_id claimed rows))"

text \<open>The predicate of both acknowledgements.\<close>

definition claim_held :: "uuid \<Rightarrow> string \<Rightarrow> uuid \<Rightarrow> OutboxRow \<Rightarrow> bool" where
  "claim_held event_id worker_id claim_token r \<longleftrightarrow>
     de_event_id r = event_id \<and> ob_status r = OS_PROCESSING \<and>
     ob_claimed_by r = Some worker_id \<and> ob_claim_token r = Some claim_token"

definition stale_claim :: exn where
  "stale_claim = Exn LeaseLost ''STALE_OUTBOX_CLAIM'' []"

definition dispatched_row :: "timestamp \<Rightarrow> OutboxRow \<Rightarrow> OutboxRow" where
  "dispatched_row occurred_at r =
     r\<lparr>ob_status := OS_DISPATCHED, ob_dispatched_at := Some occurred_at, ob_claimed_by := None,
       ob_claim_token := None, ob_claim_expires_at := None, ob_last_error_code := None,
       ob_last_error_message := None\<rparr>"

definition mark_dispatched ::
  "timestamp \<Rightarrow> uuid \<Rightarrow> string \<Rightarrow> uuid \<Rightarrow> OutboxRow list \<Rightarrow> OutboxRow list outcome" where
  "mark_dispatched occurred_at event_id worker_id claim_token rows =
     compare_and_set (claim_held event_id worker_id claim_token) (dispatched_row occurred_at)
       stale_claim rows"

record FailureReport =
  fr_occurred_at :: timestamp
  fr_error_code :: string
  fr_error_message :: string
  fr_max_attempts :: int
  fr_retry_base :: timestamp

text \<open>The delay before the next attempt doubles with every attempt.\<close>

definition failed_row :: "FailureReport \<Rightarrow> OutboxRow \<Rightarrow> OutboxRow" where
  "failed_row f r =
     (let next_attempt = ob_attempt_count r + 1; dead = fr_max_attempts f \<le> next_attempt
      in r\<lparr>ob_attempt_count := next_attempt, ob_last_error_code := Some (take 80 (fr_error_code f)),
          ob_last_error_message := Some (take 1000 (fr_error_message f)), ob_claimed_by := None,
          ob_claim_token := None, ob_claim_expires_at := None,
          ob_status := (if dead then OS_DEAD_LETTER else OS_PENDING),
          ob_available_at := (if dead then ob_available_at r
            else fr_occurred_at f + fr_retry_base f * 2 ^ nat (ob_attempt_count r))\<rparr>)"

definition mark_failed ::
  "FailureReport \<Rightarrow> uuid \<Rightarrow> string \<Rightarrow> uuid \<Rightarrow> OutboxRow list \<Rightarrow> OutboxRow list outcome" where
  "mark_failed f event_id worker_id claim_token rows =
     compare_and_set (claim_held event_id worker_id claim_token) (failed_row f) stale_claim rows"

section \<open>The projector\<close>

fun trace_event_type :: "domain_event_type \<Rightarrow> string" where
  "trace_event_type EV_TICKET_CREATED = ''domain_ticket_created''"
| "trace_event_type EV_TICKET_STATUS_CHANGED = ''domain_ticket_status_changed''"
| "trace_event_type EV_APPOINTMENT_BOOKED = ''domain_appointment_booked''"
| "trace_event_type EV_APPOINTMENT_RESCHEDULED = ''domain_appointment_rescheduled''"
| "trace_event_type EV_TICKET_ESCALATED = ''domain_ticket_escalated''"

text \<open>\<open>_TRACE_EVENT_TYPES.get\<close> on the text that the row holds; other writers of the table use other texts.\<close>

definition lookup_event_type :: "string \<Rightarrow> string outcome" where
  "lookup_event_type event_type =
     (case find (\<lambda>t. domain_event_type_value t = event_type)
         [EV_TICKET_CREATED, EV_TICKET_STATUS_CHANGED, EV_APPOINTMENT_BOOKED,
          EV_APPOINTMENT_RESCHEDULED, EV_TICKET_ESCALATED] of
        None \<Rightarrow> Inl (Exn UnsupportedOutboxEvent (''unsupported event type: '' @ event_type) [])
      | Some t \<Rightarrow> Inr (trace_event_type t))"

text \<open>\<open>dict.update\<close>: a key that is present keeps its place.\<close>

definition dict_set :: "string \<times> pval \<Rightarrow> (string \<times> pval) list \<Rightarrow> (string \<times> pval) list" where
  "dict_set item d =
     (if fst item \<in> fst ` set d then map (\<lambda>x. if fst x = fst item then item else x) d
      else d @ [item])"

text \<open>The JSONB column gives texts back for UUIDs and instants.\<close>

definition projected_payload :: "'a DomainEvent_scheme \<Rightarrow> (string \<times> pval) list" where
  "projected_payload event = fold dict_set
     [(''aggregate_type'', PStr (aggregate_type_value (de_aggregate_type event))),
      (''aggregate_id'', PStr (uuid_text (de_aggregate_id event))),
      (''aggregate_version'', PInt (de_aggregate_version event)),
      (''operation_id'', PStr (uuid_text (de_operation_id event)))]
     (map (\<lambda>(k, v). (k, json_value v)) (de_payload event))"

definition outbox_event_key :: "'a DomainEvent_scheme \<Rightarrow> string" where
  "outbox_event_key event = ''outbox:'' @ de_event_key event"

definition projection :: "string \<Rightarrow> 'a DomainEvent_scheme \<Rightarrow> trace_payload \<Rightarrow> AppendEvent" where
  "projection event_type event payload =
     \<lparr>ae_event_key = outbox_event_key event, ae_run_id = de_run_id event,
      ae_thread_id = de_thread_id event, ae_trace_id = de_trace_id event,
      ae_source = SRC_DOMAIN, ae_event_type = event_type,
      ae_payload = payload, ae_occurred_at = de_occurred_at event, ae_node_name = None,
      ae_operation_id = Some (de_operation_id event)\<rparr>"

definition consume ::
  "TraceRuntime \<Rightarrow> uuid \<Rightarrow> 'a DomainEvent_scheme \<Rightarrow> TraceDb \<Rightarrow> (AgentTraceEvent \<times> TraceDb) outcome"
where
  "consume rt trace_event_id event d =
     bindE (lookup_event_type (domain_event_type_value (de_event_type event)))
     (\<lambda>event_type. bindE (validate_payload (projected_payload event))
     (\<lambda>payload. append_trace_event rt trace_event_id (projection event_type event payload) d))"

lemma lookup_domain_event [simp]: "lookup_event_type (domain_event_type_value t) = Inr (trace_event_type t)"
  by (cases t) (simp_all add: lookup_event_type_def)

section \<open>The dispatcher\<close>

record OutboxDispatcher =
  od_worker_id :: string
  od_lease_seconds :: int
  od_batch_size :: nat
  od_max_attempts :: int
  od_retry_base :: timestamp

record OutboxWorld =
  ow_rows :: "OutboxRow list"
  ow_trace :: TraceDb

fun exn_class_name :: "exn_class \<Rightarrow> string" where
  "exn_class_name ValidationError = ''ValidationError''"
| "exn_class_name TraceConflict = ''TraceConflict''"
| "exn_class_name UnsafeTracePayload = ''UnsafeTracePayload''"
| "exn_class_name UnsupportedOutboxEvent = ''UnsupportedOutboxEvent''"
| "exn_class_name IntegrityError = ''IntegrityError''"
| "exn_class_name _ = ''Exception''"

definition failure_report :: "OutboxDispatcher \<Rightarrow> timestamp \<Rightarrow> exn \<Rightarrow> FailureReport" where
  "failure_report dispatcher now e =
     \<lparr>fr_occurred_at = now, fr_error_code = exn_class_name (exn_class e),
      fr_error_message = ''consumer delivery failed'',
      fr_max_attempts = od_max_attempts dispatcher, fr_retry_base = od_retry_base dispatcher\<rparr>"

text \<open>
  What a dispatcher draws from its surroundings: the clock, the tokens and trace identifiers of
  \<open>uuid4\<close>, the rows that other transactions hold locked, and what other processes do between the
  projection of an event and its acknowledgement.
\<close>

record Surroundings =
  su_clock :: "nat \<Rightarrow> timestamp"
  su_token :: "OutboxWorld \<Rightarrow> nat \<Rightarrow> uuid"
  su_trace_id :: "TraceDb \<Rightarrow> uuid"
  su_locked :: "uuid set"
  su_others :: "nat \<Rightarrow> OutboxWorld \<Rightarrow> OutboxWorld"

definition acknowledge ::
  "(uuid \<Rightarrow> string \<Rightarrow> uuid \<Rightarrow> OutboxRow list \<Rightarrow> OutboxRow list outcome) \<Rightarrow> OutboxDispatcher \<Rightarrow>
   OutboxRow \<Rightarrow> OutboxWorld \<Rightarrow> unit outcome \<times> OutboxWorld" where
  "acknowledge settle dispatcher event world =
     (case ob_claim_token event of
        None \<Rightarrow> (Inl (Exn ValidationError ''claim_token'' []), world)
      | Some claim_token \<Rightarrow>
          (case settle (de_event_id event) (od_worker_id dispatcher) claim_token (ow_rows world) of
             Inl e \<Rightarrow> (Inl e, world)
           | Inr rows \<Rightarrow> (Inr (), world\<lparr>ow_rows := rows\<rparr>)))"

definition deliver ::
  "OutboxDispatcher \<Rightarrow> TraceRuntime \<Rightarrow> Surroundings \<Rightarrow> nat \<Rightarrow> OutboxRow \<Rightarrow> OutboxWorld \<Rightarrow>
   unit outcome \<times> OutboxWorld" where
  "deliver dispatcher rt su i event world =
     (case consume rt (su_trace_id su (ow_trace world)) event (ow_trace world) of
        Inl e \<Rightarrow> acknowledge (mark_failed (failure_report dispatcher (su_clock su (Suc i)) e))
          dispatcher event (su_others su i world)
      | Inr (_, trace) \<Rightarrow> acknowledge (mark_dispatched (su_clock su (Suc i)))
          dispatcher event (su_others su i (world\<lparr>ow_trace := trace\<rparr>)))"

text \<open>The \<open>for\<close> loop; an acknowledgement that raises leaves it.\<close>

fun deliver_all ::
  "OutboxDispatcher \<Rightarrow> TraceRuntime \<Rightarrow> Surroundings \<Rightarrow> nat \<Rightarrow> OutboxRow list \<Rightarrow> OutboxWorld \<Rightarrow>
   unit outcome \<times> OutboxWorld" where
  "deliver_all dispatcher rt su i [] world = (Inr (), world)"
| "deliver_all dispatcher rt su i (event # events) world =
     (case deliver dispatcher rt su i event world of
        (Inl e, world') \<Rightarrow> (Inl e, world')
      | (Inr _, world') \<Rightarrow> deliver_all dispatcher rt su (Suc i) events world')"

definition dispatch_once ::
  "OutboxDispatcher \<Rightarrow> TraceRuntime \<Rightarrow> Surroundings \<Rightarrow> OutboxWorld \<Rightarrow> nat outcome \<times> OutboxWorld" where
  "dispatch_once dispatcher rt su world =
     (let (events, rows) = claim_batch
            \<lparr>cq_now = su_clock su 0, cq_lease_seconds = od_lease_seconds dispatcher,
             cq_batch_size = od_batch_size dispatcher, cq_locked = su_locked su\<rparr>
            (od_worker_id dispatcher) (su_token su world) (ow_rows world);
          (r, world') = deliver_all dispatcher rt su 0 events (world\<lparr>ow_rows := rows\<rparr>)
      in (bindE r (\<lambda>_. Inr (length events)), world'))"

text \<open>\<open>run_forever\<close> for a number of rounds; an error of a round ends the process.\<close>

fun run_rounds ::
  "nat \<Rightarrow> OutboxDispatcher \<Rightarrow> TraceRuntime \<Rightarrow> Surroundings \<Rightarrow> OutboxWorld \<Rightarrow> unit outcome \<times> OutboxWorld"
where
  "run_rounds 0 dispatcher rt su world = (Inr (), world)"
| "run_rounds (Suc n) dispatcher rt su world =
     (case dispatch_once dispatcher rt su world of
        (Inl e, world') \<Rightarrow> (Inl e, world')
      | (Inr _, world') \<Rightarrow> run_rounds n dispatcher rt su world')"

section \<open>The contract of a leased table\<close>

definition claim_holder :: "OutboxRow \<Rightarrow> (string \<times> uuid) option" where
  "claim_holder r =
     (if ob_status r \<noteq> OS_PROCESSING then None
      else case (ob_claimed_by r, ob_claim_token r) of (Some w, Some t) \<Rightarrow> Some (w, t) | _ \<Rightarrow> None)"

text \<open>Both ways of giving a claim back.\<close>

definition settle_claim ::
  "timestamp + FailureReport \<Rightarrow> uuid \<Rightarrow> string \<Rightarrow> uuid \<Rightarrow> OutboxRow list \<Rightarrow> OutboxRow list outcome" where
  "settle_claim how = (case how of Inl now \<Rightarrow> mark_dispatched now | Inr f \<Rightarrow> mark_failed f)"

lemma claim_held_holder:
  "claim_held i w t r \<longleftrightarrow> de_event_id r = i \<and> claim_holder r = Some (w, t)"
  by (auto simp: claim_held_def claim_holder_def split: option.splits)

lemma written_rows [simp]:
  "de_event_id (take_claim w e t r) = de_event_id r"
  "de_event_id (dispatched_row now r) = de_event_id r"
  "de_event_id (failed_row f r) = de_event_id r"
  "de_event_key (take_claim w e t r) = de_event_key r"
  "de_event_key (dispatched_row now r) = de_event_key r"
  "de_event_key (failed_row f r) = de_event_key r"
  "claim_holder (take_claim w e t r) = Some (w, t)"
  "claim_holder (dispatched_row now r) = None"
  "claim_holder (failed_row f r) = None"
  by (simp_all add: take_claim_def dispatched_row_def failed_row_def claim_holder_def Let_def)

lemma settle_claim_Inr [inversion_simps]:
  "settle_claim how i w t rows = Inr rows' \<longleftrightarrow>
     (\<exists>r \<in> set rows. claim_held i w t r) \<and>
     rows' = map (\<lambda>r. if claim_held i w t r
       then (case how of Inl now \<Rightarrow> dispatched_row now r | Inr f \<Rightarrow> failed_row f r) else r) rows"
  by (cases how)
    (simp_all add: settle_claim_def mark_dispatched_def mark_failed_def inversion_simps cong: if_cong)

lemma claim_batch_rows:
  assumes "claim_batch q w token rows = (cs, rows')"
  obtains picked where "cs = take_leases (take_claim w (cq_now q + seconds_delta (cq_lease_seconds q))) token picked"
    and "rows' = replace_rows de_event_id cs rows" and "set picked \<subseteq> set rows"
    and "\<forall>r \<in> set picked. claim_eligible (cq_now q) r"
proof
  let ?p = "\<lambda>r. claim_eligible (cq_now q) r \<and> de_event_id r \<notin> cq_locked q"
  let ?picked = "select_rows ?p claim_order (cq_batch_size q) rows"
  show "cs = take_leases (take_claim w (cq_now q + seconds_delta (cq_lease_seconds q))) token ?picked"
    "rows' = replace_rows de_event_id cs rows"
    using assms by (auto simp: claim_batch_def Let_def)
  show "set ?picked \<subseteq> set rows" "\<forall>r \<in> set ?picked. claim_eligible (cq_now q) r"
    using select_rows_set by fast+
qed

lemma replace_rows_ids:
  "map key (replace_rows key changed rows) = map key rows"
  by (auto simp: replace_rows_def dest!: find_Some_set split: option.splits)

interpretation outbox: leased_table de_event_id claim_holder claim_batch settle_claim
proof
  fix q w token rows cs rows' i
  assume claim: "claim_batch q w token rows = (cs, rows')"
  then obtain picked where p: "cs = take_leases (take_claim w (cq_now q + seconds_delta (cq_lease_seconds q))) token picked"
    "rows' = replace_rows de_event_id cs rows" "set picked \<subseteq> set rows"
    by (rule claim_batch_rows)
  show "map de_event_id rows' = map de_event_id rows" using p by (simp add: replace_rows_ids)
  show "claim_holder (cs ! i) = Some (w, token i)" if "i < length cs"
    using that p(1) by (simp add: take_leases_nth)
  show "r' \<in> set rows \<or> (\<exists>i < length cs. r' = cs ! i)"
    if "distinct (map de_event_id rows)" "r' \<in> set rows'" for r'
    using replaced_leases [of de_event_id, OF _ that(1) p(3) that(2) [unfolded p(2) p(1)]] p(1)
    by (auto simp: take_leases_nth)
next
  fix a i w t rows rows' r'
  assume settle: "settle_claim a i w t rows = Inr rows'"
  then show "\<exists>r \<in> set rows. de_event_id r = i \<and> claim_holder r = Some (w, t)"
    by (auto simp: inversion_simps claim_held_holder)
  show "map de_event_id rows' = map de_event_id rows"
    using settle by (auto simp: inversion_simps split: sum.splits)
  show "r' \<in> set rows \<and> \<not> (de_event_id r' = i \<and> claim_holder r' = Some (w, t)) \<or>
      de_event_id r' = i \<and> claim_holder r' = None" if "r' \<in> set rows'"
    using settle that by (auto simp: inversion_simps claim_held_holder split: sum.splits if_splits)
qed

text \<open>Fencing. Whatever dispatchers claim and acknowledge, in any order and with leases that
  expire, no claim of an outbox row is acknowledged twice, no two rows are held under one token, and
  a token that was acknowledged holds no row.\<close>

lemma outbox_claims_acknowledged_once:
  assumes "lease_history de_event_id claim_holder claim_batch settle_claim rows issued acked"
  shows "distinct acked \<and> set acked \<subseteq> issued \<and>
    (\<forall>r \<in> set rows. \<forall>w t. claim_holder r = Some (w, t) \<longrightarrow> t \<notin> set acked) \<and>
    (\<forall>r \<in> set rows. \<forall>r' \<in> set rows. \<forall>w w' t. claim_holder r = Some (w, t) \<longrightarrow>
       claim_holder r' = Some (w', t) \<longrightarrow> r = r')"
  using outbox.acknowledged_once [OF assms] unfolding outbox.tokens_ok_def by blast

end
