(* ===== verification/Delivery.thy ===== *)
theory Delivery
  imports Outbox Demo
begin

text \<open>
  What the outbox dispatchers of \<open>backend/app/outbox/\<close> achieve together. The first part lets
  any number of them interleave with the use cases, with other writers of the trace and with
  crashes, one transaction at a time, and shows that a dispatched event is in the trace exactly once.
  The second part runs one dispatcher and shows that it drains the table.
\<close>

section \<open>Interleaved dispatchers\<close>

text \<open>A claimed event in the memory of a dispatcher: not yet consumed, projected, or refused by the
  consumer.\<close>

datatype flight_stage = Waiting | Projected | Refused exn

record Flight =
  fl_dispatcher :: OutboxDispatcher
  fl_event :: OutboxRow
  fl_stage :: flight_stage

record Delivery = OutboxWorld +
  dl_flights :: "Flight list"

inductive delivery_step :: "int \<Rightarrow> TraceRuntime \<Rightarrow> Delivery \<Rightarrow> Delivery \<Rightarrow> bool" for max_attempts rt where
  emit: "first_failed (outbox_insert_checks (outbox_row_of env event) d) = None \<Longrightarrow>
    db_outbox d = ow_rows s \<Longrightarrow>
    delivery_step max_attempts rt s (s\<lparr>ow_rows := ow_rows s @ [outbox_row_of env event]\<rparr>)"
| claim: "claim_batch query (od_worker_id dispatcher) token (ow_rows s) = (cs, rows) \<Longrightarrow>
    od_max_attempts dispatcher = max_attempts \<Longrightarrow>
    delivery_step max_attempts rt s (s\<lparr>ow_rows := rows, dl_flights := dl_flights s @
      map (\<lambda>e. \<lparr>fl_dispatcher = dispatcher, fl_event = e, fl_stage = Waiting\<rparr>) cs\<rparr>)"
| project: "dl_flights s = fs @ f # gs \<Longrightarrow> fl_stage f = Waiting \<Longrightarrow>
    consume rt trace_id (fl_event f) (ow_trace s) = Inr (e, trace) \<Longrightarrow>
    delivery_step max_attempts rt s
      (s\<lparr>ow_trace := trace, dl_flights := fs @ f\<lparr>fl_stage := Projected\<rparr> # gs\<rparr>)"
| refuse: "dl_flights s = fs @ f # gs \<Longrightarrow> fl_stage f = Waiting \<Longrightarrow>
    consume rt trace_id (fl_event f) (ow_trace s) = Inl err \<Longrightarrow>
    delivery_step max_attempts rt s (s\<lparr>dl_flights := fs @ f\<lparr>fl_stage := Refused err\<rparr> # gs\<rparr>)"
| dispatched: "dl_flights s = fs @ f # gs \<Longrightarrow> fl_stage f = Projected \<Longrightarrow>
    ob_claim_token (fl_event f) = Some t \<Longrightarrow>
    mark_dispatched now (de_event_id (fl_event f)) (od_worker_id (fl_dispatcher f)) t (ow_rows s) =
      Inr rows \<Longrightarrow>
    delivery_step max_attempts rt s (s\<lparr>ow_rows := rows, dl_flights := fs @ gs\<rparr>)"
| failed: "dl_flights s = fs @ f # gs \<Longrightarrow> fl_stage f = Refused err \<Longrightarrow>
    ob_claim_token (fl_event f) = Some t \<Longrightarrow>
    mark_failed (failure_report (fl_dispatcher f) now err) (de_event_id (fl_event f))
      (od_worker_id (fl_dispatcher f)) t (ow_rows s) = Inr rows \<Longrightarrow>
    delivery_step max_attempts rt s (s\<lparr>ow_rows := rows, dl_flights := fs @ gs\<rparr>)"
| lost: "dl_flights s = fs @ f # gs \<Longrightarrow> delivery_step max_attempts rt s (s\<lparr>dl_flights := fs @ gs\<rparr>)"
| run_started: "start_run rt event_id start (ow_trace s) = Inr (run, trace) \<Longrightarrow>
    delivery_step max_attempts rt s (s\<lparr>ow_trace := trace\<rparr>)"
| event_appended: "append_trace_event rt event_id command (ow_trace s) = Inr (e, trace) \<Longrightarrow>
    delivery_step max_attempts rt s (s\<lparr>ow_trace := trace\<rparr>)"
| run_finished: "finish_run rt event_id i status now version code (ow_trace s) = Inr (run, trace) \<Longrightarrow>
    delivery_step max_attempts rt s (s\<lparr>ow_trace := trace\<rparr>)"

inductive delivery_reachable :: "int \<Rightarrow> TraceRuntime \<Rightarrow> Delivery \<Rightarrow> bool" for max_attempts rt where
  start: "delivery_reachable max_attempts rt
    \<lparr>ow_rows = [], ow_trace = \<lparr>td_runs = [], td_events = []\<rparr>, dl_flights = []\<rparr>"
| step: "delivery_reachable max_attempts rt s \<Longrightarrow> delivery_step max_attempts rt s s' \<Longrightarrow>
    delivery_reachable max_attempts rt s'"

section \<open>Facts of the single transactions\<close>

definition trace_keys :: "TraceDb \<Rightarrow> string set" where
  "trace_keys d = te_event_key ` set (td_events d)"

lemma append_trace_event_keys:
  assumes "append_trace_event rt i command d = Inr (e, d')"
  shows "trace_keys d \<subseteq> trace_keys d' \<and> ae_event_key command \<in> trace_keys d'"
proof (cases "event_by_key (ae_event_key command) d")
  case (Some x)
  then have "x \<in> set (td_events d)" "te_event_key x = ae_event_key command"
    by (auto simp: event_by_key_def dest: find_Some_set)
  then show ?thesis using assms Some by (force simp: append_trace_event_def trace_keys_def)
next
  case None
  then show ?thesis
    using assms by (cases "ae_run_id command")
      (auto simp: append_trace_event_def Let_def inversion_simps trace_keys_def image_Un
        dest!: event_model_fields split: option.splits if_splits)
qed

lemma start_run_keys: "start_run rt i command d = Inr (r, d') \<Longrightarrow> trace_keys d \<subseteq> trace_keys d'"
  by (auto simp: start_run_def Let_def inversion_simps trace_keys_def split: option.splits)

lemma finish_run_keys:
  "finish_run rt i run_id status now v c d = Inr (r, d') \<Longrightarrow> trace_keys d \<subseteq> trace_keys d'"
  by (auto simp: finish_run_def Let_def inversion_simps trace_keys_def
      split: option.splits if_splits)

lemma consume_Inr:
  assumes "consume rt i event d = Inr (e, d')"
  shows "trace_keys d \<subseteq> trace_keys d' \<and> outbox_event_key event \<in> trace_keys d'"
    and "trace_ok d \<Longrightarrow> trace_ok d'"
proof -
  from assms obtain payload where "append_trace_event rt i (projection (trace_event_type (de_event_type event)) event payload) d = Inr (e, d')"
    by (auto simp: consume_def inversion_simps)
  then show "trace_keys d \<subseteq> trace_keys d' \<and> outbox_event_key event \<in> trace_keys d'"
    and "trace_ok d \<Longrightarrow> trace_ok d'"
    using append_trace_event_keys [of rt i "projection (trace_event_type (de_event_type event)) event payload" d e d'] append_trace_event_ok
    by (simp_all add: projection_def)
qed

section \<open>The invariant\<close>

text \<open>The check constraints of the table, the count of attempts, and that a dispatched row is in the
  trace.\<close>

definition outbox_row_ok :: "int \<Rightarrow> string set \<Rightarrow> OutboxRow \<Rightarrow> bool" where
  "outbox_row_ok max_attempts keys r \<longleftrightarrow>
     (ob_status r = OS_PROCESSING \<longleftrightarrow> ob_claimed_by r \<noteq> None) \<and>
     (ob_status r = OS_PROCESSING \<longleftrightarrow> ob_claim_token r \<noteq> None) \<and>
     (ob_status r = OS_PROCESSING \<longleftrightarrow> ob_claim_expires_at r \<noteq> None) \<and>
     (ob_status r = OS_DISPATCHED \<longleftrightarrow> ob_dispatched_at r \<noteq> None) \<and>
     0 \<le> ob_attempt_count r \<and>
     (if ob_status r = OS_DEAD_LETTER then ob_attempt_count r = max_attempts
      else ob_attempt_count r < max_attempts) \<and>
     (ob_status r = OS_DISPATCHED \<longrightarrow> outbox_event_key r \<in> keys)"

definition flight_ok :: "OutboxRow list \<Rightarrow> string set \<Rightarrow> int \<Rightarrow> Flight \<Rightarrow> bool" where
  "flight_ok rows keys max_attempts f \<longleftrightarrow>
     (de_event_id (fl_event f), de_event_key (fl_event f)) \<in>
       (\<lambda>r. (de_event_id r, de_event_key r)) ` set rows \<and>
     od_max_attempts (fl_dispatcher f) = max_attempts \<and>
     (fl_stage f = Projected \<longrightarrow> outbox_event_key (fl_event f) \<in> keys)"

definition delivery_ok :: "int \<Rightarrow> Delivery \<Rightarrow> bool" where
  "delivery_ok max_attempts s \<longleftrightarrow>
     distinct (map de_event_id (ow_rows s)) \<and> distinct (map de_event_key (ow_rows s)) \<and>
     trace_ok (ow_trace s) \<and>
     (\<forall>r \<in> set (ow_rows s). outbox_row_ok max_attempts (trace_keys (ow_trace s)) r) \<and>
     (\<forall>f \<in> set (dl_flights s). flight_ok (ow_rows s) (trace_keys (ow_trace s)) max_attempts f)"

lemma outbox_row_ok_mono:
  "outbox_row_ok m keys r \<Longrightarrow> keys \<subseteq> keys' \<Longrightarrow> outbox_row_ok m keys' r"
  by (auto simp: outbox_row_ok_def)

lemma flight_ok_mono:
  assumes "flight_ok rows keys m f" and "keys \<subseteq> keys'"
    and "map (\<lambda>r. (de_event_id r, de_event_key r)) rows =
      map (\<lambda>r. (de_event_id r, de_event_key r)) rows'"
  shows "flight_ok rows' keys' m f"
proof -
  have "(\<lambda>r. (de_event_id r, de_event_key r)) ` set rows =
      (\<lambda>r. (de_event_id r, de_event_key r)) ` set rows'"
    using arg_cong [OF assms(3), of set] by (simp only: set_map)
  then show ?thesis using assms(1,2) unfolding flight_ok_def by blast
qed

lemma delivery_ok_trace:
  assumes "delivery_ok m s" and "trace_ok trace" and "trace_keys (ow_trace s) \<subseteq> trace_keys trace"
    and "\<forall>f \<in> set flights. f \<in> set (dl_flights s) \<or>
      flight_ok (ow_rows s) (trace_keys trace) m f"
  shows "delivery_ok m (s\<lparr>ow_trace := trace, dl_flights := flights\<rparr>)"
  using assms flight_ok_mono [OF _ assms(3) refl] outbox_row_ok_mono
  by (fastforce simp: delivery_ok_def)

text \<open>A table that keeps identities and whose rows are all sound.\<close>

lemma delivery_ok_rows:
  assumes ok: "delivery_ok m s"
    and ids: "map (\<lambda>r. (de_event_id r, de_event_key r)) rows =
      map (\<lambda>r. (de_event_id r, de_event_key r)) (ow_rows s)"
    and rows: "\<forall>r \<in> set rows. r \<in> set (ow_rows s) \<or> outbox_row_ok m (trace_keys (ow_trace s)) r"
    and flights: "\<forall>f \<in> set flights. f \<in> set (dl_flights s) \<or>
      flight_ok (ow_rows s) (trace_keys (ow_trace s)) m f"
  shows "delivery_ok m (s\<lparr>ow_rows := rows, dl_flights := flights\<rparr>)"
proof -
  have "map de_event_id rows = map de_event_id (ow_rows s)"
    using arg_cong [OF ids, of "map fst"] by (simp add: comp_def)
  moreover have "map de_event_key rows = map de_event_key (ow_rows s)"
    using arg_cong [OF ids, of "map snd"] by (simp add: comp_def)
  moreover have "flight_ok rows (trace_keys (ow_trace s)) m f" if "f \<in> set flights" for f
    using flights that ok flight_ok_mono [OF _ subset_refl ids [symmetric]]
    by (auto simp: delivery_ok_def)
  ultimately show ?thesis
    using ok rows by (auto simp: delivery_ok_def)
qed

lemma settled_rows:
  assumes "compare_and_set (claim_held i w t) f stale rows = Inr rows'"
    and "\<And>r. de_event_id (f r) = de_event_id r" and "\<And>r. de_event_key (f r) = de_event_key r"
  shows "map (\<lambda>r. (de_event_id r, de_event_key r)) rows' =
      map (\<lambda>r. (de_event_id r, de_event_key r)) rows"
    and "\<forall>r' \<in> set rows'. r' \<in> set rows \<or> (\<exists>r \<in> set rows. claim_held i w t r \<and> r' = f r)"
  using assms by (auto simp: inversion_simps split: if_splits)

lemma dispatched_row_ok:
  "outbox_row_ok m keys r \<Longrightarrow> ob_status r = OS_PROCESSING \<Longrightarrow> outbox_event_key r \<in> keys \<Longrightarrow>
   outbox_row_ok m keys (dispatched_row now r)"
  by (auto simp: outbox_row_ok_def dispatched_row_def outbox_event_key_def)

lemma failed_row_ok:
  "outbox_row_ok m keys r \<Longrightarrow> ob_status r = OS_PROCESSING \<Longrightarrow> fr_max_attempts f = m \<Longrightarrow>
   outbox_row_ok m keys (failed_row f r)"
  by (auto simp: outbox_row_ok_def failed_row_def Let_def)

lemma take_claim_ok:
  "outbox_row_ok m keys r \<Longrightarrow> claim_eligible now r \<Longrightarrow> outbox_row_ok m keys (take_claim w e t r)"
  by (auto simp: outbox_row_ok_def claim_eligible_def take_claim_def split: option.splits)

lemma claim_batch_ok:
  assumes ok: "delivery_ok m s" and claim: "claim_batch q w token (ow_rows s) = (cs, rows)"
  shows "map (\<lambda>r. (de_event_id r, de_event_key r)) rows =
      map (\<lambda>r. (de_event_id r, de_event_key r)) (ow_rows s)"
    and "\<forall>r \<in> set rows. r \<in> set (ow_rows s) \<or> outbox_row_ok m (trace_keys (ow_trace s)) r"
    and "\<forall>c \<in> set cs. (de_event_id c, de_event_key c) \<in>
      (\<lambda>r. (de_event_id r, de_event_key r)) ` set (ow_rows s)"
proof -
  from claim obtain picked where
    p: "cs = take_leases (take_claim w (cq_now q + seconds_delta (cq_lease_seconds q))) token picked"
      "rows = replace_rows de_event_id cs (ow_rows s)" "set picked \<subseteq> set (ow_rows s)"
    and eligible: "\<forall>r \<in> set picked. claim_eligible (cq_now q) r"
    by (rule claim_batch_rows)
  have d: "distinct (map de_event_id (ow_rows s))" using ok by (simp add: delivery_ok_def)
  show "map (\<lambda>r. (de_event_id r, de_event_key r)) rows =
      map (\<lambda>r. (de_event_id r, de_event_key r)) (ow_rows s)"
    unfolding p(1,2) by (rule replaced_leases_map [OF _ _ d p(3)]) simp_all
  show "\<forall>r \<in> set rows. r \<in> set (ow_rows s) \<or> outbox_row_ok m (trace_keys (ow_trace s)) r"
  proof
    fix r
    assume "r \<in> set rows"
    from replaced_leases [of de_event_id, OF _ d p(3) this [unfolded p(2) p(1)]]
    consider "r \<in> set (ow_rows s)" | i where "i < length picked" "r = cs ! i"
      unfolding p(1) by auto
    then show "r \<in> set (ow_rows s) \<or> outbox_row_ok m (trace_keys (ow_trace s)) r"
    proof cases
      case 2
      then have "picked ! i \<in> set (ow_rows s)" "claim_eligible (cq_now q) (picked ! i)"
        using p(3) eligible nth_mem [of i picked] by auto
      then show ?thesis
        using 2 ok p(1) by (simp add: take_leases_nth delivery_ok_def take_claim_ok)
    qed simp
  qed
  show "\<forall>c \<in> set cs. (de_event_id c, de_event_key c) \<in>
      (\<lambda>r. (de_event_id r, de_event_key r)) ` set (ow_rows s)"
    using p(3) nth_mem unfolding p(1) by (force simp: take_leases_set image_iff)
qed

lemma delivery_step_ok:
  assumes "delivery_step m rt s s'" and ok: "delivery_ok m s" and "0 < m"
  shows "delivery_ok m s'"
  using assms(1)
proof cases
  case (emit env event d)
  let ?r = "outbox_row_of env event"
  have new: "de_event_id ?r \<notin> de_event_id ` set (ow_rows s)"
    "de_event_key ?r \<notin> de_event_key ` set (ow_rows s)"
    using emit(2,3) by (auto simp: outbox_insert_checks_def)
  have "outbox_row_ok m (trace_keys (ow_trace s)) ?r"
    using \<open>0 < m\<close> by (simp add: outbox_row_ok_def outbox_row_of_def DomainEvent.extend_def)
  moreover have "flight_ok (ow_rows s @ [?r]) (trace_keys (ow_trace s)) m f" if "f \<in> set (dl_flights s)" for f
    using ok that by (auto simp: delivery_ok_def flight_ok_def)
  ultimately show ?thesis
    using ok new unfolding emit(1) by (auto simp: delivery_ok_def)
next
  case (claim query dispatcher token cs rows)
  note rows = claim_batch_ok [OF ok claim(2)]
  show ?thesis
    unfolding claim(1)
    by (rule delivery_ok_rows [OF ok rows(1,2)]) (use rows(3) claim(3) in \<open>auto simp: flight_ok_def\<close>)
next
  case (project fs f gs trace_id e trace)
  have f: "flight_ok (ow_rows s) (trace_keys (ow_trace s)) m f"
    using ok project(2) by (simp add: delivery_ok_def)
  have "trace_ok trace" using consume_Inr(2) [OF project(4)] ok by (simp add: delivery_ok_def)
  moreover have keys: "trace_keys (ow_trace s) \<subseteq> trace_keys trace"
    "outbox_event_key (fl_event f) \<in> trace_keys trace"
    using consume_Inr(1) [OF project(4)] by simp_all
  moreover have "flight_ok (ow_rows s) (trace_keys trace) m (f\<lparr>fl_stage := Projected\<rparr>)"
    using flight_ok_mono [OF f keys(1) refl] keys(2) by (simp add: flight_ok_def)
  ultimately show ?thesis
    unfolding project(1) using project(2) by (intro delivery_ok_trace [OF ok]) auto
next
  case (refuse fs f gs trace_id err)
  have "flight_ok (ow_rows s) (trace_keys (ow_trace s)) m (f\<lparr>fl_stage := Refused err\<rparr>)"
    using ok refuse(2) by (simp add: delivery_ok_def flight_ok_def)
  then show ?thesis
    unfolding refuse(1) using ok refuse(2) by (auto simp: delivery_ok_def)
next
  case (dispatched fs f gs t now rows)
  let ?e = "fl_event f"
  have f: "flight_ok (ow_rows s) (trace_keys (ow_trace s)) m f"
    using ok dispatched(2) by (simp add: delivery_ok_def)
  note set = settled_rows [OF dispatched(5) [unfolded mark_dispatched_def]]
  have "outbox_row_ok m (trace_keys (ow_trace s)) (dispatched_row now r)"
    if r: "r \<in> set (ow_rows s)" "claim_held (de_event_id ?e) (od_worker_id (fl_dispatcher f)) t r" for r
  proof (rule dispatched_row_ok)
    show "outbox_row_ok m (trace_keys (ow_trace s)) r" using ok r by (simp add: delivery_ok_def)
    show "ob_status r = OS_PROCESSING" using r by (simp add: claim_held_def)
    obtain r' where "r' \<in> set (ow_rows s)" "de_event_id r' = de_event_id ?e"
      "de_event_key r' = de_event_key ?e"
      using f by (auto simp: flight_ok_def)
    then have "de_event_key r = de_event_key ?e"
      using ok r by (metis claim_held_def delivery_ok_def distinct_map inj_on_def)
    then show "outbox_event_key r \<in> trace_keys (ow_trace s)"
      using f dispatched(3) by (simp add: flight_ok_def outbox_event_key_def)
  qed
  with set(2) show ?thesis
    unfolding dispatched(1) by (intro delivery_ok_rows [OF ok set(1)]) (auto simp: dispatched(2))
next
  case (failed fs f gs err t now rows)
  have f: "flight_ok (ow_rows s) (trace_keys (ow_trace s)) m f"
    using ok failed(2) by (simp add: delivery_ok_def)
  note set = settled_rows [OF failed(5) [unfolded mark_failed_def]]
  have "outbox_row_ok m (trace_keys (ow_trace s))
      (failed_row (failure_report (fl_dispatcher f) now err) r)"
    if "r \<in> set (ow_rows s)"
      "claim_held (de_event_id (fl_event f)) (od_worker_id (fl_dispatcher f)) t r" for r
    using that ok f
    by (intro failed_row_ok) (auto simp: delivery_ok_def claim_held_def flight_ok_def failure_report_def)
  with set(2) show ?thesis
    unfolding failed(1) by (intro delivery_ok_rows [OF ok set(1)]) (auto simp: failed(2))
next
  case (lost fs f gs)
  then show ?thesis using ok by (auto simp: delivery_ok_def)
next
  case (run_started event_id start run trace)
  have "trace_ok trace" using start_run_ok [OF _ run_started(2)] ok by (simp add: delivery_ok_def)
  with delivery_ok_trace [OF ok _ start_run_keys [OF run_started(2)], of "dl_flights s"]
  show ?thesis unfolding run_started(1) by simp
next
  case (event_appended event_id command e trace)
  have "trace_ok trace" using append_trace_event_ok [OF _ event_appended(2)] ok by (simp add: delivery_ok_def)
  with delivery_ok_trace [OF ok, of trace "dl_flights s"] append_trace_event_keys [OF event_appended(2)]
  show ?thesis unfolding event_appended(1) by simp
next
  case (run_finished event_id i status now version code run trace)
  have "trace_ok trace" using finish_run_ok [OF _ run_finished(2)] ok by (simp add: delivery_ok_def)
  with delivery_ok_trace [OF ok _ finish_run_keys [OF run_finished(2)], of "dl_flights s"]
  show ?thesis unfolding run_finished(1) by simp
qed

lemma delivery_reachable_ok:
  "delivery_reachable m rt s \<Longrightarrow> 0 < m \<Longrightarrow> delivery_ok m s"
proof (induction rule: delivery_reachable.induct)
  case start
  then show ?case by (simp add: delivery_ok_def trace_ok_def)
next
  case (step s s')
  then show ?case by (blast intro: delivery_step_ok)
qed


section \<open>One dispatcher drains the table\<close>

text \<open>An event that the projector accepts: its payload validates and fits, and the run it names is
  known. Identifiers drawn for the trace are fresh, and nobody interferes.\<close>

definition deliverable :: "TraceRuntime \<Rightarrow> TraceDb \<Rightarrow> OutboxRow \<Rightarrow> bool" where
  "deliverable rt trace r \<longleftrightarrow>
     succeeded (bindE (validate_payload (projected_payload r)) (sanitize (rt_sanitizer rt))) \<and>
     (case de_run_id r of None \<Rightarrow> True | Some i \<Rightarrow> i \<in> rn_id ` set (td_runs trace))"

definition trace_live :: "TraceDb \<Rightarrow> bool" where
  "trace_live d \<longleftrightarrow> trace_ok d \<and> (\<forall>r \<in> set (td_runs d). first_failed (run_row_checks r) = None)"

definition undisturbed :: "Surroundings \<Rightarrow> bool" where
  "undisturbed su \<longleftrightarrow> (\<forall>d. su_trace_id su d \<notin> te_id ` set (td_events d)) \<and>
     su_locked su = {} \<and> (\<forall>i w. su_others su i w = w)"

lemma trace_event_type_plain:
  "trace_event_type k \<notin> set lifecycle_terminal_events"
  "trace_event_type k \<notin> set message_terminal_events"
  by (cases k; simp add: lifecycle_terminal_events_def message_terminal_events_def)+

lemma run_row_checks_advance:
  "first_failed (run_row_checks r) = None \<Longrightarrow>
   first_failed (run_row_checks (r\<lparr>rn_last_sequence := rn_last_sequence r + 1\<rparr>)) = None"
  by (auto simp: run_row_checks_def)

lemma replaced_run_ids:
  assumes "rn_id r' = i"
  shows "rn_id ` set (map (\<lambda>x. if rn_id x = i then r' else x) rs) = rn_id ` set rs"
proof -
  have "map rn_id (map (\<lambda>x. if rn_id x = i then r' else x) rs) = map rn_id rs"
    using assms by simp
  from arg_cong [OF this, of set] show ?thesis by (simp only: set_map)
qed

lemma next_sequence_free:
  assumes "trace_ok d" and "run \<in> set (td_runs d)" and "x \<in> set (td_events d)"
    and "te_run_id x = Some (rn_id run)"
  shows "te_sequence_number x \<noteq> Some (rn_last_sequence run + 1) \<and> 0 \<le> rn_last_sequence run"
proof -
  have "numbered (rn_last_sequence run) (run_log (rn_id run) d)"
    using assms(1,2) by (simp add: trace_ok_def run_ok_def)
  moreover have "x \<in> set (run_log (rn_id run) d)" using assms(3,4) by (simp add: run_log_def)
  then have "te_sequence_number x \<in> set (map te_sequence_number (run_log (rn_id run) d))" by simp
  ultimately show ?thesis unfolding numbered_def by (auto simp del: upt_Suc)
qed

lemma consume_succeeds:
  assumes live: "trace_live d" and "deliverable rt d r" and fresh: "i \<notin> te_id ` set (td_events d)"
  shows "\<exists>e d'. consume rt i r d = Inr (e, d') \<and> trace_live d' \<and>
    rn_id ` set (td_runs d') = rn_id ` set (td_runs d)"
proof -
  from assms(2) obtain payload cleaned where payload: "validate_payload (projected_payload r) = Inr payload"
    and cleaned: "sanitize (rt_sanitizer rt) payload = Inr cleaned"
    by (auto simp: deliverable_def succeeded_def bindE_def split: sum.splits)
  let ?c = "projection (trace_event_type (de_event_type r)) r payload"
  have ok: "trace_ok d" using live by (simp add: trace_live_def)
  show ?thesis
  proof (cases "event_by_key (ae_event_key ?c) d")
    case (Some x)
    then show ?thesis using live payload by (simp add: consume_def append_trace_event_def)
  next
    case None
    then have key: "ae_event_key ?c \<notin> te_event_key ` set (td_events d)"
      by (auto simp: event_by_key_def find_None_iff)
    show ?thesis
    proof (cases "de_run_id r")
      case no_run: None
      have "\<exists>e d'. consume rt i r d = Inr (e, d') \<and> td_runs d' = td_runs d"
        using None no_run payload cleaned key fresh trace_event_type_plain
        by (auto simp: consume_def append_trace_event_def projection_def event_model_def insert_event_def
            event_insert_checks_def one_per_run_def)
      then show ?thesis using live consume_Inr(2) unfolding trace_live_def by metis
    next
      case (Some j)
      then obtain run where run: "find_run j d = Some run"
        using assms(2) by (cases "find_run j d") (auto simp: deliverable_def find_run_None)
      note member = find_run_Some [OF run]
      let ?run = "run\<lparr>rn_last_sequence := rn_last_sequence run + 1\<rparr>"
      let ?d = "d\<lparr>td_runs := map (\<lambda>x. if rn_id x = j then ?run else x) (td_runs d)\<rparr>"
      have "first_failed (run_row_checks run) = None" using live member by (simp add: trace_live_def)
      then have update: "update_run ?run d = Inr ?d"
        using member run_row_checks_advance [of run] by (simp add: update_run_def)
      have ids: "rn_id ` set (td_runs ?d) = rn_id ` set (td_runs d)"
        using member replaced_run_ids [of ?run j "td_runs d"] by simp
      have last: "0 \<le> rn_last_sequence run"
        using ok member by (simp add: trace_ok_def run_ok_def numbered_def)
      obtain e where model: "event_model rt i (Some ?run) (Some (rn_last_sequence run + 1)) ?c = Inr e"
        and id: "te_id e = i"
        using cleaned by (simp add: event_model_def projection_def)
      have e: "te_run_id e = Some j" "te_sequence_number e = Some (rn_last_sequence run + 1)"
        "te_event_type e = trace_event_type (de_event_type r)" "te_event_key e = ae_event_key ?c"
        using event_model_fields [OF model] member by (simp_all add: projection_def)
      have "\<forall>x \<in> set (td_events d). te_run_id x = Some j \<longrightarrow>
          te_sequence_number x \<noteq> Some (rn_last_sequence run + 1)"
        using next_sequence_free [OF ok] member by blast
      then have "first_failed (event_insert_checks e ?d) = None"
        using e id fresh key last ids member trace_event_type_plain
        by (auto simp: event_insert_checks_def one_per_run_def)
      then have insert: "insert_event e ?d = Inr (?d\<lparr>td_events := td_events d @ [e]\<rparr>)"
        by (simp add: insert_event_def)
      have consumed: "consume rt i r d = Inr (e, ?d\<lparr>td_events := td_events d @ [e]\<rparr>)"
        using None Some run payload model update insert trace_event_type_plain
        by (simp add: consume_def append_trace_event_def projection_def Let_def
            post_terminal_audit_sources_def)
      moreover have "trace_ok (?d\<lparr>td_events := td_events d @ [e]\<rparr>)"
        using consume_Inr(2) [OF consumed ok] .
      moreover have "\<forall>r \<in> set (td_runs ?d). first_failed (run_row_checks r) = None"
        using live member run_row_checks_advance [of run] by (auto simp: trace_live_def)
      ultimately show ?thesis using ids by (simp add: trace_live_def)
    qed
  qed
qed

text \<open>The rows that are still to be delivered, by identity.\<close>

definition undelivered :: "OutboxWorld \<Rightarrow> uuid set" where
  "undelivered w = de_event_id ` {r \<in> set (ow_rows w). ob_status r \<noteq> OS_DISPATCHED}"

definition row_drainable :: "TraceRuntime \<Rightarrow> TraceDb \<Rightarrow> (OutboxRow \<Rightarrow> bool) \<Rightarrow> OutboxRow \<Rightarrow> bool" where
  "row_drainable rt trace p r \<longleftrightarrow>
     (if ob_status r = OS_DISPATCHED then outbox_event_key r \<in> trace_keys trace
      else p r \<and> deliverable rt trace r)"

definition drainable :: "TraceRuntime \<Rightarrow> (OutboxRow \<Rightarrow> bool) \<Rightarrow> OutboxWorld \<Rightarrow> bool" where
  "drainable rt p w \<longleftrightarrow> distinct (map de_event_id (ow_rows w)) \<and> trace_live (ow_trace w) \<and>
     (\<forall>r \<in> set (ow_rows w). row_drainable rt (ow_trace w) p r)"

definition claimed_by :: "OutboxDispatcher \<Rightarrow> OutboxRow \<Rightarrow> bool" where
  "claimed_by dispatcher r \<longleftrightarrow> ob_status r = OS_PROCESSING \<and>
     ob_claimed_by r = Some (od_worker_id dispatcher) \<and> ob_claim_token r \<noteq> None"

lemma deliver_one:
  assumes w: "drainable rt p w" and su: "undisturbed su"
    and e: "e \<in> set (ow_rows w)" "claimed_by dispatcher e"
  shows "\<exists>w'. deliver dispatcher rt su i e w = (Inr (), w') \<and> drainable rt p w' \<and>
    map de_event_id (ow_rows w') = map de_event_id (ow_rows w) \<and>
    (\<forall>r \<in> set (ow_rows w'). if de_event_id r = de_event_id e then ob_status r = OS_DISPATCHED
       else r \<in> set (ow_rows w)) \<and>
    (\<forall>r \<in> set (ow_rows w). de_event_id r \<noteq> de_event_id e \<longrightarrow> r \<in> set (ow_rows w'))"
proof -
  obtain t where t: "ob_claim_token e = Some t" using e(2) by (auto simp: claimed_by_def)
  let ?held = "claim_held (de_event_id e) (od_worker_id dispatcher) t"
  have uniq: "r = e" if "r \<in> set (ow_rows w)" "de_event_id r = de_event_id e" for r
    using w e(1) that by (auto simp: drainable_def distinct_map inj_on_def)
  have held: "?held r \<longleftrightarrow> de_event_id r = de_event_id e" if "r \<in> set (ow_rows w)" for r
    using uniq [OF that] e(2) t by (auto simp: claim_held_def claimed_by_def)
  have "deliverable rt (ow_trace w) e"
    using w e by (auto simp: drainable_def row_drainable_def claimed_by_def)
  then obtain x trace where consume: "consume rt (su_trace_id su (ow_trace w)) e (ow_trace w) = Inr (x, trace)"
    and live: "trace_live trace" and runs: "rn_id ` set (td_runs trace) = rn_id ` set (td_runs (ow_trace w))"
    using consume_succeeds w su by (metis drainable_def undisturbed_def)
  let ?new = "dispatched_row (su_clock su (Suc i))"
  let ?w = "w\<lparr>ow_trace := trace, ow_rows := map (\<lambda>r. if ?held r then ?new r else r) (ow_rows w)\<rparr>"
  have "deliver dispatcher rt su i e w = (Inr (), ?w)"
    using consume su t e(1) held
    by (auto simp: deliver_def acknowledge_def mark_dispatched_def compare_and_set_def undisturbed_def)
  moreover have "row_drainable rt trace p r" if "r \<in> set (ow_rows ?w)" for r
  proof -
    from that obtain r0 where r0: "r0 \<in> set (ow_rows w)" "r = (if ?held r0 then ?new r0 else r0)" by auto
    show ?thesis
    proof (cases "?held r0")
      case True
      then have "r0 = e" using held uniq r0(1) by blast
      then show ?thesis
        using r0 True consume_Inr(1) [OF consume]
        by (simp add: row_drainable_def dispatched_row_def outbox_event_key_def)
    next
      case False
      then show ?thesis
        using w r0 consume_Inr(1) [OF consume] runs
        by (auto simp: drainable_def row_drainable_def deliverable_def split: if_splits option.splits)
    qed
  qed
  then have "drainable rt p ?w"
    using w live by (simp add: drainable_def comp_def if_distrib cong: if_cong)
  ultimately show ?thesis
    using held by (intro exI [of _ ?w]) (auto simp: dispatched_row_def)
qed

lemma deliver_batch:
  assumes "drainable rt p w" and "undisturbed su" and "distinct (map de_event_id es)"
    and "\<forall>e \<in> set es. e \<in> set (ow_rows w) \<and> claimed_by dispatcher e"
  shows "\<exists>w'. deliver_all dispatcher rt su i es w = (Inr (), w') \<and> drainable rt p w' \<and>
    map de_event_id (ow_rows w') = map de_event_id (ow_rows w) \<and>
    (\<forall>r \<in> set (ow_rows w'). if de_event_id r \<in> de_event_id ` set es then ob_status r = OS_DISPATCHED
       else r \<in> set (ow_rows w))"
  using assms
proof (induction es arbitrary: i w)
  case (Cons e es)
  then obtain w1 where one: "deliver dispatcher rt su i e w = (Inr (), w1)" "drainable rt p w1"
    "map de_event_id (ow_rows w1) = map de_event_id (ow_rows w)"
    and rows1: "\<forall>r \<in> set (ow_rows w1). if de_event_id r = de_event_id e then ob_status r = OS_DISPATCHED
       else r \<in> set (ow_rows w)"
    and kept: "\<forall>r \<in> set (ow_rows w). de_event_id r \<noteq> de_event_id e \<longrightarrow> r \<in> set (ow_rows w1)"
    using deliver_one [of rt p w su e dispatcher i] by auto
  have "\<forall>x \<in> set es. x \<in> set (ow_rows w1) \<and> claimed_by dispatcher x"
    using Cons.prems(3,4) kept by (auto simp: image_iff)
  then obtain w2 where two: "deliver_all dispatcher rt su (Suc i) es w1 = (Inr (), w2)" "drainable rt p w2"
    "map de_event_id (ow_rows w2) = map de_event_id (ow_rows w1)"
    and rows2: "\<forall>r \<in> set (ow_rows w2). if de_event_id r \<in> de_event_id ` set es
       then ob_status r = OS_DISPATCHED else r \<in> set (ow_rows w1)"
    using Cons.IH [OF one(2) Cons.prems(2), of "Suc i"] Cons.prems(3) by auto
  have "if de_event_id r \<in> de_event_id ` set (e # es) then ob_status r = OS_DISPATCHED
      else r \<in> set (ow_rows w)" if "r \<in> set (ow_rows w2)" for r
    using rows1 rows2 that by (auto split: if_splits)
  then show ?case using one two by auto
qed simp

lemma take_claim_deliverable:
  "deliverable rt trace r \<Longrightarrow> deliverable rt trace (take_claim w e t r)"
  by (simp add: deliverable_def take_claim_def projected_payload_def)

lemma dispatch_round:
  assumes w: "drainable rt (claim_eligible (su_clock su 0)) w" and su: "undisturbed su"
    and batch: "0 < od_batch_size dispatcher"
  shows "\<exists>n w'. dispatch_once dispatcher rt su w = (Inr n, w') \<and>
    drainable rt (claim_eligible (su_clock su 0)) w' \<and>
    map de_event_id (ow_rows w') = map de_event_id (ow_rows w) \<and>
    undelivered w' \<subseteq> undelivered w \<and> (undelivered w \<noteq> {} \<longrightarrow> undelivered w' \<noteq> undelivered w)"
proof -
  let ?q = "\<lparr>cq_now = su_clock su 0, cq_lease_seconds = od_lease_seconds dispatcher,
    cq_batch_size = od_batch_size dispatcher, cq_locked = su_locked su\<rparr>"
  let ?p = "\<lambda>r. claim_eligible (su_clock su 0) r \<or> claimed_by dispatcher r"
  obtain cs rows where claim: "claim_batch ?q (od_worker_id dispatcher) (su_token su w) (ow_rows w) = (cs, rows)"
    by fastforce
  let ?sel = "select_rows (\<lambda>r. claim_eligible (su_clock su 0) r \<and> de_event_id r \<notin> su_locked su)
    claim_order (od_batch_size dispatcher) (ow_rows w)"
  let ?f = "take_claim (od_worker_id dispatcher)
    (su_clock su 0 + seconds_delta (od_lease_seconds dispatcher))"
  have cs: "cs = take_leases ?f (su_token su w) ?sel" and rows: "rows = replace_rows de_event_id cs (ow_rows w)"
    using claim by (auto simp: claim_batch_def Let_def)
  have sel: "r \<in> set (ow_rows w)" "claim_eligible (su_clock su 0) r" if "r \<in> set ?sel" for r
    using select_rows_set [OF that] by simp_all
  have d: "distinct (map de_event_id (ow_rows w))" using w by (simp add: drainable_def)
  have ids: "map de_event_id cs = map de_event_id ?sel"
    unfolding cs by (rule take_leases_map) simp
  have idset: "de_event_id ` set cs = de_event_id ` set ?sel"
    using arg_cong [OF ids, of set] by (simp only: set_map)
  have origin: "r \<in> set (ow_rows w) \<and> de_event_id r \<notin> de_event_id ` set ?sel \<or>
      (\<exists>i < length ?sel. r = cs ! i)" if "r \<in> set rows" for r
    using replaced_leases [of de_event_id ?f, OF _ d _ that [unfolded rows cs]] sel
    unfolding cs by fastforce
  have incs: "cs ! i \<in> set cs" if "i < length ?sel" for i
    using that unfolding cs by (intro nth_mem) (simp add: take_leases_nth(1))
  have fresh: "r \<in> set (ow_rows w) \<and> de_event_id r \<notin> de_event_id ` set ?sel"
    if "r \<in> set rows" "de_event_id r \<notin> de_event_id ` set cs" for r
    using origin [OF that(1)]
  proof
    assume "\<exists>i < length ?sel. r = cs ! i"
    then have "r \<in> set cs" using incs by blast
    then show ?thesis using that(2) by blast
  qed
  have claimed: "row_drainable rt (ow_trace w) ?p c \<and> claimed_by dispatcher c" if "c \<in> set cs" for c
  proof -
    from that obtain i where i: "i < length ?sel" "c = ?f (su_token su w i) (?sel ! i)"
      unfolding cs by (auto simp: take_leases_set)
    have "?sel ! i \<in> set (ow_rows w)" "claim_eligible (su_clock su 0) (?sel ! i)"
      using sel [OF nth_mem [OF i(1)]] by simp_all
    then have "row_drainable rt (ow_trace w) (claim_eligible (su_clock su 0)) (?sel ! i)"
      "ob_status (?sel ! i) \<noteq> OS_DISPATCHED"
      using w by (auto simp: drainable_def claim_eligible_def)
    then have "deliverable rt (ow_trace w) (?sel ! i)" by (simp add: row_drainable_def)
    then have "deliverable rt (ow_trace w) c" unfolding i(2) by (rule take_claim_deliverable)
    moreover have "claimed_by dispatcher c" unfolding i(2) by (simp add: claimed_by_def take_claim_def)
    moreover from this have "ob_status c \<noteq> OS_DISPATCHED" by (simp add: claimed_by_def)
    ultimately show ?thesis by (simp add: row_drainable_def)
  qed
  have "row_drainable rt (ow_trace w) ?p r" if r: "r \<in> set rows" for r
    using origin [OF r]
  proof
    assume "r \<in> set (ow_rows w) \<and> de_event_id r \<notin> de_event_id ` set ?sel"
    then have "row_drainable rt (ow_trace w) (claim_eligible (su_clock su 0)) r"
      using w by (simp add: drainable_def)
    then show ?thesis by (simp add: row_drainable_def split: if_splits)
  next
    assume "\<exists>i < length ?sel. r = cs ! i"
    then have "r \<in> set cs" using incs by blast
    then show ?thesis using claimed by blast
  qed
  then have "drainable rt ?p (w\<lparr>ow_rows := rows\<rparr>)"
    using w by (simp add: drainable_def rows replace_rows_ids)
  moreover have "\<forall>e \<in> set cs. e \<in> set (ow_rows (w\<lparr>ow_rows := rows\<rparr>)) \<and> claimed_by dispatcher e"
  proof
    fix e
    assume e: "e \<in> set cs"
    then obtain i where i: "i < length ?sel" "e = ?f (su_token su w i) (?sel ! i)"
      unfolding cs by (auto simp: take_leases_set)
    have "find (\<lambda>c. de_event_id c = de_event_id e) cs = Some e"
      using e select_rows_distinct [OF d] ids by (intro find_distinct_key) simp_all
    moreover have "?sel ! i \<in> set (ow_rows w)" "de_event_id (?sel ! i) = de_event_id e"
      using sel(1) [OF nth_mem [OF i(1)]] i(2) by simp_all
    ultimately have "e \<in> set rows" unfolding rows replace_rows_def by (force simp: image_iff)
    then show "e \<in> set (ow_rows (w\<lparr>ow_rows := rows\<rparr>)) \<and> claimed_by dispatcher e"
      using claimed [OF e] by simp
  qed
  moreover have "distinct (map de_event_id cs)" unfolding ids by (rule select_rows_distinct [OF d])
  ultimately obtain w' where run: "deliver_all dispatcher rt su 0 cs (w\<lparr>ow_rows := rows\<rparr>) = (Inr (), w')"
    and w': "drainable rt ?p w'" "map de_event_id (ow_rows w') = map de_event_id rows"
    and after: "\<forall>r \<in> set (ow_rows w'). if de_event_id r \<in> de_event_id ` set cs
      then ob_status r = OS_DISPATCHED else r \<in> set rows"
    using deliver_batch [OF _ su, of rt ?p "w\<lparr>ow_rows := rows\<rparr>" cs dispatcher 0]
    by (auto cong: if_cong)
  have old: "r \<in> set (ow_rows w) \<and> de_event_id r \<notin> de_event_id ` set ?sel"
    if "r \<in> set (ow_rows w')" "ob_status r \<noteq> OS_DISPATCHED" for r
  proof -
    have "de_event_id r \<notin> de_event_id ` set cs"
      using bspec [OF after that(1)] that(2) by (simp split: if_splits)
    moreover from this have "r \<in> set rows" using bspec [OF after that(1)] by simp
    ultimately show ?thesis using fresh by blast
  qed
  have "row_drainable rt (ow_trace w') (claim_eligible (su_clock su 0)) r" if r: "r \<in> set (ow_rows w')" for r
  proof (cases "ob_status r = OS_DISPATCHED")
    case False
    then have "claim_eligible (su_clock su 0) r"
      using old [OF r] w by (auto simp: drainable_def row_drainable_def)
    then show ?thesis using w'(1) r False by (auto simp: drainable_def row_drainable_def)
  qed (use w'(1) r in \<open>auto simp: drainable_def row_drainable_def\<close>)
  then have "drainable rt (claim_eligible (su_clock su 0)) w'" using w'(1) by (simp add: drainable_def)
  moreover have "undelivered w' \<subseteq> undelivered w - de_event_id ` set ?sel"
    using old by (auto simp: undelivered_def)
  moreover have "\<exists>i. i \<in> undelivered w \<and> i \<in> de_event_id ` set ?sel" if some: "undelivered w \<noteq> {}"
  proof -
    obtain r where "r \<in> set (ow_rows w)" "ob_status r \<noteq> OS_DISPATCHED"
      using some by (auto simp: undelivered_def)
    then have "claim_eligible (su_clock su 0) r \<and> de_event_id r \<notin> su_locked su"
      using w su by (auto simp: drainable_def row_drainable_def undisturbed_def)
    with \<open>r \<in> set (ow_rows w)\<close> have "?sel \<noteq> []" using batch by (rule select_rows_nonempty)
    then have member: "hd ?sel \<in> set ?sel" by simp
    have "ob_status (hd ?sel) \<noteq> OS_DISPATCHED"
      using sel(2) [OF member] by (auto simp: claim_eligible_def)
    then show ?thesis using sel(1) [OF member] member unfolding undelivered_def by blast
  qed
  moreover have "dispatch_once dispatcher rt su w = (Inr (length cs), w')"
    using claim run by (simp add: dispatch_once_def)
  moreover have "map de_event_id (ow_rows w') = map de_event_id (ow_rows w)"
    using w'(2) rows by (simp add: replace_rows_ids)
  ultimately show ?thesis by blast
qed

lemma drained_after:
  assumes "drainable rt (claim_eligible (su_clock su 0)) w" and "undisturbed su"
    and "0 < od_batch_size dispatcher" and "card (undelivered w) \<le> n"
  shows "\<exists>w'. run_rounds n dispatcher rt su w = (Inr (), w') \<and> undelivered w' = {} \<and>
    drainable rt (claim_eligible (su_clock su 0)) w' \<and>
    map de_event_id (ow_rows w') = map de_event_id (ow_rows w)"
  using assms
proof (induction n arbitrary: w)
  case 0
  then show ?case by (auto simp: undelivered_def)
next
  case (Suc n)
  then obtain k w1 where one: "dispatch_once dispatcher rt su w = (Inr k, w1)"
    "drainable rt (claim_eligible (su_clock su 0)) w1"
    "map de_event_id (ow_rows w1) = map de_event_id (ow_rows w)"
    and less: "undelivered w1 \<subseteq> undelivered w" "undelivered w \<noteq> {} \<longrightarrow> undelivered w1 \<noteq> undelivered w"
    using dispatch_round by blast
  have finite: "finite (undelivered w)" by (simp add: undelivered_def)
  have "card (undelivered w1) \<le> n"
  proof (cases "undelivered w = {}")
    case False
    then have "card (undelivered w1) < card (undelivered w)"
      using less finite by (auto intro: psubset_card_mono)
    then show ?thesis using Suc.prems(4) by simp
  qed (use less in auto)
  with Suc.IH [OF one(2) Suc.prems(2,3)] one show ?case by auto
qed

text \<open>C18: the dispatcher drains the table. When every row that is not yet dispatched is due and its
  event is one that the projector accepts, a dispatcher that nobody disturbs runs as many rounds as
  there are rows without an error, and then every row is dispatched and its event is in the trace,
  whatever the size of its batches.\<close>

theorem dispatcher_drains_outbox:
  assumes "drainable rt (claim_eligible (su_clock su 0)) w" and "undisturbed su"
    and "0 < od_batch_size dispatcher"
  shows "\<exists>w'. run_rounds (length (ow_rows w)) dispatcher rt su w = (Inr (), w') \<and>
    map de_event_id (ow_rows w') = map de_event_id (ow_rows w) \<and>
    (\<forall>r \<in> set (ow_rows w'). ob_status r = OS_DISPATCHED \<and>
       outbox_event_key r \<in> te_event_key ` set (td_events (ow_trace w')))"
proof -
  have "card (undelivered w) \<le> length (ow_rows w)"
  proof -
    have "card (undelivered w) \<le> card {r \<in> set (ow_rows w). ob_status r \<noteq> OS_DISPATCHED}"
      unfolding undelivered_def by (rule card_image_le) simp
    also have "\<dots> \<le> card (set (ow_rows w))" by (rule card_mono) auto
    also have "\<dots> \<le> length (ow_rows w)" by (rule card_length)
    finally show ?thesis .
  qed
  from drained_after [OF assms this] show ?thesis
    by (auto simp: undelivered_def drainable_def row_drainable_def trace_keys_def split: if_splits)
qed

section \<open>A delivery\<close>

text \<open>The report of the leak on its way from the outbox of the town to the trace.\<close>

definition demo_dispatcher :: OutboxDispatcher where
  "demo_dispatcher = \<lparr>od_worker_id = ''d1'', od_lease_seconds = 30, od_batch_size = 5,
     od_max_attempts = 3, od_retry_base = 1000000\<rparr>"

definition calm :: Surroundings where
  "calm = \<lparr>su_clock = (\<lambda>i. 50), su_token = (\<lambda>w i. 900 + i),
     su_trace_id = (\<lambda>d. Suc (Max (insert 0 (te_id ` set (td_events d))))), su_locked = {},
     su_others = (\<lambda>i w. w)\<rparr>"

definition town_world :: OutboxWorld where
  "town_world = \<lparr>ow_rows = db_outbox town_created, ow_trace = \<lparr>td_runs = [], td_events = []\<rparr>\<rparr>"

lemma calm_undisturbed: "undisturbed calm"
proof -
  have "Suc (Max (insert 0 (te_id ` set es))) \<notin> te_id ` set es" for es :: "AgentTraceEvent list"
  proof
    assume "Suc (Max (insert 0 (te_id ` set es))) \<in> te_id ` set es"
    then have "Suc (Max (insert 0 (te_id ` set es))) \<le> Max (insert 0 (te_id ` set es))"
      by (intro Max_ge) simp_all
    then show False by simp
  qed
  then show ?thesis by (simp add: undisturbed_def calm_def)
qed

lemma town_event_deliverable:
  "list_all (\<lambda>r. ob_status r \<noteq> OS_DISPATCHED \<and> claim_eligible 50 r \<and> de_run_id r = None \<and>
     succeeded (bindE (validate_payload (projected_payload r)) (sanitize (rt_sanitizer demo_runtime))))
     (ow_rows town_world) \<and> length (ow_rows town_world) = 1"
  by code_simp

lemma town_world_drainable: "drainable demo_runtime (claim_eligible (su_clock calm 0)) town_world"
proof -
  have "distinct (map de_event_id (ow_rows town_world))" by code_simp
  moreover have "trace_live (ow_trace town_world)"
    by (simp add: trace_live_def trace_ok_def town_world_def)
  ultimately show ?thesis
    using town_event_deliverable
    by (auto simp: drainable_def row_drainable_def deliverable_def list_all_iff calm_def)
qed

theorem dispatcher_drains_outbox_witness:
  "\<exists>w'. run_rounds 1 demo_dispatcher demo_runtime calm town_world = (Inr (), w') \<and>
    length (ow_rows w') = 1 \<and> (\<forall>r \<in> set (ow_rows w'). ob_status r = OS_DISPATCHED)"
proof -
  have "0 < od_batch_size demo_dispatcher" by (simp add: demo_dispatcher_def)
  from dispatcher_drains_outbox [OF town_world_drainable calm_undisturbed this]
  show ?thesis using town_event_deliverable by (metis length_map)
qed

definition town_event :: OutboxRow where "town_event = hd (db_outbox town_created)"

definition town_claimed :: "OutboxRow list" where
  "town_claimed = [take_claim ''d1'' 30000050 900 town_event]"

definition town_trace :: TraceDb where
  "town_trace = state_of (consume demo_runtime 1 (hd town_claimed) \<lparr>td_runs = [], td_events = []\<rparr>)"

lemma town_delivery_reachable:
  "delivery_reachable 3 demo_runtime
     \<lparr>ow_rows = map (dispatched_row 60) town_claimed, ow_trace = town_trace, dl_flights = []\<rparr>"
proof -
  let ?t0 = "\<lparr>td_runs = [], td_events = []\<rparr>"
  let ?fl = "\<lambda>x. \<lparr>fl_dispatcher = demo_dispatcher, fl_event = hd town_claimed, fl_stage = x\<rparr>"
  let ?ev = "DomainEvent.truncate town_event"
  have row: "outbox_row_of (demo_env 1 10) ?ev = town_event"
    and checks: "first_failed (outbox_insert_checks town_event town) = None"
    by code_simp+
  have "delivery_step 3 demo_runtime \<lparr>ow_rows = [], ow_trace = ?t0, dl_flights = []\<rparr>
      \<lparr>ow_rows = [town_event], ow_trace = ?t0, dl_flights = []\<rparr>"
    using delivery_step.emit [of "demo_env 1 10" ?ev town "\<lparr>ow_rows = [], ow_trace = ?t0, dl_flights = []\<rparr>"]
      checks row by (simp add: town_def)
  then have 1: "delivery_reachable 3 demo_runtime \<lparr>ow_rows = [town_event], ow_trace = ?t0, dl_flights = []\<rparr>"
    by (rule delivery_reachable.step [OF delivery_reachable.start])
  let ?s1 = "\<lparr>ow_rows = [town_event], ow_trace = ?t0, dl_flights = []\<rparr>"
  have "claim_batch \<lparr>cq_now = 50, cq_lease_seconds = 30, cq_batch_size = 5, cq_locked = {}\<rparr>
      (od_worker_id demo_dispatcher) (\<lambda>i. 900 + i) [town_event] = (town_claimed, town_claimed)"
    by code_simp
  then have "delivery_step 3 demo_runtime ?s1 (?s1\<lparr>ow_rows := town_claimed, dl_flights :=
      dl_flights ?s1 @ map (\<lambda>e. \<lparr>fl_dispatcher = demo_dispatcher, fl_event = e, fl_stage = Waiting\<rparr>)
        town_claimed\<rparr>)"
    by (intro delivery_step.claim) (simp_all add: demo_dispatcher_def)
  from delivery_reachable.step [OF 1 this]
  have 2: "delivery_reachable 3 demo_runtime
      \<lparr>ow_rows = town_claimed, ow_trace = ?t0, dl_flights = [?fl Waiting]\<rparr>"
    by (simp add: town_claimed_def)
  have "succeeded (consume demo_runtime 1 (hd town_claimed) ?t0)" by code_simp
  then obtain e where consumed: "consume demo_runtime 1 (hd town_claimed) ?t0 = Inr (e, town_trace)"
    unfolding town_trace_def by (auto dest: state_of_Inr)
  then have 3: "delivery_reachable 3 demo_runtime
      \<lparr>ow_rows = town_claimed, ow_trace = town_trace, dl_flights = [?fl Projected]\<rparr>"
    using delivery_reachable.step [OF 2 delivery_step.project [of _ "[]" "?fl Waiting" "[]"]] by simp
  have "mark_dispatched 60 (de_event_id (hd town_claimed)) ''d1'' 900 town_claimed =
      Inr (map (dispatched_row 60) town_claimed)"
    "ob_claim_token (hd town_claimed) = Some 900"
    by code_simp+
  then show ?thesis
    using delivery_reachable.step [OF 3 delivery_step.dispatched [of _ "[]" "?fl Projected" "[]" 900 60]]
    by (simp add: demo_dispatcher_def)
qed


text \<open>A lease that expires: the second dispatcher claims the row anew, and only its token counts.\<close>

lemma demo_lease_history:
  "lease_history de_event_id claim_holder claim_batch settle_claim
     (map (dispatched_row 60) town_claimed) {900} [900]"
proof -
  have "lease_history de_event_id claim_holder claim_batch settle_claim ([] @ [town_event]) {} []"
    by (intro lease_history.insert lease_history.empty) (code_simp+)
  moreover have "claim_batch \<lparr>cq_now = 50, cq_lease_seconds = 30, cq_batch_size = 5, cq_locked = {}\<rparr>
      ''d1'' (\<lambda>i. 900 + i) ([] @ [town_event]) = (town_claimed, town_claimed)"
    by code_simp
  ultimately have "lease_history de_event_id claim_holder claim_batch settle_claim town_claimed
      ({} \<union> (\<lambda>i. 900 + i) ` {..<length town_claimed}) []"
    by (rule lease_history.claim) (simp_all add: inj_def)
  moreover have "settle_claim (Inl 60) (de_event_id (hd town_claimed)) ''d1'' 900 town_claimed =
      Inr (map (dispatched_row 60) town_claimed)"
    by code_simp
  ultimately show ?thesis
    using lease_history.settle [of de_event_id claim_holder claim_batch settle_claim town_claimed "{900}"]
    by (auto simp: town_claimed_def lessThan_Suc)
qed


section \<open>A lost lease ends the dispatcher\<close>

text \<open>Whatever \<open>dispatch_once\<close> meets, an acknowledgement that finds its claim gone leaves the loop.\<close>

lemma lost_lease_leaves_loop:
  assumes consumed: "consume rt (su_trace_id su (ow_trace w)) e (ow_trace w) = Inr (x, trace)"
    and t: "ob_claim_token e = Some t"
    and lost: "\<forall>r \<in> set (ow_rows (su_others su i (w\<lparr>ow_trace := trace\<rparr>))).
      \<not> claim_held (de_event_id e) (od_worker_id dispatcher) t r"
  shows "deliver_all dispatcher rt su i (e # es) w =
    (Inl stale_claim, su_others su i (w\<lparr>ow_trace := trace\<rparr>))"
  using assms by (simp add: deliver_def acknowledge_def mark_dispatched_def compare_and_set_def)

text \<open>A stale claim stops the dispatcher. When the row of the first event of a batch is no longer
  held under its token at the acknowledgement, the error of \<open>mark_dispatched\<close> is raised out of
  \<open>dispatch_once\<close> and out of \<open>run_forever\<close>: no later event of the batch is consumed, and the
  process ends after that round.\<close>

lemma lost_lease_stops_dispatcher:
  assumes claim: "claim_batch
      \<lparr>cq_now = su_clock su 0, cq_lease_seconds = od_lease_seconds dispatcher,
       cq_batch_size = od_batch_size dispatcher, cq_locked = su_locked su\<rparr>
      (od_worker_id dispatcher) (su_token su w) (ow_rows w) = (e # es, rows)"
    and consumed: "consume rt (su_trace_id su (ow_trace w)) e (ow_trace w) = Inr (x, trace)"
    and lost: "\<forall>r \<in> set (ow_rows (su_others su 0 \<lparr>ow_rows = rows, ow_trace = trace\<rparr>)).
      \<not> claim_held (de_event_id e) (od_worker_id dispatcher) (su_token su w 0) r"
  shows "dispatch_once dispatcher rt su w =
      (Inl stale_claim, su_others su 0 \<lparr>ow_rows = rows, ow_trace = trace\<rparr>) \<and>
    run_rounds (Suc n) dispatcher rt su w =
      (Inl stale_claim, su_others su 0 \<lparr>ow_rows = rows, ow_trace = trace\<rparr>)"
proof -
  obtain picked where p: "e # es = take_leases (take_claim (od_worker_id dispatcher)
      (su_clock su 0 + seconds_delta (od_lease_seconds dispatcher))) (su_token su w) picked"
    using claim by (rule claim_batch_rows) simp
  have "picked \<noteq> []" using arg_cong [OF p, of length] by (auto simp: take_leases_nth(1))
  then have "e = take_claim (od_worker_id dispatcher)
      (su_clock su 0 + seconds_delta (od_lease_seconds dispatcher)) (su_token su w 0) (picked ! 0)"
    using arg_cong [OF p, of "\<lambda>xs. xs ! 0"] by (simp add: take_leases_nth(2))
  then have "ob_claim_token e = Some (su_token su w 0)" by (simp add: take_claim_def)
  note t = this
  have same: "w\<lparr>ow_rows := rows, ow_trace := trace\<rparr> = \<lparr>ow_rows = rows, ow_trace = trace\<rparr>"
    by (cases w) simp
  have "deliver_all dispatcher rt su 0 (e # es) (w\<lparr>ow_rows := rows\<rparr>) =
      (Inl stale_claim, su_others su 0 \<lparr>ow_rows = rows, ow_trace = trace\<rparr>)"
    by (rule lost_lease_leaves_loop [of rt su "w\<lparr>ow_rows := rows\<rparr>" e x trace, unfolded same, OF _ t lost])
      (simp add: consumed)
  then have "dispatch_once dispatcher rt su w =
      (Inl stale_claim, su_others su 0 \<lparr>ow_rows = rows, ow_trace = trace\<rparr>)"
    using claim by (simp add: dispatch_once_def)
  then show ?thesis by simp
qed

text \<open>A second dispatcher reclaims the report of the leak while the first one is projecting it.\<close>

definition overtaken :: Surroundings where
  "overtaken = calm\<lparr>su_others := (\<lambda>i w. w\<lparr>ow_rows := snd (claim_batch
     \<lparr>cq_now = 40000000, cq_lease_seconds = 30, cq_batch_size = 5, cq_locked = {}\<rparr>
     ''d2'' (\<lambda>i. 950 + i) (ow_rows w))\<rparr>)\<rparr>"


end
