(* ===== verification/EventPayloads.thy ===== *)
theory EventPayloads
  imports Journeys Outbox Demo
begin

text \<open>
  The use cases and the projector agree on the payloads of domain events: what
  \<open>backend/app/application/*_service.py\<close> puts into the outbox is accepted by the closed
  \<open>TracePayload\<close> that \<open>backend/app/outbox/consumer.py\<close> validates it against.
\<close>

section \<open>Sound events\<close>

text \<open>An item validates, or it is the text of a number that is too large for a UUID.\<close>

definition item_sound :: "string \<times> pval \<Rightarrow> bool" where
  "item_sound item \<longleftrightarrow> valid_trace_item item \<or>
     (map_of trace_fields (fst item) = Some FK_UUID \<and>
      (\<exists>u. snd item = PStr (uuid_text u) \<and> 2 ^ 128 \<le> u))"

definition event_sound :: "'a DomainEvent_scheme \<Rightarrow> bool" where
  "event_sound event \<longleftrightarrow> (\<forall>item \<in> set (projected_payload event). item_sound item)"

definition outbox_sound :: "db \<Rightarrow> bool" where
  "outbox_sound d \<longleftrightarrow> (\<forall>r \<in> set (db_outbox d). event_sound r)"

section \<open>The text of a UUID\<close>

lemma digit_char_hex: "d < 16 \<Longrightarrow> hex_char (digit_char d)"
proof -
  assume "d < 16"
  then have "digit_char d \<in> set ''0123456789abcdef''"
    unfolding digit_char_def by (intro nth_mem) simp
  then show ?thesis by (auto simp: hex_char_def)
qed

lemma base_text_hex: "list_all hex_char (base_text 16 n)"
proof (induction "16 :: nat" n rule: base_text.induct)
  case (1 n)
  show ?case
    by (subst base_text.simps) (use 1 digit_char_hex in \<open>simp add: list_all_append\<close>)
qed

lemma base_text_length: "n < 16 ^ Suc k \<Longrightarrow> length (base_text 16 n) \<le> Suc k"
proof (induction k arbitrary: n)
  case (Suc k)
  show ?case
  proof (cases "n < 16")
    case False
    have "n div 16 < 16 ^ Suc k" using Suc.prems by (simp add: less_mult_imp_div_less)
    then have "length (base_text 16 (n div 16)) \<le> Suc k" by (rule Suc.IH)
    then show ?thesis using False by (subst base_text.simps) simp
  qed (subst base_text.simps, simp)
qed (subst base_text.simps, simp)

lemma uuid_string_parts:
  assumes "length a = 8" "length b = 4" "length c = 4" "length d = 4" "length e = 12"
    and "list_all hex_char (a @ b @ c @ d @ e)"
  shows "uuid_string (a @ ''-'' @ b @ ''-'' @ c @ ''-'' @ d @ ''-'' @ e)"
  using assms by (simp add: uuid_string_def nth_append)

text \<open>The text of every 128-bit number is one that the validation of a UUID accepts.\<close>

lemma uuid_string_text:
  assumes "u < 2 ^ 128"
  shows "uuid_string (uuid_text u)"
proof -
  let ?h = "pad_left 32 (base_text 16 u)"
  have "u < 16 ^ Suc 31" using assms by simp
  then have "length (base_text 16 u) \<le> 32" using base_text_length [of u 31] by simp
  then have h: "length ?h = 32" by (simp add: pad_left_def)
  have "hex_char (CHR ''0'')" by (simp add: hex_char_def)
  then have hex: "list_all hex_char ?h"
    using base_text_hex [of u] by (auto simp: pad_left_def list_all_iff)
  then have "list_all hex_char (take 8 ?h @ take 4 (drop 8 ?h) @ take 4 (drop 12 ?h) @
      take 4 (drop 16 ?h) @ drop 20 ?h)"
    unfolding list_all_iff by (auto dest: in_set_takeD in_set_dropD)
  then show ?thesis
    unfolding uuid_text_def Let_def using h by (intro uuid_string_parts) simp_all
qed

section \<open>What the use cases emit\<close>

text \<open>Actions under which the outbox stays sound, whatever their outcome.\<close>

definition emits_sound :: "'a action \<Rightarrow> bool" where
  "emits_sound m \<longleftrightarrow> (\<forall>s. outbox_sound (se_working s) \<longrightarrow> outbox_sound (se_working (snd (m s))))"

lemma emits_sound_keeps: "keeps db_outbox m \<Longrightarrow> emits_sound m"
  by (simp add: keeps_def emits_sound_def outbox_sound_def)

lemma emits_sound_bindA:
  assumes "emits_sound m" and "\<And>x. emits_sound (f x)"
  shows "emits_sound (bindA m f)"
  unfolding emits_sound_def
proof (intro allI impI)
  fix s :: session
  assume "outbox_sound (se_working s)"
  moreover obtain r s1 where m: "m s = (r, s1)" by fastforce
  ultimately have "outbox_sound (se_working s1)"
    using assms(1) by (auto simp: emits_sound_def dest: spec [of _ s])
  then show "outbox_sound (se_working (snd (bindA m f s)))"
    using m assms(2) by (auto simp: bindA_def emits_sound_def split: sum.splits)
qed

lemma emits_sound_split:
  "emits_sound a \<Longrightarrow> emits_sound b \<Longrightarrow> emits_sound (if c then a else b)"
  "emits_sound a \<Longrightarrow> (\<And>x. emits_sound (h x)) \<Longrightarrow> emits_sound (case z of None \<Rightarrow> a | Some y \<Rightarrow> h y)"
  "(\<And>x. emits_sound (g x)) \<Longrightarrow> (\<And>y. emits_sound (k y)) \<Longrightarrow>
   emits_sound (case w of Inl x \<Rightarrow> g x | Inr y \<Rightarrow> k y)"
  by (simp_all split: option.splits sum.splits)

lemma item_sound_uuid: "map_of trace_fields k = Some FK_UUID \<Longrightarrow> item_sound (k, PStr (uuid_text u))"
  using uuid_string_text [of u]
  by (cases "u < 2 ^ 128") (auto simp: item_sound_def valid_trace_item_def field_accepts_def)

lemma item_sound_text: "map_of trace_fields k = Some FK_TEXT \<Longrightarrow> item_sound (k, PStr s)"
  by (simp add: item_sound_def valid_trace_item_def field_accepts_def)

definition payload_sound :: "(string \<times> pval) list \<Rightarrow> bool" where
  "payload_sound payload \<longleftrightarrow> (\<forall>item \<in> set payload. item_sound (fst item, json_value (snd item)))"

lemma dict_set_sound:
  "\<forall>x \<in> set d. item_sound x \<Longrightarrow> item_sound item \<Longrightarrow> \<forall>x \<in> set (dict_set item d). item_sound x"
  by (auto simp: dict_set_def)

lemma projected_payload_sound:
  assumes "payload_sound (de_payload event)" and "1 \<le> de_aggregate_version event"
  shows "event_sound event"
proof -
  have "\<forall>x \<in> set (map (\<lambda>(k, v). (k, json_value v)) (de_payload event)). item_sound x"
    using assms(1) by (auto simp: payload_sound_def)
  moreover have "item_sound (''aggregate_version'', PInt (de_aggregate_version event))"
    using assms(2) by (simp add: item_sound_def valid_trace_item_def field_accepts_def trace_fields_def)
  ultimately show ?thesis
    unfolding event_sound_def projected_payload_def fold.simps comp_def id_def
    by (intro dict_set_sound item_sound_uuid item_sound_text) (simp_all add: trace_fields_def)
qed

lemma emits_sound_outbox_add:
  assumes "payload_sound payload"
  shows "emits_sound (outbox_add env (build_domain_event env k ak i v metadata scope payload))"
  unfolding emits_sound_def
proof (intro allI impI)
  fix s :: session
  let ?e = "build_domain_event env k ak i v metadata scope payload"
  assume sound: "outbox_sound (se_working s)"
  have "event_sound (outbox_row_of env ?e)"
    if "first_failed (outbox_insert_checks (outbox_row_of env ?e) (se_working s)) = None"
    using that assms by (intro projected_payload_sound)
      (auto simp: outbox_insert_checks_def outbox_row_of_def build_domain_event_def
        DomainEvent.extend_def Let_def)
  then show "outbox_sound (se_working (snd (outbox_add env ?e s)))"
    using sound by (auto simp: outbox_add_def writeA_def outbox_sound_def split: option.splits)
qed

lemma payload_sound_items [simp]:
  "payload_sound []"
  "payload_sound ((k, v) # items) \<longleftrightarrow> item_sound (k, json_value v) \<and> payload_sound items"
  by (simp_all add: payload_sound_def)

lemma payload_fields:
  "item_sound (''status'', PStr x)" "item_sound (''issue_category'', PStr x)"
  "item_sound (''severity'', PStr x)" "item_sound (''from_status'', PStr x)"
  "item_sound (''to_status'', PStr x)" "item_sound (''action'', PStr x)"
  "item_sound (''reason_code'', PStr x)" "item_sound (''purpose'', PStr x)"
  "item_sound (''starts_at'', PStr x)" "item_sound (''ends_at'', PStr x)"
  "item_sound (''property_id'', PStr (uuid_text u))" "item_sound (''resident_id'', PStr (uuid_text u))"
  "item_sound (''ticket_id'', PStr (uuid_text u))" "item_sound (''worker_id'', PStr (uuid_text u))"
  "item_sound (''previous_appointment_id'', PStr (uuid_text u))"
  by (intro item_sound_text item_sound_uuid; simp add: trace_fields_def)+

lemma repository_emits_sound:
  "emits_sound (tickets_get i)" "emits_sound (tickets_add env t)"
  "emits_sound (tickets_update t v)" "emits_sound (tickets_add_history h)"
  "emits_sound (appointments_get i)" "emits_sound (latest_for_ticket i)"
  "emits_sound (active_for_ticket i)" "emits_sound (worker_can_service w p k b e)"
  "emits_sound (appointments_add env a)" "emits_sound (appointments_update s v x)"
  "emits_sound (appointments_add_history g)" "emits_sound (list_for_appointment i)"
  "emits_sound (get_by_external_key key)" "emits_sound (worker_events_add ev)"
  "emits_sound (authorize_ticket t md)" "emits_sound (queryA q)" "emits_sound (liftA r)"
  "emits_sound (returnA y)" "emits_sound (raiseA e')" "emits_sound (raise_ifA c e')"
  by (intro emits_sound_keeps; simp add: repository_defs frame_simps)+

lemma emits_sound_emit: "emits_sound (emit_ticket_status_changed env before after action md scope)"
  unfolding emit_ticket_status_changed_def
  by (intro emits_sound_outbox_add) (simp add: payload_fields)

lemmas emits_sound_intros = emits_sound_bindA emits_sound_split repository_emits_sound
  emits_sound_emit emits_sound_outbox_add

lemma handlers_emit_sound:
  "emits_sound (create_ticket_handler env c1 digest)"
  "emits_sound (review_repair_handler env c2 digest)"
  "emits_sound (escalate_ticket_handler env c3 digest)"
  "emits_sound (recover_ticket_handler env c4 digest)"
  "emits_sound (book_appointment_handler env c5 digest)"
  "emits_sound (reschedule_appointment_handler env c6 digest)"
  "emits_sound (record_worker_event_handler env c7 digest)"
  unfolding ticket_handler_defs appointment_handler_defs worker_event_handler_defs
  by (intro emits_sound_intros; simp add: payload_fields)+

lemma command_emits_sound: "emits_sound (command_handler env c digest)"
  by (cases c) (simp_all add: handlers_emit_sound)

lemma dispatch_outbox_sound:
  assumes "outbox_sound d"
  shows "outbox_sound (snd (dispatch env c d))"
proof (rule dispatch_keeps [where J = outbox_sound, OF assms])
  show "outbox_sound (d\<lparr>db_idempotency := x\<rparr>) = outbox_sound d" for d :: db and x
    by (simp add: outbox_sound_def)
  show "outbox_sound (se_working s')" if "outbox_sound (se_working s)"
    and "command_handler env c digest s = (Inr result, s')" for digest s s' result
    using command_emits_sound [of env c digest] that unfolding emits_sound_def by (metis snd_conv)
qed

lemma event_sound_validates:
  assumes "event_sound r"
    and "\<forall>u. PStr (uuid_text u) \<in> snd ` set (projected_payload r) \<longrightarrow> u < 2 ^ 128"
  shows "succeeded (validate_payload (projected_payload r))"
proof -
  have "valid_trace_item item" if "item \<in> set (projected_payload r)" for item
    using assms that unfolding event_sound_def item_sound_def
    by (metis image_eqI linorder_not_le)
  then show ?thesis by (simp add: validate_payload_def succeeded_def list_all_iff)
qed

text \<open>C19: the use cases and the projector agree. Starting from an outbox whose events the projector
  accepts, such as the empty one, whatever command is dispatched, every event that is in the outbox
  afterwards passes the strict validation of \<open>TracePayload\<close>: no unknown field, every field of
  its type, provided its identifiers are 128-bit numbers. No emitted event can be poison by shape.\<close>

theorem emitted_events_pass_validation:
  assumes "\<forall>r \<in> set (db_outbox d). event_sound r"
    and "r \<in> set (db_outbox (snd (dispatch env c d)))"
    and "\<forall>u. PStr (uuid_text u) \<in> snd ` set (projected_payload r) \<longrightarrow> u < 2 ^ 128"
  shows "event_sound r \<and> succeeded (validate_payload (projected_payload r))"
  using dispatch_outbox_sound [of d env c] assms event_sound_validates [of r]
  by (auto simp: outbox_sound_def)

lemma base_text_longer: "16 ^ k \<le> n \<Longrightarrow> Suc k \<le> length (base_text 16 n)"
proof (induction k arbitrary: n)
  case 0
  show ?case by (subst base_text.simps) simp
next
  case (Suc k)
  have "16 * 16 ^ k \<le> n" using Suc.prems by simp
  then have "16 ^ k \<le> n div 16" "\<not> n < 16"
    using one_le_power [of "16 :: nat" k] by (simp add: less_eq_div_iff_mult_less_eq, linarith)
  with Suc.IH [of "n div 16"] show ?case by (subst base_text.simps) simp
qed

lemma long_uuid_text: "2 ^ 128 \<le> u \<Longrightarrow> 36 < length (uuid_text u)"
  using base_text_longer [of 32 u] by (simp add: uuid_text_def Let_def pad_left_def)

theorem emitted_events_pass_validation_witness:
  "\<exists>r \<in> set (db_outbox (snd (dispatch (demo_env 1 10) (CreateTicket create_command) town))).
    succeeded (validate_payload (projected_payload r))"
proof -
  let ?r = "hd (db_outbox town_created)"
  have *: "list_all (\<lambda>v. case v of PStr s \<Rightarrow> length s \<le> 36 | _ \<Rightarrow> True) (map snd (projected_payload ?r))
      \<and> db_outbox town_created \<noteq> [] \<and> db_outbox town = []"
    by code_simp
  then have short: "length x \<le> 36" if "PStr x \<in> snd ` set (projected_payload ?r)" for x
    using that by (force simp: list_all_iff)
  have texts: "\<forall>u. PStr (uuid_text u) \<in> snd ` set (projected_payload ?r) \<longrightarrow> u < 2 ^ 128"
    using short long_uuid_text by (meson linorder_not_le)
  have member: "?r \<in> set (db_outbox (snd (dispatch (demo_env 1 10) (CreateTicket create_command) town)))"
    unfolding create_runs using * by simp
  have empty: "\<forall>r \<in> set (db_outbox town). event_sound r" using * by simp
  from emitted_events_pass_validation [OF empty member texts] member show ?thesis by blast
qed

end
