(* ===== verification/Evidence.thy ===== *)
theory Evidence
  imports Scenarios Journeys
begin

text \<open>
  The authoritative evidence of an operation whose answer was lost, after
  \<open>backend/app/reconciliation/evidence.py\<close> and \<open>validators.py\<close>, over the tables that the use
  cases write. A case (\<open>reconciliation/models.py\<close>) freezes who asked for what under which operation
  identity.
\<close>

section \<open>Cases and outcomes\<close>

datatype reconciliation_action =
  RC_CREATE_TICKET | RC_BOOK_APPOINTMENT | RC_RESCHEDULE_APPOINTMENT | RC_ESCALATE_TO_OPERATOR

fun reconciliation_action_value :: "reconciliation_action \<Rightarrow> string" where
  "reconciliation_action_value RC_CREATE_TICKET = ''CREATE_TICKET''"
| "reconciliation_action_value RC_BOOK_APPOINTMENT = ''BOOK_APPOINTMENT''"
| "reconciliation_action_value RC_RESCHEDULE_APPOINTMENT = ''RESCHEDULE_APPOINTMENT''"
| "reconciliation_action_value RC_ESCALATE_TO_OPERATOR = ''ESCALATE_TO_OPERATOR''"

datatype outcome_status = OUT_COMMITTED | OUT_NOT_COMMITTED | OUT_INCONSISTENT

fun outcome_status_value :: "outcome_status \<Rightarrow> string" where
  "outcome_status_value OUT_COMMITTED = ''COMMITTED''"
| "outcome_status_value OUT_NOT_COMMITTED = ''NOT_COMMITTED''"
| "outcome_status_value OUT_INCONSISTENT = ''INCONSISTENT''"

record SafeResult =
  sr_resource_type :: string
  sr_resource_id :: string
  sr_result :: ResponsePayload

record OperationOutcome =
  oo_status :: outcome_status
  oo_operation_id :: uuid
  oo_action :: reconciliation_action
  oo_safe_result :: "SafeResult option"
  oo_reason_code :: "string option"

record CreateCase =
  cc_operation_id :: uuid
  cc_action :: reconciliation_action
  cc_thread_id :: "uuid option"
  cc_original_run_id :: uuid
  cc_original_trace_id :: uuid
  cc_operation_idempotency_fingerprint :: string
  cc_request_fingerprint :: string
  cc_actor_type :: actor_type
  cc_actor_id :: uuid
  cc_user_id :: uuid
  cc_property_id :: uuid
  cc_target_entity_type :: "string option"
  cc_target_entity_id :: "uuid option"
  cc_expected_entity_version :: "int option"

section \<open>Validators\<close>

definition version_matches :: "int \<Rightarrow> ResponsePayload \<Rightarrow> bool" where
  "version_matches version payload \<longleftrightarrow> rp_resource_version payload = Some version"

definition validate_create_ticket :: "int \<Rightarrow> ResponsePayload \<Rightarrow> domain_event_type set \<Rightarrow> bool" where
  "validate_create_ticket version payload event_types \<longleftrightarrow>
     version_matches version payload \<and> EV_TICKET_CREATED \<in> event_types"

definition validate_book_appointment :: "int \<Rightarrow> ResponsePayload \<Rightarrow> domain_event_type set \<Rightarrow> bool" where
  "validate_book_appointment version payload event_types \<longleftrightarrow>
     version_matches version payload \<and> EV_APPOINTMENT_BOOKED \<in> event_types"

definition validate_reschedule_appointment ::
  "int \<Rightarrow> ResponsePayload \<Rightarrow> domain_event_type set \<Rightarrow> bool" where
  "validate_reschedule_appointment version payload event_types \<longleftrightarrow>
     version_matches version payload \<and> EV_APPOINTMENT_RESCHEDULED \<in> event_types"

definition validate_escalate_ticket :: "int \<Rightarrow> ResponsePayload \<Rightarrow> domain_event_type set \<Rightarrow> bool" where
  "validate_escalate_ticket version payload event_types \<longleftrightarrow>
     version_matches version payload \<and> EV_TICKET_ESCALATED \<in> event_types"

section \<open>The query\<close>

definition outcome_authorized :: "'a CreateCase_scheme \<Rightarrow> db \<Rightarrow> bool" where
  "outcome_authorized case_row d =
     (case find (\<lambda>u. us_id u = cc_user_id case_row) (db_users d) of
        None \<Rightarrow> False
      | Some user \<Rightarrow>
          if \<not> us_is_active user \<or> us_id user \<noteq> cc_actor_id case_row \<or>
             us_role user \<noteq> actor_type_value (cc_actor_type case_row) then False
          else if cc_actor_type case_row = ACT_OPERATOR then True
          else if cc_actor_type case_row \<noteq> ACT_RESIDENT then False
          else resident_has_property (cc_user_id case_row) (cc_property_id case_row) d)"

datatype entity = ETicket TicketSnapshot | EAppointment AppointmentSnapshot

fun entity_version :: "entity \<Rightarrow> int" where
  "entity_version (ETicket t) = ts_version t"
| "entity_version (EAppointment a) = as_version a"

fun entity_ticket :: "db \<Rightarrow> entity \<Rightarrow> TicketSnapshot option" where
  "entity_ticket d (ETicket t) = Some t"
| "entity_ticket d (EAppointment a) = find_ticket (as_ticket_id a) d"

text \<open>The scope, the model of the resource, the model of the target and the validator of an action.\<close>

fun action_scope :: "reconciliation_action \<Rightarrow> string" where
  "action_scope RC_CREATE_TICKET = ''create_ticket''"
| "action_scope RC_BOOK_APPOINTMENT = ''book_appointment''"
| "action_scope RC_RESCHEDULE_APPOINTMENT = ''reschedule_appointment''"
| "action_scope RC_ESCALATE_TO_OPERATOR = ''escalate_ticket''"

definition action_entity :: "reconciliation_action \<Rightarrow> uuid \<Rightarrow> db \<Rightarrow> entity option" where
  "action_entity action resource_id d =
     (if action \<in> {RC_CREATE_TICKET, RC_ESCALATE_TO_OPERATOR}
      then map_option ETicket (find_ticket resource_id d)
      else map_option EAppointment (find_appointment resource_id d))"

definition target_entity_of :: "reconciliation_action \<Rightarrow> uuid \<Rightarrow> db \<Rightarrow> entity option" where
  "target_entity_of action target_id d =
     (if action = RC_RESCHEDULE_APPOINTMENT
      then map_option EAppointment (find_appointment target_id d)
      else map_option ETicket (find_ticket target_id d))"

fun action_validator ::
  "reconciliation_action \<Rightarrow> int \<Rightarrow> ResponsePayload \<Rightarrow> domain_event_type set \<Rightarrow> bool" where
  "action_validator RC_CREATE_TICKET = validate_create_ticket"
| "action_validator RC_BOOK_APPOINTMENT = validate_book_appointment"
| "action_validator RC_RESCHEDULE_APPOINTMENT = validate_reschedule_appointment"
| "action_validator RC_ESCALATE_TO_OPERATOR = validate_escalate_ticket"

definition target_matches ::
  "'a CreateCase_scheme \<Rightarrow> reconciliation_action \<Rightarrow> TicketSnapshot \<Rightarrow> entity \<Rightarrow> entity option \<Rightarrow> bool"
where
  "target_matches case_row action ticket entity target =
     (case action of
        RC_CREATE_TICKET \<Rightarrow> cc_target_entity_id case_row \<in> {None, Some (ts_property_id ticket)}
      | RC_ESCALATE_TO_OPERATOR \<Rightarrow>
          (case (target, entity) of
             (Some (ETicket t), ETicket e) \<Rightarrow>
               ts_ticket_id t = ts_ticket_id ticket \<and> ts_ticket_id e = ts_ticket_id ticket
           | _ \<Rightarrow> False)
      | RC_BOOK_APPOINTMENT \<Rightarrow>
          (case (target, entity) of
             (Some (ETicket t), EAppointment a) \<Rightarrow> ts_ticket_id t = ts_ticket_id ticket
           | _ \<Rightarrow> False)
      | RC_RESCHEDULE_APPOINTMENT \<Rightarrow>
          (case (target, entity) of
             (Some (EAppointment t), EAppointment a) \<Rightarrow> as_ticket_id t = ts_ticket_id ticket
           | _ \<Rightarrow> False))"

text \<open>The history record that an escalation by this operator left; always there for other actions.\<close>

definition escalation_history_present ::
  "'a CreateCase_scheme \<Rightarrow> entity option \<Rightarrow> ResponsePayload option \<Rightarrow> db \<Rightarrow> bool" where
  "escalation_history_present case_row entity payload d =
     (if cc_action case_row \<noteq> RC_ESCALATE_TO_OPERATOR then True
      else case entity of
        Some (ETicket t) \<Rightarrow> cc_actor_type case_row = ACT_OPERATOR \<and> ts_status t = TS_ESCALATED \<and>
          (case payload of None \<Rightarrow> False
           | Some p \<Rightarrow> map_of (rp_data p) ''status'' = Some (PStr ''ESCALATED'')) \<and>
          (\<exists>h \<in> set (db_ticket_history d). th_ticket_id h = ts_ticket_id t \<and>
             th_action h = ''ESCALATE'' \<and> th_actor_type h = ACT_OPERATOR \<and>
             th_actor_id h = cc_actor_id case_row \<and> th_version_after h = ts_version t \<and>
             th_to_status h = TS_ESCALATED)
      | _ \<Rightarrow> False)"

definition operation_events :: "uuid \<Rightarrow> db \<Rightarrow> OutboxRow list" where
  "operation_events operation_id d = filter (\<lambda>e. de_operation_id e = operation_id) (db_outbox d)"

definition operation_record :: "uuid \<Rightarrow> db \<Rightarrow> IdempotencyRow option" where
  "operation_record operation_id d =
     find (\<lambda>r. ir_operation_id r = Some operation_id) (db_idempotency d)"

definition make_outcome ::
  "'a CreateCase_scheme \<Rightarrow> outcome_status \<Rightarrow> SafeResult option \<Rightarrow> string \<Rightarrow> OperationOutcome" where
  "make_outcome case_row status safe_result reason_code =
     \<lparr>oo_status = status, oo_operation_id = cc_operation_id case_row,
      oo_action = cc_action case_row, oo_safe_result = safe_result,
      oo_reason_code = Some reason_code\<rparr>"

text \<open>The long disjunction of the query, as the conjunction of what must hold.\<close>

definition evidence_agrees :: "'a CreateCase_scheme \<Rightarrow> IdempotencyRow \<Rightarrow> db \<Rightarrow> bool" where
  "evidence_agrees case_row idem d =
     (case (ir_resource_id idem, ir_response_payload idem) of
        (Some resource_id, Some payload) \<Rightarrow>
          (case action_entity (cc_action case_row) resource_id d of
             None \<Rightarrow> False
           | Some entity \<Rightarrow>
               (case entity_ticket d entity of
                  None \<Rightarrow> False
                | Some ticket \<Rightarrow>
                    ir_execution_status idem = IS_SUCCEEDED \<and>
                    ir_scope idem = action_scope (cc_action case_row) \<and>
                    ir_actor_type idem = cc_actor_type case_row \<and>
                    ir_actor_id idem = cc_actor_id case_row \<and>
                    ir_request_hash idem = cc_request_fingerprint case_row \<and>
                    ts_property_id ticket = cc_property_id case_row \<and>
                    (cc_actor_type case_row = ACT_RESIDENT \<longrightarrow>
                       ts_resident_id ticket = cc_user_id case_row) \<and>
                    target_matches case_row (cc_action case_row) ticket entity
                      (case cc_target_entity_id case_row of None \<Rightarrow> None
                       | Some t \<Rightarrow> target_entity_of (cc_action case_row) t d) \<and>
                    escalation_history_present case_row (Some entity) (Some payload) d \<and>
                    action_validator (cc_action case_row) (entity_version entity) payload
                      (de_event_type ` set (operation_events (cc_operation_id case_row) d))))
      | _ \<Rightarrow> False)"

definition resource_type_or :: "string option \<Rightarrow> string \<Rightarrow> string" where
  "resource_type_or a b = (case a of None \<Rightarrow> b | Some s \<Rightarrow> if s = [] then b else s)"

definition get_operation_outcome :: "'a CreateCase_scheme \<Rightarrow> db \<Rightarrow> OperationOutcome outcome" where
  "get_operation_outcome case_row d =
     (if \<not> outcome_authorized case_row d
      then Inl (Exn OperationOutcomePermissionDenied ''PERMISSION_DENIED'' [])
      else case operation_record (cc_operation_id case_row) d of
        None \<Rightarrow>
          if operation_events (cc_operation_id case_row) d = []
          then Inr (make_outcome case_row OUT_NOT_COMMITTED None ''AUTHORITATIVE_ABSENCE'')
          else Inr (make_outcome case_row OUT_INCONSISTENT None ''EVIDENCE_CONFLICT'')
      | Some idem \<Rightarrow>
          (case (ir_resource_id idem, ir_response_payload idem) of
             (Some resource_id, Some payload) \<Rightarrow>
               if evidence_agrees case_row idem d
               then Inr (make_outcome case_row OUT_COMMITTED
                      (Some \<lparr>sr_resource_type = resource_type_or (ir_resource_type idem) ''RESOURCE'',
                             sr_resource_id = uuid_text resource_id, sr_result = payload\<rparr>)
                      ''DURABLE_EVIDENCE_MATCHED'')
               else Inr (make_outcome case_row OUT_INCONSISTENT None ''EVIDENCE_CONFLICT'')
           | _ \<Rightarrow> Inr (make_outcome case_row OUT_INCONSISTENT None ''EVIDENCE_CONFLICT'')))"

section \<open>A lost answer is decided\<close>

text \<open>What a successful creation leaves in the tables.\<close>

lemma create_ticket_evidence:
  assumes "create_ticket_handler env c digest s = (Inr result, s')"
  shows "\<exists>row event. db_tickets (se_working s') = db_tickets (se_working s) @ [row] \<and>
    ts_ticket_id row \<notin> ts_ticket_id ` set (db_tickets (se_working s)) \<and>
    ts_property_id row = ct_property_id c \<and> ts_resident_id row = ct_resident_id c \<and>
    or_resource_id result = Some (ts_ticket_id row) \<and>
    or_resource_version result = Some (ts_version row) \<and>
    db_outbox (se_working s') = db_outbox (se_working s) @ [event] \<and>
    de_event_type event = EV_TICKET_CREATED \<and>
    de_operation_id event = operation_id_for env (ct_metadata c) ''create_ticket''"
  using assms unfolding create_ticket_handler_def
  by (auto simp: inversion_simps Let_def created_ticket_def creation_history_def outbox_add_def
      tickets_add_def tickets_add_history_def default_creation_plan_def success_result_def
      ticket_insert_checks_def outbox_row_of_def DomainEvent.extend_def build_domain_event_def
      first_failed_append ticket_row_of_def TicketSnapshot.extend_def
      dest!: plan_ticket_creation_Inr)

text \<open>A case that was frozen from a creation command of a resident.\<close>

definition creation_case :: "Env \<Rightarrow> CreateTicketCommand \<Rightarrow> 'a CreateCase_scheme \<Rightarrow> bool" where
  "creation_case env c case_row \<longleftrightarrow>
     cc_action case_row = RC_CREATE_TICKET \<and>
     cc_operation_id case_row = operation_id_for env (ct_metadata c) ''create_ticket'' \<and>
     cc_request_fingerprint case_row = request_digest env (ct_metadata c) (create_ticket_payload c) \<and>
     cc_actor_type case_row = mm_actor_type (ct_metadata c) \<and>
     cc_actor_id case_row = mm_actor_id (ct_metadata c) \<and>
     cc_user_id case_row = ct_resident_id c \<and> cc_property_id case_row = ct_property_id c \<and>
     cc_target_entity_id case_row \<in> {None, Some (ct_property_id c)}"

lemma find_unique_new:
  assumes "find p xs = None" and "\<And>x. p (f x) = p x" and "p y"
  shows "find p (map f (xs @ [y])) = Some (f y)"
proof -
  have "find p (map f xs) = None" using assms(1,2) by (auto simp: find_None_iff)
  then show ?thesis using assms(2,3) by (simp add: find_append)
qed

lemma succeeded_row_fields [simp]:
  "ir_operation_id (succeeded_row k i p r) = ir_operation_id r"
  "ir_scope (succeeded_row k i p r) = ir_scope r"
  "ir_actor_type (succeeded_row k i p r) = ir_actor_type r"
  "ir_actor_id (succeeded_row k i p r) = ir_actor_id r"
  "ir_request_hash (succeeded_row k i p r) = ir_request_hash r"
  "ir_execution_status (succeeded_row k i p r) = IS_SUCCEEDED"
  "ir_resource_type (succeeded_row k i p r) = Some k"
  "ir_resource_id (succeeded_row k i p r) = Some i"
  "ir_response_payload (succeeded_row k i p r) = Some p"
  by (simp_all add: succeeded_row_def)

lemma created_evidence_agrees:
  assumes run: "dispatch env (CreateTicket c) d = (Inr result, d')"
    and ok: "or_ok result" "\<not> or_replayed result"
    and fresh: "operation_record (operation_id_for env (ct_metadata c) ''create_ticket'') d = None"
    and frozen: "creation_case env c case_row"
  shows "\<exists>idem. operation_record (cc_operation_id case_row) d' = Some idem \<and>
    ir_resource_id idem \<noteq> None \<and> ir_response_payload idem \<noteq> None \<and> evidence_agrees case_row idem d'"
proof -
  let ?op = "operation_id_for env (ct_metadata c) ''create_ticket''"
  let ?digest = "request_digest env (ct_metadata c) (create_ticket_payload c)"
  let ?key = "idempotency_key_of ''create_ticket'' (ct_metadata c)"
  from run have run': "run_use_case create_ticket_handler ''create_ticket'' ct_metadata
      create_ticket_payload env c d = (Inr result, d')"
    by (simp add: create_ticket_def)
  from run' ok(1) show ?thesis
  proof (cases rule: create_ticket_case.run_success_cases)
    case (replayed r)
    then show ?thesis using ok(2) by (simp add: replay_result_def)
  next
    case (fresh s)
    note d' = fresh(4)
    from create_ticket_evidence [OF fresh(3)] obtain row event where
      tickets: "db_tickets (se_working s) = db_tickets d @ [row]"
      and new: "ts_ticket_id row \<notin> ts_ticket_id ` set (db_tickets d)"
      and row: "ts_property_id row = ct_property_id c" "ts_resident_id row = ct_resident_id c"
      and answer: "or_resource_id result = Some (ts_ticket_id row)"
        "or_resource_version result = Some (ts_version row)"
      and outbox: "db_outbox (se_working s) = db_outbox d @ [event]"
      and event: "de_event_type event = EV_TICKET_CREATED" "de_operation_id event = ?op"
      by (auto simp: acquired_def)
    have records: "db_idempotency (se_working s) = db_idempotency d @ [pending_row ?key ?digest ?op]"
      using create_ticket_case.handler_idempotency [OF fresh(3)] by (simp add: acquired_def)
    let ?f = "\<lambda>r. if idempotency_id_of r = ?key
      then succeeded_row (the (or_resource_type result)) (the (or_resource_id result))
        (result_payload result) r else r"
    let ?idem = "?f (pending_row ?key ?digest ?op)"
    have pending: "idempotency_id_of (pending_row ?key ?digest ?op) = ?key"
      "ir_operation_id (pending_row ?key ?digest ?op) = Some ?op"
      by (simp_all add: idempotency_id_of_def pending_row_def idempotency_key_of_def)
    have list: "db_idempotency d' = map ?f (db_idempotency d @ [pending_row ?key ?digest ?op])"
      by (simp add: d' settled_def records)
    have "operation_record ?op d' = Some ?idem"
      unfolding operation_record_def list
      using assms(4) by (intro find_unique_new) (auto simp: pending operation_record_def)
    moreover have idem: "?idem = succeeded_row (the (or_resource_type result)) (ts_ticket_id row)
        (result_payload result) (pending_row ?key ?digest ?op)"
      using answer pending by simp
    have find: "find_ticket (ts_ticket_id row) d' = Some (ticket_to_snapshot row)"
    proof -
      have "find (\<lambda>r. ts_ticket_id r = ts_ticket_id row) (db_tickets d) = None"
        using new by (auto simp: find_None_iff image_iff)
      then show ?thesis by (simp add: find_ticket_def d' settled_def tickets find_append)
    qed
    have "event \<in> set (operation_events ?op d')"
      using outbox event by (simp add: operation_events_def d' settled_def)
    then have types: "EV_TICKET_CREATED \<in> de_event_type ` set (operation_events ?op d')"
      using event(1) by (metis image_eqI)
    have "evidence_agrees case_row ?idem d'"
      using frozen find types row answer unfolding idem
      by (auto simp: evidence_agrees_def creation_case_def action_entity_def target_matches_def
          escalation_history_present_def validate_create_ticket_def version_matches_def
          result_payload_def pending_row_def idempotency_key_of_def)
    ultimately show ?thesis
      using frozen idem by (auto simp: creation_case_def)
  qed
qed

text \<open>The answer to a creation may be lost, but it is decided. Right after a first attempt of a
  command whose operation identity is new, the evidence query of the case frozen from it reports
  COMMITTED exactly when the answer was a success, and NOT_COMMITTED exactly when it was not; it
  never reports a conflict.\<close>

lemma lost_creation_is_decided:
  assumes "dispatch env (CreateTicket c) d = (Inr result, d')" and "\<not> or_replayed result"
    and "operation_record (operation_id_for env (ct_metadata c) ''create_ticket'') d = None"
    and "operation_events (operation_id_for env (ct_metadata c) ''create_ticket'') d = []"
    and "creation_case env c case_row" and "outcome_authorized case_row d'"
  shows "\<exists>outcome. get_operation_outcome case_row d' = Inr outcome \<and>
    oo_status outcome = (if or_ok result then OUT_COMMITTED else OUT_NOT_COMMITTED)"
proof (cases "or_ok result")
  case True
  with created_evidence_agrees [OF assms(1) True assms(2,3,5)] assms(6) show ?thesis
    by (auto simp: get_operation_outcome_def make_outcome_def)
next
  case False
  then have "d' = d"
    using create_ticket_case.run_atomic [of env c d "Inr result" d'] assms(1)
    by (auto simp: create_ticket_def)
  then show ?thesis
    using assms(3-6) False by (simp add: get_operation_outcome_def creation_case_def make_outcome_def)
qed

section \<open>Evidence that is read late\<close>

definition creation_of_town :: CreateCase where
  "creation_of_town = \<lparr>cc_operation_id = 1, cc_action = RC_CREATE_TICKET, cc_thread_id = None,
     cc_original_run_id = 7, cc_original_trace_id = 501, cc_operation_idempotency_fingerprint = ''f'',
     cc_request_fingerprint = ''fp'', cc_actor_type = ACT_RESIDENT, cc_actor_id = 1, cc_user_id = 1,
     cc_property_id = 3, cc_target_entity_type = Some ''PROPERTY'', cc_target_entity_id = Some 3,
     cc_expected_entity_version = None\<rparr>"


end
