(* ===== verification/Reconciliation.thy ===== *)
theory Reconciliation
  imports Evidence Outbox
begin

text \<open>
  The queue of operations whose outcome is unknown, after
  \<open>backend/app/reconciliation/repository.py\<close> (cases with leased fencing claims, each change with
  its trace event in one transaction) and \<open>worker.py\<close> (one bounded iteration that asks for the
  evidence of theory Evidence and never repeats a mutation).
\<close>

section \<open>Cases\<close>

datatype reconciliation_status =
  RS_PENDING | RS_PROCESSING | RS_RESOLVED_COMMITTED | RS_RESOLVED_NOT_COMMITTED | RS_MANUAL_REVIEW

fun reconciliation_status_value :: "reconciliation_status \<Rightarrow> string" where
  "reconciliation_status_value RS_PENDING = ''PENDING''"
| "reconciliation_status_value RS_PROCESSING = ''PROCESSING''"
| "reconciliation_status_value RS_RESOLVED_COMMITTED = ''RESOLVED_COMMITTED''"
| "reconciliation_status_value RS_RESOLVED_NOT_COMMITTED = ''RESOLVED_NOT_COMMITTED''"
| "reconciliation_status_value RS_MANUAL_REVIEW = ''MANUAL_REVIEW''"

record ReconciliationCase = CreateCase +
  rc_id :: uuid
  rc_case_key :: string
  rc_status :: reconciliation_status
  rc_last_evidence_status :: "outcome_status option"
  rc_attempt_count :: int
  rc_available_at :: timestamp
  rc_claimed_by :: "string option"
  rc_claim_token :: "uuid option"
  rc_claim_expires_at :: "timestamp option"
  rc_resolved_at :: "timestamp option"
  rc_resolution_code :: "string option"
  rc_safe_result :: "SafeResult option"
  rc_last_error_code :: "string option"
  rc_last_error_at :: "timestamp option"
  rc_created_at :: timestamp
  rc_updated_at :: timestamp

definition case_key :: "(string \<Rightarrow> string) \<Rightarrow> 'a CreateCase_scheme \<Rightarrow> string" where
  "case_key sha command = sha (join_with ''|'' [uuid_text (cc_operation_id command),
     reconciliation_action_value (cc_action command), cc_request_fingerprint command])"

record ReconciliationDb =
  rd_cases :: "ReconciliationCase list"
  rd_trace :: TraceDb

text \<open>What a transaction draws: SHA-256, and fresh identifiers by position.\<close>

record ReconciliationEnv =
  re_sha256 :: "string \<Rightarrow> string"
  re_new_id :: "nat \<Rightarrow> uuid"

section \<open>Trace of a case\<close>

definition case_event ::
  "ReconciliationEnv \<Rightarrow> nat \<Rightarrow> string list \<Rightarrow> ReconciliationCase \<Rightarrow> string \<Rightarrow>
   (string \<times> pval) list \<Rightarrow> timestamp \<Rightarrow> AgentTraceEvent" where
  "case_event env n suffix r event_type payload occurred_at =
     \<lparr>te_id = re_new_id env n,
      te_event_key = re_sha256 env (join_with ''|'' ([uuid_text (rc_id r), event_type] @ suffix)),
      te_run_id = None, te_thread_id = cc_thread_id r, te_trace_id = cc_original_trace_id r,
      te_sequence_number = None, te_source = SRC_RECONCILIATION, te_event_type = event_type,
      te_node_name = None, te_operation_id = Some (cc_operation_id r), te_payload = payload,
      te_occurred_at = occurred_at\<rparr>"

definition action_item :: "ReconciliationCase \<Rightarrow> string \<times> pval" where
  "action_item r = (''action'', PStr (reconciliation_action_value (cc_action r)))"

text \<open>The rows of \<open>session.add\<close>, inserted by the flush that ends the transaction.\<close>

fun insert_events :: "AgentTraceEvent list \<Rightarrow> TraceDb \<Rightarrow> TraceDb outcome" where
  "insert_events [] d = Inr d"
| "insert_events (e # es) d = bindE (insert_event e d) (insert_events es)"

section \<open>Repository\<close>

definition new_case :: "ReconciliationEnv \<Rightarrow> timestamp \<Rightarrow> CreateCase \<Rightarrow> ReconciliationCase" where
  "new_case env now command = CreateCase.extend command
     \<lparr>rc_id = re_new_id env 0, rc_case_key = case_key (re_sha256 env) command,
      rc_status = RS_PENDING, rc_last_evidence_status = None, rc_attempt_count = 0,
      rc_available_at = now, rc_claimed_by = None, rc_claim_token = None,
      rc_claim_expires_at = None, rc_resolved_at = None, rc_resolution_code = None,
      rc_safe_result = None, rc_last_error_code = None, rc_last_error_at = None,
      rc_created_at = now, rc_updated_at = now\<rparr>"

text \<open>\<open>ON CONFLICT (operation_id) DO NOTHING\<close>; the other unique keys are errors.\<close>

definition case_insert_checks :: "ReconciliationCase \<Rightarrow> ReconciliationCase list \<Rightarrow> (bool \<times> exn) list" where
  "case_insert_checks r cases =
     [unique_check (rc_id r \<notin> rc_id ` set cases) ''pk_operation_reconciliation_cases'',
      unique_check (rc_case_key r \<notin> rc_case_key ` set cases)
        ''uq_operation_reconciliation_cases_case_key'']"

definition find_case :: "uuid \<Rightarrow> ReconciliationCase list \<Rightarrow> ReconciliationCase option" where
  "find_case operation_id cases = find (\<lambda>r. cc_operation_id r = operation_id) cases"

definition create_or_get ::
  "ReconciliationEnv \<Rightarrow> timestamp \<Rightarrow> CreateCase \<Rightarrow> ReconciliationDb \<Rightarrow>
   (ReconciliationCase \<times> ReconciliationDb) outcome" where
  "create_or_get env now command d =
     (case find_case (cc_operation_id command) (rd_cases d) of
        Some r \<Rightarrow>
          if rc_case_key r \<noteq> case_key (re_sha256 env) command
          then Inl (Exn PyValueError ''operation reconciliation identity conflict'' [])
          else Inr (r, d)
      | None \<Rightarrow>
          let r = new_case env now command
          in case first_failed (case_insert_checks r (rd_cases d)) of
               Some e \<Rightarrow> Inl (raw_error e)
             | None \<Rightarrow> bindE (insert_events
                   (map (\<lambda>(n, event_type). case_event env n [] r event_type
                      [action_item r, (''status'', PStr (reconciliation_status_value (rc_status r)))] now)
                    [(1, ''unknown_commit_detected''), (2, ''reconciliation_case_created'')])
                   (rd_trace d))
                 (\<lambda>trace. Inr (r, d\<lparr>rd_cases := rd_cases d @ [r], rd_trace := trace\<rparr>)))"

definition get_case :: "uuid \<Rightarrow> ReconciliationDb \<Rightarrow> ReconciliationCase option" where
  "get_case case_id d = find (\<lambda>r. rc_id r = case_id) (rd_cases d)"

definition case_eligible :: "timestamp \<Rightarrow> ReconciliationCase \<Rightarrow> bool" where
  "case_eligible now r \<longleftrightarrow>
     rc_status r = RS_PENDING \<and> rc_available_at r \<le> now \<or>
     rc_status r = RS_PROCESSING \<and>
       (case rc_claim_expires_at r of None \<Rightarrow> False | Some t \<Rightarrow> t \<le> now)"

definition case_order :: "ReconciliationCase \<Rightarrow> timestamp \<times> timestamp" where
  "case_order r = (rc_available_at r, rc_created_at r)"

definition take_case :: "string \<Rightarrow> timestamp \<Rightarrow> uuid \<Rightarrow> ReconciliationCase \<Rightarrow> ReconciliationCase" where
  "take_case worker_id expires token r =
     r\<lparr>rc_status := RS_PROCESSING, rc_claimed_by := Some worker_id, rc_claim_token := Some token,
       rc_claim_expires_at := Some expires, rc_attempt_count := rc_attempt_count r + 1\<rparr>"

text \<open>The rows of a claim, and the claim with its trace events. Ties of the order are broken by the
  order of the table.\<close>

definition claim_cases ::
  "ClaimQuery \<Rightarrow> string \<Rightarrow> (nat \<Rightarrow> uuid) \<Rightarrow> ReconciliationCase list \<Rightarrow>
   ReconciliationCase list \<times> ReconciliationCase list" where
  "claim_cases query worker_id token cases =
     (let picked = select_rows (\<lambda>r. case_eligible (cq_now query) r \<and> rc_id r \<notin> cq_locked query)
            case_order (cq_batch_size query) cases;
          claimed = take_leases (take_case worker_id
            (cq_now query + seconds_delta (cq_lease_seconds query))) token picked
      in (claimed, replace_rows rc_id claimed cases))"

definition token_text :: "ReconciliationCase \<Rightarrow> string list" where
  "token_text r = (case rc_claim_token r of None \<Rightarrow> [] | Some t \<Rightarrow> [uuid_text t])"

definition claim ::
  "ReconciliationEnv \<Rightarrow> ClaimQuery \<Rightarrow> string \<Rightarrow> (nat \<Rightarrow> uuid) \<Rightarrow> ReconciliationDb \<Rightarrow>
   (ReconciliationCase list \<times> ReconciliationDb) outcome" where
  "claim env query worker_id token d =
     (let (claimed, cases) = claim_cases query worker_id token (rd_cases d)
      in bindE (insert_events
             (map (\<lambda>(n, r). case_event env n (token_text r) r ''reconciliation_started''
                [action_item r, (''attempt_count'', PInt (rc_attempt_count r))] (cq_now query))
              (enumerate 0 claimed)) (rd_trace d))
           (\<lambda>trace. Inr (claimed, d\<lparr>rd_cases := cases, rd_trace := trace\<rparr>)))"

definition case_held :: "uuid \<Rightarrow> string \<Rightarrow> uuid \<Rightarrow> ReconciliationCase \<Rightarrow> bool" where
  "case_held case_id worker_id claim_token r \<longleftrightarrow>
     rc_id r = case_id \<and> rc_status r = RS_PROCESSING \<and>
     rc_claimed_by r = Some worker_id \<and> rc_claim_token r = Some claim_token"

definition stale_case :: exn where
  "stale_case = Exn LeaseLost ''STALE_RECONCILIATION_CLAIM'' []"

fun resolution_status :: "outcome_status \<Rightarrow> reconciliation_status" where
  "resolution_status OUT_COMMITTED = RS_RESOLVED_COMMITTED"
| "resolution_status OUT_NOT_COMMITTED = RS_RESOLVED_NOT_COMMITTED"
| "resolution_status OUT_INCONSISTENT = RS_MANUAL_REVIEW"

fun resolution_event :: "outcome_status \<Rightarrow> string" where
  "resolution_event OUT_COMMITTED = ''reconciliation_resolved_committed''"
| "resolution_event OUT_NOT_COMMITTED = ''reconciliation_resolved_not_committed''"
| "resolution_event OUT_INCONSISTENT = ''reconciliation_manual_review''"

definition resolved_case :: "OperationOutcome \<Rightarrow> timestamp \<Rightarrow> ReconciliationCase \<Rightarrow> ReconciliationCase" where
  "resolved_case outcome now r =
     r\<lparr>rc_status := resolution_status (oo_status outcome),
       rc_last_evidence_status := Some (oo_status outcome), rc_resolved_at := Some now,
       rc_resolution_code := Some (resource_type_or (oo_reason_code outcome)
         (outcome_status_value (oo_status outcome))),
       rc_safe_result := oo_safe_result outcome, rc_claimed_by := None, rc_claim_token := None,
       rc_claim_expires_at := None, rc_updated_at := now\<rparr>"

definition resolve_cases ::
  "OperationOutcome \<Rightarrow> timestamp \<Rightarrow> uuid \<Rightarrow> string \<Rightarrow> uuid \<Rightarrow> ReconciliationCase list \<Rightarrow>
   ReconciliationCase list outcome" where
  "resolve_cases outcome now case_id worker_id token cases =
     compare_and_set (case_held case_id worker_id token) (resolved_case outcome now) stale_case cases"

definition retried_case :: "timestamp \<Rightarrow> timestamp \<Rightarrow> string \<Rightarrow> ReconciliationCase \<Rightarrow> ReconciliationCase" where
  "retried_case now available_at error_code r =
     r\<lparr>rc_status := RS_PENDING, rc_available_at := available_at, rc_claimed_by := None,
       rc_claim_token := None, rc_claim_expires_at := None, rc_last_error_code := Some error_code,
       rc_last_error_at := Some now, rc_updated_at := now\<rparr>"

definition retry_cases ::
  "timestamp \<Rightarrow> timestamp \<Rightarrow> string \<Rightarrow> uuid \<Rightarrow> string \<Rightarrow> uuid \<Rightarrow> ReconciliationCase list \<Rightarrow>
   ReconciliationCase list outcome" where
  "retry_cases now available_at error_code case_id worker_id token cases =
     compare_and_set (case_held case_id worker_id token) (retried_case now available_at error_code)
       stale_case cases"

text \<open>An update under the claim, with its trace event.\<close>

definition settle_with_event ::
  "(uuid \<Rightarrow> string \<Rightarrow> uuid \<Rightarrow> ReconciliationCase list \<Rightarrow> ReconciliationCase list outcome) \<Rightarrow>
   AgentTraceEvent \<Rightarrow> ReconciliationCase \<Rightarrow> ReconciliationDb \<Rightarrow> ReconciliationDb outcome" where
  "settle_with_event settle event r d =
     (case (rc_claimed_by r, rc_claim_token r) of
        (Some worker_id, Some token) \<Rightarrow>
          bindE (settle (rc_id r) worker_id token (rd_cases d))
          (\<lambda>cases. bindE (insert_event event (rd_trace d))
          (\<lambda>trace. Inr (d\<lparr>rd_cases := cases, rd_trace := trace\<rparr>)))
      | _ \<Rightarrow> Inl (Exn ValidationError ''claim_token'' []))"

definition resolve ::
  "ReconciliationEnv \<Rightarrow> ReconciliationCase \<Rightarrow> OperationOutcome \<Rightarrow> timestamp \<Rightarrow> ReconciliationDb \<Rightarrow>
   ReconciliationDb outcome" where
  "resolve env r outcome now d =
     settle_with_event (resolve_cases outcome now)
       (case_event env 0 [] r (resolution_event (oo_status outcome))
          [(''status'', PStr (outcome_status_value (oo_status outcome))),
           (''action'', PStr (reconciliation_action_value (oo_action outcome)))] now) r d"

definition retry_case ::
  "ReconciliationEnv \<Rightarrow> ReconciliationCase \<Rightarrow> timestamp \<Rightarrow> timestamp \<Rightarrow> string \<Rightarrow> ReconciliationDb \<Rightarrow>
   ReconciliationDb outcome" where
  "retry_case env r now available_at error_code d =
     settle_with_event (retry_cases now available_at error_code)
       (case_event env 0 (token_text r) r ''reconciliation_retry_scheduled''
          [action_item r, (''error_code'', PStr error_code)] now) r d"

section \<open>The worker\<close>

datatype fault_point =
  BEFORE_MCP_SEND | AFTER_MCP_SEND | AFTER_SERVER_COMMIT_BEFORE_RESPONSE
| AFTER_RESPONSE_RECEIVED_BEFORE_VALIDATION | AFTER_RESULT_VALIDATED_BEFORE_CHECKPOINT
| BEFORE_MUTATION_DISPATCH | AFTER_MUTATION_DISPATCH | AFTER_COMMIT_BEFORE_RESULT
| AFTER_RESULT_RECEIVED_BEFORE_VALIDATION | AFTER_RESULT_VALIDATED_BEFORE_RUN_FINALIZATION
| BEFORE_RECONCILIATION_QUERY | AFTER_RECONCILIATION_QUERY_BEFORE_RESOLUTION
| AFTER_RESOLUTION_COMMIT_BEFORE_ACK

record ReconciliationWorker =
  wk_worker_id :: string
  wk_lease_seconds :: int
  wk_max_attempts :: int
  wk_retry_base :: int

text \<open>What the worker draws: identifiers per transaction, the evidence query, and the fault injector
  (\<open>None\<close> everywhere in production).\<close>

record WorkerSurroundings =
  ws_env :: "ReconciliationDb \<Rightarrow> ReconciliationEnv"
  ws_token :: "ReconciliationDb \<Rightarrow> nat \<Rightarrow> uuid"
  ws_locked :: "uuid set"
  ws_outcome :: "ReconciliationCase \<Rightarrow> OperationOutcome outcome"
  ws_fault :: "uuid \<Rightarrow> fault_point \<Rightarrow> exn option"

definition hit :: "WorkerSurroundings \<Rightarrow> uuid \<Rightarrow> fault_point \<Rightarrow> unit outcome" where
  "hit su operation_id point = (case ws_fault su operation_id point of None \<Rightarrow> Inr () | Some e \<Rightarrow> Inl e)"

text \<open>\<open>getattr (exc, "code", "EVIDENCE_QUERY_FAILED")\<close>.\<close>

definition error_code_of :: "exn \<Rightarrow> string" where
  "error_code_of e =
     (if exn_class e \<in> {OperationOutcomePermissionDenied, LeaseLost} then exn_code e
      else ''EVIDENCE_QUERY_FAILED'')"

definition unavailable :: "ReconciliationCase \<Rightarrow> OperationOutcome" where
  "unavailable r = make_outcome r OUT_INCONSISTENT None ''EVIDENCE_UNAVAILABLE''"

text \<open>The body of \<open>try\<close> up to the resolution.\<close>

definition ask_and_resolve ::
  "WorkerSurroundings \<Rightarrow> timestamp \<Rightarrow> ReconciliationCase \<Rightarrow> ReconciliationDb \<Rightarrow> ReconciliationDb outcome"
where
  "ask_and_resolve su now r d =
     bindE (hit su (cc_operation_id r) BEFORE_RECONCILIATION_QUERY)
     (\<lambda>_. bindE (ws_outcome su r)
     (\<lambda>outcome. bindE (hit su (cc_operation_id r) AFTER_RECONCILIATION_QUERY_BEFORE_RESOLUTION)
     (\<lambda>_. resolve (ws_env su d) r outcome now d)))"

definition handle_case ::
  "ReconciliationWorker \<Rightarrow> WorkerSurroundings \<Rightarrow> timestamp \<Rightarrow> ReconciliationCase \<Rightarrow>
   ReconciliationDb \<Rightarrow> unit outcome \<times> ReconciliationDb" where
  "handle_case worker su now r d =
     (case ask_and_resolve su now r d of
        Inr d' \<Rightarrow> (hit su (cc_operation_id r) AFTER_RESOLUTION_COMMIT_BEFORE_ACK, d')
      | Inl e \<Rightarrow>
          (case (if wk_max_attempts worker \<le> rc_attempt_count r
                 then resolve (ws_env su d) r (unavailable r) now d
                 else retry_case (ws_env su d) r now
                   (now + seconds_delta (wk_retry_base worker * 2 ^ nat (rc_attempt_count r - 1)))
                   (error_code_of e) d) of
             Inr d' \<Rightarrow> (Inr (), d')
           | Inl e' \<Rightarrow> (Inl e', d)))"

fun handle_cases ::
  "ReconciliationWorker \<Rightarrow> WorkerSurroundings \<Rightarrow> timestamp \<Rightarrow> ReconciliationCase list \<Rightarrow>
   ReconciliationDb \<Rightarrow> unit outcome \<times> ReconciliationDb" where
  "handle_cases worker su now [] d = (Inr (), d)"
| "handle_cases worker su now (r # rs) d =
     (case handle_case worker su now r d of
        (Inl e, d') \<Rightarrow> (Inl e, d')
      | (Inr _, d') \<Rightarrow> handle_cases worker su now rs d')"

definition run_once ::
  "ReconciliationWorker \<Rightarrow> WorkerSurroundings \<Rightarrow> timestamp \<Rightarrow> nat \<Rightarrow> ReconciliationDb \<Rightarrow>
   nat outcome \<times> ReconciliationDb" where
  "run_once worker su now limit d =
     (case claim (ws_env su d)
        \<lparr>cq_now = now, cq_lease_seconds = wk_lease_seconds worker, cq_batch_size = limit,
         cq_locked = ws_locked su\<rparr> (wk_worker_id worker) (ws_token su d) d of
        Inl e \<Rightarrow> (Inl e, d)
      | Inr (cases, d1) \<Rightarrow>
          let (r, d2) = handle_cases worker su now cases d1
          in (bindE r (\<lambda>_. Inr (length cases)), d2))"

section \<open>The contract of a leased table\<close>

definition case_holder :: "ReconciliationCase \<Rightarrow> (string \<times> uuid) option" where
  "case_holder r =
     (if rc_status r \<noteq> RS_PROCESSING then None
      else case (rc_claimed_by r, rc_claim_token r) of (Some w, Some t) \<Rightarrow> Some (w, t) | _ \<Rightarrow> None)"

text \<open>Both ways of giving a claim back: a decision, or another attempt later.\<close>

definition settle_case ::
  "(OperationOutcome \<times> timestamp) + (timestamp \<times> timestamp \<times> string) \<Rightarrow> uuid \<Rightarrow> string \<Rightarrow> uuid \<Rightarrow>
   ReconciliationCase list \<Rightarrow> ReconciliationCase list outcome" where
  "settle_case how = (case how of
     Inl (outcome, now) \<Rightarrow> resolve_cases outcome now
   | Inr (now, available_at, error_code) \<Rightarrow> retry_cases now available_at error_code)"

definition settled_row ::
  "(OperationOutcome \<times> timestamp) + (timestamp \<times> timestamp \<times> string) \<Rightarrow> ReconciliationCase \<Rightarrow>
   ReconciliationCase" where
  "settled_row how = (case how of
     Inl (outcome, now) \<Rightarrow> resolved_case outcome now
   | Inr (now, available_at, error_code) \<Rightarrow> retried_case now available_at error_code)"

lemma case_held_holder:
  "case_held i w t r \<longleftrightarrow> rc_id r = i \<and> case_holder r = Some (w, t)"
  by (auto simp: case_held_def case_holder_def split: option.splits)

lemma resolution_status_decides [simp]:
  "resolution_status s \<noteq> RS_PENDING" "resolution_status s \<noteq> RS_PROCESSING"
  by (cases s; simp)+

lemma written_cases [simp]:
  "rc_id (take_case w e t r) = rc_id r"
  "rc_id (settled_row how r) = rc_id r"
  "case_holder (take_case w e t r) = Some (w, t)"
  "case_holder (settled_row how r) = None"
  by (auto simp: take_case_def settled_row_def resolved_case_def retried_case_def case_holder_def
      split: sum.splits)

lemma settle_case_Inr [inversion_simps]:
  "settle_case how i w t rows = Inr rows' \<longleftrightarrow>
     (\<exists>r \<in> set rows. case_held i w t r) \<and>
     rows' = map (\<lambda>r. if case_held i w t r then settled_row how r else r) rows"
  by (cases how)
    (auto simp: settle_case_def settled_row_def resolve_cases_def retry_cases_def inversion_simps
      cong: if_cong)

lemma claim_cases_rows:
  assumes "claim_cases q w token rows = (cs, rows')"
  obtains picked where "cs = take_leases (take_case w (cq_now q + seconds_delta (cq_lease_seconds q))) token picked"
    and "rows' = replace_rows rc_id cs rows" and "set picked \<subseteq> set rows"
    and "\<forall>r \<in> set picked. case_eligible (cq_now q) r"
proof
  let ?p = "\<lambda>r. case_eligible (cq_now q) r \<and> rc_id r \<notin> cq_locked q"
  let ?picked = "select_rows ?p case_order (cq_batch_size q) rows"
  show "cs = take_leases (take_case w (cq_now q + seconds_delta (cq_lease_seconds q))) token ?picked"
    "rows' = replace_rows rc_id cs rows"
    using assms by (auto simp: claim_cases_def Let_def)
  show "set ?picked \<subseteq> set rows" "\<forall>r \<in> set ?picked. case_eligible (cq_now q) r"
    using select_rows_set by fast+
qed

interpretation cases: leased_table rc_id case_holder claim_cases settle_case
proof
  fix q w token rows cs rows' i
  assume claim: "claim_cases q w token rows = (cs, rows')"
  then obtain picked where p: "cs = take_leases (take_case w (cq_now q + seconds_delta (cq_lease_seconds q))) token picked"
    "rows' = replace_rows rc_id cs rows" "set picked \<subseteq> set rows"
    by (rule claim_cases_rows)
  show "map rc_id rows' = map rc_id rows" using p by (simp add: replace_rows_ids)
  show "case_holder (cs ! i) = Some (w, token i)" if "i < length cs"
    using that p(1) by (simp add: take_leases_nth)
  show "r' \<in> set rows \<or> (\<exists>i < length cs. r' = cs ! i)"
    if "distinct (map rc_id rows)" "r' \<in> set rows'" for r'
    using replaced_leases [of rc_id, OF _ that(1) p(3) that(2) [unfolded p(2) p(1)]] p(1)
    by (auto simp: take_leases_nth)
next
  fix a i w t rows rows' r'
  assume settle: "settle_case a i w t rows = Inr rows'"
  then show "\<exists>r \<in> set rows. rc_id r = i \<and> case_holder r = Some (w, t)"
    by (auto simp: inversion_simps case_held_holder)
  show "map rc_id rows' = map rc_id rows" using settle by (auto simp: inversion_simps)
  show "r' \<in> set rows \<and> \<not> (rc_id r' = i \<and> case_holder r' = Some (w, t)) \<or>
      rc_id r' = i \<and> case_holder r' = None" if "r' \<in> set rows'"
    using settle that by (auto simp: inversion_simps case_held_holder split: if_splits)
qed

end
