(* ===== verification/CaseHistory.thy ===== *)
theory CaseHistory
  imports Reconciliation
begin

text \<open>
  The lives of reconciliation cases: everything that requests and workers can do to the table of
  \<open>backend/app/reconciliation/repository.py\<close>, in any interleaving and with workers that stop or lose
  their lease, as a step relation; the invariant of the cases that are reachable; and what one worker
  of \<open>worker.py\<close> does with a case it holds.
\<close>

section \<open>Steps\<close>

text \<open>The tables, the claimed copies that some worker may still act on, and the tokens issued.\<close>

record CaseWorld =
  cw_db :: ReconciliationDb
  cw_held :: "ReconciliationCase set"
  cw_issued :: "uuid set"

text \<open>The evidence that a worker gets for a case is an answer that the operation's records give.\<close>

definition answers_only :: "(CreateCase \<Rightarrow> OperationOutcome \<Rightarrow> bool) \<Rightarrow> WorkerSurroundings \<Rightarrow> bool" where
  "answers_only answers su \<longleftrightarrow>
     (\<forall>r outcome. ws_outcome su r = Inr outcome \<longrightarrow> answers (CreateCase.truncate r) outcome)"

inductive case_step ::
  "int \<Rightarrow> (CreateCase \<Rightarrow> OperationOutcome \<Rightarrow> bool) \<Rightarrow> CaseWorld \<Rightarrow> CaseWorld \<Rightarrow> bool"
  for max_attempts answers where
  create: "create_or_get env now command (cw_db s) = Inr (r, d) \<Longrightarrow>
    case_step max_attempts answers s (s\<lparr>cw_db := d\<rparr>)"
| claim: "claim env query worker_id token (cw_db s) = Inr (cs, d) \<Longrightarrow> inj token \<Longrightarrow>
    \<forall>i. token i \<notin> cw_issued s \<Longrightarrow>
    case_step max_attempts answers s
      \<lparr>cw_db = d, cw_held = cw_held s \<union> set cs, cw_issued = cw_issued s \<union> range token\<rparr>"
| handle: "r \<in> cw_held s \<Longrightarrow> wk_max_attempts worker = max_attempts \<Longrightarrow> answers_only answers su \<Longrightarrow>
    handle_case worker su now r (cw_db s) = (result, d) \<Longrightarrow>
    case_step max_attempts answers s (s\<lparr>cw_db := d\<rparr>)"

definition case_start :: "TraceDb \<Rightarrow> CaseWorld" where
  "case_start trace = \<lparr>cw_db = \<lparr>rd_cases = [], rd_trace = trace\<rparr>, cw_held = {}, cw_issued = {}\<rparr>"

section \<open>The invariant\<close>

definition decided :: "ReconciliationCase \<Rightarrow> bool" where
  "decided r \<longleftrightarrow> rc_status r \<in> {RS_RESOLVED_COMMITTED, RS_RESOLVED_NOT_COMMITTED, RS_MANUAL_REVIEW}"

text \<open>A decision is the answer of the evidence, or manual review after the last attempt.\<close>

definition decision_justified ::
  "int \<Rightarrow> (CreateCase \<Rightarrow> OperationOutcome \<Rightarrow> bool) \<Rightarrow> ReconciliationCase \<Rightarrow> bool" where
  "decision_justified max_attempts answers r \<longleftrightarrow>
     (\<exists>outcome. answers (CreateCase.truncate r) outcome \<and>
        rc_status r = resolution_status (oo_status outcome) \<and>
        rc_safe_result r = oo_safe_result outcome) \<or>
     rc_status r = RS_MANUAL_REVIEW \<and> rc_safe_result r = None \<and> max_attempts \<le> rc_attempt_count r"

text \<open>The check constraints of the table, and what the repository and the workers add to them.\<close>

definition case_sound ::
  "int \<Rightarrow> (CreateCase \<Rightarrow> OperationOutcome \<Rightarrow> bool) \<Rightarrow> ReconciliationCase \<Rightarrow> bool" where
  "case_sound max_attempts answers r \<longleftrightarrow> 0 \<le> rc_attempt_count r \<and>
     (if rc_status r = RS_PROCESSING
      then rc_claimed_by r \<noteq> None \<and> rc_claim_token r \<noteq> None \<and> rc_claim_expires_at r \<noteq> None
      else rc_claimed_by r = None \<and> rc_claim_token r = None \<and> rc_claim_expires_at r = None) \<and>
     (rc_resolved_at r \<noteq> None \<longleftrightarrow> decided r) \<and>
     (rc_status r = RS_PENDING \<longrightarrow> rc_attempt_count r = 0 \<or> rc_attempt_count r < max_attempts) \<and>
     (decided r \<longrightarrow> decision_justified max_attempts answers r)"

definition cases_sound ::
  "int \<Rightarrow> (CreateCase \<Rightarrow> OperationOutcome \<Rightarrow> bool) \<Rightarrow> ReconciliationCase list \<Rightarrow> bool" where
  "cases_sound max_attempts answers cases \<longleftrightarrow> distinct (map rc_id cases) \<and>
     distinct (map cc_operation_id cases) \<and>
     list_all (case_sound max_attempts answers) cases"

text \<open>A row in processing is one of the copies held, and a token names one copy.\<close>

definition copies_ok :: "CaseWorld \<Rightarrow> bool" where
  "copies_ok s \<longleftrightarrow>
     (\<forall>r \<in> set (rd_cases (cw_db s)). rc_status r = RS_PROCESSING \<longrightarrow> r \<in> cw_held s) \<and>
     (\<forall>r \<in> cw_held s. rc_status r = RS_PROCESSING \<and>
        (\<exists>t. rc_claim_token r = Some t \<and> t \<in> cw_issued s)) \<and>
     inj_on rc_claim_token (cw_held s)"

section \<open>What a worker does with a case\<close>

lemma insert_event_frame: "insert_event e d = Inr d' \<Longrightarrow> td_events d' = td_events d @ [e]"
  by (auto simp: insert_event_def split: option.splits)

text \<open>A claimed copy settles the row it is a copy of.\<close>

lemma settle_with_event_Inr:
  "settle_with_event (settle_case how) event r d = Inr d' \<longleftrightarrow>
     (\<exists>w t trace. rc_claimed_by r = Some w \<and> rc_claim_token r = Some t \<and>
       (\<exists>x \<in> set (rd_cases d). case_held (rc_id r) w t x) \<and>
       insert_event event (rd_trace d) = Inr trace \<and>
       d' = \<lparr>rd_cases = map (\<lambda>x. if case_held (rc_id r) w t x then settled_row how x else x) (rd_cases d),
             rd_trace = trace\<rparr>)"
  by (cases d) (auto simp: settle_with_event_def inversion_simps split: option.splits)

lemma settle_case_unfold:
  "settle_case (Inl (outcome, now)) = resolve_cases outcome now"
  "settle_case (Inr (now, available_at, error_code)) = retry_cases now available_at error_code"
  by (simp_all add: settle_case_def)

lemma settled_row_unfold:
  "settled_row (Inl (outcome, now)) = resolved_case outcome now"
  "settled_row (Inr (now, available_at, error_code)) = retried_case now available_at error_code"
  by (simp_all add: settled_row_def)

text \<open>The three ends of an iteration: nothing written, decided, or another attempt.\<close>

definition settlement ::
  "int \<Rightarrow> (CreateCase \<Rightarrow> OperationOutcome \<Rightarrow> bool) \<Rightarrow> ReconciliationCase \<Rightarrow>
   ((OperationOutcome \<times> timestamp) + (timestamp \<times> timestamp \<times> string)) \<Rightarrow> bool" where
  "settlement max_attempts answers r how \<longleftrightarrow> (case how of
     Inl (outcome, now) \<Rightarrow> answers (CreateCase.truncate r) outcome \<or>
       oo_status outcome = OUT_INCONSISTENT \<and> oo_safe_result outcome = None \<and>
       max_attempts \<le> rc_attempt_count r
   | Inr _ \<Rightarrow> rc_attempt_count r < max_attempts)"

lemma handle_case_writes:
  assumes "handle_case worker su now r d = (result, d')" and "answers_only answers su"
  shows "d' = d \<or> (\<exists>how event. settlement (wk_max_attempts worker) answers r how \<and>
    settle_with_event (settle_case how) event r d = Inr d')"
proof (cases "ask_and_resolve su now r d")
  case (Inr d1)
  then obtain outcome where o: "ws_outcome su r = Inr outcome"
      "resolve (ws_env su d) r outcome now d = Inr d1"
    by (auto simp: ask_and_resolve_def inversion_simps)
  then have "settlement (wk_max_attempts worker) answers r (Inl (outcome, now))"
    using assms(2) by (simp add: settlement_def answers_only_def)
  moreover have "d' = d1" using assms(1) Inr by (simp add: handle_case_def)
  ultimately show ?thesis using o(2) unfolding resolve_def settle_case_unfold [symmetric] by blast
next
  case (Inl e)
  show ?thesis
  proof (cases "wk_max_attempts worker \<le> rc_attempt_count r")
    case True
    then have "settlement (wk_max_attempts worker) answers r (Inl (unavailable r, now))"
      by (simp add: settlement_def unavailable_def make_outcome_def)
    then show ?thesis
      using assms(1) Inl True
      by (auto simp: handle_case_def resolve_def settle_case_unfold [symmetric] split: sum.splits)
  next
    case False
    then have "settlement (wk_max_attempts worker) answers r (Inr (now, available_at, error_code))"
      for available_at error_code
      by (simp add: settlement_def)
    then show ?thesis
      using assms(1) Inl False
      by (auto simp: handle_case_def retry_case_def settle_case_unfold [symmetric] split: sum.splits)
  qed
qed

section \<open>Preservation\<close>

definition world_ok :: "int \<Rightarrow> (CreateCase \<Rightarrow> OperationOutcome \<Rightarrow> bool) \<Rightarrow> CaseWorld \<Rightarrow> bool" where
  "world_ok max_attempts answers s \<longleftrightarrow>
     cases_sound max_attempts answers (rd_cases (cw_db s)) \<and> copies_ok s"

lemma new_case_fields [simp]:
  "rc_id (new_case env now command) = re_new_id env 0"
  "cc_operation_id (new_case env now command) = cc_operation_id command"
  "rc_status (new_case env now command) = RS_PENDING"
  "case_sound max_attempts answers (new_case env now command)"
  by (simp_all add: new_case_def CreateCase.extend_def case_sound_def decided_def)

lemma create_or_get_writes:
  assumes "create_or_get env now command d = Inr (r, d')"
  shows "rd_cases d' = rd_cases d \<or>
    rd_cases d' = rd_cases d @ [new_case env now command] \<and>
    re_new_id env 0 \<notin> rc_id ` set (rd_cases d) \<and>
    cc_operation_id command \<notin> cc_operation_id ` set (rd_cases d)"
proof (cases "find_case (cc_operation_id command) (rd_cases d)")
  case None
  let ?checks = "case_insert_checks (new_case env now command) (rd_cases d)"
  have "first_failed ?checks = None" and rows: "rd_cases d' = rd_cases d @ [new_case env now command]"
    using assms None by (auto simp: create_or_get_def inversion_simps Let_def split: option.splits)
  then have "re_new_id env 0 \<notin> rc_id ` set (rd_cases d)"
    by (simp add: case_insert_checks_def first_failed_def unique_check_def split: if_splits)
  moreover have "cc_operation_id command \<notin> cc_operation_id ` set (rd_cases d)"
    using None by (auto simp: find_case_def find_None_iff)
  ultimately show ?thesis using rows by blast
qed (use assms in \<open>auto simp: create_or_get_def split: if_splits\<close>)

lemma world_ok_create:
  assumes "world_ok m answers s" and "create_or_get env now command (cw_db s) = Inr (r, d)"
  shows "world_ok m answers (s\<lparr>cw_db := d\<rparr>)"
  using create_or_get_writes [OF assms(2)] assms(1)
  by (auto simp: world_ok_def cases_sound_def copies_ok_def)

lemma taken_case [simp]:
  "rc_status (take_case w e t r) = RS_PROCESSING"
  "rc_claim_token (take_case w e t r) = Some t"
  "cc_operation_id (take_case w e t r) = cc_operation_id r"
  by (simp_all add: take_case_def)

lemma case_sound_take:
  "case_sound m answers r \<Longrightarrow> \<not> decided r \<Longrightarrow> case_sound m answers (take_case w e t r)"
  by (auto simp: case_sound_def take_case_def decided_def split: if_splits)

lemma eligible_undecided: "case_eligible now r \<Longrightarrow> \<not> decided r"
  by (auto simp: case_eligible_def decided_def)

lemma claim_writes:
  assumes "claim env query w token d = Inr (cs, d')"
  shows "claim_cases query w token (rd_cases d) = (cs, rd_cases d')"
  using assms by (cases d) (auto simp: claim_def inversion_simps split: prod.splits)

lemma world_ok_claim:
  assumes "world_ok m answers s" and "claim env query w token (cw_db s) = Inr (cs, d)"
    and "inj token" and "\<forall>i. token i \<notin> cw_issued s"
  shows "world_ok m answers
    \<lparr>cw_db = d, cw_held = cw_held s \<union> set cs, cw_issued = cw_issued s \<union> range token\<rparr>"
proof -
  let ?rows = "rd_cases (cw_db s)" and ?e = "cq_now query + seconds_delta (cq_lease_seconds query)"
  obtain picked where p: "cs = take_leases (take_case w ?e) token picked"
    "rd_cases d = replace_rows rc_id cs ?rows" "set picked \<subseteq> set ?rows"
    "\<forall>r \<in> set picked. case_eligible (cq_now query) r"
    using claim_cases_rows [OF claim_writes [OF assms(2)]] by metis
  have ok: "distinct (map rc_id ?rows)" "distinct (map cc_operation_id ?rows)"
    "list_all (case_sound m answers) ?rows" "copies_ok s"
    using assms(1) by (simp_all add: world_ok_def cases_sound_def)
  have ids: "map rc_id (rd_cases d) = map rc_id ?rows"
    unfolding p(2) by (rule replace_rows_ids)
  have ops: "map cc_operation_id (rd_cases d) = map cc_operation_id ?rows"
    unfolding p(1,2) by (rule replaced_leases_map) (simp_all add: ok(1) p(3))
  have rows: "r' \<in> set ?rows \<or> r' \<in> set cs" if "r' \<in> set (rd_cases d)" for r'
    using cases.claim_rows [OF claim_writes [OF assms(2)] ok(1) that] by auto
  have new: "\<exists>i < length picked. c = take_case w ?e (token i) (picked ! i)" if "c \<in> set cs" for c
    using that unfolding p(1) by (simp add: take_leases_set)
  have fresh: "\<exists>i. rc_claim_token c = Some (token i)" if "c \<in> set cs" for c
    using new [OF that] by auto
  have sound: "case_sound m answers c" if c: "c \<in> set cs" for c
  proof -
    obtain i where i: "i < length picked" "c = take_case w ?e (token i) (picked ! i)"
      using new [OF c] by blast
    then have "picked ! i \<in> set picked" by simp
    then show ?thesis
      using i(2) p(3,4) ok(3) by (auto simp: list_all_iff intro!: case_sound_take eligible_undecided)
  qed
  have processing: "rc_status c = RS_PROCESSING" if "c \<in> set cs" for c using new [OF that] by auto
  have "inj_on rc_claim_token (set cs)"
  proof (rule inj_onI)
    fix c c' assume c: "c \<in> set cs" "c' \<in> set cs" "rc_claim_token c = rc_claim_token c'"
    then obtain i j where "c = take_case w ?e (token i) (picked ! i)"
      "c' = take_case w ?e (token j) (picked ! j)"
      using new by blast
    then show "c = c'" using c(3) assms(3) by (auto dest: injD)
  qed
  moreover have "rc_claim_token c \<noteq> rc_claim_token c'" if "c \<in> set cs" "c' \<in> cw_held s" for c c'
    using fresh [OF that(1)] ok(4) that(2) assms(4) by (force simp: copies_ok_def)
  moreover have "inj_on rc_claim_token (cw_held s)" using ok(4) by (simp add: copies_ok_def)
  ultimately have inj: "inj_on rc_claim_token (cw_held s \<union> set cs)"
    unfolding inj_on_def by (metis Un_iff)
  have "list_all (case_sound m answers) (rd_cases d)"
    using ok(3) rows sound by (auto simp: list_all_iff)
  moreover have "\<forall>r \<in> set (rd_cases d). rc_status r = RS_PROCESSING \<longrightarrow> r \<in> cw_held s \<union> set cs"
    using ok(4) rows by (auto simp: copies_ok_def)
  moreover have "\<forall>r \<in> cw_held s \<union> set cs. rc_status r = RS_PROCESSING \<and>
      (\<exists>t. rc_claim_token r = Some t \<and> t \<in> cw_issued s \<union> range token)"
    (is "\<forall>r \<in> _. ?ok r")
  proof -
    have "?ok r" if "r \<in> cw_held s" for r
      using ok(4) that by (auto simp: copies_ok_def)
    moreover have "?ok r" if "r \<in> set cs" for r
      using fresh [OF that] processing [OF that] by auto
    ultimately show ?thesis by blast
  qed
  ultimately show ?thesis
    using ids ops ok(1,2) inj by (simp add: world_ok_def cases_sound_def copies_ok_def)
qed

lemma case_sound_settled:
  assumes "case_sound m answers r" and "rc_status r = RS_PROCESSING" and "settlement m answers r how"
  shows "case_sound m answers (settled_row how r)" and "rc_status (settled_row how r) \<noteq> RS_PROCESSING"
    and "cc_operation_id (settled_row how r) = cc_operation_id r"
proof -
  show "case_sound m answers (settled_row how r)"
  proof (cases how)
    case (Inl oc)
    obtain outcome now where o: "oc = (outcome, now)" by (cases oc)
    let ?r' = "resolved_case outcome now r"
    have "decided ?r'" by (cases "oo_status outcome") (simp_all add: decided_def resolved_case_def)
    moreover have "decision_justified m answers ?r'"
      using assms(3) Inl o
      by (auto simp: decision_justified_def resolved_case_def settlement_def CreateCase.truncate_def)
    moreover have "rc_status ?r' \<notin> {RS_PENDING, RS_PROCESSING}" "rc_claimed_by ?r' = None"
      "rc_claim_token ?r' = None" "rc_claim_expires_at ?r' = None" "rc_resolved_at ?r' \<noteq> None"
      "rc_attempt_count ?r' = rc_attempt_count r"
      by (simp_all add: resolved_case_def)
    ultimately show ?thesis
      using assms(1) Inl o by (simp add: settled_row_def case_sound_def)
  next
    case (Inr retry)
    then show ?thesis
      using assms by (cases retry)
        (auto simp: settled_row_def case_sound_def retried_case_def settlement_def decided_def)
  qed
  show "rc_status (settled_row how r) \<noteq> RS_PROCESSING"
    "cc_operation_id (settled_row how r) = cc_operation_id r"
    by (auto simp: settled_row_def resolved_case_def retried_case_def split: sum.splits)
qed

text \<open>The row that a copy settles is the copy.\<close>

lemma held_row:
  assumes "copies_ok s" and "r \<in> cw_held s" and "x \<in> set (rd_cases (cw_db s))"
    and "case_held (rc_id r) w t x" and "rc_claim_token r = Some t"
  shows "x = r"
  using assms unfolding copies_ok_def case_held_def by (metis inj_onD)

lemma world_ok_handle:
  assumes "world_ok m answers s" and "r \<in> cw_held s" and "wk_max_attempts worker = m"
    and "answers_only answers su" and "handle_case worker su now r (cw_db s) = (result, d)"
  shows "world_ok m answers (s\<lparr>cw_db := d\<rparr>)"
proof (cases "d = cw_db s")
  case True
  then show ?thesis using assms(1) by (simp add: world_ok_def copies_ok_def)
next
  case False
  let ?rows = "rd_cases (cw_db s)"
  obtain how event where "settlement m answers r how"
    "settle_with_event (settle_case how) event r (cw_db s) = Inr d"
    using handle_case_writes [OF assms(5,4)] False assms(3) by auto
  then obtain w t where how: "settlement m answers r how" "rc_claim_token r = Some t"
    and d: "rd_cases d = map (\<lambda>x. if case_held (rc_id r) w t x then settled_row how x else x) ?rows"
    unfolding settle_with_event_Inr by fastforce
  have ok: "copies_ok s" "list_all (case_sound m answers) ?rows"
    "distinct (map rc_id ?rows)" "distinct (map cc_operation_id ?rows)"
    using assms(1) by (simp_all add: world_ok_def cases_sound_def)
  have row: "case_sound m answers (settled_row how x) \<and> rc_status (settled_row how x) \<noteq> RS_PROCESSING \<and>
      cc_operation_id (settled_row how x) = cc_operation_id x"
    if "x \<in> set ?rows" "case_held (rc_id r) w t x" for x
    using case_sound_settled [of m answers x how] held_row [OF ok(1) assms(2) that how(2)] that ok(2) how(1)
    by (auto simp: list_all_iff case_held_def)
  have ids: "map rc_id (rd_cases d) = map rc_id ?rows" unfolding d by auto
  have ops: "map cc_operation_id (rd_cases d) = map cc_operation_id ?rows"
    unfolding d using row by auto
  have sound: "list_all (case_sound m answers) (rd_cases d)"
    unfolding d using ok(2) row by (auto simp: list_all_iff)
  have "copies_ok (s\<lparr>cw_db := d\<rparr>)"
    using ok(1) row by (auto simp: copies_ok_def d)
  then show ?thesis using ok(3,4) ids ops sound by (simp add: world_ok_def cases_sound_def)
qed

lemma world_ok_step: "case_step m answers s s' \<Longrightarrow> world_ok m answers s \<Longrightarrow> world_ok m answers s'"
  by (induction rule: case_step.induct) (blast intro: world_ok_create world_ok_claim world_ok_handle)+

lemma world_ok_reachable:
  assumes "(case_step m answers)\<^sup>*\<^sup>* (case_start trace) s"
  shows "world_ok m answers s"
  using assms
proof (induction rule: rtranclp_induct)
  case base
  show ?case by (simp add: case_start_def world_ok_def cases_sound_def copies_ok_def)
qed (rule world_ok_step)

text \<open>What a step does to a decided row: nothing.\<close>

lemma decided_row_kept:
  assumes "world_ok m answers s" and "case_step m answers s s'"
    and row: "r \<in> set (rd_cases (cw_db s))" "decided r"
  shows "r \<in> set (rd_cases (cw_db s'))"
  using assms(2)
proof cases
  case (create env now command r0 d)
  then show ?thesis using create_or_get_writes [OF create(2)] row(1) by auto
next
  case (claim env query w token cs d)
  from claim_cases_rows [OF claim_writes [OF claim(2)]] obtain picked where p:
    "cs = take_leases (take_case w (cq_now query + seconds_delta (cq_lease_seconds query))) token picked"
    "rd_cases d = replace_rows rc_id cs (rd_cases (cw_db s))"
    "set picked \<subseteq> set (rd_cases (cw_db s))" "\<forall>r \<in> set picked. case_eligible (cq_now query) r" .
  have "rc_id r \<noteq> rc_id c" if c: "c \<in> set cs" for c
  proof
    assume id: "rc_id r = rc_id c"
    obtain i where i: "i < length picked" "rc_id c = rc_id (picked ! i)"
      using c p(1) by (auto simp: take_leases_set)
    have "picked ! i \<in> set picked" using i(1) by simp
    then have "picked ! i \<in> set (rd_cases (cw_db s))" "\<not> decided (picked ! i)"
      using p(3,4) eligible_undecided by blast+
    then have "picked ! i = r"
      using assms(1) row(1) id i(2) unfolding world_ok_def cases_sound_def distinct_map inj_on_def
      by metis
    then show False using \<open>\<not> decided (picked ! i)\<close> row(2) by simp
  qed
  then have "find (\<lambda>c. rc_id c = rc_id r) cs = None" by (fastforce simp: find_None_iff)
  then show ?thesis using row(1) claim(1) p(2) by (force simp: replace_rows_def)
next
  case (handle c worker su now result d)
  have "\<not> case_held i w t r" for i w t using row(2) by (auto simp: case_held_def decided_def)
  moreover have "d = cw_db s \<or> (\<exists>how event. settle_with_event (settle_case how) event c (cw_db s) = Inr d)"
    using handle_case_writes [OF handle(5,4)] by blast
  ultimately show ?thesis
    using row(1) unfolding handle(1) settle_with_event_Inr by auto
qed

section \<open>The iteration of a worker is made of steps\<close>

lemma handle_cases_steps:
  assumes "handle_cases worker su now rs (cw_db s) = (result, d)" and "set rs \<subseteq> cw_held s"
    and "wk_max_attempts worker = m" and "answers_only answers su"
  shows "(case_step m answers)\<^sup>*\<^sup>* s (s\<lparr>cw_db := d\<rparr>)"
  using assms(1,2)
proof (induction rs arbitrary: s)
  case (Cons r rs)
  obtain res d1 where one: "handle_case worker su now r (cw_db s) = (res, d1)" by fastforce
  have step: "case_step m answers s (s\<lparr>cw_db := d1\<rparr>)"
    using Cons.prems(2) one assms(3,4) by (intro case_step.handle) auto
  show ?case
  proof (cases res)
    case (Inl e)
    then show ?thesis using Cons.prems(1) one step by auto
  next
    case (Inr u)
    then have "(case_step m answers)\<^sup>*\<^sup>* (s\<lparr>cw_db := d1\<rparr>) (s\<lparr>cw_db := d1, cw_db := d\<rparr>)"
      using Cons.prems one by (intro Cons.IH) auto
    then show ?thesis using step by (auto intro: converse_rtranclp_into_rtranclp)
  qed
qed auto

text \<open>One iteration of the worker refines the step relation: whatever it does to the tables, at
  whatever point it stops, is a claim followed by handlings of the claimed cases.\<close>

lemma worker_iteration_refines_steps:
  assumes "run_once worker su now limit (cw_db s) = (result, d)"
    and "wk_max_attempts worker = max_attempts" and "answers_only answers su"
    and "inj (ws_token su (cw_db s))" and "\<forall>i. ws_token su (cw_db s) i \<notin> cw_issued s"
  shows "\<exists>s'. (case_step max_attempts answers)\<^sup>*\<^sup>* s s' \<and> cw_db s' = d"
proof (cases "claim (ws_env su (cw_db s))
    \<lparr>cq_now = now, cq_lease_seconds = wk_lease_seconds worker, cq_batch_size = limit,
     cq_locked = ws_locked su\<rparr> (wk_worker_id worker) (ws_token su (cw_db s)) (cw_db s)")
  case (Inl e)
  then show ?thesis using assms(1) by (auto simp: run_once_def)
next
  case (Inr claimed)
  then obtain cs d1 where c: "claimed = (cs, d1)" by fastforce
  let ?s1 = "\<lparr>cw_db = d1, cw_held = cw_held s \<union> set cs,
    cw_issued = cw_issued s \<union> range (ws_token su (cw_db s))\<rparr>"
  have "case_step max_attempts answers s ?s1"
    using Inr c assms(4,5) by (intro case_step.claim) auto
  moreover obtain res where "handle_cases worker su now cs (cw_db ?s1) = (res, d)"
    using assms(1) Inr c by (auto simp: run_once_def split: prod.splits)
  then have "(case_step max_attempts answers)\<^sup>*\<^sup>* ?s1 (?s1\<lparr>cw_db := d\<rparr>)"
    using assms(2,3) by (intro handle_cases_steps) auto
  ultimately have "(case_step max_attempts answers)\<^sup>*\<^sup>* s (?s1\<lparr>cw_db := d\<rparr>)"
    by (rule converse_rtranclp_into_rtranclp)
  then show ?thesis by force
qed

section \<open>Properties\<close>

text \<open>C16: cases are decided by evidence. Whatever requests and workers do, in any order, with workers
  that stop, lose their lease and come back: an operation has one case; a case waiting for another
  attempt has had fewer than the allowed number; a claim is recorded exactly while the case is in
  processing; and a case is decided only by an answer of the evidence query, whose result it keeps,
  or, after the last attempt, by manual review.\<close>

theorem cases_decided_by_evidence:
  assumes "(case_step max_attempts answers)\<^sup>*\<^sup>* (case_start trace) s"
  shows "cases_sound max_attempts answers (rd_cases (cw_db s))"
  using world_ok_reachable [OF assms] by (simp add: world_ok_def)

text \<open>A decision is final. Once a case is decided, no later step of any request or worker, current
  or stale, changes its row.\<close>

lemma decided_case_is_final:
  assumes "(case_step max_attempts answers)\<^sup>*\<^sup>* (case_start trace) s"
    and "(case_step max_attempts answers)\<^sup>*\<^sup>* s s'"
    and "r \<in> set (rd_cases (cw_db s))" and "decided r"
  shows "r \<in> set (rd_cases (cw_db s'))"
  using assms(2)
proof (induction rule: rtranclp_induct)
  case base
  show ?case by (rule assms(3))
next
  case (step s1 s2)
  have "(case_step max_attempts answers)\<^sup>*\<^sup>* (case_start trace) s1" using assms(1) step.hyps(1) by simp
  from decided_row_kept [OF world_ok_reachable [OF this] step.hyps(2) step.IH assms(4)] show ?case .
qed

text \<open>The row that a held claim settles, when the trace takes the event.\<close>

lemma settle_with_event_holder:
  assumes "r \<in> set (rd_cases d)" and "rc_status r = RS_PROCESSING"
    and "rc_claimed_by r = Some w" and "rc_claim_token r = Some t"
    and "insert_event event (rd_trace d) = Inr trace"
  shows "\<exists>d'. settle_with_event (settle_case how) event r d = Inr d' \<and>
    settled_row how r \<in> set (rd_cases d')"
proof -
  have "case_held (rc_id r) w t r" using assms(2-4) by (simp add: case_held_def)
  then show ?thesis using assms unfolding settle_with_event_Inr by force
qed

text \<open>The event that an attempt writes has a fresh identifier and a key that the trace does not hold.\<close>

definition settling_keys :: "ReconciliationEnv \<Rightarrow> ReconciliationCase \<Rightarrow> string list" where
  "settling_keys env r = map (\<lambda>parts. re_sha256 env (join_with ''|'' (uuid_text (rc_id r) # parts)))
     ((''reconciliation_retry_scheduled'' # token_text r) #
      map (\<lambda>s. [resolution_event s]) [OUT_COMMITTED, OUT_NOT_COMMITTED, OUT_INCONSISTENT])"

definition trace_accepts :: "ReconciliationEnv \<Rightarrow> ReconciliationCase \<Rightarrow> ReconciliationDb \<Rightarrow> bool" where
  "trace_accepts env r d \<longleftrightarrow> re_new_id env 0 \<notin> te_id ` set (td_events (rd_trace d)) \<and>
     list_all (\<lambda>key. key \<notin> te_event_key ` set (td_events (rd_trace d))) (settling_keys env r)"

lemma insert_event_accepts:
  assumes "re_new_id env 0 \<notin> te_id ` set (td_events d)"
    and "re_sha256 env (join_with ''|'' ([uuid_text (rc_id r), event_type] @ suffix))
      \<notin> te_event_key ` set (td_events d)"
  shows "insert_event (case_event env 0 suffix r event_type payload now) d =
    Inr (d\<lparr>td_events := td_events d @ [case_event env 0 suffix r event_type payload now]\<rparr>)"
proof -
  have "first_failed (event_insert_checks (case_event env 0 suffix r event_type payload now) d) = None"
    using assms by (simp add: event_insert_checks_def case_event_def one_per_run_def fk_check_def)
  then show ?thesis by (simp add: insert_event_def)
qed

lemma held_case_settles:
  assumes "r \<in> set (rd_cases d)" and "rc_status r = RS_PROCESSING"
    and "rc_claimed_by r = Some w" and "rc_claim_token r = Some t" and "trace_accepts env r d"
  shows "\<exists>d'. resolve env r outcome now d = Inr d' \<and>
      resolved_case outcome now r \<in> set (rd_cases d')"
    and "\<exists>d'. retry_case env r now available_at error_code d = Inr d' \<and>
      retried_case now available_at error_code r \<in> set (rd_cases d')"
proof -
  note settles = settle_with_event_holder [OF assms(1-4)]
  have resolving: "insert_event (case_event env 0 [] r (resolution_event (oo_status outcome)) payload now)
      (rd_trace d) \<noteq> Inl e" for payload e
    using assms(5) by (cases "oo_status outcome")
      (simp_all add: trace_accepts_def settling_keys_def insert_event_accepts)
  show "\<exists>d'. resolve env r outcome now d = Inr d' \<and> resolved_case outcome now r \<in> set (rd_cases d')"
    unfolding resolve_def settle_case_unfold [symmetric] settled_row_unfold [symmetric]
    using resolving settles by (metis sum.exhaust)
  have "insert_event (case_event env 0 (token_text r) r ''reconciliation_retry_scheduled'' payload now)
      (rd_trace d) \<noteq> Inl e" for payload e
    using assms(5) by (simp add: trace_accepts_def settling_keys_def insert_event_accepts)
  then show "\<exists>d'. retry_case env r now available_at error_code d = Inr d' \<and>
      retried_case now available_at error_code r \<in> set (rd_cases d')"
    unfolding retry_case_def settle_case_unfold [symmetric] settled_row_unfold [symmetric]
    using settles by (metis sum.exhaust)
qed

text \<open>Every attempt settles its case. A worker that holds a claim, and whose trace event the trace
  accepts, decides the case by the answer of the evidence; without an answer it schedules another
  attempt after an exponential delay, and after the last attempt it hands the case to manual review.
  Nothing is left in processing.\<close>

lemma held_case_is_settled:
  assumes "r \<in> set (rd_cases d)" and "rc_status r = RS_PROCESSING"
    and "rc_claimed_by r = Some w" and "rc_claim_token r = Some t"
    and "\<forall>operation_id point. ws_fault su operation_id point = None"
    and "trace_accepts (ws_env su d) r d"
  shows "\<exists>d' r'. handle_case worker su now r d = (Inr (), d') \<and> r' \<in> set (rd_cases d') \<and>
    rc_id r' = rc_id r \<and> rc_claim_token r' = None \<and>
    (case ws_outcome su r of
       Inr outcome \<Rightarrow> rc_status r' = resolution_status (oo_status outcome) \<and>
         rc_safe_result r' = oo_safe_result outcome
     | Inl e \<Rightarrow>
         if wk_max_attempts worker \<le> rc_attempt_count r then rc_status r' = RS_MANUAL_REVIEW
         else rc_status r' = RS_PENDING \<and> rc_attempt_count r' = rc_attempt_count r \<and>
           rc_available_at r' =
             now + seconds_delta (wk_retry_base worker * 2 ^ nat (rc_attempt_count r - 1)) \<and>
           rc_last_error_code r' = Some (error_code_of e))"
proof -
  note settles = held_case_settles [OF assms(1-4,6)]
  show ?thesis
  proof (cases "ws_outcome su r")
    case (Inr outcome)
    obtain d' where "resolve (ws_env su d) r outcome now d = Inr d'"
      "resolved_case outcome now r \<in> set (rd_cases d')"
      using settles(1) by blast
    then have "handle_case worker su now r d = (Inr (), d')"
      using assms(5) Inr by (simp add: handle_case_def ask_and_resolve_def hit_def)
    then show ?thesis
      using \<open>resolved_case outcome now r \<in> _\<close> Inr by (force simp: resolved_case_def)
  next
    case (Inl e)
    have failed: "ask_and_resolve su now r d = Inl e"
      using assms(5) Inl by (simp add: ask_and_resolve_def hit_def)
    show ?thesis
    proof (cases "wk_max_attempts worker \<le> rc_attempt_count r")
      case True
      obtain d' where "resolve (ws_env su d) r (unavailable r) now d = Inr d'"
        "resolved_case (unavailable r) now r \<in> set (rd_cases d')"
        using settles(1) by blast
      then show ?thesis
        using failed True Inl
        by (force simp: handle_case_def resolved_case_def unavailable_def make_outcome_def)
    next
      case False
      let ?at = "now + seconds_delta (wk_retry_base worker * 2 ^ nat (rc_attempt_count r - 1))"
      obtain d' where "retry_case (ws_env su d) r now ?at (error_code_of e) d = Inr d'"
        "retried_case now ?at (error_code_of e) r \<in> set (rd_cases d')"
        using settles(2) by blast
      then show ?thesis
        using failed False Inl by (force simp: handle_case_def retried_case_def)
    qed
  qed
qed


text \<open>A lost lease ends the iteration. When the case at hand was claimed anew, the worker's
  resolution is refused, its attempt to schedule a retry is refused too, and the refusal leaves the
  loop: the tables are as they were, and the cases claimed after this one are not handled.\<close>

lemma lost_case_stops_worker:
  assumes "\<forall>x \<in> set (rd_cases d). rc_id x = rc_id r \<longrightarrow> rc_claim_token x \<noteq> rc_claim_token r"
    and "rc_claimed_by r \<noteq> None" and "rc_claim_token r \<noteq> None"
  shows "handle_cases worker su now (r # rs) d = (Inl stale_case, d)"
proof -
  obtain w t where claim: "rc_claimed_by r = Some w" "rc_claim_token r = Some t"
    using assms(2,3) by auto
  then have "\<not> case_held (rc_id r) w t x" if "x \<in> set (rd_cases d)" for x
    using assms(1) that by (auto simp: case_held_def)
  then have stale: "settle_with_event (settle_case how) event r d = Inl stale_case" for how event
    using claim
    by (cases how) (auto simp: settle_with_event_def settle_case_def resolve_cases_def retry_cases_def
        compare_and_set_def)
  then have "resolve env r outcome now d = Inl stale_case"
    "retry_case env r now available_at error_code d = Inl stale_case"
    for env outcome available_at error_code
    unfolding resolve_def retry_case_def settle_case_unfold [symmetric] by simp_all
  then show ?thesis
    by (auto simp: handle_case_def ask_and_resolve_def bindE_def split: sum.splits)
qed

section \<open>One case, by example\<close>

text \<open>A case frozen from the creation in the demonstration town, claimed by one worker.\<close>

definition case_env :: "ReconciliationDb \<Rightarrow> ReconciliationEnv" where
  "case_env d = \<lparr>re_sha256 = (\<lambda>s. s),
     re_new_id = (\<lambda>n. 1000 + 10 * length (td_events (rd_trace d)) + n)\<rparr>"

definition no_trace :: TraceDb where
  "no_trace = \<lparr>td_runs = [], td_events = []\<rparr>"

definition made_case :: "(ReconciliationCase \<times> ReconciliationDb) outcome" where
  "made_case = create_or_get (case_env (cw_db (case_start no_trace))) 100 creation_of_town
     (cw_db (case_start no_trace))"

definition one_case :: ReconciliationDb where "one_case = snd (projr made_case)"

definition case_worker :: ReconciliationWorker where
  "case_worker = \<lparr>wk_worker_id = ''w'', wk_lease_seconds = 30, wk_max_attempts = 5, wk_retry_base = 2\<rparr>"

definition case_query :: ClaimQuery where
  "case_query = \<lparr>cq_now = 200, cq_lease_seconds = 30, cq_batch_size = 20, cq_locked = {}\<rparr>"

definition case_tokens :: "nat \<Rightarrow> uuid" where "case_tokens n = 900 + n"

definition claimed_case :: "(ReconciliationCase list \<times> ReconciliationDb) outcome" where
  "claimed_case = claim (case_env one_case) case_query ''w'' case_tokens one_case"

definition claimed_db :: ReconciliationDb where "claimed_db = snd (projr claimed_case)"

definition the_copy :: ReconciliationCase where "the_copy = hd (rd_cases claimed_db)"

definition reading :: "(ReconciliationCase \<Rightarrow> OperationOutcome outcome) \<Rightarrow> WorkerSurroundings" where
  "reading evidence = \<lparr>ws_env = case_env, ws_token = (\<lambda>_. case_tokens), ws_locked = {},
     ws_outcome = evidence, ws_fault = (\<lambda>_ _. None)\<rparr>"

definition town_answers :: "CreateCase \<Rightarrow> OperationOutcome \<Rightarrow> bool" where
  "town_answers c outcome \<longleftrightarrow> get_operation_outcome c town_created = Inr outcome"

definition town_reader :: WorkerSurroundings where
  "town_reader = reading (\<lambda>r. get_operation_outcome r town_created)"

definition settled_db :: ReconciliationDb where
  "settled_db = snd (handle_case case_worker town_reader 210 the_copy claimed_db)"

definition settled_world :: CaseWorld where
  "settled_world = \<lparr>cw_db = settled_db, cw_held = set (fst (projr claimed_case)),
     cw_issued = range case_tokens\<rparr>"

definition example_runs :: bool where
  "example_runs \<longleftrightarrow> (case made_case of Inl _ \<Rightarrow> False | Inr (_, d0) \<Rightarrow>
     list_all (\<lambda>r. rc_claim_token r = None) (rd_cases d0) \<and>
     (case claim (case_env d0) case_query ''w'' case_tokens d0 of Inl _ \<Rightarrow> False | Inr (_, d) \<Rightarrow>
       (case rd_cases d of
          [r] \<Rightarrow> rc_status r = RS_PROCESSING \<and> rc_claimed_by r = Some ''w'' \<and>
            rc_claim_token r = Some 900 \<and> rc_attempt_count r = 1 \<and>
            CreateCase.truncate r = creation_of_town \<and> trace_accepts (case_env d) r d
        | _ \<Rightarrow> False)))"

lemma example_runs: example_runs
  by code_simp

lemma case_runs:
  "\<exists>r0 cs. made_case = Inr (r0, one_case) \<and> claimed_case = Inr (cs, claimed_db) \<and>
     list_all (\<lambda>r. rc_claim_token r = None) (rd_cases one_case) \<and>
     (\<exists>r. rd_cases claimed_db = [r] \<and> rc_status r = RS_PROCESSING \<and> rc_claimed_by r = Some ''w'' \<and>
        rc_claim_token r = Some 900 \<and> rc_attempt_count r = 1 \<and>
        CreateCase.truncate r = creation_of_town \<and> trace_accepts (case_env claimed_db) r claimed_db)"
proof -
  obtain r0 d0 where made: "made_case = Inr (r0, d0)"
    using example_runs by (auto simp: example_runs_def split: sum.splits)
  have one: "one_case = d0" unfolding one_case_def made by simp
  obtain cs d where claimed: "claim (case_env d0) case_query ''w'' case_tokens d0 = Inr (cs, d)"
    using example_runs unfolding example_runs_def made by (auto split: sum.splits)
  have "claimed_case = Inr (cs, d)" and db: "claimed_db = d"
    unfolding claimed_db_def claimed_case_def one claimed by simp_all
  moreover have "list_all (\<lambda>r. rc_claim_token r = None) (rd_cases d0)"
    using example_runs unfolding example_runs_def made by simp
  moreover have "\<exists>r. rd_cases d = [r] \<and> rc_status r = RS_PROCESSING \<and> rc_claimed_by r = Some ''w'' \<and>
      rc_claim_token r = Some 900 \<and> rc_attempt_count r = 1 \<and>
      CreateCase.truncate r = creation_of_town \<and> trace_accepts (case_env d) r d"
    using example_runs unfolding example_runs_def made sum.case prod.case claimed
    by (auto split: list.splits)
  ultimately show ?thesis using made unfolding one db by blast
qed

lemma copy_held:
  "rd_cases claimed_db = [the_copy]" "rc_status the_copy = RS_PROCESSING"
  "rc_claimed_by the_copy = Some ''w''" "rc_claim_token the_copy = Some 900"
  "rc_attempt_count the_copy = 1" "CreateCase.truncate the_copy = creation_of_town"
  "trace_accepts (case_env claimed_db) the_copy claimed_db"
  using case_runs by (auto simp: the_copy_def)

lemma truncated_fields:
  "cc_operation_id (CreateCase.truncate r) = cc_operation_id r"
  "cc_action (CreateCase.truncate r) = cc_action r"
  "cc_thread_id (CreateCase.truncate r) = cc_thread_id r"
  "cc_original_run_id (CreateCase.truncate r) = cc_original_run_id r"
  "cc_original_trace_id (CreateCase.truncate r) = cc_original_trace_id r"
  "cc_operation_idempotency_fingerprint (CreateCase.truncate r) = cc_operation_idempotency_fingerprint r"
  "cc_request_fingerprint (CreateCase.truncate r) = cc_request_fingerprint r"
  "cc_actor_type (CreateCase.truncate r) = cc_actor_type r"
  "cc_actor_id (CreateCase.truncate r) = cc_actor_id r"
  "cc_user_id (CreateCase.truncate r) = cc_user_id r"
  "cc_property_id (CreateCase.truncate r) = cc_property_id r"
  "cc_target_entity_type (CreateCase.truncate r) = cc_target_entity_type r"
  "cc_target_entity_id (CreateCase.truncate r) = cc_target_entity_id r"
  "cc_expected_entity_version (CreateCase.truncate r) = cc_expected_entity_version r"
  by (simp_all add: CreateCase.truncate_def)

lemma outcome_of_truncated: "get_operation_outcome (CreateCase.truncate r) d = get_operation_outcome r d"
  unfolding get_operation_outcome_def outcome_authorized_def evidence_agrees_def target_matches_def
    escalation_history_present_def make_outcome_def truncated_fields ..

lemma town_reader_honest: "answers_only town_answers town_reader"
  by (simp add: answers_only_def town_answers_def town_reader_def reading_def outcome_of_truncated)

lemma case_tokens_fresh: "inj case_tokens" by (simp add: case_tokens_def inj_def)

lemma claimed_reachable:
  "(case_step 5 town_answers)\<^sup>*\<^sup>* (case_start no_trace)
     \<lparr>cw_db = claimed_db, cw_held = set (fst (projr claimed_case)), cw_issued = range case_tokens\<rparr>"
proof -
  have made: "case_step 5 town_answers (case_start no_trace) ((case_start no_trace)\<lparr>cw_db := one_case\<rparr>)"
    using case_runs unfolding made_case_def by (auto intro: case_step.create)
  moreover have "case_step 5 town_answers ((case_start no_trace)\<lparr>cw_db := one_case\<rparr>)
     \<lparr>cw_db = claimed_db, cw_held = {} \<union> set (fst (projr claimed_case)),
      cw_issued = {} \<union> range case_tokens\<rparr>"
    using case_step.claim [of "case_env one_case" case_query "''w''" case_tokens
        "(case_start no_trace)\<lparr>cw_db := one_case\<rparr>"] case_runs case_tokens_fresh
    by (auto simp: claimed_case_def case_start_def)
  ultimately show ?thesis by simp
qed

lemma copy_in: "the_copy \<in> set (rd_cases claimed_db)" "the_copy \<in> set (fst (projr claimed_case))"
  using world_ok_reachable [OF claimed_reachable] copy_held(1,2)
  by (simp_all add: world_ok_def copies_ok_def)

lemma settled_reachable: "(case_step 5 town_answers)\<^sup>*\<^sup>* (case_start no_trace) settled_world"
proof -
  let ?s = "\<lparr>cw_db = claimed_db, cw_held = set (fst (projr claimed_case)), cw_issued = range case_tokens\<rparr>"
  have "case_step 5 town_answers ?s (?s\<lparr>cw_db := settled_db\<rparr>)"
    by (rule case_step.handle [of the_copy _ case_worker _ _ town_reader 210
          "fst (handle_case case_worker town_reader 210 the_copy claimed_db)"])
      (simp_all add: copy_in case_worker_def town_reader_honest settled_db_def)
  with claimed_reachable show ?thesis by (simp add: settled_world_def)
qed

lemma copy_settles:
  "\<exists>outcome. get_operation_outcome the_copy town_created = Inr outcome \<and>
     oo_status outcome = OUT_COMMITTED \<and> resolved_case outcome 210 the_copy \<in> set (rd_cases settled_db)"
proof -
  have "map_sum id oo_status (get_operation_outcome creation_of_town town_created) = Inr OUT_COMMITTED"
    by code_simp
  then obtain outcome where o: "get_operation_outcome the_copy town_created = Inr outcome"
    "oo_status outcome = OUT_COMMITTED"
    using outcome_of_truncated [of the_copy town_created] copy_held(6)
    by (cases "get_operation_outcome the_copy town_created") auto
  obtain d where "resolve (case_env claimed_db) the_copy outcome 210 claimed_db = Inr d"
    "resolved_case outcome 210 the_copy \<in> set (rd_cases d)"
    using held_case_settles(1) [OF copy_in(1) copy_held(2,3,4,7)] by blast
  moreover from this have "settled_db = d"
    using o by (simp add: settled_db_def handle_case_def ask_and_resolve_def town_reader_def reading_def
        hit_def)
  ultimately show ?thesis using o by blast
qed


theorem cases_decided_by_evidence_witness:
  "cases_sound 5 town_answers (rd_cases settled_db) \<and> rd_cases settled_db \<noteq> []"
  using cases_decided_by_evidence [OF settled_reachable] copy_settles
  by (auto simp: settled_world_def)



end
