(* ===== verification/Reliability.thy ===== *)
theory Reliability
  imports Trace
begin

text \<open>
  The durable side of agent runs, after \<open>backend/app/application/agent_reliability.py\<close> (the service),
  \<open>infrastructure/database/repositories/agent_reliability.py\<close> (the repository) and
  \<open>infrastructure/database/models/agent_control.py\<close> (the tables): conversation threads and their
  lifecycle, messages, the one public result of a run, human review cases with their event log, and
  the repair of runs that stalled.

  A transaction is a function that returns its result with the new tables, or the error that rolls
  it back. Rows of a thread, a run and a case are locked while they are changed, so transactions on
  them run one after the other. The clock is read once per transaction. Surrogate keys of messages
  and events are left out; the Chinese texts for stalled runs are parameters.
\<close>

section \<open>Vocabulary\<close>

fun message_outcome_value :: "message_outcome \<Rightarrow> string" where
  "message_outcome_value MO_COMPLETED = ''COMPLETED''"
| "message_outcome_value MO_FAILED = ''FAILED''"
| "message_outcome_value MO_ESCALATED = ''ESCALATED''"

fun required_user_action_value :: "required_user_action \<Rightarrow> string" where
  "required_user_action_value RA_NONE = ''NONE''"
| "required_user_action_value RA_PROVIDE_DETAILS = ''PROVIDE_DETAILS''"
| "required_user_action_value RA_SELECT_SLOT = ''SELECT_SLOT''"
| "required_user_action_value RA_CONFIRM_ACTION = ''CONFIRM_ACTION''"
| "required_user_action_value RA_CONTACT_OPERATOR = ''CONTACT_OPERATOR''"
| "required_user_action_value RA_RETRY = ''RETRY''"

datatype thread_property_status = TP_UNRESOLVED | TP_RESOLVED | TP_DENIED

datatype thread_lifecycle = TL_ACTIVE | TL_ARCHIVED | TL_DELETED

datatype message_role = MR_USER | MR_ASSISTANT

datatype review_status = HR_OPEN | HR_CLAIMED | HR_RESOLVED | HR_DISMISSED

fun review_status_value :: "review_status \<Rightarrow> string" where
  "review_status_value HR_OPEN = ''OPEN''"
| "review_status_value HR_CLAIMED = ''CLAIMED''"
| "review_status_value HR_RESOLVED = ''RESOLVED''"
| "review_status_value HR_DISMISSED = ''DISMISSED''"

datatype failure_stage =
  FS_INTERPRETATION | FS_PROPERTY_AUTHORIZATION | FS_SAFETY_REVIEW | FS_POLICY_REVIEW
| FS_DUPLICATE_CHECK | FS_SCHEDULING | FS_MUTATION_RECONCILIATION | FS_UNSUPPORTED_REQUEST

fun failure_stage_value :: "failure_stage \<Rightarrow> string" where
  "failure_stage_value FS_INTERPRETATION = ''INTERPRETATION''"
| "failure_stage_value FS_PROPERTY_AUTHORIZATION = ''PROPERTY_AUTHORIZATION''"
| "failure_stage_value FS_SAFETY_REVIEW = ''SAFETY_REVIEW''"
| "failure_stage_value FS_POLICY_REVIEW = ''POLICY_REVIEW''"
| "failure_stage_value FS_DUPLICATE_CHECK = ''DUPLICATE_CHECK''"
| "failure_stage_value FS_SCHEDULING = ''SCHEDULING''"
| "failure_stage_value FS_MUTATION_RECONCILIATION = ''MUTATION_RECONCILIATION''"
| "failure_stage_value FS_UNSUPPORTED_REQUEST = ''UNSUPPORTED_REQUEST''"

datatype safety_level = SL_STANDARD | SL_ELEVATED | SL_EMERGENCY

definition active_review_statuses :: "review_status set" where
  "active_review_statuses = {HR_OPEN, HR_CLAIMED}"

section \<open>Tables\<close>

record ThreadRow =
  th_thread_id :: uuid
  th_resident_id :: uuid
  th_property_id :: "uuid option"
  th_property_resolution :: thread_property_status
  th_lifecycle :: thread_lifecycle
  th_display_title :: "string option"
  th_last_activity_at :: timestamp
  th_created_at :: timestamp
  th_updated_at :: timestamp
  th_archived_at :: "timestamp option"
  th_archived_by :: "uuid option"
  th_deleted_at :: "timestamp option"
  th_deleted_by :: "uuid option"
  th_version :: int

record MessageRow =
  mg_message_id :: uuid
  mg_thread_id :: uuid
  mg_run_id :: uuid
  mg_role :: message_role
  mg_content :: string
  mg_sequence_no :: int
  mg_created_at :: timestamp

record ReviewCase =
  hc_id :: uuid
  hc_thread_id :: uuid
  hc_resident_id :: uuid
  hc_property_id :: "uuid option"
  hc_ticket_id :: "uuid option"
  hc_source_run_id :: "uuid option"
  hc_intent_version :: int
  hc_failure_stage :: failure_stage
  hc_reason_code :: string
  hc_last_error_code :: "string option"
  hc_safety_level :: safety_level
  hc_priority :: int
  hc_summary :: string
  hc_status :: review_status
  hc_assigned_operator_id :: "uuid option"
  hc_dedupe_key :: string
  hc_version :: int
  hc_created_at :: timestamp
  hc_updated_at :: timestamp
  hc_claimed_at :: "timestamp option"
  hc_resolved_at :: "timestamp option"
  hc_resolution_code :: "string option"
  hc_resolution_note :: "string option"

record ReviewEvent =
  he_case_id :: uuid
  he_sequence_no :: int
  he_from_status :: "review_status option"
  he_to_status :: review_status
  he_action :: string
  he_actor_type :: actor_type
  he_actor_id :: uuid
  he_trace_id :: uuid
  he_version_before :: int
  he_version_after :: int
  he_reason_code :: "string option"
  he_note :: "string option"
  he_occurred_at :: timestamp

text \<open>The outbox rows of review cases; their delivery columns start as those of every outbox row.\<close>

record ReviewOutbox =
  rx_event_key :: string
  rx_event_type :: string
  rx_aggregate_type :: string
  rx_aggregate_id :: uuid
  rx_aggregate_version :: int
  rx_operation_id :: uuid
  rx_trace_id :: uuid
  rx_run_id :: "uuid option"
  rx_thread_id :: "uuid option"
  rx_actor_type :: string
  rx_actor_id :: uuid
  rx_payload :: "(string \<times> pval) list"
  rx_occurred_at :: timestamp

text \<open>The tables, and the rows of users, properties and tickets that foreign keys refer to.\<close>

record ReliabilityDb =
  ld_trace :: TraceDb
  ld_threads :: "ThreadRow list"
  ld_messages :: "MessageRow list"
  ld_cases :: "ReviewCase list"
  ld_case_events :: "ReviewEvent list"
  ld_outbox :: "ReviewOutbox list"
  ld_users :: "uuid set"
  ld_properties :: "uuid set"
  ld_tickets :: "uuid set"

record ReliabilityEnv =
  le_now :: timestamp
  le_sha256 :: "string \<Rightarrow> string"
  le_uuid5_url :: "string \<Rightarrow> uuid"
  le_case_id :: "ReviewCase list \<Rightarrow> uuid"
  le_event_id :: "TraceDb \<Rightarrow> uuid"
  le_escalated_text :: string
  le_failed_text :: string

definition optional_fk :: "uuid option \<Rightarrow> uuid set \<Rightarrow> bool" where
  "optional_fk key keys \<longleftrightarrow> (case key of None \<Rightarrow> True | Some k \<Rightarrow> k \<in> keys)"

definition thread_checks :: "ThreadRow \<Rightarrow> ReliabilityDb \<Rightarrow> (bool \<times> exn) list" where
  "thread_checks r d =
     [row_check (0 < th_version r) ''ck_agent_thread_records_version_positive'',
      row_check ((th_lifecycle r = TL_ACTIVE \<and> th_archived_at r = None \<and> th_deleted_at r = None) \<or>
          (th_lifecycle r = TL_ARCHIVED \<and> th_archived_at r \<noteq> None \<and> th_deleted_at r = None) \<or>
          (th_lifecycle r = TL_DELETED \<and> th_archived_at r \<noteq> None \<and> th_deleted_at r \<noteq> None))
        ''ck_agent_thread_records_archive_time_matches_status'',
      row_check (th_property_resolution r = TP_RESOLVED \<longrightarrow> th_property_id r \<noteq> None)
        ''ck_agent_thread_records_resolved_property_present'',
      fk_check (th_resident_id r \<in> ld_users d) ''fk_agent_thread_records_resident_id_users'',
      fk_check (optional_fk (th_property_id r) (ld_properties d))
        ''fk_agent_thread_records_property_id_properties'',
      fk_check (optional_fk (th_archived_by r) (ld_users d))
        ''fk_agent_thread_records_archived_by_actor_id_users'',
      fk_check (optional_fk (th_deleted_by r) (ld_users d))
        ''fk_agent_thread_records_deleted_by_actor_id_users'']"

definition message_checks :: "MessageRow \<Rightarrow> ReliabilityDb \<Rightarrow> (bool \<times> exn) list" where
  "message_checks m d =
     [row_check (0 < mg_sequence_no m) ''ck_agent_messages_sequence_positive'',
      row_check (btrim (mg_content m) \<noteq> []) ''ck_agent_messages_content_not_blank'',
      unique_check (mg_message_id m \<notin> mg_message_id ` set (ld_messages d))
        ''uq_agent_messages_message_id'',
      unique_check (\<forall>x \<in> set (ld_messages d).
          (mg_thread_id x, mg_sequence_no x) \<noteq> (mg_thread_id m, mg_sequence_no m))
        ''uq_agent_messages_thread_sequence'',
      unique_check (\<forall>x \<in> set (ld_messages d). (mg_run_id x, mg_role x) \<noteq> (mg_run_id m, mg_role m))
        ''uq_agent_messages_run_role'',
      fk_check (mg_thread_id m \<in> th_thread_id ` set (ld_threads d))
        ''fk_agent_messages_thread_id_agent_thread_records'',
      fk_check (mg_run_id m \<in> rn_id ` set (td_runs (ld_trace d))) ''fk_agent_messages_run_id_agent_runs'']"

definition case_row_checks :: "ReviewCase \<Rightarrow> ReliabilityDb \<Rightarrow> (bool \<times> exn) list" where
  "case_row_checks c d =
     [row_check (0 < hc_intent_version c) ''ck_human_review_cases_intent_version_positive'',
      row_check (0 < hc_version c) ''ck_human_review_cases_version_positive'',
      row_check (1 \<le> hc_priority c \<and> hc_priority c \<le> 100) ''ck_human_review_cases_priority_range'',
      row_check (btrim (hc_summary c) \<noteq> []) ''ck_human_review_cases_summary_not_blank'',
      row_check (hc_status c = HR_CLAIMED \<longrightarrow>
          hc_assigned_operator_id c \<noteq> None \<and> hc_claimed_at c \<noteq> None)
        ''ck_human_review_cases_claim_fields_match_status'',
      row_check ((hc_status c \<in> {HR_RESOLVED, HR_DISMISSED}) = (hc_resolved_at c \<noteq> None))
        ''ck_human_review_cases_resolution_time_matches_status'',
      unique_check (hc_status c \<in> active_review_statuses \<longrightarrow>
          (\<forall>x \<in> set (ld_cases d). hc_id x \<noteq> hc_id c \<longrightarrow> hc_status x \<in> active_review_statuses \<longrightarrow>
             hc_dedupe_key x \<noteq> hc_dedupe_key c))
        ''uq_human_review_cases_active_dedupe'',
      fk_check (hc_thread_id c \<in> th_thread_id ` set (ld_threads d))
        ''fk_human_review_cases_thread_id_agent_thread_records'',
      fk_check (hc_resident_id c \<in> ld_users d) ''fk_human_review_cases_resident_id_users'',
      fk_check (optional_fk (hc_property_id c) (ld_properties d))
        ''fk_human_review_cases_property_id_properties'',
      fk_check (optional_fk (hc_ticket_id c) (ld_tickets d))
        ''fk_human_review_cases_ticket_id_repair_tickets'',
      fk_check (optional_fk (hc_source_run_id c) (rn_id ` set (td_runs (ld_trace d))))
        ''fk_human_review_cases_source_run_id_agent_runs'',
      fk_check (optional_fk (hc_assigned_operator_id c) (ld_users d))
        ''fk_human_review_cases_assigned_operator_id_users'']"

definition case_event_checks :: "ReviewEvent \<Rightarrow> ReliabilityDb \<Rightarrow> (bool \<times> exn) list" where
  "case_event_checks e d =
     [row_check (0 < he_sequence_no e) ''ck_human_review_case_events_sequence_positive'',
      row_check (0 \<le> he_version_before e) ''ck_human_review_case_events_version_before_nonnegative'',
      row_check (he_version_before e < he_version_after e)
        ''ck_human_review_case_events_version_increases'',
      unique_check (\<forall>x \<in> set (ld_case_events d).
          (he_case_id x, he_sequence_no x) \<noteq> (he_case_id e, he_sequence_no e))
        ''uq_human_review_case_events_case_sequence'',
      fk_check (he_case_id e \<in> hc_id ` set (ld_cases d))
        ''fk_human_review_case_events_case_id_human_review_cases'']"

text \<open>The outcome of a flush; a failure in \<open>commit\<close> is reported as a conflict.\<close>

definition flush :: "(bool \<times> exn) list \<Rightarrow> 'a \<Rightarrow> 'a outcome" where
  "flush checks x = (case first_failed checks of Some e \<Rightarrow> Inl (raw_error e) | None \<Rightarrow> Inr x)"

definition conflict :: "string \<Rightarrow> exn" where
  "conflict detail = Exn AgentReliabilityConflict detail []"

definition commit_flush :: "(bool \<times> exn) list \<Rightarrow> 'a \<Rightarrow> 'a outcome" where
  "commit_flush checks x =
     (if first_failed checks = None then Inr x
      else Inl (conflict ''agent reliability persistence conflict''))"

section \<open>Threads\<close>

definition find_thread :: "uuid \<Rightarrow> ReliabilityDb \<Rightarrow> ThreadRow option" where
  "find_thread thread_id d = find (\<lambda>r. th_thread_id r = thread_id) (ld_threads d)"

definition put_thread :: "ThreadRow \<Rightarrow> ReliabilityDb \<Rightarrow> ReliabilityDb" where
  "put_thread r d =
     d\<lparr>ld_threads := map (\<lambda>x. if th_thread_id x = th_thread_id r then r else x) (ld_threads d)\<rparr>"

definition new_thread :: "ReliabilityEnv \<Rightarrow> uuid \<Rightarrow> uuid \<Rightarrow> uuid option \<Rightarrow> ThreadRow" where
  "new_thread env thread_id resident_id property_id =
     \<lparr>th_thread_id = thread_id, th_resident_id = resident_id, th_property_id = property_id,
      th_property_resolution = (if property_id \<noteq> None then TP_RESOLVED else TP_UNRESOLVED),
      th_lifecycle = TL_ACTIVE, th_display_title = None, th_last_activity_at = le_now env,
      th_created_at = le_now env, th_updated_at = le_now env, th_archived_at = None,
      th_archived_by = None, th_deleted_at = None, th_deleted_by = None, th_version = 1\<rparr>"

text \<open>Whether the owner and the property of a registered thread allow a use.\<close>

definition thread_conflict :: "uuid \<Rightarrow> uuid option \<Rightarrow> ThreadRow \<Rightarrow> exn option" where
  "thread_conflict resident_id property_id r =
     (if th_resident_id r \<noteq> resident_id then Some (conflict ''thread owner cannot change'')
      else if property_id \<noteq> None \<and> th_property_id r \<noteq> None \<and> th_property_id r \<noteq> property_id
      then Some (conflict ''thread property cannot change'')
      else None)"

definition resolve_property :: "uuid option \<Rightarrow> ThreadRow \<Rightarrow> ThreadRow" where
  "resolve_property property_id r =
     (if property_id \<noteq> None \<and> th_property_id r = None
      then r\<lparr>th_property_id := property_id, th_property_resolution := TP_RESOLVED\<rparr> else r)"

definition register_thread ::
  "ReliabilityEnv \<Rightarrow> uuid \<Rightarrow> uuid \<Rightarrow> uuid option \<Rightarrow> ReliabilityDb \<Rightarrow> (ThreadRow \<times> ReliabilityDb) outcome"
where
  "register_thread env thread_id resident_id property_id d =
     (case find_thread thread_id d of
        None \<Rightarrow>
          let r = new_thread env thread_id resident_id property_id
          in flush (thread_checks r d) (r, d\<lparr>ld_threads := ld_threads d @ [r]\<rparr>)
      | Some r \<Rightarrow>
          (case thread_conflict resident_id property_id r of
             Some e \<Rightarrow> Inl e
           | None \<Rightarrow>
               if property_id \<noteq> None \<and> th_property_id r = None
               then let r' = (resolve_property property_id r)
                          \<lparr>th_updated_at := le_now env, th_version := th_version r + 1\<rparr>
                    in commit_flush (thread_checks r' d) (r', put_thread r' d)
               else Inr (r, d)))"

section \<open>Messages\<close>

definition next_sequence :: "uuid \<Rightarrow> ReliabilityDb \<Rightarrow> int" where
  "next_sequence thread_id d =
     foldr max (map mg_sequence_no (filter (\<lambda>m. mg_thread_id m = thread_id) (ld_messages d))) 0 + 1"

definition append_message ::
  "uuid \<Rightarrow> uuid \<Rightarrow> uuid \<Rightarrow> message_role \<Rightarrow> string \<Rightarrow> timestamp \<Rightarrow> ReliabilityDb \<Rightarrow> ReliabilityDb outcome"
where
  "append_message thread_id run_id message_id role content created_at d =
     (if \<exists>m \<in> set (ld_messages d). mg_message_id m = message_id \<or> mg_run_id m = run_id \<and> mg_role m = role
      then Inr d
      else
        let m = \<lparr>mg_message_id = message_id, mg_thread_id = thread_id, mg_run_id = run_id,
                 mg_role = role, mg_content = strip content,
                 mg_sequence_no = next_sequence thread_id d, mg_created_at = created_at\<rparr>
        in flush (message_checks m d) (d\<lparr>ld_messages := ld_messages d @ [m]\<rparr>))"

section \<open>Review cases\<close>

record FinalizeAgentRun =
  fa_run_id :: uuid
  fa_thread_id :: uuid
  fa_trace_id :: uuid
  fa_resident_id :: uuid
  fa_property_id :: "uuid option"
  fa_intent_version :: int
  fa_user_message_id :: "uuid option"
  fa_user_message :: "string option"
  fa_user_message_created_at :: "timestamp option"
  fa_assistant_message :: string
  fa_outcome :: message_outcome
  fa_required_user_action :: required_user_action
  fa_agent_run_status :: string
  fa_terminal_event_type :: string
  fa_message_event_type :: string
  fa_error_code :: "string option"
  fa_failure_stage :: "failure_stage option"
  fa_reason_code :: "string option"
  fa_safety_level :: safety_level
  fa_active_ticket_id :: "uuid option"

definition review_priority :: "safety_level \<Rightarrow> int" where
  "review_priority level = (if level = SL_EMERGENCY then 100 else if level = SL_ELEVATED then 70 else 50)"

definition review_dedupe_key :: "ReliabilityEnv \<Rightarrow> FinalizeAgentRun \<Rightarrow> failure_stage \<Rightarrow> string" where
  "review_dedupe_key env command stage = le_sha256 env (join_with '':''
     [uuid_text (fa_thread_id command), int_text (fa_intent_version command), failure_stage_value stage])"

definition review_outbox ::
  "ReliabilityEnv \<Rightarrow> ReviewCase \<Rightarrow> string \<Rightarrow> actor_type \<Rightarrow> uuid \<Rightarrow> uuid \<Rightarrow> ReviewOutbox" where
  "review_outbox env c event_type actor_type actor_id trace_id =
     \<lparr>rx_event_key = le_sha256 env (join_with '':''
        [''human-review'', uuid_text (hc_id c), int_text (hc_version c), event_type]),
      rx_event_type = event_type, rx_aggregate_type = ''HUMAN_REVIEW_CASE'',
      rx_aggregate_id = hc_id c, rx_aggregate_version = hc_version c,
      rx_operation_id = le_uuid5_url env (join_with '':''
        [''fixflow'', ''human-review'', uuid_text (hc_id c), int_text (hc_version c), event_type]),
      rx_trace_id = trace_id, rx_run_id = hc_source_run_id c, rx_thread_id = Some (hc_thread_id c),
      rx_actor_type = actor_type_value actor_type, rx_actor_id = actor_id,
      rx_payload = [(''case_id'', PStr (uuid_text (hc_id c))),
        (''status'', PStr (review_status_value (hc_status c)))],
      rx_occurred_at = le_now env\<rparr>"

definition new_review ::
  "ReliabilityEnv \<Rightarrow> FinalizeAgentRun \<Rightarrow> failure_stage \<Rightarrow> string \<Rightarrow> uuid \<Rightarrow> ReviewCase" where
  "new_review env command stage reason case_id =
     \<lparr>hc_id = case_id, hc_thread_id = fa_thread_id command, hc_resident_id = fa_resident_id command,
      hc_property_id = fa_property_id command, hc_ticket_id = fa_active_ticket_id command,
      hc_source_run_id = Some (fa_run_id command), hc_intent_version = fa_intent_version command,
      hc_failure_stage = stage, hc_reason_code = reason, hc_last_error_code = fa_error_code command,
      hc_safety_level = fa_safety_level command,
      hc_priority = review_priority (fa_safety_level command),
      hc_summary = take 2000 (fa_assistant_message command), hc_status = HR_OPEN,
      hc_assigned_operator_id = None, hc_dedupe_key = review_dedupe_key env command stage,
      hc_version = 1, hc_created_at = le_now env, hc_updated_at = le_now env, hc_claimed_at = None,
      hc_resolved_at = None, hc_resolution_code = None, hc_resolution_note = None\<rparr>"

definition opened_event :: "ReliabilityEnv \<Rightarrow> FinalizeAgentRun \<Rightarrow> ReviewCase \<Rightarrow> ReviewEvent" where
  "opened_event env command c =
     \<lparr>he_case_id = hc_id c, he_sequence_no = 1, he_from_status = None, he_to_status = HR_OPEN,
      he_action = ''CREATED'', he_actor_type = ACT_SYSTEM, he_actor_id = fa_resident_id command,
      he_trace_id = fa_trace_id command, he_version_before = 0, he_version_after = 1,
      he_reason_code = fa_reason_code command, he_note = None, he_occurred_at = le_now env\<rparr>"

text \<open>The event and the outbox row of a case that was just written.\<close>

definition record_review ::
  "ReliabilityEnv \<Rightarrow> ReviewEvent \<Rightarrow> ReviewOutbox \<Rightarrow> ReliabilityDb \<Rightarrow> ReliabilityDb outcome" where
  "record_review env e x d =
     flush (case_event_checks e d @
        [unique_check (rx_event_key x \<notin> rx_event_key ` set (ld_outbox d)) ''uq_outbox_events_event_key''])
       (d\<lparr>ld_case_events := ld_case_events d @ [e], ld_outbox := ld_outbox d @ [x]\<rparr>)"

definition create_or_get_review ::
  "ReliabilityEnv \<Rightarrow> FinalizeAgentRun \<Rightarrow> ReliabilityDb \<Rightarrow> (ReviewCase \<times> ReliabilityDb) outcome" where
  "create_or_get_review env command d =
     (case (fa_failure_stage command, fa_reason_code command) of
        (Some stage, Some reason) \<Rightarrow>
          (case find (\<lambda>c. hc_dedupe_key c = review_dedupe_key env command stage \<and>
                hc_status c \<in> active_review_statuses) (ld_cases d) of
             Some c \<Rightarrow> Inr (c, d)
           | None \<Rightarrow>
               let c = new_review env command stage reason (le_case_id env (ld_cases d))
               in bindE (flush (unique_check (hc_id c \<notin> hc_id ` set (ld_cases d)) ''pk_human_review_cases''
                      # case_row_checks c d) (d\<lparr>ld_cases := ld_cases d @ [c]\<rparr>))
                  (\<lambda>d1. bindE (record_review env (opened_event env command c)
                      (review_outbox env c ''HUMAN_REVIEW_OPENED'' ACT_SYSTEM (fa_resident_id command)
                        (fa_trace_id command)) d1)
                  (\<lambda>d2. Inr (c, d2))))
      | _ \<Rightarrow> Inl (Exn PyAssertionError [] []))"

definition active_case :: "FinalizeAgentRun \<Rightarrow> ReliabilityDb \<Rightarrow> ReviewCase option" where
  "active_case command d = find (\<lambda>c. hc_source_run_id c = Some (fa_run_id command) \<and>
     hc_status c \<in> active_review_statuses) (ld_cases d)"

section \<open>The public result of a run\<close>

definition terminal_event ::
  "ReliabilityEnv \<Rightarrow> AgentRun \<Rightarrow> string \<Rightarrow> trace_source \<Rightarrow> (string \<times> pval) list \<Rightarrow> uuid \<Rightarrow> AgentTraceEvent" where
  "terminal_event env run event_type source payload event_id =
     \<lparr>te_id = event_id,
      te_event_key = le_sha256 env (join_with '':'' [uuid_text (rn_id run), event_type]),
      te_run_id = Some (rn_id run), te_thread_id = rn_thread_id run, te_trace_id = rn_trace_id run,
      te_sequence_number = Some (rn_last_sequence run), te_source = source, te_event_type = event_type,
      te_node_name = None, te_operation_id = None, te_payload = payload, te_occurred_at = le_now env\<rparr>"

definition has_event :: "uuid \<Rightarrow> string list \<Rightarrow> TraceDb \<Rightarrow> bool" where
  "has_event run_id types t \<longleftrightarrow>
     (\<exists>e \<in> set (td_events t). te_run_id e = Some run_id \<and> te_event_type e \<in> set types)"

text \<open>One event under the next sequence number of the run.\<close>

definition next_event ::
  "ReliabilityEnv \<Rightarrow> string \<Rightarrow> trace_source \<Rightarrow> (string \<times> pval) list \<Rightarrow> AgentRun \<times> TraceDb \<Rightarrow>
   (AgentRun \<times> TraceDb) outcome" where
  "next_event env event_type source payload rt =
     (let run = (fst rt)\<lparr>rn_last_sequence := rn_last_sequence (fst rt) + 1\<rparr>
      in bindE (insert_event (terminal_event env run event_type source payload (le_event_id env (snd rt)))
             (snd rt))
           (\<lambda>t. Inr (run, t)))"

definition append_terminal_trace ::
  "ReliabilityEnv \<Rightarrow> FinalizeAgentRun \<Rightarrow> AgentRun \<times> TraceDb \<Rightarrow> (AgentRun \<times> TraceDb) outcome" where
  "append_terminal_trace env command rt =
     (if has_event (rn_id (fst rt)) message_terminal_events (snd rt) then Inr rt
      else bindE (if has_event (rn_id (fst rt)) lifecycle_terminal_events (snd rt) then Inr rt
             else next_event env (fa_terminal_event_type command) SRC_AGENT
               [(''status'', PStr (fa_agent_run_status command))] rt)
           (next_event env (fa_message_event_type command) SRC_API
             [(''message_outcome'', PStr (message_outcome_value (fa_outcome command))),
              (''required_user_action'', PStr (required_user_action_value (fa_required_user_action command)))]))"

text \<open>\<open>AgentRunStatus (text)\<close>.\<close>

definition agent_run_status_named :: "string \<Rightarrow> agent_run_status outcome" where
  "agent_run_status_named name =
     (case find (\<lambda>s. agent_run_status_value s = name)
         [AR_RUNNING, AR_INTERRUPTED, AR_COMPLETED, AR_FAILED_SAFE, AR_FAILED] of
        None \<Rightarrow> Inl (Exn PyValueError name []) | Some s \<Rightarrow> Inr s)"

definition finished_result ::
  "ReliabilityEnv \<Rightarrow> FinalizeAgentRun \<Rightarrow> agent_run_status \<Rightarrow> AgentRun \<Rightarrow> AgentRun" where
  "finished_result env command status run =
     run\<lparr>rn_status := status, rn_finished_at := Some (le_now env),
       rn_terminal_event_type := Some (fa_terminal_event_type command),
       rn_error_code := fa_error_code command, rn_message_outcome := Some (fa_outcome command),
       rn_required_user_action := fa_required_user_action command\<rparr>"

text \<open>The terminal columns of the run and its terminal events, written together. \<open>late\<close> is what the
  caller makes of an error of the rows that are still unwritten when it returns.\<close>

definition publish_result ::
  "(exn \<Rightarrow> exn) \<Rightarrow> ReliabilityEnv \<Rightarrow> FinalizeAgentRun \<Rightarrow> AgentRun \<Rightarrow> ReliabilityDb \<Rightarrow> ReliabilityDb outcome"
where
  "publish_result late env command run d =
     bindE (agent_run_status_named (fa_agent_run_status command))
     (\<lambda>status. bindE (update_run (finished_result env command status run) (ld_trace d))
     (\<lambda>t1. bindE (map_sum late id (bindE
             (append_terminal_trace env command (finished_result env command status run, t1))
             (\<lambda>(run', t2). update_run run' t2)))
     (\<lambda>t3. Inr (d\<lparr>ld_trace := t3\<rparr>))))"

text \<open>The thread of a result: registered when it is new, otherwise checked.\<close>

definition thread_for_result ::
  "ReliabilityEnv \<Rightarrow> FinalizeAgentRun \<Rightarrow> ReliabilityDb \<Rightarrow> (ThreadRow \<times> ReliabilityDb) outcome" where
  "thread_for_result env command d =
     (case find_thread (fa_thread_id command) d of
        None \<Rightarrow> register_thread env (fa_thread_id command) (fa_resident_id command) (fa_property_id command) d
      | Some r \<Rightarrow>
          (case thread_conflict (fa_resident_id command) (fa_property_id command) r of
             Some e \<Rightarrow> Inl e
           | None \<Rightarrow> let r' = resolve_property (fa_property_id command) r
               in flush (thread_checks r' d) (r', put_thread r' d)))"

definition durable_messages ::
  "ReliabilityEnv \<Rightarrow> FinalizeAgentRun \<Rightarrow> ReliabilityDb \<Rightarrow> ReliabilityDb outcome" where
  "durable_messages env command d =
     bindE (case (fa_user_message_id command, fa_user_message command) of
         (Some message_id, Some content) \<Rightarrow>
           append_message (fa_thread_id command) (fa_run_id command) message_id MR_USER content
             (case fa_user_message_created_at command of None \<Rightarrow> le_now env | Some t \<Rightarrow> t) d
       | _ \<Rightarrow> Inr d)
     (append_message (fa_thread_id command) (fa_run_id command)
        (le_uuid5_url env (join_with '':'' [''fixflow'', ''durable'', uuid_text (fa_run_id command), ''ASSISTANT'']))
        MR_ASSISTANT (fa_assistant_message command) (le_now env))"

definition finalize_run ::
  "ReliabilityEnv \<Rightarrow> FinalizeAgentRun \<Rightarrow> ReliabilityDb \<Rightarrow> (ReviewCase option \<times> ReliabilityDb) outcome" where
  "finalize_run env command d =
     (case find_run (fa_run_id command) (ld_trace d) of
        None \<Rightarrow> Inl (Exn AgentThreadNotFound ''agent run does not exist'' [])
      | Some run \<Rightarrow>
          bindE (thread_for_result env command d)
          (\<lambda>(thread, d1).
             case rn_message_outcome run of
               Some outcome \<Rightarrow>
                 if outcome \<noteq> fa_outcome command \<or>
                    rn_required_user_action run \<noteq> fa_required_user_action command
                 then Inl (conflict ''run already has another public result'')
                 else Inr (active_case command d1, d1)
             | None \<Rightarrow>
                 bindE (durable_messages env command d1)
                 (\<lambda>d2. bindE (if fa_outcome command = MO_ESCALATED
                       then map_sum id (map_prod Some id) (create_or_get_review env command d2)
                       else Inr (None, d2))
                 (\<lambda>(review, d3). bindE (publish_result
                       (\<lambda>_. conflict ''agent reliability persistence conflict'') env command run d3)
                 (\<lambda>d4. let thread' = thread\<lparr>th_last_activity_at := le_now env,
                             th_updated_at := le_now env, th_version := th_version thread + 1\<rparr>
                       in commit_flush (thread_checks thread' d4) (review, put_thread thread' d4))))))"

section \<open>Lifecycle of a thread\<close>

definition lifecycle_row ::
  "ReliabilityEnv \<Rightarrow> thread_lifecycle \<Rightarrow> uuid \<Rightarrow> int \<Rightarrow> ThreadRow \<Rightarrow> ThreadRow" where
  "lifecycle_row env lifecycle actor_id expected_version r =
     r\<lparr>th_lifecycle := lifecycle, th_updated_at := le_now env, th_version := expected_version + 1,
       th_archived_at := (if lifecycle = TL_ARCHIVED then Some (le_now env)
         else if lifecycle = TL_DELETED then th_archived_at r else None),
       th_archived_by := (if lifecycle = TL_ARCHIVED then Some actor_id
         else if lifecycle = TL_DELETED then th_archived_by r else None),
       th_deleted_at := (if lifecycle = TL_DELETED then Some (le_now env) else None),
       th_deleted_by := (if lifecycle = TL_DELETED then Some actor_id else None)\<rparr>"

definition update_thread_lifecycle ::
  "ReliabilityEnv \<Rightarrow> uuid \<Rightarrow> uuid \<Rightarrow> thread_lifecycle \<Rightarrow> uuid \<Rightarrow> int \<Rightarrow> ReliabilityDb \<Rightarrow>
   (ThreadRow \<times> ReliabilityDb) outcome" where
  "update_thread_lifecycle env thread_id resident_id lifecycle actor_id expected_version d =
     (case find (\<lambda>r. th_thread_id r = thread_id \<and> th_resident_id r = resident_id \<and>
           th_version r = expected_version) (ld_threads d) of
        None \<Rightarrow> Inl (conflict ''thread version conflict'')
      | Some r \<Rightarrow> let r' = lifecycle_row env lifecycle actor_id expected_version r
          in flush (thread_checks r' d) (r', put_thread r' d))"

fun allowed_lifecycle :: "thread_lifecycle \<Rightarrow> thread_lifecycle set" where
  "allowed_lifecycle TL_ACTIVE = {TL_ARCHIVED}"
| "allowed_lifecycle TL_ARCHIVED = {TL_ACTIVE, TL_DELETED}"
| "allowed_lifecycle TL_DELETED = {}"

definition set_thread_lifecycle ::
  "ReliabilityEnv \<Rightarrow> uuid \<Rightarrow> uuid \<Rightarrow> thread_lifecycle \<Rightarrow> uuid \<Rightarrow> int \<Rightarrow> ReliabilityDb \<Rightarrow>
   (ThreadRow \<times> ReliabilityDb) outcome" where
  "set_thread_lifecycle env thread_id resident_id lifecycle actor_id expected_version d =
     (case find_thread thread_id d of
        None \<Rightarrow> Inl (Exn AgentThreadNotFound [] [])
      | Some current \<Rightarrow>
          if th_resident_id current \<noteq> resident_id then Inl (Exn AgentThreadPermissionDenied [] [])
          else if th_version current \<noteq> expected_version then Inl (conflict [])
          else if lifecycle \<notin> allowed_lifecycle (th_lifecycle current)
          then Inl (conflict ''invalid thread lifecycle transition'')
          else update_thread_lifecycle env thread_id resident_id lifecycle actor_id expected_version d)"

section \<open>Transitions of a review case\<close>

record HumanReviewTransition =
  hx_case_id :: uuid
  hx_actor_type :: actor_type
  hx_actor_id :: uuid
  hx_trace_id :: uuid
  hx_expected_version :: int
  hx_target_status :: review_status
  hx_resolution_code :: "string option"
  hx_resolution_note :: "string option"

fun allowed_review :: "review_status \<Rightarrow> review_status set" where
  "allowed_review HR_OPEN = {HR_CLAIMED, HR_RESOLVED, HR_DISMISSED}"
| "allowed_review HR_CLAIMED = {HR_OPEN, HR_RESOLVED, HR_DISMISSED}"
| "allowed_review HR_RESOLVED = {}"
| "allowed_review HR_DISMISSED = {}"

fun transition_action :: "review_status \<Rightarrow> string" where
  "transition_action HR_OPEN = ''RELEASED''"
| "transition_action HR_CLAIMED = ''CLAIMED''"
| "transition_action HR_RESOLVED = ''RESOLVED''"
| "transition_action HR_DISMISSED = ''DISMISSED''"

definition transitioned_case :: "ReliabilityEnv \<Rightarrow> HumanReviewTransition \<Rightarrow> ReviewCase \<Rightarrow> ReviewCase" where
  "transitioned_case env command c =
     (let r = c\<lparr>hc_status := hx_target_status command, hc_version := hc_version c + 1,
            hc_updated_at := le_now env\<rparr>
      in case hx_target_status command of
           HR_CLAIMED \<Rightarrow> r\<lparr>hc_assigned_operator_id := Some (hx_actor_id command),
             hc_claimed_at := Some (le_now env)\<rparr>
         | HR_OPEN \<Rightarrow> r\<lparr>hc_assigned_operator_id := None, hc_claimed_at := None\<rparr>
         | _ \<Rightarrow> r\<lparr>hc_resolved_at := Some (le_now env), hc_resolution_code := hx_resolution_code command,
             hc_resolution_note := hx_resolution_note command\<rparr>)"

definition transition_event ::
  "ReliabilityEnv \<Rightarrow> HumanReviewTransition \<Rightarrow> ReviewCase \<Rightarrow> ReviewCase \<Rightarrow> ReviewEvent" where
  "transition_event env command before after =
     \<lparr>he_case_id = hc_id after, he_sequence_no = hc_version after,
      he_from_status = Some (hc_status before), he_to_status = hc_status after,
      he_action = transition_action (hc_status after), he_actor_type = hx_actor_type command,
      he_actor_id = hx_actor_id command, he_trace_id = hx_trace_id command,
      he_version_before = hc_version before, he_version_after = hc_version after,
      he_reason_code = hx_resolution_code command, he_note = hx_resolution_note command,
      he_occurred_at = le_now env\<rparr>"

definition find_review :: "uuid \<Rightarrow> ReliabilityDb \<Rightarrow> ReviewCase option" where
  "find_review case_id d = find (\<lambda>c. hc_id c = case_id) (ld_cases d)"

definition put_case :: "ReviewCase \<Rightarrow> ReliabilityDb \<Rightarrow> ReliabilityDb" where
  "put_case c d = d\<lparr>ld_cases := map (\<lambda>x. if hc_id x = hc_id c then c else x) (ld_cases d)\<rparr>"

text \<open>The names and addresses that are joined to the answer are left out.\<close>

definition transition_review ::
  "ReliabilityEnv \<Rightarrow> HumanReviewTransition \<Rightarrow> ReliabilityDb \<Rightarrow> (ReviewCase \<times> ReliabilityDb) outcome" where
  "transition_review env command d =
     (case find_review (hx_case_id command) d of
        None \<Rightarrow> Inl (Exn AgentThreadNotFound ''human review case does not exist'' [])
      | Some c \<Rightarrow>
          if hc_version c \<noteq> hx_expected_version command
          then Inl (conflict ''human review version conflict'')
          else if hx_target_status command \<notin> allowed_review (hc_status c)
          then Inl (conflict ''invalid human review transition'')
          else
            let c' = transitioned_case env command c
            in bindE (flush (case_row_checks c' d) (put_case c' d))
               (\<lambda>d1. bindE (record_review env (transition_event env command c c')
                  (review_outbox env c' (''HUMAN_REVIEW_'' @ review_status_value (hc_status c'))
                    (hx_actor_type command) (hx_actor_id command) (hx_trace_id command)) d1)
               (\<lambda>d2. Inr (c', d2))))"

definition operator_only :: "actor_type \<Rightarrow> 'a outcome \<Rightarrow> 'a outcome" where
  "operator_only actor_type m =
     (if actor_type \<noteq> ACT_OPERATOR then Inl (Exn AgentThreadPermissionDenied [] []) else m)"

definition transition_human_review ::
  "ReliabilityEnv \<Rightarrow> HumanReviewTransition \<Rightarrow> ReliabilityDb \<Rightarrow> (ReviewCase \<times> ReliabilityDb) outcome" where
  "transition_human_review env command d =
     operator_only (hx_actor_type command) (transition_review env command d)"

section \<open>Stalled runs\<close>

text \<open>The runs that are picked, oldest first; \<open>locked\<close> are those that other transactions hold.\<close>

definition stalled_runs :: "uuid set \<Rightarrow> timestamp \<Rightarrow> nat \<Rightarrow> TraceDb \<Rightarrow> AgentRun list" where
  "stalled_runs locked threshold limit t =
     take limit (sort_key rn_started_at (filter (\<lambda>r. rn_status r = AR_RUNNING \<and>
       rn_started_at r < threshold \<and> rn_id r \<notin> locked) (td_runs t)))"

definition intent_version_or_1 :: "AgentRun \<Rightarrow> int" where
  "intent_version_or_1 run =
     (case rn_final_intent_version run of
        Some v \<Rightarrow> if v \<noteq> 0 then v else 1
      | None \<Rightarrow> (case rn_initial_intent_version run of Some v \<Rightarrow> if v \<noteq> 0 then v else 1 | None \<Rightarrow> 1))"

definition stalled_command ::
  "AgentRun \<Rightarrow> uuid \<Rightarrow> uuid \<Rightarrow> string \<Rightarrow> message_outcome \<Rightarrow> required_user_action \<Rightarrow> string \<Rightarrow>
   FinalizeAgentRun" where
  "stalled_command run thread_id resident_id text outcome action error_code =
     \<lparr>fa_run_id = rn_id run, fa_thread_id = thread_id, fa_trace_id = rn_trace_id run,
      fa_resident_id = resident_id, fa_property_id = rn_property_id run,
      fa_intent_version = intent_version_or_1 run, fa_user_message_id = None, fa_user_message = None,
      fa_user_message_created_at = None, fa_assistant_message = text, fa_outcome = outcome,
      fa_required_user_action = action,
      fa_agent_run_status = (if outcome = MO_FAILED then ''FAILED'' else ''COMPLETED''),
      fa_terminal_event_type = (if outcome = MO_FAILED then ''run_failed'' else ''run_completed''),
      fa_message_event_type = (case outcome of MO_COMPLETED \<Rightarrow> ''message.completed''
        | MO_FAILED \<Rightarrow> ''message.failed'' | MO_ESCALATED \<Rightarrow> ''message.escalated''),
      fa_error_code = Some error_code, fa_failure_stage = None, fa_reason_code = None,
      fa_safety_level = SL_STANDARD, fa_active_ticket_id = None\<rparr>"

text \<open>What is left of a stalled run decides its result: an active review case, an answer, or nothing.\<close>

definition stalled_verdict ::
  "ReliabilityEnv \<Rightarrow> AgentRun \<Rightarrow> ReliabilityDb \<Rightarrow> message_outcome \<times> required_user_action \<times> string" where
  "stalled_verdict env run d =
     (let assistant = find (\<lambda>m. mg_run_id m = rn_id run \<and> mg_role m = MR_ASSISTANT) (ld_messages d)
      in if \<exists>c \<in> set (ld_cases d). hc_source_run_id c = Some (rn_id run) \<and>
              hc_status c \<in> active_review_statuses
         then (MO_ESCALATED, RA_CONTACT_OPERATOR,
               case assistant of Some m \<Rightarrow> mg_content m | None \<Rightarrow> le_escalated_text env)
         else case assistant of
                Some m \<Rightarrow> (MO_COMPLETED, RA_NONE, mg_content m)
              | None \<Rightarrow> (MO_FAILED, RA_RETRY, le_failed_text env))"

definition settle_stalled_run ::
  "ReliabilityEnv \<Rightarrow> AgentRun \<Rightarrow> ReliabilityDb \<Rightarrow> ReliabilityDb outcome" where
  "settle_stalled_run env run d =
     (case (rn_thread_id run, rn_user_id run) of
        (Some thread_id, Some user_id) \<Rightarrow>
          bindE (register_thread env thread_id user_id (rn_property_id run) d)
          (\<lambda>(_, d1).
             let (outcome, action, text) = stalled_verdict env run d1
             in bindE (append_message thread_id (rn_id run)
                    (le_uuid5_url env (join_with '':''
                      [''fixflow'', ''stalled'', uuid_text (rn_id run), ''ASSISTANT'']))
                    MR_ASSISTANT text (le_now env) d1)
                (publish_result (\<lambda>e. e) env
                   (stalled_command run thread_id user_id text outcome action ''STALLED_RUN_RECONCILED'') run))
      | _ \<Rightarrow> publish_result (\<lambda>e. e) env
          (stalled_command run (case rn_thread_id run of Some t \<Rightarrow> t | None \<Rightarrow> rn_id run)
             (case rn_user_id run of Some u \<Rightarrow> u | None \<Rightarrow> rn_actor_id run) (le_failed_text env)
             MO_FAILED RA_RETRY ''STALLED_RUN_MISSING_CONTEXT'') run d)"

fun settle_stalled_runs :: "ReliabilityEnv \<Rightarrow> AgentRun list \<Rightarrow> ReliabilityDb \<Rightarrow> ReliabilityDb outcome" where
  "settle_stalled_runs env [] d = Inr d"
| "settle_stalled_runs env (run # runs) d = bindE (settle_stalled_run env run d) (settle_stalled_runs env runs)"

definition reconcile_stalled_runs ::
  "ReliabilityEnv \<Rightarrow> uuid set \<Rightarrow> int \<Rightarrow> int \<Rightarrow> ReliabilityDb \<Rightarrow> (nat \<times> ReliabilityDb) outcome" where
  "reconcile_stalled_runs env locked older_than_seconds limit d =
     (if older_than_seconds \<le> 0 \<or> \<not> (1 \<le> limit \<and> limit \<le> 500)
      then Inl (Exn PyValueError ''invalid stalled-run reconciliation bounds'' [])
      else
        let runs = stalled_runs locked (le_now env - older_than_seconds * 1000000) (nat limit) (ld_trace d)
        in bindE (settle_stalled_runs env runs d) (\<lambda>d'. Inr (length runs, d')))"

section \<open>The service\<close>

definition finalize_once ::
  "ReliabilityEnv \<Rightarrow> FinalizeAgentRun \<Rightarrow> ReliabilityDb \<Rightarrow> (ReviewCase option \<times> ReliabilityDb) outcome" where
  "finalize_once env command d =
     bindE (finalize_run env command d)
     (\<lambda>(review, d'). if fa_outcome command = MO_ESCALATED \<and> review = None
        then Inl (Exn HumanReviewPersistenceFailed ''human review case was not persisted'' [])
        else Inr (review, d'))"

text \<open>The second attempt runs on the tables as they are then.\<close>

definition finalize_agent_run ::
  "ReliabilityEnv \<Rightarrow> ReliabilityEnv \<Rightarrow> (ReliabilityDb \<Rightarrow> ReliabilityDb) \<Rightarrow> FinalizeAgentRun \<Rightarrow>
   ReliabilityDb \<Rightarrow> (ReviewCase option \<times> ReliabilityDb) outcome" where
  "finalize_agent_run env env' others command d =
     (if fa_outcome command = MO_ESCALATED \<and>
         (fa_failure_stage command = None \<or> fa_reason_code command = None)
      then Inl (Exn HumanReviewPersistenceFailed ''ESCALATED requires a persisted, typed human-review reason'' [])
      else case finalize_once env command d of
             Inr r \<Rightarrow> Inr r
           | Inl e \<Rightarrow>
               if exn_class e = AgentReliabilityConflict \<and> fa_outcome command = MO_ESCALATED
               then finalize_once env' command (others d) else Inl e)"

text \<open>A thread of the resident; deleted threads do not exist for him.\<close>

definition owned_thread :: "uuid \<Rightarrow> uuid \<Rightarrow> ReliabilityDb \<Rightarrow> ThreadRow outcome" where
  "owned_thread thread_id resident_id d =
     (case find_thread thread_id d of
        None \<Rightarrow> Inl (Exn AgentThreadNotFound [] [])
      | Some r \<Rightarrow> if th_resident_id r \<noteq> resident_id then Inl (Exn AgentThreadPermissionDenied [] [])
          else if th_lifecycle r = TL_DELETED then Inl (Exn AgentThreadNotFound [] []) else Inr r)"

definition list_messages :: "uuid \<Rightarrow> uuid \<Rightarrow> ReliabilityDb \<Rightarrow> MessageRow list outcome" where
  "list_messages thread_id resident_id d =
     bindE (owned_thread thread_id resident_id d)
     (\<lambda>_. Inr (sort_key mg_sequence_no (filter (\<lambda>m. mg_thread_id m = thread_id) (ld_messages d))))"

definition require_active_thread :: "uuid \<Rightarrow> uuid \<Rightarrow> ReliabilityDb \<Rightarrow> ThreadRow outcome" where
  "require_active_thread thread_id resident_id d =
     (case find_thread thread_id d of
        None \<Rightarrow> Inl (Exn AgentThreadNotFound [] [])
      | Some r \<Rightarrow> if th_resident_id r \<noteq> resident_id then Inl (Exn AgentThreadPermissionDenied [] [])
          else if th_lifecycle r \<noteq> TL_ACTIVE then Inl (conflict ''archived thread must be restored first'')
          else Inr r)"

definition require_archived_thread :: "uuid \<Rightarrow> uuid \<Rightarrow> ReliabilityDb \<Rightarrow> ThreadRow outcome" where
  "require_archived_thread thread_id resident_id d =
     (case find_thread thread_id d of
        None \<Rightarrow> Inl (Exn AgentThreadNotFound [] [])
      | Some r \<Rightarrow> if th_lifecycle r = TL_DELETED then Inl (Exn AgentThreadNotFound [] [])
          else if th_resident_id r \<noteq> resident_id then Inl (Exn AgentThreadPermissionDenied [] [])
          else if th_lifecycle r \<noteq> TL_ARCHIVED
          then Inl (conflict ''thread must be archived before deletion'') else Inr r)"

record PublicRunResult =
  pr_run_id :: uuid
  pr_message_outcome :: message_outcome
  pr_required_user_action :: required_user_action

definition latest_public_result :: "uuid \<Rightarrow> uuid \<Rightarrow> ReliabilityDb \<Rightarrow> PublicRunResult option outcome" where
  "latest_public_result thread_id resident_id d =
     bindE (owned_thread thread_id resident_id d)
     (\<lambda>_. Inr (case last_opt (sort_key (\<lambda>r. (rn_started_at r, rn_id r))
            (filter (\<lambda>r. rn_thread_id r = Some thread_id \<and> rn_message_outcome r \<noteq> None)
               (td_runs (ld_trace d)))) of
          None \<Rightarrow> None
        | Some r \<Rightarrow> map_option (\<lambda>outcome. \<lparr>pr_run_id = rn_id r, pr_message_outcome = outcome,
            pr_required_user_action = rn_required_user_action r\<rparr>) (rn_message_outcome r)))"

definition list_threads ::
  "uuid \<Rightarrow> thread_lifecycle option \<Rightarrow> nat \<Rightarrow> nat \<Rightarrow> ReliabilityDb \<Rightarrow> ThreadRow list" where
  "list_threads resident_id lifecycle limit offset d = page limit offset
     (rev (sort_key (\<lambda>r. (th_last_activity_at r, th_thread_id r))
        (filter (\<lambda>r. th_resident_id r = resident_id \<and>
            (case lifecycle of Some l \<Rightarrow> th_lifecycle r = l | None \<Rightarrow> th_lifecycle r \<noteq> TL_DELETED))
          (ld_threads d))))"

definition list_human_review_cases ::
  "actor_type \<Rightarrow> review_status option \<Rightarrow> nat \<Rightarrow> nat \<Rightarrow> ReliabilityDb \<Rightarrow> ReviewCase list outcome" where
  "list_human_review_cases actor_type status limit offset d =
     operator_only actor_type (Inr (page limit offset
       (sort_key (\<lambda>c. (- hc_priority c, hc_created_at c))
          (filter (\<lambda>c. case status of None \<Rightarrow> True | Some s \<Rightarrow> hc_status c = s) (ld_cases d)))))"

definition list_human_review_events ::
  "actor_type \<Rightarrow> uuid \<Rightarrow> ReliabilityDb \<Rightarrow> ReviewEvent list outcome" where
  "list_human_review_events actor_type case_id d =
     operator_only actor_type
       (if find_review case_id d = None
        then Inl (Exn AgentThreadNotFound ''human review case does not exist'' [])
        else Inr (sort_key he_sequence_no (filter (\<lambda>e. he_case_id e = case_id) (ld_case_events d))))"

end
