(* ===== verification/ReliabilityFacts.thy ===== *)
theory ReliabilityFacts
  imports Reliability AuditTrail
begin

text \<open>
  What every interleaving of transactions keeps of the durable side of agent runs. A step is one
  committed transaction of the reliability service or one write of the trace runtime. Each section
  proves one part of the invariant, table by table: threads, runs, messages and review cases. The
  event log of review cases is an \<open>audited_table\<close>.
\<close>

section \<open>Steps\<close>

inductive reliability_step :: "ReliabilityDb \<Rightarrow> ReliabilityDb \<Rightarrow> bool" where
  start: "start_run rt event_id command (ld_trace d) = Inr (run, t) \<Longrightarrow>
    reliability_step d (d\<lparr>ld_trace := t\<rparr>)"
| append: "append_trace_event rt event_id append_command (ld_trace d) = Inr (event, t) \<Longrightarrow>
    reliability_step d (d\<lparr>ld_trace := t\<rparr>)"
| finish: "finish_run rt event_id run_id status occurred_at version error_code (ld_trace d) = Inr (run, t) \<Longrightarrow>
    reliability_step d (d\<lparr>ld_trace := t\<rparr>)"
| register: "register_thread env thread_id resident_id property_id d = Inr (thread, d') \<Longrightarrow>
    reliability_step d d'"
| finalize: "finalize_once env result d = Inr (review, d') \<Longrightarrow> reliability_step d d'"
| lifecycle: "set_thread_lifecycle env thread_id resident_id target actor_id expected d = Inr (thread, d') \<Longrightarrow>
    reliability_step d d'"
| review: "transition_human_review env transition d = Inr (c, d') \<Longrightarrow> reliability_step d d'"
| stalled: "reconcile_stalled_runs env locked older_than limit d = Inr (n, d') \<Longrightarrow>
    reliability_step d d'"

definition empty_reliability :: "uuid set \<Rightarrow> uuid set \<Rightarrow> uuid set \<Rightarrow> ReliabilityDb" where
  "empty_reliability users properties tickets =
     \<lparr>ld_trace = \<lparr>td_runs = [], td_events = []\<rparr>, ld_threads = [], ld_messages = [], ld_cases = [],
      ld_case_events = [], ld_outbox = [], ld_users = users, ld_properties = properties,
      ld_tickets = tickets\<rparr>"

definition reliability_reachable :: "ReliabilityDb \<Rightarrow> bool" where
  "reliability_reachable d \<longleftrightarrow>
     (\<exists>users properties tickets. reliability_step\<^sup>*\<^sup>* (empty_reliability users properties tickets) d)"

lemma flush_Inr [inversion_simps]:
  "flush checks x = Inr y \<longleftrightarrow> first_failed checks = None \<and> y = x"
  by (auto simp: flush_def split: option.splits)

lemma commit_flush_Inr [inversion_simps]:
  "commit_flush checks x = Inr y \<longleftrightarrow> first_failed checks = None \<and> y = x"
  by (auto simp: commit_flush_def)

lemma map_sum_Inr [inversion_simps]: "map_sum f g m = Inr y \<longleftrightarrow> (\<exists>x. m = Inr x \<and> y = g x)"
  by (cases m) auto

section \<open>Threads\<close>

text \<open>What a change of a thread row keeps: its owner, a property once it is known, and DELETED.\<close>

definition thread_kept :: "ThreadRow \<Rightarrow> ThreadRow \<Rightarrow> bool" where
  "thread_kept r r' \<longleftrightarrow> th_thread_id r' = th_thread_id r \<and> th_resident_id r' = th_resident_id r \<and>
     (th_property_id r = None \<or> th_property_id r' = th_property_id r) \<and>
     (th_lifecycle r = TL_DELETED \<longrightarrow> th_lifecycle r' = TL_DELETED)"

definition threads_kept :: "ThreadRow list \<Rightarrow> ThreadRow list \<Rightarrow> bool" where
  "threads_kept rows rows' \<longleftrightarrow> (distinct (map th_thread_id rows) \<longrightarrow> distinct (map th_thread_id rows')) \<and>
     (\<forall>r \<in> set rows. \<exists>r' \<in> set rows'. thread_kept r r')"

lemma thread_kept_refl [simp]: "thread_kept r r"
  by (simp add: thread_kept_def)

lemma thread_kept_trans: "thread_kept a b \<Longrightarrow> thread_kept b c \<Longrightarrow> thread_kept a c"
  by (auto simp: thread_kept_def)

lemma threads_kept_refl [simp]: "threads_kept rows rows"
  unfolding threads_kept_def using thread_kept_refl by blast

lemma threads_kept_append:
  "th_thread_id r \<notin> th_thread_id ` set rows \<Longrightarrow> threads_kept rows (rows @ [r])"
  unfolding threads_kept_def using thread_kept_refl by fastforce

lemma threads_kept_trans: "threads_kept a b \<Longrightarrow> threads_kept b c \<Longrightarrow> threads_kept a c"
  unfolding threads_kept_def by (meson thread_kept_trans)

lemma threads_kept_map:
  "(\<And>r. r \<in> set rows \<Longrightarrow> thread_kept r (f r)) \<Longrightarrow> threads_kept rows (map f rows)"
  by (auto simp: threads_kept_def thread_kept_def distinct_map inj_on_def)

lemma find_thread_Some:
  "find_thread thread_id d = Some r \<Longrightarrow> r \<in> set (ld_threads d) \<and> th_thread_id r = thread_id"
  by (auto simp: find_thread_def dest: find_Some_set)

lemma put_thread_effect:
  assumes "distinct (map th_thread_id (ld_threads d))" and r: "r \<in> set (ld_threads d)" and "thread_kept r r'"
  shows "\<exists>rows. put_thread r' d = d\<lparr>ld_threads := rows\<rparr> \<and> threads_kept (ld_threads d) rows \<and> r' \<in> set rows"
proof -
  let ?f = "\<lambda>x. if th_thread_id x = th_thread_id r' then r' else x"
  have "x = r" if "x \<in> set (ld_threads d)" "th_thread_id x = th_thread_id r'" for x
    using assms that by (auto simp: thread_kept_def distinct_map inj_on_def)
  then have "threads_kept (ld_threads d) (map ?f (ld_threads d))"
    using assms(3) by (auto intro!: threads_kept_map)
  moreover have "?f r = r'" using assms(3) by (simp add: thread_kept_def)
  then have "r' \<in> ?f ` set (ld_threads d)" using r by (intro image_eqI [of _ ?f r]) simp_all
  then have "r' \<in> set (map ?f (ld_threads d))" by (simp only: set_map)
  ultimately show ?thesis
    by (intro exI [of _ "map ?f (ld_threads d)"]) (simp only: put_thread_def simp_thms)
qed

lemma resolve_property_kept: "thread_conflict a p r = None \<Longrightarrow> thread_kept r (resolve_property p r)"
  by (auto simp: thread_kept_def resolve_property_def)

lemma register_thread_effect:
  assumes "register_thread env thread_id resident_id property_id d = Inr (r, d')"
    and "distinct (map th_thread_id (ld_threads d))"
  shows "\<exists>rows. d' = d\<lparr>ld_threads := rows\<rparr> \<and> threads_kept (ld_threads d) rows \<and> r \<in> set rows \<and>
    th_thread_id r = thread_id"
proof (cases "find_thread thread_id d")
  case None
  then have "thread_id \<notin> th_thread_id ` set (ld_threads d)" by (auto simp: find_thread_def find_None_iff)
  then have "threads_kept (ld_threads d)
      (ld_threads d @ [new_thread env thread_id resident_id property_id])"
    by (intro threads_kept_append) (simp add: new_thread_def)
  moreover have "r = new_thread env thread_id resident_id property_id" "d' = d\<lparr>ld_threads := ld_threads d @ [r]\<rparr>"
    using assms(1) None by (auto simp: register_thread_def Let_def inversion_simps)
  ultimately show ?thesis
    by (intro exI [of _ "ld_threads d @ [r]"]) (simp add: new_thread_def)
next
  case (Some x)
  note x = find_thread_Some [OF Some]
  let ?r' = "(resolve_property property_id x)\<lparr>th_updated_at := le_now env, th_version := th_version x + 1\<rparr>"
  have no: "thread_conflict resident_id property_id x = None"
    using assms(1) Some by (auto simp: register_thread_def split: option.splits)
  have kept: "thread_kept x ?r'"
    using resolve_property_kept [OF no] by (simp add: thread_kept_def)
  then have id': "th_thread_id ?r' = thread_id" using x by (simp add: thread_kept_def)
  show ?thesis
  proof (cases "property_id \<noteq> None \<and> th_property_id x = None")
    case True
    then have "d' = put_thread ?r' d" "r = ?r'"
      using assms(1) Some no by (simp_all add: register_thread_def Let_def inversion_simps)
    then show ?thesis using put_thread_effect [OF assms(2) conjunct1 [OF x] kept] id' by blast
  next
    case False
    then have "d' = d" "r = x"
      using assms(1) Some no unfolding register_thread_def by (simp_all only: option.case if_False sum.inject prod.inject)
    then show ?thesis using x by (intro exI [of _ "ld_threads d"]) simp
  qed
qed

lemma thread_for_result_effect:
  assumes "thread_for_result env command d = Inr (r, d')" and "distinct (map th_thread_id (ld_threads d))"
  shows "\<exists>rows. d' = d\<lparr>ld_threads := rows\<rparr> \<and> threads_kept (ld_threads d) rows \<and> r \<in> set rows \<and>
    th_thread_id r = fa_thread_id command"
proof (cases "find_thread (fa_thread_id command) d")
  case None
  then show ?thesis using assms register_thread_effect by (simp add: thread_for_result_def)
next
  case (Some x)
  note x = find_thread_Some [OF Some]
  let ?r' = "resolve_property (fa_property_id command) x"
  have no: "thread_conflict (fa_resident_id command) (fa_property_id command) x = None"
    and d': "d' = put_thread ?r' d" "r = ?r'"
    using assms(1) Some by (auto simp: thread_for_result_def Let_def inversion_simps split: option.splits)
  note kept = resolve_property_kept [OF no]
  then have id': "th_thread_id ?r' = fa_thread_id command" using x by (simp add: thread_kept_def)
  show ?thesis using put_thread_effect [OF assms(2) conjunct1 [OF x] kept] id' d' by blast
qed

lemma set_thread_lifecycle_effect:
  assumes "set_thread_lifecycle env thread_id resident_id target actor_id expected d = Inr (r, d')"
    and "distinct (map th_thread_id (ld_threads d))"
  shows "\<exists>rows. d' = d\<lparr>ld_threads := rows\<rparr> \<and> threads_kept (ld_threads d) rows"
proof -
  from assms(1) obtain x where x: "find_thread thread_id d = Some x"
    and target: "target \<in> allowed_lifecycle (th_lifecycle x)"
    and update: "update_thread_lifecycle env thread_id resident_id target actor_id expected d = Inr (r, d')"
    by (auto simp: set_thread_lifecycle_def split: option.splits if_splits)
  from update obtain y where y: "y \<in> set (ld_threads d)" "th_thread_id y = thread_id"
    and d': "d' = put_thread (lifecycle_row env target actor_id expected y) d"
    by (auto simp: update_thread_lifecycle_def Let_def inversion_simps split: option.splits dest!: find_Some_set)
  have "y = x" using x y assms(2) by (auto simp: distinct_map inj_on_def dest: find_thread_Some)
  then have "thread_kept y (lifecycle_row env target actor_id expected y)"
    using target by (auto simp: thread_kept_def lifecycle_row_def)
  from put_thread_effect [OF assms(2) y(1) this] show ?thesis unfolding d' by blast
qed

section \<open>Runs\<close>

text \<open>A finished run changes in its \<open>last_sequence\<close> only; a run is running while it has no public result.\<close>

definition run_kept :: "AgentRun \<Rightarrow> AgentRun \<Rightarrow> bool" where
  "run_kept r r' \<longleftrightarrow> rn_id r' = rn_id r \<and>
     (rn_status r \<noteq> AR_RUNNING \<longrightarrow> r' = r\<lparr>rn_last_sequence := rn_last_sequence r'\<rparr>)"

definition run_sound :: "AgentRun \<Rightarrow> bool" where
  "run_sound r \<longleftrightarrow> (rn_status r = AR_RUNNING) = (rn_message_outcome r = None)"

definition runs_kept :: "AgentRun list \<Rightarrow> AgentRun list \<Rightarrow> bool" where
  "runs_kept rows rows' \<longleftrightarrow> (distinct (map rn_id rows) \<longrightarrow> distinct (map rn_id rows')) \<and>
     (\<forall>r \<in> set rows. \<exists>r' \<in> set rows'. run_kept r r') \<and>
     ((\<forall>r \<in> set rows. run_sound r) \<longrightarrow> (\<forall>r \<in> set rows'. run_sound r))"

lemma run_kept_refl [simp]: "run_kept r r"
  by (simp add: run_kept_def)

lemma run_kept_trans:
  assumes "run_kept a b" and "run_kept b c"
  shows "run_kept a c"
proof (cases "rn_status a = AR_RUNNING")
  case False
  then have b: "b = a\<lparr>rn_last_sequence := rn_last_sequence b\<rparr>" using assms(1) by (simp add: run_kept_def)
  have "rn_status b = rn_status a" by (subst b) simp
  with False have "c = b\<lparr>rn_last_sequence := rn_last_sequence c\<rparr>" using assms(2) by (simp add: run_kept_def)
  also have "\<dots> = a\<lparr>rn_last_sequence := rn_last_sequence c\<rparr>" by (subst b) simp
  finally show ?thesis using assms by (simp add: run_kept_def)
qed (use assms in \<open>simp add: run_kept_def\<close>)

lemma runs_kept_refl [simp]: "runs_kept rows rows"
  unfolding runs_kept_def using run_kept_refl by blast

lemma runs_kept_trans: "runs_kept a b \<Longrightarrow> runs_kept b c \<Longrightarrow> runs_kept a c"
  unfolding runs_kept_def by (meson run_kept_trans)

lemma runs_kept_append:
  "rn_id r \<notin> rn_id ` set rows \<Longrightarrow> run_sound r \<Longrightarrow> runs_kept rows (rows @ [r])"
  unfolding runs_kept_def using run_kept_refl by fastforce

lemma runs_kept_replace:
  assumes "distinct (map rn_id rows)" and "run \<in> set rows" and "run_kept run run'"
    and "run_sound run \<longrightarrow> run_sound run'"
  shows "runs_kept rows (map (\<lambda>x. if rn_id x = rn_id run then run' else x) rows)"
proof -
  have one: "x = run" if "x \<in> set rows" "rn_id x = rn_id run" for x
    using assms(1,2) that by (auto simp: distinct_map inj_on_def)
  have id: "rn_id run' = rn_id run" using assms(3) by (simp add: run_kept_def)
  let ?rows = "map (\<lambda>x. if rn_id x = rn_id run then run' else x) rows"
  have ids: "map rn_id ?rows = map rn_id rows" using id by simp
  have kept: "\<exists>y \<in> set ?rows. run_kept r y" if "r \<in> set rows" for r
    using one [OF that] assms(3) that by (cases "rn_id r = rn_id run") (auto intro: rev_bexI)
  have sound: "run_sound y" if "\<forall>r \<in> set rows. run_sound r" and "y \<in> set ?rows" for y
    using that assms(2,4) by auto
  show ?thesis
    unfolding runs_kept_def ids using kept sound by (intro conjI impI ballI) assumption+
qed

lemma update_run_kept:
  assumes "update_run run' t = Inr t'" and "distinct (map rn_id (td_runs t))" and "run \<in> set (td_runs t)"
    and "run_kept run run'"
  shows "runs_kept (td_runs t) (td_runs t')"
proof -
  have id: "rn_id run' = rn_id run" using assms(4) by (simp add: run_kept_def)
  have t': "td_runs t' = map (\<lambda>x. if rn_id x = rn_id run then run' else x) (td_runs t)"
    and "first_failed (run_row_checks run') = None"
    using assms(1) id by (auto simp: inversion_simps)
  then have "run_sound run'" by (auto simp: run_row_checks_def run_sound_def)
  then show ?thesis unfolding t' using assms by (intro runs_kept_replace) simp_all
qed

lemma find_run_distinct:
  "distinct (map rn_id (td_runs t)) \<Longrightarrow> run \<in> set (td_runs t) \<Longrightarrow> find_run (rn_id run) t = Some run"
  by (simp add: find_run_def find_distinct_key)

lemma start_run_kept:
  assumes "start_run rt event_id command t = Inr (run, t')"
  shows "runs_kept (td_runs t) (td_runs t')"
proof (cases "find_run (sr_run_id command) t")
  case None
  from assms None have t': "td_runs t' = td_runs t @ [started_run command]"
    by (auto simp: start_run_def Let_def inversion_simps)
  show ?thesis unfolding t' using None
    by (intro runs_kept_append) (auto simp: find_run_None started_run_def run_sound_def)
qed (use assms in \<open>simp add: start_run_def\<close>)

lemma append_trace_event_kept:
  assumes "append_trace_event rt event_id command t = Inr (event, t')"
    and "distinct (map rn_id (td_runs t))"
  shows "runs_kept (td_runs t) (td_runs t')"
proof (cases "event_by_key (ae_event_key command) t")
  case None
  show ?thesis
  proof (cases "ae_run_id command")
    case None
    then show ?thesis using assms \<open>event_by_key (ae_event_key command) t = None\<close>
      by (auto simp: append_trace_event_def inversion_simps)
  next
    case (Some i)
    then obtain run t1 where run: "find_run i t = Some run"
      and t1: "update_run (run\<lparr>rn_last_sequence := rn_last_sequence run + 1\<rparr>) t = Inr t1"
      and t': "td_runs t' = td_runs t1"
      using assms(1) None by (auto simp: append_trace_event_def Let_def inversion_simps split: option.splits if_splits)
    show ?thesis
      unfolding t' using find_run_Some [OF run]
      by (intro update_run_kept [OF t1 assms(2)]) (auto simp: run_kept_def)
  qed
qed (use assms in \<open>simp add: append_trace_event_def\<close>)

lemma finish_run_kept:
  assumes "finish_run rt event_id i status occurred_at version error_code t = Inr (r, t')"
    and "distinct (map rn_id (td_runs t))"
  shows "runs_kept (td_runs t) (td_runs t')"
proof -
  from assms(1) obtain event_type run where type: "terminal_event_of status = Some event_type"
    and run: "find_run i t = Some run"
    by (auto simp: finish_run_def split: option.splits)
  show ?thesis
  proof (cases "rn_status run = AR_RUNNING")
    case True
    then obtain t1 where t1: "update_run (finished_run run status occurred_at version error_code) t = Inr t1"
      and t': "td_runs t' = td_runs t1"
      using assms(1) type run by (auto simp: finish_run_def Let_def inversion_simps)
    show ?thesis
      unfolding t' using find_run_Some [OF run] True
      by (intro update_run_kept [OF t1 assms(2)]) (auto simp: run_kept_def)
  next
    case False
    then show ?thesis using assms type run by (auto simp: finish_run_def split: if_splits)
  qed
qed

text \<open>Publishing writes the row of one running run.\<close>

lemma next_event_Inr:
  "next_event env event_type source payload (run, t) = Inr (run', t') \<Longrightarrow>
   (\<exists>n. run' = run\<lparr>rn_last_sequence := n\<rparr>) \<and> td_runs t' = td_runs t"
  by (auto simp: next_event_def Let_def inversion_simps)

lemma append_terminal_trace_Inr:
  assumes "append_terminal_trace env command (run, t) = Inr (run', t')"
  shows "(\<exists>n. run' = run\<lparr>rn_last_sequence := n\<rparr>) \<and> td_runs t' = td_runs t"
proof -
  have same: "\<exists>n. run = run\<lparr>rn_last_sequence := n\<rparr>" by (rule exI [of _ "rn_last_sequence run"]) simp
  show ?thesis
  proof (cases "has_event (rn_id run) message_terminal_events t")
    case True
    then show ?thesis using assms same by (simp add: append_terminal_trace_def)
  next
    case open_run: False
    show ?thesis
    proof (cases "has_event (rn_id run) lifecycle_terminal_events t")
      case True
      then show ?thesis using assms open_run by (simp add: append_terminal_trace_def next_event_Inr)
    next
      case False
      with assms open_run obtain r1 t1
        where first: "next_event env (fa_terminal_event_type command) SRC_AGENT
            [(''status'', PStr (fa_agent_run_status command))] (run, t) = Inr (r1, t1)"
          and second: "next_event env (fa_message_event_type command) SRC_API
            [(''message_outcome'', PStr (message_outcome_value (fa_outcome command))),
             (''required_user_action'', PStr (required_user_action_value (fa_required_user_action command)))]
            (r1, t1) = Inr (run', t')"
        unfolding append_terminal_trace_def bindE_Inr_iff by (simp add: bindE_Inr_iff) blast
      from next_event_Inr [OF first] obtain n where r1: "r1 = run\<lparr>rn_last_sequence := n\<rparr>"
        and t1: "td_runs t1 = td_runs t" by blast
      from next_event_Inr [OF second] obtain m where "run' = r1\<lparr>rn_last_sequence := m\<rparr>"
        and t': "td_runs t' = td_runs t1" by blast
      then have "run' = run\<lparr>rn_last_sequence := m\<rparr>" by (simp add: r1)
      then show ?thesis using t1 t' by auto
    qed
  qed
qed

lemma publish_result_effect:
  assumes "publish_result late env command run d = Inr d'"
    and run: "run \<in> set (td_runs (ld_trace d))" "rn_status run = AR_RUNNING"
    and distinct: "distinct (map rn_id (td_runs (ld_trace d)))"
  shows "\<exists>t run'. d' = d\<lparr>ld_trace := t\<rparr> \<and> rn_id run' = rn_id run \<and> rn_status run' \<noteq> AR_RUNNING \<and>
    rn_message_outcome run' = Some (fa_outcome command) \<and>
    rn_required_user_action run' = fa_required_user_action command \<and>
    rn_error_code run' = fa_error_code command \<and>
    td_runs t = map (\<lambda>x. if rn_id x = rn_id run then run' else x) (td_runs (ld_trace d)) \<and>
    runs_kept (td_runs (ld_trace d)) (td_runs t)"
proof -
  from assms(1) obtain status t1 run' t2 t3
    where t1: "update_run (finished_result env command status run) (ld_trace d) = Inr t1"
      and terminal: "append_terminal_trace env command (finished_result env command status run, t1) =
        Inr (run', t2)"
      and t3: "update_run run' t2 = Inr t3" and d': "d' = d\<lparr>ld_trace := t3\<rparr>"
    by (auto simp: publish_result_def inversion_simps)
  then obtain n where row: "run' = (finished_result env command status run)\<lparr>rn_last_sequence := n\<rparr>"
    and t2: "td_runs t2 = td_runs t1"
    using append_terminal_trace_Inr by blast
  have fields: "rn_id run' = rn_id run" "rn_message_outcome run' = Some (fa_outcome command)"
    "rn_required_user_action run' = fa_required_user_action command" "rn_error_code run' = fa_error_code command"
    by (simp_all add: row finished_result_def)
  have sound: "first_failed (run_row_checks run') = None" using t3 by (simp add: inversion_simps)
  have runs: "td_runs t3 = map (\<lambda>x. if rn_id x = rn_id run then run' else x) (td_runs (ld_trace d))"
    using t1 t3 t2 fields(1) by (auto simp: inversion_simps finished_result_def)
  have "rn_status run' \<noteq> AR_RUNNING"
    using sound fields(2) by (auto simp: run_row_checks_def)
  moreover have "runs_kept (td_runs (ld_trace d)) (td_runs t3)"
    unfolding runs using run fields(1) sound
    by (intro runs_kept_replace [OF distinct]) (auto simp: run_kept_def run_sound_def run_row_checks_def)
  ultimately show ?thesis using d' fields runs by blast
qed

section \<open>Messages\<close>

definition thread_messages :: "uuid \<Rightarrow> MessageRow list \<Rightarrow> MessageRow list" where
  "thread_messages thread_id messages = filter (\<lambda>m. mg_thread_id m = thread_id) messages"

definition numbered_messages :: "MessageRow list \<Rightarrow> bool" where
  "numbered_messages messages \<longleftrightarrow>
     distinct (map (\<lambda>m. (mg_run_id m, mg_role m)) messages) \<and>
     distinct (map mg_message_id messages) \<and>
     (\<forall>thread_id. map mg_sequence_no (thread_messages thread_id messages) =
        map int [1..<Suc (length (thread_messages thread_id messages))])"

lemma foldr_max_upto: "foldr max (map int [1..<Suc n]) 0 = int n"
proof (induction n)
  case (Suc n)
  have "foldr max xs (max a b) = max (foldr max xs a) b" for xs and a b :: int
    by (induction xs) (simp_all add: max.assoc)
  from this [of "map int [1..<Suc n]" 0 "int (Suc n)"] show ?case
    using Suc.IH by (simp add: max.commute)
qed simp

lemma append_message_effect:
  assumes "append_message thread_id run_id message_id role content created_at d = Inr d'"
    and "numbered_messages (ld_messages d)"
  shows "\<exists>new. d' = d\<lparr>ld_messages := ld_messages d @ new\<rparr> \<and> numbered_messages (ld_messages d @ new) \<and>
    (\<forall>m \<in> set new. mg_run_id m = run_id \<and> mg_role m = role \<and> mg_thread_id m = thread_id)"
proof (cases "\<exists>m \<in> set (ld_messages d). mg_message_id m = message_id \<or> mg_run_id m = run_id \<and> mg_role m = role")
  case True
  then show ?thesis using assms by (intro exI [of _ "[]"]) (simp add: append_message_def)
next
  case False
  let ?m = "\<lparr>mg_message_id = message_id, mg_thread_id = thread_id, mg_run_id = run_id, mg_role = role,
    mg_content = strip content, mg_sequence_no = next_sequence thread_id d, mg_created_at = created_at\<rparr>"
  let ?n = "length (thread_messages thread_id (ld_messages d))"
  have "map mg_sequence_no (thread_messages thread_id (ld_messages d)) = map int [1..<Suc ?n]"
    using assms(2) by (simp only: numbered_messages_def)
  then have n: "next_sequence thread_id d = int (Suc ?n)"
    unfolding next_sequence_def thread_messages_def [symmetric] by (simp only: foldr_max_upto of_nat_Suc)
  have "map mg_sequence_no (thread_messages t (ld_messages d @ [?m])) =
      map int [1..<Suc (length (thread_messages t (ld_messages d @ [?m])))]" for t
    using assms(2) n by (simp add: numbered_messages_def thread_messages_def)
  then have "numbered_messages (ld_messages d @ [?m])"
    using assms(2) False unfolding numbered_messages_def by fastforce
  moreover have "d' = d\<lparr>ld_messages := ld_messages d @ [?m]\<rparr>"
    using assms(1) False unfolding append_message_def by (simp add: Let_def inversion_simps)
  ultimately show ?thesis by (intro exI [of _ "[?m]"]) simp
qed

lemma durable_messages_effect:
  assumes "durable_messages env command d = Inr d'" and "numbered_messages (ld_messages d)"
  shows "\<exists>new. d' = d\<lparr>ld_messages := ld_messages d @ new\<rparr> \<and> numbered_messages (ld_messages d @ new) \<and>
    (\<forall>m \<in> set new. mg_run_id m = fa_run_id command \<and> mg_thread_id m = fa_thread_id command)"
proof -
  let ?assistant = "append_message (fa_thread_id command) (fa_run_id command)
    (le_uuid5_url env (join_with '':'' [''fixflow'', ''durable'', uuid_text (fa_run_id command), ''ASSISTANT'']))
    MR_ASSISTANT (fa_assistant_message command) (le_now env)"
  obtain d1 new where d1: "d1 = d\<lparr>ld_messages := ld_messages d @ new\<rparr>" "numbered_messages (ld_messages d @ new)"
    and new: "\<forall>m \<in> set new. mg_run_id m = fa_run_id command \<and> mg_thread_id m = fa_thread_id command"
    and assistant: "?assistant d1 = Inr d'"
  proof (cases "fa_user_message_id command = None \<or> fa_user_message command = None")
    case True
    then have "?assistant d = Inr d'"
      using assms(1) by (auto simp: durable_messages_def split: option.splits)
    then show ?thesis using that [of d "[]"] assms(2) by simp
  next
    case False
    then obtain message_id content where "fa_user_message_id command = Some message_id"
      "fa_user_message command = Some content" by auto
    with assms(1) obtain d1
      where user: "append_message (fa_thread_id command) (fa_run_id command) message_id MR_USER content
          (case fa_user_message_created_at command of None \<Rightarrow> le_now env | Some t \<Rightarrow> t) d = Inr d1"
        and assistant: "?assistant d1 = Inr d'"
      unfolding durable_messages_def bindE_Inr_iff by auto
    from append_message_effect [OF user assms(2)] obtain new
      where "d1 = d\<lparr>ld_messages := ld_messages d @ new\<rparr>" "numbered_messages (ld_messages d @ new)"
        "\<forall>m \<in> set new. mg_run_id m = fa_run_id command \<and> mg_role m = MR_USER \<and> mg_thread_id m = fa_thread_id command"
      by (elim exE conjE)
    then show ?thesis using that [of d1 new] assistant by simp
  qed
  have "numbered_messages (ld_messages d1)" using d1 by simp
  from append_message_effect [OF assistant this] obtain more
    where "d' = d1\<lparr>ld_messages := ld_messages d1 @ more\<rparr>" "numbered_messages (ld_messages d1 @ more)"
      "\<forall>m \<in> set more. mg_run_id m = fa_run_id command \<and> mg_thread_id m = fa_thread_id command"
    by blast
  then show ?thesis using d1 new by (intro exI [of _ "new @ more"]) (auto simp: d1(1))
qed

section \<open>Review cases\<close>

definition review_log_entry :: "ReviewEvent \<Rightarrow> review_status log_entry" where
  "review_log_entry e = (he_from_status e, he_to_status e, he_version_before e, he_version_after e)"

text \<open>The versions of a case, its statuses and its event log move together.\<close>

interpretation review_table: audited_table hc_id hc_status hc_version he_case_id review_log_entry
  "\<lambda>(env, command). transitioned_case env command" "\<lambda>(env, command). hx_target_status command"
  by unfold_locales (auto simp: transitioned_case_def Let_def split: review_status.splits)

text \<open>An event opens a case, or an operator takes an allowed step.\<close>

definition review_event_ok :: "ReviewEvent \<Rightarrow> bool" where
  "review_event_ok e \<longleftrightarrow> he_sequence_no e = he_version_after e \<and>
     (case he_from_status e of
        None \<Rightarrow> he_to_status e = HR_OPEN \<and> he_action e = ''CREATED'' \<and> he_actor_type e = ACT_SYSTEM
      | Some s \<Rightarrow> he_to_status e \<in> allowed_review s \<and> he_action e = transition_action (he_to_status e) \<and>
          he_actor_type e = ACT_OPERATOR)"

definition review_columns_ok :: "ReviewCase \<Rightarrow> bool" where
  "review_columns_ok c \<longleftrightarrow>
     (hc_status c = HR_OPEN \<longrightarrow> hc_assigned_operator_id c = None \<and> hc_claimed_at c = None) \<and>
     (hc_status c = HR_CLAIMED \<longrightarrow> hc_assigned_operator_id c \<noteq> None \<and> hc_claimed_at c \<noteq> None) \<and>
     (hc_resolved_at c \<noteq> None \<longleftrightarrow> hc_status c \<notin> active_review_statuses) \<and>
     1 \<le> hc_priority c \<and> hc_priority c \<le> 100"

definition one_active_review :: "ReviewCase list \<Rightarrow> bool" where
  "one_active_review rows \<longleftrightarrow> (\<forall>c \<in> set rows. \<forall>c' \<in> set rows.
     hc_status c \<in> active_review_statuses \<longrightarrow> hc_status c' \<in> active_review_statuses \<longrightarrow>
     hc_dedupe_key c = hc_dedupe_key c' \<longrightarrow> c = c')"

text \<open>The unique index keeps it, when one row is written and checked against the others.\<close>

lemma one_active_review_written:
  assumes "one_active_review rows" and "first_failed (case_row_checks c d) = None" and "ld_cases d = rows"
    and "\<And>x. x \<in> set rows' \<Longrightarrow> x = c \<or> x \<in> set rows \<and> hc_id x \<noteq> hc_id c"
  shows "one_active_review rows'"
proof -
  have new: "hc_dedupe_key x \<noteq> hc_dedupe_key c"
    if "x \<in> set rows" "hc_id x \<noteq> hc_id c" "hc_status x \<in> active_review_statuses"
      "hc_status c \<in> active_review_statuses" for x
    using assms(2,3) that by (auto simp: case_row_checks_def)
  show ?thesis
    unfolding one_active_review_def
  proof (intro ballI impI)
    fix x y assume "x \<in> set rows'" "y \<in> set rows'" and active: "hc_status x \<in> active_review_statuses"
      "hc_status y \<in> active_review_statuses" "hc_dedupe_key x = hc_dedupe_key y"
    then consider "x = c" "y = c" | "x = c" "y \<in> set rows" "hc_id y \<noteq> hc_id c"
      | "y = c" "x \<in> set rows" "hc_id x \<noteq> hc_id c" | "x \<in> set rows" "y \<in> set rows"
      using assms(4) by metis
    then show "x = y" using assms(1) new active unfolding one_active_review_def by cases metis+
  qed
qed

definition review_outbox_ok :: "ReviewOutbox \<Rightarrow> bool" where
  "review_outbox_ok x \<longleftrightarrow> rx_event_type x \<in>
     {''HUMAN_REVIEW_OPENED'', ''HUMAN_REVIEW_OPEN'', ''HUMAN_REVIEW_CLAIMED'', ''HUMAN_REVIEW_RESOLVED'',
      ''HUMAN_REVIEW_DISMISSED''}"

definition reviews_ok :: "ReliabilityDb \<Rightarrow> bool" where
  "reviews_ok d \<longleftrightarrow> review_table.ok (ld_cases d) (ld_case_events d) \<and>
     (\<forall>e \<in> set (ld_case_events d). review_event_ok e) \<and> (\<forall>c \<in> set (ld_cases d). review_columns_ok c) \<and>
     one_active_review (ld_cases d) \<and> (\<forall>x \<in> set (ld_outbox d). review_outbox_ok x)"

definition closed_reviews_kept :: "ReviewCase list \<Rightarrow> ReviewCase list \<Rightarrow> bool" where
  "closed_reviews_kept rows rows' \<longleftrightarrow>
     (\<forall>c \<in> set rows. hc_status c \<notin> active_review_statuses \<longrightarrow> c \<in> set rows')"

lemma reviews_ok_frame:
  "ld_cases d' = ld_cases d \<Longrightarrow> ld_case_events d' = ld_case_events d \<Longrightarrow> ld_outbox d' = ld_outbox d \<Longrightarrow>
   reviews_ok d' = reviews_ok d"
  by (simp add: reviews_ok_def)

lemma create_or_get_review_effect:
  assumes "create_or_get_review env command d = Inr (c, d')" and "reviews_ok d"
  shows "reviews_ok d' \<and> ld_threads d' = ld_threads d \<and> ld_messages d' = ld_messages d \<and>
    ld_trace d' = ld_trace d \<and> closed_reviews_kept (ld_cases d) (ld_cases d') \<and>
    (\<forall>x \<in> set (ld_cases d'). x \<in> set (ld_cases d) \<or> hc_source_run_id x = Some (fa_run_id command)) \<and>
    c \<in> set (ld_cases d')"
proof -
  from assms(1) obtain stage reason where stage: "fa_failure_stage command = Some stage"
    "fa_reason_code command = Some reason"
    by (auto simp: create_or_get_review_def split: option.splits)
  let ?active = "find (\<lambda>c. hc_dedupe_key c = review_dedupe_key env command stage \<and>
    hc_status c \<in> active_review_statuses) (ld_cases d)"
  show ?thesis
  proof (cases ?active)
    case (Some x)
    then have "x \<in> set (ld_cases d)" by (auto dest: find_Some_set)
    then show ?thesis using assms stage Some
      by (simp add: create_or_get_review_def closed_reviews_kept_def)
  next
    case None
    let ?c = "new_review env command stage reason (le_case_id env (ld_cases d))"
    let ?e = "opened_event env command ?c"
    let ?x = "review_outbox env ?c ''HUMAN_REVIEW_OPENED'' ACT_SYSTEM (fa_resident_id command) (fa_trace_id command)"
    from assms(1) stage None have c: "c = ?c" and id: "hc_id ?c \<notin> hc_id ` set (ld_cases d)"
      and checks: "first_failed (case_row_checks ?c d) = None"
      and d': "d' = d\<lparr>ld_cases := ld_cases d @ [?c], ld_case_events := ld_case_events d @ [?e],
        ld_outbox := ld_outbox d @ [?x]\<rparr>"
      by (auto simp: create_or_get_review_def record_review_def Let_def bindE_Inr_iff flush_Inr)
    have new: "hc_status ?c = HR_OPEN" "hc_version ?c = 1" "hc_source_run_id ?c = Some (fa_run_id command)"
      by (simp_all add: new_review_def)
    have "review_table.ok (ld_cases d @ [?c]) (ld_case_events d @ [?e])"
      using assms(2) id new
      by (intro review_table.ok_insert) (simp_all add: reviews_ok_def opened_event_def review_log_entry_def)
    moreover have "review_event_ok ?e" by (simp add: review_event_ok_def opened_event_def)
    moreover have "review_columns_ok ?c"
      by (simp add: review_columns_ok_def new_review_def active_review_statuses_def review_priority_def)
    moreover have "review_outbox_ok ?x" by (simp add: review_outbox_ok_def review_outbox_def)
    moreover have "one_active_review (ld_cases d)" using assms(2) by (simp add: reviews_ok_def)
    then have "one_active_review (ld_cases d @ [?c])"
      by (rule one_active_review_written [OF _ checks refl]) (use id in \<open>auto simp: image_iff\<close>)
    ultimately show ?thesis
      using assms(2) c new(3) by (auto simp: d' reviews_ok_def closed_reviews_kept_def)
  qed
qed

lemma transition_human_review_effect:
  assumes "transition_human_review env command d = Inr (c', d')" and ok: "reviews_ok d"
  shows "reviews_ok d' \<and> ld_threads d' = ld_threads d \<and> ld_messages d' = ld_messages d \<and>
    ld_trace d' = ld_trace d \<and> closed_reviews_kept (ld_cases d) (ld_cases d') \<and>
    (\<forall>x \<in> set (ld_cases d'). \<exists>y \<in> set (ld_cases d). hc_source_run_id x = hc_source_run_id y)"
proof -
  from assms(1) have operator: "hx_actor_type command = ACT_OPERATOR"
    and transition: "transition_review env command d = Inr (c', d')"
    by (auto simp: transition_human_review_def operator_only_def split: if_splits)
  from transition obtain c where c: "find_review (hx_case_id command) d = Some c"
    by (auto simp: transition_review_def split: option.splits)
  let ?c' = "transitioned_case env command c"
  let ?e = "transition_event env command c ?c'"
  let ?x = "review_outbox env ?c' (''HUMAN_REVIEW_'' @ review_status_value (hc_status ?c'))
    (hx_actor_type command) (hx_actor_id command) (hx_trace_id command)"
  have mem: "c \<in> set (ld_cases d)" using c by (auto simp: find_review_def dest: find_Some_set)
  from transition c have allowed: "hx_target_status command \<in> allowed_review (hc_status c)"
    and checks: "first_failed (case_row_checks ?c' d) = None"
    and d': "d' = (put_case ?c' d)\<lparr>ld_case_events := ld_case_events d @ [?e], ld_outbox := ld_outbox d @ [?x]\<rparr>"
    by (auto simp: transition_review_def record_review_def put_case_def Let_def bindE_Inr_iff flush_Inr
        split: if_splits)
  have fields: "hc_id ?c' = hc_id c" "hc_version ?c' = hc_version c + 1" "hc_status ?c' = hx_target_status command"
    "hc_source_run_id ?c' = hc_source_run_id c" "hc_priority ?c' = hc_priority c"
    by (simp_all add: transitioned_case_def Let_def split: review_status.splits)
  have same: "x = c" if "x \<in> set (ld_cases d)" "hc_id x = hc_id c" for x
    using ok mem that by (auto simp: reviews_ok_def audited_def distinct_map inj_on_def)
  let ?rows = "map (\<lambda>x. if hc_id x = hc_id c then ?c' else x) (ld_cases d)"
  have rows: "ld_cases d' = ?rows" by (simp add: d' put_case_def fields(1))
  have written: "y = ?c' \<or> y \<in> set (ld_cases d) \<and> hc_id y \<noteq> hc_id ?c'" if "y \<in> set ?rows" for y
    using that fields(1) by (auto split: if_splits)
  have rows_eq: "review_table.written (env, command) (hc_id c) (hc_version c) (ld_cases d) = ?rows"
    using same by (intro map_cong refl) auto
  have "review_table.ok (ld_cases d) (ld_case_events d)" using ok by (simp add: reviews_ok_def)
  then have "review_table.ok (review_table.written (env, command) (hc_id c) (hc_version c) (ld_cases d))
      (ld_case_events d @ [?e])"
    by (rule review_table.ok_update [OF _ mem])
      (simp_all add: transition_event_def review_log_entry_def fields)
  then have "review_table.ok ?rows (ld_case_events d @ [?e])" unfolding rows_eq .
  moreover have "review_event_ok ?e"
    using allowed operator fields(3) by (simp add: review_event_ok_def transition_event_def)
  moreover have "review_columns_ok c" using ok mem by (simp add: reviews_ok_def)
  then have "review_columns_ok ?c'"
    using allowed by (cases "hc_status c"; cases "hx_target_status command")
      (simp_all add: review_columns_ok_def transitioned_case_def active_review_statuses_def)
  moreover have "review_outbox_ok ?x"
    by (cases "hc_status ?c'") (simp_all add: review_outbox_ok_def review_outbox_def)
  moreover have "one_active_review (ld_cases d)" using ok by (simp add: reviews_ok_def)
  then have "one_active_review ?rows"
    by (rule one_active_review_written [OF _ checks refl]) (rule written)
  ultimately have "reviews_ok d'"
    using ok written unfolding reviews_ok_def rows by (auto simp: d' put_case_def)
  moreover have "closed_reviews_kept (ld_cases d) ?rows"
    using allowed same
    by (auto simp: closed_reviews_kept_def image_iff active_review_statuses_def split: if_splits)
      (metis allowed_review.simps(3,4) empty_iff review_status.exhaust)+
  moreover have "\<exists>y \<in> set (ld_cases d). hc_source_run_id x = hc_source_run_id y" if "x \<in> set ?rows" for x
    using written [OF that] mem fields(4) by auto
  ultimately show ?thesis unfolding rows by (simp add: d' put_case_def)
qed

section \<open>The invariant\<close>

definition run_closed :: "uuid \<Rightarrow> TraceDb \<Rightarrow> bool" where
  "run_closed i t \<longleftrightarrow> (\<exists>r \<in> set (td_runs t). rn_id r = i \<and> rn_status r \<noteq> AR_RUNNING)"

text \<open>A run that has an answer or a review case is finished.\<close>

definition answers_closed :: "ReliabilityDb \<Rightarrow> bool" where
  "answers_closed d \<longleftrightarrow>
     (\<forall>m \<in> set (ld_messages d). mg_role m = MR_ASSISTANT \<longrightarrow> run_closed (mg_run_id m) (ld_trace d)) \<and>
     (\<forall>c \<in> set (ld_cases d). \<forall>i. hc_source_run_id c = Some i \<longrightarrow> run_closed i (ld_trace d))"

definition tables_sound :: "ReliabilityDb \<Rightarrow> bool" where
  "tables_sound d \<longleftrightarrow> distinct (map th_thread_id (ld_threads d)) \<and>
     distinct (map rn_id (td_runs (ld_trace d))) \<and> (\<forall>r \<in> set (td_runs (ld_trace d)). run_sound r) \<and>
     numbered_messages (ld_messages d) \<and> reviews_ok d"

definition reliability_ok :: "ReliabilityDb \<Rightarrow> bool" where
  "reliability_ok d \<longleftrightarrow> tables_sound d \<and> answers_closed d"

definition records_kept :: "ReliabilityDb \<Rightarrow> ReliabilityDb \<Rightarrow> bool" where
  "records_kept d d' \<longleftrightarrow> threads_kept (ld_threads d) (ld_threads d') \<and>
     runs_kept (td_runs (ld_trace d)) (td_runs (ld_trace d')) \<and>
     closed_reviews_kept (ld_cases d) (ld_cases d') \<and>
     (\<exists>new. ld_messages d' = ld_messages d @ new)"

lemma records_kept_refl [simp]: "records_kept d d"
  by (simp add: records_kept_def closed_reviews_kept_def)

lemma records_kept_trans: "records_kept a b \<Longrightarrow> records_kept b c \<Longrightarrow> records_kept a c"
  unfolding records_kept_def closed_reviews_kept_def
  by (metis threads_kept_trans runs_kept_trans append_assoc)

lemma run_closed_kept: "runs_kept (td_runs t) (td_runs t') \<Longrightarrow> run_closed i t \<Longrightarrow> run_closed i t'"
proof -
  assume kept: "runs_kept (td_runs t) (td_runs t')" and "run_closed i t"
  then obtain r where r: "r \<in> set (td_runs t)" "rn_id r = i" "rn_status r \<noteq> AR_RUNNING"
    by (auto simp: run_closed_def)
  then obtain r' where "r' \<in> set (td_runs t')" "run_kept r r'" using kept by (auto simp: runs_kept_def)
  moreover from this r have "rn_id r' = i" "rn_status r' \<noteq> AR_RUNNING"
    by (auto simp: run_kept_def) (metis AgentRun.select_convs(5) AgentRun.surjective AgentRun.update_convs(12))
  ultimately show "run_closed i t'" by (auto simp: run_closed_def)
qed

lemma answers_closed_after:
  assumes "answers_closed d" and "runs_kept (td_runs (ld_trace d)) (td_runs (ld_trace d'))"
    and "\<And>m. m \<in> set (ld_messages d') \<Longrightarrow> m \<in> set (ld_messages d) \<or> mg_run_id m \<in> closed"
    and "\<And>c i. c \<in> set (ld_cases d') \<Longrightarrow> hc_source_run_id c = Some i \<Longrightarrow>
      i \<in> closed \<or> (\<exists>y \<in> set (ld_cases d). hc_source_run_id y = Some i)"
    and "\<And>i. i \<in> closed \<Longrightarrow> run_closed i (ld_trace d')"
  shows "answers_closed d'"
  using assms run_closed_kept [OF assms(2)] unfolding answers_closed_def by meson

lemma tables_sound_trace:
  assumes "tables_sound d" and "runs_kept (td_runs (ld_trace d)) (td_runs t)"
  shows "tables_sound (d\<lparr>ld_trace := t\<rparr>) \<and> records_kept d (d\<lparr>ld_trace := t\<rparr>)"
  using assms by (simp add: tables_sound_def records_kept_def runs_kept_def reviews_ok_def closed_reviews_kept_def)

lemma tables_sound_threads:
  assumes "tables_sound d" and "threads_kept (ld_threads d) rows"
  shows "tables_sound (d\<lparr>ld_threads := rows\<rparr>) \<and> records_kept d (d\<lparr>ld_threads := rows\<rparr>)"
  using assms by (simp add: tables_sound_def records_kept_def threads_kept_def reviews_ok_def closed_reviews_kept_def)

lemma tables_sound_messages:
  assumes "tables_sound d" and "numbered_messages (ld_messages d @ new)"
  shows "tables_sound (d\<lparr>ld_messages := ld_messages d @ new\<rparr>) \<and>
    records_kept d (d\<lparr>ld_messages := ld_messages d @ new\<rparr>)"
  using assms by (simp add: tables_sound_def records_kept_def reviews_ok_def closed_reviews_kept_def)

lemma tables_sound_reviews:
  assumes "tables_sound d" and "reviews_ok d'" and "ld_threads d' = ld_threads d"
    and "ld_messages d' = ld_messages d" and "ld_trace d' = ld_trace d"
    and "closed_reviews_kept (ld_cases d) (ld_cases d')"
  shows "tables_sound d' \<and> records_kept d d'"
  using assms by (simp add: tables_sound_def records_kept_def)

section \<open>Every transaction keeps the invariant\<close>

lemma progressI:
  assumes "reliability_ok d" and "tables_sound d' \<and> records_kept d d'"
    and "\<And>m. m \<in> set (ld_messages d') \<Longrightarrow> m \<in> set (ld_messages d) \<or> mg_run_id m \<in> closed"
    and "\<And>c i. c \<in> set (ld_cases d') \<Longrightarrow> hc_source_run_id c = Some i \<Longrightarrow>
      i \<in> closed \<or> (\<exists>y \<in> set (ld_cases d). hc_source_run_id y = Some i)"
    and "\<And>i. i \<in> closed \<Longrightarrow> run_closed i (ld_trace d')"
  shows "reliability_ok d' \<and> records_kept d d'"
proof -
  have "answers_closed d" and "runs_kept (td_runs (ld_trace d)) (td_runs (ld_trace d'))"
    using assms(1,2) by (simp_all add: reliability_ok_def records_kept_def)
  then have "answers_closed d'" by (rule answers_closed_after [where closed = closed]) (use assms(3-5) in blast)+
  with assms(2) show ?thesis by (simp add: reliability_ok_def)
qed

lemma progress_trace:
  assumes "reliability_ok d" and "runs_kept (td_runs (ld_trace d)) (td_runs t)"
  shows "reliability_ok (d\<lparr>ld_trace := t\<rparr>) \<and> records_kept d (d\<lparr>ld_trace := t\<rparr>)"
  using assms tables_sound_trace [of d t]
  by (intro progressI [of d _ "{}"]) (auto simp: reliability_ok_def)

lemma progress_threads:
  assumes "reliability_ok d" and "threads_kept (ld_threads d) rows"
  shows "reliability_ok (d\<lparr>ld_threads := rows\<rparr>) \<and> records_kept d (d\<lparr>ld_threads := rows\<rparr>)"
  using assms tables_sound_threads [of d rows]
  by (intro progressI [of d _ "{}"]) (auto simp: reliability_ok_def)

lemma distinct_tables:
  assumes "tables_sound d"
  shows "distinct (map th_thread_id (ld_threads d))" and "distinct (map rn_id (td_runs (ld_trace d)))"
  using assms by (simp_all add: tables_sound_def)

lemma published_run_closed:
  assumes "run \<in> set (td_runs t)" and "rn_id run' = rn_id run" and "rn_status run' \<noteq> AR_RUNNING"
    and "td_runs t' = map (\<lambda>x. if rn_id x = rn_id run then run' else x) (td_runs t)"
  shows "run_closed (rn_id run) t'" and "run' \<in> set (td_runs t')"
  using assms by (auto simp: run_closed_def image_iff)

lemma finalize_run_progress:
  assumes "finalize_run env command d = Inr (review, d')" and ok: "reliability_ok d"
  shows "reliability_ok d' \<and> records_kept d d'"
proof -
  have sound: "tables_sound d" using ok by (simp add: reliability_ok_def)
  from assms(1) obtain run where run: "find_run (fa_run_id command) (ld_trace d) = Some run"
    by (auto simp: finalize_run_def split: option.splits)
  from assms(1) run obtain thread d1
    where thread: "thread_for_result env command d = Inr (thread, d1)"
    by (auto simp: finalize_run_def inversion_simps)
  from thread_for_result_effect [OF thread distinct_tables(1) [OF sound]] obtain rows
    where d1: "d1 = d\<lparr>ld_threads := rows\<rparr>" and rows: "threads_kept (ld_threads d) rows" "thread \<in> set rows"
    by blast
  note step1 = tables_sound_threads [OF sound rows(1), folded d1]
  show ?thesis
  proof (cases "rn_message_outcome run")
    case (Some outcome)
    then have "d' = d1"
      using assms(1) run thread by (auto simp: finalize_run_def split: if_splits)
    then show ?thesis using progress_threads [OF ok rows(1)] d1 by simp
  next
    case None
    let ?thread = "thread\<lparr>th_last_activity_at := le_now env, th_updated_at := le_now env,
      th_version := th_version thread + 1\<rparr>"
    from assms(1) run thread None obtain d2 d3 d4
      where d2: "durable_messages env command d1 = Inr d2"
        and d3: "(if fa_outcome command = MO_ESCALATED
            then map_sum id (map_prod Some id) (create_or_get_review env command d2)
            else Inr (None, d2)) = Inr (review, d3)"
        and d4: "publish_result (\<lambda>_. conflict ''agent reliability persistence conflict'') env command run d3 = Inr d4"
        and d': "d' = put_thread ?thread d4"
      by (auto simp: finalize_run_def Let_def bindE_Inr_iff commit_flush_Inr)
    have numbered: "numbered_messages (ld_messages d1)" using step1 by (simp add: tables_sound_def)
    from durable_messages_effect [OF d2 numbered] obtain new
      where d2_eq: "d2 = d1\<lparr>ld_messages := ld_messages d1 @ new\<rparr>"
        and new: "numbered_messages (ld_messages d1 @ new)" "\<forall>m \<in> set new. mg_run_id m = fa_run_id command"
      by blast
    note step2 = tables_sound_messages [OF conjunct1 [OF step1] new(1), folded d2_eq]
    have reviews: "reviews_ok d2" using step2 by (simp add: tables_sound_def)
    have d3_effect: "reviews_ok d3 \<and> ld_threads d3 = ld_threads d2 \<and> ld_messages d3 = ld_messages d2 \<and>
        ld_trace d3 = ld_trace d2 \<and> closed_reviews_kept (ld_cases d2) (ld_cases d3) \<and>
        (\<forall>x \<in> set (ld_cases d3). x \<in> set (ld_cases d2) \<or> hc_source_run_id x = Some (fa_run_id command))"
    proof (cases "fa_outcome command = MO_ESCALATED")
      case True
      with d3 obtain c where "create_or_get_review env command d2 = Inr (c, d3)"
        by (cases "create_or_get_review env command d2") auto
      then show ?thesis using create_or_get_review_effect [OF _ reviews] by blast
    qed (use d3 reviews in \<open>simp add: closed_reviews_kept_def\<close>)
    then have step3: "tables_sound d3 \<and> records_kept d2 d3"
      using step2 by (intro tables_sound_reviews) simp_all
    have trace: "ld_trace d3 = ld_trace d" using d3_effect by (simp add: d2_eq d1)
    have running: "run \<in> set (td_runs (ld_trace d3))" "rn_status run = AR_RUNNING" "rn_id run = fa_run_id command"
      using find_run_Some [OF run] None sound unfolding trace by (auto simp: tables_sound_def run_sound_def)
    from publish_result_effect [OF d4 running(1,2) distinct_tables(2) [OF conjunct1 [OF step3]]]
    obtain t run' where d4_eq: "d4 = d3\<lparr>ld_trace := t\<rparr>" and run': "rn_id run' = rn_id run" "rn_status run' \<noteq> AR_RUNNING"
      and t: "td_runs t = map (\<lambda>x. if rn_id x = rn_id run then run' else x) (td_runs (ld_trace d3))"
      and kept: "runs_kept (td_runs (ld_trace d3)) (td_runs t)"
      by blast
    note step4 = tables_sound_trace [OF conjunct1 [OF step3] kept, folded d4_eq]
    have "thread \<in> set (ld_threads d4)" using rows(2) d3_effect by (simp add: d4_eq d2_eq d1)
    moreover have "thread_kept thread ?thread" by (simp add: thread_kept_def)
    ultimately obtain rows' where d'_eq: "d' = d4\<lparr>ld_threads := rows'\<rparr>" and rows': "threads_kept (ld_threads d4) rows'"
      unfolding d' using put_thread_effect distinct_tables(1) [OF conjunct1 [OF step4]] by blast
    note step5 = tables_sound_threads [OF conjunct1 [OF step4] rows', folded d'_eq]
    have "tables_sound d' \<and> records_kept d d'"
      using step1 step2 step3 step4 step5 by (meson records_kept_trans)
    then show ?thesis
    proof (rule progressI [OF ok, of _ "{fa_run_id command}"])
      show "run_closed i (ld_trace d')" if "i \<in> {fa_run_id command}" for i
        using published_run_closed(1) [OF running(1) run' t] running(3) that by (simp add: d'_eq d4_eq)
      show "m \<in> set (ld_messages d) \<or> mg_run_id m \<in> {fa_run_id command}" if "m \<in> set (ld_messages d')" for m
        using that new(2) d3_effect by (auto simp: d'_eq d4_eq d2_eq d1)
      show "i \<in> {fa_run_id command} \<or> (\<exists>y \<in> set (ld_cases d). hc_source_run_id y = Some i)"
        if "c \<in> set (ld_cases d')" "hc_source_run_id c = Some i" for c i
        using that d3_effect by (auto simp: d'_eq d4_eq d2_eq d1)
    qed
  qed
qed

text \<open>Stalled runs: nothing is left of a running run, so it is answered as failed.\<close>

definition failed_result :: "AgentRun \<Rightarrow> bool" where
  "failed_result r \<longleftrightarrow> rn_message_outcome r = Some MO_FAILED \<and> rn_required_user_action r = RA_RETRY \<and>
     rn_error_code r \<in> {Some ''STALLED_RUN_RECONCILED'', Some ''STALLED_RUN_MISSING_CONTEXT''}"

definition failed_safely :: "uuid \<Rightarrow> TraceDb \<Rightarrow> bool" where
  "failed_safely i t \<longleftrightarrow> (\<exists>r \<in> set (td_runs t). rn_id r = i \<and> rn_status r \<noteq> AR_RUNNING \<and> failed_result r)"

lemma stalled_verdict_failed:
  assumes "answers_closed d" and "distinct (map rn_id (td_runs (ld_trace d)))"
    and "run \<in> set (td_runs (ld_trace d))" and "rn_status run = AR_RUNNING"
  shows "stalled_verdict env run d = (MO_FAILED, RA_RETRY, le_failed_text env)"
proof -
  have open_run: "\<not> run_closed (rn_id run) (ld_trace d)"
    using assms(2-4) by (auto simp: run_closed_def distinct_map inj_on_def)
  have "find (\<lambda>m. mg_run_id m = rn_id run \<and> mg_role m = MR_ASSISTANT) (ld_messages d) = None"
    using assms(1) open_run by (auto simp: find_None_iff answers_closed_def)
  moreover have "\<not> (\<exists>c \<in> set (ld_cases d). hc_source_run_id c = Some (rn_id run) \<and>
      hc_status c \<in> active_review_statuses)"
    using assms(1) open_run by (auto simp: answers_closed_def)
  ultimately show ?thesis unfolding stalled_verdict_def Let_def by simp
qed

lemma failed_safely_kept:
  assumes "failed_safely i t" and "runs_kept (td_runs t) (td_runs t')"
  shows "failed_safely i t'"
proof -
  from assms(1) obtain r where r: "r \<in> set (td_runs t)" "rn_id r = i" "rn_status r \<noteq> AR_RUNNING" "failed_result r"
    by (auto simp: failed_safely_def)
  then obtain r' where r': "r' \<in> set (td_runs t')" "rn_id r' = i" "r' = r\<lparr>rn_last_sequence := rn_last_sequence r'\<rparr>"
    using assms(2) by (auto simp: runs_kept_def run_kept_def)
  have "failed_result r'" "rn_status r' \<noteq> AR_RUNNING"
    using r(3,4) by (subst r'(3), simp add: failed_result_def)+
  with r' show ?thesis by (auto simp: failed_safely_def)
qed

lemma publish_stalled:
  assumes "publish_result late env (stalled_command run thread_id user_id text MO_FAILED RA_RETRY code) run d = Inr d'"
    and "code \<in> {''STALLED_RUN_RECONCILED'', ''STALLED_RUN_MISSING_CONTEXT''}"
    and run: "run \<in> set (td_runs (ld_trace d))" "rn_status run = AR_RUNNING"
    and "distinct (map rn_id (td_runs (ld_trace d)))"
  shows "\<exists>t. d' = d\<lparr>ld_trace := t\<rparr> \<and> runs_kept (td_runs (ld_trace d)) (td_runs t) \<and>
    run_closed (rn_id run) t \<and> failed_safely (rn_id run) t \<and>
    (\<forall>r \<in> set (td_runs (ld_trace d)). rn_id r \<noteq> rn_id run \<longrightarrow> r \<in> set (td_runs t))"
proof -
  from publish_result_effect [OF assms(1) run assms(5)] obtain t run'
    where d': "d' = d\<lparr>ld_trace := t\<rparr>" and run': "rn_id run' = rn_id run" "rn_status run' \<noteq> AR_RUNNING"
    and fields: "rn_message_outcome run' = Some MO_FAILED" "rn_required_user_action run' = RA_RETRY"
      "rn_error_code run' = Some code"
    and t: "td_runs t = map (\<lambda>x. if rn_id x = rn_id run then run' else x) (td_runs (ld_trace d))"
    and kept: "runs_kept (td_runs (ld_trace d)) (td_runs t)"
    by (auto simp: stalled_command_def)
  note now = published_run_closed [OF run(1) run' t]
  have "failed_result run'" using fields assms(2) by (auto simp: failed_result_def)
  then have "failed_safely (rn_id run) t" using now(2) run' by (auto simp: failed_safely_def)
  moreover have "r \<in> set (td_runs t)" if "r \<in> set (td_runs (ld_trace d))" "rn_id r \<noteq> rn_id run" for r
    using that unfolding t by (auto simp: image_iff intro: bexI [of _ r])
  ultimately show ?thesis using d' kept now(1) by blast
qed

lemma settle_stalled_run_progress:
  assumes settled: "settle_stalled_run env run d = Inr d'" and ok: "reliability_ok d"
    and run: "run \<in> set (td_runs (ld_trace d))" "rn_status run = AR_RUNNING"
  shows "reliability_ok d' \<and> records_kept d d' \<and> failed_safely (rn_id run) (ld_trace d') \<and>
    (\<forall>r \<in> set (td_runs (ld_trace d)). rn_id r \<noteq> rn_id run \<longrightarrow> r \<in> set (td_runs (ld_trace d')))"
proof -
  have sound: "tables_sound d" using ok by (simp add: reliability_ok_def)
  show ?thesis
  proof (cases "rn_thread_id run = None \<or> rn_user_id run = None")
    case True
    then obtain thread_id user_id where "publish_result (\<lambda>e. e) env
        (stalled_command run thread_id user_id (le_failed_text env) MO_FAILED RA_RETRY ''STALLED_RUN_MISSING_CONTEXT'')
        run d = Inr d'"
      using settled by (cases "rn_thread_id run"; cases "rn_user_id run") (auto simp: settle_stalled_run_def)
    from publish_stalled [OF this _ run distinct_tables(2) [OF sound]] show ?thesis
      using progress_trace [OF ok] by fastforce
  next
    case False
    then obtain thread_id user_id where ids: "rn_thread_id run = Some thread_id" "rn_user_id run = Some user_id"
      by auto
    with settled obtain thread d1
      where register: "register_thread env thread_id user_id (rn_property_id run) d = Inr (thread, d1)"
      by (auto simp: settle_stalled_run_def bindE_Inr_iff)
    from register_thread_effect [OF register distinct_tables(1) [OF sound]] obtain rows
      where d1: "d1 = d\<lparr>ld_threads := rows\<rparr>" and rows: "threads_kept (ld_threads d) rows" by blast
    note ok1 = progress_threads [OF ok rows, folded d1]
    have verdict: "stalled_verdict env run d1 = (MO_FAILED, RA_RETRY, le_failed_text env)"
      using ok1 run by (intro stalled_verdict_failed) (simp_all add: reliability_ok_def tables_sound_def d1)
    from settled ids register verdict obtain d2 message_id
      where d2: "append_message thread_id (rn_id run) message_id MR_ASSISTANT (le_failed_text env) (le_now env) d1 = Inr d2"
        and publish: "publish_result (\<lambda>e. e) env (stalled_command run thread_id user_id (le_failed_text env)
          MO_FAILED RA_RETRY ''STALLED_RUN_RECONCILED'') run d2 = Inr d'"
      by (auto simp: settle_stalled_run_def bindE_Inr_iff)
    have "numbered_messages (ld_messages d1)" using ok1 by (simp add: reliability_ok_def tables_sound_def)
    from append_message_effect [OF d2 this] obtain new
      where d2_eq: "d2 = d1\<lparr>ld_messages := ld_messages d1 @ new\<rparr>"
        and new: "numbered_messages (ld_messages d1 @ new)" "\<forall>m \<in> set new. mg_run_id m = rn_id run"
      by blast
    have "tables_sound d1" using ok1 by (simp add: reliability_ok_def)
    note step2 = tables_sound_messages [OF this new(1), folded d2_eq]
    have trace: "ld_trace d2 = ld_trace d" by (simp add: d2_eq d1)
    from publish_stalled [OF publish] run distinct_tables(2) [OF conjunct1 [OF step2]] obtain t
      where d': "d' = d2\<lparr>ld_trace := t\<rparr>" and kept: "runs_kept (td_runs (ld_trace d2)) (td_runs t)"
        and closed: "run_closed (rn_id run) t" "failed_safely (rn_id run) t"
        and others: "\<forall>r \<in> set (td_runs (ld_trace d)). rn_id r \<noteq> rn_id run \<longrightarrow> r \<in> set (td_runs t)"
      unfolding trace by auto
    note step3 = tables_sound_trace [OF conjunct1 [OF step2] kept, folded d']
    have "tables_sound d' \<and> records_kept d1 d'" using step2 step3 by (meson records_kept_trans)
    then have "reliability_ok d' \<and> records_kept d1 d'"
    proof (rule progressI [OF conjunct1 [OF ok1], of _ "{rn_id run}"])
      show "run_closed i (ld_trace d')" if "i \<in> {rn_id run}" for i
        using that closed(1) by (simp add: d')
      show "m \<in> set (ld_messages d1) \<or> mg_run_id m \<in> {rn_id run}" if "m \<in> set (ld_messages d')" for m
        using that new(2) by (auto simp: d' d2_eq)
      show "i \<in> {rn_id run} \<or> (\<exists>y \<in> set (ld_cases d1). hc_source_run_id y = Some i)"
        if "c \<in> set (ld_cases d')" "hc_source_run_id c = Some i" for c i
        using that by (auto simp: d' d2_eq)
    qed
    then show ?thesis using ok1 closed(2) others by (auto simp: d' intro: records_kept_trans)
  qed
qed

lemma settle_stalled_runs_progress:
  assumes "settle_stalled_runs env runs d = Inr d'" and "reliability_ok d" and "distinct (map rn_id runs)"
    and "\<forall>run \<in> set runs. run \<in> set (td_runs (ld_trace d)) \<and> rn_status run = AR_RUNNING"
  shows "reliability_ok d' \<and> records_kept d d' \<and> (\<forall>run \<in> set runs. failed_safely (rn_id run) (ld_trace d'))"
  using assms
proof (induction runs arbitrary: d)
  case (Cons run runs)
  then obtain d1 where d1: "settle_stalled_run env run d = Inr d1" and rest: "settle_stalled_runs env runs d1 = Inr d'"
    by (auto simp: bindE_Inr_iff)
  have step: "reliability_ok d1 \<and> records_kept d d1 \<and> failed_safely (rn_id run) (ld_trace d1) \<and>
      (\<forall>r \<in> set (td_runs (ld_trace d)). rn_id r \<noteq> rn_id run \<longrightarrow> r \<in> set (td_runs (ld_trace d1)))"
    using settle_stalled_run_progress [OF d1] Cons.prems by simp
  have "rn_id r \<noteq> rn_id run" if "r \<in> set runs" for r
    using Cons.prems(3) imageI [OF that, of rn_id] by (simp del: image_eqI) metis
  then have "\<forall>r \<in> set runs. r \<in> set (td_runs (ld_trace d1)) \<and> rn_status r = AR_RUNNING"
    using Cons.prems(4) step by simp
  then have later: "reliability_ok d' \<and> records_kept d1 d' \<and> (\<forall>r \<in> set runs. failed_safely (rn_id r) (ld_trace d'))"
    using Cons.IH [OF rest] step Cons.prems(3) by simp
  then have "failed_safely (rn_id run) (ld_trace d')"
    using step failed_safely_kept by (auto simp: records_kept_def)
  then show ?case using later step by (auto intro: records_kept_trans)
qed simp

lemma stalled_runs_set:
  "set (stalled_runs locked threshold limit t) \<subseteq> {r \<in> set (td_runs t). rn_status r = AR_RUNNING \<and>
     rn_started_at r < threshold \<and> rn_id r \<notin> locked}"
  unfolding stalled_runs_def by (auto dest: in_set_takeD)

lemma stalled_runs_distinct:
  assumes "distinct (map rn_id (td_runs t))"
  shows "distinct (map rn_id (stalled_runs locked threshold limit t))"
proof -
  let ?p = "\<lambda>r. rn_status r = AR_RUNNING \<and> rn_started_at r < threshold \<and> rn_id r \<notin> locked"
  have "distinct (map rn_id (sort_key rn_started_at (filter ?p (td_runs t))))"
    using assms by (auto simp: distinct_map inj_on_def)
  then show ?thesis by (simp add: stalled_runs_def take_map [symmetric])
qed

lemma reconcile_stalled_runs_progress:
  assumes "reconcile_stalled_runs env locked older_than limit d = Inr (n, d')" and "reliability_ok d"
  shows "reliability_ok d' \<and> records_kept d d'"
proof -
  from assms(1) obtain threshold where settled: "settle_stalled_runs env
      (stalled_runs locked threshold (nat limit) (ld_trace d)) d = Inr d'"
    by (auto simp: reconcile_stalled_runs_def Let_def bindE_Inr_iff split: if_splits)
  have "distinct (map rn_id (td_runs (ld_trace d)))"
    using assms(2) by (simp add: reliability_ok_def tables_sound_def)
  from settle_stalled_runs_progress [OF settled assms(2) stalled_runs_distinct [OF this]] show ?thesis
    using stalled_runs_set by blast
qed

lemma reliability_step_progress:
  assumes "reliability_step d d'" and ok: "reliability_ok d"
  shows "reliability_ok d' \<and> records_kept d d'"
proof -
  have sound: "tables_sound d" using ok by (simp add: reliability_ok_def)
  note distinct = distinct_tables [OF sound]
  from assms(1) show ?thesis
  proof cases
    case start
    then show ?thesis using progress_trace [OF ok start_run_kept] by simp
  next
    case append
    then show ?thesis using progress_trace [OF ok append_trace_event_kept] distinct(2) by blast
  next
    case finish
    then show ?thesis using progress_trace [OF ok finish_run_kept] distinct(2) by blast
  next
    case register
    then show ?thesis using progress_threads [OF ok] register_thread_effect [OF _ distinct(1)] by blast
  next
    case finalize
    then obtain env command review where "finalize_run env command d = Inr (review, d')"
      by (auto simp: finalize_once_def bindE_Inr_iff split: if_splits)
    then show ?thesis using finalize_run_progress ok by blast
  next
    case lifecycle
    then show ?thesis using progress_threads [OF ok] set_thread_lifecycle_effect [OF _ distinct(1)] by blast
  next
    case review
    have "reviews_ok d" using sound by (simp add: tables_sound_def)
    note effect = transition_human_review_effect [OF review this]
    then have "tables_sound d' \<and> records_kept d d'" using sound by (intro tables_sound_reviews) simp_all
    then show ?thesis
      by (rule progressI [OF ok, of _ "{}"]) (use effect in \<open>auto, metis\<close>)
  next
    case stalled
    then show ?thesis using reconcile_stalled_runs_progress ok by blast
  qed
qed

lemma empty_reliability_ok: "reliability_ok (empty_reliability users properties tickets)"
  by (simp add: reliability_ok_def tables_sound_def empty_reliability_def answers_closed_def
      numbered_messages_def thread_messages_def reviews_ok_def audited_def one_active_review_def)

lemma reliability_steps_progress:
  "reliability_step\<^sup>*\<^sup>* d d' \<Longrightarrow> reliability_ok d \<Longrightarrow> reliability_ok d' \<and> records_kept d d'"
proof (induction rule: rtranclp_induct)
  case (step d1 d2)
  then show ?case using reliability_step_progress records_kept_trans by blast
qed simp

lemma reliability_reachable_ok: "reliability_reachable d \<Longrightarrow> reliability_ok d"
  using reliability_steps_progress empty_reliability_ok by (auto simp: reliability_reachable_def)

lemma reliability_reachable_step: "reliability_reachable d \<Longrightarrow> reliability_step d d' \<Longrightarrow> reliability_reachable d'"
  unfolding reliability_reachable_def by (meson rtranclp.rtrancl_into_rtrancl)

end
