(* ===== verification/ReliabilityHistory.thy ===== *)
theory ReliabilityHistory
  imports ReliabilityFacts Outbox
begin

text \<open>
  What holds of the durable side of agent runs in every reachable state, and where the code falls
  short of it: a repeated escalation is lost, events of review cases are refused by the outbox
  projector, and one run in conflict with its thread blocks the repair of all stalled runs.
\<close>

section \<open>Review cases\<close>

lemma replay_numbers:
  "replay_log (s, v) log = Some (s', v') \<Longrightarrow>
   v' = v + int (length log) \<and> map (\<lambda>(f, t, b, a). a) log = map (\<lambda>i. v + int i) [1..<Suc (length log)]"
proof (induction log arbitrary: s v)
  case (Cons e log)
  obtain f t b a where e: "e = (f, t, b, a)" by (cases e)
  have shift: "[Suc 0..<Suc (Suc n)] = Suc 0 # map Suc [Suc 0..<Suc n]" for n
    by (simp only: map_Suc_upt) (simp only: upt_conv_Cons [of "Suc 0" "Suc (Suc n)"] Suc_less_eq zero_less_Suc)
  from Cons.prems e have "replay_log (Some t, v + 1) log = Some (s', v')" and a: "a = v + 1"
    by (simp_all split: if_splits)
  from Cons.IH [OF this(1)] show ?case by (simp add: e a shift del: upt_Suc)
qed simp

definition case_log :: "uuid \<Rightarrow> ReliabilityDb \<Rightarrow> ReviewEvent list" where
  "case_log case_id d = filter (\<lambda>e. he_case_id e = case_id) (ld_case_events d)"

text \<open>C21: human review cases, whatever runs, operators and repairs do. The events of a case are
  numbered 1, 2, 3, \<open>\<dots>\<close> up to its version; they begin with its creation as OPEN, each further one is
  a step of an operator along the allowed transitions, and they replay to the status of the row; an
  operator is assigned while the case is CLAIMED, not while it is OPEN; a time of resolution is set
  exactly once it is RESOLVED or DISMISSED; and no two active cases have the same dedupe key.\<close>

theorem review_cases_sound:
  assumes "reliability_reachable d" and "c \<in> set (ld_cases d)"
  shows "map he_sequence_no (case_log (hc_id c) d) = map int [1..<Suc (nat (hc_version c))] \<and>
    replay_log (None, 0) (map review_log_entry (case_log (hc_id c) d)) =
      Some (Some (hc_status c), hc_version c) \<and>
    (\<forall>e \<in> set (case_log (hc_id c) d). case he_from_status e of
       None \<Rightarrow> he_to_status e = HR_OPEN \<and> he_action e = ''CREATED''
     | Some s \<Rightarrow> he_to_status e \<in> allowed_review s \<and> he_action e = transition_action (he_to_status e) \<and>
         he_actor_type e = ACT_OPERATOR) \<and>
    (hc_status c = HR_OPEN \<longrightarrow> hc_assigned_operator_id c = None) \<and>
    (hc_status c = HR_CLAIMED \<longrightarrow> hc_assigned_operator_id c \<noteq> None) \<and>
    (hc_resolved_at c \<noteq> None \<longleftrightarrow> hc_status c \<in> {HR_RESOLVED, HR_DISMISSED}) \<and>
    (\<forall>c' \<in> set (ld_cases d). hc_status c \<in> active_review_statuses \<longrightarrow>
       hc_status c' \<in> active_review_statuses \<longrightarrow> hc_dedupe_key c = hc_dedupe_key c' \<longrightarrow> c = c')"
proof -
  have ok: "reviews_ok d"
    using reliability_reachable_ok [OF assms(1)] by (simp add: reliability_ok_def tables_sound_def)
  then have replay: "replay_log (None, 0) (map review_log_entry (case_log (hc_id c) d)) =
      Some (Some (hc_status c), hc_version c)"
    using assms(2) by (simp add: reviews_ok_def audited_def log_of_def case_log_def)
  have events: "review_event_ok e" if "e \<in> set (case_log (hc_id c) d)" for e
    using ok that by (simp add: reviews_ok_def case_log_def)
  have "map he_sequence_no (case_log (hc_id c) d) =
      map (\<lambda>(f, t, b, a). a) (map review_log_entry (case_log (hc_id c) d))"
    using events by (simp add: review_log_entry_def review_event_ok_def)
  also have "\<dots> = map int [1..<Suc (nat (hc_version c))]"
    using replay_numbers [OF replay] by simp
  finally have numbers: "map he_sequence_no (case_log (hc_id c) d) = map int [1..<Suc (nat (hc_version c))]" .
  have columns: "review_columns_ok c" and one: "one_active_review (ld_cases d)"
    using ok assms(2) by (simp_all add: reviews_ok_def)
  have "(hc_status c \<notin> active_review_statuses) = (hc_status c \<in> {HR_RESOLVED, HR_DISMISSED})"
    by (cases "hc_status c") (simp_all add: active_review_statuses_def)
  with columns have fields: "hc_status c = HR_OPEN \<longrightarrow> hc_assigned_operator_id c = None"
    "hc_status c = HR_CLAIMED \<longrightarrow> hc_assigned_operator_id c \<noteq> None"
    "hc_resolved_at c \<noteq> None \<longleftrightarrow> hc_status c \<in> {HR_RESOLVED, HR_DISMISSED}"
    by (simp_all add: review_columns_ok_def)
  have steps: "case he_from_status e of
       None \<Rightarrow> he_to_status e = HR_OPEN \<and> he_action e = ''CREATED''
     | Some s \<Rightarrow> he_to_status e \<in> allowed_review s \<and> he_action e = transition_action (he_to_status e) \<and>
         he_actor_type e = ACT_OPERATOR" if "e \<in> set (case_log (hc_id c) d)" for e
    using events [OF that] by (simp add: review_event_ok_def split: option.splits)
  have "c = c'" if "c' \<in> set (ld_cases d)" "hc_status c \<in> active_review_statuses"
    "hc_status c' \<in> active_review_statuses" "hc_dedupe_key c = hc_dedupe_key c'" for c'
    using one assms(2) that unfolding one_active_review_def by blast
  then show ?thesis
    using numbers replay fields steps by (intro conjI ballI impI) (assumption | erule (1) mp)+
qed

section \<open>Final records\<close>

text \<open>C22: what is settled stays settled. Whatever transactions follow, a finished run keeps its row,
  with its public result, except for the number of its last event; a RESOLVED or DISMISSED case keeps
  its row; a thread keeps its owner, its property once known, and stays DELETED; and messages are
  only added.\<close>

theorem settled_records_final:
  assumes "reliability_reachable d" and "reliability_step\<^sup>*\<^sup>* d d'"
  shows "(\<forall>r \<in> set (td_runs (ld_trace d)). rn_status r \<noteq> AR_RUNNING \<longrightarrow>
      (\<exists>n. r\<lparr>rn_last_sequence := n\<rparr> \<in> set (td_runs (ld_trace d')))) \<and>
    (\<forall>c \<in> set (ld_cases d). hc_status c \<in> {HR_RESOLVED, HR_DISMISSED} \<longrightarrow> c \<in> set (ld_cases d')) \<and>
    (\<forall>r \<in> set (ld_threads d). \<exists>r' \<in> set (ld_threads d'). th_thread_id r' = th_thread_id r \<and>
      th_resident_id r' = th_resident_id r \<and>
      (th_property_id r \<noteq> None \<longrightarrow> th_property_id r' = th_property_id r) \<and>
      (th_lifecycle r = TL_DELETED \<longrightarrow> th_lifecycle r' = TL_DELETED)) \<and>
    (\<exists>new. ld_messages d' = ld_messages d @ new)"
proof -
  have kept: "records_kept d d'"
    using reliability_steps_progress [OF assms(2)] reliability_reachable_ok [OF assms(1)] by blast
  have "\<exists>n. r\<lparr>rn_last_sequence := n\<rparr> \<in> set (td_runs (ld_trace d'))"
    if "r \<in> set (td_runs (ld_trace d))" "rn_status r \<noteq> AR_RUNNING" for r
    using kept that unfolding records_kept_def runs_kept_def run_kept_def by metis
  moreover have "c \<in> set (ld_cases d')"
    if "c \<in> set (ld_cases d)" "hc_status c \<in> {HR_RESOLVED, HR_DISMISSED}" for c
    using kept that by (auto simp: records_kept_def closed_reviews_kept_def active_review_statuses_def)
  moreover have "\<exists>r' \<in> set (ld_threads d'). thread_kept r r'" if "r \<in> set (ld_threads d)" for r
    using kept that by (simp add: records_kept_def threads_kept_def)
  then have "\<exists>r' \<in> set (ld_threads d'). th_thread_id r' = th_thread_id r \<and>
      th_resident_id r' = th_resident_id r \<and>
      (th_property_id r \<noteq> None \<longrightarrow> th_property_id r' = th_property_id r) \<and>
      (th_lifecycle r = TL_DELETED \<longrightarrow> th_lifecycle r' = TL_DELETED)" if "r \<in> set (ld_threads d)" for r
    using that unfolding thread_kept_def by blast
  moreover have "\<exists>new. ld_messages d' = ld_messages d @ new" using kept by (simp add: records_kept_def)
  ultimately show ?thesis by blast
qed

text \<open>Conversations. In every reachable state the messages of a thread are numbered 1, 2, 3,
  \<open>\<dots>\<close> in the order of their insertion, a run has at most one message of the user and one answer,
  and only finished runs have an answer.\<close>

lemma conversations_numbered:
  assumes "reliability_reachable d"
  shows "map mg_sequence_no (thread_messages thread_id (ld_messages d)) =
      map int [1..<Suc (length (thread_messages thread_id (ld_messages d)))] \<and>
    distinct (map (\<lambda>m. (mg_run_id m, mg_role m)) (ld_messages d)) \<and>
    (\<forall>m \<in> set (ld_messages d). mg_role m = MR_ASSISTANT \<longrightarrow>
      (\<exists>r \<in> set (td_runs (ld_trace d)). rn_id r = mg_run_id m \<and> rn_message_outcome r \<noteq> None))"
proof -
  have ok: "tables_sound d" "answers_closed d"
    using reliability_reachable_ok [OF assms] by (simp_all add: reliability_ok_def)
  have "\<exists>r \<in> set (td_runs (ld_trace d)). rn_id r = mg_run_id m \<and> rn_message_outcome r \<noteq> None"
    if "m \<in> set (ld_messages d)" "mg_role m = MR_ASSISTANT" for m
    using ok that unfolding answers_closed_def run_closed_def tables_sound_def run_sound_def by metis
  then show ?thesis using ok(1) by (auto simp: tables_sound_def numbered_messages_def)
qed

section \<open>Stalled runs\<close>

text \<open>C23: the repair of stalled runs. In a reachable state no running run has an answer or a review
  case, so every run that a successful scan picks is answered as FAILED with the action RETRY,
  never as COMPLETED or ESCALATED, and is not running any more; the scan reports how many it picked.\<close>

theorem stalled_runs_fail_safely:
  assumes "reliability_reachable d"
    and "reconcile_stalled_runs env locked older_than limit d = Inr (n, d')"
  shows "n = length (stalled_runs locked (le_now env - older_than * 1000000) (nat limit) (ld_trace d)) \<and>
    (\<forall>run \<in> set (stalled_runs locked (le_now env - older_than * 1000000) (nat limit) (ld_trace d)).
       \<exists>r \<in> set (td_runs (ld_trace d')). rn_id r = rn_id run \<and> rn_status r \<noteq> AR_RUNNING \<and>
         rn_message_outcome r = Some MO_FAILED \<and> rn_required_user_action r = RA_RETRY)"
proof -
  let ?picked = "stalled_runs locked (le_now env - older_than * 1000000) (nat limit) (ld_trace d)"
  have ok: "reliability_ok d" using reliability_reachable_ok [OF assms(1)] .
  from assms(2) have settled: "settle_stalled_runs env ?picked d = Inr d'" and n: "n = length ?picked"
    by (auto simp: reconcile_stalled_runs_def Let_def bindE_Inr_iff split: if_splits)
  have "distinct (map rn_id (td_runs (ld_trace d)))" using ok by (simp add: reliability_ok_def tables_sound_def)
  from settle_stalled_runs_progress [OF settled ok stalled_runs_distinct [OF this]]
  have "failed_safely (rn_id run) (ld_trace d')" if "run \<in> set ?picked" for run
    using that stalled_runs_set by blast
  then show ?thesis using n unfolding failed_safely_def failed_result_def by blast
qed

text \<open>One run can block the repair. When a picked run disagrees with its thread, because the thread
  has another owner or another property, the scan fails as a whole: its transaction is rolled back
  and no stalled run is repaired, at any time, as long as that run is among the picked ones.\<close>

lemma conflicting_run_blocks_repair:
  assumes "reliability_reachable d"
    and "run \<in> set (stalled_runs locked (le_now env - older_than * 1000000) (nat limit) (ld_trace d))"
    and "rn_thread_id run = Some thread_id" and "rn_user_id run = Some user_id"
    and "find_thread thread_id d = Some thread"
    and "thread_conflict user_id (rn_property_id run) thread \<noteq> None"
  shows "\<exists>e. reconcile_stalled_runs env locked older_than limit d = Inl e"
proof -
  have blocked: "\<exists>e. settle_stalled_runs env runs d1 = Inl e"
    if "reliability_ok d1" "distinct (map rn_id runs)" "run \<in> set runs"
      "\<forall>r \<in> set runs. r \<in> set (td_runs (ld_trace d1)) \<and> rn_status r = AR_RUNNING"
      "\<exists>r \<in> set (ld_threads d1). th_thread_id r = thread_id \<and> thread_conflict user_id (rn_property_id run) r \<noteq> None"
    for runs d1
    using that
  proof (induction runs arbitrary: d1)
    case (Cons r runs)
    show ?case
    proof (cases "settle_stalled_run env r d1")
      case (Inr d2)
      have sound: "reliability_ok d2 \<and> records_kept d1 d2 \<and>
          (\<forall>x \<in> set (td_runs (ld_trace d1)). rn_id x \<noteq> rn_id r \<longrightarrow> x \<in> set (td_runs (ld_trace d2)))"
        using settle_stalled_run_progress [OF Inr] Cons.prems by simp
      obtain x where x: "x \<in> set (ld_threads d1)" "th_thread_id x = thread_id"
        "thread_conflict user_id (rn_property_id run) x \<noteq> None"
        using Cons.prems(5) by blast
      have "r \<noteq> run"
      proof
        assume "r = run"
        have "distinct (map th_thread_id (ld_threads d1))"
          using Cons.prems(1) by (simp add: reliability_ok_def tables_sound_def)
        then have "find_thread thread_id d1 = Some x"
          using x(1,2) find_distinct_key by (fastforce simp: find_thread_def)
        then have "settle_stalled_run env run d1 \<noteq> Inr d2"
          using x(3) assms(3,4) by (auto simp: settle_stalled_run_def register_thread_def)
        with Inr \<open>r = run\<close> show False by simp
      qed
      obtain y where y: "y \<in> set (ld_threads d2)" "thread_kept x y"
        using sound x(1) by (auto simp: records_kept_def threads_kept_def)
      then have "thread_conflict user_id (rn_property_id run) y \<noteq> None"
        using x(3) by (auto simp: thread_kept_def thread_conflict_def split: if_splits)
      then have "\<exists>y \<in> set (ld_threads d2). th_thread_id y = thread_id \<and>
          thread_conflict user_id (rn_property_id run) y \<noteq> None"
        using y x(2) by (auto simp: thread_kept_def)
      moreover have "\<forall>z \<in> set runs. z \<in> set (td_runs (ld_trace d2)) \<and> rn_status z = AR_RUNNING"
        using Cons.prems(2,4) sound by (auto simp: image_iff)
      ultimately have "\<exists>e. settle_stalled_runs env runs d2 = Inl e"
        using Cons.IH [of d2] Cons.prems(2,3) sound \<open>r \<noteq> run\<close> by simp
      then show ?thesis using Inr by simp
    qed simp
  qed simp
  have ok: "reliability_ok d" using reliability_reachable_ok [OF assms(1)] .
  have "distinct (map rn_id (td_runs (ld_trace d)))" using ok by (simp add: reliability_ok_def tables_sound_def)
  note picked = stalled_runs_distinct [OF this]
  have "\<exists>e. settle_stalled_runs env
      (stalled_runs locked (le_now env - older_than * 1000000) (nat limit) (ld_trace d)) d = Inl e"
    using find_thread_Some [OF assms(5)] assms(6) stalled_runs_set
    by (intro blocked [OF ok picked assms(2)]) blast+
  then show ?thesis by (auto simp: reconcile_stalled_runs_def Let_def)
qed

section \<open>Events of review cases\<close>

text \<open>No event of a review case is ever delivered. Every outbox row that the reliability
  repository writes, in whatever state, has a type that the projector does not know, so consuming it
  raises UnsupportedOutboxEvent before anything else.\<close>

lemma review_events_unsupported:
  assumes "reliability_reachable d" and "x \<in> set (ld_outbox d)"
  shows "lookup_event_type (rx_event_type x) =
    Inl (Exn UnsupportedOutboxEvent (''unsupported event type: '' @ rx_event_type x) [])"
proof -
  have "review_outbox_ok x"
    using reliability_reachable_ok [OF assms(1)] assms(2)
    by (simp add: reliability_ok_def tables_sound_def reviews_ok_def)
  then show ?thesis by (auto simp: review_outbox_ok_def lookup_event_type_def)
qed

section \<open>A story of one thread\<close>

text \<open>Resident 1 talks in thread 5; operator 9 handles the review case; properties 2 and 3 exist.
  Texts serve as their own digests; a UUID made from a text tells the last digit of the run in it.\<close>

definition story_env :: "timestamp \<Rightarrow> ReliabilityEnv" where
  "story_env now = \<lparr>le_now = now, le_sha256 = (\<lambda>s. s),
     le_uuid5_url = (\<lambda>s. of_char (s ! 51)),
     le_case_id = (\<lambda>cases. 3 + length cases), le_event_id = (\<lambda>t. length (td_events t)),
     le_escalated_text = ''escalated'', le_failed_text = ''failed''\<rparr>"

definition story_run :: "uuid \<Rightarrow> uuid option \<Rightarrow> StartRun" where
  "story_run run_id property_id = \<lparr>sr_run_id = run_id, sr_thread_id = Some 5, sr_trace_id = run_id,
     sr_trigger = RT_MESSAGE, sr_actor_type = ''RESIDENT'', sr_actor_id = 1, sr_user_id = Some 1,
     sr_property_id = property_id, sr_initial_intent_version = None, sr_started_at = int run_id\<rparr>"

definition begin_run :: "uuid \<Rightarrow> uuid option \<Rightarrow> ReliabilityDb \<Rightarrow> ReliabilityDb outcome" where
  "begin_run run_id property_id d =
     bindE (start_run demo_runtime (length (td_events (ld_trace d))) (story_run run_id property_id) (ld_trace d))
     (\<lambda>(_, t). Inr (d\<lparr>ld_trace := t\<rparr>))"

definition story_result :: "uuid \<Rightarrow> FinalizeAgentRun" where
  "story_result run_id = \<lparr>fa_run_id = run_id, fa_thread_id = 5, fa_trace_id = run_id,
     fa_resident_id = 1, fa_property_id = Some 2, fa_intent_version = 1,
     fa_user_message_id = Some run_id, fa_user_message = Some ''help'', fa_user_message_created_at = None,
     fa_assistant_message = ''an operator will answer'', fa_outcome = MO_ESCALATED,
     fa_required_user_action = RA_CONTACT_OPERATOR, fa_agent_run_status = ''FAILED_SAFE'',
     fa_terminal_event_type = ''run_failed_safe'', fa_message_event_type = ''message.escalated'',
     fa_error_code = Some ''PROVIDER_EXHAUSTED'', fa_failure_stage = Some FS_INTERPRETATION,
     fa_reason_code = Some ''PROVIDER_EXHAUSTED'', fa_safety_level = SL_STANDARD,
     fa_active_ticket_id = None\<rparr>"

definition story_transition :: "int \<Rightarrow> review_status \<Rightarrow> HumanReviewTransition" where
  "story_transition version target = \<lparr>hx_case_id = 3, hx_actor_type = ACT_OPERATOR, hx_actor_id = 9,
     hx_trace_id = 4, hx_expected_version = version, hx_target_status = target,
     hx_resolution_code = Some ''ANSWERED'', hx_resolution_note = None\<rparr>"

text \<open>Two runs escalate about the same intent; the second finds the case of the first.\<close>

definition story_escalated :: "ReliabilityDb outcome" where
  "story_escalated =
     bindE (register_thread (story_env 1) 5 1 None (empty_reliability {1, 9} {2, 3} {}))
     (\<lambda>(_, d). bindE (begin_run 10 None d)
     (\<lambda>d. bindE (finalize_once (story_env 20) (story_result 10) d)
     (\<lambda>(_, d). begin_run 11 None d)))"

definition story_settled :: "ReliabilityDb \<Rightarrow> ReliabilityDb outcome" where
  "story_settled d =
     bindE (transition_human_review (story_env 40) (story_transition 1 HR_CLAIMED) d)
     (\<lambda>(_, d). bindE (transition_human_review (story_env 50) (story_transition 2 HR_RESOLVED) d)
     (\<lambda>(_, d). begin_run 12 None d))"

lemma begin_run_step: "begin_run run_id property_id d = Inr d' \<Longrightarrow> reliability_step d d'"
  by (auto simp: begin_run_def bindE_Inr_iff intro: reliability_step.start)

lemma story_escalated_reachable: "story_escalated = Inr d \<Longrightarrow> reliability_reachable d"
proof -
  assume "story_escalated = Inr d"
  then obtain r d1 d2 c d3
    where steps: "register_thread (story_env 1) 5 1 None (empty_reliability {1, 9} {2, 3} {}) = Inr (r, d1)"
      "begin_run 10 None d1 = Inr d2" "finalize_once (story_env 20) (story_result 10) d2 = Inr (c, d3)"
      "begin_run 11 None d3 = Inr d"
    by (auto simp: story_escalated_def bindE_Inr_iff)
  have "reliability_reachable (empty_reliability {1, 9} {2, 3} {})"
    unfolding reliability_reachable_def by blast
  then show ?thesis
    using steps by (meson begin_run_step reliability_step.register reliability_step.finalize
        reliability_reachable_step)
qed

lemma story_settled_reachable:
  "story_settled d = Inr d' \<Longrightarrow> reliability_reachable d \<Longrightarrow> reliability_reachable d'"
  by (auto simp: story_settled_def bindE_Inr_iff)
    (meson begin_run_step reliability_step.review reliability_reachable_step)

definition escalates_again :: bool where
  "escalates_again \<longleftrightarrow> (case story_escalated of Inl _ \<Rightarrow> False | Inr d0 \<Rightarrow>
     (case finalize_once (story_env 30) (story_result 11) d0 of Inl _ \<Rightarrow> False
      | Inr answer \<Rightarrow> (case fst answer of None \<Rightarrow> False | Some c \<Rightarrow>
          hc_source_run_id c \<noteq> Some 11 \<and>
          list_ex (\<lambda>x. hc_id x = hc_id c \<and> hc_status x = HR_OPEN) (ld_cases (snd answer)) \<and>
          (case finalize_once (story_env 31) (story_result 11) (snd answer) of Inr _ \<Rightarrow> False
           | Inl e \<Rightarrow> exn_class e = HumanReviewPersistenceFailed))))"

lemma escalates_again: escalates_again
  by code_simp

text \<open>A repeated escalation is lost. There is a reachable state in which \<open>finalize_run\<close> of an
  escalated run succeeds, with the active case that another run opened for the same intent, and the
  same command sent once more fails with HumanReviewPersistenceFailed, although the case is active
  and the run has its public result: the replay looks for a case whose source is the run itself.\<close>

lemma repeated_escalation_lost:
  "\<exists>d0 d1 c e. reliability_reachable d0 \<and>
     finalize_once (story_env 30) (story_result 11) d0 = Inr (Some c, d1) \<and>
     hc_source_run_id c \<noteq> Some 11 \<and>
     (\<exists>x \<in> set (ld_cases d1). hc_id x = hc_id c \<and> hc_status x = HR_OPEN) \<and>
     finalize_once (story_env 31) (story_result 11) d1 = Inl e \<and>
     exn_class e = HumanReviewPersistenceFailed"
proof -
  obtain d0 where d0: "story_escalated = Inr d0"
    using escalates_again by (auto simp: escalates_again_def split: sum.splits)
  obtain x d1 where first: "finalize_once (story_env 30) (story_result 11) d0 = Inr (x, d1)"
    using escalates_again by (auto simp: escalates_again_def d0 split: sum.splits)
  obtain c where c: "x = Some c"
    using escalates_again by (auto simp: escalates_again_def d0 first split: option.splits)
  obtain e where second: "finalize_once (story_env 31) (story_result 11) d1 = Inl e"
    using escalates_again by (auto simp: escalates_again_def d0 first c split: sum.splits)
  show ?thesis
    using escalates_again first second story_escalated_reachable [OF d0]
    by (auto simp: escalates_again_def d0 c list_ex_iff)
qed

text \<open>What the story shows, as one evaluation: the states after the escalations, after the case was
  resolved, after the repair of the last run, and with a run that disagrees with the thread.\<close>

definition story_shows :: bool where
  "story_shows \<longleftrightarrow> (case story_escalated of Inl _ \<Rightarrow> False | Inr d0 \<Rightarrow>
     (case story_settled d0 of Inl _ \<Rightarrow> False | Inr d1 \<Rightarrow>
       map hc_status (ld_cases d1) = [HR_RESOLVED] \<and> length (ld_messages d1) = 2 \<and>
       map rx_event_type (ld_outbox d1) =
         [''HUMAN_REVIEW_OPENED'', ''HUMAN_REVIEW_CLAIMED'', ''HUMAN_REVIEW_RESOLVED''] \<and>
       (case begin_run 13 (Some 3) d1 of Inl _ \<Rightarrow> False | Inr d2 \<Rightarrow>
         list_ex (\<lambda>r. rn_thread_id r = Some 5 \<and> rn_user_id r = Some 1 \<and>
            (case find_thread 5 d2 of None \<Rightarrow> False
             | Some thread \<Rightarrow> thread_conflict 1 (rn_property_id r) thread \<noteq> None))
           (stalled_runs {} 80 5 (ld_trace d2))) \<and>
       (case reconcile_stalled_runs (story_env 200000000) {} 120 5 d1 of Inl _ \<Rightarrow> False
        | Inr (n, d2) \<Rightarrow> n = 2)))"

lemma story_shows: story_shows
  by code_simp

definition story_after :: ReliabilityDb where
  "story_after = projr (story_settled (projr story_escalated))"

definition story_blocked :: ReliabilityDb where
  "story_blocked = projr (begin_run 13 (Some 3) story_after)"

lemma story_facts:
  "reliability_reachable story_after" "reliability_step story_after story_blocked"
  "map hc_status (ld_cases story_after) = [HR_RESOLVED]" "length (ld_messages story_after) = 2"
  "map rx_event_type (ld_outbox story_after) =
     [''HUMAN_REVIEW_OPENED'', ''HUMAN_REVIEW_CLAIMED'', ''HUMAN_REVIEW_RESOLVED'']"
  "\<exists>r \<in> set (stalled_runs {} 80 5 (ld_trace story_blocked)). rn_thread_id r = Some 5 \<and>
     rn_user_id r = Some 1 \<and> (case find_thread 5 story_blocked of None \<Rightarrow> False
       | Some thread \<Rightarrow> thread_conflict 1 (rn_property_id r) thread \<noteq> None)"
  "\<exists>d. reconcile_stalled_runs (story_env 200000000) {} 120 5 story_after = Inr (2, d)"
proof -
  obtain d0 where d0: "story_escalated = Inr d0"
    using story_shows by (auto simp: story_shows_def split: sum.splits)
  obtain d1 where d1: "story_settled d0 = Inr d1"
    using story_shows by (auto simp: story_shows_def d0 split: sum.splits)
  have after: "story_after = d1" by (simp add: story_after_def d0 d1)
  obtain d2 where d2: "begin_run 13 (Some 3) d1 = Inr d2"
    using story_shows by (auto simp: story_shows_def d0 d1 split: sum.splits)
  have blocked: "story_blocked = d2" by (simp add: story_blocked_def after d2)
  obtain n d where repaired: "reconcile_stalled_runs (story_env 200000000) {} 120 5 d1 = Inr (n, d)"
    using story_shows by (auto simp: story_shows_def d0 d1 split: sum.splits)
  note told = story_shows [unfolded story_shows_def d0 sum.case d1 d2 repaired prod.case list_ex_iff]
  show "reliability_reachable story_after"
    unfolding after using story_settled_reachable [OF d1 story_escalated_reachable [OF d0]] .
  show "reliability_step story_after story_blocked" unfolding after blocked by (rule begin_run_step [OF d2])
  show "map hc_status (ld_cases story_after) = [HR_RESOLVED]" "length (ld_messages story_after) = 2"
    "map rx_event_type (ld_outbox story_after) =
     [''HUMAN_REVIEW_OPENED'', ''HUMAN_REVIEW_CLAIMED'', ''HUMAN_REVIEW_RESOLVED'']"
    unfolding after using told by - (elim conjE, assumption)+
  show "\<exists>r \<in> set (stalled_runs {} 80 5 (ld_trace story_blocked)). rn_thread_id r = Some 5 \<and>
     rn_user_id r = Some 1 \<and> (case find_thread 5 story_blocked of None \<Rightarrow> False
       | Some thread \<Rightarrow> thread_conflict 1 (rn_property_id r) thread \<noteq> None)"
    unfolding blocked using told by (elim conjE)
  show "\<exists>d. reconcile_stalled_runs (story_env 200000000) {} 120 5 story_after = Inr (2, d)"
    unfolding after using told repaired by (elim conjE) simp
qed

lemma story_case: "\<exists>c. c \<in> set (ld_cases story_after) \<and> hc_status c = HR_RESOLVED"
  using story_facts(3) by (auto simp: map_eq_Cons_conv)

text \<open>The witnesses.\<close>

theorem review_cases_sound_witness:
  "\<exists>c \<in> set (ld_cases story_after). hc_status c = HR_RESOLVED \<and> hc_resolved_at c \<noteq> None \<and>
     replay_log (None, 0) (map review_log_entry (case_log (hc_id c) story_after)) =
       Some (Some HR_RESOLVED, hc_version c)"
proof -
  obtain c where c: "c \<in> set (ld_cases story_after)" "hc_status c = HR_RESOLVED" using story_case by blast
  note sound = review_cases_sound [OF story_facts(1) c(1)]
  from sound have "replay_log (None, 0) (map review_log_entry (case_log (hc_id c) story_after)) =
      Some (Some HR_RESOLVED, hc_version c)" unfolding c(2) by (elim conjE)
  moreover from sound have "hc_resolved_at c \<noteq> None" unfolding c(2) by (elim conjE) simp
  ultimately show ?thesis using c by blast
qed

theorem settled_records_final_witness:
  "\<exists>c. c \<in> set (ld_cases story_after) \<and> hc_status c = HR_RESOLVED \<and> c \<in> set (ld_cases story_blocked)"
proof -
  obtain c where c: "c \<in> set (ld_cases story_after)" "hc_status c = HR_RESOLVED" using story_case by blast
  have "c \<in> set (ld_cases story_blocked)"
    using conjunct1 [OF conjunct2 [OF settled_records_final
        [OF story_facts(1) r_into_rtranclp [of reliability_step, OF story_facts(2)]]]] c
    by simp
  then show ?thesis using c by blast
qed


theorem stalled_runs_fail_safely_witness:
  "length (stalled_runs {} 80000000 5 (ld_trace story_after)) = 2"
proof -
  obtain d where "reconcile_stalled_runs (story_env 200000000) {} 120 5 story_after = Inr (2, d)"
    using story_facts(7) by blast
  from stalled_runs_fail_safely [OF story_facts(1) this] show ?thesis
    by (simp add: story_env_def)
qed


end
