(* ===== verification/Circuit.thy ===== *)
theory Circuit
  imports Prelude
begin

text \<open>
  The failures of language-model providers (\<open>backend/app/llm/errors.py\<close>), the time budget of a request
  (\<open>llm/online/budget.py\<close>) and the circuit breakers (\<open>llm/online/circuit.py\<close>), with the calls that
  are in flight while other requests use the same breaker. Seconds of the monotonic clock are
  microseconds here.
\<close>

section \<open>Failures of a provider\<close>

datatype llm_error_code =
  LE_AUTHENTICATION_FAILED | LE_PERMISSION_DENIED | LE_RATE_LIMITED | LE_TIMEOUT |
  LE_CONNECTION_FAILED | LE_UPSTREAM_5XX | LE_UPSTREAM_SERVER_ERROR | LE_INVALID_CONFIGURATION |
  LE_MALFORMED_RESPONSE | LE_INVALID_RESPONSE | LE_EMPTY_RESPONSE | LE_INVALID_JSON |
  LE_SCHEMA_VALIDATION_FAILED | LE_INVARIANT_VIOLATION | LE_CONTENT_POLICY_BLOCKED |
  LE_CONTENT_FILTERED | LE_CONTEXT_LENGTH_EXCEEDED | LE_REQUEST_REJECTED | LE_CANCELLED |
  LE_BUDGET_EXHAUSTED | LE_CIRCUIT_OPEN | LE_UNKNOWN_PROVIDER_ERROR

fun llm_error_code_value :: "llm_error_code \<Rightarrow> string" where
  "llm_error_code_value LE_AUTHENTICATION_FAILED = ''AUTHENTICATION_FAILED''"
| "llm_error_code_value LE_PERMISSION_DENIED = ''PERMISSION_DENIED''"
| "llm_error_code_value LE_RATE_LIMITED = ''RATE_LIMITED''"
| "llm_error_code_value LE_TIMEOUT = ''TIMEOUT''"
| "llm_error_code_value LE_CONNECTION_FAILED = ''CONNECTION_FAILED''"
| "llm_error_code_value LE_UPSTREAM_5XX = ''UPSTREAM_5XX''"
| "llm_error_code_value LE_UPSTREAM_SERVER_ERROR = ''UPSTREAM_SERVER_ERROR''"
| "llm_error_code_value LE_INVALID_CONFIGURATION = ''INVALID_CONFIGURATION''"
| "llm_error_code_value LE_MALFORMED_RESPONSE = ''MALFORMED_RESPONSE''"
| "llm_error_code_value LE_INVALID_RESPONSE = ''INVALID_RESPONSE''"
| "llm_error_code_value LE_EMPTY_RESPONSE = ''EMPTY_RESPONSE''"
| "llm_error_code_value LE_INVALID_JSON = ''INVALID_JSON''"
| "llm_error_code_value LE_SCHEMA_VALIDATION_FAILED = ''SCHEMA_VALIDATION_FAILED''"
| "llm_error_code_value LE_INVARIANT_VIOLATION = ''INVARIANT_VIOLATION''"
| "llm_error_code_value LE_CONTENT_POLICY_BLOCKED = ''CONTENT_POLICY_BLOCKED''"
| "llm_error_code_value LE_CONTENT_FILTERED = ''CONTENT_FILTERED''"
| "llm_error_code_value LE_CONTEXT_LENGTH_EXCEEDED = ''CONTEXT_LENGTH_EXCEEDED''"
| "llm_error_code_value LE_REQUEST_REJECTED = ''REQUEST_REJECTED''"
| "llm_error_code_value LE_CANCELLED = ''CANCELLED''"
| "llm_error_code_value LE_BUDGET_EXHAUSTED = ''BUDGET_EXHAUSTED''"
| "llm_error_code_value LE_CIRCUIT_OPEN = ''CIRCUIT_OPEN''"
| "llm_error_code_value LE_UNKNOWN_PROVIDER_ERROR = ''UNKNOWN_PROVIDER_ERROR''"

record LLMProviderError =
  le_code :: llm_error_code
  le_provider :: string
  le_model :: string
  le_retryable :: bool
  le_request_id :: "string option"
  le_retry_after :: "int option"
  le_attempt_count :: int
  le_safe_detail :: string
  le_cause_type :: "string option"
  le_schema_error_summary :: "string option"
  le_exhausted :: bool

text \<open>The arguments with their defaults; \<open>le_exhausted\<close> is the subclass \<open>ProviderExhaustedError\<close>.\<close>

definition provider_error ::
  "llm_error_code \<Rightarrow> string \<Rightarrow> string \<Rightarrow> bool \<Rightarrow> string \<Rightarrow> LLMProviderError" where
  "provider_error code provider model retryable safe_detail =
     \<lparr>le_code = code, le_provider = provider, le_model = model, le_retryable = retryable,
      le_request_id = None, le_retry_after = None, le_attempt_count = 1, le_safe_detail = safe_detail,
      le_cause_type = None, le_schema_error_summary = None, le_exhausted = False\<rparr>"

definition TRANSPORT_ERROR_CODES :: "llm_error_code set" where
  "TRANSPORT_ERROR_CODES =
     {LE_RATE_LIMITED, LE_TIMEOUT, LE_CONNECTION_FAILED, LE_UPSTREAM_5XX, LE_UPSTREAM_SERVER_ERROR}"

definition FAIL_FAST_ERROR_CODES :: "llm_error_code set" where
  "FAIL_FAST_ERROR_CODES =
     {LE_AUTHENTICATION_FAILED, LE_PERMISSION_DENIED, LE_INVALID_CONFIGURATION,
      LE_CONTENT_POLICY_BLOCKED, LE_REQUEST_REJECTED}"

text \<open>What a call can raise.\<close>

datatype call_error = ProviderError LLMProviderError | OtherError exn

section \<open>The budget of a request\<close>

definition seconds :: "int \<Rightarrow> int" where "seconds n = n * 1000000"

record ModelCallBudget =
  mb_total :: int
  mb_started_at :: int

definition make_budget :: "int \<Rightarrow> int \<Rightarrow> ModelCallBudget outcome" where
  "make_budget total_time now =
     (if \<not> (0 < total_time \<and> total_time \<le> seconds 25)
      then Inl (Exn PyValueError ''model call budget must be in (0, 25] seconds'' [])
      else Inr \<lparr>mb_total = total_time, mb_started_at = now\<rparr>)"

definition elapsed_seconds :: "int \<Rightarrow> ModelCallBudget \<Rightarrow> int" where
  "elapsed_seconds now budget = max 0 (now - mb_started_at budget)"

definition remaining_seconds :: "int \<Rightarrow> ModelCallBudget \<Rightarrow> int" where
  "remaining_seconds now budget = max 0 (mb_total budget - elapsed_seconds now budget)"

definition timeout_seconds ::
  "int \<Rightarrow> ModelCallBudget \<Rightarrow> string \<Rightarrow> string \<Rightarrow> int option \<Rightarrow> LLMProviderError + int" where
  "timeout_seconds now budget provider model requested =
     (let remaining = remaining_seconds now budget
      in if remaining \<le> 0
         then Inl (provider_error LE_BUDGET_EXHAUSTED provider model False ''model time budget exhausted'')
         else Inr (case requested of None \<Rightarrow> remaining | Some r \<Rightarrow> min remaining r))"

section \<open>Circuit breakers\<close>

datatype circuit_state = CS_CLOSED | CS_OPEN | CS_HALF_OPEN

fun circuit_state_value :: "circuit_state \<Rightarrow> string" where
  "circuit_state_value CS_CLOSED = ''CLOSED''"
| "circuit_state_value CS_OPEN = ''OPEN''"
| "circuit_state_value CS_HALF_OPEN = ''HALF_OPEN''"

record CircuitBreaker =
  cb_provider :: string
  cb_model :: string
  cb_threshold :: int
  cb_recovery :: int
  cb_state :: circuit_state
  cb_failures :: int
  cb_opened_at :: "int option"
  cb_half_open_call_active :: bool

definition make_circuit :: "string \<Rightarrow> string \<Rightarrow> int \<Rightarrow> int \<Rightarrow> CircuitBreaker outcome" where
  "make_circuit provider model failure_threshold recovery =
     (if failure_threshold < 1 \<or> recovery \<le> 0
      then Inl (Exn PyValueError ''invalid circuit-breaker configuration'' [])
      else Inr \<lparr>cb_provider = provider, cb_model = model, cb_threshold = failure_threshold,
        cb_recovery = recovery, cb_state = CS_CLOSED, cb_failures = 0, cb_opened_at = None,
        cb_half_open_call_active = False\<rparr>)"

definition circuit_open_error :: "CircuitBreaker \<Rightarrow> LLMProviderError" where
  "circuit_open_error c =
     provider_error LE_CIRCUIT_OPEN (cb_provider c) (cb_model c) False ''provider circuit is open''"

text \<open>The second part of \<open>before_call\<close>, once an open circuit has recovered.\<close>

definition admit_call :: "CircuitBreaker \<Rightarrow> (call_error + unit) \<times> CircuitBreaker" where
  "admit_call c =
     (if cb_state c = CS_HALF_OPEN
      then if cb_half_open_call_active c then (Inl (ProviderError (circuit_open_error c)), c)
           else (Inr (), c\<lparr>cb_half_open_call_active := True\<rparr>)
      else (Inr (), c))"

definition before_call :: "int \<Rightarrow> CircuitBreaker \<Rightarrow> (call_error + unit) \<times> CircuitBreaker" where
  "before_call now c =
     (if cb_state c = CS_OPEN
      then case cb_opened_at c of
             None \<Rightarrow> (Inl (OtherError (Exn PyAssertionError [] [])), c)
           | Some opened_at \<Rightarrow>
               if cb_recovery c \<le> now - opened_at
               then admit_call (c\<lparr>cb_state := CS_HALF_OPEN, cb_half_open_call_active := False\<rparr>)
               else (Inl (ProviderError (circuit_open_error c)), c)
      else admit_call c)"

definition record_success :: "CircuitBreaker \<Rightarrow> CircuitBreaker" where
  "record_success c = c\<lparr>cb_state := CS_CLOSED, cb_failures := 0, cb_opened_at := None,
     cb_half_open_call_active := False\<rparr>"

definition record_transport_failure :: "int \<Rightarrow> CircuitBreaker \<Rightarrow> CircuitBreaker" where
  "record_transport_failure now c =
     (let counted = c\<lparr>cb_half_open_call_active := False, cb_failures := cb_failures c + 1\<rparr>
      in if cb_state c = CS_HALF_OPEN \<or> cb_threshold c \<le> cb_failures counted
         then counted\<lparr>cb_state := CS_OPEN, cb_opened_at := Some now\<rparr>
         else counted)"

definition record_non_transport_failure :: "CircuitBreaker \<Rightarrow> CircuitBreaker" where
  "record_non_transport_failure c = c\<lparr>cb_half_open_call_active := False\<rparr>"

text \<open>The registry of a process: the first use of a provider and model fixes its breaker.\<close>

type_synonym circuit_registry = "string \<times> string \<Rightarrow> CircuitBreaker option"

definition get_circuit ::
  "string \<Rightarrow> string \<Rightarrow> int \<Rightarrow> int \<Rightarrow> circuit_registry \<Rightarrow> circuit_registry outcome" where
  "get_circuit provider model failure_threshold recovery breakers =
     (case breakers (provider, model) of
        Some _ \<Rightarrow> Inr breakers
      | None \<Rightarrow> bindE (make_circuit provider model failure_threshold recovery)
          (\<lambda>c. Inr (breakers((provider, model) := Some c))))"

section \<open>Calls in flight\<close>

text \<open>How a call leaves the breaker; \<open>Abandoned\<close> is a call that ends without a record, as when the
  budget turns out to be exhausted after \<open>before_call\<close>.\<close>

datatype call_end = Succeeded | TransportFailed | OtherwiseFailed | Abandoned

fun end_call :: "call_end \<Rightarrow> int \<Rightarrow> CircuitBreaker \<Rightarrow> CircuitBreaker" where
  "end_call Succeeded now c = record_success c"
| "end_call TransportFailed now c = record_transport_failure now c"
| "end_call OtherwiseFailed now c = record_non_transport_failure c"
| "end_call Abandoned now c = c"

text \<open>The breaker and the calls in flight, each with whether it was admitted as a probe. In an orderly
  history no call that was admitted before the circuit opened ends while a probe is under way.\<close>

inductive circuit_history ::
  "CircuitBreaker \<Rightarrow> bool \<Rightarrow> CircuitBreaker \<Rightarrow> bool list \<Rightarrow> bool" for c0 orderly where
  start: "circuit_history c0 orderly c0 []"
| call: "circuit_history c0 orderly c calls \<Longrightarrow> before_call now c = (Inr (), c') \<Longrightarrow>
    circuit_history c0 orderly c' ((cb_state c' = CS_HALF_OPEN) # calls)"
| refuse: "circuit_history c0 orderly c calls \<Longrightarrow> before_call now c = (Inl e, c') \<Longrightarrow>
    circuit_history c0 orderly c' calls"
| finish: "circuit_history c0 orderly c calls \<Longrightarrow> i < length calls \<Longrightarrow>
    (orderly \<Longrightarrow> cb_state c = CS_HALF_OPEN \<Longrightarrow> calls ! i) \<Longrightarrow>
    circuit_history c0 orderly (end_call how now c) (take i calls @ drop (Suc i) calls)"

section \<open>Properties\<close>

definition circuit_ok :: "CircuitBreaker \<Rightarrow> bool" where
  "circuit_ok c \<longleftrightarrow> (cb_state c = CS_CLOSED \<longleftrightarrow> cb_failures c < cb_threshold c) \<and>
     (cb_state c = CS_CLOSED \<longleftrightarrow> cb_opened_at c = None) \<and>
     (cb_half_open_call_active c \<longrightarrow> cb_state c = CS_HALF_OPEN) \<and> 1 \<le> cb_threshold c"

lemma make_circuit_ok: "make_circuit provider model n r = Inr c \<Longrightarrow> circuit_ok c \<and> cb_state c = CS_CLOSED"
  by (auto simp: make_circuit_def circuit_ok_def split: if_splits)

lemma before_call_ok: "circuit_ok c \<Longrightarrow> before_call now c = (r, c') \<Longrightarrow> circuit_ok c'"
  by (auto simp: before_call_def admit_call_def circuit_ok_def split: if_splits option.splits)

lemma end_call_ok: "circuit_ok c \<Longrightarrow> circuit_ok (end_call how now c)"
  by (cases how) (auto simp: record_success_def record_transport_failure_def Let_def
      record_non_transport_failure_def circuit_ok_def)

lemma circuit_history_ok: "circuit_history c0 orderly c calls \<Longrightarrow> circuit_ok c0 \<Longrightarrow> circuit_ok c"
  by (induction rule: circuit_history.induct) (auto intro: before_call_ok end_call_ok)

text \<open>The two answers of \<open>before_call\<close>.\<close>

lemma before_call_refuses: "circuit_ok c \<Longrightarrow> before_call now c = (Inl e, c') \<Longrightarrow>
    c' = c \<and> e = ProviderError (circuit_open_error c)"
  by (auto simp: before_call_def admit_call_def circuit_ok_def split: if_splits option.splits)

lemma before_call_admits: "circuit_ok c \<Longrightarrow> before_call now c = (Inr (), c') \<Longrightarrow>
    cb_state c' \<noteq> CS_OPEN \<and> (cb_state c' = CS_HALF_OPEN \<longrightarrow>
      cb_half_open_call_active c' \<and> \<not> (cb_state c = CS_HALF_OPEN \<and> cb_half_open_call_active c)) \<and>
    (cb_state c = CS_HALF_OPEN \<longrightarrow> cb_state c' = CS_HALF_OPEN)"
  by (auto simp: before_call_def admit_call_def circuit_ok_def split: if_splits option.splits)

text \<open>The breaker counts. Whatever calls begin and end, in any interleaving, the circuit is closed
  exactly while it has counted fewer consecutive transport failures than its threshold and exactly
  while it has no opening time, the probe flag is set in the half-open state only, and \<open>before_call\<close>
  admits the call or raises CIRCUIT_OPEN: its assertion never fails.\<close>

lemma circuit_counts_failures:
  assumes "make_circuit provider model threshold recovery = Inr c0"
    and "circuit_history c0 orderly c calls"
  shows "(cb_state c = CS_CLOSED \<longleftrightarrow> cb_failures c < cb_threshold c) \<and>
    (cb_state c = CS_CLOSED \<longleftrightarrow> cb_opened_at c = None) \<and>
    (cb_half_open_call_active c \<longrightarrow> cb_state c = CS_HALF_OPEN) \<and>
    (\<forall>now. fst (before_call now c) \<in> {Inr (), Inl (ProviderError (circuit_open_error c))})"
proof -
  have ok: "circuit_ok c" using circuit_history_ok [OF assms(2)] make_circuit_ok [OF assms(1)] by simp
  have "fst (before_call now c) \<in> {Inr (), Inl (ProviderError (circuit_open_error c))}" for now
    using before_call_refuses [OF ok] by (cases "before_call now c"; cases "fst (before_call now c)") auto
  then show ?thesis using ok by (auto simp: circuit_ok_def)
qed

definition probes :: "bool list \<Rightarrow> nat" where "probes calls = count_if (\<lambda>b. b) calls"

lemma probes_remove: "i < length calls \<Longrightarrow> probes (take i calls @ drop (Suc i) calls) + (if calls ! i then 1 else 0) =
    probes calls"
  by (subst (4) id_take_nth_drop [of i calls]) (simp_all add: probes_def)

lemma orderly_probes:
  "circuit_history c0 orderly c calls \<Longrightarrow> circuit_ok c0 \<Longrightarrow> orderly \<Longrightarrow>
   probes calls \<le> 1 \<and> (probes calls = 1 \<longrightarrow> cb_state c = CS_HALF_OPEN \<and> cb_half_open_call_active c)"
proof (induction rule: circuit_history.induct)
  case start
  then show ?case by (simp add: probes_def)
next
  case (call c calls now c')
  have ok: "circuit_ok c" using circuit_history_ok call.hyps(1) call.prems(1) by blast
  show ?case
    using call.IH [OF call.prems] before_call_admits [OF ok call.hyps(2)]
    by (auto simp: probes_def)
next
  case (refuse c calls now e c')
  have ok: "circuit_ok c" using circuit_history_ok refuse.hyps(1) refuse.prems(1) by blast
  show ?case using refuse.IH [OF refuse.prems] before_call_refuses [OF ok refuse.hyps(2)] by simp
next
  case (finish c calls i how now)
  then show ?case using probes_remove [OF finish.hyps(2)] by (auto split: if_splits)
qed

text \<open>One probe. In an orderly history, a circuit that recovers lets one call through and refuses
  the others until that call has ended.\<close>

lemma half_open_admits_one_probe:
  assumes "make_circuit provider model threshold recovery = Inr c0"
    and "circuit_history c0 True c calls"
  shows "probes calls \<le> 1 \<and>
    (probes calls = 1 \<longrightarrow> (\<forall>now. before_call now c = (Inl (ProviderError (circuit_open_error c)), c)))"
  using orderly_probes [OF assms(2)] make_circuit_ok [OF assms(1)]
  by (auto simp: before_call_def admit_call_def)

section \<open>Late answers\<close>

text \<open>A breaker with the defaults, and its life under three calls of which two fail in transport: the
  circuit opens, recovers after thirty seconds, and sends a probe.\<close>

definition flash_circuit :: CircuitBreaker where
  "flash_circuit = projr (make_circuit ''deepseek'' ''deepseek-v4-flash'' 2 (seconds 30))"

definition opened_circuit :: CircuitBreaker where
  "opened_circuit = flash_circuit\<lparr>cb_state := CS_OPEN, cb_failures := 2, cb_opened_at := Some 0\<rparr>"

definition probing_circuit :: CircuitBreaker where
  "probing_circuit = opened_circuit\<lparr>cb_state := CS_HALF_OPEN, cb_half_open_call_active := True\<rparr>"

lemma flash_circuit_made: "make_circuit ''deepseek'' ''deepseek-v4-flash'' 2 (seconds 30) = Inr flash_circuit"
  by (simp add: flash_circuit_def make_circuit_def seconds_def)

lemma flash_circuit_steps:
  "before_call now flash_circuit = (Inr (), flash_circuit)"
  "end_call TransportFailed 0 (end_call TransportFailed 0 flash_circuit) = opened_circuit"
  "before_call (seconds 30) opened_circuit = (Inr (), probing_circuit)"
  "before_call (seconds 31) (end_call OtherwiseFailed now probing_circuit) = (Inr (), probing_circuit)"
  by (simp_all add: before_call_def admit_call_def flash_circuit_def make_circuit_def seconds_def
      opened_circuit_def probing_circuit_def record_transport_failure_def
      record_non_transport_failure_def)

text \<open>\<open>late\<close> says whether the third call is still in flight when the circuit opens.\<close>

lemma probing_history: "circuit_history flash_circuit orderly probing_circuit (True # (if late then [False] else []))"
proof -
  have calls: "circuit_history flash_circuit orderly flash_circuit (replicate n False)" for n
  proof (induction n)
    case (Suc n)
    from circuit_history.call [OF Suc flash_circuit_steps(1)] show ?case
      by (simp add: flash_circuit_def make_circuit_def seconds_def)
  qed (simp add: circuit_history.start)
  let ?n = "if late then 3 else 2 :: nat"
  have one: "circuit_history flash_circuit orderly (end_call TransportFailed 0 flash_circuit)
      (replicate (?n - 1) False)"
    using circuit_history.finish [OF calls [of ?n], of 0 TransportFailed 0]
    by (simp add: flash_circuit_def make_circuit_def seconds_def numeral_3_eq_3 numeral_2_eq_2)
  have "circuit_history flash_circuit orderly opened_circuit (replicate (?n - 2) False)"
    using circuit_history.finish [OF one, of 0 TransportFailed 0] flash_circuit_steps(2)
    by (simp add: flash_circuit_def make_circuit_def seconds_def record_transport_failure_def
        numeral_3_eq_3 numeral_2_eq_2)
  from circuit_history.call [OF this flash_circuit_steps(3)] show ?thesis
    by (cases late) (simp_all add: probing_circuit_def)
qed


text \<open>A late answer admits a second probe. A call that was admitted before the circuit opened, and
  that fails for another reason than transport while a probe is under way, clears the probe flag:
  the breaker then lets a second call through beside the probe.\<close>

lemma late_answer_admits_second_probe:
  "\<exists>c calls. circuit_history flash_circuit False c calls \<and> cb_state c = CS_HALF_OPEN \<and> probes calls = 2"
proof -
  have "circuit_history flash_circuit False (end_call OtherwiseFailed 0 probing_circuit) [True]"
    using circuit_history.finish [OF probing_history [of False True], of 1 OtherwiseFailed 0] by simp
  from circuit_history.call [OF this flash_circuit_steps(4)] show ?thesis
    by (intro exI conjI) (auto simp: probing_circuit_def probes_def)
qed

end
