(* ===== verification/Routing.thy ===== *)
theory Routing
  imports Circuit
begin

text \<open>
  The gate of online calls (\<open>llm/online/gate.py\<close>) and the router that spends a request's time budget on
  bounded attempts, one repair of the schema and a second model (\<open>llm/online/routing.py\<close>). The
  provider, the other requests of the process and the JSON schema of the response are parameters.
  Sleeping and calling are what takes time, and a sleep takes as long as it was asked to.
\<close>

section \<open>The gate\<close>

datatype online_runtime_mode = OM_DEVELOPMENT | OM_DEMO_SAFE | OM_PRODUCTION_CANDIDATE

datatype qualification_status =
  QS_NOT_ACTIVATED | QS_CONTRACT_PASSED | QS_DEV_REGRESSION_PASSED | QS_HOLDOUT_PASSED
| QS_SHADOW_PASSED | QS_CANARY_PASSED | QS_APPROVED

datatype provider_purpose = PP_TEST | PP_SHADOW | PP_DEVELOPMENT_CANARY | PP_BUSINESS

fun provider_purpose_value :: "provider_purpose \<Rightarrow> string" where
  "provider_purpose_value PP_TEST = ''TEST''"
| "provider_purpose_value PP_SHADOW = ''SHADOW''"
| "provider_purpose_value PP_DEVELOPMENT_CANARY = ''DEVELOPMENT_CANARY''"
| "provider_purpose_value PP_BUSINESS = ''BUSINESS''"

fun qualification_order :: "qualification_status \<Rightarrow> nat" where
  "qualification_order QS_NOT_ACTIVATED = 0"
| "qualification_order QS_CONTRACT_PASSED = 1"
| "qualification_order QS_DEV_REGRESSION_PASSED = 2"
| "qualification_order QS_HOLDOUT_PASSED = 3"
| "qualification_order QS_SHADOW_PASSED = 4"
| "qualification_order QS_CANARY_PASSED = 5"
| "qualification_order QS_APPROVED = 6"

record OnlineProviderGate =
  og_enabled :: bool
  og_shadow_enabled :: bool
  og_mode :: online_runtime_mode
  og_qualification :: qualification_status

definition gate_allows :: "OnlineProviderGate \<Rightarrow> provider_purpose \<Rightarrow> bool" where
  "gate_allows g purpose =
     (if \<not> og_enabled g then False
      else if purpose = PP_TEST then og_mode g = OM_DEVELOPMENT
      else if purpose = PP_DEVELOPMENT_CANARY then og_mode g = OM_DEVELOPMENT
      else if purpose = PP_SHADOW then
        og_shadow_enabled g \<and>
        qualification_order QS_CONTRACT_PASSED \<le> qualification_order (og_qualification g)
      else og_mode g = OM_PRODUCTION_CANDIDATE \<and> og_qualification g = QS_APPROVED)"

definition gate_require :: "OnlineProviderGate \<Rightarrow> provider_purpose \<Rightarrow> unit outcome" where
  "gate_require g purpose =
     (if gate_allows g purpose then Inr ()
      else Inl (Exn PyRuntimeError
        (''online provider is not authorized for '' @ provider_purpose_value purpose) []))"

section \<open>Requests and answers\<close>

datatype llm_role = LR_SYSTEM | LR_USER | LR_ASSISTANT

record LLMMessage =
  lm_role :: llm_role
  lm_content :: string

text \<open>The temperature is in thousandths.\<close>

record LLMRequestConfig =
  lc_model :: string
  lc_prompt_name :: string
  lc_prompt_version :: string
  lc_temperature :: int
  lc_max_output_tokens :: int

record StructuredLLMResult =
  sl_payload :: "(string \<times> pval) list"
  sl_provider :: string
  sl_model :: string
  sl_prompt_name :: string
  sl_prompt_version :: string
  sl_prompt_hash :: "string option"
  sl_schema_version :: "string option"
  sl_request_id :: "string option"
  sl_finish_reason :: "string option"
  sl_latency_ms :: "int option"
  sl_attempt_count :: int
  sl_input_tokens :: "int option"
  sl_output_tokens :: "int option"
  sl_total_tokens :: "int option"
  sl_thinking_mode :: "string option"
  sl_transport_tool_call_count :: int
  sl_json_decoded :: bool
  sl_schema_validated :: bool
  sl_invariants_validated :: bool

record RoutingPolicy =
  rp_flash_transport_attempts :: nat
  rp_pro_transport_attempts :: nat
  rp_retry_delay :: int
  rp_per_call_timeout :: int

definition default_policy :: RoutingPolicy where
  "default_policy = \<lparr>rp_flash_transport_attempts = 2, rp_pro_transport_attempts = 1,
     rp_retry_delay = 250000, rp_per_call_timeout = seconds 20\<rparr>"

record RoutingObservation =
  ro_provider :: string
  ro_model :: string
  ro_phase :: string
  ro_success :: bool
  ro_error_code :: "llm_error_code option"
  ro_latency_ms :: int
  ro_remaining_budget :: "int option"
  ro_circuit_state :: "string option"

text \<open>What a provider does with a call: a result, a provider error, a \<open>TimeoutError\<close> of its own, or
  another exception, after some time.\<close>

datatype reply = Result StructuredLLMResult | Fails LLMProviderError | TimesOut | Raises exn

text \<open>The provider, by the number of the call, and what other requests do to the breakers meanwhile.\<close>

record Upstream =
  up_answer :: "nat \<Rightarrow> LLMMessage list \<Rightarrow> LLMRequestConfig \<Rightarrow> int \<times> reply"
  up_others :: "nat \<Rightarrow> circuit_registry \<Rightarrow> circuit_registry"

record DeepSeekRouter =
  ds_flash_model :: string
  ds_pro_model :: "string option"
  ds_policy :: RoutingPolicy

text \<open>The clock, the breakers of the process, the observations, and the calls made so far.\<close>

record RouterState =
  rt_now :: int
  rt_circuits :: circuit_registry
  rt_observations :: "RoutingObservation list"
  rt_calls :: nat

definition provider_name :: string where "provider_name = ''deepseek''"

definition make_router :: "DeepSeekRouter \<Rightarrow> RouterState \<Rightarrow> RouterState outcome" where
  "make_router rt st =
     bindE (get_circuit provider_name (ds_flash_model rt) 2 (seconds 30) (rt_circuits st))
     (\<lambda>circuits. bindE (case ds_pro_model rt of None \<Rightarrow> Inr circuits
         | Some model \<Rightarrow> get_circuit provider_name model 2 (seconds 30) circuits)
     (\<lambda>circuits'. Inr (st\<lparr>rt_circuits := circuits', rt_observations := []\<rparr>)))"

section \<open>One call\<close>

definition circuit_of :: "string \<Rightarrow> RouterState \<Rightarrow> CircuitBreaker" where
  "circuit_of model st = the (rt_circuits st (provider_name, model))"

definition set_circuit :: "string \<Rightarrow> CircuitBreaker \<Rightarrow> RouterState \<Rightarrow> RouterState" where
  "set_circuit model c st = st\<lparr>rt_circuits := (rt_circuits st)((provider_name, model) := Some c)\<rparr>"

definition observe ::
  "string \<Rightarrow> string \<Rightarrow> llm_error_code option \<Rightarrow> int \<Rightarrow> ModelCallBudget \<Rightarrow> RouterState \<Rightarrow> RouterState"
where
  "observe model phase error_code latency budget st =
     st\<lparr>rt_observations := rt_observations st @
       [\<lparr>ro_provider = provider_name, ro_model = model, ro_phase = phase,
         ro_success = (error_code = None), ro_error_code = error_code, ro_latency_ms = latency,
         ro_remaining_budget = Some (remaining_seconds (rt_now st) budget),
         ro_circuit_state = Some (circuit_state_value (cb_state (circuit_of model st)))\<rparr>]\<rparr>"

definition timed_out :: "string \<Rightarrow> LLMProviderError" where
  "timed_out model = (provider_error LE_TIMEOUT provider_name model True ''structured provider timed out'')
     \<lparr>le_cause_type := Some ''TimeoutError''\<rparr>"

text \<open>\<open>async with asyncio.timeout (timeout)\<close>: the call is cut off at the deadline.\<close>

definition call_upstream ::
  "Upstream \<Rightarrow> int \<Rightarrow> LLMMessage list \<Rightarrow> LLMRequestConfig \<Rightarrow> RouterState \<Rightarrow> reply \<times> RouterState" where
  "call_upstream up timeout messages config st =
     (let (duration, reply) = up_answer up (rt_calls st) messages config;
          st' = st\<lparr>rt_now := rt_now st + max 0 (min duration timeout), rt_calls := rt_calls st + 1,
            rt_circuits := up_others up (rt_calls st) (rt_circuits st)\<rparr>
      in (if timeout < duration then TimesOut else reply, st'))"

definition settle_reply ::
  "string \<Rightarrow> string \<Rightarrow> ModelCallBudget \<Rightarrow> reply \<Rightarrow> RouterState \<Rightarrow>
   (call_error + StructuredLLMResult) \<times> RouterState" where
  "settle_reply model phase budget reply st =
     (let c = circuit_of model st in
      case reply of
        Result result \<Rightarrow>
          (Inr result, observe model phase None (case sl_latency_ms result of None \<Rightarrow> 0 | Some n \<Rightarrow> n) budget
             (set_circuit model (record_success c) st))
      | TimesOut \<Rightarrow>
          (Inl (ProviderError (timed_out model)), observe model phase (Some LE_TIMEOUT) 0 budget
             (set_circuit model (record_transport_failure (rt_now st) c) st))
      | Fails e \<Rightarrow>
          (Inl (ProviderError e), observe model phase (Some (le_code e)) 0 budget
             (set_circuit model
               (if le_code e \<in> TRANSPORT_ERROR_CODES then record_transport_failure (rt_now st) c
                else record_non_transport_failure c) st))
      | Raises e \<Rightarrow> (Inl (OtherError e), st))"

definition single_call ::
  "DeepSeekRouter \<Rightarrow> Upstream \<Rightarrow> string \<Rightarrow> LLMMessage list \<Rightarrow> LLMRequestConfig \<Rightarrow> ModelCallBudget \<Rightarrow>
   string \<Rightarrow> RouterState \<Rightarrow> (call_error + StructuredLLMResult) \<times> RouterState" where
  "single_call rt up model messages config budget phase st =
     (case before_call (rt_now st) (circuit_of model st) of
        (Inl e, c) \<Rightarrow> (Inl e, set_circuit model c st)
      | (Inr _, c) \<Rightarrow>
          let st1 = set_circuit model c st in
          case timeout_seconds (rt_now st1) budget provider_name model
              (Some (rp_per_call_timeout (ds_policy rt))) of
            Inl e \<Rightarrow> (Inl (ProviderError e), st1)
          | Inr timeout \<Rightarrow>
              let (reply, st2) = call_upstream up timeout messages (config\<lparr>lc_model := model\<rparr>) st1
              in settle_reply model phase budget reply st2)"

section \<open>Attempts, repair, second model\<close>

text \<open>The loop of the transport attempts that are left; a failed validation is returned, not raised.\<close>

fun route_model ::
  "DeepSeekRouter \<Rightarrow> Upstream \<Rightarrow> string \<Rightarrow> LLMMessage list \<Rightarrow> LLMRequestConfig \<Rightarrow> nat \<Rightarrow>
   ModelCallBudget \<Rightarrow> string \<Rightarrow> RouterState \<Rightarrow>
   (call_error + (StructuredLLMResult + LLMProviderError)) \<times> RouterState" where
  "route_model rt up model messages config 0 budget phase st =
     (Inl (OtherError (Exn PyAssertionError [] [])), st)"
| "route_model rt up model messages config (Suc n) budget phase st =
     (case single_call rt up model messages config budget phase st of
        (Inr result, st1) \<Rightarrow> (Inr (Inl result), st1)
      | (Inl (OtherError e), st1) \<Rightarrow> (Inl (OtherError e), st1)
      | (Inl (ProviderError e), st1) \<Rightarrow>
          if le_code e = LE_SCHEMA_VALIDATION_FAILED then (Inr (Inr e), st1)
          else if le_code e \<notin> TRANSPORT_ERROR_CODES \<or> n = 0 then (Inl (ProviderError e), st1)
          else
            let delay = min (rp_retry_delay (ds_policy rt)) (remaining_seconds (rt_now st1) budget) in
            case (if delay \<le> 0 then timeout_seconds (rt_now st1) budget provider_name model None
                  else Inr 0) of
              Inl e' \<Rightarrow> (Inl (ProviderError e'), st1)
            | Inr _ \<Rightarrow> route_model rt up model messages config n budget phase
                (st1\<lparr>rt_now := rt_now st1 + max 0 delay\<rparr>))"

definition repair_messages :: "string \<Rightarrow> LLMMessage list \<Rightarrow> LLMProviderError \<Rightarrow> LLMMessage list" where
  "repair_messages schema messages error =
     (let summary = (case le_schema_error_summary error of
            None \<Rightarrow> ''strict schema validation failed''
          | Some s \<Rightarrow> if s = [] then ''strict schema validation failed'' else s)
      in messages @ [\<lparr>lm_role = LR_SYSTEM, lm_content = take 12000
        (''Repair the previous answer once. Return JSON only; do not add fields. '' @
         ''Validation summary: '' @ summary @ ''. Required schema: '' @ schema)\<rparr>])"

definition exhausted :: "LLMProviderError \<Rightarrow> LLMProviderError" where
  "exhausted last_error = last_error
     \<lparr>le_retryable := False, le_retry_after := None, le_exhausted := True,
      le_safe_detail := ''the authorized structured provider was exhausted''\<rparr>"

text \<open>The handler \<open>except LLMProviderError\<close>: fail-fast errors are raised again, others are the last
  error of this model.\<close>

definition fail_fast ::
  "LLMProviderError \<Rightarrow> call_error + LLMProviderError" where
  "fail_fast e = (if le_code e \<in> FAIL_FAST_ERROR_CODES then Inl (ProviderError e) else Inr e)"

text \<open>The first \<open>try\<close>: the flash model and its repair. \<open>Inr (Inr e)\<close> falls through with the last error.\<close>

definition try_flash ::
  "DeepSeekRouter \<Rightarrow> Upstream \<Rightarrow> LLMMessage list \<Rightarrow> string \<Rightarrow> LLMRequestConfig \<Rightarrow> ModelCallBudget \<Rightarrow>
   RouterState \<Rightarrow> (call_error + (StructuredLLMResult + LLMProviderError)) \<times> RouterState" where
  "try_flash rt up messages schema config budget st =
     (case route_model rt up (ds_flash_model rt) messages config
          (rp_flash_transport_attempts (ds_policy rt)) budget ''flash'' st of
        (Inr (Inl result), st1) \<Rightarrow> (Inr (Inl result), st1)
      | (Inl (OtherError e), st1) \<Rightarrow> (Inl (OtherError e), st1)
      | (Inl (ProviderError e), st1) \<Rightarrow> (map_sum id Inr (fail_fast e), st1)
      | (Inr (Inr schema_error), st1) \<Rightarrow>
          (case single_call rt up (ds_flash_model rt) (repair_messages schema messages schema_error)
              config budget ''flash_schema_repair'' st1 of
             (Inr result, st2) \<Rightarrow> (Inr (Inl result), st2)
           | (Inl (OtherError e), st2) \<Rightarrow> (Inl (OtherError e), st2)
           | (Inl (ProviderError e), st2) \<Rightarrow> (map_sum id Inr (fail_fast e), st2)))"

definition try_pro ::
  "DeepSeekRouter \<Rightarrow> Upstream \<Rightarrow> string \<Rightarrow> LLMMessage list \<Rightarrow> LLMRequestConfig \<Rightarrow> ModelCallBudget \<Rightarrow>
   RouterState \<Rightarrow> (call_error + (StructuredLLMResult + LLMProviderError)) \<times> RouterState" where
  "try_pro rt up model messages config budget st =
     (case route_model rt up model messages config
          (rp_pro_transport_attempts (ds_policy rt)) budget ''pro'' st of
        (Inl (ProviderError e), st1) \<Rightarrow> (map_sum id Inr (fail_fast e), st1)
      | (r, st1) \<Rightarrow> (r, st1))"

definition raise_exhausted ::
  "(call_error + (StructuredLLMResult + LLMProviderError)) \<times> RouterState \<Rightarrow>
   (call_error + StructuredLLMResult) \<times> RouterState" where
  "raise_exhausted r =
     (case r of
        (Inl e, st) \<Rightarrow> (Inl e, st)
      | (Inr (Inl result), st) \<Rightarrow> (Inr result, st)
      | (Inr (Inr last_error), st) \<Rightarrow> (Inl (ProviderError (exhausted last_error)), st))"

definition generate_structured ::
  "DeepSeekRouter \<Rightarrow> Upstream \<Rightarrow> LLMMessage list \<Rightarrow> string \<Rightarrow> LLMRequestConfig \<Rightarrow>
   ModelCallBudget option \<Rightarrow> RouterState \<Rightarrow> (call_error + StructuredLLMResult) \<times> RouterState" where
  "generate_structured rt up messages schema config bound st =
     (let budget = (case bound of Some b \<Rightarrow> b | None \<Rightarrow> \<lparr>mb_total = seconds 25, mb_started_at = rt_now st\<rparr>);
          flash = try_flash rt up messages schema config budget st
      in case (flash, ds_pro_model rt) of
           ((Inr (Inr _), st1), Some model) \<Rightarrow>
             raise_exhausted (try_pro rt up model messages config budget st1)
         | _ \<Rightarrow> raise_exhausted flash)"

definition generate_response ::
  "DeepSeekRouter \<Rightarrow> LLMMessage list \<Rightarrow> LLMRequestConfig \<Rightarrow> call_error + StructuredLLMResult" where
  "generate_response rt messages config =
     Inl (ProviderError (provider_error LE_REQUEST_REJECTED provider_name (ds_flash_model rt) False
       ''free-text generation is outside this structured router''))"

section \<open>Bounds\<close>

definition deadline :: "ModelCallBudget \<Rightarrow> int" where
  "deadline budget = mb_started_at budget + mb_total budget"

text \<open>A part of a request that makes at most \<open>n\<close> calls and does not pass the deadline.\<close>

definition within :: "nat \<Rightarrow> ModelCallBudget \<Rightarrow> RouterState \<Rightarrow> RouterState \<Rightarrow> bool" where
  "within n budget st st' \<longleftrightarrow> rt_calls st' \<le> rt_calls st + n \<and>
     rt_now st' \<le> max (rt_now st) (deadline budget)"

lemma within_refl: "within n budget st st" by (simp add: within_def)

lemma within_trans: "within m budget st st1 \<Longrightarrow> within n budget st1 st2 \<Longrightarrow> within (m + n) budget st st2"
  by (auto simp: within_def)

lemma within_mono: "within m budget st st' \<Longrightarrow> m \<le> n \<Longrightarrow> within n budget st st'"
  by (auto simp: within_def)

lemma remaining_reaches_deadline:
  "d \<le> remaining_seconds now budget \<Longrightarrow> now + max 0 d \<le> max now (deadline budget)"
  by (auto simp: remaining_seconds_def elapsed_seconds_def deadline_def)

lemma timeout_Inr: "timeout_seconds now budget provider model (Some r) = Inr t \<Longrightarrow>
    t \<le> remaining_seconds now budget"
  by (auto simp: timeout_seconds_def Let_def split: if_splits)

lemma router_frames [simp]:
  "rt_now (set_circuit model c st) = rt_now st" "rt_calls (set_circuit model c st) = rt_calls st"
  "rt_now (observe model phase e l budget st) = rt_now st"
  "rt_calls (observe model phase e l budget st) = rt_calls st"
  by (simp_all add: set_circuit_def observe_def)

lemma settle_reply_frames:
  "settle_reply model phase budget reply st = (r, st') \<Longrightarrow> rt_now st' = rt_now st \<and> rt_calls st' = rt_calls st"
  by (auto simp: settle_reply_def Let_def split: reply.splits)

lemma call_upstream_within:
  assumes "call_upstream up timeout messages config st = (reply, st')"
    and "timeout \<le> remaining_seconds (rt_now st) budget"
  shows "within 1 budget st st'"
proof -
  obtain d rep where a: "up_answer up (rt_calls st) messages config = (d, rep)" by fastforce
  have "rt_now st + max 0 (min d timeout) \<le> max (rt_now st) (deadline budget)"
    using assms(2) by (intro remaining_reaches_deadline) simp
  then show ?thesis using assms(1) a by (auto simp: call_upstream_def within_def)
qed

lemma single_call_within:
  assumes "single_call rt up model messages config budget phase st = (r, st')"
  shows "within 1 budget st st'"
proof (cases "before_call (rt_now st) (circuit_of model st)")
  case (Pair res c)
  show ?thesis
  proof (cases res)
    case (Inl e)
    then show ?thesis using assms Pair by (auto simp: single_call_def within_def)
  next
    case (Inr u)
    let ?st1 = "set_circuit model c st"
    show ?thesis
    proof (cases "timeout_seconds (rt_now ?st1) budget provider_name model
        (Some (rp_per_call_timeout (ds_policy rt)))")
      case (Inl e)
      then show ?thesis using assms Pair Inr by (auto simp: single_call_def within_def)
    next
      case t: (Inr timeout)
      obtain reply st2 where call: "call_upstream up timeout messages (config\<lparr>lc_model := model\<rparr>) ?st1 =
          (reply, st2)" by fastforce
      have "settle_reply model phase budget reply st2 = (r, st')"
        using assms Pair Inr t call by (simp add: single_call_def)
      then show ?thesis
        using call_upstream_within [OF call timeout_Inr [OF t]] settle_reply_frames
        by (fastforce simp: within_def)
    qed
  qed
qed

lemma route_model_within:
  "route_model rt up model messages config n budget phase st = (r, st') \<Longrightarrow> within n budget st st'"
proof (induction n arbitrary: st)
  case 0
  then show ?case by (simp add: within_refl)
next
  case (Suc n)
  obtain res st1 where one: "single_call rt up model messages config budget phase st = (res, st1)"
    by fastforce
  have first: "within 1 budget st st1" by (rule single_call_within [OF one])
  let ?delay = "min (rp_retry_delay (ds_policy rt)) (remaining_seconds (rt_now st1) budget)"
  let ?st2 = "st1\<lparr>rt_now := rt_now st1 + max 0 ?delay\<rparr>"
  have "rt_now ?st2 \<le> max (rt_now st1) (deadline budget)"
    using remaining_reaches_deadline [of ?delay "rt_now st1" budget] by simp
  then have sleep: "within 0 budget st1 ?st2" by (simp add: within_def)
  show ?case
  proof (cases "st' = st1")
    case True
    then show ?thesis using first by (auto intro: within_mono)
  next
    case False
    then have "route_model rt up model messages config n budget phase ?st2 = (r, st')"
      using Suc.prems one
      by (auto simp: Let_def split: sum.splits call_error.splits if_splits)
    from within_trans [OF within_trans [OF first sleep] Suc.IH [OF this]] show ?thesis by simp
  qed
qed

lemma try_flash_within:
  assumes "try_flash rt up messages schema config budget st = (r, st')"
  shows "within (rp_flash_transport_attempts (ds_policy rt) + 1) budget st st'"
proof -
  obtain res st1 where route: "route_model rt up (ds_flash_model rt) messages config
      (rp_flash_transport_attempts (ds_policy rt)) budget ''flash'' st = (res, st1)" by fastforce
  note first = route_model_within [OF route]
  show ?thesis
  proof (cases "st' = st1")
    case True
    then show ?thesis using within_mono [OF first] by simp
  next
    case False
    then obtain e r2 where "single_call rt up (ds_flash_model rt) (repair_messages schema messages e)
        config budget ''flash_schema_repair'' st1 = (r2, st')"
      using assms route
      by (auto simp: try_flash_def split: sum.splits call_error.splits prod.splits)
    from within_trans [OF first single_call_within [OF this]] show ?thesis .
  qed
qed

lemma try_pro_within:
  assumes "try_pro rt up model messages config budget st = (r, st')"
  shows "within (rp_pro_transport_attempts (ds_policy rt)) budget st st'"
proof -
  obtain res st1 where route: "route_model rt up model messages config
      (rp_pro_transport_attempts (ds_policy rt)) budget ''pro'' st = (res, st1)" by fastforce
  then have "st' = st1" using assms
    by (auto simp: try_pro_def split: sum.splits call_error.splits)
  then show ?thesis using route_model_within [OF route] by simp
qed

lemma raise_exhausted_state: "raise_exhausted x = (r, st) \<Longrightarrow> \<exists>y. x = (y, st)"
  by (cases x) (auto simp: raise_exhausted_def split: sum.splits)

text \<open>The two ways through a request.\<close>

lemma generate_structured_parts:
  assumes "generate_structured rt up messages schema config (Some budget) st = (r, st')"
    and "try_flash rt up messages schema config budget st = (fr, st1)"
  shows "raise_exhausted (fr, st1) = (r, st') \<or>
    (\<exists>model pr. ds_pro_model rt = Some model \<and> try_pro rt up model messages config budget st1 = (pr, st') \<and>
      raise_exhausted (pr, st') = (r, st'))"
proof (cases "\<exists>e model. fr = Inr (Inr e) \<and> ds_pro_model rt = Some model")
  case True
  then obtain e model where m: "fr = Inr (Inr e)" "ds_pro_model rt = Some model" by blast
  then have "raise_exhausted (try_pro rt up model messages config budget st1) = (r, st')"
    using assms by (simp add: generate_structured_def)
  then show ?thesis using m(2) raise_exhausted_state by metis
next
  case False
  then show ?thesis
    using assms by (auto simp: generate_structured_def Let_def split: sum.splits option.splits)
qed

text \<open>C34: a request is bounded. Whatever the provider does and however long it takes, a request makes at
  most one call per allowed attempt and one repair, and it ends by the deadline of its budget.\<close>

theorem request_stays_in_budget:
  assumes "generate_structured rt up messages schema config (Some budget) st = (r, st')"
  shows "rt_calls st' \<le> rt_calls st + rp_flash_transport_attempts (ds_policy rt) + 1 +
      (case ds_pro_model rt of None \<Rightarrow> 0 | Some _ \<Rightarrow> rp_pro_transport_attempts (ds_policy rt)) \<and>
    rt_now st' \<le> max (rt_now st) (mb_started_at budget + mb_total budget)"
proof -
  obtain fr st1 where flash: "try_flash rt up messages schema config budget st = (fr, st1)" by fastforce
  note first = try_flash_within [OF flash]
  have "within (rp_flash_transport_attempts (ds_policy rt) + 1 +
      (case ds_pro_model rt of None \<Rightarrow> 0 | Some _ \<Rightarrow> rp_pro_transport_attempts (ds_policy rt))) budget st st'"
  proof (cases "st' = st1")
    case True
    then show ?thesis using within_mono [OF first] by simp
  next
    case False
    then obtain model pr where pro: "ds_pro_model rt = Some model"
      "try_pro rt up model messages config budget st1 = (pr, st')"
      using generate_structured_parts [OF assms flash] raise_exhausted_state by fastforce
    from within_trans [OF first try_pro_within [OF pro(2)]] show ?thesis using pro(1) by simp
  qed
  then show ?thesis by (simp add: within_def deadline_def)
qed

section \<open>Refused calls\<close>

lemma set_same_circuit: "rt_circuits st (provider_name, model) = Some c \<Longrightarrow> set_circuit model c st = st"
  by (simp add: set_circuit_def fun_upd_idem)

lemma refused_request:
  assumes "rt_circuits st (provider_name, ds_flash_model rt) = Some c"
    and "before_call (rt_now st) c = (Inl (ProviderError (circuit_open_error c)), c)"
    and "ds_pro_model rt = None" and "0 < rp_flash_transport_attempts (ds_policy rt)"
  shows "generate_structured rt up messages schema config bound st =
    (Inl (ProviderError (exhausted (circuit_open_error c))), st)"
proof -
  obtain n where n: "rp_flash_transport_attempts (ds_policy rt) = Suc n"
    using assms(4) gr0_conv_Suc by blast
  have one: "single_call rt up (ds_flash_model rt) messages config budget phase st =
      (Inl (ProviderError (circuit_open_error c)), st)" for messages budget phase
    using assms(1,2) by (simp add: single_call_def circuit_of_def set_same_circuit)
  have "le_code (circuit_open_error c) = LE_CIRCUIT_OPEN"
    by (simp add: circuit_open_error_def provider_error_def)
  then have "try_flash rt up messages schema config budget st = (Inr (Inr (circuit_open_error c)), st)"
    for budget
    by (simp add: try_flash_def n one fail_fast_def TRANSPORT_ERROR_CODES_def FAIL_FAST_ERROR_CODES_def)
  then show ?thesis using assms(3) by (simp add: generate_structured_def raise_exhausted_def Let_def)
qed

text \<open>An open circuit protects the provider. While the circuit of the only model is open and has not
  recovered, a request fails with CIRCUIT_OPEN at once: no call is made, no time passes, and the
  breakers are left as they are.\<close>

lemma open_circuit_makes_no_call:
  assumes "rt_circuits st (provider_name, ds_flash_model rt) = Some c"
    and "cb_state c = CS_OPEN" and "cb_opened_at c = Some opened_at"
    and "rt_now st < opened_at + cb_recovery c"
    and "ds_pro_model rt = None" and "0 < rp_flash_transport_attempts (ds_policy rt)"
  shows "generate_structured rt up messages schema config bound st =
    (Inl (ProviderError (exhausted (circuit_open_error c))), st)"
  using assms by (intro refused_request) (auto simp: before_call_def)

text \<open>C33: an exhausted budget wedges the circuit. The circuit of the only model is open and has
  recovered, and a request whose budget is used up arrives: \<open>before_call\<close> makes it the probe, the
  budget then refuses the call, and nothing records its end. From then on every request, at any
  time, with any budget and provider, fails with CIRCUIT_OPEN without calling the provider.\<close>

theorem exhausted_budget_wedges_circuit:
  assumes "rt_circuits st (provider_name, ds_flash_model rt) = Some c"
    and "cb_state c = CS_OPEN" and "cb_opened_at c = Some opened_at"
    and "opened_at + cb_recovery c \<le> rt_now st"
    and "deadline budget \<le> rt_now st" and "mb_started_at budget \<le> rt_now st"
    and "ds_pro_model rt = None" and "0 < rp_flash_transport_attempts (ds_policy rt)"
  shows "\<exists>e st'. generate_structured rt up messages schema config (Some budget) st =
      (Inl (ProviderError e), st') \<and> le_code e = LE_BUDGET_EXHAUSTED \<and> rt_calls st' = rt_calls st \<and>
    (\<forall>t up' messages' schema' config' bound'.
       generate_structured rt up' messages' schema' config' bound' (st'\<lparr>rt_now := t\<rparr>) =
       (Inl (ProviderError (exhausted (circuit_open_error c))), st'\<lparr>rt_now := t\<rparr>))"
proof -
  obtain n where n: "rp_flash_transport_attempts (ds_policy rt) = Suc n"
    using assms(8) gr0_conv_Suc by blast
  let ?c' = "c\<lparr>cb_state := CS_HALF_OPEN, cb_half_open_call_active := True\<rparr>"
  let ?st' = "set_circuit (ds_flash_model rt) ?c' st"
  let ?e = "provider_error LE_BUDGET_EXHAUSTED provider_name (ds_flash_model rt) False
    ''model time budget exhausted''"
  have "before_call (rt_now st) c = (Inr (), ?c')"
    using assms(2-4) by (simp add: before_call_def admit_call_def)
  moreover have "remaining_seconds (rt_now st) budget \<le> 0"
    using assms(5,6) by (simp add: remaining_seconds_def elapsed_seconds_def deadline_def)
  ultimately have "single_call rt up (ds_flash_model rt) messages config budget ''flash'' st =
      (Inl (ProviderError ?e), ?st')"
    using assms(1) by (simp add: single_call_def circuit_of_def timeout_seconds_def)
  then have "try_flash rt up messages schema config budget st = (Inr (Inr ?e), ?st')"
    by (simp add: try_flash_def n fail_fast_def TRANSPORT_ERROR_CODES_def FAIL_FAST_ERROR_CODES_def
        provider_error_def)
  then have "generate_structured rt up messages schema config (Some budget) st =
      (Inl (ProviderError (exhausted ?e)), ?st')"
    using assms(7) by (simp add: generate_structured_def raise_exhausted_def)
  moreover have "generate_structured rt up' messages' schema' config' bound' (?st'\<lparr>rt_now := t\<rparr>) =
      (Inl (ProviderError (exhausted (circuit_open_error ?c'))), ?st'\<lparr>rt_now := t\<rparr>)"
    for t up' messages' schema' config' bound'
    using assms(7,8)
    by (intro refused_request) (simp_all add: set_circuit_def before_call_def admit_call_def)
  moreover have "circuit_open_error ?c' = circuit_open_error c" by (simp add: circuit_open_error_def)
  moreover have "le_code (exhausted ?e) = LE_BUDGET_EXHAUSTED"
    by (simp add: exhausted_def provider_error_def)
  ultimately show ?thesis by (intro exI [of _ "exhausted ?e"] exI [of _ ?st']) simp
qed

text \<open>A healthy probe recovers the circuit. Once the recovery time has passed, a request with budget
  left, whose provider answers within the limit of a call, is answered by that one call, and the
  circuit is closed again with no failures counted.\<close>

lemma healthy_probe_recovers:
  assumes "rt_circuits st (provider_name, ds_flash_model rt) = Some c"
    and "cb_state c = CS_OPEN" and "cb_opened_at c = Some opened_at"
    and "opened_at + cb_recovery c \<le> rt_now st"
    and "0 < rp_flash_transport_attempts (ds_policy rt)" and "0 < remaining_seconds (rt_now st) budget"
    and "up_answer up (rt_calls st) messages (config\<lparr>lc_model := ds_flash_model rt\<rparr>) = (d, Result result)"
    and "d \<le> remaining_seconds (rt_now st) budget" and "d \<le> rp_per_call_timeout (ds_policy rt)"
    and "\<forall>n circuits. up_others up n circuits = circuits"
  shows "\<exists>st'. generate_structured rt up messages schema config (Some budget) st = (Inr result, st') \<and>
    rt_calls st' = rt_calls st + 1 \<and> cb_state (circuit_of (ds_flash_model rt) st') = CS_CLOSED \<and>
    cb_failures (circuit_of (ds_flash_model rt) st') = 0"
proof -
  obtain n where n: "rp_flash_transport_attempts (ds_policy rt) = Suc n"
    using assms(5) gr0_conv_Suc by blast
  have "before_call (rt_now st) c = (Inr (), c\<lparr>cb_state := CS_HALF_OPEN, cb_half_open_call_active := True\<rparr>)"
    using assms(2-4) by (simp add: before_call_def admit_call_def)
  then have "\<exists>st'. single_call rt up (ds_flash_model rt) messages config budget ''flash'' st = (Inr result, st') \<and>
      rt_calls st' = rt_calls st + 1 \<and>
      circuit_of (ds_flash_model rt) st' =
        record_success (c\<lparr>cb_state := CS_HALF_OPEN, cb_half_open_call_active := True\<rparr>)"
    using assms(1,6-10)
    by (simp add: single_call_def circuit_of_def timeout_seconds_def call_upstream_def settle_reply_def
        set_circuit_def observe_def)
  then obtain st' where st': "single_call rt up (ds_flash_model rt) messages config budget ''flash'' st =
      (Inr result, st')" "rt_calls st' = rt_calls st + 1"
    "cb_state (circuit_of (ds_flash_model rt) st') = CS_CLOSED"
    "cb_failures (circuit_of (ds_flash_model rt) st') = 0"
    by (auto simp: record_success_def)
  then have "generate_structured rt up messages schema config (Some budget) st = (Inr result, st')"
    by (simp add: generate_structured_def try_flash_def n raise_exhausted_def)
  then show ?thesis using st' by blast
qed

section \<open>Typed failures\<close>

lemma fail_fast_Inl: "fail_fast e = Inl x \<Longrightarrow> x = ProviderError e \<and> le_code e \<in> FAIL_FAST_ERROR_CODES"
  by (auto simp: fail_fast_def split: if_splits)

lemma map_fail_fast_Inl [inversion_simps]:
  "map_sum id f (fail_fast e) = Inl x \<longleftrightarrow> x = ProviderError e \<and> le_code e \<in> FAIL_FAST_ERROR_CODES"
  by (auto simp: fail_fast_def)

lemma tries_fail_fast:
  "try_flash rt up messages schema config budget st = (Inl (ProviderError e), st') \<Longrightarrow>
     le_code e \<in> FAIL_FAST_ERROR_CODES"
  "try_pro rt up model messages config budget st = (Inl (ProviderError e), st') \<Longrightarrow>
     le_code e \<in> FAIL_FAST_ERROR_CODES"
  by (auto simp: try_flash_def try_pro_def inversion_simps
      split: prod.splits sum.splits call_error.splits)

text \<open>Failures of a request are typed. A provider failure that leaves the router is one that must not
  be retried (authentication, permission, configuration, content policy, rejection), or the typed
  exhaustion of every authorized route.\<close>

lemma request_failures_typed:
  assumes "generate_structured rt up messages schema config (Some budget) st = (Inl (ProviderError e), st')"
  shows "le_exhausted e \<or> le_code e \<in> FAIL_FAST_ERROR_CODES"
proof -
  obtain fr st1 where flash: "try_flash rt up messages schema config budget st = (fr, st1)" by fastforce
  have raised: "x = Inl (ProviderError e) \<or> le_exhausted e" if "raise_exhausted (x, s) = (Inl (ProviderError e), s')"
    for x s s'
    using that by (auto simp: raise_exhausted_def exhausted_def split: sum.splits)
  show ?thesis
    using generate_structured_parts [OF assms flash] raised tries_fail_fast flash by metis
qed

section \<open>Requests by example\<close>

definition demo_router :: DeepSeekRouter where
  "demo_router = \<lparr>ds_flash_model = ''deepseek-v4-flash'', ds_pro_model = None, ds_policy = default_policy\<rparr>"

definition demo_config :: LLMRequestConfig where
  "demo_config = \<lparr>lc_model = ''m'', lc_prompt_name = ''p'', lc_prompt_version = ''1'',
     lc_temperature = 0, lc_max_output_tokens = 1000\<rparr>"

definition demo_result :: StructuredLLMResult where
  "demo_result = \<lparr>sl_payload = [], sl_provider = ''deepseek'', sl_model = ''deepseek-v4-flash'',
     sl_prompt_name = ''p'', sl_prompt_version = ''1'', sl_prompt_hash = None, sl_schema_version = None,
     sl_request_id = None, sl_finish_reason = None, sl_latency_ms = None, sl_attempt_count = 1,
     sl_input_tokens = None, sl_output_tokens = None, sl_total_tokens = None, sl_thinking_mode = None,
     sl_transport_tool_call_count = 0, sl_json_decoded = True, sl_schema_validated = True,
     sl_invariants_validated = True\<rparr>"

definition answering :: "reply \<Rightarrow> Upstream" where
  "answering reply = \<lparr>up_answer = (\<lambda>_ _ _. (seconds 3, reply)), up_others = (\<lambda>_ circuits. circuits)\<rparr>"

text \<open>The flash circuit opened at zero; the clock is at \<open>now\<close>.\<close>

definition opened_router :: "int \<Rightarrow> RouterState" where
  "opened_router now = \<lparr>rt_now = now,
     rt_circuits = (\<lambda>_. None)((provider_name, ''deepseek-v4-flash'') := Some opened_circuit),
     rt_observations = [], rt_calls = 5\<rparr>"

lemmas demo_routing = demo_router_def default_policy_def opened_router_def opened_circuit_def
  flash_circuit_def make_circuit_def seconds_def

theorem request_stays_in_budget_witness:
  "\<exists>r st'. generate_structured demo_router (answering TimesOut) [] ''{}'' demo_config
      (Some \<lparr>mb_total = seconds 25, mb_started_at = seconds 40\<rparr>) (opened_router (seconds 40)) = (r, st') \<and>
     rt_calls st' \<le> 8 \<and> rt_now st' \<le> seconds 65"
proof -
  obtain r st' where run: "generate_structured demo_router (answering TimesOut) [] ''{}'' demo_config
      (Some \<lparr>mb_total = seconds 25, mb_started_at = seconds 40\<rparr>) (opened_router (seconds 40)) = (r, st')"
    by fastforce
  then show ?thesis
    using request_stays_in_budget [OF run] by (auto simp: demo_routing)
qed

theorem exhausted_budget_wedges_circuit_witness:
  "\<exists>st'. rt_calls st' = 5 \<and>
     (\<forall>t. generate_structured demo_router (answering (Result demo_result)) [] ''{}'' demo_config None
        (st'\<lparr>rt_now := t\<rparr>) =
      (Inl (ProviderError (exhausted (circuit_open_error opened_circuit))), st'\<lparr>rt_now := t\<rparr>))"
  using exhausted_budget_wedges_circuit [of "opened_router (seconds 40)" demo_router opened_circuit 0
      "\<lparr>mb_total = seconds 25, mb_started_at = seconds 15\<rparr>" "answering (Result demo_result)" "[]"
      "''{}''" demo_config]
  by (simp add: demo_routing deadline_def) blast


end
