(* ===== verification/AgentState.thy ===== *)
theory AgentState
  imports Slots Routing
begin

text \<open>
  The work state of a conversation with the resident agent, after \<open>backend/app/agent/state.py\<close>,
  \<open>agent/enums.py\<close>, \<open>agent/models.py\<close> and the helpers of \<open>agent_runtime/runtime_state.py\<close>: one record
  that is validated whenever it is loaded, the matrix of missing fields, and the bounded list of
  messages. A checkpoint holds the JSON of this record, so every node starts with \<open>load_state\<close>.

  Times in slots, windows and snapshots are instants; the reference time of a turn keeps its offset.
  \<open>casefold\<close> is \<open>lower\<close>, as texts are ASCII.
\<close>

section \<open>Vocabulary\<close>

datatype agent_intent =
    AI_NEW_REPAIR | AI_PROVIDE_INFORMATION | AI_QUERY_TICKET_STATUS | AI_SELECT_APPOINTMENT_SLOT
  | AI_RESCHEDULE_APPOINTMENT | AI_CANCEL_APPOINTMENT | AI_CANCEL_TICKET | AI_ACCEPT_REPAIR
  | AI_REJECT_REPAIR | AI_REQUEST_HUMAN | AI_UNKNOWN

datatype pending_action =
    PA_NONE | PA_CREATE_TICKET | PA_BOOK_APPOINTMENT | PA_RESCHEDULE_APPOINTMENT
  | PA_CANCEL_APPOINTMENT | PA_CANCEL_TICKET | PA_RECORD_ACCEPTANCE

fun pending_action_value :: "pending_action \<Rightarrow> string" where
  "pending_action_value PA_NONE = ''NONE''"
| "pending_action_value PA_CREATE_TICKET = ''CREATE_TICKET''"
| "pending_action_value PA_BOOK_APPOINTMENT = ''BOOK_APPOINTMENT''"
| "pending_action_value PA_RESCHEDULE_APPOINTMENT = ''RESCHEDULE_APPOINTMENT''"
| "pending_action_value PA_CANCEL_APPOINTMENT = ''CANCEL_APPOINTMENT''"
| "pending_action_value PA_CANCEL_TICKET = ''CANCEL_TICKET''"
| "pending_action_value PA_RECORD_ACCEPTANCE = ''RECORD_ACCEPTANCE''"

datatype agent_reconciliation_status =
    RC_PENDING | RC_PROCESSING | RC_RESOLVED_COMMITTED | RC_RESOLVED_NOT_COMMITTED | RC_MANUAL_REVIEW

datatype safety_flag =
    SF_IMMEDIATE_DANGER | SF_ACTIVE_FLOODING | SF_ELECTRICAL_HAZARD | SF_LOCKOUT_RISK
  | SF_OTHER_REVIEW_REQUIRED

datatype acceptance_decision = AD_ACCEPT | AD_REJECT | AD_UNCLEAR

datatype issue_field =
    IF_PROPERTY | IF_ISSUE_CATEGORY | IF_ISSUE_LOCATION | IF_ISSUE_DESCRIPTION | IF_SEVERITY
  | IF_AVAILABILITY

fun llm_role_value :: "llm_role \<Rightarrow> string" where
  "llm_role_value LR_SYSTEM = ''SYSTEM''"
| "llm_role_value LR_USER = ''USER''"
| "llm_role_value LR_ASSISTANT = ''ASSISTANT''"

datatype workflow_stage =
    WS_INTAKE | WS_NEED_PROPERTY | WS_NEED_INFO | WS_EMERGENCY_REVIEW | WS_POLICY_CHECK
  | WS_DUPLICATE_CHECK | WS_EXISTING_TICKET | WS_CREATING_TICKET | WS_RECONCILIATION_PENDING
  | WS_FINDING_SLOTS | WS_AWAITING_SLOT_CONFIRMATION | WS_BOOKING | WS_MONITORING_APPOINTMENT
  | WS_RESCHEDULING | WS_STATUS_CONFLICT | WS_AWAITING_ACCEPTANCE | WS_PLANNING_REWORK
  | WS_HUMAN_REVIEW | WS_DONE

datatype policy_topic =
    PT_SAFETY_ESCALATION | PT_RESPONSIBILITY_SCOPE | PT_IDENTITY_REQUIREMENT | PT_APPOINTMENT
  | PT_RESCHEDULING | PT_COMPLETION_ACCEPTANCE | PT_REWORK | PT_CANCELLATION | PT_HUMAN_ESCALATION

datatype evidence_sufficiency = EV_SUFFICIENT | EV_INSUFFICIENT | EV_CONFLICTING

section \<open>Values\<close>

record UserWindow =
  uw_starts_at :: timestamp
  uw_ends_at :: timestamp

record ToolResultSummary =
  tl_result_code :: string
  tl_message :: string
  tl_resource_id :: "uuid option"
  tl_resource_version :: "int option"
  tl_retryable :: bool

record CandidateSlot =
  cn_worker_id :: uuid
  cn_scheduled_start :: timestamp
  cn_scheduled_end :: timestamp
  cn_rank :: int

record ConversationMessage =
  cv_message_id :: uuid
  cv_role :: llm_role
  cv_content :: string
  cv_created_at :: PyTime
  cv_turn_id :: uuid

record CachedAppointment =
  ka_appointment_id :: uuid
  ka_worker_id :: uuid
  ka_appointment_status :: appointment_status
  ka_scheduled_start :: timestamp
  ka_scheduled_end :: timestamp
  ka_appointment_version :: int

record CachedTicket =
  kt_ticket_id :: uuid
  kt_ticket_version :: int
  kt_ticket_status :: ticket_status
  kt_severity :: severity
  kt_rework_count :: int
  kt_active_appointment :: "CachedAppointment option"
  kt_observed_at :: timestamp

record DuplicateCandidate =
  du_ticket_id :: uuid
  du_ticket_version :: int
  du_ticket_status :: ticket_status
  du_issue_location :: string

record PendingOperation =
  po_action :: pending_action
  po_request_fingerprint :: string
  po_idempotency_key :: string
  po_intent_version :: int
  po_expected_ticket_version :: "int option"
  po_expected_appointment_version :: "int option"

section \<open>The state\<close>

record AgentState =
  st_thread_id :: uuid
  st_trace_id :: uuid
  st_actor_type :: actor_type
  st_actor_id :: uuid
  st_user_id :: uuid
  st_property_id :: "uuid option"
  st_property_context_verified :: bool
  st_active_ticket_id :: "uuid option"
  st_active_appointment_id :: "uuid option"
  st_cached_ticket_snapshot :: "CachedTicket option"
  st_task_intent :: agent_intent
  st_utterance_intent :: agent_intent
  st_intent_version :: int
  st_issue_category :: "issue_category option"
  st_issue_location :: "string option"
  st_normalized_issue_location :: "string option"
  st_issue_description :: "string option"
  st_severity :: "severity option"
  st_service_duration_minutes :: "int option"
  st_safety_flags :: "safety_flag list"
  st_user_availability_windows :: "UserWindow list"
  st_candidate_slots :: "CandidateSlot list"
  st_candidate_slots_fingerprint :: "string option"
  st_selected_candidate_slot :: "CandidateSlot option"
  st_duplicate_ticket_candidates :: "DuplicateCandidate list"
  st_duplicate_candidates_fingerprint :: "string option"
  st_missing_fields :: "issue_field list"
  st_policy_evidence_ids :: "uuid list"
  st_policy_conflict :: bool
  st_policy_sufficiency :: "evidence_sufficiency option"
  st_missing_policy_topics :: "policy_topic list"
  st_policy_retrieved_as_of :: "PyTime option"
  st_policy_query_fingerprint :: "string option"
  st_safety_review_required :: bool
  st_snapshot_refresh_required :: bool
  st_workflow_stage :: workflow_stage
  st_pending_action :: pending_action
  st_user_confirmation :: "bool option"
  st_ticket_snapshot_version :: "int option"
  st_appointment_version :: "int option"
  st_last_tool_result :: "ToolResultSummary option"
  st_pending_operation :: "PendingOperation option"
  st_pending_reconciliation_case_id :: "uuid option"
  st_pending_reconciliation_status :: "agent_reconciliation_status option"
  st_pending_reconciliation_action :: "pending_action option"
  st_conversation_messages :: "ConversationMessage list"
  st_current_user_message :: "string option"
  st_current_reference_time :: "PyTime option"
  st_current_timezone_name :: "string option"
  st_last_assistant_message :: "string option"
  st_retry_count :: int
  st_escalation_reason :: "string option"

section \<open>Validation\<close>

definition text_between :: "nat \<Rightarrow> nat \<Rightarrow> string \<Rightarrow> bool" where
  "text_between lo hi s \<longleftrightarrow> lo \<le> length s \<and> length s \<le> hi"

text \<open>The pattern \<open>^[0-9a-f]{64}$\<close>.\<close>

definition is_hex64 :: "string \<Rightarrow> bool" where
  "is_hex64 s \<longleftrightarrow> length s = 64 \<and> list_all (\<lambda>c. c \<in> set ''0123456789abcdef'') s"

definition window_ok :: "UserWindow \<Rightarrow> bool" where
  "window_ok w \<longleftrightarrow> uw_starts_at w < uw_ends_at w"

definition tool_result_ok :: "ToolResultSummary \<Rightarrow> bool" where
  "tool_result_ok r \<longleftrightarrow> text_between 1 64 (tl_result_code r) \<and> text_between 1 1000 (tl_message r) \<and>
     pred_option ((\<le>) 1) (tl_resource_version r)"

definition candidate_slot_ok :: "CandidateSlot \<Rightarrow> bool" where
  "candidate_slot_ok c \<longleftrightarrow> 1 \<le> cn_rank c \<and> cn_scheduled_start c < cn_scheduled_end c"

definition message_ok :: "ConversationMessage \<Rightarrow> bool" where
  "message_ok m \<longleftrightarrow> text_between 1 4000 (cv_content m)"

definition cached_appointment_ok :: "CachedAppointment \<Rightarrow> bool" where
  "cached_appointment_ok a \<longleftrightarrow> 1 \<le> ka_appointment_version a"

definition cached_ticket_ok :: "CachedTicket \<Rightarrow> bool" where
  "cached_ticket_ok t \<longleftrightarrow> 1 \<le> kt_ticket_version t \<and> 0 \<le> kt_rework_count t \<and>
     pred_option cached_appointment_ok (kt_active_appointment t)"

definition duplicate_ok :: "DuplicateCandidate \<Rightarrow> bool" where
  "duplicate_ok d \<longleftrightarrow> 1 \<le> du_ticket_version d \<and> text_between 1 255 (du_issue_location d)"

definition pending_operation_ok :: "PendingOperation \<Rightarrow> bool" where
  "pending_operation_ok op \<longleftrightarrow> is_hex64 (po_request_fingerprint op) \<and>
     text_between 1 128 (po_idempotency_key op) \<and> 1 \<le> po_intent_version op \<and>
     pred_option ((\<le>) 1) (po_expected_ticket_version op) \<and>
     pred_option ((\<le>) 1) (po_expected_appointment_version op)"

text \<open>A pydantic model raises when a constructor is given values outside its constraints.\<close>

definition checked :: "('a \<Rightarrow> bool) \<Rightarrow> 'a \<Rightarrow> 'a outcome" where
  "checked ok x = (if ok x then Inr x else Inl (Exn ValidationError [] []))"

lemma checked_Inr [inversion_simps]: "checked ok x = Inr y \<longleftrightarrow> ok x \<and> y = x"
  by (auto simp: checked_def)

definition normalize_issue_location :: "string option \<Rightarrow> string option" where
  "normalize_issue_location value =
     (case value of None \<Rightarrow> None
      | Some v \<Rightarrow> let normalized = join_with '' '' (split_words (lower (strip v)))
                 in if normalized = [] then None else Some normalized)"

definition compute_missing_fields ::
  "agent_intent \<Rightarrow> uuid option \<Rightarrow> issue_category option \<Rightarrow> string option \<Rightarrow> string option \<Rightarrow>
   UserWindow list \<Rightarrow> issue_field list" where
  "compute_missing_fields task_intent property_id category normalized_location description windows =
     (if task_intent = AI_NEW_REPAIR
      then (if property_id = None then [IF_PROPERTY] else []) @
           (if category = None then [IF_ISSUE_CATEGORY] else []) @
           (if normalized_location = None then [IF_ISSUE_LOCATION] else []) @
           (if description = None then [IF_ISSUE_DESCRIPTION] else [])
      else if task_intent = AI_RESCHEDULE_APPOINTMENT \<and> windows = [] then [IF_AVAILABILITY]
      else [])"

definition required_fields :: "AgentState \<Rightarrow> issue_field list" where
  "required_fields st = compute_missing_fields (st_task_intent st) (st_property_id st)
     (st_issue_category st) (st_normalized_issue_location st) (st_issue_description st)
     (st_user_availability_windows st)"

text \<open>The constraints of the fields, by subject, and the checks of the model validator.\<close>

definition issue_valid :: "AgentState \<Rightarrow> bool" where
  "issue_valid st \<longleftrightarrow>
     pred_option (text_between 1 255) (st_issue_location st) \<and>
     pred_option (text_between 1 255) (st_normalized_issue_location st) \<and>
     pred_option (text_between 1 4000) (st_issue_description st) \<and>
     pred_option (\<lambda>n. 0 < n \<and> n \<le> 1440) (st_service_duration_minutes st) \<and>
     length (st_safety_flags st) \<le> 10 \<and>
     length (st_user_availability_windows st) \<le> 20 \<and>
     list_all window_ok (st_user_availability_windows st) \<and>
     length (st_missing_fields st) \<le> 12 \<and> 1 \<le> st_intent_version st \<and>
     (st_property_context_verified st \<longrightarrow> st_property_id st \<noteq> None) \<and>
     st_normalized_issue_location st = normalize_issue_location (st_issue_location st) \<and>
     st_missing_fields st = required_fields st"

definition ticket_valid :: "AgentState \<Rightarrow> bool" where
  "ticket_valid st \<longleftrightarrow>
     pred_option (\<lambda>t. cached_ticket_ok t \<and> Some (kt_ticket_id t) = st_active_ticket_id st)
       (st_cached_ticket_snapshot st) \<and>
     pred_option ((\<le>) 1) (st_ticket_snapshot_version st) \<and>
     pred_option ((\<le>) 1) (st_appointment_version st)"

definition slots_valid :: "AgentState \<Rightarrow> bool" where
  "slots_valid st \<longleftrightarrow>
     length (st_candidate_slots st) \<le> 100 \<and> list_all candidate_slot_ok (st_candidate_slots st) \<and>
     pred_option is_hex64 (st_candidate_slots_fingerprint st) \<and>
     pred_option (\<lambda>c. c \<in> set (st_candidate_slots st)) (st_selected_candidate_slot st)"

definition duplicates_valid :: "AgentState \<Rightarrow> bool" where
  "duplicates_valid st \<longleftrightarrow>
     length (st_duplicate_ticket_candidates st) \<le> 20 \<and>
     list_all duplicate_ok (st_duplicate_ticket_candidates st) \<and>
     pred_option is_hex64 (st_duplicate_candidates_fingerprint st)"

definition policy_valid :: "AgentState \<Rightarrow> bool" where
  "policy_valid st \<longleftrightarrow>
     length (st_policy_evidence_ids st) \<le> 50 \<and> length (st_missing_policy_topics st) \<le> 9 \<and>
     pred_option is_hex64 (st_policy_query_fingerprint st)"

definition operation_valid :: "AgentState \<Rightarrow> bool" where
  "operation_valid st \<longleftrightarrow>
     pred_option tool_result_ok (st_last_tool_result st) \<and>
     pred_option pending_operation_ok (st_pending_operation st)"

definition conversation_valid :: "AgentState \<Rightarrow> bool" where
  "conversation_valid st \<longleftrightarrow>
     length (st_conversation_messages st) \<le> 100 \<and>
     list_all message_ok (st_conversation_messages st) \<and>
     distinct (map cv_message_id (st_conversation_messages st)) \<and>
     pred_option (text_between 1 4000) (st_current_user_message st) \<and>
     pred_option (text_between 1 64) (st_current_timezone_name st) \<and>
     pred_option (text_between 1 8000) (st_last_assistant_message st) \<and>
     0 \<le> st_retry_count st \<and> st_retry_count st \<le> 20 \<and>
     pred_option (text_between 1 1000) (st_escalation_reason st)"

definition valid_state :: "AgentState \<Rightarrow> bool" where
  "valid_state st \<longleftrightarrow> issue_valid st \<and> ticket_valid st \<and> slots_valid st \<and> duplicates_valid st \<and>
     policy_valid st \<and> operation_valid st \<and> conversation_valid st"

text \<open>Loading strips the texts that are declared with \<open>strip_whitespace\<close>, then validates.\<close>

definition stripped_texts :: "AgentState \<Rightarrow> AgentState" where
  "stripped_texts st = st\<lparr>st_issue_location := map_option strip (st_issue_location st),
     st_normalized_issue_location := map_option strip (st_normalized_issue_location st),
     st_issue_description := map_option strip (st_issue_description st)\<rparr>"

definition load_state :: "AgentState \<Rightarrow> AgentState outcome" where
  "load_state st = checked valid_state (stripped_texts st)"

text \<open>\<open>AgentState (\<dots>)\<close> with the default of every field that the caller leaves out.\<close>

definition new_state ::
  "uuid \<Rightarrow> uuid \<Rightarrow> actor_type \<Rightarrow> uuid \<Rightarrow> uuid \<Rightarrow> uuid option \<Rightarrow> string \<Rightarrow> PyTime \<Rightarrow> string \<Rightarrow> AgentState" where
  "new_state thread_id trace_id actor_type actor_id user_id property_id message reference_time timezone_name =
     \<lparr>st_thread_id = thread_id, st_trace_id = trace_id, st_actor_type = actor_type,
      st_actor_id = actor_id, st_user_id = user_id, st_property_id = property_id,
      st_property_context_verified = False, st_active_ticket_id = None, st_active_appointment_id = None,
      st_cached_ticket_snapshot = None, st_task_intent = AI_UNKNOWN, st_utterance_intent = AI_UNKNOWN,
      st_intent_version = 1, st_issue_category = None, st_issue_location = None,
      st_normalized_issue_location = None, st_issue_description = None, st_severity = None,
      st_service_duration_minutes = None, st_safety_flags = [], st_user_availability_windows = [],
      st_candidate_slots = [], st_candidate_slots_fingerprint = None, st_selected_candidate_slot = None,
      st_duplicate_ticket_candidates = [], st_duplicate_candidates_fingerprint = None,
      st_missing_fields = [], st_policy_evidence_ids = [], st_policy_conflict = False,
      st_policy_sufficiency = None, st_missing_policy_topics = [], st_policy_retrieved_as_of = None,
      st_policy_query_fingerprint = None, st_safety_review_required = False,
      st_snapshot_refresh_required = False, st_workflow_stage = WS_INTAKE, st_pending_action = PA_NONE,
      st_user_confirmation = None, st_ticket_snapshot_version = None, st_appointment_version = None,
      st_last_tool_result = None, st_pending_operation = None, st_pending_reconciliation_case_id = None,
      st_pending_reconciliation_status = None, st_pending_reconciliation_action = None,
      st_conversation_messages = [], st_current_user_message = Some message,
      st_current_reference_time = Some reference_time, st_current_timezone_name = Some timezone_name,
      st_last_assistant_message = None, st_retry_count = 0, st_escalation_reason = None\<rparr>"

section \<open>Messages\<close>

definition last_n :: "nat \<Rightarrow> 'a list \<Rightarrow> 'a list" where
  "last_n n xs = drop (length xs - n) xs"

text \<open>\<open>uuid5\<close> in the URL namespace is a parameter, as is the clock.\<close>

definition conversation_message_id :: "(string \<Rightarrow> uuid) \<Rightarrow> uuid \<Rightarrow> uuid \<Rightarrow> llm_role \<Rightarrow> uuid" where
  "conversation_message_id uuid5_url thread_id turn_id role =
     uuid5_url (join_with '':'' [''fixflow'', uuid_text thread_id, uuid_text turn_id, llm_role_value role])"

definition append_conversation_message ::
  "(string \<Rightarrow> uuid) \<Rightarrow> llm_role \<Rightarrow> string \<Rightarrow> uuid \<Rightarrow> PyTime \<Rightarrow> AgentState \<Rightarrow> AgentState outcome" where
  "append_conversation_message uuid5_url role content turn_id created_at st =
     (let message_id = conversation_message_id uuid5_url (st_thread_id st) turn_id role
      in if \<exists>m \<in> set (st_conversation_messages st). cv_message_id m = message_id then Inr st
         else bindE (checked message_ok
                \<lparr>cv_message_id = message_id, cv_role = role, cv_content = content,
                 cv_created_at = created_at, cv_turn_id = turn_id\<rparr>)
              (\<lambda>m. Inr (st\<lparr>st_conversation_messages :=
                          last_n 100 (st_conversation_messages st @ [m])\<rparr>)))"

definition utc_time :: "timestamp \<Rightarrow> PyTime" where
  "utc_time t = \<lparr>pt_instant = t, pt_offset = Some 0\<rparr>"

text \<open>\<open>updates\<close> are the further fields that the caller sets; the turn is that of the old state.\<close>

definition finish_with_assistant_message ::
  "(string \<Rightarrow> uuid) \<Rightarrow> timestamp \<Rightarrow> string \<Rightarrow> (AgentState \<Rightarrow> AgentState) \<Rightarrow> AgentState \<Rightarrow> AgentState outcome" where
  "finish_with_assistant_message uuid5_url now message updates st =
     append_conversation_message uuid5_url LR_ASSISTANT message (st_trace_id st) (utc_time now)
       ((updates st)\<lparr>st_last_assistant_message := Some message\<rparr>)"

end
