(* ===== verification/AgentMerge.thy ===== *)
theory AgentMerge
  imports AgentState
begin

text \<open>
  What a turn's interpretation does to the work state, after \<open>backend/app/agent/merge.py\<close>,
  \<open>agent_runtime/rules.py\<close> and the node \<open>agent_runtime/nodes/interpretation.py\<close>: facts are merged
  field by field, a change of the issue or of the goal starts a new intent version, and a new version
  or a new safety flag discards the plan that was made for the old one.
\<close>

section \<open>The output of the interpretation\<close>

record Interpretation =
  io_utterance_intent :: agent_intent
  io_issue_category :: "issue_category option"
  io_issue_location :: "string option"
  io_issue_description_update :: "string option"
  io_safety_flags :: "safety_flag list"
  io_user_availability_windows :: "UserWindow list"
  io_user_correction :: bool
  io_acceptance_decision :: "acceptance_decision option"
  io_requested_human :: bool
  io_explicit_property_reference :: "uuid option"
  io_model_suggested_missing_fields :: "issue_field list"

text \<open>What its pydantic model guarantees: texts are stripped and bounded, windows are not empty.\<close>

definition stripped_between :: "nat \<Rightarrow> nat \<Rightarrow> string \<Rightarrow> bool" where
  "stripped_between lo hi s \<longleftrightarrow> strip s = s \<and> text_between lo hi s"

definition interpretation_ok :: "Interpretation \<Rightarrow> bool" where
  "interpretation_ok out \<longleftrightarrow>
     pred_option (stripped_between 1 255) (io_issue_location out) \<and>
     pred_option (stripped_between 1 4000) (io_issue_description_update out) \<and>
     length (io_safety_flags out) \<le> 10 \<and> length (io_user_availability_windows out) \<le> 20 \<and>
     list_all window_ok (io_user_availability_windows out) \<and>
     length (io_model_suggested_missing_fields out) \<le> 12"

section \<open>Merging\<close>

definition task_intents :: "agent_intent set" where
  "task_intents = {AI_NEW_REPAIR, AI_QUERY_TICKET_STATUS, AI_RESCHEDULE_APPOINTMENT,
     AI_CANCEL_APPOINTMENT, AI_CANCEL_TICKET, AI_REQUEST_HUMAN}"

definition resolve_task_intent :: "agent_intent \<Rightarrow> agent_intent \<Rightarrow> agent_intent" where
  "resolve_task_intent current utterance = (if utterance \<in> task_intents then utterance else current)"

definition route_required_safety_review :: "AgentState \<Rightarrow> AgentState" where
  "route_required_safety_review st =
     (if st_safety_review_required st then st\<lparr>st_workflow_stage := WS_EMERGENCY_REVIEW\<rparr> else st)"

text \<open>\<open>new or old\<close> of Python for a list.\<close>

definition or_list :: "'a list \<Rightarrow> 'a list \<Rightarrow> 'a list" where
  "or_list new old = (if new = [] then old else new)"

definition or_option :: "'a option \<Rightarrow> 'a option \<Rightarrow> 'a option" where
  "or_option new old = (case new of None \<Rightarrow> old | Some x \<Rightarrow> Some x)"

text \<open>\<open>dict.fromkeys (xs)\<close>: the first occurrence of every element.\<close>

definition unique_firsts :: "'a list \<Rightarrow> 'a list" where
  "unique_firsts xs = rev (remdups (rev xs))"

definition category_changed :: "AgentState \<Rightarrow> Interpretation \<Rightarrow> bool" where
  "category_changed st out \<longleftrightarrow> io_issue_category out \<noteq> None \<and> st_issue_category st \<noteq> None \<and>
     io_issue_category out \<noteq> st_issue_category st"

definition merged_location :: "AgentState \<Rightarrow> Interpretation \<Rightarrow> string option" where
  "merged_location st out = or_option (io_issue_location out) (st_issue_location st)"

definition location_changed :: "AgentState \<Rightarrow> Interpretation \<Rightarrow> bool" where
  "location_changed st out \<longleftrightarrow>
     (let normalized = normalize_issue_location (merged_location st out)
      in normalized \<noteq> None \<and> st_normalized_issue_location st \<noteq> None \<and>
         normalized \<noteq> st_normalized_issue_location st)"

definition intent_changed :: "AgentState \<Rightarrow> Interpretation \<Rightarrow> bool" where
  "intent_changed st out \<longleftrightarrow> st_task_intent st \<noteq> AI_UNKNOWN \<and>
     resolve_task_intent (st_task_intent st) (io_utterance_intent out) \<noteq> st_task_intent st"

definition task_restarted :: "AgentState \<Rightarrow> Interpretation \<Rightarrow> bool" where
  "task_restarted st out \<longleftrightarrow> st_workflow_stage st = WS_DONE \<and> io_utterance_intent out \<in> task_intents"

definition version_changed :: "AgentState \<Rightarrow> Interpretation \<Rightarrow> bool" where
  "version_changed st out \<longleftrightarrow> category_changed st out \<or> location_changed st out \<or>
     intent_changed st out \<or> task_restarted st out"

definition new_safety :: "AgentState \<Rightarrow> Interpretation \<Rightarrow> bool" where
  "new_safety st out \<longleftrightarrow> (\<exists>f \<in> set (io_safety_flags out). f \<notin> set (st_safety_flags st))"

text \<open>The fields that always take the merged value.\<close>

definition merged_facts :: "AgentState \<Rightarrow> Interpretation \<Rightarrow> AgentState" where
  "merged_facts st out = st\<lparr>
     st_task_intent := resolve_task_intent (st_task_intent st) (io_utterance_intent out),
     st_utterance_intent := io_utterance_intent out,
     st_issue_category := or_option (io_issue_category out) (st_issue_category st),
     st_issue_location := merged_location st out,
     st_normalized_issue_location := normalize_issue_location (merged_location st out),
     st_issue_description := or_option (io_issue_description_update out) (st_issue_description st),
     st_safety_flags := unique_firsts (st_safety_flags st @ io_safety_flags out),
     st_user_availability_windows :=
       or_list (io_user_availability_windows out) (st_user_availability_windows st),
     st_intent_version := st_intent_version st + (if version_changed st out then 1 else 0)\<rparr>"

definition discard_plan :: "AgentState \<Rightarrow> AgentState" where
  "discard_plan st = st\<lparr>st_policy_evidence_ids := [], st_policy_conflict := False,
     st_policy_sufficiency := None, st_missing_policy_topics := [], st_policy_retrieved_as_of := None,
     st_policy_query_fingerprint := None, st_candidate_slots := [],
     st_candidate_slots_fingerprint := None, st_selected_candidate_slot := None,
     st_duplicate_ticket_candidates := [], st_duplicate_candidates_fingerprint := None,
     st_user_confirmation := None, st_pending_action := PA_NONE, st_pending_operation := None,
     st_last_tool_result := None\<rparr>"

definition restart_version :: "Interpretation \<Rightarrow> AgentState \<Rightarrow> AgentState" where
  "restart_version out st = st\<lparr>st_user_availability_windows := io_user_availability_windows out,
     st_service_duration_minutes := None, st_snapshot_refresh_required := True\<rparr>"

definition with_missing_fields :: "AgentState \<Rightarrow> AgentState" where
  "with_missing_fields st =
     (let missing = required_fields st; st' = st\<lparr>st_missing_fields := missing\<rparr>
      in if missing \<noteq> [] then st'\<lparr>st_workflow_stage := WS_NEED_INFO\<rparr> else st')"

definition merge_interpretation :: "AgentState \<Rightarrow> Interpretation \<Rightarrow> AgentState outcome" where
  "merge_interpretation st out =
     (if io_explicit_property_reference out \<noteq> None \<and>
         io_explicit_property_reference out \<noteq> st_property_id st
      then Inl (Exn StateMergeConflict ''LLM extraction cannot replace an authorized property'' [])
      else
        let st1 = merged_facts st out;
            st2 = (if version_changed st out \<or> new_safety st out then discard_plan st1 else st1);
            st3 = (if version_changed st out then restart_version out st2 else st2);
            st4 = (if new_safety st out then st3\<lparr>st_safety_review_required := True\<rparr> else st3)
        in Inr (with_missing_fields st4))"

section \<open>Deterministic rules\<close>

text \<open>\<open>_EXPLICIT_CLOCK.search\<close> looks for Chinese clock expressions and is a parameter. The reference time
  of a turn carries its offset, as comparing a naive one with an aware one raises.\<close>

definition naive :: "PyTime \<Rightarrow> bool" where
  "naive t \<longleftrightarrow> pt_offset t = None"

definition not_after :: "timestamp \<Rightarrow> PyTime \<Rightarrow> bool outcome" where
  "not_after t reference =
     (if naive reference
      then Inl (Exn PyTypeError ''can't compare offset-naive and offset-aware datetimes'' [])
      else Inr (t \<le> pt_instant reference))"

definition requested_clock_has_passed :: "(string \<Rightarrow> bool) \<Rightarrow> AgentState \<Rightarrow> bool outcome" where
  "requested_clock_has_passed explicit_clock st =
     (case (st_current_user_message st, st_current_reference_time st, st_user_availability_windows st) of
        (Some message, Some reference, window # _) \<Rightarrow>
          if explicit_clock message then not_after (uw_starts_at window) reference else Inr False
      | _ \<Rightarrow> Inr False)"

fun service_duration_minutes :: "issue_category \<Rightarrow> int" where
  "service_duration_minutes IC_WATER_LEAK = 60"
| "service_duration_minutes IC_ELECTRICAL = 60"
| "service_duration_minutes IC_DOOR_LOCK = 60"

definition resident_slot_result_limit :: int where
  "resident_slot_result_limit = 6"

definition apply_new_repair_defaults :: "AgentState \<Rightarrow> AgentState" where
  "apply_new_repair_defaults st =
     (let st1 = (case st_issue_category st of None \<Rightarrow> st
                 | Some c \<Rightarrow> st\<lparr>st_service_duration_minutes := Some (service_duration_minutes c)\<rparr>)
      in if st_task_intent st \<noteq> AI_NEW_REPAIR \<or> st_safety_review_required st \<or>
            st_issue_category st = None \<or> st_missing_fields st \<noteq> [] then st1
         else st1\<lparr>st_severity := Some (case (case st_cached_ticket_snapshot st of
                     Some t \<Rightarrow> Some (kt_severity t) | None \<Rightarrow> st_severity st) of
                   Some s \<Rightarrow> s | None \<Rightarrow> SV_MEDIUM)\<rparr>)"

end
