(* ===== verification/AgentTools.thy ===== *)
theory AgentTools
  imports AgentState
begin

text \<open>
  The tools of the agent, after \<open>backend/app/property_operations/contracts/\<close> (requests and responses),
  \<open>agent_runtime/mcp/client.py\<close> (one call) and \<open>mcp/delivery.py\<close> (what a response proves). The client
  turns every doubt about a mutation that was sent into \<open>UnknownCommit\<close>. Transport and session of MCP are
  parameters; trace events of a call are left out.
\<close>

section \<open>Contracts\<close>

datatype result_code =
    RES_FOUND | RES_CREATED | RES_UPDATED | RES_ALREADY_EXISTS | RES_NOT_FOUND | RES_VERSION_CONFLICT
  | RES_VALIDATION_ERROR | RES_PERMISSION_DENIED | RES_TIME_CONFLICT | RES_OPERATION_IN_PROGRESS
  | RES_IDEMPOTENCY_CONFLICT | RES_UNSUPPORTED_OPERATION | RES_UNKNOWN_COMMIT | RES_SERVICE_UNAVAILABLE
  | RES_INTERNAL_ERROR

fun result_code_value :: "result_code \<Rightarrow> string" where
  "result_code_value RES_FOUND = ''FOUND''"
| "result_code_value RES_CREATED = ''CREATED''"
| "result_code_value RES_UPDATED = ''UPDATED''"
| "result_code_value RES_ALREADY_EXISTS = ''ALREADY_EXISTS''"
| "result_code_value RES_NOT_FOUND = ''NOT_FOUND''"
| "result_code_value RES_VERSION_CONFLICT = ''VERSION_CONFLICT''"
| "result_code_value RES_VALIDATION_ERROR = ''VALIDATION_ERROR''"
| "result_code_value RES_PERMISSION_DENIED = ''PERMISSION_DENIED''"
| "result_code_value RES_TIME_CONFLICT = ''TIME_CONFLICT''"
| "result_code_value RES_OPERATION_IN_PROGRESS = ''OPERATION_IN_PROGRESS''"
| "result_code_value RES_IDEMPOTENCY_CONFLICT = ''IDEMPOTENCY_CONFLICT''"
| "result_code_value RES_UNSUPPORTED_OPERATION = ''UNSUPPORTED_OPERATION''"
| "result_code_value RES_UNKNOWN_COMMIT = ''UNKNOWN_COMMIT''"
| "result_code_value RES_SERVICE_UNAVAILABLE = ''SERVICE_UNAVAILABLE''"
| "result_code_value RES_INTERNAL_ERROR = ''INTERNAL_ERROR''"

record ReadRequest =
  rq_actor_type :: actor_type
  rq_actor_id :: uuid
  rq_trace_id :: uuid

record MutationRequest = ReadRequest +
  rq_idempotency_key :: string
  rq_run_id :: "uuid option"
  rq_thread_id :: "uuid option"
  rq_operation_id :: "uuid option"
  rq_request_fingerprint :: "string option"

text \<open>The answer of a tool; of its error only the code is read.\<close>

record 'd ToolResponse =
  rsp_contract_version :: string
  rsp_result_code :: result_code
  rsp_message :: string
  rsp_data :: "'d option"
  rsp_error_code :: "string option"

definition tool_contract_version :: string where
  "tool_contract_version = ''1.0''"

record MutationResultData =
  mu_operation_id :: "uuid option"
  mu_action :: "string option"
  mu_resource_type :: string
  mu_resource_id :: uuid
  mu_resource_version :: "int option"
  mu_replayed :: bool
  mu_ticket_status :: "string option"
  mu_ticket_version :: "int option"
  mu_appointment_status :: "string option"
  mu_appointment_version :: "int option"

definition mutation_data_ok :: "MutationResultData \<Rightarrow> bool" where
  "mutation_data_ok m \<longleftrightarrow>
     pred_option (\<lambda>a. a \<in> {''CREATE_TICKET'', ''BOOK_APPOINTMENT'', ''RESCHEDULE_APPOINTMENT'',
       ''ESCALATE_TO_OPERATOR''}) (mu_action m) \<and>
     pred_option ((\<le>) 1) (mu_resource_version m) \<and> pred_option ((\<le>) 1) (mu_ticket_version m) \<and>
     pred_option ((\<le>) 1) (mu_appointment_version m)"

record GetResidentPropertyRequest = ReadRequest +
  gr_resident_id :: uuid
  gr_property_id :: uuid

record ResidentPropertyData =
  rf_resident_id :: uuid
  rf_property_id :: uuid
  rf_community_name :: string
  rf_building_no :: string
  rf_unit_no :: string
  rf_room_no :: string
  rf_address_text :: string

record FindOpenRequest = ReadRequest +
  fq_resident_id :: uuid
  fq_property_id :: uuid
  fq_issue_category :: issue_category
  fq_normalized_issue_location :: string

definition find_open_request_ok :: "FindOpenRequest \<Rightarrow> bool" where
  "find_open_request_ok r \<longleftrightarrow> text_between 1 255 (fq_normalized_issue_location r)"

record OpenTicketItem =
  ot_ticket_id :: uuid
  ot_ticket_version :: int
  ot_resident_id :: uuid
  ot_property_id :: uuid
  ot_issue_category :: issue_category
  ot_issue_location :: string
  ot_severity :: severity
  ot_ticket_status :: ticket_status
  ot_rework_count :: int

record ActiveAppointmentData =
  aa_appointment_id :: uuid
  aa_worker_id :: uuid
  aa_purpose :: string
  aa_appointment_status :: string
  aa_scheduled_start :: timestamp
  aa_scheduled_end :: timestamp
  aa_appointment_version :: int

record LatestWorkerEventData =
  lw_event_id :: uuid
  lw_event_type :: worker_event_type
  lw_sequence_no :: int
  lw_subject_worker_id :: uuid

record TicketSnapshotData =
  sn_ticket_id :: uuid
  sn_ticket_version :: int
  sn_resident_id :: uuid
  sn_property_id :: uuid
  sn_issue_category :: issue_category
  sn_issue_location :: string
  sn_severity :: severity
  sn_ticket_status :: ticket_status
  sn_rework_count :: int
  sn_escalated_from_status :: "ticket_status option"
  sn_active_appointment :: "ActiveAppointmentData option"
  sn_latest_worker_event :: "LatestWorkerEventData option"

record GetTicketSnapshotRequest = ReadRequest +
  gt_ticket_id :: uuid

record CreateRepairTicketRequest = MutationRequest +
  cq_resident_id :: uuid
  cq_property_id :: uuid
  cq_issue_category :: issue_category
  cq_issue_location :: string
  cq_issue_description :: string
  cq_severity :: severity
  cq_allow_duplicate :: bool

record ListSlotsRequest = ReadRequest +
  lq_property_id :: uuid
  lq_issue_category :: issue_category
  lq_search_window_start :: timestamp
  lq_search_window_end :: timestamp
  lq_requested_duration_minutes :: int
  lq_max_results :: int
  lq_excluded_appointment_id :: "uuid option"

definition list_slots_request_ok :: "ListSlotsRequest \<Rightarrow> bool" where
  "list_slots_request_ok r \<longleftrightarrow> lq_search_window_start r < lq_search_window_end r \<and>
     0 < lq_requested_duration_minutes r \<and> lq_requested_duration_minutes r \<le> 1440 \<and>
     1 \<le> lq_max_results r \<and> lq_max_results r \<le> 100"

record AvailableSlotItem =
  vs_worker_id :: uuid
  vs_worker_name :: string
  vs_skill_type :: worker_skill_type
  vs_service_area :: string
  vs_service_area_matched :: bool
  vs_scheduled_start :: timestamp
  vs_scheduled_end :: timestamp
  vs_open_ticket_count :: int
  vs_rank :: int
  vs_slot_granularity_minutes :: int

record BookAppointmentRequest = MutationRequest +
  bq_ticket_id :: uuid
  bq_worker_id :: uuid
  bq_scheduled_start :: timestamp
  bq_scheduled_end :: timestamp
  bq_expected_version :: int

definition book_request_ok :: "BookAppointmentRequest \<Rightarrow> bool" where
  "book_request_ok r \<longleftrightarrow> bq_scheduled_start r < bq_scheduled_end r \<and> 1 \<le> bq_expected_version r"

record RescheduleAppointmentRequest = MutationRequest +
  sq_ticket_id :: uuid
  sq_appointment_id :: uuid
  sq_worker_id :: uuid
  sq_scheduled_start :: timestamp
  sq_scheduled_end :: timestamp
  sq_expected_version :: int
  sq_expected_appointment_version :: int

definition reschedule_request_ok :: "RescheduleAppointmentRequest \<Rightarrow> bool" where
  "reschedule_request_ok r \<longleftrightarrow> sq_scheduled_start r < sq_scheduled_end r \<and>
     1 \<le> sq_expected_version r \<and> 1 \<le> sq_expected_appointment_version r"

definition require_data :: "'d ToolResponse \<Rightarrow> 'd outcome" where
  "require_data response =
     (if rsp_result_code response \<notin> {RES_FOUND, RES_CREATED, RES_UPDATED}
      then Inl (Exn MCPToolResultError
        (case rsp_error_code response of Some c \<Rightarrow> c
         | None \<Rightarrow> result_code_value (rsp_result_code response)) [])
      else case rsp_data response of
             None \<Rightarrow> Inl (Exn MCPToolResultError ''MCP_CONTRACT_VIOLATION'' [])
           | Some d \<Rightarrow> Inr d)"

section \<open>What a response proves\<close>

datatype delivery = DC_KNOWN_SUCCESS | DC_KNOWN_FAILURE | DC_NOT_SENT | DC_UNKNOWN_COMMIT

definition known_success_codes :: "result_code set" where
  "known_success_codes = {RES_CREATED, RES_UPDATED}"

definition known_failure_codes :: "result_code set" where
  "known_failure_codes = {RES_PERMISSION_DENIED, RES_NOT_FOUND, RES_VERSION_CONFLICT, RES_TIME_CONFLICT,
     RES_IDEMPOTENCY_CONFLICT, RES_VALIDATION_ERROR, RES_UNSUPPORTED_OPERATION, RES_ALREADY_EXISTS,
     RES_OPERATION_IN_PROGRESS}"

definition classify_validated_mutation_result :: "result_code \<Rightarrow> delivery" where
  "classify_validated_mutation_result code =
     (if code \<in> known_success_codes then DC_KNOWN_SUCCESS
      else if code \<in> known_failure_codes then DC_KNOWN_FAILURE else DC_UNKNOWN_COMMIT)"

definition classify_application_mutation_result :: "bool \<Rightarrow> string \<Rightarrow> delivery" where
  "classify_application_mutation_result ok code =
     (if ok then DC_KNOWN_SUCCESS
      else if code \<in> {''ticket_not_found'', ''version_conflict'', ''permission_denied'',
        ''operator_not_authorized'', ''idempotency_payload_conflict'',
        ''idempotency_request_in_progress'', ''validation_error''}
      then DC_KNOWN_FAILURE else DC_UNKNOWN_COMMIT)"

section \<open>One call\<close>

text \<open>What the session hands back after the call was sent: an exception, a result without structured
  content, content that the response model rejects, or a response.\<close>

datatype 'd transport =
    TR_raised exn
  | TR_empty
  | TR_invalid
  | TR_response "'d ToolResponse"

text \<open>The fault points of a mutation: an armed fault raises its exception.\<close>

record CallFaults =
  cf_before_send :: "exn option"
  cf_after_send :: "exn option"
  cf_before_validation :: "exn option"
  cf_before_checkpoint :: "exn option"

definition approved_tool_names :: "string set" where
  "approved_tool_names = {''get_resident_property'', ''find_open_repair_tickets'',
     ''create_repair_ticket'', ''get_ticket_snapshot'', ''list_available_slots'', ''book_appointment'',
     ''reschedule_appointment'', ''escalate_to_operator'', ''get_operation_outcome''}"

definition operation_id_of :: "(string \<Rightarrow> uuid) \<Rightarrow> 'a MutationRequest_scheme \<Rightarrow> uuid" where
  "operation_id_of uuid5_url request =
     (case rq_operation_id request of Some u \<Rightarrow> u
      | None \<Rightarrow> uuid5_url (join_with '':'' [''fixflow'', ''operation'', actor_type_value (rq_actor_type request),
           uuid_text (rq_actor_id request), rq_idempotency_key request]))"

text \<open>The identity that goes with a mutation: its operation, and the run it belongs to.\<close>

definition outbound :: "(uuid \<times> uuid) option \<Rightarrow> uuid \<Rightarrow> 'a MutationRequest_scheme \<Rightarrow> 'a MutationRequest_scheme" where
  "outbound context operation_id request =
     (case context of None \<Rightarrow> request\<lparr>rq_operation_id := Some operation_id\<rparr>
      | Some (run_id, thread_id) \<Rightarrow> request\<lparr>rq_operation_id := Some operation_id,
           rq_run_id := Some run_id, rq_thread_id := Some thread_id\<rparr>)"

text \<open>A read: its transport errors are typed, its response is only checked for the version.\<close>

definition call_read :: "string \<Rightarrow> 'd transport \<Rightarrow> 'd ToolResponse outcome" where
  "call_read tool_name transport =
     (if tool_name \<notin> approved_tool_names then Inl (Exn MCPToolNotFound tool_name [])
      else case transport of
        TR_raised e \<Rightarrow> Inl (case exn_class e of PyTimeoutError \<Rightarrow> Exn MCPTimeout tool_name []
                       | PyConnectionError \<Rightarrow> Exn MCPUnavailable tool_name [] | _ \<Rightarrow> e)
      | TR_empty \<Rightarrow> Inl (Exn MCPClientError tool_name [])
      | TR_invalid \<Rightarrow> Inl (Exn MCPContractViolation tool_name [])
      | TR_response response \<Rightarrow>
          if rsp_contract_version response \<noteq> tool_contract_version
          then Inl (Exn MCPContractViolation tool_name []) else Inr response)"

definition expected_action :: "string \<Rightarrow> string" where
  "expected_action tool_name =
     (if tool_name = ''create_repair_ticket'' then ''CREATE_TICKET''
      else if tool_name = ''book_appointment'' then ''BOOK_APPOINTMENT''
      else if tool_name = ''reschedule_appointment'' then ''RESCHEDULE_APPOINTMENT''
      else ''ESCALATE_TO_OPERATOR'')"

definition unknown_commit :: "uuid \<Rightarrow> string \<Rightarrow> exn" where
  "unknown_commit operation_id tool_name =
     Exn UnknownCommit ''UNKNOWN_COMMIT'' [(''operation_id'', PUuid operation_id), (''action'', PStr tool_name)]"

definition names_operation :: "uuid \<Rightarrow> string \<Rightarrow> MutationResultData ToolResponse \<Rightarrow> bool" where
  "names_operation operation_id action response \<longleftrightarrow>
     (\<exists>m \<in> set_option (rsp_data response). mu_operation_id m = Some operation_id \<and> mu_action m = Some action)"

text \<open>A mutation: after it was sent, anything but a proof of its outcome is an unknown commit.\<close>

definition call_mutation ::
  "CallFaults \<Rightarrow> string \<Rightarrow> uuid \<Rightarrow> MutationResultData transport \<Rightarrow> MutationResultData ToolResponse outcome" where
  "call_mutation faults tool_name operation_id transport =
     (let unknown = unknown_commit operation_id tool_name
      in if tool_name \<notin> approved_tool_names then Inl (Exn MCPToolNotFound tool_name [])
      else if cf_before_send faults \<noteq> None then Inl (Exn MutationNotSent ''NOT_SENT'' [])
      else case transport of
        TR_raised e \<Rightarrow> Inl unknown
      | _ \<Rightarrow>
        if cf_after_send faults \<noteq> None \<or> cf_before_validation faults \<noteq> None then Inl unknown
        else case transport of
          TR_response response \<Rightarrow>
            if rsp_contract_version response \<noteq> tool_contract_version \<or>
               classify_validated_mutation_result (rsp_result_code response) = DC_UNKNOWN_COMMIT \<or>
               classify_validated_mutation_result (rsp_result_code response) = DC_KNOWN_SUCCESS \<and>
               \<not> names_operation operation_id (expected_action tool_name) response \<or>
               cf_before_checkpoint faults \<noteq> None
            then Inl unknown else Inr response
        | _ \<Rightarrow> Inl unknown)"

text \<open>Every answer to a mutation that was sent is a proof: a success that names this operation and this
  action, or a failure after which nothing was written.\<close>

lemma call_mutation_Inr:
  assumes "call_mutation faults tool_name operation_id transport = Inr response"
  shows "transport = TR_response response \<and> tool_name \<in> approved_tool_names \<and>
    (rsp_result_code response \<in> known_success_codes \<and>
       names_operation operation_id (expected_action tool_name) response \<or>
     rsp_result_code response \<in> known_failure_codes)"
  using assms
  by (cases transport)
    (auto simp: call_mutation_def Let_def classify_validated_mutation_result_def split: if_splits)

lemma call_mutation_Inl:
  assumes "call_mutation faults tool_name operation_id transport = Inl e"
    and "tool_name \<in> approved_tool_names" and "cf_before_send faults = None"
  shows "e = unknown_commit operation_id tool_name"
  using assms by (cases transport) (auto simp: call_mutation_def Let_def split: if_splits)

end
