(* ===== verification/Policy.thy ===== *)
theory Policy
  imports Complex_Main AgentState Reliability "HOL-Library.Product_Lexorder"
begin

text \<open>
  Retrieval of policy evidence, after \<open>backend/app/policy/\<close> and its repository
  \<open>infrastructure/database/repositories/policy.py\<close>: the import of versioned documents, the filter of
  effective ones, the fusion of the vector and the lexical ranking, conflicts between decisions,
  sufficiency, and the merge of a result into the agent's state.

  Scores are exact rationals where the code has floats. Embeddings, their cosine distance and the
  JSON of a document are parameters; normalisation is that of ASCII text.
\<close>

section \<open>Models\<close>

record EmbeddingProfile =
  pf_provider :: string
  pf_model :: string
  pf_dimension :: int
  pf_profile_version :: string

record PolicyChunkInput =
  pj_content :: string
  pj_search_terms :: "string list"
  pj_decision_key :: "string option"
  pj_decision_value :: "string option"

record PolicyDocumentInput =
  pi_policy_code :: string
  pi_title :: string
  pi_issue_category :: "issue_category option"
  pi_policy_topic :: policy_topic
  pi_version :: int
  pi_authority_rank :: int
  pi_effective_from :: timestamp
  pi_effective_to :: "timestamp option"
  pi_source_name :: string
  pi_source_reference :: string
  pi_is_enabled :: bool
  pi_chunks :: "PolicyChunkInput list"

record PolicyRequest =
  pq_query_text :: string
  pq_issue_category :: issue_category
  pq_policy_topics :: "policy_topic list"
  pq_as_of :: PyTime
  pq_intent_version :: int
  pq_top_k :: int
  pq_minimum_vector_similarity :: rat
  pq_minimum_fusion_score :: rat
  pq_trace_id :: uuid

record PolicyCandidate =
  pc_chunk_id :: uuid
  pc_document_id :: uuid
  pc_policy_code :: string
  pc_policy_version :: int
  pc_title :: string
  pc_issue_category :: "issue_category option"
  pc_policy_topic :: policy_topic
  pc_content :: string
  pc_search_terms :: "string list"
  pc_source_name :: string
  pc_source_reference :: string
  pc_effective_from :: timestamp
  pc_effective_to :: "timestamp option"
  pc_authority_rank :: int
  pc_decision_key :: "string option"
  pc_decision_value :: "string option"
  pc_vector_similarity :: rat

record PolicyEvidence =
  pe_evidence_id :: uuid
  pe_document_id :: uuid
  pe_policy_code :: string
  pe_policy_version :: int
  pe_title :: string
  pe_issue_category :: "issue_category option"
  pe_policy_topic :: policy_topic
  pe_content_excerpt :: string
  pe_source_name :: string
  pe_source_reference :: string
  pe_effective_from :: timestamp
  pe_effective_to :: "timestamp option"
  pe_authority_rank :: int
  pe_vector_similarity :: "rat option"
  pe_vector_rank :: "nat option"
  pe_lexical_score :: "rat option"
  pe_lexical_rank :: "nat option"
  pe_fusion_score :: rat
  pe_decision_key :: "string option"
  pe_decision_value :: "string option"
  pe_retrieved_as_of :: PyTime
  pe_instruction_like :: bool

record PolicyConflict =
  px_decision_key :: string
  px_conflicting_values :: "string list"
  px_evidence_ids :: "uuid list"

record PolicyResult =
  pz_evidence :: "PolicyEvidence list"
  pz_conflicts :: "PolicyConflict list"
  pz_sufficiency :: evidence_sufficiency
  pz_missing_policy_topics :: "policy_topic list"
  pz_retrieved_as_of :: PyTime
  pz_intent_version :: int
  pz_issue_category :: issue_category
  pz_requested_policy_topics :: "policy_topic list"
  pz_embedding_profile :: EmbeddingProfile
  pz_policy_query_fingerprint :: string

definition policy_embedding_dimension :: int where
  "policy_embedding_dimension = 384"

text \<open>\<open>PolicyRetrievalRequest (\<dots>)\<close>: the query is stripped and at most 2000 characters long.\<close>

definition policy_request_ok :: "PolicyRequest \<Rightarrow> bool" where
  "policy_request_ok q \<longleftrightarrow> text_between 1 2000 (pq_query_text q) \<and>
     1 \<le> length (pq_policy_topics q) \<and> length (pq_policy_topics q) \<le> 9 \<and>
     distinct (pq_policy_topics q) \<and> pt_offset (pq_as_of q) \<noteq> None \<and> 1 \<le> pq_intent_version q \<and>
     1 \<le> pq_top_k q \<and> pq_top_k q \<le> 20 \<and>
     - 1 \<le> pq_minimum_vector_similarity q \<and> pq_minimum_vector_similarity q \<le> 1 \<and>
     0 \<le> pq_minimum_fusion_score q \<and> pq_minimum_fusion_score q \<le> 1"

definition make_policy_request :: "PolicyRequest \<Rightarrow> PolicyRequest outcome" where
  "make_policy_request q = checked policy_request_ok (q\<lparr>pq_query_text := strip (pq_query_text q)\<rparr>)"

section \<open>Parameters\<close>

record PolicyEnv =
  pv_sha256 :: "string \<Rightarrow> string"
  pv_uuid5_policy :: "string \<Rightarrow> uuid"
  pv_document_json :: "PolicyDocumentInput \<Rightarrow> string"
  pv_instruction_markers :: "string list"
  pv_profile :: EmbeddingProfile
  pv_embed_documents :: "string list \<Rightarrow> (rat list \<times> EmbeddingProfile) list outcome"
  pv_embed_query :: "string \<Rightarrow> (rat list \<times> EmbeddingProfile) outcome"
  pv_cosine_distance :: "rat list \<Rightarrow> rat list \<Rightarrow> rat"

text \<open>A transport error of the provider becomes an \<open>EmbeddingProviderError\<close>.\<close>

definition embedded :: "'a outcome \<Rightarrow> 'a outcome" where
  "embedded m = (case m of
     Inl e \<Rightarrow> if exn_class e \<in> {PyTimeoutError, PyConnectionError}
              then Inl (Exn EmbeddingProviderError ''embedding provider unavailable'' []) else Inl e
   | Inr x \<Rightarrow> Inr x)"

section \<open>Tables\<close>

record PolicyDocument =
  pd_id :: uuid
  pd_input :: PolicyDocumentInput
  pd_content_hash :: string
  pd_profile :: EmbeddingProfile

record PolicyChunk =
  pk_id :: uuid
  pk_document_id :: uuid
  pk_chunk_index :: nat
  pk_chunk :: PolicyChunkInput
  pk_embedding :: "rat list"

record PolicyDb =
  pb_documents :: "PolicyDocument list"
  pb_chunks :: "PolicyChunk list"

text \<open>Do the half-open periods of two documents overlap?\<close>

definition periods_overlap :: "PolicyDocumentInput \<Rightarrow> PolicyDocumentInput \<Rightarrow> bool" where
  "periods_overlap a b \<longleftrightarrow>
     (case pi_effective_to a of None \<Rightarrow> True | Some t \<Rightarrow> pi_effective_from b < t) \<and>
     (case pi_effective_to b of None \<Rightarrow> True | Some t \<Rightarrow> pi_effective_from a < t)"

definition integrity :: "string \<Rightarrow> exn" where
  "integrity cname = Exn IntegrityError cname []"

definition policy_document_checks :: "PolicyDocument \<Rightarrow> PolicyDb \<Rightarrow> (bool \<times> exn) list" where
  "policy_document_checks r d =
     (let p = pd_input r; code = pi_policy_code p in
      [(0 < pi_version p, integrity ''version_positive''),
       (1 \<le> pi_authority_rank p \<and> pi_authority_rank p \<le> 100, integrity ''authority_rank_range''),
       (pred_option (\<lambda>t. pi_effective_from p < t) (pi_effective_to p), integrity ''effective_period_valid''),
       (btrim code \<noteq> [] \<and> btrim (pi_title p) \<noteq> [], integrity ''identity_present''),
       (is_hex64 (pd_content_hash r), integrity ''content_hash_sha256''),
       (btrim (pf_provider (pd_profile r)) \<noteq> [] \<and> btrim (pf_model (pd_profile r)) \<noteq> [] \<and>
        btrim (pf_profile_version (pd_profile r)) \<noteq> [], integrity ''embedding_profile_present''),
       (pf_dimension (pd_profile r) = policy_embedding_dimension, integrity ''embedding_dimension_fixed''),
       (pd_id r \<notin> set (map pd_id (pb_documents d)), integrity ''pk_policy_documents''),
       (\<nexists>x. x \<in> set (pb_documents d) \<and> pi_policy_code (pd_input x) = code \<and>
           pi_version (pd_input x) = pi_version p, integrity ''uq_policy_documents_code_version''),
       (\<nexists>x. x \<in> set (pb_documents d) \<and> pi_policy_code (pd_input x) = code \<and>
           periods_overlap (pd_input x) p,
        Exn PolicyEffectivePeriodConflict ''policy effective-period conflict'' [])])"

definition policy_chunk_checks :: "PolicyChunk \<Rightarrow> PolicyDb \<Rightarrow> (bool \<times> exn) list" where
  "policy_chunk_checks r d =
     [(btrim (pj_content (pk_chunk r)) \<noteq> [], integrity ''content_present''),
      (pj_search_terms (pk_chunk r) \<noteq> [], integrity ''search_terms_present''),
      ((pj_decision_key (pk_chunk r) = None) = (pj_decision_value (pk_chunk r) = None),
       integrity ''decision_pair_consistent''),
      (pk_id r \<notin> set (map pk_id (pb_chunks d)), integrity ''pk_policy_chunks''),
      (\<nexists>x. x \<in> set (pb_chunks d) \<and> pk_document_id x = pk_document_id r \<and>
          pk_chunk_index x = pk_chunk_index r, integrity ''uq_policy_chunks_document_chunk''),
      (pk_document_id r \<in> set (map pd_id (pb_documents d)), integrity ''fk_policy_chunks_document_id'')]"

fun insert_chunks :: "PolicyChunk list \<Rightarrow> PolicyDb \<Rightarrow> PolicyDb outcome" where
  "insert_chunks [] d = Inr d"
| "insert_chunks (r # rs) d =
     bindE (flush (policy_chunk_checks r d) (d\<lparr>pb_chunks := pb_chunks d @ [r]\<rparr>)) (insert_chunks rs)"

section \<open>Import\<close>

definition policy_content_hash :: "PolicyEnv \<Rightarrow> PolicyDocumentInput \<Rightarrow> string" where
  "policy_content_hash env p = pv_sha256 env (pv_document_json env p)"

definition policy_document_id :: "PolicyEnv \<Rightarrow> PolicyDocumentInput \<Rightarrow> string \<Rightarrow> uuid" where
  "policy_document_id env p content_hash = pv_uuid5_policy env
     (join_with '':'' [''document'', pi_policy_code p, int_text (pi_version p), content_hash])"

definition policy_chunk_id :: "PolicyEnv \<Rightarrow> PolicyDocumentInput \<Rightarrow> string \<Rightarrow> nat \<Rightarrow> uuid" where
  "policy_chunk_id env p content_hash chunk_index = pv_uuid5_policy env
     (join_with '':'' [''chunk'', pi_policy_code p, int_text (pi_version p), nat_text chunk_index,
        content_hash])"

definition get_identity :: "string \<Rightarrow> int \<Rightarrow> PolicyDb \<Rightarrow> PolicyDocument option" where
  "get_identity policy_code version d =
     find (\<lambda>r. pi_policy_code (pd_input r) = policy_code \<and> pi_version (pd_input r) = version) (pb_documents d)"

record PolicyImportResult =
  pw_document_id :: uuid
  pw_content_hash :: string
  pw_chunk_count :: nat
  pw_replayed :: bool

definition validate_replay ::
  "PolicyDocument \<Rightarrow> string \<Rightarrow> EmbeddingProfile \<Rightarrow> PolicyDocumentInput \<Rightarrow> PolicyImportResult outcome" where
  "validate_replay existing content_hash profile p =
     (if pd_content_hash existing \<noteq> content_hash
      then Inl (Exn PolicyImportConflict
        ''the same policy code and version already has different content'' [])
      else if pd_profile existing \<noteq> profile
      then Inl (Exn EmbeddingProfileConflict
        ''the same policy content was imported with a different embedding profile'' [])
      else Inr \<lparr>pw_document_id = pd_id existing, pw_content_hash = content_hash,
                pw_chunk_count = length (pi_chunks p), pw_replayed = True\<rparr>)"

definition chunk_rows ::
  "PolicyEnv \<Rightarrow> PolicyDocumentInput \<Rightarrow> string \<Rightarrow> uuid \<Rightarrow> (rat list \<times> EmbeddingProfile) list \<Rightarrow> PolicyChunk list"
where
  "chunk_rows env p content_hash document_id embeddings =
     map (\<lambda>(i, chunk, vector, _). \<lparr>pk_id = policy_chunk_id env p content_hash i,
            pk_document_id = document_id, pk_chunk_index = i, pk_chunk = chunk, pk_embedding = vector\<rparr>)
       (zip [0..<length (pi_chunks p)] (zip (pi_chunks p) embeddings))"

definition check_embeddings ::
  "PolicyEnv \<Rightarrow> PolicyDocumentInput \<Rightarrow> (rat list \<times> EmbeddingProfile) list \<Rightarrow> unit outcome" where
  "check_embeddings env p embeddings =
     (if length embeddings \<noteq> length (pi_chunks p)
      then Inl (Exn EmbeddingProviderError ''embedding provider returned an unexpected batch size'' [])
      else if \<exists>e \<in> set embeddings. int (length (fst e)) \<noteq> policy_embedding_dimension
      then Inl (Exn EmbeddingDimensionMismatch ''embedding result dimension mismatch'' [])
      else if \<exists>e \<in> set embeddings. snd e \<noteq> pv_profile env
      then Inl (Exn EmbeddingProfileConflict ''embedding batch returned inconsistent profiles'' [])
      else Inr ())"

text \<open>The second transaction sees \<open>d'\<close>: what other imports have committed while the provider worked.\<close>

definition import_document ::
  "PolicyEnv \<Rightarrow> PolicyDocumentInput \<Rightarrow> PolicyDb \<Rightarrow> PolicyDb \<Rightarrow> (PolicyImportResult \<times> PolicyDb) outcome" where
  "import_document env p d d' =
     (let content_hash = policy_content_hash env p; profile = pv_profile env;
          replay = (\<lambda>existing. bindE (validate_replay existing content_hash profile p) (\<lambda>r. Inr (r, d')))
      in if pf_dimension profile \<noteq> policy_embedding_dimension
         then Inl (Exn EmbeddingDimensionMismatch ''embedding provider profile dimension mismatch'' [])
         else case get_identity (pi_policy_code p) (pi_version p) d of
           Some existing \<Rightarrow> replay existing
         | None \<Rightarrow>
             bindE (embedded (pv_embed_documents env (map pj_content (pi_chunks p))))
             (\<lambda>embeddings. bindE (check_embeddings env p embeddings)
             (\<lambda>_. case get_identity (pi_policy_code p) (pi_version p) d' of
                Some existing \<Rightarrow> replay existing
              | None \<Rightarrow>
                  let document_id = policy_document_id env p content_hash;
                      row = \<lparr>pd_id = document_id, pd_input = p, pd_content_hash = content_hash,
                             pd_profile = profile\<rparr>
                  in bindE (flush (policy_document_checks row d')
                             (d'\<lparr>pb_documents := pb_documents d' @ [row]\<rparr>))
                     (\<lambda>d1. bindE (insert_chunks (chunk_rows env p content_hash document_id embeddings) d1)
                     (\<lambda>d2. Inr (\<lparr>pw_document_id = document_id, pw_content_hash = content_hash,
                                  pw_chunk_count = length (pi_chunks p), pw_replayed = False\<rparr>, d2))))))"

section \<open>Effective documents\<close>

definition is_policy_effective :: "PolicyDocumentInput \<Rightarrow> timestamp \<Rightarrow> bool" where
  "is_policy_effective p as_of \<longleftrightarrow> pi_is_enabled p \<and> pi_effective_from p \<le> as_of \<and>
     (case pi_effective_to p of None \<Rightarrow> True | Some t \<Rightarrow> as_of < t)"

definition effective_filters ::
  "issue_category \<Rightarrow> policy_topic list \<Rightarrow> timestamp \<Rightarrow> PolicyDocumentInput \<Rightarrow> bool" where
  "effective_filters category topics as_of p \<longleftrightarrow>
     pi_is_enabled p \<and> (pi_issue_category p = Some category \<or> pi_issue_category p = None) \<and>
     pi_policy_topic p \<in> set topics \<and> pi_effective_from p \<le> as_of \<and>
     (case pi_effective_to p of None \<Rightarrow> True | Some t \<Rightarrow> as_of < t)"

definition list_effective_profiles ::
  "issue_category \<Rightarrow> policy_topic list \<Rightarrow> timestamp \<Rightarrow> PolicyDb \<Rightarrow> EmbeddingProfile list" where
  "list_effective_profiles category topics as_of d =
     remdups (map pd_profile (filter (\<lambda>r. effective_filters category topics as_of (pd_input r)) (pb_documents d)))"

definition candidate_of :: "PolicyEnv \<Rightarrow> rat list \<Rightarrow> PolicyChunk \<Rightarrow> PolicyDocument \<Rightarrow> PolicyCandidate" where
  "candidate_of env query chunk document =
     (let p = pd_input document in
      \<lparr>pc_chunk_id = pk_id chunk, pc_document_id = pd_id document, pc_policy_code = pi_policy_code p,
       pc_policy_version = pi_version p, pc_title = pi_title p, pc_issue_category = pi_issue_category p,
       pc_policy_topic = pi_policy_topic p, pc_content = pj_content (pk_chunk chunk),
       pc_search_terms = pj_search_terms (pk_chunk chunk), pc_source_name = pi_source_name p,
       pc_source_reference = pi_source_reference p, pc_effective_from = pi_effective_from p,
       pc_effective_to = pi_effective_to p, pc_authority_rank = pi_authority_rank p,
       pc_decision_key = pj_decision_key (pk_chunk chunk),
       pc_decision_value = pj_decision_value (pk_chunk chunk),
       pc_vector_similarity = max (- 1) (min 1 (1 - pv_cosine_distance env (pk_embedding chunk) query))\<rparr>)"

definition list_effective_candidates ::
  "PolicyEnv \<Rightarrow> issue_category \<Rightarrow> policy_topic list \<Rightarrow> timestamp \<Rightarrow> rat list \<Rightarrow> EmbeddingProfile \<Rightarrow>
   PolicyDb \<Rightarrow> PolicyCandidate list" where
  "list_effective_candidates env category topics as_of query profile d =
     map (\<lambda>(c, r). candidate_of env query c r)
       (sort_key (\<lambda>(c, r). (pv_cosine_distance env (pk_embedding c) query, pk_id c))
         [(c, r). c \<leftarrow> pb_chunks d, r \<leftarrow> pb_documents d, pd_id r = pk_document_id c \<and>
            effective_filters category topics as_of (pd_input r) \<and> pd_profile r = profile])"

section \<open>Ranking\<close>

definition normalize_policy_text :: "string \<Rightarrow> string" where
  "normalize_policy_text value = join_with '' '' (split_words (lower value))"

definition normalize_decision_value :: "string \<Rightarrow> string" where
  "normalize_decision_value value = normalize_policy_text value"

fun contains_text :: "string \<Rightarrow> string \<Rightarrow> bool" where
  "contains_text t [] \<longleftrightarrow> t = []"
| "contains_text t (c # cs) \<longleftrightarrow> take (length t) (c # cs) = t \<or> contains_text t cs"

definition is_instruction_like :: "PolicyEnv \<Rightarrow> string \<Rightarrow> bool" where
  "is_instruction_like env content \<longleftrightarrow>
     (\<exists>marker \<in> set (pv_instruction_markers env). contains_text marker (normalize_policy_text content))"

definition lexical_match_score :: "string \<Rightarrow> string list \<Rightarrow> rat" where
  "lexical_match_score query_text search_terms =
     (let query = normalize_policy_text query_text;
          terms = filter (\<lambda>t. t \<noteq> []) (map normalize_policy_text search_terms)
      in if terms = [] then 0
         else of_nat (count_if (\<lambda>t. contains_text t query) terms) / of_nat (length terms))"

text \<open>The rank of a score among the distinct scores, the highest first.\<close>

definition dense_rank :: "rat list \<Rightarrow> rat \<Rightarrow> nat" where
  "dense_rank scores s = length (takeWhile (\<lambda>x. x \<noteq> s) (rev (sort (remdups scores)))) + 1"

definition rrf_k :: rat where
  "rrf_k = 60"

definition normalized_rrf :: "nat option \<Rightarrow> nat option \<Rightarrow> rat" where
  "normalized_rrf vector_rank lexical_rank =
     ((case vector_rank of None \<Rightarrow> 0 | Some r \<Rightarrow> 1 / (rrf_k + of_nat r)) +
      (case lexical_rank of None \<Rightarrow> 0 | Some r \<Rightarrow> 1 / (rrf_k + of_nat r))) / (2 / (rrf_k + 1))"

text \<open>The vector lane and the lexical lane of a candidate: score and rank, if it is in the lane.\<close>

definition in_vector_lane :: "PolicyRequest \<Rightarrow> PolicyCandidate \<Rightarrow> bool" where
  "in_vector_lane q c \<longleftrightarrow> pq_minimum_vector_similarity q \<le> pc_vector_similarity c"

definition lexical_score :: "PolicyRequest \<Rightarrow> PolicyCandidate \<Rightarrow> rat" where
  "lexical_score q c = lexical_match_score (pq_query_text q) (pc_search_terms c)"

definition vector_rank :: "PolicyRequest \<Rightarrow> PolicyCandidate list \<Rightarrow> PolicyCandidate \<Rightarrow> nat option" where
  "vector_rank q cs c = (if in_vector_lane q c
     then Some (dense_rank (map pc_vector_similarity (filter (in_vector_lane q) cs)) (pc_vector_similarity c))
     else None)"

definition lexical_rank :: "PolicyRequest \<Rightarrow> PolicyCandidate list \<Rightarrow> PolicyCandidate \<Rightarrow> nat option" where
  "lexical_rank q cs c = (if 0 < lexical_score q c
     then Some (dense_rank (filter (\<lambda>s. 0 < s) (map (lexical_score q) cs)) (lexical_score q c))
     else None)"

definition evidence_of ::
  "PolicyEnv \<Rightarrow> PolicyRequest \<Rightarrow> PolicyCandidate list \<Rightarrow> PolicyCandidate \<Rightarrow> PolicyEvidence" where
  "evidence_of env q cs c =
     \<lparr>pe_evidence_id = pc_chunk_id c, pe_document_id = pc_document_id c,
      pe_policy_code = pc_policy_code c, pe_policy_version = pc_policy_version c,
      pe_title = pc_title c, pe_issue_category = pc_issue_category c,
      pe_policy_topic = pc_policy_topic c, pe_content_excerpt = strip (take 1000 (pc_content c)),
      pe_source_name = pc_source_name c, pe_source_reference = pc_source_reference c,
      pe_effective_from = pc_effective_from c, pe_effective_to = pc_effective_to c,
      pe_authority_rank = pc_authority_rank c,
      pe_vector_similarity = (if in_vector_lane q c then Some (pc_vector_similarity c) else None),
      pe_vector_rank = vector_rank q cs c, pe_lexical_score = Some (lexical_score q c),
      pe_lexical_rank = lexical_rank q cs c,
      pe_fusion_score = normalized_rrf (vector_rank q cs c) (lexical_rank q cs c),
      pe_decision_key = pc_decision_key c, pe_decision_value = pc_decision_value c,
      pe_retrieved_as_of = pq_as_of q,
      pe_instruction_like = is_instruction_like env (pc_content c)\<rparr>"

definition evidence_model_ok :: "PolicyEvidence \<Rightarrow> bool" where
  "evidence_model_ok e \<longleftrightarrow> text_between 1 1000 (pe_content_excerpt e) \<and>
     pred_option (\<lambda>s. - 1 \<le> s \<and> s \<le> 1) (pe_vector_similarity e) \<and>
     pred_option (\<lambda>s. 0 \<le> s \<and> s \<le> 1) (pe_lexical_score e) \<and>
     0 \<le> pe_fusion_score e \<and> pe_fusion_score e \<le> 1"

fun checked_all :: "('a \<Rightarrow> bool) \<Rightarrow> 'a list \<Rightarrow> 'a list outcome" where
  "checked_all ok [] = Inr []"
| "checked_all ok (x # xs) = bindE (checked ok x) (\<lambda>y. bindE (checked_all ok xs) (\<lambda>ys. Inr (y # ys)))"

text \<open>\<open>str\<close> of a UUID orders like its number.\<close>

definition evidence_order :: "PolicyEvidence \<Rightarrow> rat \<times> int \<times> timestamp \<times> uuid" where
  "evidence_order e = (- pe_fusion_score e, - pe_authority_rank e, - pe_effective_from e, pe_evidence_id e)"

definition fuse_candidates ::
  "PolicyEnv \<Rightarrow> PolicyCandidate list \<Rightarrow> PolicyRequest \<Rightarrow> PolicyEvidence list outcome" where
  "fuse_candidates env cs q =
     bindE (checked_all evidence_model_ok (map (evidence_of env q cs)
              (filter (\<lambda>c. vector_rank q cs c \<noteq> None \<or> lexical_rank q cs c \<noteq> None) cs)))
     (\<lambda>evidence. Inr (take (nat (pq_top_k q)) (sort_key evidence_order evidence)))"

section \<open>Conflicts and sufficiency\<close>

text \<open>The decisions of the evidence, normalized, in the order of the evidence.\<close>

definition decisions :: "PolicyEvidence list \<Rightarrow> (string \<times> string \<times> PolicyEvidence) list" where
  "decisions evidence = concat (map (\<lambda>e. case (pe_decision_key e, pe_decision_value e) of
     (Some k, Some v) \<Rightarrow> [(normalize_policy_text k, normalize_decision_value v, e)] | _ \<Rightarrow> []) evidence)"

definition decided_values :: "string \<Rightarrow> PolicyEvidence list \<Rightarrow> string list" where
  "decided_values key evidence = sort (remdups (map (fst \<circ> snd) (filter (\<lambda>d. fst d = key) (decisions evidence))))"

definition conflict_of :: "PolicyEvidence list \<Rightarrow> string \<Rightarrow> PolicyConflict" where
  "conflict_of evidence key =
     (let items = map (snd \<circ> snd) (filter (\<lambda>d. fst d = key) (decisions evidence))
      in \<lparr>px_decision_key = (case items of [] \<Rightarrow> [] | e # _ \<Rightarrow>
            (case pe_decision_key e of None \<Rightarrow> [] | Some k \<Rightarrow> strip k)),
          px_conflicting_values = decided_values key evidence,
          px_evidence_ids = sort (map pe_evidence_id items)\<rparr>)"

definition detect_policy_conflicts :: "PolicyEvidence list \<Rightarrow> PolicyConflict list" where
  "detect_policy_conflicts evidence =
     map (conflict_of evidence)
       (filter (\<lambda>key. 2 \<le> length (decided_values key evidence)) (sort (remdups (map fst (decisions evidence)))))"

definition covers_topic :: "rat \<Rightarrow> rat \<Rightarrow> PolicyEvidence \<Rightarrow> bool" where
  "covers_topic minimum_vector_similarity minimum_fusion_score e \<longleftrightarrow>
     minimum_fusion_score \<le> pe_fusion_score e \<and>
     ((\<exists>s \<in> set_option (pe_vector_similarity e). minimum_vector_similarity \<le> s) \<or>
      (\<exists>s \<in> set_option (pe_lexical_score e). 0 < s))"

definition evaluate_sufficiency ::
  "PolicyEvidence list \<Rightarrow> PolicyConflict list \<Rightarrow> policy_topic list \<Rightarrow> rat \<Rightarrow> rat \<Rightarrow>
   evidence_sufficiency \<times> policy_topic list" where
  "evaluate_sufficiency evidence conflicts required_topics minimum_vector_similarity minimum_fusion_score =
     (let covered = map pe_policy_topic
            (filter (covers_topic minimum_vector_similarity minimum_fusion_score) evidence);
          missing = filter (\<lambda>t. t \<notin> set covered) required_topics
      in if conflicts \<noteq> [] then (EV_CONFLICTING, missing)
         else if evidence = [] \<or> missing \<noteq> [] then (EV_INSUFFICIENT, missing)
         else (EV_SUFFICIENT, []))"

section \<open>The fingerprint of a query\<close>

fun policy_topic_value :: "policy_topic \<Rightarrow> string" where
  "policy_topic_value PT_SAFETY_ESCALATION = ''SAFETY_ESCALATION''"
| "policy_topic_value PT_RESPONSIBILITY_SCOPE = ''RESPONSIBILITY_SCOPE''"
| "policy_topic_value PT_IDENTITY_REQUIREMENT = ''IDENTITY_REQUIREMENT''"
| "policy_topic_value PT_APPOINTMENT = ''APPOINTMENT''"
| "policy_topic_value PT_RESCHEDULING = ''RESCHEDULING''"
| "policy_topic_value PT_COMPLETION_ACCEPTANCE = ''COMPLETION_ACCEPTANCE''"
| "policy_topic_value PT_REWORK = ''REWORK''"
| "policy_topic_value PT_CANCELLATION = ''CANCELLATION''"
| "policy_topic_value PT_HUMAN_ESCALATION = ''HUMAN_ESCALATION''"

text \<open>\<open>repr\<close> of a float with a short decimal expansion, to at most \<open>n\<close> digits.\<close>

fun fraction_digits :: "nat \<Rightarrow> rat \<Rightarrow> string" where
  "fraction_digits 0 r = []"
| "fraction_digits (Suc n) r =
     (let d = \<lfloor>10 * r\<rfloor>; rest = 10 * r - of_int d
      in digit_char (nat d) # (if rest = 0 then [] else fraction_digits n rest))"

definition decimal_text :: "rat \<Rightarrow> string" where
  "decimal_text r =
     (if r < 0 then [CHR ''-''] else []) @ int_text \<lfloor>\<bar>r\<bar>\<rfloor> @ [CHR ''.''] @
     fraction_digits 17 (\<bar>r\<bar> - of_int \<lfloor>\<bar>r\<bar>\<rfloor>)"

text \<open>\<open>json.dumps\<close> of an object whose values are texts already, with sorted keys.\<close>

definition json_object :: "(string \<times> string) list \<Rightarrow> string" where
  "json_object entries = ''{'' @ join_with '',''
     (map (\<lambda>(k, v). json_string k @ '':'' @ v) (sort_key fst entries)) @ ''}''"

definition iso_offset :: "timestamp \<Rightarrow> string" where
  "iso_offset t = butlast (iso_utc t) @ ''+00:00''"

definition policy_query_fingerprint :: "(string \<Rightarrow> string) \<Rightarrow> PolicyRequest \<Rightarrow> EmbeddingProfile \<Rightarrow> string" where
  "policy_query_fingerprint sha256 q profile = sha256 (json_object
     [(''query_text'', json_string (normalize_policy_text (pq_query_text q))),
      (''issue_category'', json_string (issue_category_value (pq_issue_category q))),
      (''policy_topics'', json_dumps (PList (map PStr (sort (map policy_topic_value (pq_policy_topics q)))))),
      (''as_of'', json_string (iso_offset (pt_instant (pq_as_of q)))),
      (''top_k'', int_text (pq_top_k q)),
      (''minimum_vector_similarity'', decimal_text (pq_minimum_vector_similarity q)),
      (''minimum_fusion_score'', decimal_text (pq_minimum_fusion_score q)),
      (''embedding_profile'', json_dumps (PDict
         [(''provider'', PStr (pf_provider profile)), (''model'', PStr (pf_model profile)),
          (''dimension'', PInt (pf_dimension profile)),
          (''profile_version'', PStr (pf_profile_version profile))])),
      (''intent_version'', int_text (pq_intent_version q))])"

section \<open>Retrieval\<close>

definition policy_result_ok :: "PolicyResult \<Rightarrow> bool" where
  "policy_result_ok z \<longleftrightarrow> 1 \<le> pz_intent_version z \<and> is_hex64 (pz_policy_query_fingerprint z)"

definition retrieve :: "PolicyEnv \<Rightarrow> PolicyRequest \<Rightarrow> PolicyDb \<Rightarrow> PolicyResult outcome" where
  "retrieve env q d =
     (let profile = pv_profile env; category = pq_issue_category q; topics = pq_policy_topics q;
          as_of = pt_instant (pq_as_of q)
      in if pf_dimension profile \<noteq> policy_embedding_dimension
         then Inl (Exn EmbeddingDimensionMismatch ''embedding provider profile dimension mismatch'' [])
         else bindE (embedded (pv_embed_query env (pq_query_text q)))
         (\<lambda>(vector, vector_profile).
            if int (length vector) \<noteq> policy_embedding_dimension
            then Inl (Exn EmbeddingDimensionMismatch ''query embedding dimension mismatch'' [])
            else if vector_profile \<noteq> profile
            then Inl (Exn EmbeddingProfileConflict ''query embedding returned a different profile'' [])
            else if \<exists>stored \<in> set (list_effective_profiles category topics as_of d). stored \<noteq> profile
            then Inl (Exn EmbeddingProfileConflict
              ''effective policy corpus does not match the query embedding profile'' [])
            else bindE (fuse_candidates env (list_effective_candidates env category topics as_of vector profile d) q)
              (\<lambda>evidence.
                 let conflicts = detect_policy_conflicts evidence;
                     (sufficiency, missing) = evaluate_sufficiency evidence conflicts topics
                       (pq_minimum_vector_similarity q) (pq_minimum_fusion_score q)
                 in checked policy_result_ok
                      \<lparr>pz_evidence = evidence, pz_conflicts = conflicts, pz_sufficiency = sufficiency,
                       pz_missing_policy_topics = missing, pz_retrieved_as_of = pq_as_of q,
                       pz_intent_version = pq_intent_version q, pz_issue_category = category,
                       pz_requested_policy_topics = topics, pz_embedding_profile = profile,
                       pz_policy_query_fingerprint =
                         policy_query_fingerprint (pv_sha256 env) q profile\<rparr>)))"

section \<open>Merging a result into the state\<close>

text \<open>Aware datetimes are equal when their instants are.\<close>

definition merge_policy_result ::
  "(string \<Rightarrow> string) \<Rightarrow> AgentState \<Rightarrow> PolicyResult \<Rightarrow> PolicyRequest \<Rightarrow> EmbeddingProfile \<Rightarrow> AgentState outcome"
where
  "merge_policy_result sha256 st z q expected_profile =
     (if st_issue_category st \<noteq> Some (pq_issue_category q) \<or>
         st_intent_version st \<noteq> pq_intent_version q \<or>
         pz_intent_version z \<noteq> st_intent_version st \<or>
         pz_issue_category z \<noteq> pq_issue_category q \<or>
         set (pz_requested_policy_topics z) \<noteq> set (pq_policy_topics q) \<or>
         pt_instant (pz_retrieved_as_of z) \<noteq> pt_instant (pq_as_of q) \<or>
         pz_embedding_profile z \<noteq> expected_profile \<or>
         pz_policy_query_fingerprint z \<noteq> policy_query_fingerprint sha256 q expected_profile
      then Inl (Exn StalePolicyResult ''policy retrieval result no longer matches current state/request'' [])
      else Inr (st\<lparr>st_policy_evidence_ids := map pe_evidence_id (pz_evidence z),
              st_policy_conflict := pz_conflicts z \<noteq> [],
              st_policy_sufficiency := Some (pz_sufficiency z),
              st_missing_policy_topics := pz_missing_policy_topics z,
              st_policy_retrieved_as_of := Some (pz_retrieved_as_of z),
              st_policy_query_fingerprint := Some (pz_policy_query_fingerprint z)\<rparr>))"

end
