(* ===== verification/AgentNodes.thy ===== *)
theory AgentNodes
  imports AgentMerge AgentTools Policy
begin

text \<open>
  The nodes of the agent's graph, after \<open>backend/app/agent_runtime/nodes/\<close> and \<open>idempotency.py\<close>. A node
  takes the checkpointed state, loads it, calls at most one dependency and returns the next state;
  three nodes interrupt the run to ask the resident and go on when they are resumed.

  The dependencies of \<open>context.py\<close> are the functions of \<open>NodeContext\<close>. The Chinese texts of the source
  are values of \<open>agent_text\<close>, rendered by a parameter.
\<close>

section \<open>Texts and dependencies\<close>

datatype agent_text =
    TX_property_missing | TX_property_denied | TX_property_mismatch
  | TX_missing_information | TX_clock_passed | TX_no_slot_in_window | TX_ask_availability
  | TX_reschedule_cancelled | TX_booking_postponed
  | TX_rescheduled | TX_duplicate_scheduled | TX_ticket_fact ticket_status int
  | TX_appointment_fact timestamp timestamp | TX_needs_human | TX_policy_verified
  | TX_safety | TX_policy_review | TX_manual_request | TX_unsupported | TX_overdue
  | TX_ticket_undetermined
  | TX_topic_context policy_topic | TX_category_context issue_category

record KnownIssueFields =
  ki_issue_category :: "issue_category option"
  ki_issue_location :: "string option"
  ki_normalized_issue_location :: "string option"
  ki_issue_description :: "string option"
  ki_severity :: "severity option"

record InterpretInput =
  ii_current_user_message :: string
  ii_recent_messages :: "(llm_role \<times> string) list"
  ii_active_ticket_id :: "uuid option"
  ii_active_appointment_id :: "uuid option"
  ii_task_intent :: agent_intent
  ii_utterance_intent :: agent_intent
  ii_intent_version :: int
  ii_workflow_stage :: workflow_stage
  ii_known_issue_fields :: KnownIssueFields
  ii_missing_fields :: "issue_field list"
  ii_reference_time :: PyTime
  ii_timezone_name :: string

record ComposeInput =
  cm_facts :: "(uuid \<times> string \<times> string) list"
  cm_policy_evidence :: "uuid list"
  cm_workflow_stage :: workflow_stage
  cm_task_intent :: agent_intent
  cm_safe_error :: "(string \<times> string) option"

record NodeContext =
  nc_get_resident_property :: "GetResidentPropertyRequest \<Rightarrow> ResidentPropertyData ToolResponse outcome"
  nc_find_open_tickets :: "FindOpenRequest \<Rightarrow> OpenTicketItem list ToolResponse outcome"
  nc_create_ticket :: "CreateRepairTicketRequest \<Rightarrow> MutationResultData ToolResponse outcome"
  nc_get_ticket_snapshot :: "GetTicketSnapshotRequest \<Rightarrow> TicketSnapshotData ToolResponse outcome"
  nc_list_slots :: "ListSlotsRequest \<Rightarrow> AvailableSlotItem list ToolResponse outcome"
  nc_book_appointment :: "BookAppointmentRequest \<Rightarrow> MutationResultData ToolResponse outcome"
  nc_reschedule_appointment :: "RescheduleAppointmentRequest \<Rightarrow> MutationResultData ToolResponse outcome"
  nc_interpret :: "InterpretInput \<Rightarrow> Interpretation outcome"
  nc_compose :: "ComposeInput \<Rightarrow> string outcome"
  nc_retrieve_policy :: "PolicyRequest \<Rightarrow> PolicyResult outcome"
  nc_now :: timestamp
  nc_uuid5_url :: "string \<Rightarrow> uuid"
  nc_sha256 :: "string \<Rightarrow> string"
  nc_explicit_clock :: "string \<Rightarrow> bool"
  nc_utc_offset :: "string \<Rightarrow> timestamp \<Rightarrow> timestamp option"
  nc_text :: "agent_text \<Rightarrow> string"

definition stable_json_hash :: "NodeContext \<Rightarrow> pval \<Rightarrow> string" where
  "stable_json_hash nc value = nc_sha256 nc (json_dumps value)"

definition finish_with :: "NodeContext \<Rightarrow> agent_text \<Rightarrow> (AgentState \<Rightarrow> AgentState) \<Rightarrow> AgentState \<Rightarrow> AgentState outcome" where
  "finish_with nc message updates st =
     finish_with_assistant_message (nc_uuid5_url nc) (nc_now nc) (nc_text nc message) updates st"

definition read_request :: "AgentState \<Rightarrow> ReadRequest" where
  "read_request st = \<lparr>rq_actor_type = st_actor_type st, rq_actor_id = st_actor_id st,
     rq_trace_id = st_trace_id st\<rparr>"

definition mutation_request :: "AgentState \<Rightarrow> PendingOperation \<Rightarrow> MutationRequest" where
  "mutation_request st op = ReadRequest.extend (read_request st)
     (MutationRequest.fields (po_idempotency_key op) None None None (Some (po_request_fingerprint op)))"

text \<open>\<open>assert\<close> of the source.\<close>

definition assert_py :: "bool \<Rightarrow> 'a outcome \<Rightarrow> 'a outcome" where
  "assert_py c m = (if c then m else Inl (Exn PyAssertionError [] []))"

section \<open>Property\<close>

definition resolve_property_node :: "NodeContext \<Rightarrow> AgentState \<Rightarrow> AgentState outcome" where
  "resolve_property_node nc raw = bindE (load_state raw) (\<lambda>st.
     if st_property_context_verified st then Inr raw
     else case st_property_id st of
       None \<Rightarrow> finish_with nc TX_property_missing (\<lambda>s. s\<lparr>st_workflow_stage := WS_NEED_PROPERTY\<rparr>) st
     | Some property_id \<Rightarrow>
         bindE (nc_get_resident_property nc (ReadRequest.extend (read_request st)
             (GetResidentPropertyRequest.fields (st_user_id st) property_id)))
         (\<lambda>response.
            let denied = (\<lambda>message. finish_with nc message
                  (\<lambda>s. s\<lparr>st_workflow_stage := WS_HUMAN_REVIEW,
                        st_escalation_reason := Some ''PERMISSION_DENIED''\<rparr>) st)
            in if rsp_result_code response = RES_PERMISSION_DENIED then denied TX_property_denied
               else bindE (require_data response)
                 (\<lambda>data. if rf_resident_id data \<noteq> st_user_id st \<or> rf_property_id data \<noteq> property_id
                   then denied TX_property_mismatch
                   else Inr (st\<lparr>st_property_context_verified := True\<rparr>))))"

section \<open>Interpretation\<close>

text \<open>\<open>InterpretMessageInput (\<dots>)\<close>: the reference time is aware, the zone is known and has this offset.\<close>

definition time_context_ok :: "NodeContext \<Rightarrow> PyTime \<Rightarrow> string \<Rightarrow> bool" where
  "time_context_ok nc reference zone \<longleftrightarrow> text_between 1 64 zone \<and> pt_offset reference \<noteq> None \<and>
     pt_offset reference = nc_utc_offset nc zone (pt_instant reference)"

definition interpret_input_ok :: "NodeContext \<Rightarrow> InterpretInput \<Rightarrow> bool" where
  "interpret_input_ok nc i \<longleftrightarrow> text_between 1 4000 (ii_current_user_message i) \<and>
     length (ii_recent_messages i) \<le> 12 \<and>
     list_all (\<lambda>m. text_between 1 4000 (snd m)) (ii_recent_messages i) \<and>
     1 \<le> ii_intent_version i \<and> length (ii_missing_fields i) \<le> 12 \<and>
     time_context_ok nc (ii_reference_time i) (ii_timezone_name i)"

definition recent_messages :: "AgentState \<Rightarrow> (llm_role \<times> string) list" where
  "recent_messages st = last_n 12 (map (\<lambda>m. (cv_role m, cv_content m))
     (filter (\<lambda>m. cv_turn_id m \<noteq> st_trace_id st) (last_n 13 (st_conversation_messages st))))"

definition interpret_input :: "AgentState \<Rightarrow> string \<Rightarrow> PyTime \<Rightarrow> string \<Rightarrow> InterpretInput" where
  "interpret_input st message reference zone =
     \<lparr>ii_current_user_message = message, ii_recent_messages = recent_messages st,
      ii_active_ticket_id = st_active_ticket_id st, ii_active_appointment_id = st_active_appointment_id st,
      ii_task_intent = st_task_intent st, ii_utterance_intent = st_utterance_intent st,
      ii_intent_version = st_intent_version st, ii_workflow_stage = st_workflow_stage st,
      ii_known_issue_fields = \<lparr>ki_issue_category = st_issue_category st,
        ki_issue_location = st_issue_location st,
        ki_normalized_issue_location = st_normalized_issue_location st,
        ki_issue_description = st_issue_description st, ki_severity = st_severity st\<rparr>,
      ii_missing_fields = st_missing_fields st, ii_reference_time = reference, ii_timezone_name = zone\<rparr>"

text \<open>A missing reference time or zone is rejected by the input model.\<close>

definition interpret_message :: "NodeContext \<Rightarrow> AgentState \<Rightarrow> AgentState outcome" where
  "interpret_message nc raw = bindE (load_state raw) (\<lambda>st.
     if \<not> st_property_context_verified st then Inr raw
     else case st_current_user_message st of None \<Rightarrow> Inr raw
       | Some message \<Rightarrow>
           (case (st_current_reference_time st, st_current_timezone_name st) of
              (Some reference, Some zone) \<Rightarrow>
                bindE (checked (interpret_input_ok nc) (interpret_input st message reference zone))
                (\<lambda>i. bindE (nc_interpret nc i)
                (\<lambda>out. bindE (merge_interpretation st out)
                (\<lambda>merged. Inr (route_required_safety_review (apply_new_repair_defaults merged)))))
            | _ \<Rightarrow> Inl (Exn ValidationError [] [])))"

section \<open>Policy\<close>

definition policy_topics_for :: "issue_category \<Rightarrow> policy_topic list" where
  "policy_topics_for category =
     (if category = IC_DOOR_LOCK then [PT_IDENTITY_REQUIREMENT, PT_APPOINTMENT]
      else [PT_RESPONSIBILITY_SCOPE, PT_APPOINTMENT])"

text \<open>\<open>str\<close> of an optional description, as in an f-string.\<close>

definition shown_text :: "string option \<Rightarrow> string" where
  "shown_text s = (case s of None \<Rightarrow> ''None'' | Some t \<Rightarrow> t)"

definition policy_query_text :: "NodeContext \<Rightarrow> issue_category \<Rightarrow> string option \<Rightarrow> string" where
  "policy_query_text nc category description = join_with '' ''
     ([issue_category_value category, shown_text description] @
      map (\<lambda>t. nc_text nc (TX_topic_context t)) (policy_topics_for category) @
      [nc_text nc (TX_category_context category)])"

text \<open>The request is built before the \<open>try\<close>: only errors of the retrieval and the merge are wrapped.\<close>

definition policy_request :: "NodeContext \<Rightarrow> AgentState \<Rightarrow> issue_category \<Rightarrow> PyTime \<Rightarrow> PolicyRequest" where
  "policy_request nc st category reference =
     \<lparr>pq_query_text = policy_query_text nc category (st_issue_description st),
      pq_issue_category = category, pq_policy_topics = policy_topics_for category,
      pq_as_of = reference, pq_intent_version = st_intent_version st, pq_top_k = 5,
      pq_minimum_vector_similarity = 1 / 5, pq_minimum_fusion_score = 1 / 4,
      pq_trace_id = st_trace_id st\<rparr>"

definition retrieve_policy :: "NodeContext \<Rightarrow> AgentState \<Rightarrow> AgentState outcome" where
  "retrieve_policy nc raw = bindE (load_state raw) (\<lambda>st.
     case st_issue_category st of None \<Rightarrow> Inl (Exn PyAssertionError [] [])
     | Some category \<Rightarrow>
         (case st_current_reference_time st of None \<Rightarrow> Inl (Exn ValidationError [] [])
          | Some reference \<Rightarrow>
              bindE (make_policy_request (policy_request nc st category reference))
              (\<lambda>q. case bindE (nc_retrieve_policy nc q)
                     (\<lambda>z. merge_policy_result (nc_sha256 nc) st z q (pz_embedding_profile z)) of
                 Inl e \<Rightarrow> Inl (Exn PolicyRetrievalFailed ''POLICY_RETRIEVAL_FAILED'' [])
               | Inr merged \<Rightarrow> Inr (merged\<lparr>st_workflow_stage := WS_POLICY_CHECK\<rparr>))))"

section \<open>Tickets\<close>

definition duplicate_of :: "OpenTicketItem \<Rightarrow> DuplicateCandidate" where
  "duplicate_of item = \<lparr>du_ticket_id = ot_ticket_id item, du_ticket_version = ot_ticket_version item,
     du_ticket_status = ot_ticket_status item, du_issue_location = ot_issue_location item\<rparr>"

definition duplicate_json :: "DuplicateCandidate \<Rightarrow> pval" where
  "duplicate_json d = PDict [(''ticket_id'', PUuid (du_ticket_id d)),
     (''ticket_version'', PInt (du_ticket_version d)),
     (''ticket_status'', PStr (ticket_status_value (du_ticket_status d))),
     (''issue_location'', PStr (du_issue_location d))]"

definition find_duplicates :: "NodeContext \<Rightarrow> AgentState \<Rightarrow> AgentState outcome" where
  "find_duplicates nc raw = bindE (load_state raw) (\<lambda>st.
     case (st_property_id st, st_issue_category st, st_normalized_issue_location st) of
       (Some property_id, Some category, Some location) \<Rightarrow>
         bindE (checked find_open_request_ok (ReadRequest.extend (read_request st)
             (FindOpenRequest.fields (st_user_id st) property_id category location)))
         (\<lambda>request. bindE (nc_find_open_tickets nc request)
         (\<lambda>response. bindE (require_data response)
         (\<lambda>items. bindE (checked_all duplicate_ok (map duplicate_of items))
         (\<lambda>candidates.
            let st1 = st\<lparr>st_duplicate_ticket_candidates := candidates,
                  st_duplicate_candidates_fingerprint := (if candidates = [] then None
                    else Some (stable_json_hash nc (PList (map duplicate_json candidates)))),
                  st_workflow_stage := WS_DUPLICATE_CHECK\<rparr>
            in Inr (case candidates of
                 [c] \<Rightarrow> st1\<lparr>st_active_ticket_id := Some (du_ticket_id c),
                   st_ticket_snapshot_version := Some (du_ticket_version c),
                   st_snapshot_refresh_required := True\<rparr>
               | _ \<Rightarrow> st1)))))
     | _ \<Rightarrow> Inl (Exn PyAssertionError [] []))"

definition agent_operation_material ::
  "uuid \<Rightarrow> int \<Rightarrow> pending_action \<Rightarrow> pval \<Rightarrow> uuid option \<Rightarrow> int option \<Rightarrow> int option \<Rightarrow> pval" where
  "agent_operation_material thread_id intent_version action payload target_id ticket_version appointment_version =
     PDict [(''thread_id'', PUuid thread_id), (''intent_version'', PInt intent_version),
       (''action'', PStr (pending_action_value action)), (''payload'', payload),
       (''target_id'', opt_uuid target_id), (''expected_ticket_version'', opt_int ticket_version),
       (''expected_appointment_version'', opt_int appointment_version)]"

definition build_pending_operation ::
  "NodeContext \<Rightarrow> uuid \<Rightarrow> int \<Rightarrow> pending_action \<Rightarrow> pval \<Rightarrow> uuid option \<Rightarrow> int option \<Rightarrow> int option \<Rightarrow>
   PendingOperation outcome" where
  "build_pending_operation nc thread_id intent_version action payload target_id ticket_version
     appointment_version =
     (let fingerprint = stable_json_hash nc (agent_operation_material thread_id intent_version action payload
            target_id ticket_version appointment_version)
      in checked pending_operation_ok
           \<lparr>po_action = action, po_request_fingerprint = fingerprint,
            po_idempotency_key = ''agent-'' @ fingerprint, po_intent_version = intent_version,
            po_expected_ticket_version = ticket_version,
            po_expected_appointment_version = appointment_version\<rparr>)"

definition create_payload :: "AgentState \<Rightarrow> pval" where
  "create_payload st = PDict
     [(''property_id'', PStr (case st_property_id st of None \<Rightarrow> ''None'' | Some p \<Rightarrow> uuid_text p)),
      (''category'', opt_str (map_option issue_category_value (st_issue_category st))),
      (''location'', opt_str (st_normalized_issue_location st)),
      (''description'', opt_str (st_issue_description st)),
      (''severity'', opt_str (map_option severity_value (st_severity st)))]"

definition prepare_create :: "NodeContext \<Rightarrow> AgentState \<Rightarrow> AgentState outcome" where
  "prepare_create nc raw = bindE (load_state raw) (\<lambda>st.
     bindE (build_pending_operation nc (st_thread_id st) (st_intent_version st) PA_CREATE_TICKET
              (create_payload st) (st_property_id st) None None)
     (\<lambda>op. Inr (st\<lparr>st_pending_action := PA_CREATE_TICKET, st_pending_operation := Some op,
                  st_workflow_stage := WS_CREATING_TICKET\<rparr>)))"

text \<open>The summary of a mutation's answer; its message is bounded.\<close>

definition summary_of :: "MutationResultData ToolResponse \<Rightarrow> MutationResultData \<Rightarrow> ToolResultSummary outcome" where
  "summary_of response data = checked tool_result_ok
     \<lparr>tl_result_code = result_code_value (rsp_result_code response), tl_message = rsp_message response,
      tl_resource_id = Some (mu_resource_id data), tl_resource_version = mu_resource_version data,
      tl_retryable = False\<rparr>"

definition create_request :: "AgentState \<Rightarrow> CreateRepairTicketRequest option" where
  "create_request st =
     (case (st_pending_operation st, st_property_id st, st_issue_category st) of
        (Some op, Some property_id, Some category) \<Rightarrow>
          (case (st_issue_location st, st_issue_description st, st_severity st) of
             (Some location, Some description, Some severity) \<Rightarrow>
               Some (MutationRequest.extend (mutation_request st op)
                 (CreateRepairTicketRequest.fields (st_user_id st) property_id category location
                    description severity False))
           | _ \<Rightarrow> None)
      | _ \<Rightarrow> None)"

definition create_ticket_node :: "NodeContext \<Rightarrow> AgentState \<Rightarrow> AgentState outcome" where
  "create_ticket_node nc raw = bindE (load_state raw) (\<lambda>st.
     case create_request st of None \<Rightarrow> Inl (Exn PyAssertionError [] [])
     | Some request \<Rightarrow>
         bindE (nc_create_ticket nc request)
         (\<lambda>response. bindE (require_data response)
         (\<lambda>data. bindE (summary_of response data)
         (\<lambda>summary. Inr (st\<lparr>st_active_ticket_id := Some (mu_resource_id data),
            st_ticket_snapshot_version := or_option (mu_ticket_version data) (mu_resource_version data),
            st_pending_action := PA_NONE, st_pending_operation := None,
            st_snapshot_refresh_required := True, st_last_tool_result := Some summary\<rparr>)))))"

definition appointment_status_named :: "string \<Rightarrow> appointment_status option" where
  "appointment_status_named s = find (\<lambda>a. appointment_status_value a = s)
     [AS_BOOKED, AS_FULFILLED, AS_SUPERSEDED, AS_CANCELLED, AS_NO_SHOW]"

definition cached_appointment_of :: "ActiveAppointmentData \<Rightarrow> CachedAppointment outcome" where
  "cached_appointment_of a =
     (case appointment_status_named (aa_appointment_status a) of
        None \<Rightarrow> Inl (Exn ValidationError [] [])
      | Some status \<Rightarrow> checked cached_appointment_ok
          \<lparr>ka_appointment_id = aa_appointment_id a, ka_worker_id = aa_worker_id a,
           ka_appointment_status = status, ka_scheduled_start = aa_scheduled_start a,
           ka_scheduled_end = aa_scheduled_end a, ka_appointment_version = aa_appointment_version a\<rparr>)"

definition optional :: "('a \<Rightarrow> 'b outcome) \<Rightarrow> 'a option \<Rightarrow> 'b option outcome" where
  "optional f x = (case x of None \<Rightarrow> Inr None | Some a \<Rightarrow> bindE (f a) (\<lambda>b. Inr (Some b)))"

definition snapshot_of :: "NodeContext \<Rightarrow> TicketSnapshotData \<Rightarrow> CachedTicket outcome" where
  "snapshot_of nc data =
     bindE (optional cached_appointment_of (sn_active_appointment data))
     (\<lambda>active. checked cached_ticket_ok
        \<lparr>kt_ticket_id = sn_ticket_id data, kt_ticket_version = sn_ticket_version data,
         kt_ticket_status = sn_ticket_status data, kt_severity = sn_severity data,
         kt_rework_count = sn_rework_count data, kt_active_appointment = active,
         kt_observed_at = nc_now nc\<rparr>)"

definition is_terminal_ticket_status :: "ticket_status \<Rightarrow> bool" where
  "is_terminal_ticket_status s \<longleftrightarrow> s \<in> {TS_CANCELLED, TS_CLOSED}"

definition appointment_overdue :: "AgentState \<Rightarrow> CachedTicket \<Rightarrow> bool outcome" where
  "appointment_overdue st snapshot =
     (case (kt_active_appointment snapshot, st_current_reference_time st) of
        (Some a, Some reference) \<Rightarrow> not_after (ka_scheduled_end a) reference
      | _ \<Rightarrow> Inr False)"

text \<open>The updates of \<open>refresh_snapshot\<close>, in their order.\<close>

definition clear_slots :: "AgentState \<Rightarrow> AgentState" where
  "clear_slots st = st\<lparr>st_candidate_slots := [], st_candidate_slots_fingerprint := None,
     st_selected_candidate_slot := None\<rparr>"

definition adopt_snapshot :: "CachedTicket \<Rightarrow> AgentState \<Rightarrow> AgentState" where
  "adopt_snapshot t st = st\<lparr>st_cached_ticket_snapshot := Some t,
     st_ticket_snapshot_version := Some (kt_ticket_version t),
     st_active_appointment_id := map_option ka_appointment_id (kt_active_appointment t),
     st_appointment_version := map_option ka_appointment_version (kt_active_appointment t),
     st_severity := Some (kt_severity t), st_snapshot_refresh_required := False\<rparr>"

definition review_overdue :: "AgentState \<Rightarrow> AgentState" where
  "review_overdue st = st\<lparr>st_workflow_stage := WS_HUMAN_REVIEW,
     st_escalation_reason := Some ''OVERDUE_APPOINTMENT_REVIEW_REQUIRED'',
     st_pending_action := PA_NONE, st_pending_operation := None\<rparr>"

definition drop_ticket :: "AgentState \<Rightarrow> AgentState" where
  "drop_ticket st = clear_slots (st\<lparr>st_active_ticket_id := None, st_active_appointment_id := None,
     st_ticket_snapshot_version := None, st_appointment_version := None,
     st_cached_ticket_snapshot := None, st_duplicate_ticket_candidates := [],
     st_duplicate_candidates_fingerprint := None\<rparr>)"

definition stale_slot :: "AgentState \<Rightarrow> CachedTicket \<Rightarrow> bool" where
  "stale_slot st t \<longleftrightarrow> st_ticket_snapshot_version st \<noteq> None \<and>
     st_ticket_snapshot_version st \<noteq> Some (kt_ticket_version t) \<and> st_selected_candidate_slot st \<noteq> None"

definition refreshed_state :: "AgentState \<Rightarrow> CachedTicket \<Rightarrow> bool \<Rightarrow> AgentState" where
  "refreshed_state st t overdue =
     (let st1 = adopt_snapshot t st;
          st2 = (if overdue then review_overdue st1 else st1);
          st3 = (if stale_slot st t then clear_slots st2 else st2)
      in if st_task_intent st = AI_NEW_REPAIR \<and> is_terminal_ticket_status (kt_ticket_status t)
         then drop_ticket st3 else st3)"

definition refresh_snapshot :: "NodeContext \<Rightarrow> AgentState \<Rightarrow> AgentState outcome" where
  "refresh_snapshot nc raw = bindE (load_state raw) (\<lambda>st.
     case st_active_ticket_id st of None \<Rightarrow> Inr raw
     | Some ticket_id \<Rightarrow>
         bindE (nc_get_ticket_snapshot nc (ReadRequest.extend (read_request st)
             (GetTicketSnapshotRequest.fields ticket_id)))
         (\<lambda>response. bindE (require_data response)
         (\<lambda>data. bindE (snapshot_of nc data)
         (\<lambda>t. bindE (appointment_overdue st t)
         (\<lambda>overdue. Inr (refreshed_state st t overdue))))))"

definition resolve_existing :: "NodeContext \<Rightarrow> AgentState \<Rightarrow> AgentState outcome" where
  "resolve_existing nc raw = bindE (load_state raw) (\<lambda>st.
     if st_active_ticket_id st \<noteq> None then Inr (st\<lparr>st_snapshot_refresh_required := True\<rparr>)
     else if st_issue_category st \<noteq> None \<and> st_normalized_issue_location st \<noteq> None
     then find_duplicates nc raw
     else Inr (st\<lparr>st_workflow_stage := WS_HUMAN_REVIEW,
            st_last_assistant_message := Some (nc_text nc TX_ticket_undetermined)\<rparr>))"

end
