(* ===== verification/AgentDialogue.thy ===== *)
theory AgentDialogue
  imports AgentNodes
begin

text \<open>
  The rest of the agent's nodes, after \<open>backend/app/agent_runtime/nodes/scheduling.py\<close>, \<open>response.py\<close> and
  \<open>interrupts.py\<close>: offering slots and booking the chosen one, the final answers, and the three nodes
  that wait for the resident.
\<close>

section \<open>Scheduling\<close>

definition candidate_slot_of :: "AvailableSlotItem \<Rightarrow> CandidateSlot" where
  "candidate_slot_of item = \<lparr>cn_worker_id = vs_worker_id item, cn_scheduled_start = vs_scheduled_start item,
     cn_scheduled_end = vs_scheduled_end item, cn_rank = vs_rank item\<rparr>"

text \<open>\<open>model_dump (mode="json")\<close> of a slot; all its times are in UTC here.\<close>

definition slot_json :: "CandidateSlot \<Rightarrow> pval" where
  "slot_json c = PDict [(''worker_id'', PUuid (cn_worker_id c)),
     (''scheduled_start'', PTime (cn_scheduled_start c)), (''scheduled_end'', PTime (cn_scheduled_end c)),
     (''rank'', PInt (cn_rank c)), (''booking_guaranteed'', PBool False)]"

definition slots_fingerprint :: "NodeContext \<Rightarrow> CandidateSlot list \<Rightarrow> string" where
  "slots_fingerprint nc slots = stable_json_hash nc (PList (map slot_json slots))"

definition no_slots :: "AgentState \<Rightarrow> AgentState" where
  "no_slots st = st\<lparr>st_candidate_slots := [], st_candidate_slots_fingerprint := None,
     st_workflow_stage := WS_NEED_INFO\<rparr>"

definition later_start :: "timestamp \<Rightarrow> PyTime option \<Rightarrow> timestamp outcome" where
  "later_start start reference =
     (case reference of None \<Rightarrow> Inr start
      | Some r \<Rightarrow> bindE (not_after start r) (\<lambda>past. Inr (if past then pt_instant r else start)))"

definition list_slots :: "NodeContext \<Rightarrow> AgentState \<Rightarrow> AgentState outcome" where
  "list_slots nc raw = bindE (load_state raw) (\<lambda>st.
     case (st_property_id st, st_issue_category st, st_service_duration_minutes st) of
       (Some property_id, Some category, Some duration) \<Rightarrow>
         (case st_user_availability_windows st of
            [] \<Rightarrow> Inr (st\<lparr>st_workflow_stage := WS_NEED_INFO\<rparr>)
          | window # _ \<Rightarrow>
              bindE (requested_clock_has_passed (nc_explicit_clock nc) st) (\<lambda>passed.
              if passed then Inr (no_slots st)
              else bindE (later_start (uw_starts_at window) (st_current_reference_time st)) (\<lambda>start.
              if uw_ends_at window \<le> start then Inr (no_slots st)
              else bindE (checked list_slots_request_ok (ReadRequest.extend (read_request st)
                     (ListSlotsRequest.fields property_id category start (uw_ends_at window) duration
                        resident_slot_result_limit
                        (if st_task_intent st = AI_RESCHEDULE_APPOINTMENT
                         then st_active_appointment_id st else None))))
                (\<lambda>request. bindE (nc_list_slots nc request)
                (\<lambda>response. bindE (require_data response)
                (\<lambda>items. bindE (checked_all candidate_slot_ok (map candidate_slot_of items))
                (\<lambda>slots. Inr (st\<lparr>st_candidate_slots := slots,
                   st_candidate_slots_fingerprint := Some (slots_fingerprint nc slots),
                   st_workflow_stage := WS_AWAITING_SLOT_CONFIRMATION\<rparr>)))))))) 
     | _ \<Rightarrow> Inl (Exn PyAssertionError [] []))"

text \<open>A missing slot fails on its first attribute, with \<open>AttributeError\<close>.\<close>

definition attribute_error :: exn where
  "attribute_error = Exn PyTypeError ''NoneType'' []"

definition prepare_book :: "NodeContext \<Rightarrow> AgentState \<Rightarrow> AgentState outcome" where
  "prepare_book nc raw = bindE (load_state raw) (\<lambda>st.
     case st_selected_candidate_slot st of None \<Rightarrow> Inl attribute_error
     | Some slot \<Rightarrow>
         bindE (build_pending_operation nc (st_thread_id st) (st_intent_version st) PA_BOOK_APPOINTMENT
                  (slot_json slot) (st_active_ticket_id st) (st_ticket_snapshot_version st) None)
         (\<lambda>op. Inr (st\<lparr>st_pending_action := PA_BOOK_APPOINTMENT, st_pending_operation := Some op,
                      st_workflow_stage := WS_BOOKING\<rparr>)))"

definition prepare_reschedule :: "NodeContext \<Rightarrow> AgentState \<Rightarrow> AgentState outcome" where
  "prepare_reschedule nc raw = bindE (load_state raw) (\<lambda>st.
     case st_selected_candidate_slot st of None \<Rightarrow> Inl attribute_error
     | Some slot \<Rightarrow>
         bindE (build_pending_operation nc (st_thread_id st) (st_intent_version st)
                  PA_RESCHEDULE_APPOINTMENT (slot_json slot) (st_active_appointment_id st)
                  (st_ticket_snapshot_version st) (st_appointment_version st))
         (\<lambda>op. Inr (st\<lparr>st_pending_action := PA_RESCHEDULE_APPOINTMENT, st_pending_operation := Some op,
                      st_workflow_stage := WS_RESCHEDULING\<rparr>)))"

definition book_appointment_request :: "AgentState \<Rightarrow> BookAppointmentRequest option" where
  "book_appointment_request st =
     (case (st_pending_operation st, st_selected_candidate_slot st, st_active_ticket_id st) of
        (Some op, Some slot, Some ticket_id) \<Rightarrow>
          map_option (\<lambda>version. MutationRequest.extend (mutation_request st op)
            (BookAppointmentRequest.fields ticket_id (cn_worker_id slot) (cn_scheduled_start slot)
               (cn_scheduled_end slot) version)) (po_expected_ticket_version op)
      | _ \<Rightarrow> None)"

definition reschedule_appointment_request :: "AgentState \<Rightarrow> RescheduleAppointmentRequest option" where
  "reschedule_appointment_request st =
     (case (st_pending_operation st, st_selected_candidate_slot st, st_active_ticket_id st,
            st_active_appointment_id st) of
        (Some op, Some slot, Some ticket_id, Some appointment_id) \<Rightarrow>
          (case (po_expected_ticket_version op, po_expected_appointment_version op) of
             (Some version, Some appointment_version) \<Rightarrow>
               Some (MutationRequest.extend (mutation_request st op)
                 (RescheduleAppointmentRequest.fields ticket_id appointment_id (cn_worker_id slot)
                    (cn_scheduled_start slot) (cn_scheduled_end slot) version appointment_version))
           | _ \<Rightarrow> None)
      | _ \<Rightarrow> None)"

text \<open>The slot is taken or the versions are stale: the plan is dropped and the snapshot read again.\<close>

definition drop_booking :: "AgentState \<Rightarrow> AgentState" where
  "drop_booking st = clear_slots (st\<lparr>st_pending_operation := None, st_pending_action := PA_NONE,
     st_snapshot_refresh_required := True\<rparr>)"

definition booked_state ::
  "AgentState \<Rightarrow> MutationResultData \<Rightarrow> int option \<Rightarrow> ToolResultSummary \<Rightarrow> AgentState" where
  "booked_state st data ticket_version summary =
     clear_slots (st\<lparr>st_active_appointment_id := Some (mu_resource_id data),
       st_appointment_version := or_option (mu_appointment_version data) (mu_resource_version data),
       st_ticket_snapshot_version := ticket_version, st_pending_operation := None,
       st_pending_action := PA_NONE, st_snapshot_refresh_required := True,
       st_last_tool_result := Some summary\<rparr>)"

definition book :: "NodeContext \<Rightarrow> AgentState \<Rightarrow> AgentState outcome" where
  "book nc raw = bindE (load_state raw) (\<lambda>st.
     case book_appointment_request st of None \<Rightarrow> Inl (Exn PyAssertionError [] [])
     | Some request \<Rightarrow>
         bindE (checked book_request_ok request)
         (\<lambda>request. bindE (nc_book_appointment nc request)
         (\<lambda>response. if rsp_result_code response \<in> {RES_TIME_CONFLICT, RES_VERSION_CONFLICT}
            then Inr (drop_booking st)
            else bindE (require_data response)
              (\<lambda>data. bindE (summary_of response data)
              (\<lambda>summary. Inr (booked_state st data (mu_ticket_version data) summary))))))"

definition reschedule :: "NodeContext \<Rightarrow> AgentState \<Rightarrow> AgentState outcome" where
  "reschedule nc raw = bindE (load_state raw) (\<lambda>st.
     case reschedule_appointment_request st of None \<Rightarrow> Inl (Exn PyAssertionError [] [])
     | Some request \<Rightarrow>
         bindE (checked reschedule_request_ok request)
         (\<lambda>request. bindE (nc_reschedule_appointment nc request)
         (\<lambda>response. if rsp_result_code response \<in> {RES_TIME_CONFLICT, RES_VERSION_CONFLICT}
            then Inr (drop_booking st)
            else bindE (require_data response)
              (\<lambda>data. bindE (summary_of response data)
              (\<lambda>summary. Inr (booked_state st data
                 (or_option (mu_ticket_version data) (st_ticket_snapshot_version st)) summary))))))"

section \<open>Answers\<close>

text \<open>Was the active appointment written by the last mutation of this plan?\<close>

definition appointment_just_written :: "AgentState \<Rightarrow> bool" where
  "appointment_just_written st \<longleftrightarrow>
     (case (st_cached_ticket_snapshot st, st_last_tool_result st) of
        (Some t, Some result) \<Rightarrow>
          (case kt_active_appointment t of None \<Rightarrow> False
           | Some a \<Rightarrow> tl_resource_id result = Some (ka_appointment_id a))
      | _ \<Rightarrow> False)"

definition has_active_appointment :: "AgentState \<Rightarrow> bool" where
  "has_active_appointment st \<longleftrightarrow>
     (case st_cached_ticket_snapshot st of None \<Rightarrow> False | Some t \<Rightarrow> kt_active_appointment t \<noteq> None)"

definition business_facts :: "NodeContext \<Rightarrow> AgentState \<Rightarrow> (uuid \<times> string \<times> string) list" where
  "business_facts nc st =
     (case st_cached_ticket_snapshot st of None \<Rightarrow> []
      | Some t \<Rightarrow>
          (kt_ticket_id t, ''ticket_snapshot'', nc_text nc (TX_ticket_fact (kt_ticket_status t) (kt_ticket_version t))) #
          (case kt_active_appointment t of None \<Rightarrow> []
           | Some a \<Rightarrow> [(ka_appointment_id a, ''active_appointment'',
               nc_text nc (TX_appointment_fact (ka_scheduled_start a) (ka_scheduled_end a)))]))"

definition compose_input :: "NodeContext \<Rightarrow> AgentState \<Rightarrow> ComposeInput" where
  "compose_input nc st =
     \<lparr>cm_facts = business_facts nc st, cm_policy_evidence = st_policy_evidence_ids st,
      cm_workflow_stage = st_workflow_stage st, cm_task_intent = st_task_intent st,
      cm_safe_error = map_option (\<lambda>code. (code,
        case st_last_assistant_message st of Some m \<Rightarrow> m | None \<Rightarrow> nc_text nc TX_needs_human))
        (st_escalation_reason st)\<rparr>"

text \<open>The model's limits: 30 facts, 20 pieces of evidence, 1000 characters of stripped text.\<close>

definition compose_input_ok :: "ComposeInput \<Rightarrow> bool" where
  "compose_input_ok i \<longleftrightarrow> length (cm_facts i) \<le> 30 \<and> length (cm_policy_evidence i) \<le> 20 \<and>
     list_all (\<lambda>f. text_between 1 1000 (strip (snd (snd f)))) (cm_facts i) \<and>
     pred_option (\<lambda>(code, message). text_between 1 1000 (strip code) \<and> text_between 1 1000 (strip message))
       (cm_safe_error i)"

definition compose :: "NodeContext \<Rightarrow> AgentState \<Rightarrow> AgentState outcome" where
  "compose nc raw = bindE (load_state raw) (\<lambda>st.
     if st_task_intent st = AI_RESCHEDULE_APPOINTMENT \<and> appointment_just_written st
     then finish_with nc TX_rescheduled (\<lambda>s. s\<lparr>st_workflow_stage := WS_DONE\<rparr>) st
     else if st_task_intent st = AI_NEW_REPAIR \<and> st_duplicate_ticket_candidates st \<noteq> [] \<and>
             has_active_appointment st \<and> st_last_tool_result st = None
     then finish_with nc TX_duplicate_scheduled (\<lambda>s. s\<lparr>st_workflow_stage := WS_DONE\<rparr>) st
     else bindE (checked compose_input_ok (compose_input nc st))
       (\<lambda>i. bindE (nc_compose nc i)
       (\<lambda>text. append_conversation_message (nc_uuid5_url nc) LR_ASSISTANT text (st_trace_id st)
          (utc_time (nc_now nc))
          (st\<lparr>st_last_assistant_message := Some text, st_workflow_stage :=
             (if st_workflow_stage st \<noteq> WS_HUMAN_REVIEW then WS_DONE else WS_HUMAN_REVIEW)\<rparr>))))"

definition review_end :: "NodeContext \<Rightarrow> agent_text \<Rightarrow> workflow_stage \<Rightarrow> string \<Rightarrow> bool \<Rightarrow> AgentState \<Rightarrow> AgentState outcome" where
  "review_end nc message stage reason drops_operation raw = bindE (load_state raw)
     (finish_with nc message (\<lambda>s.
        let s1 = s\<lparr>st_workflow_stage := stage, st_escalation_reason := Some reason\<rparr>
        in if drops_operation then s1\<lparr>st_pending_action := PA_NONE, st_pending_operation := None\<rparr> else s1))"

definition finish_safety :: "NodeContext \<Rightarrow> AgentState \<Rightarrow> AgentState outcome" where
  "finish_safety nc = review_end nc TX_safety WS_EMERGENCY_REVIEW ''SAFETY_REVIEW_REQUIRED'' False"

definition finish_policy_review :: "NodeContext \<Rightarrow> AgentState \<Rightarrow> AgentState outcome" where
  "finish_policy_review nc = review_end nc TX_policy_review WS_HUMAN_REVIEW ''POLICY_REVIEW_REQUIRED'' False"

definition finish_manual_request :: "NodeContext \<Rightarrow> AgentState \<Rightarrow> AgentState outcome" where
  "finish_manual_request nc = review_end nc TX_manual_request WS_HUMAN_REVIEW ''RESIDENT_MANUAL_REQUEST'' True"

definition finish_unsupported :: "NodeContext \<Rightarrow> AgentState \<Rightarrow> AgentState outcome" where
  "finish_unsupported nc = review_end nc TX_unsupported WS_HUMAN_REVIEW ''UNSUPPORTED_AUTOMATION'' False"

definition finish_overdue_appointment :: "NodeContext \<Rightarrow> AgentState \<Rightarrow> AgentState outcome" where
  "finish_overdue_appointment nc =
     review_end nc TX_overdue WS_HUMAN_REVIEW ''OVERDUE_APPOINTMENT_REVIEW_REQUIRED'' True"

section \<open>Waiting for the resident\<close>

datatype agent_resume =
    PROVIDE_INFORMATION (rs_intent_version: int) (rs_trace_id: uuid) (rs_user_message: string)
      (rs_reference_time: PyTime) (rs_timezone_name: string)
  | SELECT_DUPLICATE_TICKET (rs_intent_version: int) (rs_trace_id: uuid) (rs_fingerprint: string)
      (rs_ticket_id: uuid)
  | SELECT_APPOINTMENT_SLOT (rs_intent_version: int) (rs_trace_id: uuid) (rs_fingerprint: string)
      (rs_rank: int)
  | CANCEL_APPOINTMENT_SLOT_SELECTION (rs_intent_version: int) (rs_trace_id: uuid) (rs_fingerprint: string)

datatype interrupt_payload =
    NEED_INFORMATION (iq_intent_version: int) "string list" string
  | DUPLICATE_TICKET_SELECTION (iq_intent_version: int) string "DuplicateCandidate list"
  | APPOINTMENT_SLOT_SELECTION (iq_intent_version: int) string "CandidateSlot list"

text \<open>\<open>interrupt (payload)\<close> stops the node, or returns the value of the resume.\<close>

datatype node_result = Waits interrupt_payload | Updates AgentState

definition interrupt ::
  "interrupt_payload \<Rightarrow> agent_resume option \<Rightarrow> (agent_resume \<Rightarrow> AgentState outcome) \<Rightarrow> node_result outcome" where
  "interrupt payload value continue =
     (case value of None \<Rightarrow> Inr (Waits payload) | Some r \<Rightarrow> map_sum id Updates (continue r))"

fun issue_field_value :: "issue_field \<Rightarrow> string" where
  "issue_field_value IF_PROPERTY = ''PROPERTY''"
| "issue_field_value IF_ISSUE_CATEGORY = ''ISSUE_CATEGORY''"
| "issue_field_value IF_ISSUE_LOCATION = ''ISSUE_LOCATION''"
| "issue_field_value IF_ISSUE_DESCRIPTION = ''ISSUE_DESCRIPTION''"
| "issue_field_value IF_SEVERITY = ''SEVERITY''"
| "issue_field_value IF_AVAILABILITY = ''AVAILABILITY''"

definition resume_error :: "string \<Rightarrow> 'a outcome" where
  "resume_error message = Inl (Exn PyValueError message [])"

definition take_information :: "NodeContext \<Rightarrow> AgentState \<Rightarrow> agent_resume \<Rightarrow> AgentState outcome" where
  "take_information nc st r =
     (case r of
        PROVIDE_INFORMATION intent_version trace_id message reference zone \<Rightarrow>
          if intent_version \<noteq> st_intent_version st then resume_error ''resume intent_version is stale''
          else append_conversation_message (nc_uuid5_url nc) LR_USER message trace_id reference
            (st\<lparr>st_trace_id := trace_id, st_current_user_message := Some message,
               st_current_reference_time := Some reference, st_current_timezone_name := Some zone,
               st_workflow_stage := WS_INTAKE\<rparr>)
      | _ \<Rightarrow> resume_error ''resume kind does not match NEED_INFORMATION'')"

definition need_information :: "NodeContext \<Rightarrow> agent_resume option \<Rightarrow> AgentState \<Rightarrow> node_result outcome" where
  "need_information nc value raw = bindE (load_state raw) (\<lambda>st.
     interrupt (NEED_INFORMATION (st_intent_version st) (map issue_field_value (st_missing_fields st))
       (nc_text nc TX_missing_information)) value (take_information nc st))"

definition need_availability_information ::
  "NodeContext \<Rightarrow> agent_resume option \<Rightarrow> AgentState \<Rightarrow> node_result outcome" where
  "need_availability_information nc value raw = bindE (load_state raw) (\<lambda>st.
     bindE (requested_clock_has_passed (nc_explicit_clock nc) st) (\<lambda>passed.
     interrupt (NEED_INFORMATION (st_intent_version st) [''AVAILABILITY'']
       (nc_text nc (if passed then TX_clock_passed
          else if st_user_availability_windows st \<noteq> [] \<and> st_candidate_slots st = [] then TX_no_slot_in_window
          else TX_ask_availability))) value (take_information nc st)))"

definition take_duplicate :: "AgentState \<Rightarrow> string \<Rightarrow> agent_resume \<Rightarrow> AgentState outcome" where
  "take_duplicate st fingerprint r =
     (case r of
        SELECT_DUPLICATE_TICKET intent_version trace_id candidates ticket_id \<Rightarrow>
          if intent_version \<noteq> st_intent_version st \<or> candidates \<noteq> fingerprint
          then resume_error ''duplicate selection is stale''
          else (case find (\<lambda>c. du_ticket_id c = ticket_id) (st_duplicate_ticket_candidates st) of
             None \<Rightarrow> resume_error ''selected ticket is not a candidate''
           | Some c \<Rightarrow> Inr (st\<lparr>st_trace_id := trace_id, st_active_ticket_id := Some (du_ticket_id c),
               st_ticket_snapshot_version := Some (du_ticket_version c),
               st_workflow_stage := WS_EXISTING_TICKET, st_snapshot_refresh_required := True\<rparr>))
      | _ \<Rightarrow> resume_error ''resume kind does not match duplicate selection'')"

text \<open>The payload needs a fingerprint: without one its model is invalid.\<close>

definition select_duplicate :: "NodeContext \<Rightarrow> agent_resume option \<Rightarrow> AgentState \<Rightarrow> node_result outcome" where
  "select_duplicate nc value raw = bindE (load_state raw) (\<lambda>st.
     case st_duplicate_candidates_fingerprint st of None \<Rightarrow> Inl (Exn ValidationError [] [])
     | Some fingerprint \<Rightarrow> interrupt (DUPLICATE_TICKET_SELECTION (st_intent_version st) fingerprint
         (st_duplicate_ticket_candidates st)) value (take_duplicate st fingerprint))"

definition cancelled_selection :: "uuid \<Rightarrow> AgentState \<Rightarrow> AgentState" where
  "cancelled_selection trace_id st = clear_slots (st\<lparr>st_trace_id := trace_id,
     st_task_intent := AI_UNKNOWN, st_workflow_stage := WS_DONE, st_user_availability_windows := [],
     st_missing_fields := [], st_last_tool_result := None, st_pending_action := PA_NONE,
     st_pending_operation := None, st_snapshot_refresh_required := False\<rparr>)"

definition take_slot :: "NodeContext \<Rightarrow> AgentState \<Rightarrow> string \<Rightarrow> agent_resume \<Rightarrow> AgentState outcome" where
  "take_slot nc st fingerprint r =
     (let stale = (\<lambda>intent_version candidates. intent_version \<noteq> st_intent_version st \<or> candidates \<noteq> fingerprint)
      in case r of
        SELECT_APPOINTMENT_SLOT intent_version trace_id candidates rank \<Rightarrow>
          if stale intent_version candidates then resume_error ''slot selection is stale''
          else (case find (\<lambda>c. cn_rank c = rank) (st_candidate_slots st) of
             None \<Rightarrow> resume_error ''selected rank is not a candidate''
           | Some c \<Rightarrow> Inr (st\<lparr>st_trace_id := trace_id, st_selected_candidate_slot := Some c,
               st_snapshot_refresh_required := True\<rparr>))
      | CANCEL_APPOINTMENT_SLOT_SELECTION intent_version trace_id candidates \<Rightarrow>
          if stale intent_version candidates then resume_error ''slot selection is stale''
          else finish_with nc (if st_task_intent st = AI_RESCHEDULE_APPOINTMENT
               then TX_reschedule_cancelled else TX_booking_postponed) (cancelled_selection trace_id) st
      | _ \<Rightarrow> resume_error ''resume kind does not match slot selection'')"

definition select_slot :: "NodeContext \<Rightarrow> agent_resume option \<Rightarrow> AgentState \<Rightarrow> node_result outcome" where
  "select_slot nc value raw = bindE (load_state raw) (\<lambda>st.
     case st_candidate_slots_fingerprint st of None \<Rightarrow> Inl (Exn ValidationError [] [])
     | Some fingerprint \<Rightarrow> interrupt (APPOINTMENT_SLOT_SELECTION (st_intent_version st) fingerprint
         (st_candidate_slots st)) value (take_slot nc st fingerprint))"

end
