(* ===== verification/AgentGraph.thy ===== *)
theory AgentGraph
  imports AgentDialogue
begin

text \<open>
  The graph of the agent, after \<open>backend/app/agent_runtime/graph.py\<close> and \<open>routing.py\<close>: which node comes
  after which, and how a run goes through them. A node and its router form one task. LangGraph is
  modelled by what its documentation says of a graph without parallel branches: a checkpoint after
  every task, no change when a task raises, a stop at an interrupt, the interrupted node run again
  from its start when the thread is resumed, and a limit on the number of tasks.
\<close>

section \<open>Nodes and routers\<close>

datatype graph_node =
    N_resolve_property | N_interpret | N_need_information | N_need_availability_information
  | N_retrieve_policy | N_find_duplicates | N_select_duplicate | N_prepare_create | N_create_ticket
  | N_resolve_existing | N_refresh_snapshot | N_list_slots | N_select_slot | N_prepare_book | N_book
  | N_prepare_reschedule | N_reschedule | N_compose | N_finish | N_finish_safety
  | N_finish_policy_review | N_finish_manual_request | N_finish_overdue_appointment
  | N_finish_unsupported

definition route_after_property :: "AgentState \<Rightarrow> graph_node option" where
  "route_after_property st = (if st_property_context_verified st then Some N_interpret else None)"

definition route_after_interpret :: "AgentState \<Rightarrow> graph_node option" where
  "route_after_interpret st = Some
     (if \<not> st_property_context_verified st \<or> st_workflow_stage st \<in> {WS_NEED_PROPERTY, WS_HUMAN_REVIEW}
      then N_finish
      else if st_safety_review_required st then N_finish_safety
      else if st_missing_fields st \<noteq> [] then N_need_information
      else if st_task_intent st = AI_NEW_REPAIR then N_retrieve_policy
      else if st_task_intent st \<in> {AI_QUERY_TICKET_STATUS, AI_RESCHEDULE_APPOINTMENT} then N_resolve_existing
      else if st_task_intent st = AI_REQUEST_HUMAN then N_finish_manual_request
      else N_finish_unsupported)"

definition route_after_policy :: "AgentState \<Rightarrow> graph_node option" where
  "route_after_policy st = Some
     (if st_policy_conflict st \<or> st_policy_sufficiency st \<noteq> Some EV_SUFFICIENT
      then N_finish_policy_review else N_find_duplicates)"

definition route_duplicates :: "AgentState \<Rightarrow> graph_node option" where
  "route_duplicates st = Some
     (if st_active_ticket_id st \<noteq> None then N_refresh_snapshot
      else if st_duplicate_ticket_candidates st = [] then N_prepare_create else N_select_duplicate)"

definition route_after_snapshot :: "AgentState \<Rightarrow> graph_node option" where
  "route_after_snapshot st = Some
     (if st_escalation_reason st = Some ''OVERDUE_APPOINTMENT_REVIEW_REQUIRED''
      then N_finish_overdue_appointment
      else if st_task_intent st = AI_NEW_REPAIR \<and> st_active_ticket_id st = None then N_find_duplicates
      else if st_selected_candidate_slot st \<noteq> None
      then (if st_task_intent st = AI_RESCHEDULE_APPOINTMENT then N_prepare_reschedule else N_prepare_book)
      else if st_task_intent st = AI_NEW_REPAIR \<and> has_active_appointment st then N_compose
      else if st_task_intent st = AI_RESCHEDULE_APPOINTMENT \<and> appointment_just_written st then N_compose
      else if st_task_intent st = AI_QUERY_TICKET_STATUS then N_compose
      else N_list_slots)"

definition route_after_slot_lookup :: "AgentState \<Rightarrow> graph_node option" where
  "route_after_slot_lookup st = Some
     (if st_user_availability_windows st = [] \<or> st_candidate_slots st = []
      then N_need_availability_information else N_select_slot)"

definition route_after_slot_selection :: "AgentState \<Rightarrow> graph_node option" where
  "route_after_slot_selection st = (if st_workflow_stage st = WS_DONE then None else Some N_refresh_snapshot)"

definition route_resolved_existing :: "AgentState \<Rightarrow> graph_node option" where
  "route_resolved_existing st = Some
     (if st_active_ticket_id st \<noteq> None then N_refresh_snapshot
      else if st_duplicate_ticket_candidates st \<noteq> [] then N_select_duplicate else N_finish)"

text \<open>A router loads the state; a fixed edge does not.\<close>

fun edge :: "graph_node \<Rightarrow> AgentState \<Rightarrow> graph_node option outcome" where
  "edge N_resolve_property raw = bindE (load_state raw) (\<lambda>st. Inr (route_after_property st))"
| "edge N_interpret raw = bindE (load_state raw) (\<lambda>st. Inr (route_after_interpret st))"
| "edge N_need_information raw = Inr (Some N_interpret)"
| "edge N_need_availability_information raw = Inr (Some N_interpret)"
| "edge N_retrieve_policy raw = bindE (load_state raw) (\<lambda>st. Inr (route_after_policy st))"
| "edge N_find_duplicates raw = bindE (load_state raw) (\<lambda>st. Inr (route_duplicates st))"
| "edge N_select_duplicate raw = Inr (Some N_refresh_snapshot)"
| "edge N_prepare_create raw = Inr (Some N_create_ticket)"
| "edge N_create_ticket raw = Inr (Some N_refresh_snapshot)"
| "edge N_resolve_existing raw = bindE (load_state raw) (\<lambda>st. Inr (route_resolved_existing st))"
| "edge N_refresh_snapshot raw = bindE (load_state raw) (\<lambda>st. Inr (route_after_snapshot st))"
| "edge N_list_slots raw = bindE (load_state raw) (\<lambda>st. Inr (route_after_slot_lookup st))"
| "edge N_select_slot raw = bindE (load_state raw) (\<lambda>st. Inr (route_after_slot_selection st))"
| "edge N_prepare_book raw = Inr (Some N_book)"
| "edge N_book raw = Inr (Some N_refresh_snapshot)"
| "edge N_prepare_reschedule raw = Inr (Some N_reschedule)"
| "edge N_reschedule raw = Inr (Some N_refresh_snapshot)"
| "edge N_compose raw = Inr None"
| "edge N_finish raw = Inr None"
| "edge N_finish_safety raw = Inr None"
| "edge N_finish_policy_review raw = Inr None"
| "edge N_finish_manual_request raw = Inr None"
| "edge N_finish_overdue_appointment raw = Inr None"
| "edge N_finish_unsupported raw = Inr None"

definition updating :: "AgentState outcome \<Rightarrow> node_result outcome" where
  "updating m = map_sum id Updates m"

fun run_node :: "NodeContext \<Rightarrow> graph_node \<Rightarrow> agent_resume option \<Rightarrow> AgentState \<Rightarrow> node_result outcome" where
  "run_node nc N_resolve_property answer raw = updating (resolve_property_node nc raw)"
| "run_node nc N_interpret answer raw = updating (interpret_message nc raw)"
| "run_node nc N_need_information answer raw = need_information nc answer raw"
| "run_node nc N_need_availability_information answer raw = need_availability_information nc answer raw"
| "run_node nc N_retrieve_policy answer raw = updating (retrieve_policy nc raw)"
| "run_node nc N_find_duplicates answer raw = updating (find_duplicates nc raw)"
| "run_node nc N_select_duplicate answer raw = select_duplicate nc answer raw"
| "run_node nc N_prepare_create answer raw = updating (prepare_create nc raw)"
| "run_node nc N_create_ticket answer raw = updating (create_ticket_node nc raw)"
| "run_node nc N_resolve_existing answer raw = updating (resolve_existing nc raw)"
| "run_node nc N_refresh_snapshot answer raw = updating (refresh_snapshot nc raw)"
| "run_node nc N_list_slots answer raw = updating (list_slots nc raw)"
| "run_node nc N_select_slot answer raw = select_slot nc answer raw"
| "run_node nc N_prepare_book answer raw = updating (prepare_book nc raw)"
| "run_node nc N_book answer raw = updating (book nc raw)"
| "run_node nc N_prepare_reschedule answer raw = updating (prepare_reschedule nc raw)"
| "run_node nc N_reschedule answer raw = updating (reschedule nc raw)"
| "run_node nc N_compose answer raw = updating (compose nc raw)"
| "run_node nc N_finish answer raw = updating (compose nc raw)"
| "run_node nc N_finish_safety answer raw = updating (finish_safety nc raw)"
| "run_node nc N_finish_policy_review answer raw = updating (finish_policy_review nc raw)"
| "run_node nc N_finish_manual_request answer raw = updating (finish_manual_request nc raw)"
| "run_node nc N_finish_overdue_appointment answer raw = updating (finish_overdue_appointment nc raw)"
| "run_node nc N_finish_unsupported answer raw = updating (finish_unsupported nc raw)"

section \<open>Tasks and runs\<close>

datatype task_result = Task_waits interrupt_payload | Task_done AgentState "graph_node option"

definition run_task :: "NodeContext \<Rightarrow> graph_node \<Rightarrow> agent_resume option \<Rightarrow> AgentState \<Rightarrow> task_result outcome" where
  "run_task nc n answer raw = bindE (run_node nc n answer raw) (\<lambda>r. case r of
       Waits payload \<Rightarrow> Inr (Task_waits payload)
     | Updates st \<Rightarrow> bindE (edge n st) (\<lambda>after. Inr (Task_done st after)))"

text \<open>A checkpoint: the last state, the node to run next, and what it waits for.\<close>

record Checkpoint =
  ck_state :: AgentState
  ck_next :: "graph_node option"
  ck_interrupt :: "interrupt_payload option"

datatype run_end = Run_finished | Run_waits interrupt_payload | Run_failed exn

text \<open>The dependencies may answer differently at every task, so they are indexed by the tasks left.\<close>

fun run_graph ::
  "nat \<Rightarrow> (nat \<Rightarrow> NodeContext) \<Rightarrow> agent_resume option \<Rightarrow> graph_node \<Rightarrow> AgentState \<Rightarrow> Checkpoint \<times> run_end"
where
  "run_graph 0 ncs answer n raw =
     (\<lparr>ck_state = raw, ck_next = Some n, ck_interrupt = None\<rparr>, Run_failed (Exn GraphRecursionError [] []))"
| "run_graph (Suc k) ncs answer n raw =
     (case run_task (ncs k) n answer raw of
        Inl e \<Rightarrow> (\<lparr>ck_state = raw, ck_next = Some n, ck_interrupt = None\<rparr>, Run_failed e)
      | Inr (Task_waits payload) \<Rightarrow>
          (\<lparr>ck_state = raw, ck_next = Some n, ck_interrupt = Some payload\<rparr>, Run_waits payload)
      | Inr (Task_done st None) \<Rightarrow>
          (\<lparr>ck_state = st, ck_next = None, ck_interrupt = None\<rparr>, Run_finished)
      | Inr (Task_done st (Some after)) \<Rightarrow> run_graph k ncs None after st)"

text \<open>The same as a relation between configurations, one task at a time, under any dependencies.\<close>

type_synonym configuration = "graph_node option \<times> AgentState"

inductive task_step :: "configuration \<Rightarrow> configuration \<Rightarrow> bool" where
  task_step: "run_task nc n answer raw = Inr (Task_done st after) \<Longrightarrow> task_step (Some n, raw) (after, st)"

inductive_cases task_stepE: "task_step (Some n, raw) (after, st)"

lemma run_graph_steps:
  "task_step\<^sup>*\<^sup>* (Some n, raw) (ck_next (fst (run_graph k ncs answer n raw)), ck_state (fst (run_graph k ncs answer n raw)))"
proof (induction k arbitrary: answer n raw)
  case (Suc k)
  show ?case
  proof (cases "run_task (ncs k) n answer raw")
    case (Inr r)
    show ?thesis
    proof (cases r)
      case (Task_done st after)
      with Inr have step: "task_step (Some n, raw) (after, st)" by (blast intro: task_step)
      show ?thesis
        using Suc.IH [where answer = None] Inr Task_done step
        by (cases "after") (auto intro: converse_rtranclp_into_rtranclp)
    qed (simp add: Inr)
  qed simp
qed simp

end
