(* ===== verification/AgentRuns.thy ===== *)
theory AgentRuns
  imports AgentGraph ReliabilityFacts
begin

text \<open>
  What every run of the agent's graph keeps: each checkpoint can be loaded again, and each node is
  reached only in states that its annotation describes. Mutations are sent from three nodes only, so
  their annotations tell what has been checked before a mutation.
\<close>

section \<open>What a computation returns\<close>

text \<open>Every value that a computation can return satisfies \<open>P\<close>; an exception satisfies anything.\<close>

definition returns :: "('a \<Rightarrow> bool) \<Rightarrow> 'a outcome \<Rightarrow> bool" where
  "returns P m \<longleftrightarrow> (\<forall>x. m = Inr x \<longrightarrow> P x)"

named_theorems returns_intros

lemma returns_basic [returns_intros]:
  "returns P (Inl e)"
  "P x \<Longrightarrow> returns P (Inr x)"
  "(ok x \<Longrightarrow> P x) \<Longrightarrow> returns P (checked ok x)"
  by (simp_all add: returns_def checked_def)

lemma returns_bindE [returns_intros]:
  "(\<And>x. m = Inr x \<Longrightarrow> returns P (f x)) \<Longrightarrow> returns P (bindE m f)"
  by (cases m) (simp_all add: returns_def)

lemma returns_split [returns_intros]:
  "(c \<Longrightarrow> returns P m) \<Longrightarrow> (\<not> c \<Longrightarrow> returns P m') \<Longrightarrow> returns P (if c then m else m')"
  "(x = None \<Longrightarrow> returns P m) \<Longrightarrow> (\<And>y. x = Some y \<Longrightarrow> returns P (f y)) \<Longrightarrow>
   returns P (case x of None \<Rightarrow> m | Some y \<Rightarrow> f y)"
  "(xs = [] \<Longrightarrow> returns P m) \<Longrightarrow> (\<And>y ys. xs = y # ys \<Longrightarrow> returns P (g y ys)) \<Longrightarrow>
   returns P (case xs of [] \<Rightarrow> m | y # ys \<Rightarrow> g y ys)"
  "(\<And>a b. p = (a, b) \<Longrightarrow> returns P (h a b)) \<Longrightarrow> returns P (case p of (a, b) \<Rightarrow> h a b)"
  "(\<And>e. s = Inl e \<Longrightarrow> returns P (k e)) \<Longrightarrow> (\<And>y. s = Inr y \<Longrightarrow> returns P (l y)) \<Longrightarrow>
   returns P (case s of Inl e \<Rightarrow> k e | Inr y \<Rightarrow> l y)"
  by (simp_all split: option.split list.split prod.split sum.split)

lemma returnsD: "returns P m \<Longrightarrow> m = Inr x \<Longrightarrow> P x"
  by (simp add: returns_def)

lemma returns_weaken: "returns P m \<Longrightarrow> (\<And>x. P x \<Longrightarrow> Q x) \<Longrightarrow> returns Q m"
  by (simp add: returns_def)

section \<open>Sound states\<close>

lemma strip_by_idem: "strip_by p (strip_by p xs) = strip_by p xs"
proof -
  let ?ys = "dropWhile p xs"
  let ?zs = "rev (dropWhile p (rev ?ys))"
  have "?zs = take (length ?zs) ?ys"
    by (metis append_eq_conv_conj rev_append rev_rev_ident takeWhile_dropWhile_id)
  then have "?zs = [] \<or> hd ?zs = hd ?ys"
    by (metis hd_take list.size(3) neq0_conv take_eq_Nil)
  moreover have "?ys = [] \<or> \<not> p (hd ?ys)" using hd_dropWhile [of p xs] by blast
  ultimately have "dropWhile p ?zs = ?zs"
    by (metis dropWhile.simps(1) dropWhile_eq_self_iff rev.simps(1))
  then show ?thesis by (simp add: strip_by_def)
qed

lemma strip_idem [simp]: "strip (strip s) = strip s"
  by (simp add: strip_def strip_by_idem)

definition sound_state :: "AgentState \<Rightarrow> bool" where
  "sound_state st \<longleftrightarrow> load_state st = Inr st"

definition texts_stripped :: "AgentState \<Rightarrow> bool" where
  "texts_stripped st \<longleftrightarrow> map_option strip (st_issue_location st) = st_issue_location st \<and>
     map_option strip (st_normalized_issue_location st) = st_normalized_issue_location st \<and>
     map_option strip (st_issue_description st) = st_issue_description st"

lemma stripped_texts_iff: "stripped_texts st = st \<longleftrightarrow> texts_stripped st"
  by (cases st) (simp add: stripped_texts_def texts_stripped_def)

lemma sound_state_iff: "sound_state st \<longleftrightarrow> valid_state st \<and> texts_stripped st"
  by (auto simp: sound_state_def load_state_def checked_def stripped_texts_iff [symmetric])

lemma load_state_sound:
  assumes "load_state raw = Inr st"
  shows "sound_state st"
proof -
  have "st = stripped_texts raw" "valid_state st" using assms by (auto simp: load_state_def checked_Inr)
  moreover have "texts_stripped (stripped_texts raw)"
    by (simp add: texts_stripped_def stripped_texts_def option.map_comp comp_def)
  ultimately show ?thesis by (simp add: sound_state_iff)
qed

lemma sound_load: "sound_state raw \<Longrightarrow> load_state raw = Inr st \<longleftrightarrow> st = raw"
  by (auto simp: sound_state_def)

text \<open>The two equations of the validator, from the computed value to the stored one.\<close>

definition issue_fields_valid :: "AgentState \<Rightarrow> bool" where
  "issue_fields_valid st \<longleftrightarrow>
     pred_option (text_between 1 255) (st_issue_location st) \<and>
     pred_option (text_between 1 255) (st_normalized_issue_location st) \<and>
     pred_option (text_between 1 4000) (st_issue_description st) \<and>
     pred_option (\<lambda>n. 0 < n \<and> n \<le> 1440) (st_service_duration_minutes st) \<and>
     length (st_safety_flags st) \<le> 10 \<and> length (st_user_availability_windows st) \<le> 20 \<and>
     list_all window_ok (st_user_availability_windows st) \<and>
     length (st_missing_fields st) \<le> 12 \<and> 1 \<le> st_intent_version st \<and>
     (st_property_context_verified st \<longrightarrow> st_property_id st \<noteq> None)"

lemma issue_valid_iff:
  "issue_valid st \<longleftrightarrow> issue_fields_valid st \<and>
     normalize_issue_location (st_issue_location st) = st_normalized_issue_location st \<and>
     required_fields st = st_missing_fields st"
  by (auto simp: issue_valid_def issue_fields_valid_def)

lemmas valid_state_defs = valid_state_def issue_valid_iff issue_fields_valid_def ticket_valid_def slots_valid_def
  duplicates_valid_def policy_valid_def operation_valid_def conversation_valid_def required_fields_def

lemmas sound_defs = sound_state_iff texts_stripped_def valid_state_defs

text \<open>The same, with the conversation left folded.\<close>

lemmas unspoken_defs = sound_state_iff texts_stripped_def valid_state_def issue_valid_iff issue_fields_valid_def
  ticket_valid_def slots_valid_def duplicates_valid_def policy_valid_def operation_valid_def required_fields_def

section \<open>Messages\<close>

lemma last_n_set: "set (last_n n xs) \<subseteq> set xs"
  by (simp add: last_n_def set_drop_subset)

lemma map_last_n: "map f (last_n n xs) = last_n n (map f xs)"
  by (simp add: last_n_def drop_map)

lemma distinct_last_n: "distinct xs \<Longrightarrow> distinct (last_n n xs)"
  by (simp add: last_n_def distinct_drop)

lemma append_message_frame:
  assumes "append_conversation_message u role content turn_id t st = Inr st'"
  shows "\<exists>ms. st' = st\<lparr>st_conversation_messages := ms\<rparr>"
proof (cases "st' = st")
  case True
  then have "st' = st\<lparr>st_conversation_messages := st_conversation_messages st\<rparr>" by simp
  then show ?thesis by (rule exI)
next
  case False
  then show ?thesis
    using assms by (auto simp: append_conversation_message_def Let_def bindE_Inr_iff checked_Inr split: if_splits)
qed

lemma append_message_keeps:
  assumes "append_conversation_message u role content turn_id t st = Inr st'" and "conversation_valid st"
  shows "\<exists>ms. st' = st\<lparr>st_conversation_messages := ms\<rparr> \<and> conversation_valid st'"
proof (cases "st' = st")
  case True
  moreover have "st = st\<lparr>st_conversation_messages := st_conversation_messages st\<rparr>" by simp
  ultimately show ?thesis using assms(2) by metis
next
  case False
  then obtain m where m: "message_ok m" "\<forall>x \<in> set (st_conversation_messages st). cv_message_id x \<noteq> cv_message_id m"
    "st' = st\<lparr>st_conversation_messages := last_n 100 (st_conversation_messages st @ [m])\<rparr>"
    using assms(1)
    by (auto simp: append_conversation_message_def Let_def bindE_Inr_iff checked_Inr split: if_splits)
  have "distinct (map cv_message_id (st_conversation_messages st @ [m]))"
    using assms(2) m(2) by (auto simp: conversation_valid_def)
  then have "distinct (map cv_message_id (last_n 100 (st_conversation_messages st @ [m])))"
    unfolding map_last_n by (rule distinct_last_n)
  moreover have "list_all message_ok (last_n 100 (st_conversation_messages st @ [m]))"
    using assms(2) m(1) last_n_set [of 100 "st_conversation_messages st @ [m]"]
    by (auto simp: conversation_valid_def list_all_iff)
  moreover have "length (last_n 100 (st_conversation_messages st @ [m])) \<le> 100" by (simp add: last_n_def)
  ultimately show ?thesis using assms(2) m(3) by (auto simp: conversation_valid_def)
qed

section \<open>What the dependencies promise\<close>

text \<open>The digest is hexadecimal, texts are short, and what a typed dependency returns satisfies its type.\<close>

definition mutation_response_ok :: "MutationResultData ToolResponse outcome \<Rightarrow> bool" where
  "mutation_response_ok m \<longleftrightarrow>
     (case m of Inl _ \<Rightarrow> True | Inr response \<Rightarrow> pred_option mutation_data_ok (rsp_data response))"

definition context_ok :: "(string \<Rightarrow> string) \<Rightarrow> NodeContext \<Rightarrow> bool" where
  "context_ok H nc \<longleftrightarrow> nc_sha256 nc = H \<and> (\<forall>s. is_hex64 (H s)) \<and>
     (\<forall>t. text_between 1 1000 (nc_text nc t)) \<and>
     (\<forall>i out. nc_interpret nc i = Inr out \<longrightarrow> interpretation_ok out) \<and>
     (\<forall>i text. nc_compose nc i = Inr text \<longrightarrow> text_between 1 8000 text) \<and>
     (\<forall>r. mutation_response_ok (nc_create_ticket nc r)) \<and>
     (\<forall>r. mutation_response_ok (nc_book_appointment nc r)) \<and>
     (\<forall>r. mutation_response_ok (nc_reschedule_appointment nc r))"

lemma context_okD:
  assumes "context_ok H nc"
  shows "nc_sha256 nc = H" and "is_hex64 (H s)" and "text_between 1 1000 (nc_text nc t)"
    and "nc_interpret nc i = Inr out \<Longrightarrow> interpretation_ok out"
    and "nc_compose nc j = Inr text \<Longrightarrow> text_between 1 8000 text"
    and "mutation_response_ok (nc_create_ticket nc c)" and "mutation_response_ok (nc_book_appointment nc b)"
    and "mutation_response_ok (nc_reschedule_appointment nc r)"
  using assms by (simp_all add: context_ok_def)

text \<open>A resume as its model admits it.\<close>

definition resume_ok :: "agent_resume \<Rightarrow> bool" where
  "resume_ok r \<longleftrightarrow> 1 \<le> rs_intent_version r \<and>
     (case r of PROVIDE_INFORMATION _ _ message _ zone \<Rightarrow>
        text_between 1 4000 message \<and> text_between 1 64 zone | _ \<Rightarrow> True)"

inductive agent_step :: "(string \<Rightarrow> string) \<Rightarrow> configuration \<Rightarrow> configuration \<Rightarrow> bool" for H where
  agent_step: "context_ok H nc \<Longrightarrow> pred_option resume_ok answer \<Longrightarrow>
     run_task nc n answer raw = Inr (Task_done st after) \<Longrightarrow> agent_step H (Some n, raw) (after, st)"

section \<open>Annotations\<close>

text \<open>Past the interpretation: the property is verified, nothing is flagged, nothing is missing.\<close>

definition planning :: "AgentState \<Rightarrow> bool" where
  "planning st \<longleftrightarrow> st_property_context_verified st \<and> \<not> st_safety_review_required st \<and>
     st_missing_fields st = [] \<and>
     st_task_intent st \<in> {AI_NEW_REPAIR, AI_QUERY_TICKET_STATUS, AI_RESCHEDULE_APPOINTMENT} \<and>
     (st_task_intent st = AI_NEW_REPAIR \<longrightarrow> st_severity st \<noteq> None)"

text \<open>A new repair is also cleared by sufficient policy evidence without conflicts.\<close>

definition cleared :: "AgentState \<Rightarrow> bool" where
  "cleared st \<longleftrightarrow> planning st \<and> (st_task_intent st = AI_NEW_REPAIR \<longrightarrow>
     st_policy_sufficiency st = Some EV_SUFFICIENT \<and> \<not> st_policy_conflict st)"

definition operation_for ::
  "(string \<Rightarrow> string) \<Rightarrow> AgentState \<Rightarrow> pending_action \<Rightarrow> pval \<Rightarrow> uuid option \<Rightarrow> int option \<Rightarrow> int option \<Rightarrow>
   PendingOperation" where
  "operation_for H st action payload target_id ticket_version appointment_version =
     (let fingerprint = H (json_dumps (agent_operation_material (st_thread_id st) (st_intent_version st) action
            payload target_id ticket_version appointment_version))
      in \<lparr>po_action = action, po_request_fingerprint = fingerprint,
          po_idempotency_key = ''agent-'' @ fingerprint, po_intent_version = st_intent_version st,
          po_expected_ticket_version = ticket_version,
          po_expected_appointment_version = appointment_version\<rparr>)"

definition create_operation :: "(string \<Rightarrow> string) \<Rightarrow> AgentState \<Rightarrow> PendingOperation" where
  "create_operation H st =
     operation_for H st PA_CREATE_TICKET (create_payload st) (st_property_id st) None None"

definition book_operation :: "(string \<Rightarrow> string) \<Rightarrow> AgentState \<Rightarrow> CandidateSlot \<Rightarrow> PendingOperation" where
  "book_operation H st slot = operation_for H st PA_BOOK_APPOINTMENT (slot_json slot)
     (st_active_ticket_id st) (st_ticket_snapshot_version st) None"

definition reschedule_operation :: "(string \<Rightarrow> string) \<Rightarrow> AgentState \<Rightarrow> CandidateSlot \<Rightarrow> PendingOperation" where
  "reschedule_operation H st slot = operation_for H st PA_RESCHEDULE_APPOINTMENT (slot_json slot)
     (st_active_appointment_id st) (st_ticket_snapshot_version st) (st_appointment_version st)"

definition chosen_slot :: "AgentState \<Rightarrow> bool" where
  "chosen_slot st \<longleftrightarrow> cleared st \<and>
     (\<exists>slot. st_selected_candidate_slot st = Some slot \<and> slot \<in> set (st_candidate_slots st))"

definition no_ticket_yet :: "AgentState \<Rightarrow> bool" where
  "no_ticket_yet st \<longleftrightarrow> cleared st \<and> st_task_intent st = AI_NEW_REPAIR \<and> st_active_ticket_id st = None \<and>
     st_duplicate_ticket_candidates st = []"

fun annotation :: "(string \<Rightarrow> string) \<Rightarrow> graph_node \<Rightarrow> AgentState \<Rightarrow> bool" where
  "annotation H N_resolve_property st \<longleftrightarrow> st_current_user_message st \<noteq> None"
| "annotation H N_interpret st \<longleftrightarrow> st_property_context_verified st \<and> st_current_user_message st \<noteq> None"
| "annotation H N_need_information st \<longleftrightarrow> st_property_context_verified st"
| "annotation H N_need_availability_information st \<longleftrightarrow> st_property_context_verified st"
| "annotation H N_retrieve_policy st \<longleftrightarrow> planning st \<and> st_task_intent st = AI_NEW_REPAIR"
| "annotation H N_find_duplicates st \<longleftrightarrow> cleared st \<and> st_task_intent st = AI_NEW_REPAIR"
| "annotation H N_select_duplicate st \<longleftrightarrow> cleared st \<and> st_active_ticket_id st = None"
| "annotation H N_prepare_create st \<longleftrightarrow> no_ticket_yet st"
| "annotation H N_create_ticket st \<longleftrightarrow> no_ticket_yet st \<and>
     st_pending_operation st = Some (create_operation H st)"
| "annotation H N_resolve_existing st \<longleftrightarrow> cleared st \<and> st_task_intent st \<noteq> AI_NEW_REPAIR"
| "annotation H N_refresh_snapshot st \<longleftrightarrow> cleared st"
| "annotation H N_list_slots st \<longleftrightarrow> cleared st"
| "annotation H N_select_slot st \<longleftrightarrow> cleared st"
| "annotation H N_prepare_book st \<longleftrightarrow> chosen_slot st \<and> st_task_intent st \<noteq> AI_RESCHEDULE_APPOINTMENT"
| "annotation H N_book st \<longleftrightarrow> chosen_slot st \<and> st_task_intent st \<noteq> AI_RESCHEDULE_APPOINTMENT \<and>
     st_pending_operation st = map_option (book_operation H st) (st_selected_candidate_slot st)"
| "annotation H N_prepare_reschedule st \<longleftrightarrow> chosen_slot st \<and> st_task_intent st = AI_RESCHEDULE_APPOINTMENT"
| "annotation H N_reschedule st \<longleftrightarrow> chosen_slot st \<and> st_task_intent st = AI_RESCHEDULE_APPOINTMENT \<and>
     st_pending_operation st = map_option (reschedule_operation H st) (st_selected_candidate_slot st)"
| "annotation H _ st \<longleftrightarrow> True"

definition agent_inv :: "(string \<Rightarrow> string) \<Rightarrow> configuration \<Rightarrow> bool" where
  "agent_inv H c \<longleftrightarrow> sound_state (snd c) \<and> (\<forall>n \<in> set_option (fst c). annotation H n (snd c))"

lemma agent_inv_simps [simp]:
  "agent_inv H (None, st) \<longleftrightarrow> sound_state st"
  "agent_inv H (Some n, st) \<longleftrightarrow> sound_state st \<and> annotation H n st"
  by (simp_all add: agent_inv_def)

section \<open>Node by node\<close>

lemma updating_Inr: "updating m = Inr r \<longleftrightarrow> (\<exists>st. m = Inr st \<and> r = Updates st)"
  by (cases m) (auto simp: updating_def)

lemma run_task_Inr:
  "run_task nc n answer raw = Inr (Task_done st after) \<longleftrightarrow>
     run_node nc n answer raw = Inr (Updates st) \<and> edge n st = Inr after"
proof (cases "run_node nc n answer raw")
  case (Inr r)
  then show ?thesis by (cases r) (auto simp: run_task_def bindE_Inr_iff)
qed (simp add: run_task_def)

text \<open>A router that succeeds has loaded the state.\<close>

lemma routed:
  assumes "bindE (load_state st) (\<lambda>s. Inr (route s)) = Inr after" and "texts_stripped st"
  shows "sound_state st \<and> after = route st"
proof -
  obtain s where s: "load_state st = Inr s" "after = route s" using assms(1) by (auto simp: bindE_Inr_iff)
  then have "s = st"
    using assms(2) by (auto simp: load_state_def checked_Inr stripped_texts_iff [symmetric])
  then show ?thesis using s load_state_sound by blast
qed

lemma sound_texts: "sound_state st \<Longrightarrow> texts_stripped st"
  by (simp add: sound_state_iff)

lemma loaded: "sound_state st \<Longrightarrow> bindE (load_state st) f = f st"
  by (simp add: sound_state_def)

text \<open>Ending a turn with an answer.\<close>

lemma finish_with_frame:
  assumes "finish_with nc message updates st = Inr st'"
  shows "\<exists>ms. st' = (updates st)\<lparr>st_last_assistant_message := Some (nc_text nc message),
      st_conversation_messages := ms\<rparr>"
  using append_message_frame [OF assms [unfolded finish_with_def finish_with_assistant_message_def]] .

lemma finish_with_keeps:
  assumes "finish_with nc message updates st = Inr st'" and "context_ok H nc"
    and "conversation_valid ((updates st)\<lparr>st_last_assistant_message := None\<rparr>)"
  shows "\<exists>ms. st' = (updates st)\<lparr>st_last_assistant_message := Some (nc_text nc message),
      st_conversation_messages := ms\<rparr> \<and> conversation_valid st'"
proof -
  have "text_between 1 8000 (nc_text nc message)"
    using context_okD(3) [OF assms(2), of message] by (simp add: text_between_def)
  then have "conversation_valid ((updates st)\<lparr>st_last_assistant_message := Some (nc_text nc message)\<rparr>)"
    using assms(3) by (simp add: conversation_valid_def)
  from append_message_keeps [OF assms(1) [unfolded finish_with_def finish_with_assistant_message_def] this]
  show ?thesis .
qed

text \<open>An operation is built from the state as its annotation says.\<close>

lemma build_pending_operation_Inr:
  assumes "build_pending_operation nc thread_id v action payload target tv av = Inr op"
  shows "pending_operation_ok op"
    and "thread_id = st_thread_id st \<Longrightarrow> v = st_intent_version st \<Longrightarrow> nc_sha256 nc = H \<Longrightarrow>
      op = operation_for H st action payload target tv av"
  using assms
  by (simp_all add: build_pending_operation_def Let_def checked_Inr operation_for_def stable_json_hash_def)

lemmas plan_defs = planning_def cleared_def chosen_slot_def no_ticket_yet_def

subsection \<open>Property and interpretation\<close>

lemma returns_append [returns_intros]:
  "(\<And>ms. P (st\<lparr>st_conversation_messages := ms\<rparr>)) \<Longrightarrow>
   returns P (append_conversation_message u role content turn_id t st)"
  using append_message_frame unfolding returns_def by blast

lemma returns_finish_with [returns_intros]:
  "(\<And>ms. P ((updates st)\<lparr>st_last_assistant_message := Some (nc_text nc message),
      st_conversation_messages := ms\<rparr>)) \<Longrightarrow> returns P (finish_with nc message updates st)"
  unfolding finish_with_def finish_with_assistant_message_def by (rule returns_append)

lemma resolve_property_texts:
  assumes "sound_state st"
  shows "returns (\<lambda>s. texts_stripped s \<and> st_current_user_message s = st_current_user_message st)
    (resolve_property_node nc st)"
  unfolding resolve_property_node_def loaded [OF assms] Let_def
  by (intro returns_intros; use sound_texts [OF assms] in \<open>simp add: texts_stripped_def\<close>)

lemma step_resolve_property:
  assumes "run_task nc N_resolve_property answer st = Inr (Task_done st' after)"
    and "sound_state st" and "annotation H N_resolve_property st"
  shows "agent_inv H (after, st')"
proof -
  have "resolve_property_node nc st = Inr st'" and edge: "edge N_resolve_property st' = Inr after"
    using assms(1) by (simp_all add: run_task_Inr updating_Inr)
  with returnsD [OF resolve_property_texts [OF assms(2)]]
  have "texts_stripped st'" "st_current_user_message st' = st_current_user_message st" by blast+
  with routed [OF edge [unfolded edge.simps]] assms(3) show ?thesis by (simp add: route_after_property_def)
qed

text \<open>A normalized location has no blanks at its ends.\<close>

definition solid :: "string \<Rightarrow> bool" where
  "solid w \<longleftrightarrow> w \<noteq> [] \<and> list_all (\<lambda>c. \<not> py_space c) w"

lemma words_from_words:
  "list_all (\<lambda>c. \<not> py_space c) acc \<Longrightarrow> list_all solid (words_from acc s)"
proof (induction s arbitrary: acc)
  case Nil
  then show ?case by (simp add: solid_def list_all_iff)
next
  case (Cons c s)
  from Cons.IH [of "[]"] have fresh: "list_all solid (words_from [] s)" by simp
  show ?case
  proof (cases "py_space c")
    case True
    then show ?thesis using fresh Cons.prems by (simp add: solid_def list_all_iff)
  next
    case False
    then show ?thesis using Cons.IH [of "c # acc"] Cons.prems by simp
  qed
qed
lemma dropWhile_ends:
  "xs = [] \<or> \<not> p (hd xs) \<Longrightarrow> dropWhile p xs = xs"
  "xs = [] \<or> \<not> p (last xs) \<Longrightarrow> dropWhile p (rev xs) = rev xs"
  by (cases xs, simp, simp) (cases xs rule: rev_cases, simp, simp)

lemma strip_by_trivial:
  assumes "s = [] \<or> \<not> p (hd s) \<and> \<not> p (last s)"
  shows "strip_by p s = s"
proof -
  from assms have "dropWhile p s = s" "dropWhile p (rev s) = rev s" using dropWhile_ends by blast+
  then show ?thesis by (simp add: strip_by_def)
qed

lemma join_with_ends:
  "list_all solid ws \<Longrightarrow> ws \<noteq> [] \<Longrightarrow> join_with sep ws \<noteq> [] \<and>
     hd (join_with sep ws) = hd (hd ws) \<and> last (join_with sep ws) = last (last ws)"
  by (induction sep ws rule: join_with.induct) (simp_all add: solid_def)

lemma solid_ends: "solid w \<Longrightarrow> \<not> py_space (hd w) \<and> \<not> py_space (last w)"
  by (cases w) (simp_all add: solid_def list_all_iff)

lemma strip_joined: "strip (join_with '' '' (split_words s)) = join_with '' '' (split_words s)"
proof (cases "split_words s = []")
  case False
  have words: "list_all solid (split_words s)"
    using words_from_words [of "[]"] by (simp add: split_words_def)
  with False have "solid (hd (split_words s))" "solid (last (split_words s))"
    by (simp_all add: list_all_iff)
  with join_with_ends [OF words False] show ?thesis
    unfolding strip_def by (intro strip_by_trivial) (simp add: solid_ends)
qed (simp add: strip_def strip_by_def)

lemma strip_normalized: "map_option strip (normalize_issue_location x) = normalize_issue_location x"
  by (cases x) (simp_all add: normalize_issue_location_def Let_def strip_joined)

lemma merge_keeps:
  assumes "sound_state st" and "interpretation_ok out"
  shows "returns (\<lambda>s. texts_stripped s \<and> st_missing_fields s = required_fields s \<and>
      st_property_context_verified s = st_property_context_verified st \<and>
      st_current_user_message s = st_current_user_message st) (merge_interpretation st out)"
proof -
  have "map_option strip (or_option (io_issue_location out) (st_issue_location st)) =
      or_option (io_issue_location out) (st_issue_location st)"
    "map_option strip (or_option (io_issue_description_update out) (st_issue_description st)) =
      or_option (io_issue_description_update out) (st_issue_description st)"
    using assms sound_texts [OF assms(1)]
    by (auto simp: interpretation_ok_def stripped_between_def or_option_def texts_stripped_def split: option.splits)
  then show ?thesis
    unfolding merge_interpretation_def Let_def
    by (intro returns_intros)
      (simp_all add: Let_def with_missing_fields_def merged_facts_def discard_plan_def restart_version_def
        texts_stripped_def required_fields_def merged_location_def strip_normalized)
qed

text \<open>The interpretation keeps who speaks and what is verified, and gives a complete new repair a severity.\<close>

definition graded :: "AgentState \<Rightarrow> bool" where
  "graded st \<longleftrightarrow> (st_task_intent st = AI_NEW_REPAIR \<longrightarrow> \<not> st_safety_review_required st \<longrightarrow>
     st_issue_category st \<noteq> None \<longrightarrow> st_missing_fields st = [] \<longrightarrow> st_severity st \<noteq> None)"

lemma defaults_keep:
  "texts_stripped (apply_new_repair_defaults st) = texts_stripped st"
  "st_property_context_verified (apply_new_repair_defaults st) = st_property_context_verified st"
  "st_current_user_message (apply_new_repair_defaults st) = st_current_user_message st"
  "graded (apply_new_repair_defaults st)"
  by (simp_all add: apply_new_repair_defaults_def Let_def texts_stripped_def graded_def split: option.split)
    blast

lemma safety_route_keeps:
  "texts_stripped (route_required_safety_review st) = texts_stripped st"
  "st_property_context_verified (route_required_safety_review st) = st_property_context_verified st"
  "st_current_user_message (route_required_safety_review st) = st_current_user_message st"
  "graded st \<Longrightarrow> graded (route_required_safety_review st)"
  by (simp_all add: route_required_safety_review_def texts_stripped_def graded_def)

lemma interpret_message_keeps:
  assumes "sound_state st" and "context_ok H nc"
    and "st_property_context_verified st" and "st_current_user_message st \<noteq> None"
  shows "returns (\<lambda>s. texts_stripped s \<and> st_property_context_verified s \<and>
      st_current_user_message s \<noteq> None \<and> graded s) (interpret_message nc st)"
proof -
  have merged: "texts_stripped s \<and> st_property_context_verified s \<and> st_current_user_message s \<noteq> None"
    if "nc_interpret nc i = Inr out" "merge_interpretation st out = Inr s" for i out s
    using returnsD [OF merge_keeps [OF assms(1) context_okD(4) [OF assms(2) that(1)]] that(2)] assms(3,4) by simp
  show ?thesis
    unfolding interpret_message_def loaded [OF assms(1)]
    by (intro returns_intros)
      (use assms(3,4) in \<open>simp_all add: defaults_keep safety_route_keeps merged\<close>)
qed

lemma step_interpret:
  assumes "run_task nc N_interpret answer st = Inr (Task_done st' after)"
    and "sound_state st" and "context_ok H nc" and "annotation H N_interpret st"
  shows "agent_inv H (after, st')"
proof -
  have "interpret_message nc st = Inr st'" and edge: "edge N_interpret st' = Inr after"
    using assms(1) by (simp_all add: run_task_Inr updating_Inr)
  with returnsD [OF interpret_message_keeps [OF assms(2,3)]] assms(4)
  have kept: "texts_stripped st'" "st_property_context_verified st'" "graded st'" by simp_all
  from routed [OF edge [unfolded edge.simps] kept(1)]
  have sound: "sound_state st'" and after: "after = route_after_interpret st'" by simp_all
  have "st_issue_category st' \<noteq> None" if "st_task_intent st' = AI_NEW_REPAIR" "st_missing_fields st' = []"
    using sound that by (auto simp: sound_state_iff valid_state_def issue_valid_iff required_fields_def
        compute_missing_fields_def split: if_splits)
  then show ?thesis
    using sound kept(2,3) by (simp add: after route_after_interpret_def plan_defs graded_def)
qed

subsection \<open>Policy, tickets and slots\<close>

lemma merge_policy_Inr:
  assumes "merge_policy_result H st z q profile = Inr s"
  shows "texts_stripped s = texts_stripped st \<and> planning s = planning st \<and> st_task_intent s = st_task_intent st"
  using assms by (auto simp: merge_policy_result_def texts_stripped_def planning_def split: if_splits)

lemma step_retrieve_policy:
  assumes "run_task nc N_retrieve_policy answer st = Inr (Task_done st' after)"
    and "sound_state st" and "annotation H N_retrieve_policy st"
  shows "agent_inv H (after, st')"
proof -
  have node: "retrieve_policy nc st = Inr st'" and edge: "edge N_retrieve_policy st' = Inr after"
    using assms(1) by (simp_all add: run_task_Inr updating_Inr)
  have "returns (\<lambda>s. texts_stripped s \<and> planning s \<and> st_task_intent s = AI_NEW_REPAIR) (retrieve_policy nc st)"
    unfolding retrieve_policy_def loaded [OF assms(2)]
    by (intro returns_intros)
      (use assms(3) sound_texts [OF assms(2)] in \<open>auto simp: bindE_Inr_iff texts_stripped_def planning_def
        dest!: merge_policy_Inr\<close>)
  from returnsD [OF this node] have kept: "texts_stripped st'" "planning st'" "st_task_intent st' = AI_NEW_REPAIR"
    by simp_all
  with routed [OF edge [unfolded edge.simps]] show ?thesis
    by (simp add: route_after_policy_def cleared_def)
qed

lemma find_duplicates_keeps:
  assumes "sound_state st"
  shows "returns (\<lambda>s. texts_stripped s \<and> (cleared st \<longrightarrow> cleared s) \<and> st_task_intent s = st_task_intent st)
    (find_duplicates nc st)"
  unfolding find_duplicates_def loaded [OF assms] Let_def
  by (intro returns_intros)
    (use sound_texts [OF assms] in \<open>simp_all add: texts_stripped_def plan_defs split: list.split\<close>)

lemma step_find_duplicates:
  assumes "run_task nc N_find_duplicates answer st = Inr (Task_done st' after)"
    and "sound_state st" and "annotation H N_find_duplicates st"
  shows "agent_inv H (after, st')"
proof -
  have "find_duplicates nc st = Inr st'" and edge: "edge N_find_duplicates st' = Inr after"
    using assms(1) by (simp_all add: run_task_Inr updating_Inr)
  with returnsD [OF find_duplicates_keeps [OF assms(2)]] assms(3)
  have "texts_stripped st'" "cleared st'" "st_task_intent st' = AI_NEW_REPAIR" by simp_all
  with routed [OF edge [unfolded edge.simps]] show ?thesis
    by (simp add: route_duplicates_def no_ticket_yet_def)
qed

lemma resumed:
  "interrupt payload answer continue = Inr (Updates st) \<longleftrightarrow>
     (\<exists>r. answer = Some r \<and> continue r = Inr st)"
  by (cases answer) (auto simp: interrupt_def map_sum_Inr)

lemma take_duplicate_Inr:
  assumes "take_duplicate st fingerprint r = Inr s"
  shows "\<exists>trace_id c. c \<in> set (st_duplicate_ticket_candidates st) \<and>
    s = st\<lparr>st_trace_id := trace_id, st_active_ticket_id := Some (du_ticket_id c),
      st_ticket_snapshot_version := Some (du_ticket_version c), st_workflow_stage := WS_EXISTING_TICKET,
      st_snapshot_refresh_required := True\<rparr>"
proof (cases r)
  case (SELECT_DUPLICATE_TICKET v trace_id fp ticket_id)
  obtain c where "find (\<lambda>c. du_ticket_id c = ticket_id) (st_duplicate_ticket_candidates st) = Some c"
    and "s = st\<lparr>st_trace_id := trace_id, st_active_ticket_id := Some (du_ticket_id c),
      st_ticket_snapshot_version := Some (du_ticket_version c), st_workflow_stage := WS_EXISTING_TICKET,
      st_snapshot_refresh_required := True\<rparr>"
    using assms by (simp add: take_duplicate_def SELECT_DUPLICATE_TICKET resume_error_def
        split: if_splits option.splits)
  with find_Some_set [OF this(1)] show ?thesis by blast
qed (use assms in \<open>simp_all add: take_duplicate_def resume_error_def\<close>)

lemma step_select_duplicate:
  assumes "run_task nc N_select_duplicate answer st = Inr (Task_done st' after)"
    and "sound_state st" and "annotation H N_select_duplicate st"
  shows "agent_inv H (after, st')"
proof -
  obtain fp r where "take_duplicate st fp r = Inr st'" and after: "after = Some N_refresh_snapshot"
    using assms(1) by (simp add: run_task_Inr select_duplicate_def loaded [OF assms(2)] resumed
        split: option.splits) blast
  from take_duplicate_Inr [OF this(1)] obtain trace_id c where c: "c \<in> set (st_duplicate_ticket_candidates st)"
    and st': "st' = st\<lparr>st_trace_id := trace_id, st_active_ticket_id := Some (du_ticket_id c),
      st_ticket_snapshot_version := Some (du_ticket_version c), st_workflow_stage := WS_EXISTING_TICKET,
      st_snapshot_refresh_required := True\<rparr>"
    by (elim exE conjE)
  have "duplicate_ok c" using c assms(2) by (simp add: sound_state_iff valid_state_def duplicates_valid_def list_all_iff)
  moreover have "st_cached_ticket_snapshot st = None"
    using assms(2,3) by (cases "st_cached_ticket_snapshot st")
      (simp_all add: sound_state_iff valid_state_def ticket_valid_def)
  ultimately have "sound_state st'" using assms(2) by (simp add: st' sound_defs duplicate_ok_def)
  moreover have "cleared st'" using assms(3) by (simp add: st' plan_defs)
  ultimately show ?thesis by (simp add: after)
qed

lemma step_prepare_create:
  assumes "run_task nc N_prepare_create answer st = Inr (Task_done st' after)"
    and "sound_state st" and "context_ok H nc" and "annotation H N_prepare_create st"
  shows "agent_inv H (after, st')"
proof -
  obtain op where op: "build_pending_operation nc (st_thread_id st) (st_intent_version st) PA_CREATE_TICKET
      (create_payload st) (st_property_id st) None None = Inr op"
    and st': "st' = st\<lparr>st_pending_action := PA_CREATE_TICKET, st_pending_operation := Some op,
      st_workflow_stage := WS_CREATING_TICKET\<rparr>" and after: "after = Some N_create_ticket"
    using assms(1) by (auto simp: run_task_Inr updating_Inr prepare_create_def loaded [OF assms(2)] bindE_Inr_iff)
  have "op = create_operation H st'"
    using build_pending_operation_Inr(2) [OF op] context_okD(1) [OF assms(3)]
    by (simp add: create_operation_def operation_for_def create_payload_def st')
  moreover have "sound_state st'"
    using assms(2) build_pending_operation_Inr(1) [OF op] by (simp add: st' sound_defs)
  moreover have "no_ticket_yet st'"
    using assms(4) by (simp add: st' plan_defs)
  ultimately show ?thesis by (simp add: after st')
qed

text \<open>What a typed answer to a mutation says.\<close>

lemma mutation_answer:
  assumes "mutation_response_ok (Inr response)" and "require_data response = Inr data"
    and "summary_of response data = Inr summary"
  shows "mutation_data_ok data \<and> tool_result_ok summary"
  using assms by (auto simp: mutation_response_ok_def require_data_def summary_of_def checked_Inr
      split: if_splits option.splits)

lemma or_option_positive:
  "pred_option ((\<le>) (1::int)) a \<Longrightarrow> pred_option ((\<le>) 1) b \<Longrightarrow> pred_option ((\<le>) 1) (or_option a b)"
  by (cases a) (simp_all add: or_option_def)

lemma step_create_ticket:
  assumes "run_task nc N_create_ticket answer st = Inr (Task_done st' after)"
    and "sound_state st" and "context_ok H nc" and "annotation H N_create_ticket st"
  shows "agent_inv H (after, st')"
proof -
  have node: "create_ticket_node nc st = Inr st'" and after: "after = Some N_refresh_snapshot"
    using assms(1) by (simp_all add: run_task_Inr updating_Inr)
  have none: "st_cached_ticket_snapshot st = None"
    using assms(2,4) by (cases "st_cached_ticket_snapshot st")
      (simp_all add: sound_state_iff valid_state_def ticket_valid_def no_ticket_yet_def)
  have "returns (\<lambda>s. sound_state s \<and> cleared s) (create_ticket_node nc st)"
    unfolding create_ticket_node_def loaded [OF assms(2)]
  proof (intro returns_intros)
    fix request response data summary
    assume "nc_create_ticket nc request = Inr response" "require_data response = Inr data"
      "summary_of response data = Inr summary"
    with mutation_answer context_okD(6) [OF assms(3), of request]
    have "mutation_data_ok data" "tool_result_ok summary" by auto
    then show "sound_state (st\<lparr>st_active_ticket_id := Some (mu_resource_id data),
        st_ticket_snapshot_version := or_option (mu_ticket_version data) (mu_resource_version data),
        st_pending_action := PA_NONE, st_pending_operation := None,
        st_snapshot_refresh_required := True, st_last_tool_result := Some summary\<rparr>) \<and>
      cleared (st\<lparr>st_active_ticket_id := Some (mu_resource_id data),
        st_ticket_snapshot_version := or_option (mu_ticket_version data) (mu_resource_version data),
        st_pending_action := PA_NONE, st_pending_operation := None,
        st_snapshot_refresh_required := True, st_last_tool_result := Some summary\<rparr>)"
      using assms(2,4) none by (simp add: sound_defs plan_defs mutation_data_ok_def or_option_positive)
  qed
  from returnsD [OF this node] show ?thesis by (simp add: after)
qed


lemma resolve_existing_keeps:
  assumes "sound_state st"
  shows "returns (\<lambda>s. texts_stripped s \<and> (cleared st \<longrightarrow> cleared s) \<and> st_task_intent s = st_task_intent st)
    (resolve_existing nc st)"
  unfolding resolve_existing_def loaded [OF assms]
  by (intro returns_intros find_duplicates_keeps [OF assms])
    (use sound_texts [OF assms] in \<open>simp_all add: texts_stripped_def plan_defs\<close>)

lemma step_resolve_existing:
  assumes "run_task nc N_resolve_existing answer st = Inr (Task_done st' after)"
    and "sound_state st" and "annotation H N_resolve_existing st"
  shows "agent_inv H (after, st')"
proof -
  have "resolve_existing nc st = Inr st'" and edge: "edge N_resolve_existing st' = Inr after"
    using assms(1) by (simp_all add: run_task_Inr updating_Inr)
  with returnsD [OF resolve_existing_keeps [OF assms(2)]] assms(3)
  have "texts_stripped st'" "cleared st'" by simp_all
  with routed [OF edge [unfolded edge.simps]] show ?thesis by (simp add: route_resolved_existing_def)
qed

lemma refreshed_keeps:
  "texts_stripped (refreshed_state st t overdue) = texts_stripped st"
  "cleared st \<Longrightarrow> cleared (refreshed_state st t overdue)"
  "st_task_intent (refreshed_state st t overdue) = st_task_intent st"
  by (simp_all add: refreshed_state_def Let_def adopt_snapshot_def review_overdue_def clear_slots_def
      drop_ticket_def texts_stripped_def plan_defs)

lemma refresh_snapshot_keeps:
  assumes "sound_state st"
  shows "returns (\<lambda>s. texts_stripped s \<and> (cleared st \<longrightarrow> cleared s)) (refresh_snapshot nc st)"
  unfolding refresh_snapshot_def loaded [OF assms]
  by (intro returns_intros) (use sound_texts [OF assms] in \<open>simp_all add: refreshed_keeps\<close>)

lemma slots_of_sound:
  "sound_state st \<Longrightarrow> pred_option (\<lambda>c. c \<in> set (st_candidate_slots st)) (st_selected_candidate_slot st)"
  by (simp add: sound_state_iff valid_state_def slots_valid_def)

lemma step_refresh_snapshot:
  assumes "run_task nc N_refresh_snapshot answer st = Inr (Task_done st' after)"
    and "sound_state st" and "annotation H N_refresh_snapshot st"
  shows "agent_inv H (after, st')"
proof -
  have "refresh_snapshot nc st = Inr st'" and edge: "edge N_refresh_snapshot st' = Inr after"
    using assms(1) by (simp_all add: run_task_Inr updating_Inr)
  with returnsD [OF refresh_snapshot_keeps [OF assms(2)]] assms(3)
  have kept: "texts_stripped st'" "cleared st'" by simp_all
  from routed [OF edge [unfolded edge.simps] kept(1)]
  have "sound_state st'" and after: "after = route_after_snapshot st'" by simp_all
  with slots_of_sound [OF this(1)] kept(2) show ?thesis
    by (auto simp: route_after_snapshot_def chosen_slot_def)
qed

lemma list_slots_keeps:
  assumes "sound_state st"
  shows "returns (\<lambda>s. texts_stripped s \<and> (cleared st \<longrightarrow> cleared s)) (list_slots nc st)"
  unfolding list_slots_def loaded [OF assms]
  by (intro returns_intros) (use sound_texts [OF assms] in \<open>simp_all add: texts_stripped_def plan_defs no_slots_def\<close>)

lemma planning_verified: "cleared st \<Longrightarrow> st_property_context_verified st"
  by (simp add: plan_defs)

lemma step_list_slots:
  assumes "run_task nc N_list_slots answer st = Inr (Task_done st' after)"
    and "sound_state st" and "annotation H N_list_slots st"
  shows "agent_inv H (after, st')"
proof -
  have "list_slots nc st = Inr st'" and edge: "edge N_list_slots st' = Inr after"
    using assms(1) by (simp_all add: run_task_Inr updating_Inr)
  with returnsD [OF list_slots_keeps [OF assms(2)]] assms(3)
  have "texts_stripped st'" "cleared st'" by simp_all
  with routed [OF edge [unfolded edge.simps]] show ?thesis
    by (simp add: route_after_slot_lookup_def planning_verified)
qed

subsection \<open>Resumes\<close>

lemma take_information_Inr:
  assumes "take_information nc st r = Inr s"
  shows "\<exists>v trace_id message reference zone. r = PROVIDE_INFORMATION v trace_id message reference zone \<and>
    append_conversation_message (nc_uuid5_url nc) LR_USER message trace_id reference
      (st\<lparr>st_trace_id := trace_id, st_current_user_message := Some message,
        st_current_reference_time := Some reference, st_current_timezone_name := Some zone,
        st_workflow_stage := WS_INTAKE\<rparr>) = Inr s"
  using assms by (cases r) (simp_all add: take_information_def resume_error_def split: if_splits)

lemma take_information_sound:
  assumes "take_information nc st r = Inr s" and "sound_state st" and "resume_ok r"
    and "st_property_context_verified st"
  shows "agent_inv H (Some N_interpret, s)"
proof -
  obtain v trace_id message reference zone where r: "r = PROVIDE_INFORMATION v trace_id message reference zone"
    and appended: "append_conversation_message (nc_uuid5_url nc) LR_USER message trace_id reference
      (st\<lparr>st_trace_id := trace_id, st_current_user_message := Some message,
        st_current_reference_time := Some reference, st_current_timezone_name := Some zone,
        st_workflow_stage := WS_INTAKE\<rparr>) = Inr s"
    using take_information_Inr [OF assms(1)] by (elim exE conjE)
  have "text_between 1 4000 message" "text_between 1 64 zone" using assms(3) by (simp_all add: r resume_ok_def)
  with assms(2) have "conversation_valid (st\<lparr>st_trace_id := trace_id, st_current_user_message := Some message,
        st_current_reference_time := Some reference, st_current_timezone_name := Some zone,
        st_workflow_stage := WS_INTAKE\<rparr>)"
    by (simp add: sound_state_iff valid_state_def conversation_valid_def)
  from append_message_keeps [OF appended this] obtain ms where
    s: "s = st\<lparr>st_trace_id := trace_id, st_current_user_message := Some message,
        st_current_reference_time := Some reference, st_current_timezone_name := Some zone,
        st_workflow_stage := WS_INTAKE, st_conversation_messages := ms\<rparr>" and valid: "conversation_valid s"
    by (elim exE conjE) simp
  from valid assms(2) have "sound_state s"
    by (simp add: s unspoken_defs)
  with assms(4) show ?thesis by (simp add: s)
qed

lemma step_need_information:
  assumes "run_task nc n answer st = Inr (Task_done st' after)"
    and "n = N_need_information \<or> n = N_need_availability_information"
    and "sound_state st" and "pred_option resume_ok answer" and "annotation H n st"
  shows "agent_inv H (after, st')"
proof -
  obtain r where r: "answer = Some r" "take_information nc st r = Inr st'" and after: "after = Some N_interpret"
    using assms(1,2) by (auto simp: run_task_Inr need_information_def need_availability_information_def
        loaded [OF assms(3)] resumed bindE_Inr_iff)
  have "st_property_context_verified st" using assms(2,5) by auto
  with take_information_sound [OF r(2) assms(3)] r(1) assms(4) show ?thesis by (simp add: after)
qed

text \<open>What \<open>finish_with\<close> leaves is sound when its further updates keep the rest of the state valid.\<close>

lemma finished_sound:
  assumes "finish_with nc message updates st = Inr st'" and "context_ok H nc" and "sound_state st"
    and "sound_state st \<Longrightarrow> sound_state (updates st)"
  shows "sound_state st'"
proof -
  have sound: "sound_state (updates st)" using assms(3,4) by simp
  then have "conversation_valid ((updates st)\<lparr>st_last_assistant_message := None\<rparr>)"
    by (simp add: sound_state_iff valid_state_def conversation_valid_def)
  from finish_with_keeps [OF assms(1,2) this] obtain ms where
    st': "st' = (updates st)\<lparr>st_last_assistant_message := Some (nc_text nc message),
      st_conversation_messages := ms\<rparr>" and valid: "conversation_valid st'"
    by (elim exE conjE)
  from valid sound show ?thesis
    by (simp add: st' unspoken_defs)
qed

lemma step_select_slot:
  assumes "run_task nc N_select_slot answer st = Inr (Task_done st' after)"
    and "sound_state st" and "context_ok H nc" and "annotation H N_select_slot st"
  shows "agent_inv H (after, st')"
proof -
  obtain fp r where taken: "take_slot nc st fp r = Inr st'" and edge: "edge N_select_slot st' = Inr after"
    using assms(1) by (simp add: run_task_Inr select_slot_def loaded [OF assms(2)] resumed
        split: option.splits) blast
  have sound: "sound_state st' \<and> after = route_after_slot_selection st'" if "texts_stripped st'"
    by (rule routed [OF _ that]) (use edge in simp)
  show ?thesis
  proof (cases r)
    case (SELECT_APPOINTMENT_SLOT v trace_id f rank)
    then obtain c where "st\<lparr>st_trace_id := trace_id, st_selected_candidate_slot := Some c,
        st_snapshot_refresh_required := True\<rparr> = st'"
      using taken by (simp add: take_slot_def Let_def resume_error_def split: if_splits option.splits)
    from this [symmetric] sound sound_texts [OF assms(2)] assms(4) show ?thesis
      by (simp add: route_after_slot_selection_def texts_stripped_def plan_defs)
  next
    case (CANCEL_APPOINTMENT_SLOT_SELECTION v trace_id f)
    then obtain message where "finish_with nc message (cancelled_selection trace_id) st = Inr st'"
      using taken by (simp add: take_slot_def Let_def resume_error_def split: if_splits)
    from finish_with_frame [OF this] obtain ms where
      "st' = (cancelled_selection trace_id st)\<lparr>st_last_assistant_message := Some (nc_text nc message),
        st_conversation_messages := ms\<rparr>" by (elim exE)
    with sound sound_texts [OF assms(2)] show ?thesis
      by (simp add: route_after_slot_selection_def texts_stripped_def cancelled_selection_def clear_slots_def)
  qed (use taken in \<open>simp_all add: take_slot_def Let_def resume_error_def\<close>)
qed


subsection \<open>Booking\<close>

lemma step_prepare_book:
  assumes "run_task nc N_prepare_book answer st = Inr (Task_done st' after)"
    and "sound_state st" and "context_ok H nc" and "annotation H N_prepare_book st"
  shows "agent_inv H (after, st')"
proof -
  obtain slot where slot: "st_selected_candidate_slot st = Some slot"
    using assms(4) by (auto simp: chosen_slot_def)
  obtain op where op: "build_pending_operation nc (st_thread_id st) (st_intent_version st) PA_BOOK_APPOINTMENT
      (slot_json slot) (st_active_ticket_id st) (st_ticket_snapshot_version st) None = Inr op"
    and st': "st' = st\<lparr>st_pending_action := PA_BOOK_APPOINTMENT, st_pending_operation := Some op,
      st_workflow_stage := WS_BOOKING\<rparr>" and after: "after = Some N_book"
    using assms(1) by (auto simp: run_task_Inr updating_Inr prepare_book_def loaded [OF assms(2)] bindE_Inr_iff slot)
  have "op = book_operation H st' slot"
    using build_pending_operation_Inr(2) [OF op] context_okD(1) [OF assms(3)]
    by (simp add: book_operation_def operation_for_def st')
  moreover have "sound_state st'"
    using assms(2) build_pending_operation_Inr(1) [OF op] by (simp add: st' sound_defs)
  moreover have "chosen_slot st' = chosen_slot st" "st_task_intent st' = st_task_intent st"
    by (simp_all add: st' plan_defs)
  ultimately show ?thesis using assms(4) by (simp add: after) (simp add: st' slot)
qed

lemma step_prepare_reschedule:
  assumes "run_task nc N_prepare_reschedule answer st = Inr (Task_done st' after)"
    and "sound_state st" and "context_ok H nc" and "annotation H N_prepare_reschedule st"
  shows "agent_inv H (after, st')"
proof -
  obtain slot where slot: "st_selected_candidate_slot st = Some slot"
    using assms(4) by (auto simp: chosen_slot_def)
  obtain op where op: "build_pending_operation nc (st_thread_id st) (st_intent_version st)
      PA_RESCHEDULE_APPOINTMENT (slot_json slot) (st_active_appointment_id st)
      (st_ticket_snapshot_version st) (st_appointment_version st) = Inr op"
    and st': "st' = st\<lparr>st_pending_action := PA_RESCHEDULE_APPOINTMENT, st_pending_operation := Some op,
      st_workflow_stage := WS_RESCHEDULING\<rparr>" and after: "after = Some N_reschedule"
    using assms(1)
    by (auto simp: run_task_Inr updating_Inr prepare_reschedule_def loaded [OF assms(2)] bindE_Inr_iff slot)
  have "op = reschedule_operation H st' slot"
    using build_pending_operation_Inr(2) [OF op] context_okD(1) [OF assms(3)]
    by (simp add: reschedule_operation_def operation_for_def st')
  moreover have "sound_state st'"
    using assms(2) build_pending_operation_Inr(1) [OF op] by (simp add: st' sound_defs)
  moreover have "chosen_slot st' = chosen_slot st" "st_task_intent st' = st_task_intent st"
    by (simp_all add: st' plan_defs)
  ultimately show ?thesis using assms(4) by (simp add: after) (simp add: st' slot)
qed

lemma drop_booking_keeps:
  assumes "sound_state st" and "cleared st"
  shows "sound_state (drop_booking st) \<and> cleared (drop_booking st)"
  using assms by (simp add: drop_booking_def clear_slots_def sound_defs plan_defs)

lemma booked_state_keeps:
  assumes "sound_state st" and "cleared st" and "mutation_data_ok data \<and> tool_result_ok summary"
    and "pred_option ((\<le>) 1) version"
  shows "sound_state (booked_state st data version summary) \<and> cleared (booked_state st data version summary)"
  using assms
  by (simp add: booked_state_def clear_slots_def sound_defs plan_defs mutation_data_ok_def or_option_positive)

lemma answered:
  assumes "m = Inr response" and "mutation_response_ok m" and "require_data response = Inr data"
    and "summary_of response data = Inr summary"
  shows "mutation_data_ok data \<and> tool_result_ok summary"
  using assms mutation_answer by simp

lemma book_keeps:
  assumes "sound_state st" and "context_ok H nc" and "cleared st"
  shows "returns (\<lambda>s. sound_state s \<and> cleared s) (book nc st)"
  unfolding book_def loaded [OF assms(1)]
  by (intro returns_intros drop_booking_keeps [OF assms(1,3)])
    (rule booked_state_keeps [OF assms(1,3) answered [OF _ context_okD(7) [OF assms(2)]]],
      assumption+, drule answered [OF _ context_okD(7) [OF assms(2)]], assumption+,
      simp add: mutation_data_ok_def)

lemma reschedule_keeps:
  assumes "sound_state st" and "context_ok H nc" and "cleared st"
  shows "returns (\<lambda>s. sound_state s \<and> cleared s) (reschedule nc st)"
proof -
  have version: "pred_option ((\<le>) 1) (st_ticket_snapshot_version st)"
    using assms(1) by (simp add: sound_state_iff valid_state_def ticket_valid_def)
  show ?thesis
    unfolding reschedule_def loaded [OF assms(1)]
    by (intro returns_intros drop_booking_keeps [OF assms(1,3)])
      (rule booked_state_keeps [OF assms(1,3) answered [OF _ context_okD(8) [OF assms(2)]]],
        assumption+, drule answered [OF _ context_okD(8) [OF assms(2)]], assumption+,
        simp add: mutation_data_ok_def or_option_positive version)
qed

lemma step_book:
  assumes "run_task nc N_book answer st = Inr (Task_done st' after)"
    and "sound_state st" and "context_ok H nc" and "annotation H N_book st"
  shows "agent_inv H (after, st')"
proof -
  have "book nc st = Inr st'" and "after = Some N_refresh_snapshot"
    using assms(1) by (simp_all add: run_task_Inr updating_Inr)
  with returnsD [OF book_keeps [OF assms(2,3)]] assms(4) show ?thesis by (simp add: chosen_slot_def)
qed

lemma step_reschedule:
  assumes "run_task nc N_reschedule answer st = Inr (Task_done st' after)"
    and "sound_state st" and "context_ok H nc" and "annotation H N_reschedule st"
  shows "agent_inv H (after, st')"
proof -
  have "reschedule nc st = Inr st'" and "after = Some N_refresh_snapshot"
    using assms(1) by (simp_all add: run_task_Inr updating_Inr)
  with returnsD [OF reschedule_keeps [OF assms(2,3)]] assms(4) show ?thesis by (simp add: chosen_slot_def)
qed

subsection \<open>Answers\<close>

lemma stage_sound:
  "sound_state st \<Longrightarrow> sound_state (st\<lparr>st_workflow_stage := s\<rparr>)"
  by (simp add: sound_defs)

lemma compose_sound:
  assumes "compose nc st = Inr st'" and "context_ok H nc" and "sound_state st"
  shows "sound_state st'"
proof -
  consider m where "finish_with nc m (\<lambda>s. s\<lparr>st_workflow_stage := WS_DONE\<rparr>) st = Inr st'"
    | i reply stage where "nc_compose nc i = Inr reply"
      "append_conversation_message (nc_uuid5_url nc) LR_ASSISTANT reply (st_trace_id st) (utc_time (nc_now nc))
        (st\<lparr>st_last_assistant_message := Some reply, st_workflow_stage := stage\<rparr>) = Inr st'"
    using assms(1) by (auto simp: compose_def loaded [OF assms(3)] bindE_Inr_iff split: if_splits)
  then show ?thesis
  proof cases
    case 1
    then show ?thesis using finished_sound [OF _ assms(2,3)] stage_sound by blast
  next
    case (2 i reply stage)
    have "conversation_valid (st\<lparr>st_last_assistant_message := Some reply, st_workflow_stage := stage\<rparr>)"
      using assms(3) context_okD(5) [OF assms(2) 2(1)]
      by (simp add: sound_state_iff valid_state_def conversation_valid_def)
    from append_message_keeps [OF 2(2) this] obtain ms where
      st': "st' = st\<lparr>st_last_assistant_message := Some reply, st_workflow_stage := stage,
        st_conversation_messages := ms\<rparr>" and valid: "conversation_valid st'"
      by (elim exE conjE)
    from valid assms(3) show ?thesis
      by (simp add: st' unspoken_defs)
  qed
qed

lemma review_end_sound:
  assumes "review_end nc message stage reason drops st = Inr st'" and "context_ok H nc" and "sound_state st"
    and "text_between 1 1000 reason"
  shows "sound_state st'"
  using assms(1) unfolding review_end_def loaded [OF assms(3)]
  by (rule finished_sound [OF _ assms(2,3)])
    (use assms(4) in \<open>cases drops; simp add: Let_def sound_defs\<close>)

lemma step_end:
  assumes "run_task nc n answer st = Inr (Task_done st' after)"
    and "n \<in> {N_compose, N_finish, N_finish_safety, N_finish_policy_review, N_finish_manual_request,
      N_finish_overdue_appointment, N_finish_unsupported}"
    and "sound_state st" and "context_ok H nc"
  shows "agent_inv H (after, st')"
proof -
  have "after = None" using assms(1,2) by (auto simp: run_task_Inr)
  moreover have reasons: "text_between 1 1000 ''SAFETY_REVIEW_REQUIRED''"
    "text_between 1 1000 ''POLICY_REVIEW_REQUIRED''" "text_between 1 1000 ''RESIDENT_MANUAL_REQUEST''"
    "text_between 1 1000 ''UNSUPPORTED_AUTOMATION''"
    "text_between 1 1000 ''OVERDUE_APPOINTMENT_REVIEW_REQUIRED''"
    by (simp_all add: text_between_def)
  have "sound_state st'"
    using assms(1,2)
    by (auto simp: run_task_Inr updating_Inr finish_safety_def finish_policy_review_def finish_manual_request_def
        finish_overdue_appointment_def finish_unsupported_def
        intro: compose_sound [OF _ assms(4,3)] reasons [THEN review_end_sound [OF _ assms(4,3), rotated]])
  ultimately show ?thesis by simp
qed


section \<open>Every task\<close>

lemma run_task_keeps:
  assumes "run_task nc n answer st = Inr (Task_done st' after)"
    and "context_ok H nc" and "pred_option resume_ok answer" and "agent_inv H (Some n, st)"
  shows "agent_inv H (after, st')"
proof -
  have sound: "sound_state st" and annot: "annotation H n st" using assms(4) by simp_all
  show ?thesis
  proof (cases n)
    case N_resolve_property with step_resolve_property assms(1) sound annot show ?thesis by simp
  next
    case N_interpret with step_interpret assms(1,2) sound annot show ?thesis by simp
  next
    case N_need_information with step_need_information assms(1,3) sound annot show ?thesis by simp
  next
    case N_need_availability_information with step_need_information assms(1,3) sound annot show ?thesis by simp
  next
    case N_retrieve_policy with step_retrieve_policy assms(1) sound annot show ?thesis by simp
  next
    case N_find_duplicates with step_find_duplicates assms(1) sound annot show ?thesis by simp
  next
    case N_select_duplicate with step_select_duplicate assms(1) sound annot show ?thesis by simp
  next
    case N_prepare_create with step_prepare_create assms(1,2) sound annot show ?thesis by simp
  next
    case N_create_ticket with step_create_ticket assms(1,2) sound annot show ?thesis by simp
  next
    case N_resolve_existing with step_resolve_existing assms(1) sound annot show ?thesis by simp
  next
    case N_refresh_snapshot with step_refresh_snapshot assms(1) sound annot show ?thesis by simp
  next
    case N_list_slots with step_list_slots assms(1) sound annot show ?thesis by simp
  next
    case N_select_slot with step_select_slot assms(1,2) sound annot show ?thesis by simp
  next
    case N_prepare_book with step_prepare_book assms(1,2) sound annot show ?thesis by simp
  next
    case N_book with step_book assms(1,2) sound annot show ?thesis by simp
  next
    case N_prepare_reschedule with step_prepare_reschedule assms(1,2) sound annot show ?thesis by simp
  next
    case N_reschedule with step_reschedule assms(1,2) sound annot show ?thesis by simp
  qed (use step_end [OF assms(1) _ sound assms(2)] in simp_all)
qed

inductive_cases agent_stepE: "agent_step H c c'"

lemma agent_step_keeps: "agent_step H c c' \<Longrightarrow> agent_inv H c \<Longrightarrow> agent_inv H c'"
  by (erule agent_stepE) (simp add: run_task_keeps del: agent_inv_simps)

lemma agent_steps_keep: "(agent_step H)\<^sup>*\<^sup>* c c' \<Longrightarrow> agent_inv H c \<Longrightarrow> agent_inv H c'"
  by (induction rule: rtranclp_induct) (simp_all add: agent_step_keeps)

text \<open>A run keeps the invariant, whatever its dependencies answer within their types.\<close>

lemma run_graph_keeps:
  assumes "\<And>k. context_ok H (ncs k)" and "pred_option resume_ok answer" and "agent_inv H (Some n, st)"
  shows "agent_inv H (ck_next (fst (run_graph k ncs answer n st)), ck_state (fst (run_graph k ncs answer n st)))"
  using assms(2,3)
proof (induction k arbitrary: answer n st)
  case (Suc k)
  show ?case
  proof (cases "run_task (ncs k) n answer st")
    case (Inr r)
    show ?thesis
    proof (cases r)
      case (Task_done st' after)
      have "agent_inv H (after, st')"
        using run_task_keeps [OF Inr [unfolded Task_done] assms(1) Suc.prems] .
      then show ?thesis using Suc.IH [where answer = None] Inr Task_done by (cases "after") auto
    qed (use Suc.prems Inr in simp)
  qed (use Suc.prems in simp)
qed simp

end
