(* ===== verification/AgentThread.thy ===== *)
theory AgentThread
  imports AgentRuns Reconciliation
begin

text \<open>
  One thread of the agent, after \<open>backend/app/agent_runtime/orchestration.py\<close> (\<open>AgentOrchestrator\<close>) and
  \<open>backend/app/reconciliation/coordinator.py\<close>: how a turn or a resume checks the caller, asks again
  whether the property may be used, takes over the outcome of a reconciliation, runs the graph, and
  turns its failures into results.

  The state of a thread is its checkpoint. The surroundings are the dependencies of the nodes, two
  MCP reads, the repository of reconciliation cases, and the two calls of LangGraph: \<open>ainvoke\<close> is
  \<open>run_graph\<close>, and \<open>aupdate_state\<close> is a parameter that yields the checkpoint after an update.
\<close>

section \<open>Inputs and results\<close>

datatype run_status = RN_COMPLETED | RN_INTERRUPTED | RN_NEEDS_HUMAN_REVIEW | RN_FAILED_SAFE

record AgentTurnInput =
  tn_thread_id :: uuid
  tn_trace_id :: uuid
  tn_actor_type :: actor_type
  tn_actor_id :: uuid
  tn_user_id :: uuid
  tn_property_id :: "uuid option"
  tn_user_message :: string
  tn_reference_time :: PyTime
  tn_timezone_name :: string

text \<open>A turn is validated with the contract of the interpretation; the message is stripped.\<close>

definition turn_ok :: "NodeContext \<Rightarrow> AgentTurnInput \<Rightarrow> bool" where
  "turn_ok nc t \<longleftrightarrow> text_between 1 4000 (tn_user_message t) \<and> strip (tn_user_message t) = tn_user_message t \<and>
     text_between 1 64 (tn_timezone_name t) \<and> time_context_ok nc (tn_reference_time t) (tn_timezone_name t)"

record AgentCallerContext =
  cl_actor_type :: actor_type
  cl_actor_id :: uuid
  cl_user_id :: uuid

record ThreadOwnerIdentity = AgentCallerContext +
  ow_property_id :: uuid

datatype thread_text =
    TT_property_required | TT_language_failure | TT_manual_review | TT_reconciling | TT_choose_property
  | TT_permission_denied | TT_not_executed | TT_operation_checked_by_hand | TT_not_committed
  | TT_ticket_committed | TT_appointment_committed | TT_escalation_committed

record AgentRunResult =
  ar_thread_id :: uuid
  ar_trace_id :: uuid
  ar_run_status :: run_status
  ar_assistant_message :: "string option"
  ar_interrupt :: "interrupt_payload option"
  ar_workflow_stage :: workflow_stage
  ar_active_ticket_id :: "uuid option"
  ar_active_appointment_id :: "uuid option"
  ar_error_code :: "string option"
  ar_pending_reconciliation_case_id :: "uuid option"
  ar_pending_reconciliation_status :: "agent_reconciliation_status option"
  ar_pending_reconciliation_action :: "pending_action option"

record AgentStateView =
  av_state :: AgentState
  av_run_status :: run_status
  av_interrupt :: "interrupt_payload option"

section \<open>Surroundings\<close>

record ReconciliationPort =
  rp_create_or_get :: "CreateCase \<Rightarrow> ReconciliationCase outcome"
  rp_get :: "uuid \<Rightarrow> ReconciliationCase option outcome"

record ThreadEnv =
  tv_nodes :: "nat \<Rightarrow> NodeContext"
  tv_limit :: nat
  tv_update :: "Checkpoint \<Rightarrow> AgentState \<Rightarrow> Checkpoint"
  tv_get_resident_property :: "GetResidentPropertyRequest \<Rightarrow> ResidentPropertyData ToolResponse outcome"
  tv_get_ticket_snapshot :: "GetTicketSnapshotRequest \<Rightarrow> TicketSnapshotData ToolResponse outcome"
  tv_reconciliation :: "ReconciliationPort option"
  tv_execution_context :: "(uuid \<times> uuid) option"
  tv_uuid5_url :: "string \<Rightarrow> uuid"
  tv_sha256 :: "string \<Rightarrow> string"
  tv_text :: "thread_text \<Rightarrow> string"

section \<open>Reconciliation of a lost answer\<close>

definition reconciliation_action_of :: "pending_action \<Rightarrow> reconciliation_action option" where
  "reconciliation_action_of a =
     (case a of PA_CREATE_TICKET \<Rightarrow> Some RC_CREATE_TICKET | PA_BOOK_APPOINTMENT \<Rightarrow> Some RC_BOOK_APPOINTMENT
      | PA_RESCHEDULE_APPOINTMENT \<Rightarrow> Some RC_RESCHEDULE_APPOINTMENT | _ \<Rightarrow> None)"

text \<open>The versions of an operation are positive, so \<open>or\<close> takes the first one that is present.\<close>

definition case_of_operation ::
  "ThreadEnv \<Rightarrow> AgentState \<Rightarrow> uuid \<Rightarrow> PendingOperation \<Rightarrow> uuid \<Rightarrow> reconciliation_action \<Rightarrow> uuid \<times> uuid \<Rightarrow> CreateCase" where
  "case_of_operation env st operation_id op property_id action context =
     \<lparr>cc_operation_id = operation_id, cc_action = action, cc_thread_id = Some (st_thread_id st),
      cc_original_run_id = fst context, cc_original_trace_id = snd context,
      cc_operation_idempotency_fingerprint = tv_sha256 env (po_idempotency_key op),
      cc_request_fingerprint = po_request_fingerprint op, cc_actor_type = st_actor_type st,
      cc_actor_id = st_actor_id st, cc_user_id = st_user_id st, cc_property_id = property_id,
      cc_target_entity_type = Some (if po_action op = PA_CREATE_TICKET then ''PROPERTY''
        else if po_action op = PA_RESCHEDULE_APPOINTMENT then ''APPOINTMENT'' else ''TICKET''),
      cc_target_entity_id = (if po_action op = PA_CREATE_TICKET then Some property_id
        else if po_action op = PA_RESCHEDULE_APPOINTMENT then st_active_appointment_id st
        else st_active_ticket_id st),
      cc_expected_entity_version =
        or_option (po_expected_appointment_version op) (po_expected_ticket_version op)\<rparr>"

text \<open>\<open>UnknownCommitCoordinator.create_or_get\<close>.\<close>

definition coordinate_case ::
  "ThreadEnv \<Rightarrow> ReconciliationPort \<Rightarrow> AgentState \<Rightarrow> uuid \<Rightarrow> ReconciliationCase outcome" where
  "coordinate_case env port st operation_id =
     (case (st_pending_operation st, st_property_id st, tv_execution_context env) of
        (Some op, Some property_id, Some context) \<Rightarrow>
          (case reconciliation_action_of (po_action op) of None \<Rightarrow> Inl (Exn PyKeyError [] [])
           | Some action \<Rightarrow>
               rp_create_or_get port (case_of_operation env st operation_id op property_id action context))
      | _ \<Rightarrow> Inl (Exn PyRuntimeError ''unknown commit lacks durable operation context'' []))"

fun agent_status_of :: "reconciliation_status \<Rightarrow> agent_reconciliation_status" where
  "agent_status_of RS_PENDING = RC_PENDING"
| "agent_status_of RS_PROCESSING = RC_PROCESSING"
| "agent_status_of RS_RESOLVED_COMMITTED = RC_RESOLVED_COMMITTED"
| "agent_status_of RS_RESOLVED_NOT_COMMITTED = RC_RESOLVED_NOT_COMMITTED"
| "agent_status_of RS_MANUAL_REVIEW = RC_MANUAL_REVIEW"

definition exn_operation_id :: "exn \<Rightarrow> uuid option" where
  "exn_operation_id e =
     (case map_of (exn_context e) ''operation_id'' of Some (PUuid u) \<Rightarrow> Some u | _ \<Rightarrow> None)"

definition blocked_by_case :: "ThreadEnv \<Rightarrow> AgentState \<Rightarrow> ReconciliationCase \<Rightarrow> AgentState" where
  "blocked_by_case env st r = st\<lparr>st_workflow_stage := WS_RECONCILIATION_PENDING,
     st_pending_reconciliation_case_id := Some (rc_id r),
     st_pending_reconciliation_status := Some (agent_status_of (rc_status r)),
     st_pending_reconciliation_action := Some (st_pending_action st),
     st_last_assistant_message := Some (tv_text env TT_reconciling)\<rparr>"

text \<open>The state that the failure reports, and the checkpoint: updated when a case was recorded.\<close>

definition record_unknown ::
  "ThreadEnv \<Rightarrow> AgentState \<Rightarrow> exn \<Rightarrow> Checkpoint \<Rightarrow> AgentState outcome \<times> Checkpoint" where
  "record_unknown env st e ck =
     (case (tv_reconciliation env, exn_operation_id e) of
        (Some port, Some operation_id) \<Rightarrow>
          (case coordinate_case env port st operation_id of Inl e' \<Rightarrow> (Inl e', ck)
           | Inr r \<Rightarrow> (Inr (blocked_by_case env st r), tv_update env ck (blocked_by_case env st r)))
      | _ \<Rightarrow> (Inr st, ck))"

definition failure_message :: "string \<Rightarrow> thread_text" where
  "failure_message code =
     (if code \<in> {''PROVIDER_EXHAUSTED'', ''LANGUAGE_INTERPRETATION_FAILED''} then TT_language_failure
      else if code \<in> {''MANUAL_REVIEW'', ''POLICY_REVIEW_REQUIRED''} then TT_manual_review
      else if code = ''RECONCILIATION_PENDING'' then TT_reconciling
      else if code = ''PROPERTY_CONTEXT_REQUIRED'' then TT_choose_property
      else if code = ''PERMISSION_DENIED'' then TT_permission_denied
      else TT_not_executed)"

definition language_failure :: "ThreadEnv \<Rightarrow> AgentState \<Rightarrow> string \<Rightarrow> AgentState" where
  "language_failure env st code = st\<lparr>st_workflow_stage := WS_HUMAN_REVIEW, st_pending_action := PA_NONE,
     st_pending_operation := None, st_escalation_reason := Some code,
     st_last_assistant_message := Some (tv_text env (failure_message code))\<rparr>"

text \<open>\<open>UUID (s)\<close> without the spellings that begin with \<open>urn:\<close> or stand in braces.\<close>

definition hex_digit :: "char \<Rightarrow> nat option" where
  "hex_digit c =
     (if c \<in> set ''0123456789'' then Some (of_char c - 48)
      else if c \<in> set ''abcdef'' then Some (of_char c - 87)
      else if c \<in> set ''ABCDEF'' then Some (of_char c - 55) else None)"

definition uuid_of_text :: "string \<Rightarrow> uuid option" where
  "uuid_of_text s =
     (let digits = map hex_digit (filter (\<lambda>c. c \<noteq> CHR ''-'') s)
      in if length digits = 32 \<and> None \<notin> set digits
         then Some (foldl (\<lambda>n d. 16 * n + the d) 0 digits) else None)"

text \<open>\<open>_refresh_reconciliation\<close>: what the decision of the case changes.\<close>

definition needs_hand_check :: "ThreadEnv \<Rightarrow> AgentState \<Rightarrow> AgentState" where
  "needs_hand_check env st = st\<lparr>st_workflow_stage := WS_HUMAN_REVIEW,
     st_pending_reconciliation_status := Some RC_MANUAL_REVIEW,
     st_last_assistant_message := Some (tv_text env TT_operation_checked_by_hand)\<rparr>"

definition waits_for_case :: "AgentState \<Rightarrow> ReconciliationCase \<Rightarrow> AgentState" where
  "waits_for_case st r = st\<lparr>st_workflow_stage := WS_RECONCILIATION_PENDING,
     st_pending_reconciliation_status := Some (agent_status_of (rc_status r))\<rparr>"

definition case_dropped :: "AgentState \<Rightarrow> AgentState" where
  "case_dropped st = st\<lparr>st_pending_reconciliation_case_id := None,
     st_pending_reconciliation_status := None, st_pending_reconciliation_action := None\<rparr>"

definition not_committed :: "ThreadEnv \<Rightarrow> AgentState \<Rightarrow> AgentState" where
  "not_committed env st = (case_dropped st)\<lparr>st_last_assistant_message := Some (tv_text env TT_not_committed)\<rparr>"

definition committed :: "ThreadEnv \<Rightarrow> AgentState \<Rightarrow> reconciliation_action \<Rightarrow> uuid \<Rightarrow> AgentState" where
  "committed env st action resource_id =
     (let done = (case_dropped st)\<lparr>st_pending_operation := None, st_pending_action := PA_NONE,
            st_snapshot_refresh_required := True\<rparr>
      in case action of
        RC_CREATE_TICKET \<Rightarrow> done\<lparr>st_active_ticket_id := Some resource_id,
          st_workflow_stage := WS_FINDING_SLOTS,
          st_last_assistant_message := Some (tv_text env TT_ticket_committed)\<rparr>
      | RC_ESCALATE_TO_OPERATOR \<Rightarrow> done\<lparr>st_workflow_stage := WS_HUMAN_REVIEW,
          st_last_assistant_message := Some (tv_text env TT_escalation_committed)\<rparr>
      | _ \<Rightarrow> done\<lparr>st_active_appointment_id := Some resource_id, st_workflow_stage := WS_DONE,
          st_last_assistant_message := Some (tv_text env TT_appointment_committed)\<rparr>)"

definition snapshot_confirms ::
  "AgentState \<Rightarrow> reconciliation_action \<Rightarrow> uuid \<Rightarrow> uuid \<Rightarrow> TicketSnapshotData ToolResponse \<Rightarrow> bool" where
  "snapshot_confirms st action ticket_id resource_id response \<longleftrightarrow>
     rsp_result_code response = RES_FOUND \<and>
     (case rsp_data response of None \<Rightarrow> False
      | Some s \<Rightarrow> sn_ticket_id s = ticket_id \<and> Some (sn_property_id s) = st_property_id st \<and>
          sn_resident_id s = st_user_id st \<and>
          (action \<in> {RC_BOOK_APPOINTMENT, RC_RESCHEDULE_APPOINTMENT} \<longrightarrow>
             map_option aa_appointment_id (sn_active_appointment s) = Some resource_id))"

definition confirm_commit ::
  "ThreadEnv \<Rightarrow> AgentState \<Rightarrow> ReconciliationCase \<Rightarrow> uuid \<Rightarrow> AgentState outcome" where
  "confirm_commit env st r resource_id =
     (case (if cc_action r \<in> {RC_CREATE_TICKET, RC_ESCALATE_TO_OPERATOR} then Some resource_id
            else st_active_ticket_id st) of
        None \<Rightarrow> Inr (needs_hand_check env st)
      | Some ticket_id \<Rightarrow>
          bindE (tv_get_ticket_snapshot env (ReadRequest.extend
             ((read_request st)\<lparr>rq_trace_id := tv_uuid5_url env
                (''fixflow:reconciliation-refresh:'' @ uuid_text (rc_id r))\<rparr>)
             (GetTicketSnapshotRequest.fields ticket_id)))
          (\<lambda>response. Inr (if snapshot_confirms st (cc_action r) ticket_id resource_id response
             then committed env st (cc_action r) resource_id else needs_hand_check env st)))"

definition refresh_reconciliation :: "ThreadEnv \<Rightarrow> AgentState \<Rightarrow> AgentState outcome" where
  "refresh_reconciliation env st =
     (case (st_pending_reconciliation_case_id st, tv_reconciliation env) of
        (Some case_id, Some port) \<Rightarrow>
          bindE (rp_get port case_id) (\<lambda>found. case found of None \<Rightarrow> Inr st
            | Some r \<Rightarrow>
                (case rc_status r of
                   RS_PENDING \<Rightarrow> Inr (waits_for_case st r)
                 | RS_PROCESSING \<Rightarrow> Inr (waits_for_case st r)
                 | RS_MANUAL_REVIEW \<Rightarrow> Inr (needs_hand_check env st)
                 | RS_RESOLVED_NOT_COMMITTED \<Rightarrow> Inr (not_committed env st)
                 | RS_RESOLVED_COMMITTED \<Rightarrow>
                     (case rc_safe_result r of None \<Rightarrow> Inr (needs_hand_check env st)
                      | Some safe \<Rightarrow>
                          if sr_resource_id safe = [] then Inr (needs_hand_check env st)
                          else (case uuid_of_text (sr_resource_id safe) of
                             None \<Rightarrow> Inl (Exn PyValueError ''badly formed hexadecimal UUID string'' [])
                           | Some resource_id \<Rightarrow> confirm_commit env st r resource_id))))
      | _ \<Rightarrow> Inr st)"

section \<open>Ownership\<close>

definition stored_state :: "Checkpoint option \<Rightarrow> AgentState option outcome" where
  "stored_state thread =
     (case thread of None \<Rightarrow> Inr None | Some ck \<Rightarrow> map_sum id Some (load_state (ck_state ck)))"

definition owner :: "AgentState \<Rightarrow> ThreadOwnerIdentity option" where
  "owner st = (if \<not> st_property_context_verified st then None
     else map_option (\<lambda>p. \<lparr>cl_actor_type = st_actor_type st, cl_actor_id = st_actor_id st,
       cl_user_id = st_user_id st, ow_property_id = p\<rparr>) (st_property_id st))"

definition turn_matches_owner :: "AgentState \<Rightarrow> AgentTurnInput \<Rightarrow> bool" where
  "turn_matches_owner st turn \<longleftrightarrow>
     (case owner st of None \<Rightarrow> False
      | Some w \<Rightarrow> cl_actor_type w = tn_actor_type turn \<and> cl_actor_id w = tn_actor_id turn \<and>
          cl_user_id w = tn_user_id turn \<and>
          (tn_property_id turn = None \<or> tn_property_id turn = Some (ow_property_id w)))"

definition caller_matches_owner :: "AgentState \<Rightarrow> 'a AgentCallerContext_scheme \<Rightarrow> bool" where
  "caller_matches_owner st caller \<longleftrightarrow>
     (case owner st of None \<Rightarrow> False
      | Some w \<Rightarrow> cl_actor_type w = cl_actor_type caller \<and> cl_actor_id w = cl_actor_id caller \<and>
          cl_user_id w = cl_user_id caller)"

text \<open>\<open>_preflight_property\<close>: the code of the refusal, if any.\<close>

definition preflight_property :: "ThreadEnv \<Rightarrow> AgentState \<Rightarrow> uuid \<Rightarrow> string option outcome" where
  "preflight_property env st trace_id =
     (case st_property_id st of None \<Rightarrow> Inr (Some ''PROPERTY_CONTEXT_REQUIRED'')
      | Some property_id \<Rightarrow>
          bindE (tv_get_resident_property env (ReadRequest.extend
             ((read_request st)\<lparr>rq_trace_id := trace_id\<rparr>)
             (GetResidentPropertyRequest.fields (st_user_id st) property_id)))
          (\<lambda>response. Inr
             (if rsp_result_code response = RES_PERMISSION_DENIED then Some ''PERMISSION_DENIED''
              else if rsp_result_code response \<noteq> RES_FOUND \<or> rsp_data response = None
              then Some (case rsp_error_code response of Some c \<Rightarrow> c
                | None \<Rightarrow> result_code_value (rsp_result_code response))
              else if \<exists>d \<in> set_option (rsp_data response).
                  rf_resident_id d \<noteq> st_user_id st \<or> rf_property_id d \<noteq> property_id
              then Some ''PERMISSION_DENIED'' else None)))"

definition invalidated :: "AgentState \<Rightarrow> AgentState" where
  "invalidated st = clear_slots (st\<lparr>st_property_context_verified := False, st_pending_action := PA_NONE,
     st_pending_operation := None, st_user_confirmation := None, st_snapshot_refresh_required := True\<rparr>)"


section \<open>Results\<close>

definition failure_from_ids :: "ThreadEnv \<Rightarrow> uuid \<Rightarrow> uuid \<Rightarrow> AgentState \<Rightarrow> string \<Rightarrow> AgentRunResult" where
  "failure_from_ids env thread_id trace_id st code =
     \<lparr>ar_thread_id = thread_id, ar_trace_id = trace_id, ar_run_status = RN_FAILED_SAFE,
      ar_assistant_message = Some (tv_text env (failure_message code)), ar_interrupt = None,
      ar_workflow_stage = st_workflow_stage st, ar_active_ticket_id = st_active_ticket_id st,
      ar_active_appointment_id = st_active_appointment_id st, ar_error_code = Some code,
      ar_pending_reconciliation_case_id = st_pending_reconciliation_case_id st,
      ar_pending_reconciliation_status = st_pending_reconciliation_status st,
      ar_pending_reconciliation_action = st_pending_reconciliation_action st\<rparr>"

text \<open>Without any state: to a caller who is not the owner, and where no state exists.\<close>

definition bare_failure :: "uuid \<Rightarrow> uuid \<Rightarrow> string option \<Rightarrow> workflow_stage \<Rightarrow> string \<Rightarrow> AgentRunResult" where
  "bare_failure thread_id trace_id message stage code =
     \<lparr>ar_thread_id = thread_id, ar_trace_id = trace_id, ar_run_status = RN_FAILED_SAFE,
      ar_assistant_message = message, ar_interrupt = None, ar_workflow_stage = stage,
      ar_active_ticket_id = None, ar_active_appointment_id = None, ar_error_code = Some code,
      ar_pending_reconciliation_case_id = None, ar_pending_reconciliation_status = None,
      ar_pending_reconciliation_action = None\<rparr>"

definition public_failure :: "ThreadEnv \<Rightarrow> uuid \<Rightarrow> uuid \<Rightarrow> string \<Rightarrow> AgentRunResult" where
  "public_failure env thread_id trace_id code =
     bare_failure thread_id trace_id (Some (tv_text env TT_not_executed)) WS_INTAKE code"

definition shown_status :: "AgentState \<Rightarrow> interrupt_payload option \<Rightarrow> run_status" where
  "shown_status st payload =
     (if st_workflow_stage st \<in> {WS_HUMAN_REVIEW, WS_EMERGENCY_REVIEW} then RN_NEEDS_HUMAN_REVIEW
      else if payload \<noteq> None then RN_INTERRUPTED else RN_COMPLETED)"

text \<open>\<open>_result\<close>: the output of \<open>ainvoke\<close> is the state of the checkpoint.\<close>

definition run_result :: "uuid \<Rightarrow> uuid \<Rightarrow> Checkpoint \<Rightarrow> AgentRunResult outcome" where
  "run_result thread_id trace_id ck = bindE (load_state (ck_state ck)) (\<lambda>st. Inr
     \<lparr>ar_thread_id = thread_id, ar_trace_id = trace_id,
      ar_run_status = shown_status st (ck_interrupt ck),
      ar_assistant_message = (if ck_interrupt ck \<noteq> None then None else st_last_assistant_message st),
      ar_interrupt = ck_interrupt ck, ar_workflow_stage = st_workflow_stage st,
      ar_active_ticket_id = st_active_ticket_id st,
      ar_active_appointment_id = st_active_appointment_id st, ar_error_code = st_escalation_reason st,
      ar_pending_reconciliation_case_id = st_pending_reconciliation_case_id st,
      ar_pending_reconciliation_status = st_pending_reconciliation_status st,
      ar_pending_reconciliation_action = st_pending_reconciliation_action st\<rparr>)"

section \<open>Runs and their failures\<close>

text \<open>\<open>isinstance\<close> tests of the handlers, and \<open>exc.code\<close>.\<close>

definition is_agent_runtime_error :: "exn \<Rightarrow> bool" where
  "is_agent_runtime_error e \<longleftrightarrow> exn_class e \<in>
     {MCPClientError, MCPUnavailable, MCPTimeout, MCPContractViolation, MCPToolNotFound,
      MCPToolResultError, MutationNotSent, UnknownCommit, PolicyRetrievalFailed, ThreadIdentityConflict}"

definition runtime_error_code :: "exn \<Rightarrow> string" where
  "runtime_error_code e =
     (case exn_class e of MCPToolResultError \<Rightarrow> exn_code e
      | MCPUnavailable \<Rightarrow> ''MCP_UNAVAILABLE'' | MCPTimeout \<Rightarrow> ''MCP_TIMEOUT''
      | MCPContractViolation \<Rightarrow> ''MCP_CONTRACT_VIOLATION'' | MCPToolNotFound \<Rightarrow> ''MCP_TOOL_NOT_FOUND''
      | MutationNotSent \<Rightarrow> ''NOT_SENT'' | UnknownCommit \<Rightarrow> ''UNKNOWN_COMMIT''
      | PolicyRetrievalFailed \<Rightarrow> ''POLICY_RETRIEVAL_FAILED''
      | ThreadIdentityConflict \<Rightarrow> ''THREAD_IDENTITY_CONFLICT'' | _ \<Rightarrow> ''MCP_CLIENT_ERROR'')"

definition is_agent_error :: "exn \<Rightarrow> bool" where
  "is_agent_error e \<longleftrightarrow> exn_class e \<in>
     {LLMProviderUnavailable, LLMTimeout, StructuredOutputInvalid, ProviderExhausted, StateMergeConflict}"

definition is_value_error :: "exn \<Rightarrow> bool" where
  "is_value_error e \<longleftrightarrow> exn_class e \<in> {PyValueError, ValidationError}"

type_synonym thread_answer = "AgentRunResult outcome \<times> Checkpoint"

definition failed_with :: "ThreadEnv \<Rightarrow> uuid \<Rightarrow> uuid \<Rightarrow> string \<Rightarrow> AgentState outcome \<times> Checkpoint \<Rightarrow> thread_answer" where
  "failed_with env thread_id trace_id code r =
     (map_sum id (\<lambda>st. failure_from_ids env thread_id trace_id st code) (fst r), snd r)"

definition language_code :: "exn \<Rightarrow> string" where
  "language_code e = (if exn_class e = ProviderExhausted then ''PROVIDER_EXHAUSTED''
     else ''LANGUAGE_INTERPRETATION_FAILED'')"

text \<open>The handlers of an unknown commit and of a typed runtime error, shared by turns and resumes. The
  state is read again from the checkpoint; \<open>None\<close> for the other exceptions.\<close>

definition runtime_failure ::
  "ThreadEnv \<Rightarrow> uuid \<Rightarrow> uuid \<Rightarrow> exn \<Rightarrow> Checkpoint \<Rightarrow> thread_answer option" where
  "runtime_failure env thread_id trace_id e ck =
     (if exn_class e = UnknownCommit
      then Some (case load_state (ck_state ck) of Inl e' \<Rightarrow> (Inl e', ck)
        | Inr current \<Rightarrow> failed_with env thread_id trace_id ''RECONCILIATION_PENDING''
            (record_unknown env current e ck))
      else if is_agent_runtime_error e
      then Some (failed_with env thread_id trace_id (runtime_error_code e) (load_state (ck_state ck), ck))
      else None)"

definition settle_turn :: "ThreadEnv \<Rightarrow> uuid \<Rightarrow> uuid \<Rightarrow> Checkpoint \<times> run_end \<Rightarrow> thread_answer" where
  "settle_turn env thread_id trace_id r =
     (case r of
        (ck, Run_failed e) \<Rightarrow>
          (case runtime_failure env thread_id trace_id e ck of Some answer \<Rightarrow> answer
           | None \<Rightarrow>
               if is_agent_error e
               then (case load_state (ck_state ck) of Inl e' \<Rightarrow> (Inl e', ck)
                 | Inr current \<Rightarrow>
                     let blocked = language_failure env current (language_code e)
                     in (Inr (failure_from_ids env thread_id trace_id blocked (language_code e)),
                         tv_update env ck blocked))
               else (Inl e, ck))
      | (ck, _) \<Rightarrow> (run_result thread_id trace_id ck, ck))"

text \<open>A resume does not route a language failure to a person, and reports value errors as a conflict.\<close>

definition settle_resume ::
  "ThreadEnv \<Rightarrow> uuid \<Rightarrow> uuid \<Rightarrow> AgentState \<Rightarrow> Checkpoint \<times> run_end \<Rightarrow> thread_answer" where
  "settle_resume env thread_id trace_id before r =
     (case r of
        (ck, Run_failed e) \<Rightarrow>
          (case runtime_failure env thread_id trace_id e ck of Some answer \<Rightarrow> answer
           | None \<Rightarrow>
               if is_agent_error e
               then failed_with env thread_id trace_id (language_code e) (load_state (ck_state ck), ck)
               else if is_value_error e
               then (Inr (failure_from_ids env thread_id trace_id before ''RESUME_CONFLICT''), ck)
               else (Inl e, ck))
      | (ck, _) \<Rightarrow> (run_result thread_id trace_id ck, ck))"

section \<open>Turns and resumes\<close>

text \<open>The checks before a run, on a stored thread: the refusal, or the state to go on with.\<close>

datatype admission = Refused string AgentState | Admitted AgentState

definition adopt_refreshed :: "ThreadEnv \<Rightarrow> Checkpoint \<Rightarrow> AgentState \<Rightarrow> AgentState \<Rightarrow> Checkpoint" where
  "adopt_refreshed env ck before refreshed = (if refreshed \<noteq> before then tv_update env ck refreshed else ck)"

definition admit :: "ThreadEnv \<Rightarrow> Checkpoint \<Rightarrow> AgentState \<Rightarrow> uuid \<Rightarrow> admission outcome \<times> Checkpoint" where
  "admit env ck st trace_id =
     (case preflight_property env st trace_id of Inl e \<Rightarrow> (Inl e, ck)
      | Inr (Some code) \<Rightarrow> (Inr (Refused code (invalidated st)), tv_update env ck (invalidated st))
      | Inr None \<Rightarrow>
          (case refresh_reconciliation env st of Inl e \<Rightarrow> (Inl e, ck)
           | Inr refreshed \<Rightarrow> (Inr (Admitted refreshed), adopt_refreshed env ck st refreshed)))"

definition reconciliation_code :: "AgentState \<Rightarrow> string" where
  "reconciliation_code st = (if st_workflow_stage st = WS_RECONCILIATION_PENDING
     then ''RECONCILIATION_PENDING'' else ''MANUAL_REVIEW'')"

definition turn_state :: "AgentTurnInput \<Rightarrow> AgentState option \<Rightarrow> AgentState" where
  "turn_state turn existing =
     (case existing of
        Some st \<Rightarrow> st\<lparr>st_trace_id := tn_trace_id turn, st_property_context_verified := True,
          st_current_user_message := Some (tn_user_message turn),
          st_current_reference_time := Some (tn_reference_time turn),
          st_current_timezone_name := Some (tn_timezone_name turn)\<rparr>
      | None \<Rightarrow> new_state (tn_thread_id turn) (tn_trace_id turn) (tn_actor_type turn) (tn_actor_id turn)
          (tn_user_id turn) (tn_property_id turn) (tn_user_message turn) (tn_reference_time turn)
          (tn_timezone_name turn))"

text \<open>The message of the turn is appended, and the graph starts at its entry with this input.\<close>

definition run_turn :: "ThreadEnv \<Rightarrow> AgentTurnInput \<Rightarrow> AgentState \<Rightarrow> AgentRunResult outcome \<times> Checkpoint option" where
  "run_turn env turn st =
     (case append_conversation_message (tv_uuid5_url env) LR_USER (tn_user_message turn)
             (tn_trace_id turn) (tn_reference_time turn) st of
        Inl e \<Rightarrow> (Inl e, None)
      | Inr input \<Rightarrow> map_prod id Some (settle_turn env (tn_thread_id turn) (tn_trace_id turn)
          (run_graph (tv_limit env) (tv_nodes env) None N_resolve_property input)))"

definition start_turn ::
  "ThreadEnv \<Rightarrow> AgentTurnInput \<Rightarrow> Checkpoint option \<Rightarrow> AgentRunResult outcome \<times> Checkpoint option" where
  "start_turn env turn thread =
     (let thread_id = tn_thread_id turn; trace_id = tn_trace_id turn in
      case thread of
        None \<Rightarrow>
          if tn_property_id turn = None
          then (Inr (bare_failure thread_id trace_id (Some (tv_text env TT_property_required))
                  WS_NEED_PROPERTY ''PROPERTY_CONTEXT_REQUIRED''), None)
          else run_turn env turn (turn_state turn None)
      | Some ck \<Rightarrow>
          (case load_state (ck_state ck) of Inl e \<Rightarrow> (Inl e, Some ck)
           | Inr st \<Rightarrow>
               if \<not> turn_matches_owner st turn
               then (Inr (public_failure env thread_id trace_id ''THREAD_IDENTITY_CONFLICT''), Some ck)
               else (case admit env ck st trace_id of
                   (Inl e, ck1) \<Rightarrow> (Inl e, Some ck1)
                 | (Inr (Refused code safe), ck1) \<Rightarrow>
                     (Inr (failure_from_ids env thread_id trace_id safe code), Some ck1)
                 | (Inr (Admitted existing), ck1) \<Rightarrow>
                     if st_workflow_stage existing \<in> {WS_RECONCILIATION_PENDING, WS_HUMAN_REVIEW} \<and>
                        st_pending_reconciliation_case_id existing \<noteq> None
                     then (Inr (failure_from_ids env thread_id trace_id existing
                             (reconciliation_code existing)), Some ck1)
                     else (case ck_next ck1 of
                         Some n \<Rightarrow>
                           if ck_interrupt ck1 \<noteq> None
                           then (Inr (failure_from_ids env thread_id trace_id existing ''RESUME_REQUIRED''),
                                 Some ck1)
                           else map_prod id Some (settle_turn env thread_id trace_id
                             (run_graph (tv_limit env) (tv_nodes env) None n (ck_state ck1)))
                       | None \<Rightarrow> map_prod id (\<lambda>after. if after = None then Some ck1 else after)
                           (run_turn env turn (turn_state turn (Some existing)))))))"

definition resume_thread ::
  "ThreadEnv \<Rightarrow> uuid \<Rightarrow> 'a AgentCallerContext_scheme \<Rightarrow> agent_resume \<Rightarrow> Checkpoint option \<Rightarrow>
   AgentRunResult outcome \<times> Checkpoint option" where
  "resume_thread env thread_id caller answer thread =
     (let trace_id = rs_trace_id answer in
      case thread of
        None \<Rightarrow> (Inr (bare_failure thread_id trace_id None WS_INTAKE ''RESUME_CONFLICT''), None)
      | Some ck \<Rightarrow>
          (case load_state (ck_state ck) of Inl e \<Rightarrow> (Inl e, Some ck)
           | Inr st \<Rightarrow>
               if \<not> caller_matches_owner st caller
               then (Inr (public_failure env thread_id trace_id ''THREAD_IDENTITY_CONFLICT''), Some ck)
               else if ck_next ck = None
               then (Inr (failure_from_ids env thread_id trace_id st ''RESUME_CONFLICT''), Some ck)
               else (case admit env ck st trace_id of
                   (Inl e, ck1) \<Rightarrow> (Inl e, Some ck1)
                 | (Inr (Refused code safe), ck1) \<Rightarrow>
                     (Inr (failure_from_ids env thread_id trace_id safe code), Some ck1)
                 | (Inr (Admitted existing), ck1) \<Rightarrow>
                     if st_pending_reconciliation_case_id existing \<noteq> None
                     then (Inr (failure_from_ids env thread_id trace_id existing
                             (reconciliation_code existing)), Some ck1)
                     else (case ck_next ck1 of
                         Some n \<Rightarrow> map_prod id Some (settle_resume env thread_id trace_id existing
                           (run_graph (tv_limit env) (tv_nodes env) (Some answer) n (ck_state ck1)))
                       | None \<Rightarrow> (run_result thread_id trace_id ck1, Some ck1)))))"

section \<open>Views\<close>

definition state_view :: "AgentState \<Rightarrow> Checkpoint \<Rightarrow> AgentStateView" where
  "state_view st ck = \<lparr>av_state = st, av_run_status = shown_status st (ck_interrupt ck),
     av_interrupt = ck_interrupt ck\<rparr>"

definition identity_conflict :: "string \<Rightarrow> exn" where
  "identity_conflict message = Exn ThreadIdentityConflict message []"

definition get_state ::
  "ThreadEnv \<Rightarrow> 'a AgentCallerContext_scheme \<Rightarrow> uuid \<Rightarrow> Checkpoint option \<Rightarrow>
   AgentStateView option outcome \<times> Checkpoint option" where
  "get_state env caller trace_id thread =
     (case thread of None \<Rightarrow> (Inr None, None)
      | Some ck \<Rightarrow>
          (case load_state (ck_state ck) of Inl e \<Rightarrow> (Inl e, Some ck)
           | Inr st \<Rightarrow>
               if \<not> caller_matches_owner st caller
               then (Inl (identity_conflict ''thread owner identity does not match caller''), Some ck)
               else (case admit env ck st trace_id of
                   (Inl e, ck1) \<Rightarrow> (Inl e, Some ck1)
                 | (Inr (Refused code safe), ck1) \<Rightarrow>
                     (Inl (identity_conflict ''caller no longer has property access''), Some ck1)
                 | (Inr (Admitted existing), ck1) \<Rightarrow> (Inr (Some (state_view existing ck1)), Some ck1))))"

text \<open>The supervisor's view: the operator is authorized on the property and on the ticket.\<close>

definition get_operator_state ::
  "ThreadEnv \<Rightarrow> 'a AgentCallerContext_scheme \<Rightarrow> uuid \<Rightarrow> Checkpoint option \<Rightarrow>
   AgentStateView option outcome" where
  "get_operator_state env caller trace_id thread =
     (if cl_actor_type caller \<noteq> ACT_OPERATOR then Inl (identity_conflict ''operator role required'')
      else bindE (stored_state thread) (\<lambda>stored.
        case (stored, thread) of
          (Some st, Some ck) \<Rightarrow>
            (case st_property_id st of None \<Rightarrow> Inr None
             | Some property_id \<Rightarrow>
                 let request = \<lparr>rq_actor_type = cl_actor_type caller, rq_actor_id = cl_actor_id caller,
                       rq_trace_id = trace_id\<rparr>
                 in bindE (tv_get_resident_property env (ReadRequest.extend request
                      (GetResidentPropertyRequest.fields (st_user_id st) property_id)))
                    (\<lambda>response. if rsp_result_code response \<noteq> RES_FOUND
                       then Inl (identity_conflict ''operator is not authorized'')
                       else case st_active_ticket_id st of None \<Rightarrow> Inr None
                       | Some ticket_id \<Rightarrow>
                           bindE (tv_get_ticket_snapshot env (ReadRequest.extend request
                              (GetTicketSnapshotRequest.fields ticket_id)))
                           (\<lambda>shown. Inr (if rsp_result_code shown = RES_FOUND \<and>
                              (\<exists>s \<in> set_option (rsp_data shown). sn_ticket_id s = ticket_id \<and>
                                 sn_property_id s = property_id \<and> sn_resident_id s = st_user_id st)
                              then Some (state_view st ck) else None))))
        | _ \<Rightarrow> Inr None))"

end
