(* ===== verification/AgentHistory.thy ===== *)
theory AgentHistory
  imports AgentThread
begin

text \<open>
  What holds over whole threads: along all turns, resumes and retries of a thread the checkpoint can
  be loaded and mutations are sent only after their checks; a run ends within a bounded number of
  tasks while the tickets it reads are open; and what a refused caller sees and changes.
\<close>

section \<open>Conversations\<close>

text \<open>Between two tasks of the graph the resident may start a new turn, when the last run has ended.\<close>

inductive conversation_step :: "(string \<Rightarrow> string) \<Rightarrow> configuration \<Rightarrow> configuration \<Rightarrow> bool" for H where
  by_task: "agent_step H c c' \<Longrightarrow> conversation_step H c c'"
| by_turn: "turn_ok nc turn \<Longrightarrow> turn_matches_owner st turn \<Longrightarrow>
    append_conversation_message u LR_USER (tn_user_message turn) (tn_trace_id turn)
      (tn_reference_time turn) (turn_state turn (Some st)) = Inr input \<Longrightarrow>
    conversation_step H (None, st) (Some N_resolve_property, input)"

text \<open>A thread begins with the input of its first turn.\<close>

definition first_input :: "AgentTurnInput \<Rightarrow> AgentState \<Rightarrow> bool" where
  "first_input turn input \<longleftrightarrow> (\<exists>nc u. turn_ok nc turn \<and> tn_property_id turn \<noteq> None \<and>
     append_conversation_message u LR_USER (tn_user_message turn) (tn_trace_id turn)
       (tn_reference_time turn) (turn_state turn None) = Inr input)"

lemma message_appended_sound:
  assumes "append_conversation_message u role content turn_id t st = Inr st'" and "sound_state st"
  shows "sound_state st' \<and> (\<exists>ms. st' = st\<lparr>st_conversation_messages := ms\<rparr>)"
proof -
  have "conversation_valid st" using assms(2) by (simp add: sound_state_iff valid_state_def)
  from append_message_keeps [OF assms(1) this] obtain ms where
    st': "st' = st\<lparr>st_conversation_messages := ms\<rparr>" and valid: "conversation_valid st'"
    by (elim exE conjE)
  from valid assms(2) have "sound_state st'" by (simp add: st' unspoken_defs)
  with st' show ?thesis by blast
qed

lemma turn_state_sound:
  assumes "turn_ok nc turn" and "pred_option (\<lambda>st. sound_state st \<and> st_property_id st \<noteq> None) existing"
  shows "sound_state (turn_state turn existing)"
  using assms
  by (cases existing)
    (simp_all add: turn_state_def turn_ok_def new_state_def sound_defs compute_missing_fields_def
      normalize_issue_location_def)

lemma turn_input:
  assumes "append_conversation_message u LR_USER (tn_user_message turn) (tn_trace_id turn)
      (tn_reference_time turn) (turn_state turn existing) = Inr input"
    and "turn_ok nc turn" and "pred_option (\<lambda>st. sound_state st \<and> st_property_id st \<noteq> None) existing"
  shows "agent_inv H (Some N_resolve_property, input)"
proof -
  from message_appended_sound [OF assms(1) turn_state_sound [OF assms(2,3)]] obtain ms where
    "sound_state input" "input = (turn_state turn existing)\<lparr>st_conversation_messages := ms\<rparr>"
    by (elim conjE exE)
  then show ?thesis by (cases existing) (simp_all add: turn_state_def new_state_def)
qed

lemma first_input_inv: "first_input turn input \<Longrightarrow> agent_inv H (Some N_resolve_property, input)"
  unfolding first_input_def using turn_input [where existing = None] by auto

lemma owned_property: "turn_matches_owner st turn \<Longrightarrow> st_property_id st \<noteq> None"
  by (auto simp: turn_matches_owner_def owner_def split: option.splits if_splits)

lemma conversation_step_keeps: "conversation_step H c c' \<Longrightarrow> agent_inv H c \<Longrightarrow> agent_inv H c'"
proof (induction rule: conversation_step.induct)
  case (by_turn nc turn st u input)
  show ?case
    by (rule turn_input [OF by_turn.hyps(3,1)]) (use by_turn owned_property in simp)
qed (rule agent_step_keeps)

lemma conversation_steps_keep: "(conversation_step H)\<^sup>*\<^sup>* c c' \<Longrightarrow> agent_inv H c \<Longrightarrow> agent_inv H c'"
  by (induction rule: rtranclp_induct) (simp_all add: conversation_step_keeps)

lemma conversation_inv:
  "first_input turn input \<Longrightarrow> (conversation_step H)\<^sup>*\<^sup>* (Some N_resolve_property, input) c \<Longrightarrow> agent_inv H c"
  by (rule conversation_steps_keep, assumption, rule first_input_inv)

section \<open>How long a run lasts\<close>

text \<open>The longest way from a node to the end or to a question; a slot that was chosen costs three more
  tasks, and a refresh without a ticket looks for one first.\<close>

definition slot_cost :: "AgentState \<Rightarrow> nat" where
  "slot_cost st = (if st_selected_candidate_slot st = None then 0 else 3)"

fun tasks_left :: "graph_node \<Rightarrow> AgentState \<Rightarrow> nat" where
  "tasks_left N_resolve_property st = 9 + slot_cost st"
| "tasks_left N_interpret st = 8 + slot_cost st"
| "tasks_left N_retrieve_policy st = 7 + slot_cost st"
| "tasks_left N_find_duplicates st = 6 + slot_cost st"
| "tasks_left N_resolve_existing st = 6 + slot_cost st"
| "tasks_left N_prepare_create st = 5 + slot_cost st"
| "tasks_left N_create_ticket st = 4 + slot_cost st"
| "tasks_left N_refresh_snapshot st =
     (if st_task_intent st = AI_NEW_REPAIR \<and> st_active_ticket_id st = None then 7 else 3) + slot_cost st"
| "tasks_left N_prepare_book st = 5"
| "tasks_left N_prepare_reschedule st = 5"
| "tasks_left N_book st = 4"
| "tasks_left N_reschedule st = 4"
| "tasks_left N_list_slots st = 2"
| "tasks_left _ st = 1"

lemma tasks_left_bounds: "1 \<le> tasks_left n st" "tasks_left n st \<le> 12"
  by (cases n; simp add: slot_cost_def)+

text \<open>No snapshot shows a closed or cancelled ticket.\<close>

definition tickets_open :: "NodeContext \<Rightarrow> bool" where
  "tickets_open nc \<longleftrightarrow> (\<forall>r response. nc_get_ticket_snapshot nc r = Inr response \<longrightarrow>
     pred_option (\<lambda>s. \<not> is_terminal_ticket_status (sn_ticket_status s)) (rsp_data response))"

lemma edge_routed:
  assumes "bindE (load_state st) (\<lambda>s. Inr (route s)) = Inr after"
  shows "after = route (stripped_texts st)"
  using assms by (auto simp: bindE_Inr_iff load_state_def checked_Inr)

lemma stripped_same [simp]:
  "st_task_intent (stripped_texts st) = st_task_intent st"
  "st_active_ticket_id (stripped_texts st) = st_active_ticket_id st"
  "st_selected_candidate_slot (stripped_texts st) = st_selected_candidate_slot st"
  "st_property_context_verified (stripped_texts st) = st_property_context_verified st"
  by (simp_all add: stripped_texts_def)

lemma slot_cost_stripped [simp]: "slot_cost (stripped_texts st) = slot_cost st"
  by (simp add: slot_cost_def)

text \<open>Loading, and what a node does with the fields that matter here.\<close>

lemma returns_loaded [returns_intros]:
  "returns P (f (stripped_texts raw)) \<Longrightarrow> returns P (bindE (load_state raw) f)"
  by (simp add: returns_def bindE_Inr_iff load_state_def checked_Inr)

definition no_new_slot :: "AgentState \<Rightarrow> AgentState \<Rightarrow> bool" where
  "no_new_slot st st' \<longleftrightarrow> st_selected_candidate_slot st' \<in> {st_selected_candidate_slot st, None}"

lemma no_new_slot_cost: "no_new_slot st st' \<Longrightarrow> slot_cost st' \<le> slot_cost st"
  by (auto simp: no_new_slot_def slot_cost_def)


lemma no_new_slot_basic:
  "no_new_slot st st" "no_new_slot (stripped_texts st) st"
  "no_new_slot (stripped_texts st) st' \<longleftrightarrow> no_new_slot st st'"
  by (simp_all add: no_new_slot_def)

lemma interpretation_no_new_slot:
  "returns (no_new_slot st) (merge_interpretation st out)"
  unfolding merge_interpretation_def Let_def
  by (intro returns_intros)
    (simp_all add: Let_def with_missing_fields_def merged_facts_def discard_plan_def restart_version_def no_new_slot_def)

lemma defaults_no_new_slot:
  "no_new_slot st (apply_new_repair_defaults s) = no_new_slot st s"
  "no_new_slot st (route_required_safety_review s) = no_new_slot st s"
  by (simp_all add: apply_new_repair_defaults_def route_required_safety_review_def Let_def no_new_slot_def
      split: option.split)

lemma policy_no_new_slot:
  "merge_policy_result H st z q profile = Inr s \<Longrightarrow> no_new_slot st s"
  by (auto simp: merge_policy_result_def no_new_slot_def split: if_splits)

lemma resolve_property_no_new_slot: "returns (no_new_slot st) (resolve_property_node nc st)"
  unfolding resolve_property_node_def Let_def
  by (intro returns_intros) (simp_all add: no_new_slot_def)

lemma interpret_no_new_slot: "returns (no_new_slot st) (interpret_message nc st)"
proof -
  have "no_new_slot st m" if "merge_interpretation (stripped_texts st) out = Inr m" for out m
    using returnsD [OF interpretation_no_new_slot that] by (simp add: no_new_slot_basic)
  then show ?thesis
    unfolding interpret_message_def
    by (intro returns_intros) (simp_all add: no_new_slot_basic defaults_no_new_slot)
qed

lemma retrieve_no_new_slot: "returns (no_new_slot st) (retrieve_policy nc st)"
proof -
  have "no_new_slot st (m\<lparr>st_workflow_stage := w\<rparr>)"
    if "merge_policy_result H (stripped_texts st) z q p = Inr m" for H z q p m w
    using policy_no_new_slot [OF that] by (simp add: no_new_slot_def)
  then show ?thesis
    unfolding retrieve_policy_def by (intro returns_intros) (auto simp: bindE_Inr_iff)
qed

lemma find_duplicates_no_new_slot: "returns (no_new_slot st) (find_duplicates nc st)"
  unfolding find_duplicates_def Let_def
  by (intro returns_intros) (simp_all add: no_new_slot_def split: list.split)

lemma resolve_existing_no_new_slot: "returns (no_new_slot st) (resolve_existing nc st)"
  unfolding resolve_existing_def
  by (intro returns_intros find_duplicates_no_new_slot) (simp_all add: no_new_slot_def)

lemma prepare_create_no_new_slot: "returns (no_new_slot st) (prepare_create nc st)"
  unfolding prepare_create_def by (intro returns_intros) (simp_all add: no_new_slot_def)

lemma create_no_new_slot:
  "returns (\<lambda>s. no_new_slot st s \<and> st_active_ticket_id s \<noteq> None) (create_ticket_node nc st)"
  unfolding create_ticket_node_def by (intro returns_intros) (simp_all add: no_new_slot_def)

lemma book_clears_slot:
  "returns (\<lambda>s. st_selected_candidate_slot s = None \<and> st_active_ticket_id s \<noteq> None) (book nc st)"
  "returns (\<lambda>s. st_selected_candidate_slot s = None \<and> st_active_ticket_id s \<noteq> None) (reschedule nc st)"
  unfolding book_def reschedule_def
  by (intro returns_intros; auto simp: drop_booking_def booked_state_def clear_slots_def
      book_appointment_request_def reschedule_appointment_request_def split: option.splits)+

lemma refreshed_open:
  assumes "\<not> is_terminal_ticket_status (kt_ticket_status t)"
  shows "st_active_ticket_id (refreshed_state st t overdue) = st_active_ticket_id st"
    and "no_new_slot st (refreshed_state st t overdue)"
  using assms
  by (simp_all add: refreshed_state_def Let_def adopt_snapshot_def review_overdue_def clear_slots_def no_new_slot_def)

lemma refresh_open:
  assumes "tickets_open nc"
  shows "returns (\<lambda>s. no_new_slot st s \<and> st_task_intent s = st_task_intent st \<and>
    st_active_ticket_id s = st_active_ticket_id st) (refresh_snapshot nc st)"
proof -
  have "\<not> is_terminal_ticket_status (kt_ticket_status t)"
    if "nc_get_ticket_snapshot nc r = Inr response" "require_data response = Inr data"
      "snapshot_of nc data = Inr t" for r response data t
  proof -
    have "rsp_data response = Some data" using that(2) by (auto simp: require_data_def split: if_splits option.splits)
    moreover have "pred_option (\<lambda>s. \<not> is_terminal_ticket_status (sn_ticket_status s)) (rsp_data response)"
      using assms that(1) by (simp add: tickets_open_def)
    moreover have "kt_ticket_status t = sn_ticket_status data"
      using that(3) by (auto simp: snapshot_of_def bindE_Inr_iff checked_Inr)
    ultimately show ?thesis by simp
  qed
  then show ?thesis
    unfolding refresh_snapshot_def
    by (intro returns_intros) (simp_all add: no_new_slot_basic refreshed_keeps refreshed_open
        refreshed_open(2) [where st = "stripped_texts st", unfolded no_new_slot_basic])
qed


lemma task_shortens:
  assumes "run_task nc n None st = Inr (Task_done st' (Some n'))" and "tickets_open nc"
  shows "tasks_left n' st' < tasks_left n st"
proof -
  have node: "run_node nc n None st = Inr (Updates st')" and edge: "edge n st' = Inr (Some n')"
    using assms(1) by (simp_all add: run_task_Inr)
  show ?thesis
  proof (cases n)
    case N_resolve_property
    with node have "no_new_slot st st'"
      by (auto simp: updating_Inr intro: returnsD [OF resolve_property_no_new_slot])
    with N_resolve_property edge show ?thesis
      by (auto simp: updating_Inr route_after_property_def dest!: edge_routed no_new_slot_cost split: if_splits)
  next
    case N_interpret
    with node have "no_new_slot st st'"
      by (auto simp: updating_Inr intro: returnsD [OF interpret_no_new_slot])
    with N_interpret edge show ?thesis
      by (auto simp: updating_Inr route_after_interpret_def dest!: edge_routed no_new_slot_cost split: if_splits)
  next
    case N_retrieve_policy
    with node have "no_new_slot st st'"
      by (auto simp: updating_Inr intro: returnsD [OF retrieve_no_new_slot])
    with N_retrieve_policy edge show ?thesis
      by (auto simp: updating_Inr route_after_policy_def dest!: edge_routed no_new_slot_cost split: if_splits)
  next
    case N_find_duplicates
    with node have "no_new_slot st st'"
      by (auto simp: updating_Inr intro: returnsD [OF find_duplicates_no_new_slot])
    with N_find_duplicates edge show ?thesis
      by (auto simp: updating_Inr route_duplicates_def dest!: edge_routed no_new_slot_cost split: if_splits)
  next
    case N_resolve_existing
    with node have "no_new_slot st st'"
      by (auto simp: updating_Inr intro: returnsD [OF resolve_existing_no_new_slot])
    with N_resolve_existing edge show ?thesis
      by (auto simp: updating_Inr route_resolved_existing_def dest!: edge_routed no_new_slot_cost split: if_splits)
  next
    case N_prepare_create
    with node have "no_new_slot st st'"
      by (auto simp: updating_Inr intro: returnsD [OF prepare_create_no_new_slot])
    with N_prepare_create edge show ?thesis
      by (auto simp: updating_Inr dest!: no_new_slot_cost)
  next
    case N_create_ticket
    with node returnsD [OF create_no_new_slot] have "no_new_slot st st' \<and> st_active_ticket_id st' \<noteq> None"
      by (simp add: updating_Inr; blast)
    with N_create_ticket edge show ?thesis
      by (auto simp: updating_Inr dest!: no_new_slot_cost)
  next
    case N_refresh_snapshot
    with node returnsD [OF refresh_open [OF assms(2)]] have "no_new_slot st st' \<and>
        st_task_intent st' = st_task_intent st \<and> st_active_ticket_id st' = st_active_ticket_id st"
      by (simp add: updating_Inr; blast)
    with N_refresh_snapshot edge show ?thesis
      by (auto simp: updating_Inr route_after_snapshot_def slot_cost_def no_new_slot_def
          dest!: edge_routed split: if_splits)
  next
    case N_list_slots
    with node edge show ?thesis
      by (auto simp: updating_Inr route_after_slot_lookup_def dest!: edge_routed split: if_splits)
  next
    case N_book
    with node returnsD [OF book_clears_slot(1)]
    have "st_selected_candidate_slot st' = None \<and> st_active_ticket_id st' \<noteq> None"
      by (simp add: updating_Inr; blast)
    with N_book edge show ?thesis
      by (auto simp: updating_Inr slot_cost_def)
  next
    case N_reschedule
    with node returnsD [OF book_clears_slot(2)]
    have "st_selected_candidate_slot st' = None \<and> st_active_ticket_id st' \<noteq> None"
      by (simp add: updating_Inr; blast)
    with N_reschedule edge show ?thesis
      by (auto simp: updating_Inr slot_cost_def)
  qed (use node edge in \<open>auto simp: updating_Inr need_information_def need_availability_information_def
      select_duplicate_def select_slot_def bindE_Inr_iff interrupt_def split: option.splits\<close>)
qed

text \<open>The first task of a resume may take an answer and then goes on to the interpretation or the ticket.\<close>

lemma answered_task_shortens:
  assumes "run_task nc n answer st = Inr (Task_done st' (Some n'))" and "tickets_open nc"
  shows "tasks_left n' st' \<le> 11"
proof (cases "n \<in> {N_need_information, N_need_availability_information, N_select_duplicate, N_select_slot}")
  case True
  then have "n' \<in> {N_interpret, N_refresh_snapshot}"
    using assms(1)
    by (auto simp: run_task_Inr route_after_slot_selection_def dest!: edge_routed split: if_splits)
  then show ?thesis by (auto simp: slot_cost_def)
next
  case False
  then have "run_node nc n answer st = run_node nc n None st" by (cases n) simp_all
  then have "run_task nc n None st = Inr (Task_done st' (Some n'))"
    using assms(1) by (simp add: run_task_Inr)
  from task_shortens [OF this assms(2)] tasks_left_bounds(2) [of n st] show ?thesis by simp
qed

lemma run_ends:
  assumes "\<And>k. tickets_open (ncs k)" and "tasks_left n st \<le> k"
    and "snd (run_graph k ncs None n st) = Run_failed e"
  shows "\<exists>i < k. \<exists>n' st'. run_task (ncs i) n' None st' = Inl e"
  using assms(2,3)
proof (induction k arbitrary: n st)
  case 0
  then show ?case using tasks_left_bounds(1) [of n st] by simp
next
  case (Suc k)
  show ?case
  proof (cases "run_task (ncs k) n None st")
    case (Inl e')
    then show ?thesis using Suc.prems(2) by auto
  next
    case (Inr r)
    then obtain st' n' where r: "r = Task_done st' (Some n')"
      using Suc.prems(2) by (cases r) (auto split: option.splits)
    with Inr Suc.prems task_shortens [OF _ assms(1)]
    have "tasks_left n' st' \<le> k" "snd (run_graph k ncs None n' st') = Run_failed e" by fastforce+
    from Suc.IH [OF this] show ?thesis using less_SucI by blast
  qed
qed

end
