(* ===== verification/AgentDemo.thy ===== *)
theory AgentDemo
  imports AgentHistory
begin

text \<open>
  A small desk: dependencies that answer one resident's turns about one leaking pipe. It shows the
  graph at work on a concrete thread, and the runs that go wrong.
\<close>

lemma pred_option_code [code]: "pred_option P None = True" "pred_option P (Some x) = P x"
  by simp_all

section \<open>The desk\<close>

definition digest :: "string \<Rightarrow> string" where
  "digest s = replicate 64 (CHR ''0'')"

definition found :: "'d \<Rightarrow> 'd ToolResponse" where
  "found d = \<lparr>rsp_contract_version = tool_contract_version, rsp_result_code = RES_FOUND,
     rsp_message = ''found'', rsp_data = Some d, rsp_error_code = None\<rparr>"

definition leak_report :: Interpretation where
  "leak_report = \<lparr>io_utterance_intent = AI_NEW_REPAIR, io_issue_category = Some IC_WATER_LEAK,
     io_issue_location = Some ''kitchen'', io_issue_description_update = Some ''leak'',
     io_safety_flags = [],
     io_user_availability_windows = [\<lparr>uw_starts_at = 100, uw_ends_at = 200\<rparr>],
     io_user_correction = False, io_acceptance_decision = None, io_requested_human = False,
     io_explicit_property_reference = None, io_model_suggested_missing_fields = []\<rparr>"

definition profile :: EmbeddingProfile where
  "profile = \<lparr>pf_provider = ''p'', pf_model = ''m'', pf_dimension = 384, pf_profile_version = ''v''\<rparr>"

definition enough_policy :: "PolicyRequest \<Rightarrow> PolicyResult" where
  "enough_policy q = \<lparr>pz_evidence = [], pz_conflicts = [], pz_sufficiency = EV_SUFFICIENT,
     pz_missing_policy_topics = [], pz_retrieved_as_of = pq_as_of q,
     pz_intent_version = pq_intent_version q, pz_issue_category = pq_issue_category q,
     pz_requested_policy_topics = pq_policy_topics q, pz_embedding_profile = profile,
     pz_policy_query_fingerprint = policy_query_fingerprint digest q profile\<rparr>"

definition the_ticket :: uuid where "the_ticket = 7"

definition created :: "string \<Rightarrow> uuid \<Rightarrow> MutationResultData ToolResponse" where
  "created action resource = \<lparr>rsp_contract_version = tool_contract_version, rsp_result_code = RES_CREATED,
     rsp_message = ''created'', rsp_data = Some \<lparr>mu_operation_id = Some 8, mu_action = Some action,
       mu_resource_type = ''ticket'', mu_resource_id = resource, mu_resource_version = Some 1,
       mu_replayed = False, mu_ticket_status = None, mu_ticket_version = Some 1,
       mu_appointment_status = None, mu_appointment_version = None\<rparr>, rsp_error_code = None\<rparr>"

definition home :: "uuid \<Rightarrow> uuid \<Rightarrow> ResidentPropertyData" where
  "home r p = \<lparr>rf_resident_id = r, rf_property_id = p, rf_community_name = ''Garden'',
     rf_building_no = ''1'', rf_unit_no = ''2'', rf_room_no = ''301'', rf_address_text = ''1-2-301''\<rparr>"

definition shown_ticket :: "uuid \<Rightarrow> uuid \<Rightarrow> ticket_status \<Rightarrow> TicketSnapshotData" where
  "shown_ticket t r status = \<lparr>sn_ticket_id = t, sn_ticket_version = 1,
     sn_resident_id = r, sn_property_id = 3, sn_issue_category = IC_WATER_LEAK,
     sn_issue_location = ''kitchen'', sn_severity = SV_MEDIUM, sn_ticket_status = status,
     sn_rework_count = 0, sn_escalated_from_status = None, sn_active_appointment = None,
     sn_latest_worker_event = None\<rparr>"

definition offered_slot :: "timestamp \<Rightarrow> AvailableSlotItem" where
  "offered_slot start = \<lparr>vs_worker_id = 5, vs_worker_name = ''Wu'', vs_skill_type = SK_PLUMBING,
     vs_service_area = ''Garden'', vs_service_area_matched = True, vs_scheduled_start = start,
     vs_scheduled_end = start + 60, vs_open_ticket_count = 0, vs_rank = 1,
     vs_slot_granularity_minutes = 30\<rparr>"

lemma home_fields [simp]: "rf_resident_id (home r p) = r" "rf_property_id (home r p) = p"
  by (simp_all add: home_def)

lemma shown_ticket_fields [simp]:
  "sn_ticket_id (shown_ticket t r status) = t" "sn_ticket_version (shown_ticket t r status) = 1"
  "sn_resident_id (shown_ticket t r status) = r" "sn_property_id (shown_ticket t r status) = 3"
  "sn_severity (shown_ticket t r status) = SV_MEDIUM"
  "sn_ticket_status (shown_ticket t r status) = status"
  "sn_rework_count (shown_ticket t r status) = 0"
  "sn_active_appointment (shown_ticket t r status) = None"
  by (simp_all add: shown_ticket_def)

lemma offered_slot_fields [simp]:
  "vs_worker_id (offered_slot start) = 5" "vs_scheduled_start (offered_slot start) = start"
  "vs_scheduled_end (offered_slot start) = start + 60" "vs_rank (offered_slot start) = 1"
  by (simp_all add: offered_slot_def)

text \<open>The ticket that the desk shows has this status; no other open ticket is found.\<close>

definition desk :: "ticket_status \<Rightarrow> NodeContext" where
  "desk status =
     \<lparr>nc_get_resident_property = (\<lambda>r. Inr (found (home (gr_resident_id r) (gr_property_id r)))),
      nc_find_open_tickets = (\<lambda>r. Inr (found [])),
      nc_create_ticket = (\<lambda>r. Inr (created ''CREATE_TICKET'' the_ticket)),
      nc_get_ticket_snapshot = (\<lambda>r. Inr (found (shown_ticket (gt_ticket_id r) (rq_actor_id r) status))),
      nc_list_slots = (\<lambda>r. Inr (found [offered_slot (lq_search_window_start r)])),
      nc_book_appointment = (\<lambda>r. Inr (created ''BOOK_APPOINTMENT'' 6)),
      nc_reschedule_appointment = (\<lambda>r. Inr (created ''RESCHEDULE_APPOINTMENT'' 6)),
      nc_interpret = (\<lambda>i. Inr leak_report),
      nc_compose = (\<lambda>i. Inr ''done''),
      nc_retrieve_policy = (\<lambda>q. Inr (enough_policy q)),
      nc_now = 50, nc_uuid5_url = (\<lambda>s. 9), nc_sha256 = digest, nc_explicit_clock = (\<lambda>s. False),
      nc_utc_offset = (\<lambda>zone t. Some 0), nc_text = (\<lambda>t. ''text'')\<rparr>"

definition first_turn :: AgentTurnInput where
  "first_turn = \<lparr>tn_thread_id = 1, tn_trace_id = 2, tn_actor_type = ACT_RESIDENT, tn_actor_id = 4,
     tn_user_id = 4, tn_property_id = Some 3, tn_user_message = ''leak'',
     tn_reference_time = utc_time 50, tn_timezone_name = ''UTC''\<rparr>"

definition first_state :: AgentState where
  "first_state = (new_state 1 2 ACT_RESIDENT 4 4 (Some 3) ''leak'' (utc_time 50) ''UTC'')
     \<lparr>st_conversation_messages := [\<lparr>cv_message_id = 9, cv_role = LR_USER, cv_content = ''leak'',
        cv_created_at = utc_time 50, cv_turn_id = 2\<rparr>]\<rparr>"

lemma first_state_input: "first_input first_turn first_state"
proof -
  have "append_conversation_message (\<lambda>s. 9) LR_USER (tn_user_message first_turn) (tn_trace_id first_turn)
      (tn_reference_time first_turn) (turn_state first_turn None) = Inr first_state"
    by (simp add: append_conversation_message_def first_turn_def turn_state_def new_state_def first_state_def
        Let_def conversation_message_id_def checked_def message_ok_def text_between_def last_n_def)
  moreover have "turn_ok (desk TS_OPEN) first_turn"
    by (simp add: turn_ok_def first_turn_def text_between_def time_context_ok_def desk_def utc_time_def
        strip_def strip_by_def py_space_def)
  ultimately show ?thesis by (auto simp: first_input_def) (simp add: first_turn_def)
qed

definition the_slot :: CandidateSlot where
  "the_slot = \<lparr>cn_worker_id = 5, cn_scheduled_start = 100, cn_scheduled_end = 160, cn_rank = 1\<rparr>"

definition the_snapshot :: CachedTicket where
  "the_snapshot = \<lparr>kt_ticket_id = 7, kt_ticket_version = 1, kt_ticket_status = TS_OPEN,
     kt_severity = SV_MEDIUM, kt_rework_count = 0, kt_active_appointment = None, kt_observed_at = 50\<rparr>"

definition creation_summary :: ToolResultSummary where
  "creation_summary = \<lparr>tl_result_code = ''CREATED'', tl_message = ''created'', tl_resource_id = Some 7,
     tl_resource_version = Some 1, tl_retryable = False\<rparr>"

text \<open>The states on the way: verified, interpreted, policy known, no duplicates, prepared, created,
  read back, waiting for a slot.\<close>

definition verified_state :: AgentState where
  "verified_state = first_state\<lparr>st_property_context_verified := True\<rparr>"

definition interpreted_state :: AgentState where
  "interpreted_state = verified_state
     \<lparr>st_task_intent := AI_NEW_REPAIR,
      st_utterance_intent := AI_NEW_REPAIR, st_issue_category := Some IC_WATER_LEAK,
      st_issue_location := Some ''kitchen'', st_normalized_issue_location := Some ''kitchen'',
      st_issue_description := Some ''leak'', st_severity := Some SV_MEDIUM,
      st_service_duration_minutes := Some 60,
      st_user_availability_windows := [\<lparr>uw_starts_at = 100, uw_ends_at = 200\<rparr>]\<rparr>"

definition cleared_state :: AgentState where
  "cleared_state = interpreted_state\<lparr>st_policy_sufficiency := Some EV_SUFFICIENT,
      st_policy_retrieved_as_of := Some (utc_time 50), st_policy_query_fingerprint := Some (digest []),
      st_workflow_stage := WS_POLICY_CHECK\<rparr>"

definition searched_state :: AgentState where
  "searched_state = cleared_state\<lparr>st_workflow_stage := WS_DUPLICATE_CHECK\<rparr>"

definition creation :: PendingOperation where
  "creation = \<lparr>po_action = PA_CREATE_TICKET, po_request_fingerprint = digest [],
     po_idempotency_key = ''agent-'' @ digest [], po_intent_version = 1,
     po_expected_ticket_version = None, po_expected_appointment_version = None\<rparr>"

definition prepared_state :: AgentState where
  "prepared_state = searched_state\<lparr>st_pending_action := PA_CREATE_TICKET,
     st_pending_operation := Some creation, st_workflow_stage := WS_CREATING_TICKET\<rparr>"

definition created_state :: AgentState where
  "created_state = prepared_state\<lparr>st_active_ticket_id := Some the_ticket,
     st_ticket_snapshot_version := Some 1, st_pending_action := PA_NONE, st_pending_operation := None,
     st_snapshot_refresh_required := True, st_last_tool_result := Some creation_summary\<rparr>"

definition read_state :: AgentState where
  "read_state = created_state\<lparr>st_cached_ticket_snapshot := Some the_snapshot,
     st_snapshot_refresh_required := False\<rparr>"

definition waiting_state :: AgentState where
  "waiting_state = read_state\<lparr>st_candidate_slots := [the_slot],
     st_candidate_slots_fingerprint := Some (digest []),
     st_workflow_stage := WS_AWAITING_SLOT_CONFIRMATION\<rparr>"

lemmas the_states = first_state_def new_state_def verified_state_def interpreted_state_def cleared_state_def
  searched_state_def prepared_state_def created_state_def read_state_def waiting_state_def
  the_slot_def the_snapshot_def creation_def creation_summary_def the_ticket_def utc_time_def

lemma texts_of_report [simp]:
  "strip ''kitchen'' = ''kitchen''" "strip ''leak'' = ''leak''"
  "normalize_issue_location (Some ''kitchen'') = Some ''kitchen''"
  by code_simp+

lemma digest_hex [simp]: "is_hex64 (digest s)"
  by (simp add: is_hex64_def digest_def list_all_iff)

lemma digest_length [simp]: "length (digest s) = 64"
  by (simp add: digest_def)

lemmas value_checks = text_between_def window_ok_def tool_result_ok_def candidate_slot_ok_def message_ok_def
  cached_ticket_ok_def pending_operation_ok_def compute_missing_fields_def

lemma demo_sound:
  "sound_state first_state" "sound_state verified_state" "sound_state interpreted_state"
  "sound_state cleared_state" "sound_state searched_state" "sound_state prepared_state"
  "sound_state created_state" "sound_state read_state" "sound_state waiting_state"
  by (simp_all add: the_states sound_defs value_checks normalize_issue_location_def [of None])

lemma demo_load [simp]:
  "load_state first_state = Inr first_state" "load_state verified_state = Inr verified_state"
  "load_state interpreted_state = Inr interpreted_state" "load_state cleared_state = Inr cleared_state"
  "load_state searched_state = Inr searched_state" "load_state prepared_state = Inr prepared_state"
  "load_state created_state = Inr created_state" "load_state read_state = Inr read_state"
  "load_state waiting_state = Inr waiting_state"
  using demo_sound by (simp_all add: sound_state_def)

lemma demo_task:
  assumes "run_node nc n answer st = Inr (Updates st')" and "edge n st' = Inr after"
  shows "run_task nc n answer st = Inr (Task_done st' after)"
  using assms by (simp add: run_task_def)

lemmas request_defs = read_request_def mutation_request_def GetResidentPropertyRequest.fields_def
  ReadRequest.extend_def MutationRequest.fields_def MutationRequest.extend_def FindOpenRequest.fields_def
  CreateRepairTicketRequest.fields_def GetTicketSnapshotRequest.fields_def ListSlotsRequest.fields_def

lemma desk_fields [simp]:
  "nc_get_resident_property (desk status) r1 =
     Inr (found (home (gr_resident_id r1) (gr_property_id r1)))"
  "nc_find_open_tickets (desk status) r2 = Inr (found [])"
  "nc_create_ticket (desk status) r3 = Inr (created ''CREATE_TICKET'' the_ticket)"
  "nc_interpret (desk status) i = Inr leak_report"
  "nc_compose (desk status) j = Inr ''done''"
  "nc_retrieve_policy (desk status) q = Inr (enough_policy q)"
  "nc_now (desk status) = 50" "nc_uuid5_url (desk status) = (\<lambda>s. 9)" "nc_sha256 (desk status) = digest"
  "nc_explicit_clock (desk status) s = False" "nc_utc_offset (desk status) zone time = Some 0"
  "nc_text (desk status) t = ''text''"
  by (simp_all add: desk_def)

lemma desk_queries [simp]:
  "nc_get_ticket_snapshot (desk status) r = Inr (found (shown_ticket (gt_ticket_id r) (rq_actor_id r) status))"
  "nc_list_slots (desk status) r' = Inr (found [offered_slot (lq_search_window_start r')])"
  by (simp_all add: desk_def)

lemma desk_query_text:
  "policy_query_text (desk status) IC_WATER_LEAK (Some ''leak'') = ''WATER_LEAK leak text text text''"
  by (simp add: policy_query_text_def policy_topics_for_def shown_text_def)

lemma stripped_query: "strip ''WATER_LEAK leak text text text'' = ''WATER_LEAK leak text text text''"
  by code_simp

lemmas desk_defs = found_def created_def require_data_def tool_contract_version_def request_defs

lemma demo1: "run_task (desk TS_OPEN) N_resolve_property None first_state =
    Inr (Task_done verified_state (Some N_interpret))"
proof (rule demo_task)
  show "run_node (desk TS_OPEN) N_resolve_property None first_state = Inr (Updates verified_state)"
    by (simp add: updating_def resolve_property_node_def) (simp add: the_states desk_defs)
  show "edge N_resolve_property verified_state = Inr (Some N_interpret)"
    by (simp add: route_after_property_def) (simp add: the_states)
qed

lemma demo2: "run_task (desk TS_OPEN) N_interpret None verified_state =
    Inr (Task_done interpreted_state (Some N_retrieve_policy))"
proof (rule demo_task)
  show "run_node (desk TS_OPEN) N_interpret None verified_state = Inr (Updates interpreted_state)"
    by (simp add: updating_def interpret_message_def)
      (simp add: the_states desk_defs checked_def interpret_input_ok_def interpret_input_def value_checks
        time_context_ok_def recent_messages_def last_n_def leak_report_def merge_interpretation_def Let_def
        version_changed_def category_changed_def location_changed_def intent_changed_def task_restarted_def
        new_safety_def merged_facts_def merged_location_def or_option_def or_list_def unique_firsts_def
        resolve_task_intent_def task_intents_def with_missing_fields_def required_fields_def
        apply_new_repair_defaults_def route_required_safety_review_def)
  show "edge N_interpret interpreted_state = Inr (Some N_retrieve_policy)"
    by (simp add: route_after_interpret_def) (simp add: the_states)
qed

lemma demo3: "run_task (desk TS_OPEN) N_retrieve_policy None interpreted_state =
    Inr (Task_done cleared_state (Some N_find_duplicates))"
proof (rule demo_task)
  show "run_node (desk TS_OPEN) N_retrieve_policy None interpreted_state = Inr (Updates cleared_state)"
    by (simp add: updating_def retrieve_policy_def)
      (simp add: the_states desk_defs checked_def make_policy_request_def policy_request_ok_def
        policy_request_def policy_topics_for_def enough_policy_def merge_policy_result_def
        policy_query_fingerprint_def value_checks desk_query_text stripped_query digest_def)
  show "edge N_retrieve_policy cleared_state = Inr (Some N_find_duplicates)"
    by (simp add: route_after_policy_def) (simp add: the_states)
qed

lemma demo4: "run_task (desk TS_OPEN) N_find_duplicates None cleared_state =
    Inr (Task_done searched_state (Some N_prepare_create))"
proof (rule demo_task)
  show "run_node (desk TS_OPEN) N_find_duplicates None cleared_state = Inr (Updates searched_state)"
    by (simp add: updating_def find_duplicates_def)
      (simp add: the_states desk_defs checked_def find_open_request_ok_def value_checks)
  show "edge N_find_duplicates searched_state = Inr (Some N_prepare_create)"
    by (simp add: route_duplicates_def) (simp add: the_states)
qed


lemma demo5: "run_task (desk TS_OPEN) N_prepare_create None searched_state =
    Inr (Task_done prepared_state (Some N_create_ticket))"
proof (rule demo_task)
  show "run_node (desk TS_OPEN) N_prepare_create None searched_state = Inr (Updates prepared_state)"
    by (simp add: updating_def prepare_create_def)
      (simp add: the_states checked_def build_pending_operation_def stable_json_hash_def value_checks digest_def
        is_hex64_def list_all_iff Let_def)
qed simp

lemma demo6: "run_task (desk TS_OPEN) N_create_ticket None prepared_state =
    Inr (Task_done created_state (Some N_refresh_snapshot))"
proof (rule demo_task)
  show "run_node (desk TS_OPEN) N_create_ticket None prepared_state = Inr (Updates created_state)"
    by (simp add: updating_def create_ticket_node_def)
      (simp add: the_states desk_defs checked_def create_request_def summary_of_def value_checks
        or_option_def)
qed simp

lemma demo7: "run_task (desk TS_OPEN) N_refresh_snapshot None created_state =
    Inr (Task_done read_state (Some N_list_slots))"
proof (rule demo_task)
  show "run_node (desk TS_OPEN) N_refresh_snapshot None created_state = Inr (Updates read_state)"
    by (simp add: updating_def refresh_snapshot_def)
      (simp add: the_states desk_defs checked_def snapshot_of_def optional_def value_checks
        appointment_overdue_def refreshed_state_def Let_def adopt_snapshot_def stale_slot_def
        is_terminal_ticket_status_def)
  show "edge N_refresh_snapshot read_state = Inr (Some N_list_slots)"
    by (simp add: route_after_snapshot_def) (simp add: the_states has_active_appointment_def)
qed

lemma demo8: "run_task (desk TS_OPEN) N_list_slots None read_state =
    Inr (Task_done waiting_state (Some N_select_slot))"
proof (rule demo_task)
  show "run_node (desk TS_OPEN) N_list_slots None read_state = Inr (Updates waiting_state)"
    by (simp add: updating_def list_slots_def)
      (simp add: the_states desk_defs checked_def requested_clock_has_passed_def later_start_def not_after_def
        naive_def list_slots_request_ok_def resident_slot_result_limit_def candidate_slot_of_def
        value_checks slots_fingerprint_def stable_json_hash_def digest_def)
  show "edge N_list_slots waiting_state = Inr (Some N_select_slot)"
    by (simp add: route_after_slot_lookup_def) (simp add: the_states)
qed

definition slot_question :: interrupt_payload where
  "slot_question = APPOINTMENT_SLOT_SELECTION 1 (digest []) [the_slot]"

lemma demo9: "run_task (desk status) N_select_slot None waiting_state = Inr (Task_waits slot_question)"
  by (simp add: run_task_def select_slot_def) (simp add: the_states interrupt_def slot_question_def digest_def)

lemma first_report_offers_slot:
  "run_graph (9 + k) (\<lambda>i. desk TS_OPEN) None N_resolve_property first_state =
     (\<lparr>ck_state = waiting_state, ck_next = Some N_select_slot, ck_interrupt = Some slot_question\<rparr>,
      Run_waits slot_question)"
  by (simp add: eval_nat_numeral demo1 demo2 demo3 demo4 demo5 demo6 demo7 demo8 demo9)


section \<open>A replayed creation\<close>

text \<open>While the resident was choosing, the ticket was cancelled. The creation that the graph then repeats
  has the same key, so it is answered with the same cancelled ticket.\<close>

definition choose_slot :: agent_resume where
  "choose_slot = SELECT_APPOINTMENT_SLOT 1 11 (digest []) 1"

definition chosen_state :: AgentState where
  "chosen_state = waiting_state\<lparr>st_trace_id := 11, st_selected_candidate_slot := Some the_slot,
     st_snapshot_refresh_required := True\<rparr>"

text \<open>The ticket is dropped in a stage, found to have no duplicate, prepared and created again.\<close>

definition dropped_in :: "workflow_stage \<Rightarrow> AgentState" where
  "dropped_in stage = waiting_state\<lparr>st_trace_id := 11, st_active_ticket_id := None,
     st_cached_ticket_snapshot := None, st_ticket_snapshot_version := None, st_candidate_slots := [],
     st_candidate_slots_fingerprint := None, st_workflow_stage := stage\<rparr>"

definition prepared_again :: AgentState where
  "prepared_again = (dropped_in WS_CREATING_TICKET)\<lparr>st_pending_action := PA_CREATE_TICKET,
     st_pending_operation := Some creation\<rparr>"

definition created_again :: AgentState where
  "created_again = (dropped_in WS_CREATING_TICKET)\<lparr>st_active_ticket_id := Some the_ticket,
     st_ticket_snapshot_version := Some 1, st_snapshot_refresh_required := True\<rparr>"

lemmas the_repeats = chosen_state_def dropped_in_def prepared_again_def created_again_def the_states

lemma repeats_sound:
  "sound_state chosen_state" "sound_state (dropped_in stage)" "sound_state prepared_again"
  "sound_state created_again"
  by (simp_all add: the_repeats sound_defs value_checks normalize_issue_location_def [of None])

lemma repeats_load [simp]:
  "load_state chosen_state = Inr chosen_state" "load_state (dropped_in stage) = Inr (dropped_in stage)"
  "load_state prepared_again = Inr prepared_again" "load_state created_again = Inr created_again"
  using repeats_sound by (simp_all add: sound_state_def)

lemma slot_chosen: "run_task (desk status) N_select_slot (Some choose_slot) waiting_state =
    Inr (Task_done chosen_state (Some N_refresh_snapshot))"
proof (rule demo_task)
  show "run_node (desk status) N_select_slot (Some choose_slot) waiting_state = Inr (Updates chosen_state)"
    by (simp add: select_slot_def)
      (simp add: the_repeats interrupt_def take_slot_def Let_def choose_slot_def digest_def)
  show "edge N_select_slot chosen_state = Inr (Some N_refresh_snapshot)"
    by (simp add: route_after_slot_selection_def) (simp add: the_repeats)
qed

lemmas refresh_defs = checked_def snapshot_of_def optional_def value_checks appointment_overdue_def
  refreshed_state_def Let_def adopt_snapshot_def stale_slot_def is_terminal_ticket_status_def drop_ticket_def
  clear_slots_def

lemma cancelled_dropped:
  "run_task (desk TS_CANCELLED) N_refresh_snapshot None chosen_state =
    Inr (Task_done (dropped_in WS_AWAITING_SLOT_CONFIRMATION) (Some N_find_duplicates))"
  "run_task (desk TS_CANCELLED) N_refresh_snapshot None created_again =
    Inr (Task_done (dropped_in WS_CREATING_TICKET) (Some N_find_duplicates))"
proof -
  have routed: "edge N_refresh_snapshot (dropped_in stage) = Inr (Some N_find_duplicates)" for stage
    by (simp add: route_after_snapshot_def) (simp add: the_repeats)
  show "run_task (desk TS_CANCELLED) N_refresh_snapshot None chosen_state =
    Inr (Task_done (dropped_in WS_AWAITING_SLOT_CONFIRMATION) (Some N_find_duplicates))"
    by (rule demo_task [OF _ routed], simp add: updating_def refresh_snapshot_def)
      (simp add: the_repeats desk_defs refresh_defs)
  show "run_task (desk TS_CANCELLED) N_refresh_snapshot None created_again =
    Inr (Task_done (dropped_in WS_CREATING_TICKET) (Some N_find_duplicates))"
    by (rule demo_task [OF _ routed], simp add: updating_def refresh_snapshot_def)
      (simp add: the_repeats desk_defs refresh_defs)
qed

lemma nothing_found: "run_task (desk status) N_find_duplicates None (dropped_in stage) =
    Inr (Task_done (dropped_in WS_DUPLICATE_CHECK) (Some N_prepare_create))"
proof (rule demo_task)
  show "run_node (desk status) N_find_duplicates None (dropped_in stage) =
      Inr (Updates (dropped_in WS_DUPLICATE_CHECK))"
    by (simp add: updating_def find_duplicates_def)
      (simp add: the_repeats desk_defs checked_def find_open_request_ok_def value_checks)
  show "edge N_find_duplicates (dropped_in WS_DUPLICATE_CHECK) = Inr (Some N_prepare_create)"
    by (simp add: route_duplicates_def) (simp add: the_repeats)
qed

lemma prepared_twice: "run_task (desk status) N_prepare_create None (dropped_in stage) =
    Inr (Task_done prepared_again (Some N_create_ticket))"
proof (rule demo_task)
  show "run_node (desk status) N_prepare_create None (dropped_in stage) = Inr (Updates prepared_again)"
    by (simp add: updating_def prepare_create_def)
      (simp add: the_repeats checked_def build_pending_operation_def stable_json_hash_def value_checks digest_def
        is_hex64_def list_all_iff Let_def)
qed simp

lemma created_twice: "run_task (desk status) N_create_ticket None prepared_again =
    Inr (Task_done created_again (Some N_refresh_snapshot))"
proof (rule demo_task)
  show "run_node (desk status) N_create_ticket None prepared_again = Inr (Updates created_again)"
    by (simp add: updating_def create_ticket_node_def)
      (simp add: the_repeats desk_defs checked_def create_request_def summary_of_def value_checks or_option_def)
qed simp

text \<open>The four configurations of the loop.\<close>

definition in_loop :: "graph_node \<Rightarrow> AgentState \<Rightarrow> bool" where
  "in_loop n st \<longleftrightarrow> (\<exists>stage. st = dropped_in stage \<and> n \<in> {N_find_duplicates, N_prepare_create}) \<or>
     n = N_create_ticket \<and> st = prepared_again \<or> n = N_refresh_snapshot \<and> st = created_again"

lemma loop_step:
  assumes "in_loop n st"
  shows "\<exists>n' st'. in_loop n' st' \<and> run_task (desk TS_CANCELLED) n None st = Inr (Task_done st' (Some n'))"
proof -
  have in_loop: "in_loop N_prepare_create (dropped_in stage)" "in_loop N_create_ticket prepared_again"
    "in_loop N_refresh_snapshot created_again" "in_loop N_find_duplicates (dropped_in stage)" for stage
    by (auto simp: in_loop_def)
  consider stage where "n = N_find_duplicates" "st = dropped_in stage"
    | stage where "n = N_prepare_create" "st = dropped_in stage"
    | "n = N_create_ticket" "st = prepared_again" | "n = N_refresh_snapshot" "st = created_again"
    using assms by (auto simp: in_loop_def)
  then show ?thesis
    by cases (use in_loop nothing_found prepared_twice created_twice cancelled_dropped(2) in \<open>blast+\<close>)
qed

definition recursion_error :: exn where
  "recursion_error = Exn GraphRecursionError [] []"

lemma loop_runs:
  "in_loop n st \<Longrightarrow> \<exists>n' st'. in_loop n' st' \<and>
     run_graph k (\<lambda>i. desk TS_CANCELLED) None n st =
       (\<lparr>ck_state = st', ck_next = Some n', ck_interrupt = None\<rparr>, Run_failed recursion_error)"
proof (induction k arbitrary: n st)
  case 0
  then show ?case by (auto simp: recursion_error_def)
next
  case (Suc k)
  from loop_step [OF Suc.prems] obtain n' st' where "in_loop n' st'"
    "run_task (desk TS_CANCELLED) n None st = Inr (Task_done st' (Some n'))" by blast
  with Suc.IH [of n' st'] show ?case by simp
qed

end
