(* ===== verification/AgentGuarantees.thy ===== *)
theory AgentGuarantees
  imports AgentDemo
begin

text \<open>
  What the agent guarantees: over whole conversations, for one run, and for one turn of a thread. Each
  property is followed by its instance at the desk of theory AgentDemo.
\<close>

section \<open>The desk as an environment\<close>

lemma desk_ok: "context_ok digest (desk status)"
proof -
  have "interpretation_ok leak_report"
    by (simp add: interpretation_ok_def leak_report_def stripped_between_def text_between_def window_ok_def)
  moreover have "mutation_response_ok (nc_create_ticket (desk status) r)"
    "mutation_response_ok (nc_book_appointment (desk status) b)"
    "mutation_response_ok (nc_reschedule_appointment (desk status) s)" for r b s
    by (simp_all add: mutation_response_ok_def desk_def created_def mutation_data_ok_def)
  ultimately show ?thesis by (simp add: context_ok_def text_between_def)
qed

lemma desk_step:
  assumes "run_task (desk status) n None st = Inr (Task_done st' after)"
  shows "(conversation_step digest)\<^sup>*\<^sup>* (Some n, st) (after, st')"
  using agent_step.intros [OF desk_ok _ assms] by (auto intro: by_task)

lemma demo_reaches_creation:
  "(conversation_step digest)\<^sup>*\<^sup>* (Some N_resolve_property, first_state) (Some N_create_ticket, prepared_state)"
  using desk_step [OF demo1] desk_step [OF demo2] desk_step [OF demo3] desk_step [OF demo4] desk_step [OF demo5]
  by simp

section \<open>Conversations\<close>





section \<open>Runs\<close>

text \<open>C14: a run ends. As long as no snapshot shows a closed or cancelled ticket, a run from any node of any
  state, fresh, resumed or retried, takes at most twelve tasks: with a limit of twelve or more it ends
  by itself or with a question, and fails only with an exception that one of its tasks raised, never
  because of the limit.\<close>

theorem runs_end_within_limit:
  assumes "\<And>i. tickets_open (ncs i)" and "12 \<le> k"
  shows "case snd (run_graph k ncs answer n st) of
    Run_failed e \<Rightarrow> \<exists>i < k. \<exists>n' a st'. run_task (ncs i) n' a st' = Inl e | _ \<Rightarrow> True"
proof (cases "snd (run_graph k ncs answer n st)")
  case (Run_failed e)
  obtain j where k: "k = Suc j" using assms(2) by (cases k) simp_all
  have "\<exists>i < k. \<exists>n' a st'. run_task (ncs i) n' a st' = Inl e"
  proof (cases "run_task (ncs j) n answer st")
    case (Inl e')
    with Run_failed have "run_task (ncs j) n answer st = Inl e" by (simp add: k)
    then show ?thesis using k by blast
  next
    case (Inr r)
    then obtain st' n' where r: "run_task (ncs j) n answer st = Inr (Task_done st' (Some n'))"
      using Run_failed by (cases r) (auto simp: k split: option.splits)
    have "tasks_left n' st' \<le> j"
      using answered_task_shortens [OF r assms(1)] assms(2) k by simp
    moreover have "snd (run_graph j ncs None n' st') = Run_failed e" using Run_failed by (simp add: k r)
    ultimately obtain i n'' st'' where "i < j" "run_task (ncs i) n'' None st'' = Inl e"
      using run_ends [of ncs, OF assms(1)] by blast
    then show ?thesis using k less_SucI by blast
  qed
  then show ?thesis by (simp add: Run_failed)
qed simp_all

lemma desk_open: "tickets_open (desk TS_OPEN)"
  by (simp add: tickets_open_def found_def is_terminal_ticket_status_def)

theorem runs_end_within_limit_witness:
  "case snd (run_graph (25::nat) (\<lambda>i. desk TS_OPEN) None N_resolve_property first_state) of
    Run_failed e \<Rightarrow> \<exists>i < (25::nat). \<exists>n' a st'. run_task (desk TS_OPEN) n' a st' = Inl e | _ \<Rightarrow> True"
  by (rule runs_end_within_limit) (simp_all add: desk_open)

section \<open>Facts of a turn\<close>

lemma merge_fields:
  assumes "merge_interpretation st out = Inr s"
  shows "st_intent_version s = st_intent_version st + (if version_changed st out then 1 else 0)"
    and "new_safety st out \<longrightarrow> st_safety_review_required s"
    and "st_property_id s = st_property_id st"
    and "st_property_context_verified s = st_property_context_verified st"
    and "st_active_ticket_id s = st_active_ticket_id st"
    and "st_active_appointment_id s = st_active_appointment_id st"
    and "st_ticket_snapshot_version s = st_ticket_snapshot_version st"
    and "st_appointment_version s = st_appointment_version st"
  using assms
  by (simp_all add: merge_interpretation_def Let_def with_missing_fields_def merged_facts_def discard_plan_def
      restart_version_def split: if_splits) (erule subst, simp)+

lemma merge_discards:
  assumes "merge_interpretation st out = Inr s"
  shows "version_changed st out \<or> new_safety st out \<longrightarrow>
    st_policy_evidence_ids s = [] \<and> st_policy_sufficiency s = None \<and> st_candidate_slots s = [] \<and>
    st_selected_candidate_slot s = None \<and> st_duplicate_ticket_candidates s = [] \<and>
    st_pending_operation s = None \<and> st_pending_action s = PA_NONE \<and> st_last_tool_result s = None"
  using assms
  by (simp add: merge_interpretation_def Let_def with_missing_fields_def merged_facts_def discard_plan_def
      restart_version_def split: if_splits) (erule subst, simp)+



end
