(* ===== verification/AgentFailures.thy ===== *)
theory AgentFailures
  imports AgentGuarantees
begin

text \<open>
  How threads of the agent get stuck. Each case follows the code from a state that a resident reaches in
  ordinary use, and shows that no later turn of the owner gets out of it.
\<close>

section \<open>A shop around the desk\<close>

text \<open>The desk of theory AgentDemo behind an orchestrator without reconciliation: the resident's property
  is found, and updates of a checkpoint replace its state.\<close>

definition replaced :: "Checkpoint \<Rightarrow> AgentState \<Rightarrow> Checkpoint" where
  "replaced ck st = ck\<lparr>ck_state := st\<rparr>"

definition shop :: "ticket_status \<Rightarrow> nat \<Rightarrow> ThreadEnv" where
  "shop status limit =
     \<lparr>tv_nodes = (\<lambda>i. desk status), tv_limit = limit, tv_update = replaced,
      tv_get_resident_property = nc_get_resident_property (desk status),
      tv_get_ticket_snapshot = nc_get_ticket_snapshot (desk status),
      tv_reconciliation = None, tv_execution_context = None, tv_uuid5_url = (\<lambda>s. 9),
      tv_sha256 = digest, tv_text = (\<lambda>t. ''text'')\<rparr>"

definition the_resident :: AgentCallerContext where
  "the_resident = \<lparr>cl_actor_type = ACT_RESIDENT, cl_actor_id = 4, cl_user_id = 4\<rparr>"

definition by_resident :: "AgentTurnInput \<Rightarrow> bool" where
  "by_resident turn \<longleftrightarrow> tn_actor_type turn = ACT_RESIDENT \<and> tn_actor_id turn = 4 \<and> tn_user_id turn = 4 \<and>
     tn_property_id turn \<in> {None, Some 3}"

text \<open>The thread after some more turns.\<close>

definition after_turns :: "ThreadEnv \<Rightarrow> AgentTurnInput list \<Rightarrow> Checkpoint option \<Rightarrow> Checkpoint option" where
  "after_turns env turns thread = fold (\<lambda>turn thread. snd (start_turn env turn thread)) turns thread"

definition waiting_thread :: Checkpoint where
  "waiting_thread = \<lparr>ck_state = waiting_state, ck_next = Some N_select_slot, ck_interrupt = Some slot_question\<rparr>"

lemma shop_fields [simp]:
  "tv_nodes (shop status limit) = (\<lambda>i. desk status)" "tv_limit (shop status limit) = limit"
  "tv_update (shop status limit) = replaced" "tv_reconciliation (shop status limit) = None"
  "tv_get_resident_property (shop status limit) r =
     Inr (found (home (gr_resident_id r) (gr_property_id r)))"
  by (simp_all add: shop_def desk_def)

lemma shop_admits:
  assumes "st_property_id st = Some p"
  shows "admit (shop status limit) ck st trace_id = (Inr (Admitted st), ck)"
  using assms by (simp add: admit_def preflight_property_def refresh_reconciliation_def adopt_refreshed_def
      desk_defs split: option.split)

section \<open>A replayed creation\<close>

definition looping :: "Checkpoint \<Rightarrow> bool" where
  "looping ck \<longleftrightarrow> ck_interrupt ck = None \<and>
     (\<exists>n. ck_next ck = Some n \<and> (in_loop n (ck_state ck) \<or> n = N_refresh_snapshot \<and> ck_state ck = chosen_state))"

lemma recursion_unhandled: "settle_turn env thread_id trace_id (ck, Run_failed recursion_error) = (Inl recursion_error, ck)"
  "settle_resume env thread_id trace_id st (ck, Run_failed recursion_error) = (Inl recursion_error, ck)"
  by (simp_all add: settle_turn_def settle_resume_def runtime_failure_def is_agent_runtime_error_def
      is_agent_error_def is_value_error_def recursion_error_def)

lemma loops_on:
  assumes "in_loop n st \<or> n = N_refresh_snapshot \<and> st = chosen_state"
  shows "\<exists>ck. looping ck \<and> run_graph k (\<lambda>i. desk TS_CANCELLED) None n st = (ck, Run_failed recursion_error)"
proof (cases "in_loop n st")
  case True
  from loop_runs [OF this, of k] show ?thesis unfolding looping_def by fastforce
next
  case False
  show ?thesis
  proof (cases k)
    case 0
    then show ?thesis using assms by (simp add: looping_def recursion_error_def)
  next
    case (Suc j)
    have "in_loop N_find_duplicates (dropped_in WS_AWAITING_SLOT_CONFIRMATION)" by (auto simp: in_loop_def)
    from loop_runs [OF this, of j] show ?thesis
      using assms False by (auto simp: Suc cancelled_dropped looping_def)
  qed
qed

lemma loop_owned:
  assumes "in_loop n st \<or> n = N_refresh_snapshot \<and> st = chosen_state"
  shows "load_state st = Inr st" "turn_matches_owner st turn = by_resident turn" "st_property_id st = Some 3"
    "st_pending_reconciliation_case_id st = None"
  using assms
  by (auto simp: in_loop_def) (auto simp: the_repeats turn_matches_owner_def owner_def by_resident_def)

lemma turn_loops_on:
  assumes "looping ck" and "by_resident turn"
  shows "\<exists>ck'. looping ck' \<and> start_turn (shop TS_CANCELLED limit) turn (Some ck) = (Inl recursion_error, Some ck')"
proof -
  obtain n where n: "ck_next ck = Some n" "ck_interrupt ck = None"
    and state: "in_loop n (ck_state ck) \<or> n = N_refresh_snapshot \<and> ck_state ck = chosen_state"
    using assms(1) by (auto simp: looping_def)
  obtain ck' where "looping ck'" and
    run: "run_graph limit (\<lambda>i. desk TS_CANCELLED) None n (ck_state ck) = (ck', Run_failed recursion_error)"
    using loops_on [OF state] by blast
  then show ?thesis
    using assms(2) n by (simp add: start_turn_def loop_owned [OF state] shop_admits recursion_unhandled)
qed

lemma turns_loop_on:
  assumes "looping ck" and "\<forall>turn \<in> set turns. by_resident turn"
  shows "\<exists>ck'. looping ck' \<and> after_turns (shop TS_CANCELLED limit) turns (Some ck) = Some ck'"
  using assms
proof (induction turns arbitrary: ck)
  case (Cons turn turns)
  then obtain ck' where "looping ck'"
    "start_turn (shop TS_CANCELLED limit) turn (Some ck) = (Inl recursion_error, Some ck')"
    using turn_loops_on by (metis list.set_intros(1))
  with Cons show ?case by (simp add: after_turns_def)
qed (simp add: after_turns_def)

lemma choice_loops:
  "\<exists>ck. looping ck \<and> resume_thread (shop TS_CANCELLED (Suc k)) 1 the_resident choose_slot (Some waiting_thread) =
     (Inl recursion_error, Some ck)"
proof -
  have "caller_matches_owner waiting_state the_resident" "st_property_id waiting_state = Some 3"
    "st_pending_reconciliation_case_id waiting_state = None"
    by (simp_all add: the_states caller_matches_owner_def owner_def the_resident_def)
  moreover obtain ck where "looping ck" "run_graph k (\<lambda>i. desk TS_CANCELLED) None N_refresh_snapshot chosen_state =
      (ck, Run_failed recursion_error)"
    using loops_on by blast
  ultimately show ?thesis
    by (simp add: resume_thread_def waiting_thread_def shop_admits slot_chosen recursion_unhandled)
qed



section \<open>A refused preflight\<close>

lemma invalidated_sound: "sound_state st \<Longrightarrow> sound_state (invalidated st)"
  by (simp add: invalidated_def clear_slots_def unspoken_defs conversation_valid_def)

lemma invalidated_unowned:
  "\<not> turn_matches_owner (invalidated st) turn" "\<not> caller_matches_owner (invalidated st) caller"
  by (simp_all add: invalidated_def clear_slots_def turn_matches_owner_def caller_matches_owner_def owner_def)

text \<open>C28: one refused preflight locks a thread. When the property service answers a turn of the owner with
  anything but the property, be it that it is unavailable for a moment, the turn fails with its code, and
  the thread loses its owner: from then on every turn and every resume, of whomever, under whatever
  surroundings, is answered with THREAD_IDENTITY_CONFLICT, the state cannot be read, and nothing changes
  any more. (\<open>aupdate_state\<close> is only assumed to store the state that it is given.)\<close>

theorem refused_preflight_locks_thread:
  assumes "load_state (ck_state ck) = Inr st" and "turn_matches_owner st turn"
    and "preflight_property env st (tn_trace_id turn) = Inr (Some code)"
    and "ck_state (tv_update env ck (invalidated st)) = invalidated st"
  shows "\<exists>locked. start_turn env turn (Some ck) = (Inr (failure_from_ids env (tn_thread_id turn)
      (tn_trace_id turn) (invalidated st) code), Some locked) \<and>
    (\<forall>env' turn'. start_turn env' turn' (Some locked) = (Inr (public_failure env' (tn_thread_id turn')
      (tn_trace_id turn') ''THREAD_IDENTITY_CONFLICT''), Some locked)) \<and>
    (\<forall>env' thread_id (caller :: AgentCallerContext) answer. resume_thread env' thread_id caller answer (Some locked) =
      (Inr (public_failure env' thread_id (rs_trace_id answer) ''THREAD_IDENTITY_CONFLICT''), Some locked)) \<and>
    (\<forall>env' (caller :: AgentCallerContext) trace_id. get_state env' caller trace_id (Some locked) =
      (Inl (identity_conflict ''thread owner identity does not match caller''), Some locked))"
proof (intro exI conjI allI)
  show "start_turn env turn (Some ck) = (Inr (failure_from_ids env (tn_thread_id turn)
      (tn_trace_id turn) (invalidated st) code), Some (tv_update env ck (invalidated st)))"
    using assms(1-3) by (simp add: start_turn_def admit_def)
  have load: "load_state (ck_state (tv_update env ck (invalidated st))) = Inr (invalidated st)"
    using invalidated_sound [OF load_state_sound [OF assms(1)]] by (simp add: assms(4) sound_state_def)
  show "start_turn env' turn' (Some (tv_update env ck (invalidated st))) = (Inr (public_failure env'
      (tn_thread_id turn') (tn_trace_id turn') ''THREAD_IDENTITY_CONFLICT''),
      Some (tv_update env ck (invalidated st)))" for env' turn'
    by (simp add: start_turn_def load invalidated_unowned)
  show "resume_thread env' thread_id caller answer (Some (tv_update env ck (invalidated st))) =
      (Inr (public_failure env' thread_id (rs_trace_id answer) ''THREAD_IDENTITY_CONFLICT''),
       Some (tv_update env ck (invalidated st)))" for env' thread_id answer and caller :: AgentCallerContext
    by (simp add: resume_thread_def load invalidated_unowned)
  show "get_state env' caller trace_id (Some (tv_update env ck (invalidated st))) =
      (Inl (identity_conflict ''thread owner identity does not match caller''),
       Some (tv_update env ck (invalidated st)))" for env' trace_id and caller :: AgentCallerContext
    by (simp add: get_state_def load invalidated_unowned)
qed

definition not_served :: "'d ToolResponse" where
  "not_served = \<lparr>rsp_contract_version = tool_contract_version, rsp_result_code = RES_INTERNAL_ERROR,
     rsp_message = ''An internal server error occurred.'', rsp_data = None,
     rsp_error_code = Some ''internal_error''\<rparr>"

theorem refused_preflight_locks_thread_witness:
  "\<exists>locked. snd (start_turn ((shop TS_OPEN 25)\<lparr>tv_get_resident_property := \<lambda>r. Inr not_served\<rparr>)
      first_turn (Some waiting_thread)) = Some locked \<and>
    start_turn (shop TS_OPEN 25) first_turn (Some locked) =
      (Inr (public_failure (shop TS_OPEN 25) 1 2 ''THREAD_IDENTITY_CONFLICT''), Some locked)"
proof -
  let ?env = "(shop TS_OPEN 25)\<lparr>tv_get_resident_property := \<lambda>r. Inr not_served\<rparr>"
  have "load_state (ck_state waiting_thread) = Inr waiting_state" by (simp add: waiting_thread_def)
  moreover have "turn_matches_owner waiting_state first_turn"
    by (simp add: the_states turn_matches_owner_def owner_def first_turn_def)
  moreover have "preflight_property ?env waiting_state (tn_trace_id first_turn) = Inr (Some ''internal_error'')"
    by (simp add: preflight_property_def not_served_def) (simp add: the_states)
  moreover have "ck_state (tv_update ?env waiting_thread s) = s" for s by (simp add: replaced_def)
  ultimately show ?thesis
    using refused_preflight_locks_thread [of waiting_thread waiting_state first_turn ?env "''internal_error''"]
    by (force simp: first_turn_def)
qed

section \<open>A creation found committed\<close>

lemma creation_needs_operation:
  assumes "load_state raw = Inr st" and "st_pending_operation st = None"
  shows "run_graph (Suc k) ncs None N_create_ticket raw = (\<lparr>ck_state = raw, ck_next = Some N_create_ticket,
    ck_interrupt = None\<rparr>, Run_failed (Exn PyAssertionError [] []))"
  using assms by (simp add: run_task_def updating_def create_ticket_node_def create_request_def)

lemma assertion_unhandled:
  "settle_turn env thread_id trace_id (ck, Run_failed (Exn PyAssertionError [] [])) =
     (Inl (Exn PyAssertionError [] []), ck)"
  by (simp add: settle_turn_def runtime_failure_def is_agent_runtime_error_def is_agent_error_def)

definition wedged :: "Checkpoint \<Rightarrow> bool" where
  "wedged ck \<longleftrightarrow> ck_next ck = Some N_create_ticket \<and> ck_interrupt ck = None \<and> sound_state (ck_state ck) \<and>
     st_pending_operation (ck_state ck) = None \<and> st_pending_reconciliation_case_id (ck_state ck) = None"

lemma wedged_turn:
  assumes "wedged ck" and "turn_matches_owner (ck_state ck) turn"
    and "preflight_property env (ck_state ck) (tn_trace_id turn) = Inr None" and "0 < tv_limit env"
  shows "start_turn env turn (Some ck) = (Inl (Exn PyAssertionError [] []), Some ck)"
proof -
  have "load_state (ck_state ck) = Inr (ck_state ck)" using assms(1) by (simp add: wedged_def sound_state_def)
  moreover obtain k where "tv_limit env = Suc k" using assms(4) by (cases "tv_limit env") simp_all
  moreover have "refresh_reconciliation env (ck_state ck) = Inr (ck_state ck)"
    using assms(1) by (simp add: wedged_def refresh_reconciliation_def)
  ultimately show ?thesis
    using assms by (cases ck)
      (simp add: start_turn_def admit_def adopt_refreshed_def wedged_def creation_needs_operation assertion_unhandled
        del: run_graph.simps)
qed

lemma committed_wedges:
  assumes "load_state raw = Inr st" and "st_active_ticket_id st = None"
    and "text_between 1 8000 (tv_text env TT_ticket_committed)"
  shows "sound_state (committed env st RC_CREATE_TICKET resource_id)"
proof -
  have st: "sound_state st" using assms(1) by (rule load_state_sound)
  then have "st_cached_ticket_snapshot st = None"
    using assms(2) by (cases "st_cached_ticket_snapshot st") (simp_all add: unspoken_defs)
  with st assms(3) show ?thesis
    by (simp add: committed_def case_dropped_def Let_def unspoken_defs conversation_valid_def)
qed

text \<open>C29: a creation that was found committed wedges its thread. The answer to a creation was lost, so the
  thread stands before create_ticket with a reconciliation case; the case is decided as committed and the
  snapshot confirms it. The next turn of the owner adopts the ticket and drops the pending operation,
  then goes on with create_ticket, which asserts that there is a pending operation: this turn and
  every later one raises AssertionError and leaves the thread as it is. (\<open>aupdate_state\<close> is assumed to
  store the state and to keep the task that comes next, as it does behind a fixed edge.)\<close>

theorem reconciled_creation_wedges_thread:
  assumes "ck_next ck = Some N_create_ticket" and "ck_interrupt ck = None"
    and "load_state (ck_state ck) = Inr st" and "st_active_ticket_id st = None"
    and "st_pending_reconciliation_case_id st = Some case_id"
    and "turn_matches_owner st turn" and "preflight_property env st (tn_trace_id turn) = Inr None"
    and "refresh_reconciliation env st = Inr (committed env st RC_CREATE_TICKET resource_id)"
    and "text_between 1 8000 (tv_text env TT_ticket_committed)" and "0 < tv_limit env"
    and "\<And>s. tv_update env ck s = ck\<lparr>ck_state := s\<rparr>"
  shows "\<exists>stuck. start_turn env turn (Some ck) = (Inl (Exn PyAssertionError [] []), Some stuck) \<and>
    st_active_ticket_id (ck_state stuck) = Some resource_id \<and>
    (\<forall>env' turn'. turn_matches_owner (ck_state stuck) turn' \<and>
       preflight_property env' (ck_state stuck) (tn_trace_id turn') = Inr None \<and> 0 < tv_limit env' \<longrightarrow>
       start_turn env' turn' (Some stuck) = (Inl (Exn PyAssertionError [] []), Some stuck))"
proof -
  obtain new where new_def: "new = committed env st RC_CREATE_TICKET resource_id" by simp
  obtain stuck where stuck_def: "stuck = ck\<lparr>ck_state := new\<rparr>" by simp
  have sound: "sound_state new" unfolding new_def by (rule committed_wedges [OF assms(3,4,9)])
  have new: "st_pending_operation new = None" "st_pending_reconciliation_case_id new = None"
    "st_active_ticket_id new = Some resource_id" "st_workflow_stage new = WS_FINDING_SLOTS"
    by (simp_all add: new_def committed_def case_dropped_def Let_def)
  then have "new \<noteq> st" using assms(4) by auto
  then have admit: "admit env ck st (tn_trace_id turn) = (Inr (Admitted new), stuck)"
    using assms(7,8,11) by (simp add: admit_def adopt_refreshed_def stuck_def new_def [symmetric])
  obtain k where k: "tv_limit env = Suc k" using assms(10) by (cases "tv_limit env") simp_all
  have wedged: "wedged stuck" using assms(1,2) sound new by (simp add: wedged_def stuck_def)
  have "start_turn env turn (Some ck) = (Inl (Exn PyAssertionError [] []), Some stuck)"
    using assms(1,2,3,6) sound new k
    by (simp add: start_turn_def admit) (simp add: stuck_def sound_state_def
        creation_needs_operation assertion_unhandled del: run_graph.simps)
  moreover have "st_active_ticket_id (ck_state stuck) = Some resource_id" using new by (simp add: stuck_def)
  ultimately show ?thesis using wedged_turn [OF wedged] by blast
qed

text \<open>The shop with a reconciliation: every lost answer gets this case.\<close>

definition lost_case :: "reconciliation_status \<Rightarrow> ReconciliationCase" where
  "lost_case status =
     \<lparr>cc_operation_id = 8, cc_action = RC_CREATE_TICKET, cc_thread_id = Some 1, cc_original_run_id = 20,
      cc_original_trace_id = 2, cc_operation_idempotency_fingerprint = digest [],
      cc_request_fingerprint = digest [], cc_actor_type = ACT_RESIDENT, cc_actor_id = 4, cc_user_id = 4,
      cc_property_id = 3, cc_target_entity_type = Some ''PROPERTY'', cc_target_entity_id = Some 3,
      cc_expected_entity_version = None, rc_id = 30, rc_case_key = digest [], rc_status = status,
      rc_last_evidence_status = None, rc_attempt_count = 1, rc_available_at = 50, rc_claimed_by = None,
      rc_claim_token = None, rc_claim_expires_at = None, rc_resolved_at = None, rc_resolution_code = None,
      rc_safe_result = Some \<lparr>sr_resource_type = ''ticket'', sr_resource_id = uuid_text the_ticket,
        sr_result = \<lparr>rp_code = ''TICKET_CREATED'', rp_resource_version = Some 1, rp_data = []\<rparr>\<rparr>,
      rc_last_error_code = None, rc_last_error_at = None, rc_created_at = 50, rc_updated_at = 50\<rparr>"

definition reconciling_shop :: "reconciliation_status \<Rightarrow> ThreadEnv" where
  "reconciling_shop status = (shop TS_OPEN 25)
     \<lparr>tv_reconciliation := Some \<lparr>rp_create_or_get = \<lambda>_. Inr (lost_case RS_PENDING),
        rp_get = \<lambda>_. Inr (Some (lost_case status))\<rparr>\<rparr>"

text \<open>The thread after its creation was lost.\<close>

definition lost_state :: AgentState where
  "lost_state = blocked_by_case (reconciling_shop RS_PENDING) prepared_state (lost_case RS_PENDING)"

definition lost_thread :: Checkpoint where
  "lost_thread = \<lparr>ck_state = lost_state, ck_next = Some N_create_ticket, ck_interrupt = None\<rparr>"

lemma reconciling_fields [simp]:
  "tv_update (reconciling_shop status) = replaced" "tv_limit (reconciling_shop status) = 25"
  "tv_text (reconciling_shop status) t = ''text''"
  "tv_reconciliation (reconciling_shop status) = Some \<lparr>rp_create_or_get = \<lambda>_. Inr (lost_case RS_PENDING),
     rp_get = \<lambda>_. Inr (Some (lost_case status))\<rparr>"
  "tv_get_resident_property (reconciling_shop status) r =
     Inr (found (home (gr_resident_id r) (gr_property_id r)))"
  "tv_get_ticket_snapshot (reconciling_shop status) r' = nc_get_ticket_snapshot (desk TS_OPEN) r'"
  by (simp_all add: reconciling_shop_def) (simp_all add: shop_def)

lemma lost_state_facts:
  "load_state lost_state = Inr lost_state" "st_active_ticket_id lost_state = None"
  "st_pending_reconciliation_case_id lost_state = Some 30" "st_property_id lost_state = Some 3"
  "st_user_id lost_state = 4" "st_actor_id lost_state = 4"
  "turn_matches_owner lost_state first_turn"
proof -
  have "sound_state lost_state"
    by (simp add: lost_state_def blocked_by_case_def the_states sound_defs value_checks
        normalize_issue_location_def [of None])
  then show "load_state lost_state = Inr lost_state" by (simp add: sound_state_def)
qed (simp_all add: lost_state_def blocked_by_case_def the_states turn_matches_owner_def owner_def
      first_turn_def lost_case_def)

lemma lost_preflight: "preflight_property (reconciling_shop status) lost_state trace_id = Inr None"
  by (simp add: preflight_property_def lost_state_facts desk_defs)

lemma uuid_of_ticket: "uuid_of_text (uuid_text the_ticket) = Some the_ticket" "uuid_text the_ticket \<noteq> []"
  by code_simp+

lemma lost_refresh:
  "refresh_reconciliation (reconciling_shop RS_RESOLVED_COMMITTED) lost_state =
     Inr (committed (reconciling_shop RS_RESOLVED_COMMITTED) lost_state RC_CREATE_TICKET the_ticket)"
  by (simp add: refresh_reconciliation_def lost_state_facts lost_case_def uuid_of_ticket confirm_commit_def
      snapshot_confirms_def desk_defs)

theorem reconciled_creation_wedges_thread_witness:
  "\<exists>stuck. start_turn (reconciling_shop RS_RESOLVED_COMMITTED) first_turn (Some lost_thread) =
      (Inl (Exn PyAssertionError [] []), Some stuck) \<and> st_active_ticket_id (ck_state stuck) = Some the_ticket"
proof -
  have "tv_update (reconciling_shop RS_RESOLVED_COMMITTED) lost_thread s = lost_thread\<lparr>ck_state := s\<rparr>" for s
    by (simp add: replaced_def)
  from reconciled_creation_wedges_thread [OF _ _ _ lost_state_facts(2,3,7) lost_preflight lost_refresh _ _ this]
  show ?thesis by (auto simp: lost_thread_def lost_state_facts(1) text_between_def)
qed

section \<open>An undecided case\<close>

text \<open>C25: while the case of a lost answer is open, nothing is sent. As long as the case of a thread is not
  resolved, a turn of the owner and a resume are refused with RECONCILIATION_PENDING, or with
  MANUAL_REVIEW once a person has to look, and the case is shown; no task of the graph runs, whatever
  the dependencies would answer; and the stored state changes in nothing but its stage, the status
  of the case and the message.\<close>

theorem open_case_blocks_thread:
  assumes "load_state (ck_state ck) = Inr st" and "st_pending_reconciliation_case_id st = Some case_id"
    and "tv_reconciliation env = Some port" and "rp_get port case_id = Inr (Some r)"
    and "rc_status r \<in> {RS_PENDING, RS_PROCESSING, RS_MANUAL_REVIEW}"
    and "\<And>trace_id. preflight_property env st trace_id = Inr None"
    and "\<And>s. tv_update env ck s = ck\<lparr>ck_state := s\<rparr>"
  shows "\<exists>stage status message ck'.
    (ck' = ck \<or> ck' = ck\<lparr>ck_state := st\<lparr>st_workflow_stage := stage,
       st_pending_reconciliation_status := Some status, st_last_assistant_message := message\<rparr>\<rparr>) \<and>
    (\<forall>turn nodes. turn_matches_owner st turn \<longrightarrow> (\<exists>answer. start_turn (env\<lparr>tv_nodes := nodes\<rparr>) turn (Some ck) =
       (Inr answer, Some ck') \<and> ar_run_status answer = RN_FAILED_SAFE \<and>
       ar_pending_reconciliation_case_id answer = Some case_id \<and> ar_error_code answer =
         Some (if rc_status r = RS_MANUAL_REVIEW then ''MANUAL_REVIEW'' else ''RECONCILIATION_PENDING''))) \<and>
    (\<forall>caller :: AgentCallerContext. \<forall>thread_id resume nodes. caller_matches_owner st caller \<and> ck_next ck \<noteq> None \<longrightarrow>
       (\<exists>answer. resume_thread (env\<lparr>tv_nodes := nodes\<rparr>) thread_id caller resume (Some ck) =
         (Inr answer, Some ck') \<and> ar_run_status answer = RN_FAILED_SAFE \<and>
         ar_pending_reconciliation_case_id answer = Some case_id))"
proof -
  obtain new where new: "refresh_reconciliation env st = Inr new"
    "new = (if rc_status r = RS_MANUAL_REVIEW then needs_hand_check env st else waits_for_case st r)"
    using assms(2-5) by (auto simp: refresh_reconciliation_def)
  have fields: "st_pending_reconciliation_case_id new = Some case_id"
    "st_workflow_stage new = (if rc_status r = RS_MANUAL_REVIEW then WS_HUMAN_REVIEW else WS_RECONCILIATION_PENDING)"
    using assms(2) by (simp_all add: new(2) needs_hand_check_def waits_for_case_def)
  have changes: "\<exists>stage status message. new = st\<lparr>st_workflow_stage := stage,
      st_pending_reconciliation_status := Some status, st_last_assistant_message := message\<rparr>"
  proof (cases "rc_status r = RS_MANUAL_REVIEW")
    case True
    then show ?thesis by (simp add: new(2) needs_hand_check_def) blast
  next
    case False
    then have "new = st\<lparr>st_workflow_stage := WS_RECONCILIATION_PENDING, st_pending_reconciliation_status :=
        Some (agent_status_of (rc_status r)), st_last_assistant_message := st_last_assistant_message st\<rparr>"
      by (cases st) (simp add: new(2) waits_for_case_def)
    then show ?thesis by (intro exI)
  qed
  have same: "preflight_property (env\<lparr>tv_nodes := nodes\<rparr>) st trace_id = Inr None"
    "refresh_reconciliation (env\<lparr>tv_nodes := nodes\<rparr>) st = Inr new" for nodes trace_id
  proof -
    show "preflight_property (env\<lparr>tv_nodes := nodes\<rparr>) st trace_id = Inr None"
      using assms(6) [of trace_id] by (simp add: preflight_property_def split: option.splits)
    show "refresh_reconciliation (env\<lparr>tv_nodes := nodes\<rparr>) st = Inr new"
      unfolding new(2) using assms(2-5) by (auto simp: refresh_reconciliation_def needs_hand_check_def)
  qed
  have admit: "admit (env\<lparr>tv_nodes := nodes\<rparr>) ck st trace_id = (Inr (Admitted new), adopt_refreshed env ck st new)"
    for nodes trace_id
    by (simp add: admit_def same adopt_refreshed_def)
  have turns: "\<exists>answer. start_turn (env\<lparr>tv_nodes := nodes\<rparr>) turn (Some ck) =
      (Inr answer, Some (adopt_refreshed env ck st new)) \<and> ar_run_status answer = RN_FAILED_SAFE \<and>
      ar_pending_reconciliation_case_id answer = Some case_id \<and> ar_error_code answer =
        Some (if rc_status r = RS_MANUAL_REVIEW then ''MANUAL_REVIEW'' else ''RECONCILIATION_PENDING'')"
    if "turn_matches_owner st turn" for turn nodes
    using assms(1) that
    by (simp add: start_turn_def admit fields failure_from_ids_def reconciliation_code_def)
  have resumes: "\<exists>answer. resume_thread (env\<lparr>tv_nodes := nodes\<rparr>) thread_id caller resume (Some ck) =
      (Inr answer, Some (adopt_refreshed env ck st new)) \<and> ar_run_status answer = RN_FAILED_SAFE \<and>
      ar_pending_reconciliation_case_id answer = Some case_id"
    if "caller_matches_owner st caller" "ck_next ck \<noteq> None"
    for caller :: AgentCallerContext and thread_id resume nodes
    using assms(1) that
    by (auto simp: resume_thread_def Let_def admit fields failure_from_ids_def)
  from changes obtain stage status message where change: "new = st\<lparr>st_workflow_stage := stage,
      st_pending_reconciliation_status := Some status, st_last_assistant_message := message\<rparr>"
    by (elim exE)
  have "adopt_refreshed env ck st new = ck \<or> adopt_refreshed env ck st new = ck\<lparr>ck_state := new\<rparr>"
    by (simp add: adopt_refreshed_def assms(7))
  then show ?thesis unfolding change [symmetric] using turns resumes change by (intro exI) blast
qed

theorem open_case_blocks_thread_witness:
  "\<exists>answer ck'. start_turn (reconciling_shop RS_PROCESSING) first_turn (Some lost_thread) = (Inr answer, Some ck') \<and>
     ar_pending_reconciliation_case_id answer = Some 30 \<and> ar_error_code answer = Some ''RECONCILIATION_PENDING''"
proof -
  let ?env = "reconciling_shop RS_PROCESSING"
  have "tv_reconciliation ?env = Some \<lparr>rp_create_or_get = \<lambda>_. Inr (lost_case RS_PENDING),
      rp_get = \<lambda>_. Inr (Some (lost_case RS_PROCESSING))\<rparr>"
    and "rp_get \<lparr>rp_create_or_get = \<lambda>_. Inr (lost_case RS_PENDING),
      rp_get = \<lambda>_. Inr (Some (lost_case RS_PROCESSING))\<rparr> 30 = Inr (Some (lost_case RS_PROCESSING))"
    and "rc_status (lost_case RS_PROCESSING) \<in> {RS_PENDING, RS_PROCESSING, RS_MANUAL_REVIEW}"
    by (simp_all add: lost_case_def)
  moreover have "load_state (ck_state lost_thread) = Inr lost_state"
    by (simp add: lost_thread_def lost_state_facts(1))
  moreover have "tv_update ?env lost_thread s = lost_thread\<lparr>ck_state := s\<rparr>" for s by (simp add: replaced_def)
  ultimately obtain ck' where "\<forall>turn nodes. turn_matches_owner lost_state turn \<longrightarrow>
      (\<exists>answer. start_turn (?env\<lparr>tv_nodes := nodes\<rparr>) turn (Some lost_thread) = (Inr answer, Some ck') \<and>
       ar_run_status answer = RN_FAILED_SAFE \<and> ar_pending_reconciliation_case_id answer = Some 30 \<and>
       ar_error_code answer = Some (if rc_status (lost_case RS_PROCESSING) = RS_MANUAL_REVIEW
         then ''MANUAL_REVIEW'' else ''RECONCILIATION_PENDING''))"
    using open_case_blocks_thread [OF _ lost_state_facts(3), of lost_thread ?env _ "lost_case RS_PROCESSING"]
      lost_preflight by blast
  then have "\<exists>answer. start_turn (?env\<lparr>tv_nodes := tv_nodes ?env\<rparr>) first_turn (Some lost_thread) =
      (Inr answer, Some ck') \<and> ar_pending_reconciliation_case_id answer = Some 30 \<and>
      ar_error_code answer = Some ''RECONCILIATION_PENDING''"
    using lost_state_facts(7) by (fastforce simp: lost_case_def)
  then show ?thesis by auto
qed

end
