(* ===== verification/AgentTickets.thy ===== *)
theory AgentTickets
  imports AgentFailures
begin

text \<open>
  A thread and its tickets: while the ticket of a thread stays open, the thread creates no other one,
  whatever is reported in it; and a report whose only duplicate is another ticket than the one that the
  thread has read stops it.
\<close>

section \<open>A thread keeps its ticket\<close>

definition ticket_kept :: "AgentState \<Rightarrow> AgentState \<Rightarrow> bool" where
  "ticket_kept st st' \<longleftrightarrow> st_active_ticket_id st \<noteq> None \<longrightarrow> st_active_ticket_id st' \<noteq> None"

lemma ticket_kept_basic:
  "ticket_kept st st" "ticket_kept (stripped_texts st) st"
  "ticket_kept (stripped_texts st) st' \<longleftrightarrow> ticket_kept st st'"
  by (simp_all add: ticket_kept_def)

lemma ticket_kept_same: "st_active_ticket_id st' = st_active_ticket_id st \<Longrightarrow> ticket_kept st st'"
  by (simp add: ticket_kept_def)

lemma loaded_ticket: "load_state raw = Inr st \<Longrightarrow> st_active_ticket_id st = st_active_ticket_id raw"
  by (auto simp: load_state_def checked_Inr stripped_texts_def)

lemma interpret_keeps_ticket: "returns (ticket_kept st) (interpret_message nc st)"
proof -
  have "ticket_kept st (route_required_safety_review (apply_new_repair_defaults m))" "ticket_kept st m"
    if "merge_interpretation (stripped_texts st) out = Inr m" for out m
    using merge_fields(5) [OF that]
    by (simp_all add: ticket_kept_def apply_new_repair_defaults_def route_required_safety_review_def Let_def
        split: option.split)
  then show ?thesis
    unfolding interpret_message_def
    by (intro returns_intros) (simp_all add: ticket_kept_basic)
qed

lemma policy_keeps_ticket: "returns (ticket_kept st) (retrieve_policy nc st)"
proof -
  have "ticket_kept st (m\<lparr>st_workflow_stage := w\<rparr>)"
    if "merge_policy_result H (stripped_texts st) z q p = Inr m" for H z q p m w
    using that by (auto simp: merge_policy_result_def ticket_kept_def split: if_splits)
  then show ?thesis
    unfolding retrieve_policy_def by (intro returns_intros) (auto simp: bindE_Inr_iff)
qed

lemma duplicates_keep_ticket: "returns (ticket_kept st) (find_duplicates nc st)"
  unfolding find_duplicates_def Let_def
  by (intro returns_intros) (simp_all add: ticket_kept_def split: list.split)

lemma nodes_keep_ticket:
  "returns (ticket_kept st) (resolve_property_node nc st)"
  "returns (ticket_kept st) (prepare_create nc st)"
  "returns (ticket_kept st) (create_ticket_node nc st)"
  "returns (ticket_kept st) (list_slots nc st)"
  "returns (ticket_kept st) (prepare_book nc st)"
  "returns (ticket_kept st) (prepare_reschedule nc st)"
  "returns (ticket_kept st) (resolve_existing nc st)"
  unfolding resolve_property_node_def prepare_create_def create_ticket_node_def list_slots_def prepare_book_def
    prepare_reschedule_def resolve_existing_def Let_def
  by ((intro returns_intros duplicates_keep_ticket; auto simp: ticket_kept_def no_slots_def dest!: loaded_ticket); fail)+

lemma refresh_keeps_ticket: "tickets_open nc \<Longrightarrow> returns (ticket_kept st) (refresh_snapshot nc st)"
  by (rule returns_weaken [OF refresh_open]) (simp_all add: ticket_kept_same)

lemma bookings_keep_ticket: "returns (ticket_kept st) (book nc st)" "returns (ticket_kept st) (reschedule nc st)"
  by (rule returns_weaken [OF book_clears_slot(1)], simp add: ticket_kept_def)
    (rule returns_weaken [OF book_clears_slot(2)], simp add: ticket_kept_def)

lemma compose_keeps_ticket: "returns (ticket_kept st) (compose nc st)"
  unfolding compose_def
  by (intro returns_intros; auto simp: ticket_kept_def dest!: loaded_ticket)

lemma review_keeps_ticket: "returns (ticket_kept st) (review_end nc message stage code save st)"
  unfolding review_end_def
  by (rule returns_bindE, rule returns_finish_with)
    (auto simp: ticket_kept_def Let_def dest!: loaded_ticket)

lemma answers_keep_ticket:
  "returns (ticket_kept st) (take_information nc st r)"
  "returns (ticket_kept st) (take_duplicate st fingerprint r)"
  "returns (ticket_kept st) (take_slot nc st fingerprint r)"
proof -
  show "returns (ticket_kept st) (take_information nc st r)"
    unfolding take_information_def resume_error_def
    by (cases r; simp; intro returns_intros conjI impI; simp add: ticket_kept_def)
  show "returns (ticket_kept st) (take_duplicate st fingerprint r)"
    unfolding take_duplicate_def resume_error_def
    by (cases r; simp; intro returns_intros conjI impI; simp add: ticket_kept_def)
  show "returns (ticket_kept st) (take_slot nc st fingerprint r)"
    unfolding take_slot_def resume_error_def Let_def
    by (cases r; simp; intro returns_intros conjI impI; simp add: ticket_kept_def cancelled_selection_def clear_slots_def)
qed

lemma interrupted_keeps_ticket:
  assumes "bindE (load_state st) f = Inr (Updates st')"
    and "\<And>s. f s = Inr (Updates st') \<Longrightarrow> ticket_kept s st'"
  shows "ticket_kept st st'"
proof -
  obtain s where "load_state st = Inr s" "f s = Inr (Updates st')" using assms(1) by (auto simp: bindE_Inr_iff)
  with assms(2) [of s] loaded_ticket [of st s] show ?thesis by (simp add: ticket_kept_def)
qed

lemma interrupt_Inr: "interrupt payload answer taking = Inr (Updates st') \<longleftrightarrow> (\<exists>r. answer = Some r \<and> taking r = Inr st')"
  by (cases answer) (auto simp: interrupt_def map_sum_Inr)

lemma questions_keep_ticket:
  "need_information nc answer st = Inr (Updates st') \<Longrightarrow> ticket_kept st st'"
  "need_availability_information nc answer st = Inr (Updates st') \<Longrightarrow> ticket_kept st st'"
  "select_duplicate nc answer st = Inr (Updates st') \<Longrightarrow> ticket_kept st st'"
  "select_slot nc answer st = Inr (Updates st') \<Longrightarrow> ticket_kept st st'"
  unfolding need_information_def need_availability_information_def select_duplicate_def select_slot_def
  by (erule interrupted_keeps_ticket,
      (auto simp: interrupt_Inr bindE_Inr_iff split: option.splits intro: answers_keep_ticket [THEN returnsD]) [1])+

lemma task_keeps_ticket:
  assumes "run_task nc n answer st = Inr (Task_done st' after)" and "tickets_open nc"
  shows "ticket_kept st st'"
proof -
  have node: "run_node nc n answer st = Inr (Updates st')" using assms(1) by (simp add: run_task_Inr)
  note updates = interpret_keeps_ticket [THEN returnsD] policy_keeps_ticket [THEN returnsD]
    duplicates_keep_ticket [THEN returnsD] nodes_keep_ticket [THEN returnsD]
    refresh_keeps_ticket [OF assms(2), THEN returnsD] bookings_keep_ticket [THEN returnsD]
    compose_keeps_ticket [THEN returnsD] review_keeps_ticket [THEN returnsD]
  from node show ?thesis
    by (cases n; simp add: updating_Inr finish_safety_def finish_policy_review_def finish_manual_request_def
        finish_overdue_appointment_def finish_unsupported_def; blast intro: updates questions_keep_ticket)
qed

section \<open>No second creation\<close>

text \<open>Conversations in which no snapshot shows a closed or cancelled ticket.\<close>

inductive open_step :: "configuration \<Rightarrow> configuration \<Rightarrow> bool" where
  open_task: "tickets_open nc \<Longrightarrow> run_task nc n answer st = Inr (Task_done st' after) \<Longrightarrow>
     open_step (Some n, st) (after, st')"
| open_turn: "append_conversation_message u LR_USER (tn_user_message turn) (tn_trace_id turn)
      (tn_reference_time turn) (turn_state turn (Some st)) = Inr input \<Longrightarrow>
     open_step (None, st) (Some N_resolve_property, input)"

definition has_ticket :: "configuration \<Rightarrow> bool" where
  "has_ticket c \<longleftrightarrow> st_active_ticket_id (snd c) \<noteq> None \<and> fst c \<notin> {Some N_prepare_create, Some N_create_ticket}"

lemma edge_not_creating:
  assumes "edge n st = Inr after" and "st_active_ticket_id st \<noteq> None" and "n \<noteq> N_prepare_create"
  shows "after \<notin> {Some N_prepare_create, Some N_create_ticket}"
  using assms
  by (cases n) (auto simp: route_after_property_def route_after_interpret_def route_after_policy_def
      route_duplicates_def route_after_snapshot_def route_after_slot_lookup_def route_after_slot_selection_def
      route_resolved_existing_def dest!: edge_routed split: if_splits)

lemma open_step_keeps: "open_step c c' \<Longrightarrow> has_ticket c \<Longrightarrow> has_ticket c'"
proof (induction rule: open_step.induct)
  case (open_task nc n answer st st' after)
  have "st_active_ticket_id st' \<noteq> None"
    using task_keeps_ticket [OF open_task(2,1)] open_task(3) by (simp add: ticket_kept_def has_ticket_def)
  moreover have "edge n st' = Inr after" "n \<noteq> N_prepare_create"
    using open_task(2,3) by (simp_all add: run_task_Inr has_ticket_def)
  ultimately show ?case using edge_not_creating by (simp add: has_ticket_def)
next
  case (open_turn u turn st input)
  then show ?case
    using append_message_frame [OF open_turn(1)] by (auto simp: has_ticket_def turn_state_def)
qed

text \<open>C26: one thread, one open ticket. Once a thread has a ticket, and as long as no snapshot shows a ticket as
  closed or cancelled, no sequence of turns, answers and tasks, whatever is reported in them, brings it
  to prepare or send a creation; it always has a ticket. In particular a second, unrelated repair that
  is reported in the same thread is not filed before the first one is over.\<close>

theorem open_ticket_blocks_second_creation:
  assumes "open_step\<^sup>*\<^sup>* (n, st) (n', st')" and "st_active_ticket_id st \<noteq> None"
    and "n \<notin> {Some N_prepare_create, Some N_create_ticket}"
  shows "st_active_ticket_id st' \<noteq> None \<and> n' \<notin> {Some N_prepare_create, Some N_create_ticket}"
proof -
  have "has_ticket c'" if "open_step\<^sup>*\<^sup>* c c'" "has_ticket c" for c c'
    using that by (induction rule: rtranclp_induct) (simp_all add: open_step_keeps)
  from this [OF assms(1)] assms(2,3) show ?thesis by (simp add: has_ticket_def)
qed

lemma desk_open_step:
  "run_task (desk TS_OPEN) n None st = Inr (Task_done st' after) \<Longrightarrow> open_step\<^sup>*\<^sup>* (Some n, st) (after, st')"
  using open_task [OF desk_open] by blast

theorem open_ticket_blocks_second_creation_witness:
  "st_active_ticket_id waiting_state \<noteq> None \<and>
   Some N_select_slot \<notin> {Some N_prepare_create, Some N_create_ticket}"
  by (rule open_ticket_blocks_second_creation [OF rtranclp_trans [OF desk_open_step [OF demo7]
        desk_open_step [OF demo8]]])
    (simp_all add: created_state_def)

section \<open>The duplicate is another ticket\<close>

text \<open>The dependencies find exactly one open ticket for every search, and not the one that was read.\<close>

definition finds_other :: "NodeContext \<Rightarrow> uuid \<Rightarrow> bool" where
  "finds_other nc ticket_id \<longleftrightarrow> (\<forall>request. \<exists>response item. nc_find_open_tickets nc request = Inr response \<and>
     require_data response = Inr [item] \<and> ot_ticket_id item \<noteq> ticket_id)"

lemma checked_class: "checked ok x = Inl e \<Longrightarrow> exn_class e = ValidationError"
  by (auto simp: checked_def split: if_splits)

lemma other_duplicate_invalid:
  assumes "load_state raw = Inr st" and "st_cached_ticket_snapshot st = Some t"
    and "st_property_id st \<noteq> None" and "st_issue_category st \<noteq> None" and "st_normalized_issue_location st \<noteq> None"
    and "finds_other nc (kt_ticket_id t)"
  shows "\<exists>e. run_task nc N_find_duplicates answer raw = Inl e \<and> exn_class e = ValidationError"
proof -
  obtain p c l where issue: "st_property_id st = Some p" "st_issue_category st = Some c"
    "st_normalized_issue_location st = Some l"
    using assms(3-5) by auto
  let ?request = "ReadRequest.extend (read_request st) (FindOpenRequest.fields (st_user_id st) p c l)"
  show ?thesis
  proof (cases "checked find_open_request_ok ?request")
    case (Inl e)
    then show ?thesis using checked_class [OF Inl]
      by (simp add: run_task_def updating_def find_duplicates_def assms(1) issue)
  next
    case (Inr request)
    obtain response item where found: "nc_find_open_tickets nc request = Inr response"
      "require_data response = Inr [item]" "ot_ticket_id item \<noteq> kt_ticket_id t"
      using assms(6) unfolding finds_other_def by blast
    let ?st = "st\<lparr>st_duplicate_ticket_candidates := [duplicate_of item],
      st_duplicate_candidates_fingerprint := Some (stable_json_hash nc (PList [duplicate_json (duplicate_of item)])),
      st_workflow_stage := WS_DUPLICATE_CHECK, st_active_ticket_id := Some (ot_ticket_id item),
      st_ticket_snapshot_version := Some (ot_ticket_version item), st_snapshot_refresh_required := True\<rparr>"
    have "\<not> valid_state (stripped_texts ?st)"
      using found(3) assms(2) by (auto simp: valid_state_def ticket_valid_def stripped_texts_def)
    then have invalid: "\<exists>e. load_state ?st = Inl e \<and> exn_class e = ValidationError"
      by (auto simp: load_state_def checked_def)
    show ?thesis
    proof (cases "checked duplicate_ok (duplicate_of item)")
      case (Inl e)
      with Inr found checked_class [OF Inl] show ?thesis
        by (simp add: run_task_def updating_def find_duplicates_def assms(1) issue)
    next
      case Inr': (Inr candidate)
      then have "candidate = duplicate_of item" by (simp add: checked_Inr)
      with Inr Inr' found invalid show ?thesis
        by (auto simp: run_task_def updating_def find_duplicates_def assms(1) issue duplicate_of_def)
    qed
  qed
qed

text \<open>C30: a report about another ticket stops the thread. The thread has read one ticket, and for what is now
  reported the search finds exactly one open ticket, a different one. Then find_duplicates makes that
  ticket the active one beside the snapshot of the first, which its own router refuses to load: the
  turn raises ValidationError, and as the thread stays before find_duplicates, so does every later turn
  of the owner for as long as that ticket is what the search finds.\<close>

theorem other_duplicate_stops_thread:
  assumes "ck_next ck = Some N_find_duplicates" and "ck_interrupt ck = None"
    and "load_state (ck_state ck) = Inr st" and "st_cached_ticket_snapshot st = Some t"
    and "st_issue_category st \<noteq> None" and "st_normalized_issue_location st \<noteq> None"
    and "st_pending_reconciliation_case_id st = None"
    and "turn_matches_owner st turn" and "preflight_property env st (tn_trace_id turn) = Inr None"
    and "\<And>k. finds_other (tv_nodes env k) (kt_ticket_id t)" and "0 < tv_limit env"
  shows "\<exists>e same. start_turn env turn (Some ck) = (Inl e, Some same) \<and> exn_class e = ValidationError \<and>
    ck_next same = ck_next ck \<and> ck_interrupt same = None \<and> ck_state same = ck_state ck"
proof -
  have "st_property_id st \<noteq> None"
    using assms(8) by (auto simp: turn_matches_owner_def owner_def split: option.splits if_splits)
  moreover obtain k where k: "tv_limit env = Suc k" using assms(11) by (cases "tv_limit env") simp_all
  ultimately obtain e where e: "run_task (tv_nodes env k) N_find_duplicates None (ck_state ck) = Inl e"
    "exn_class e = ValidationError"
    using other_duplicate_invalid [OF assms(3,4) _ assms(5,6,10)] by blast
  have "settle_turn env thread_id trace_id (ck', Run_failed e) = (Inl e, ck')" for thread_id trace_id ck'
    using e(2) by (simp add: settle_turn_def runtime_failure_def is_agent_runtime_error_def is_agent_error_def)
  moreover have "admit env ck st (tn_trace_id turn) = (Inr (Admitted st), ck)"
    using assms(7,9) by (simp add: admit_def refresh_reconciliation_def adopt_refreshed_def)
  ultimately show ?thesis
    using assms(1-3,7,8) e by (simp add: start_turn_def k)
qed

definition other_desk :: NodeContext where
  "other_desk = (desk TS_OPEN)\<lparr>nc_find_open_tickets := \<lambda>r. Inr (found [\<lparr>ot_ticket_id = 12, ot_ticket_version = 1,
     ot_resident_id = 4, ot_property_id = 3, ot_issue_category = IC_WATER_LEAK,
     ot_issue_location = ''kitchen'', ot_severity = SV_MEDIUM, ot_ticket_status = TS_OPEN,
     ot_rework_count = 0\<rparr>])\<rparr>"

theorem other_duplicate_stops_thread_witness:
  "\<exists>e thread. start_turn ((shop TS_OPEN 25)\<lparr>tv_nodes := \<lambda>i. other_desk\<rparr>) first_turn
     (Some \<lparr>ck_state = read_state, ck_next = Some N_find_duplicates, ck_interrupt = None\<rparr>) = (Inl e, thread) \<and>
     exn_class e = ValidationError"
proof -
  let ?env = "(shop TS_OPEN 25)\<lparr>tv_nodes := \<lambda>i. other_desk\<rparr>"
  let ?ck = "\<lparr>ck_state = read_state, ck_next = Some N_find_duplicates, ck_interrupt = None\<rparr>"
  have "st_cached_ticket_snapshot read_state = Some the_snapshot"
    "st_issue_category read_state \<noteq> None" "st_normalized_issue_location read_state \<noteq> None"
    "st_pending_reconciliation_case_id read_state = None" "turn_matches_owner read_state first_turn"
    by (simp_all add: the_states turn_matches_owner_def owner_def first_turn_def)
  moreover have "preflight_property ?env read_state (tn_trace_id first_turn) = Inr None"
    by (simp add: preflight_property_def desk_defs split: option.split) (simp add: the_states)
  moreover have "finds_other (tv_nodes ?env k) (kt_ticket_id the_snapshot)" for k
    by (simp add: finds_other_def other_desk_def found_def require_data_def the_snapshot_def)
  ultimately show ?thesis
    using other_duplicate_stops_thread [of ?ck read_state the_snapshot first_turn ?env] by fastforce
qed

end
