(* ===== verification/ToolServer.thy ===== *)
theory ToolServer
  imports AgentTickets Queries Evidence
begin

text \<open>
  The tool server, after \<open>mcp_server/application_adapter.py\<close> (\<open>MCPApplicationAdapter\<close>): how the eight tools
  of the agent become queries and commands of the application, and how their answers become tool
  responses. A tool is a function of the database. The server's answer to a mutation may be an exception,
  after the commit, when a fault is armed. Of an answer, the trace and the details of an error are left out.
\<close>

section \<open>Results\<close>

text \<open>\<open>_ERROR_RESULTS\<close>: the code of a result, its message, and whether to retry.\<close>

definition error_results :: "(string \<times> result_code \<times> string \<times> bool) list" where
  "error_results =
     [(''property_relation_not_found'', RES_NOT_FOUND, ''Property relation not found.'', False),
      (''property_not_found'', RES_NOT_FOUND, ''Property not found.'', False),
      (''ticket_not_found'', RES_NOT_FOUND, ''Repair ticket not found.'', False),
      (''appointment_not_found'', RES_NOT_FOUND, ''Appointment not found.'', False),
      (''resident_not_authorized'', RES_PERMISSION_DENIED,
        ''The resident is not authorized for this resource.'', False),
      (''operator_not_authorized'', RES_PERMISSION_DENIED, ''The operator is not authorized.'', False),
      (''actor_not_authorized'', RES_PERMISSION_DENIED, ''The actor is not authorized.'', False),
      (''actor_not_allowed'', RES_PERMISSION_DENIED, ''The actor is not allowed.'', False),
      (''version_conflict'', RES_VERSION_CONFLICT,
        ''The resource version is stale; reread before retrying.'', False),
      (''active_appointment_exists'', RES_ALREADY_EXISTS,
        ''The ticket already has an active appointment.'', False),
      (''appointment_time_conflict'', RES_TIME_CONFLICT,
        ''The selected worker time is no longer available.'', True),
      (''worker_not_eligible'', RES_VALIDATION_ERROR,
        ''The worker does not satisfy the required skill or availability.'', False),
      (''idempotency_payload_conflict'', RES_IDEMPOTENCY_CONFLICT,
        ''The idempotency key was used with different request content.'', False),
      (''idempotency_request_in_progress'', RES_OPERATION_IN_PROGRESS,
        ''An operation with this idempotency key is still pending.'', True),
      (''disallowed_duplicate'', RES_ALREADY_EXISTS,
        ''An exact structured open-ticket candidate already exists.'', False),
      (''timezone_required'', RES_VALIDATION_ERROR, ''Timezone-aware timestamps are required.'', False),
      (''invalid_search_window'', RES_VALIDATION_ERROR, ''The search time window is invalid.'', False),
      (''invalid_requested_duration'', RES_VALIDATION_ERROR, ''The requested duration is invalid.'', False),
      (''invalid_max_results'', RES_VALIDATION_ERROR, ''The maximum result count is invalid.'', False),
      (''appointment_time_in_past'', RES_VALIDATION_ERROR,
        ''The appointment start time has already passed.'', False)]"

definition response_with :: "result_code \<Rightarrow> string \<Rightarrow> 'd option \<Rightarrow> string option \<Rightarrow> 'd ToolResponse" where
  "response_with code message data error_code = \<lparr>rsp_contract_version = tool_contract_version,
     rsp_result_code = code, rsp_message = message, rsp_data = data, rsp_error_code = error_code\<rparr>"

definition adapter_error :: "string \<Rightarrow> 'd ToolResponse" where
  "adapter_error code =
     (case map_of error_results code of
        Some (result, message, retryable) \<Rightarrow> response_with result message None (Some code)
      | None \<Rightarrow> response_with RES_INTERNAL_ERROR ''The operation could not be completed.'' None (Some code))"

definition adapter_unexpected :: "'d ToolResponse" where
  "adapter_unexpected =
     response_with RES_INTERNAL_ERROR ''An internal server error occurred.'' None (Some ''internal_error'')"

text \<open>\<open>except ApplicationError\<close>, then \<open>except Exception\<close>.\<close>

definition adapter_failure :: "exn \<Rightarrow> 'd ToolResponse" where
  "adapter_failure e = (if is_application_error e then adapter_error (exn_code e) else adapter_unexpected)"

definition success_code :: "string \<Rightarrow> result_code" where
  "success_code code = (if code \<in> {''TICKET_CREATED'', ''APPOINTMENT_BOOKED''} then RES_CREATED else RES_UPDATED)"

text \<open>Fields of the model are strings or positive numbers, or missing; anything else fails its validation.
  An empty status is falsy.\<close>

definition text_field :: "pval option \<Rightarrow> string option outcome" where
  "text_field v = (case v of None \<Rightarrow> Inr None | Some PNone \<Rightarrow> Inr None | Some (PStr s) \<Rightarrow> Inr (Some s)
     | _ \<Rightarrow> Inl (Exn ValidationError [] []))"

definition number_field :: "pval option \<Rightarrow> int option outcome" where
  "number_field v = (case v of None \<Rightarrow> Inr None | Some PNone \<Rightarrow> Inr None | Some (PInt n) \<Rightarrow> Inr (Some n)
     | _ \<Rightarrow> Inl (Exn ValidationError [] []))"

definition status_field :: "(string \<times> pval) list \<Rightarrow> pval option" where
  "status_field data =
     (case map_of data ''ticket_status'' of
        Some v \<Rightarrow> if v \<in> {PNone, PStr []} then map_of data ''status'' else Some v
      | None \<Rightarrow> map_of data ''status'')"

definition mutation_result ::
  "OperationResult \<Rightarrow> uuid option \<Rightarrow> string \<Rightarrow> MutationResultData ToolResponse outcome" where
  "mutation_result result operation_id action =
     (if \<not> or_ok result then Inr (adapter_error (or_code result))
      else case (or_resource_id result, or_resource_type result) of
        (Some resource_id, Some resource_type) \<Rightarrow>
          bindE (text_field (status_field (or_data result))) (\<lambda>ticket_status.
          bindE (number_field (map_of (or_data result) ''ticket_version'')) (\<lambda>ticket_version.
          bindE (text_field (map_of (or_data result) ''appointment_status'')) (\<lambda>appointment_status.
          bindE (number_field (map_of (or_data result) ''appointment_version'')) (\<lambda>appointment_version.
          bindE (checked mutation_data_ok
            \<lparr>mu_operation_id = operation_id, mu_action = Some action, mu_resource_type = resource_type,
             mu_resource_id = resource_id, mu_resource_version = or_resource_version result,
             mu_replayed = or_replayed result, mu_ticket_status = ticket_status,
             mu_ticket_version = ticket_version, mu_appointment_status = appointment_status,
             mu_appointment_version = appointment_version\<rparr>) (\<lambda>data.
          Inr (response_with (success_code (or_code result)) ''The operation completed successfully.''
            (Some data) None))))))
      | _ \<Rightarrow> Inr adapter_unexpected)"

section \<open>Queries\<close>

definition query_actor :: "'a ReadRequest_scheme \<Rightarrow> QueryActor" where
  "query_actor r = \<lparr>qa_actor_type = rq_actor_type r, qa_actor_id = rq_actor_id r\<rparr>"

definition found_response :: "string \<Rightarrow> ('a \<Rightarrow> 'd) \<Rightarrow> 'a outcome \<Rightarrow> 'd ToolResponse" where
  "found_response message shown answer =
     (case answer of Inl e \<Rightarrow> adapter_failure e
      | Inr result \<Rightarrow> response_with RES_FOUND message (Some (shown result)) None)"

definition property_data :: "ResidentPropertyView \<Rightarrow> ResidentPropertyData" where
  "property_data v = \<lparr>rf_resident_id = rv_resident_id v, rf_property_id = rv_property_id v,
     rf_community_name = rv_community_name v, rf_building_no = rv_building_no v,
     rf_unit_no = rv_unit_no v, rf_room_no = rv_room_no v, rf_address_text = rv_address_text v\<rparr>"

definition serve_get_resident_property ::
  "GetResidentPropertyRequest \<Rightarrow> db \<Rightarrow> ResidentPropertyData ToolResponse" where
  "serve_get_resident_property r d = found_response ''Authorized resident property found.'' property_data
     (fst (run_uow (get_resident_property \<lparr>gp_actor = query_actor r, gp_resident_id = gr_resident_id r,
        gp_property_id = gr_property_id r\<rparr>) d))"

definition open_ticket_item :: "OpenRepairTicketView \<Rightarrow> OpenTicketItem" where
  "open_ticket_item v = \<lparr>ot_ticket_id = ov_ticket_id v, ot_ticket_version = ov_ticket_version v,
     ot_resident_id = ov_resident_id v, ot_property_id = ov_property_id v,
     ot_issue_category = ov_issue_category v, ot_issue_location = ov_issue_location v,
     ot_severity = ov_severity v, ot_ticket_status = ov_ticket_status v,
     ot_rework_count = ov_rework_count v\<rparr>"

definition serve_find_open_repair_tickets :: "FindOpenRequest \<Rightarrow> db \<Rightarrow> OpenTicketItem list ToolResponse" where
  "serve_find_open_repair_tickets r d =
     found_response ''Exact structured open-ticket candidates returned.'' (map open_ticket_item)
     (fst (run_uow (find_open_repair_tickets \<lparr>fo_actor = query_actor r, fo_resident_id = fq_resident_id r,
        fo_property_id = fq_property_id r, fo_issue_category = fq_issue_category r,
        fo_normalized_issue_location = fq_normalized_issue_location r\<rparr>) d))"

definition active_appointment_data :: "AppointmentView \<Rightarrow> ActiveAppointmentData" where
  "active_appointment_data a = \<lparr>aa_appointment_id = av_appointment_id a,
     aa_worker_id = av_appointment_worker_id a, aa_purpose = appointment_purpose_value (av_purpose a),
     aa_appointment_status = appointment_status_value (av_status a),
     aa_scheduled_start = av_scheduled_start a, aa_scheduled_end = av_scheduled_end a,
     aa_appointment_version = av_appointment_version a\<rparr>"

definition latest_event_data :: "WorkerEventView \<Rightarrow> LatestWorkerEventData" where
  "latest_event_data e = \<lparr>lw_event_id = wv_event_id e, lw_event_type = wv_event_type e,
     lw_sequence_no = wv_sequence_no e, lw_subject_worker_id = wv_subject_worker_id e\<rparr>"

definition snapshot_data :: "TicketView \<Rightarrow> TicketSnapshotData" where
  "snapshot_data v = \<lparr>sn_ticket_id = tv_ticket_id v, sn_ticket_version = tv_ticket_version v,
     sn_resident_id = tv_resident_id v, sn_property_id = tv_property_id v,
     sn_issue_category = tv_issue_category v, sn_issue_location = tv_issue_location v,
     sn_severity = tv_severity v, sn_ticket_status = tv_ticket_status v,
     sn_rework_count = tv_rework_count v, sn_escalated_from_status = tv_escalated_from_status v,
     sn_active_appointment = map_option active_appointment_data (tv_active_appointment v),
     sn_latest_worker_event = map_option latest_event_data (tv_latest_worker_event v)\<rparr>"

definition serve_get_ticket_snapshot :: "GetTicketSnapshotRequest \<Rightarrow> db \<Rightarrow> TicketSnapshotData ToolResponse" where
  "serve_get_ticket_snapshot r d = found_response ''Current PostgreSQL ticket snapshot returned.'' snapshot_data
     (fst (run_uow (get_ticket_snapshot \<lparr>gs_actor = query_actor r, gs_ticket_id = gt_ticket_id r\<rparr>) d))"

definition available_slot_item :: "AvailableSlot \<Rightarrow> AvailableSlotItem" where
  "available_slot_item s = \<lparr>vs_worker_id = sl_worker_id s, vs_worker_name = sl_worker_name s,
     vs_skill_type = sl_skill_type s, vs_service_area = sl_service_area s,
     vs_service_area_matched = sl_service_area_matched s, vs_scheduled_start = sl_scheduled_start s,
     vs_scheduled_end = sl_scheduled_end s, vs_open_ticket_count = sl_open_ticket_count s,
     vs_rank = sl_rank s, vs_slot_granularity_minutes = sl_slot_granularity_minutes s\<rparr>"

text \<open>The window is stated with some offset from UTC.\<close>

definition aware :: "int \<Rightarrow> timestamp \<Rightarrow> PyTime" where
  "aware offset t = \<lparr>pt_instant = t, pt_offset = Some offset\<rparr>"

definition serve_list_available_slots :: "int \<Rightarrow> ListSlotsRequest \<Rightarrow> db \<Rightarrow> AvailableSlotItem list ToolResponse" where
  "serve_list_available_slots offset r d =
     found_response ''Deterministic candidate slots returned; booking is not guaranteed.''
       (map available_slot_item)
     (fst (run_uow (list_available_slots \<lparr>la_actor = query_actor r, la_property_id = lq_property_id r,
        la_issue_category = lq_issue_category r, la_search_window_start = aware offset (lq_search_window_start r),
        la_search_window_end = aware offset (lq_search_window_end r),
        la_requested_duration_minutes = lq_requested_duration_minutes r,
        la_max_results = lq_max_results r,
        la_excluded_appointment_id = lq_excluded_appointment_id r\<rparr>) d))"

section \<open>Mutations\<close>

definition adapter_metadata :: "timestamp \<Rightarrow> 'a MutationRequest_scheme \<Rightarrow> MutationMetadata" where
  "adapter_metadata now r =
     \<lparr>mm_actor_type = rq_actor_type r, mm_actor_id = rq_actor_id r, mm_trace_id = rq_trace_id r,
      mm_idempotency_key = rq_idempotency_key r, mm_occurred_at = now, mm_run_id = rq_run_id r,
      mm_thread_id = rq_thread_id r, mm_operation_id = rq_operation_id r,
      mm_request_fingerprint = rq_request_fingerprint r\<rparr>"

definition create_command_of :: "timestamp \<Rightarrow> CreateRepairTicketRequest \<Rightarrow> CreateTicketCommand" where
  "create_command_of now r =
     \<lparr>ct_metadata = adapter_metadata now r, ct_resident_id = cq_resident_id r,
      ct_property_id = cq_property_id r, ct_issue_category = cq_issue_category r,
      ct_issue_location = cq_issue_location r, ct_issue_description = cq_issue_description r,
      ct_severity = cq_severity r, ct_allow_duplicate = cq_allow_duplicate r\<rparr>"

definition book_command_of :: "timestamp \<Rightarrow> BookAppointmentRequest \<Rightarrow> BookAppointmentCommand" where
  "book_command_of now r =
     \<lparr>ba_metadata = adapter_metadata now r, ba_ticket_id = bq_ticket_id r, ba_worker_id = bq_worker_id r,
      ba_starts_at = bq_scheduled_start r, ba_ends_at = bq_scheduled_end r,
      ba_expected_ticket_version = bq_expected_version r\<rparr>"

definition reschedule_command_of :: "timestamp \<Rightarrow> RescheduleAppointmentRequest \<Rightarrow> RescheduleAppointmentCommand" where
  "reschedule_command_of now r =
     \<lparr>ra_metadata = adapter_metadata now r, ra_ticket_id = sq_ticket_id r,
      ra_appointment_id = sq_appointment_id r, ra_worker_id = sq_worker_id r,
      ra_starts_at = sq_scheduled_start r, ra_ends_at = sq_scheduled_end r,
      ra_expected_ticket_version = sq_expected_version r,
      ra_expected_appointment_version = sq_expected_appointment_version r\<rparr>"

datatype escalation_reason = ER_MANUAL_REVIEW | ER_SAFETY_RISK | ER_RESPONSIBILITY_CONFLICT
  | ER_SPECIAL_RESOURCE_REQUIRED | ER_INDETERMINATE | ER_SCHEDULING_UNAVAILABLE

fun escalation_reason_value :: "escalation_reason \<Rightarrow> string" where
  "escalation_reason_value ER_MANUAL_REVIEW = ''MANUAL_REVIEW''"
| "escalation_reason_value ER_SAFETY_RISK = ''SAFETY_RISK''"
| "escalation_reason_value ER_RESPONSIBILITY_CONFLICT = ''RESPONSIBILITY_CONFLICT''"
| "escalation_reason_value ER_SPECIAL_RESOURCE_REQUIRED = ''SPECIAL_RESOURCE_REQUIRED''"
| "escalation_reason_value ER_INDETERMINATE = ''INDETERMINATE''"
| "escalation_reason_value ER_SCHEDULING_UNAVAILABLE = ''SCHEDULING_UNAVAILABLE''"

record EscalateToOperatorRequest = MutationRequest +
  eq_ticket_id :: uuid
  eq_expected_version :: int
  eq_reason_code :: escalation_reason
  eq_reason_text :: string
  eq_evidence :: "string list"

definition escalate_request_ok :: "EscalateToOperatorRequest \<Rightarrow> bool" where
  "escalate_request_ok r \<longleftrightarrow> 1 \<le> eq_expected_version r \<and> text_between 1 1000 (eq_reason_text r) \<and>
     length (eq_evidence r) \<le> 20"

definition escalate_command_of :: "timestamp \<Rightarrow> EscalateToOperatorRequest \<Rightarrow> EscalateTicketCommand" where
  "escalate_command_of now r =
     \<lparr>et_metadata = adapter_metadata now r, et_ticket_id = eq_ticket_id r,
      et_expected_ticket_version = eq_expected_version r,
      et_reason_code = escalation_reason_value (eq_reason_code r), et_reason_text = eq_reason_text r,
      et_evidence = eq_evidence r\<rparr>"

text \<open>The four tools: dispatch, the fault point after the commit, then the answer. The fault and a value
  that the response model rejects leave the tool as exceptions.\<close>

definition serve_mutation ::
  "Env \<Rightarrow> exn option \<Rightarrow> command \<Rightarrow> uuid option \<Rightarrow> string \<Rightarrow> db \<Rightarrow> MutationResultData ToolResponse outcome \<times> db"
where
  "serve_mutation env fault c operation_id action d =
     (case dispatch env c d of
        (Inl e, d') \<Rightarrow> (Inr (adapter_failure e), d')
      | (Inr result, d') \<Rightarrow>
          (case (operation_id, fault) of
             (Some _, Some e) \<Rightarrow> (Inl e, d')
           | _ \<Rightarrow> (mutation_result result operation_id action, d')))"

definition serve_create_repair_ticket ::
  "Env \<Rightarrow> timestamp \<Rightarrow> exn option \<Rightarrow> CreateRepairTicketRequest \<Rightarrow> db \<Rightarrow> MutationResultData ToolResponse outcome \<times> db"
where
  "serve_create_repair_ticket env now fault r =
     serve_mutation env fault (CreateTicket (create_command_of now r)) (rq_operation_id r) ''CREATE_TICKET''"

definition serve_book_appointment ::
  "Env \<Rightarrow> timestamp \<Rightarrow> exn option \<Rightarrow> BookAppointmentRequest \<Rightarrow> db \<Rightarrow> MutationResultData ToolResponse outcome \<times> db"
where
  "serve_book_appointment env now fault r =
     serve_mutation env fault (BookAppointment (book_command_of now r)) (rq_operation_id r) ''BOOK_APPOINTMENT''"

definition serve_reschedule_appointment ::
  "Env \<Rightarrow> timestamp \<Rightarrow> exn option \<Rightarrow> RescheduleAppointmentRequest \<Rightarrow> db \<Rightarrow>
   MutationResultData ToolResponse outcome \<times> db"
where
  "serve_reschedule_appointment env now fault r =
     serve_mutation env fault (RescheduleAppointment (reschedule_command_of now r)) (rq_operation_id r)
       ''RESCHEDULE_APPOINTMENT''"

definition serve_escalate_to_operator ::
  "Env \<Rightarrow> timestamp \<Rightarrow> exn option \<Rightarrow> EscalateToOperatorRequest \<Rightarrow> db \<Rightarrow>
   MutationResultData ToolResponse outcome \<times> db"
where
  "serve_escalate_to_operator env now fault r =
     serve_mutation env fault (EscalateTicket (escalate_command_of now r)) (rq_operation_id r)
       ''ESCALATE_TO_OPERATOR''"

section \<open>One call from end to end\<close>

text \<open>The way of one call: the identity of the run, what fails at the client, whether the request arrives,
  the server's clock and fault, and what the network makes of the answer.\<close>

record Wire =
  wi_context :: "(uuid \<times> uuid) option"
  wi_faults :: CallFaults
  wi_arrives :: bool
  wi_now :: timestamp
  wi_server_fault :: "exn option"
  wi_returned :: "MutationResultData ToolResponse outcome \<Rightarrow> MutationResultData transport"

text \<open>A client call of a mutation against the server, given the server's reaction to what is sent.\<close>

definition over_wire ::
  "Wire \<Rightarrow> string \<Rightarrow> uuid \<Rightarrow> (db \<Rightarrow> MutationResultData ToolResponse outcome \<times> db) \<Rightarrow> db \<Rightarrow>
   MutationResultData ToolResponse outcome \<times> db" where
  "over_wire w tool_name operation_id serve d =
     (if cf_before_send (wi_faults w) \<noteq> None \<or> \<not> wi_arrives w
      then (call_mutation (wi_faults w) tool_name operation_id (TR_raised (Exn PyConnectionError [] [])), d)
      else case serve d of (answer, d') \<Rightarrow>
        (call_mutation (wi_faults w) tool_name operation_id (wi_returned w answer), d'))"

definition send_creation ::
  "(string \<Rightarrow> uuid) \<Rightarrow> Env \<Rightarrow> Wire \<Rightarrow> CreateRepairTicketRequest \<Rightarrow> db \<Rightarrow>
   MutationResultData ToolResponse outcome \<times> db" where
  "send_creation uuid5_url env w r =
     over_wire w ''create_repair_ticket'' (operation_id_of uuid5_url r)
       (serve_create_repair_ticket env (wi_now w) (wi_server_fault w)
          (outbound (wi_context w) (operation_id_of uuid5_url r) r))"

text \<open>A wire that loses nothing.\<close>

definition clean_wire :: "Wire \<Rightarrow> bool" where
  "clean_wire w \<longleftrightarrow> cf_before_send (wi_faults w) = None \<and> cf_after_send (wi_faults w) = None \<and>
     cf_before_validation (wi_faults w) = None \<and> cf_before_checkpoint (wi_faults w) = None \<and>
     wi_arrives w \<and> wi_server_fault w = None \<and> (\<forall>response. wi_returned w (Inr response) = TR_response response)"

end
