(* ===== verification/AgentService.thy ===== *)
theory AgentService
  imports ToolServer
begin

text \<open>
  The agent over the application: a creation that the agent sends goes through the client, the tool server
  and the use case into the tables. Sending it again adopts the ticket of the first attempt, and a lost
  answer is decided by the reconciliation case that the coordinator freezes from the agent's state.
\<close>

section \<open>What a creation sends\<close>

definition sent_command :: "(string \<Rightarrow> uuid) \<Rightarrow> Wire \<Rightarrow> CreateRepairTicketRequest \<Rightarrow> CreateTicketCommand" where
  "sent_command u w r = create_command_of (wi_now w) (outbound (wi_context w) (operation_id_of u r) r)"

lemma send_creation_sent:
  "send_creation u env w r = over_wire w ''create_repair_ticket'' (operation_id_of u r)
     (serve_mutation env (wi_server_fault w) (CreateTicket (sent_command u w r)) (Some (operation_id_of u r))
        ''CREATE_TICKET'')"
  by (simp add: send_creation_def serve_create_repair_ticket_def sent_command_def outbound_def
      split: option.split)

lemma create_request_fields:
  assumes "create_request st = Some r" and "st_pending_operation st = Some op"
  shows "rq_actor_type r = st_actor_type st" "rq_actor_id r = st_actor_id st"
    "rq_idempotency_key r = po_idempotency_key op" "rq_request_fingerprint r = Some (po_request_fingerprint op)"
    "rq_operation_id r = None" "cq_resident_id r = st_user_id st" "st_property_id st = Some (cq_property_id r)"
  using assms
  by (auto simp: create_request_def mutation_request_def read_request_def MutationRequest.extend_def
      MutationRequest.fields_def CreateRepairTicketRequest.fields_def ReadRequest.extend_def split: option.splits)

lemma sent_command_fields [simp]:
  "mm_actor_type (ct_metadata (sent_command u w r)) = rq_actor_type r"
  "mm_actor_id (ct_metadata (sent_command u w r)) = rq_actor_id r"
  "mm_idempotency_key (ct_metadata (sent_command u w r)) = rq_idempotency_key r"
  "mm_request_fingerprint (ct_metadata (sent_command u w r)) = rq_request_fingerprint r"
  "mm_operation_id (ct_metadata (sent_command u w r)) = Some (operation_id_of u r)"
  "ct_resident_id (sent_command u w r) = cq_resident_id r"
  "ct_property_id (sent_command u w r) = cq_property_id r"
  by (simp_all add: sent_command_def create_command_of_def adapter_metadata_def outbound_def split: option.split)

text \<open>Whatever the run, the clock and the content: the identity of the command is that of the operation.\<close>

lemma sent_identity:
  assumes "create_request st = Some r" and "st_pending_operation st = Some op" and "po_request_fingerprint op \<noteq> []"
  shows "command_key (CreateTicket (sent_command u w r)) =
      (''create_ticket'', st_actor_type st, st_actor_id st, po_idempotency_key op)"
    and "command_digest env (CreateTicket (sent_command u w r)) = po_request_fingerprint op"
  using create_request_fields [OF assms(1,2)] assms(3)
  by (simp_all add: idempotency_key_of_def request_digest_def)

lemma stored_operation_valid:
  assumes "load_state raw = Inr st" and "st_pending_operation st = Some op"
  shows "po_request_fingerprint op \<noteq> []"
proof -
  have "is_hex64 (po_request_fingerprint op)"
    using assms by (auto simp: load_state_def checked_Inr valid_state_def operation_valid_def pending_operation_ok_def)
  then show ?thesis by (auto simp: is_hex64_def)
qed

section \<open>What a creation is answered\<close>

lemma create_ticket_answer:
  assumes "create_ticket_handler env c fp s = (Inr result, s')"
  shows "\<exists>ticket_id status. result = success_result ''TICKET_CREATED'' ''repair_ticket'' ticket_id 1
    [(''status'', PStr (ticket_status_value status))]"
  using assms unfolding create_ticket_handler_def
  by (auto simp: inversion_simps Let_def)

lemma creation_answer:
  assumes "dispatch env (CreateTicket c) d = (Inr result, d')" and "or_ok result" and "\<not> or_replayed result"
  shows "\<exists>ticket_id status. result = success_result ''TICKET_CREATED'' ''repair_ticket'' ticket_id 1
    [(''status'', PStr (ticket_status_value status))]"
proof -
  from assms(1) have "run_use_case create_ticket_handler ''create_ticket'' ct_metadata
      create_ticket_payload env c d = (Inr result, d')"
    by (simp add: create_ticket_def)
  from this assms(2) show ?thesis
  proof (cases rule: create_ticket_case.run_success_cases)
    case (replayed r)
    then show ?thesis using assms(3) by (simp add: replay_result_def)
  next
    case (fresh s)
    from create_ticket_answer [OF fresh(3)] show ?thesis .
  qed
qed

lemma status_text: "ticket_status_value status \<noteq> []"
  by (cases status) simp_all

lemma mutation_result_created:
  assumes "or_ok result" and "or_code result = ''TICKET_CREATED''" and "or_resource_type result = Some kind"
    and "or_resource_id result = Some ticket_id" and "or_resource_version result = Some 1"
    and "or_data result = [(''status'', PStr text)]"
  shows "\<exists>response data. mutation_result result (Some operation_id) ''CREATE_TICKET'' = Inr response \<and>
    rsp_result_code response = RES_CREATED \<and> rsp_data response = Some data \<and>
    rsp_message response = ''The operation completed successfully.'' \<and>
    rsp_contract_version response = tool_contract_version \<and> mu_operation_id data = Some operation_id \<and>
    mu_action data = Some ''CREATE_TICKET'' \<and> mu_resource_id data = ticket_id \<and>
    mu_resource_version data = Some 1 \<and> mu_ticket_version data = None"
  using assms
  by (simp add: mutation_result_def status_field_def text_field_def number_field_def checked_def
      mutation_data_ok_def response_with_def success_code_def)

lemma clean_call:
  assumes "clean_wire w" and "serve d = (Inr response, d')" and "rsp_data response = Some data"
    and "rsp_result_code response = RES_CREATED" and "rsp_contract_version response = tool_contract_version"
    and "mu_operation_id data = Some operation_id" and "mu_action data = Some ''CREATE_TICKET''"
  shows "over_wire w ''create_repair_ticket'' operation_id serve d = (Inr response, d')"
  using assms
  by (simp add: over_wire_def clean_wire_def call_mutation_def Let_def approved_tool_names_def
      classify_validated_mutation_result_def known_success_codes_def names_operation_def expected_action_def)

text \<open>The second attempt, with any run, clock and surroundings.\<close>

lemma creation_sent_again:
  assumes "create_request st = Some r" and "st_pending_operation st = Some op" and "po_request_fingerprint op \<noteq> []"
    and "dispatch env (CreateTicket (sent_command u w r)) d = (Inr result, d1)"
    and "or_ok result" and "\<not> or_replayed result"
  shows "dispatch env' (CreateTicket (sent_command u w' r)) (run_commands cs d1) =
    (Inr (retry_answer result), run_commands cs d1)"
proof -
  let ?c = "CreateTicket (sent_command u w r)" and ?c' = "CreateTicket (sent_command u w' r)"
  let ?run = "\<lambda>env c. run_use_case command_handler (command_scope c) command_metadata command_payload env c"
  have run: "?run env ?c d = (Inr result, d1)" using assms(4) by (simp only: dispatch_use_case)
  note identity = sent_identity [OF assms(1-3)]
  note resource = facade.run_result_identity [OF run assms(5,6)]
  have "command_key ?c' = command_key ?c" "command_digest env' ?c' = command_digest env ?c"
    unfolding identity by simp_all
  moreover from facade.run_records [OF run assms(5,6)] run_commands_keep_record [of "command_key ?c"]
  have "find_idempotency (command_key ?c) (run_commands cs d1) =
      Some (success_record (command_key ?c) (command_digest env ?c)
        (operation_id_for env (command_metadata ?c) (command_scope ?c)) result)"
    by blast
  ultimately show ?thesis
    using facade.run_retry [of "command_scope ?c'" ?c' "run_commands cs d1" "command_digest env ?c" _ result env']
      resource
    by (simp only: dispatch_use_case command_scope.simps) metis
qed

section \<open>A repeated creation\<close>

text \<open>C9: a repeated creation adopts the ticket of the first attempt. The creation of a thread reached the
  server and succeeded there, whether or not its answer came back. When the task is run again from the
  same state, in any later run, with another clock, after any other commands, over a wire that loses
  nothing, then nothing is written, and the thread has the ticket that the first attempt created.\<close>

theorem repeated_creation_adopts_ticket:
  assumes "load_state raw = Inr st" and "create_request st = Some r"
    and "dispatch env (CreateTicket (sent_command u w r)) d = (Inr result, d1)"
    and "or_ok result" and "\<not> or_replayed result" and "clean_wire w'"
    and "nc_create_ticket nc = (\<lambda>r. fst (send_creation u env' w' r (run_commands cs d1)))"
  shows "\<exists>st'. create_ticket_node nc raw = Inr st' \<and> st_active_ticket_id st' = or_resource_id result \<and>
    st_ticket_snapshot_version st' = Some 1 \<and> st_pending_operation st' = None \<and>
    snd (send_creation u env' w' r (run_commands cs d1)) = run_commands cs d1"
proof -
  obtain op where op: "st_pending_operation st = Some op"
    using assms(2) by (auto simp: create_request_def split: option.splits)
  obtain ticket_id status where result: "result = success_result ''TICKET_CREATED'' ''repair_ticket'' ticket_id 1
      [(''status'', PStr (ticket_status_value status))]"
    using creation_answer [OF assms(3-5)] by blast
  have again: "dispatch env' (CreateTicket (sent_command u w' r)) (run_commands cs d1) =
      (Inr (retry_answer result), run_commands cs d1)"
    by (rule creation_sent_again [OF assms(2) op stored_operation_valid [OF assms(1) op] assms(3-5)])
  obtain response data where served: "mutation_result (retry_answer result) (Some (operation_id_of u r))
      ''CREATE_TICKET'' = Inr response" "rsp_result_code response = RES_CREATED" "rsp_data response = Some data"
    "rsp_message response = ''The operation completed successfully.''"
    "rsp_contract_version response = tool_contract_version" "mu_operation_id data = Some (operation_id_of u r)"
    "mu_action data = Some ''CREATE_TICKET''" "mu_resource_id data = ticket_id"
    "mu_resource_version data = Some 1" "mu_ticket_version data = None"
    using mutation_result_created [of "retry_answer result" "''repair_ticket''" ticket_id
      "ticket_status_value status" "operation_id_of u r"]
    by (auto simp: result retry_answer_def success_result_def json_dict_def)
  have sent: "send_creation u env' w' r (run_commands cs d1) = (Inr response, run_commands cs d1)"
    unfolding send_creation_sent
    by (rule clean_call [OF assms(6) _ served(3,2,5,6,7)])
      (use assms(6) again served(1) in \<open>simp add: serve_mutation_def clean_wire_def\<close>)
  moreover have "summary_of response data = Inr \<lparr>tl_result_code = ''CREATED'',
      tl_message = ''The operation completed successfully.'', tl_resource_id = Some ticket_id,
      tl_resource_version = Some 1, tl_retryable = False\<rparr>"
    using served(2,4,8,9) by (simp add: summary_of_def checked_def tool_result_ok_def text_between_def)
  ultimately show ?thesis
    using served(2,3,8,9,10)
    by (simp add: create_ticket_node_def assms(1,2,7) require_data_def or_option_def result success_result_def)
qed

section \<open>A lost creation\<close>

lemma frozen_creation:
  assumes "load_state raw = Inr st" and "create_request st = Some r"
    and "st_pending_operation st = Some op" and "po_action op = PA_CREATE_TICKET"
    and "tv_execution_context tenv = Some context"
  shows "\<exists>frozen. (\<forall>port. coordinate_case tenv port st (operation_id_of u r) = rp_create_or_get port frozen) \<and>
    creation_case env (sent_command u w r) frozen"
proof -
  note r = create_request_fields [OF assms(2,3)]
  let ?frozen = "case_of_operation tenv st (operation_id_of u r) op (cq_property_id r) RC_CREATE_TICKET context"
  have "coordinate_case tenv port st (operation_id_of u r) = rp_create_or_get port ?frozen" for port
    by (simp add: coordinate_case_def assms(3-5) r(7) reconciliation_action_of_def)
  moreover have "creation_case env (sent_command u w r) ?frozen"
    using r sent_identity(2) [OF assms(2,3) stored_operation_valid [OF assms(1,3)], of env u w]
    by (simp add: creation_case_def case_of_operation_def assms(4) operation_id_for_def)
  ultimately show ?thesis by blast
qed

lemma unknown_operation: "exn_class (unknown_commit operation_id tool_name) = UnknownCommit"
  "exn_operation_id (unknown_commit operation_id tool_name) = Some operation_id"
  by (simp_all add: unknown_commit_def exn_operation_id_def)


section \<open>The town's resident at the desk\<close>

definition town_state :: AgentState where
  "town_state = prepared_state\<lparr>st_actor_id := 1, st_user_id := 1\<rparr>"

definition town_request :: CreateRepairTicketRequest where
  "town_request = \<lparr>rq_actor_type = ACT_RESIDENT, rq_actor_id = 1, rq_trace_id = 2,
     rq_idempotency_key = ''agent-'' @ digest [], rq_run_id = None, rq_thread_id = None, rq_operation_id = None,
     rq_request_fingerprint = Some (digest []), cq_resident_id = 1, cq_property_id = 3,
     cq_issue_category = IC_WATER_LEAK, cq_issue_location = ''kitchen'', cq_issue_description = ''leak'',
     cq_severity = SV_MEDIUM, cq_allow_duplicate = False\<rparr>"

text \<open>A wire with a context of its run; the lossy one drops every answer.\<close>

definition wire :: "uuid \<Rightarrow> timestamp \<Rightarrow> (MutationResultData ToolResponse outcome \<Rightarrow> MutationResultData transport) \<Rightarrow> Wire" where
  "wire run now returned = \<lparr>wi_context = Some (run, 1), wi_faults = \<lparr>cf_before_send = None, cf_after_send = None,
     cf_before_validation = None, cf_before_checkpoint = None\<rparr>, wi_arrives = True, wi_now = now,
     wi_server_fault = None, wi_returned = returned\<rparr>"

definition answered :: "MutationResultData ToolResponse outcome \<Rightarrow> MutationResultData transport" where
  "answered r = (case r of Inl e \<Rightarrow> TR_empty | Inr response \<Rightarrow> TR_response response)"

definition lossy :: Wire where "lossy = wire 20 10 (\<lambda>r. TR_empty)"

lemma town_state_facts:
  "load_state town_state = Inr town_state" "create_request town_state = Some town_request"
  "st_pending_operation town_state = Some creation"
proof -
  have "sound_state town_state"
    by (simp add: town_state_def the_states sound_defs value_checks normalize_issue_location_def [of None])
  then show "load_state town_state = Inr town_state" by (simp add: sound_state_def)
qed (simp_all add: town_state_def town_request_def the_states create_request_def request_defs)

lemma town_sent: "sent_command (\<lambda>s. 9) lossy town_request =
  \<lparr>ct_metadata = \<lparr>mm_actor_type = ACT_RESIDENT, mm_actor_id = 1, mm_trace_id = 2,
     mm_idempotency_key = ''agent-'' @ digest [], mm_occurred_at = 10, mm_run_id = Some 20, mm_thread_id = Some 1,
     mm_operation_id = Some 9, mm_request_fingerprint = Some (digest [])\<rparr>, ct_resident_id = 1, ct_property_id = 3,
   ct_issue_category = IC_WATER_LEAK, ct_issue_location = ''kitchen'', ct_issue_description = ''leak'',
   ct_severity = SV_MEDIUM, ct_allow_duplicate = False\<rparr>"
  by (simp add: sent_command_def create_command_of_def adapter_metadata_def outbound_def lossy_def wire_def
      town_request_def operation_id_of_def)

lemma town_creation:
  "\<exists>result d'. dispatch (demo_env 1 10) (CreateTicket (sent_command (\<lambda>s. 9) lossy town_request)) town =
     (Inr result, d') \<and> or_ok result \<and> \<not> or_replayed result"
  unfolding town_sent by (simp add: demo_eval town_def digest_def eval_nat_numeral)

theorem repeated_creation_adopts_ticket_witness:
  "\<exists>result d1 st'. dispatch (demo_env 1 10) (CreateTicket (sent_command (\<lambda>s. 9) lossy town_request)) town =
      (Inr result, d1) \<and> st_active_ticket_id st' = or_resource_id result \<and>
    create_ticket_node ((desk TS_OPEN)\<lparr>nc_create_ticket := \<lambda>r. fst (send_creation (\<lambda>s. 9) (demo_env 2 60)
      (wire 21 60 answered) r d1)\<rparr>) town_state = Inr st'"
proof -
  obtain result d1 where first: "dispatch (demo_env 1 10) (CreateTicket (sent_command (\<lambda>s. 9) lossy town_request))
      town = (Inr result, d1)" "or_ok result" "\<not> or_replayed result"
    using town_creation by blast
  have "clean_wire (wire 21 60 answered)" by (simp add: clean_wire_def wire_def answered_def)
  from repeated_creation_adopts_ticket [OF town_state_facts(1,2) first this, where env' = "demo_env 2 60" and
      cs = "[]" and nc = "(desk TS_OPEN)\<lparr>nc_create_ticket := \<lambda>r. fst (send_creation (\<lambda>s. 9) (demo_env 2 60)
        (wire 21 60 answered) r d1)\<rparr>"] first(1)
  show ?thesis by auto
qed


end
