(* ===== verification/AgentProofs.thy ===== *)
theory AgentProofs
  imports AgentService
begin

text \<open>What the answers of the client prove, whatever the wire does.\<close>

definition send_mutation ::
  "Env \<Rightarrow> Wire \<Rightarrow> string \<Rightarrow> uuid \<Rightarrow> command \<Rightarrow> db \<Rightarrow> MutationResultData ToolResponse outcome \<times> db" where
  "send_mutation env w tool_name operation_id c =
     over_wire w tool_name operation_id
       (serve_mutation env (wi_server_fault w) c (Some operation_id) (expected_action tool_name))"

text \<open>A network may lose or garble an answer, but does not make one up.\<close>

definition honest :: "Wire \<Rightarrow> bool" where
  "honest w \<longleftrightarrow> (\<forall>answer response. wi_returned w answer = TR_response response \<longrightarrow> answer = Inr response)"

lemma error_results_no_success:
  "(code, result, rest) \<in> set error_results \<Longrightarrow> result \<notin> known_success_codes"
  by (auto simp: error_results_def known_success_codes_def)

lemma adapter_failure_code:
  "rsp_result_code (adapter_error code) \<notin> known_success_codes"
  "rsp_result_code (adapter_failure e) \<notin> known_success_codes"
  "rsp_result_code adapter_unexpected \<notin> known_success_codes"
proof -
  show error: "rsp_result_code (adapter_error code) \<notin> known_success_codes" for code
    by (auto simp: adapter_error_def response_with_def known_success_codes_def split: option.split
        dest!: map_of_SomeD error_results_no_success)
  show unexpected: "rsp_result_code adapter_unexpected \<notin> known_success_codes"
    by (simp add: adapter_unexpected_def response_with_def known_success_codes_def)
  show "rsp_result_code (adapter_failure e) \<notin> known_success_codes"
    by (simp add: adapter_failure_def error unexpected)
qed

lemma mutation_result_answer:
  assumes "mutation_result result operation_id action = Inr response"
    and "rsp_result_code response \<in> known_success_codes"
  shows "or_ok result \<and> map_option mu_resource_id (rsp_data response) = or_resource_id result"
  using assms adapter_failure_code
  by (auto simp: mutation_result_def bindE_Inr_iff checked_Inr response_with_def split: if_splits option.splits)

lemma mutation_result_ok_code:
  assumes "mutation_result result operation_id action = Inr response" and "or_ok result"
  shows "rsp_result_code response \<notin> known_failure_codes"
  using assms
  by (auto simp: mutation_result_def bindE_Inr_iff checked_Inr response_with_def success_code_def
      adapter_unexpected_def known_failure_codes_def split: if_splits option.splits)

lemma dispatch_atomic:
  assumes "dispatch env c d = (answer, d')" and "\<And>result. answer = Inr result \<Longrightarrow> \<not> or_ok result"
  shows "d' = d"
proof -
  have "run_use_case command_handler (command_scope c) command_metadata command_payload env c d = (answer, d')"
    using assms(1) by (simp add: dispatch_use_case)
  from facade.run_atomic [OF this] assms(2) show ?thesis by auto
qed

lemma served_answer:
  assumes "serve_mutation env fault c (Some operation_id) action d = (Inr response, d')"
  shows "rsp_result_code response \<in> known_success_codes \<Longrightarrow> \<exists>result. dispatch env c d = (Inr result, d') \<and>
      or_ok result \<and> map_option mu_resource_id (rsp_data response) = or_resource_id result"
    and "rsp_result_code response \<in> known_failure_codes \<Longrightarrow> d' = d"
proof -
  obtain answer where run: "dispatch env c d = (answer, d')"
    using assms by (auto simp: serve_mutation_def split: prod.splits sum.splits option.splits)
  have cases: "(\<exists>e. answer = Inl e \<and> response = adapter_failure e) \<or>
      (\<exists>result. answer = Inr result \<and> mutation_result result (Some operation_id) action = Inr response)"
    using assms run by (auto simp: serve_mutation_def split: sum.splits option.splits)
  show "rsp_result_code response \<in> known_success_codes \<Longrightarrow> \<exists>result. dispatch env c d = (Inr result, d') \<and>
      or_ok result \<and> map_option mu_resource_id (rsp_data response) = or_resource_id result"
    using cases run mutation_result_answer adapter_failure_code(2) by blast
  show "rsp_result_code response \<in> known_failure_codes \<Longrightarrow> d' = d"
    using dispatch_atomic [OF run] cases mutation_result_ok_code by blast
qed


lemma honest_wire: "honest (wire run now answered)"
  by (simp add: honest_def wire_def answered_def split: sum.split)


end
