(* ===== verification/PolicyGuarantees.thy ===== *)
theory PolicyGuarantees
  imports AgentProofs
begin

text \<open>
  What it means that the policy check of a repair is passed: every requested topic is covered by a
  document in force, and the evidence does not contradict itself.
\<close>

section \<open>Evidence comes from documents in force\<close>

definition in_force :: "issue_category \<Rightarrow> timestamp \<Rightarrow> PolicyDb \<Rightarrow> PolicyEvidence \<Rightarrow> bool" where
  "in_force category as_of d e \<longleftrightarrow> (\<exists>c \<in> set (pb_chunks d). \<exists>r \<in> set (pb_documents d).
     pk_id c = pe_evidence_id e \<and> pk_document_id c = pd_id r \<and>
     pi_policy_topic (pd_input r) = pe_policy_topic e \<and>
     pi_issue_category (pd_input r) \<in> {Some category, None} \<and> is_policy_effective (pd_input r) as_of)"

lemma candidates_in_force:
  assumes "cand \<in> set (list_effective_candidates env category topics as_of v pf d)"
  shows "in_force category as_of d (evidence_of env q cs cand)"
proof -
  obtain c r where cr: "c \<in> set (pb_chunks d)" "r \<in> set (pb_documents d)" "pd_id r = pk_document_id c"
    "effective_filters category topics as_of (pd_input r)" "cand = candidate_of env v c r"
    using assms by (auto simp: list_effective_candidates_def)
  show ?thesis
    unfolding in_force_def
    by (intro bexI [of _ c] bexI [of _ r])
      (use cr in \<open>auto simp: evidence_of_def candidate_of_def Let_def effective_filters_def
        is_policy_effective_def split: option.splits\<close>)
qed

lemma checked_all_Inr: "checked_all ok xs = Inr ys \<Longrightarrow> ys = xs"
  by (induction xs arbitrary: ys) (auto simp: bindE_Inr_iff checked_Inr)

lemma fused_in_force:
  assumes "fuse_candidates env (list_effective_candidates env category topics as_of v pf d) q = Inr evidence"
    and "e \<in> set evidence"
  shows "in_force category as_of d e"
proof -
  let ?cs = "list_effective_candidates env category topics as_of v pf d"
  have "e \<in> evidence_of env q ?cs ` set ?cs"
    using assms by (auto simp: fuse_candidates_def bindE_Inr_iff dest!: checked_all_Inr in_set_takeD)
  then show ?thesis using candidates_in_force by blast
qed

lemma fused_length: "fuse_candidates env cs q = Inr evidence \<Longrightarrow> length evidence \<le> nat (pq_top_k q)"
  by (auto simp: fuse_candidates_def bindE_Inr_iff)

section \<open>Agreement\<close>

lemma decisions_member:
  "(k, v, e) \<in> set (decisions evidence) \<longleftrightarrow> e \<in> set evidence \<and> (\<exists>key val. pe_decision_key e = Some key \<and>
     pe_decision_value e = Some val \<and> k = normalize_policy_text key \<and> v = normalize_decision_value val)"
  by (force simp: decisions_def split: option.splits)

lemma no_conflict_agrees:
  assumes "detect_policy_conflicts evidence = []"
    and "(k, v, e) \<in> set (decisions evidence)" and "(k, v', e') \<in> set (decisions evidence)"
  shows "v = v'"
proof -
  have vals: "set (decided_values k evidence) = {v. \<exists>e. (k, v, e) \<in> set (decisions evidence)}"
    by (force simp: decided_values_def)
  have "k \<in> set (sort (remdups (map fst (decisions evidence))))" using assms(2) by force
  then have "\<not> 2 \<le> length (decided_values k evidence)"
    using assms(1) by (auto simp: detect_policy_conflicts_def filter_empty_conv)
  moreover have "distinct (decided_values k evidence)" by (simp add: decided_values_def)
  ultimately have "card (set (decided_values k evidence)) \<le> 1" by (simp add: distinct_card)
  then show ?thesis
    using assms(2,3) vals by (metis (mono_tags, lifting) List.finite_set card_le_Suc0_iff_eq mem_Collect_eq One_nat_def)
qed

section \<open>Sufficiency\<close>

lemma sufficient_covers:
  assumes "evaluate_sufficiency evidence conflicts topics s f = (EV_SUFFICIENT, missing)" and "topic \<in> set topics"
  shows "conflicts = [] \<and> (\<exists>e \<in> set evidence. pe_policy_topic e = topic \<and> covers_topic s f e)"
proof -
  have "conflicts = []" and none: "filter (\<lambda>t. t \<notin> pe_policy_topic ` {e \<in> set evidence. covers_topic s f e}) topics = []"
    using assms(1) by (auto simp: evaluate_sufficiency_def Let_def split: if_splits)
  from none assms(2) have "topic \<in> pe_policy_topic ` {e \<in> set evidence. covers_topic s f e}"
    by (auto simp: filter_empty_conv)
  with \<open>conflicts = []\<close> show ?thesis by auto
qed

lemma retrieve_Inr:
  assumes "retrieve env q d = Inr z"
  shows "\<exists>v. fuse_candidates env (list_effective_candidates env (pq_issue_category q) (pq_policy_topics q)
      (pt_instant (pq_as_of q)) v (pv_profile env) d) q = Inr (pz_evidence z)"
    and "pz_conflicts z = detect_policy_conflicts (pz_evidence z)"
    and "(pz_sufficiency z, pz_missing_policy_topics z) = evaluate_sufficiency (pz_evidence z) (pz_conflicts z)
      (pq_policy_topics q) (pq_minimum_vector_similarity q) (pq_minimum_fusion_score q)"
  using assms
  by (auto simp: retrieve_def Let_def bindE_Inr_iff checked_Inr case_prod_beta split: if_splits)

definition policy_passed :: "NodeContext \<Rightarrow> AgentState \<Rightarrow> AgentState \<Rightarrow> bool" where
  "policy_passed nc st st' \<longleftrightarrow> (\<exists>category reference q z.
     st_issue_category st' = Some category \<and> st_current_reference_time st' = Some reference \<and>
     q = policy_request nc st category reference\<lparr>pq_query_text := strip (pq_query_text (policy_request nc st category reference))\<rparr> \<and>
     nc_retrieve_policy nc q = Inr z \<and> pz_sufficiency z = EV_SUFFICIENT \<and> pz_conflicts z = [] \<and>
     st_policy_evidence_ids st' = map pe_evidence_id (pz_evidence z))"

lemma policy_task:
  assumes "run_task nc N_retrieve_policy answer raw = Inr (Task_done st' (Some N_find_duplicates))"
  shows "\<exists>st. load_state raw = Inr st \<and> policy_passed nc st st'"
proof -
  have node: "retrieve_policy nc raw = Inr st'" and edge: "edge N_retrieve_policy st' = Inr (Some N_find_duplicates)"
    using assms by (simp_all add: run_task_Inr updating_Inr)
  from node obtain st category reference q where asked: "load_state raw = Inr st"
    "st_issue_category st = Some category" "st_current_reference_time st = Some reference"
    "make_policy_request (policy_request nc st category reference) = Inr q"
    by (fastforce simp: retrieve_policy_def bindE_Inr_iff split: option.splits)
  with node obtain z m where step: "nc_retrieve_policy nc q = Inr z"
    "merge_policy_result (nc_sha256 nc) st z q (pz_embedding_profile z) = Inr m"
    "st' = m\<lparr>st_workflow_stage := WS_POLICY_CHECK\<rparr>"
    by (cases "nc_retrieve_policy nc q") (auto simp: retrieve_policy_def split: sum.splits)
  obtain s where s: "load_state st' = Inr s" "\<not> st_policy_conflict s" "st_policy_sufficiency s = Some EV_SUFFICIENT"
    using edge by (auto simp: bindE_Inr_iff route_after_policy_def split: if_splits)
  then have "\<not> st_policy_conflict st'" "st_policy_sufficiency st' = Some EV_SUFFICIENT"
    by (auto simp: load_state_def checked_Inr stripped_texts_def)
  moreover have "q = policy_request nc st category reference\<lparr>pq_query_text :=
      strip (pq_query_text (policy_request nc st category reference))\<rparr>"
    using asked(4) by (simp add: make_policy_request_def checked_Inr)
  ultimately show ?thesis
    using asked step unfolding policy_passed_def
    by (intro exI [of _ st] conjI exI [of _ category] exI [of _ reference] exI [of _ q] exI [of _ z])
      (auto simp: merge_policy_result_def split: if_splits)
qed

text \<open>C24: repairs are planned under policy. When the policy check of a repair goes on to the search for
  duplicates, with the retrieval over the policy tables, then each piece of the evidence that the state
  names is a chunk of a document that is enabled, in its period at the time of the message, and for the
  category or for all; every topic that the category demands is covered by such evidence with a fusion
  score of at least 1/4; no two pieces decide the same question differently; and there are at most five.\<close>

theorem repairs_planned_under_policy:
  assumes "run_task nc N_retrieve_policy answer raw = Inr (Task_done st' (Some N_find_duplicates))"
    and "nc_retrieve_policy nc = (\<lambda>q. retrieve env q d)"
  shows "\<exists>category reference evidence.
    st_issue_category st' = Some category \<and> st_current_reference_time st' = Some reference \<and>
    st_policy_evidence_ids st' = map pe_evidence_id evidence \<and> length evidence \<le> 5 \<and>
    (\<forall>e \<in> set evidence. in_force category (pt_instant reference) d e) \<and>
    (\<forall>topic \<in> set (policy_topics_for category). \<exists>e \<in> set evidence.
       pe_policy_topic e = topic \<and> 1 / 4 \<le> pe_fusion_score e) \<and>
    (\<forall>k v v' e e'. (k, v, e) \<in> set (decisions evidence) \<and> (k, v', e') \<in> set (decisions evidence) \<longrightarrow> v = v')"
proof -
  obtain st category reference q z where passed:
    "st_issue_category st' = Some category" "st_current_reference_time st' = Some reference"
    "q = policy_request nc st category reference\<lparr>pq_query_text := strip (pq_query_text (policy_request nc st category reference))\<rparr>"
    "retrieve env q d = Inr z" "pz_sufficiency z = EV_SUFFICIENT" "pz_conflicts z = []"
    "st_policy_evidence_ids st' = map pe_evidence_id (pz_evidence z)"
    using policy_task [OF assms(1)] by (auto simp: policy_passed_def assms(2))
  have q: "pq_issue_category q = category" "pq_policy_topics q = policy_topics_for category"
    "pq_as_of q = reference" "pq_top_k q = 5" "pq_minimum_fusion_score q = 1 / 4"
    by (simp_all add: passed(3) policy_request_def)
  obtain v where fused: "fuse_candidates env (list_effective_candidates env category (policy_topics_for category)
      (pt_instant reference) v (pv_profile env) d) q = Inr (pz_evidence z)"
    using retrieve_Inr(1) [OF passed(4)] q by auto
  have "evaluate_sufficiency (pz_evidence z) [] (policy_topics_for category) (pq_minimum_vector_similarity q)
      (1 / 4) = (EV_SUFFICIENT, pz_missing_policy_topics z)"
    using retrieve_Inr(3) [OF passed(4)] passed(5,6) q by simp
  note covered = sufficient_covers [OF this]
  show ?thesis
  proof (intro exI conjI ballI allI impI)
    show "length (pz_evidence z) \<le> 5" using fused_length [OF fused] q by simp
    show "in_force category (pt_instant reference) d e" if "e \<in> set (pz_evidence z)" for e
      using fused_in_force [OF fused that] .
    show "\<exists>e \<in> set (pz_evidence z). pe_policy_topic e = topic \<and> 1 / 4 \<le> pe_fusion_score e"
      if "topic \<in> set (policy_topics_for category)" for topic
      using covered [OF that] by (auto simp: covers_topic_def)
    show "v = v'" if "(k, v, e) \<in> set (decisions (pz_evidence z)) \<and> (k, v', e') \<in> set (decisions (pz_evidence z))"
      for k v v' e e'
      using no_conflict_agrees [of "pz_evidence z" k v e v' e'] that retrieve_Inr(2) [OF passed(4)] passed(6) by simp
  qed (use passed in simp_all)
qed

section \<open>Two short policies\<close>

definition short_policy :: "uuid \<Rightarrow> policy_topic \<Rightarrow> PolicyDocument" where
  "short_policy i topic = \<lparr>pd_id = i, pd_input = \<lparr>pi_policy_code = ''P'', pi_title = ''title'',
     pi_issue_category = None, pi_policy_topic = topic, pi_version = int i, pi_authority_rank = 50,
     pi_effective_from = 0, pi_effective_to = None, pi_source_name = ''s'', pi_source_reference = ''r'',
     pi_is_enabled = True, pi_chunks = []\<rparr>, pd_content_hash = digest [], pd_profile = profile\<rparr>"

definition short_chunk :: "uuid \<Rightarrow> uuid \<Rightarrow> PolicyChunk" where
  "short_chunk i document = \<lparr>pk_id = i, pk_document_id = document, pk_chunk_index = 0, pk_chunk =
     \<lparr>pj_content = ''rule'', pj_search_terms = [''door''], pj_decision_key = None, pj_decision_value = None\<rparr>,
     pk_embedding = []\<rparr>"

definition short_policies :: PolicyDb where
  "short_policies = \<lparr>pb_documents = [short_policy 1 PT_RESPONSIBILITY_SCOPE, short_policy 2 PT_APPOINTMENT],
     pb_chunks = [short_chunk 71 1, short_chunk 72 2]\<rparr>"

definition policy_desk :: PolicyEnv where
  "policy_desk = \<lparr>pv_sha256 = digest, pv_uuid5_policy = (\<lambda>s. 0), pv_document_json = (\<lambda>p. []),
     pv_instruction_markers = [], pv_profile = profile, pv_embed_documents = (\<lambda>xs. Inr []),
     pv_embed_query = (\<lambda>s. Inr (replicate 384 0, profile)), pv_cosine_distance = (\<lambda>x y. 0)\<rparr>"

definition desk_query :: PolicyRequest where
  "desk_query = \<lparr>pq_query_text = ''WATER_LEAK leak text text text'', pq_issue_category = IC_WATER_LEAK,
      pq_policy_topics = [PT_RESPONSIBILITY_SCOPE, PT_APPOINTMENT], pq_as_of = utc_time 50, pq_intent_version = 1,
      pq_top_k = 5, pq_minimum_vector_similarity = 1 / 5, pq_minimum_fusion_score = 1 / 4, pq_trace_id = 2\<rparr>"

lemma desk_candidates:
  "list_effective_candidates policy_desk IC_WATER_LEAK [PT_RESPONSIBILITY_SCOPE, PT_APPOINTMENT] 50 v profile
     short_policies = [candidate_of policy_desk v (short_chunk 71 1) (short_policy 1 PT_RESPONSIBILITY_SCOPE),
       candidate_of policy_desk v (short_chunk 72 2) (short_policy 2 PT_APPOINTMENT)]"
  by (simp add: list_effective_candidates_def short_policies_def policy_desk_def effective_filters_def)
    (simp add: short_chunk_def short_policy_def)

lemma desk_lexical: "lexical_match_score ''WATER_LEAK leak text text text'' [''door''] = 0"
  by code_simp

definition short_evidence :: "uuid \<Rightarrow> uuid \<Rightarrow> policy_topic \<Rightarrow> PolicyEvidence" where
  "short_evidence i document topic = \<lparr>pe_evidence_id = i, pe_document_id = document, pe_policy_code = ''P'',
     pe_policy_version = int document, pe_title = ''title'', pe_issue_category = None, pe_policy_topic = topic,
     pe_content_excerpt = ''rule'', pe_source_name = ''s'', pe_source_reference = ''r'', pe_effective_from = 0,
     pe_effective_to = None, pe_authority_rank = 50, pe_vector_similarity = Some 1, pe_vector_rank = Some 1,
     pe_lexical_score = Some 0, pe_lexical_rank = None, pe_fusion_score = 1 / 2, pe_decision_key = None,
     pe_decision_value = None, pe_retrieved_as_of = utc_time 50, pe_instruction_like = False\<rparr>"

lemma strip_rule: "strip ''rule'' = ''rule''" by code_simp

lemma desk_fused:
  "fuse_candidates policy_desk [candidate_of policy_desk v (short_chunk 71 1) (short_policy 1 PT_RESPONSIBILITY_SCOPE),
       candidate_of policy_desk v (short_chunk 72 2) (short_policy 2 PT_APPOINTMENT)] desk_query =
   Inr [short_evidence 71 1 PT_RESPONSIBILITY_SCOPE, short_evidence 72 2 PT_APPOINTMENT]"
  by (simp add: fuse_candidates_def evidence_of_def candidate_of_def Let_def vector_rank_def lexical_rank_def
      in_vector_lane_def lexical_score_def desk_query_def short_chunk_def short_policy_def policy_desk_def
      desk_lexical dense_rank_def normalized_rrf_def rrf_k_def is_instruction_like_def strip_rule checked_def
      evidence_model_ok_def text_between_def evidence_order_def short_evidence_def)

definition desk_result :: PolicyResult where
  "desk_result = \<lparr>pz_evidence = [short_evidence 71 1 PT_RESPONSIBILITY_SCOPE, short_evidence 72 2 PT_APPOINTMENT],
     pz_conflicts = [], pz_sufficiency = EV_SUFFICIENT, pz_missing_policy_topics = [],
     pz_retrieved_as_of = utc_time 50, pz_intent_version = 1, pz_issue_category = IC_WATER_LEAK,
     pz_requested_policy_topics = [PT_RESPONSIBILITY_SCOPE, PT_APPOINTMENT], pz_embedding_profile = profile,
     pz_policy_query_fingerprint = digest []\<rparr>"

lemma desk_profiles:
  "set (list_effective_profiles category topics as_of short_policies) \<subseteq> {profile}"
  by (auto simp: list_effective_profiles_def short_policies_def short_policy_def)

lemma desk_retrieves: "retrieve policy_desk desk_query short_policies = Inr desk_result"
proof -
  let ?e = "[short_evidence 71 1 PT_RESPONSIBILITY_SCOPE, short_evidence 72 2 PT_APPOINTMENT]"
  have parts: "detect_policy_conflicts ?e = []"
    "evaluate_sufficiency ?e [] [PT_RESPONSIBILITY_SCOPE, PT_APPOINTMENT] (1 / 5) (1 / 4) = (EV_SUFFICIENT, [])"
    "policy_query_fingerprint digest q pf = digest []" for q pf
    by (simp_all add: detect_policy_conflicts_def decisions_def short_evidence_def evaluate_sufficiency_def
        covers_topic_def policy_query_fingerprint_def digest_def)
  have "policy_result_ok desk_result" by (simp add: policy_result_ok_def desk_result_def)
  have fields: "pv_profile policy_desk = profile" "pv_sha256 policy_desk = digest"
    "embedded (pv_embed_query policy_desk t) = Inr (replicate 384 0, profile)"
    "pq_issue_category desk_query = IC_WATER_LEAK" "pq_as_of desk_query = utc_time 50"
    "pq_policy_topics desk_query = [PT_RESPONSIBILITY_SCOPE, PT_APPOINTMENT]" "pq_intent_version desk_query = 1"
    "pq_minimum_vector_similarity desk_query = 1 / 5" "pq_minimum_fusion_score desk_query = 1 / 4"
    "pt_instant (utc_time 50) = 50" "pf_dimension profile = 384" "policy_embedding_dimension = 384" for t
    by (simp_all add: policy_desk_def embedded_def desk_query_def utc_time_def profile_def policy_embedding_dimension_def)
  have "\<not> (\<exists>stored \<in> set (list_effective_profiles category topics as_of short_policies). stored \<noteq> profile)"
    for category topics as_of
    using desk_profiles by blast
  with \<open>policy_result_ok desk_result\<close> show ?thesis
    by (simp add: retrieve_def fields desk_candidates desk_fused parts(1-3) checked_def desk_result_def Let_def
        del: One_nat_def)
qed

definition policy_context :: NodeContext where
  "policy_context = (desk TS_OPEN)\<lparr>nc_retrieve_policy := \<lambda>q. retrieve policy_desk q short_policies\<rparr>"

lemma policy_context_runs:
  "\<exists>st'. run_task policy_context N_retrieve_policy None interpreted_state = Inr (Task_done st' (Some N_find_duplicates))"
proof -
  have asks: "policy_query_text policy_context IC_WATER_LEAK (Some ''leak'') = ''WATER_LEAK leak text text text''"
    by (simp add: policy_context_def policy_query_text_def policy_topics_for_def shown_text_def)
  have asked: "make_policy_request (policy_request policy_context interpreted_state IC_WATER_LEAK (utc_time 50)) = Inr desk_query"
    by (simp add: make_policy_request_def policy_request_def interpreted_state_def asks stripped_query desk_query_def
        checked_def policy_request_ok_def policy_topics_for_def text_between_def utc_time_def the_states)
  have fingerprint: "policy_query_fingerprint digest q pf = digest []" for q pf
    by (simp add: policy_query_fingerprint_def digest_def)
  have merged: "merge_policy_result digest interpreted_state desk_result desk_query profile =
      Inr (interpreted_state\<lparr>st_policy_evidence_ids := [71, 72], st_policy_conflict := False,
        st_policy_sufficiency := Some EV_SUFFICIENT, st_missing_policy_topics := [],
        st_policy_retrieved_as_of := Some (utc_time 50), st_policy_query_fingerprint := Some (digest [])\<rparr>)"
    by (simp add: merge_policy_result_def desk_result_def desk_query_def fingerprint short_evidence_def)
      (simp add: the_states)
  let ?st = "interpreted_state\<lparr>st_policy_evidence_ids := [71, 72], st_policy_conflict := False,
    st_policy_sufficiency := Some EV_SUFFICIENT, st_missing_policy_topics := [],
    st_policy_retrieved_as_of := Some (utc_time 50), st_policy_query_fingerprint := Some (digest []),
    st_workflow_stage := WS_POLICY_CHECK\<rparr>"
  have state: "st_issue_category interpreted_state = Some IC_WATER_LEAK"
    "st_current_reference_time interpreted_state = Some (utc_time 50)"
    by (simp_all add: the_states)
  have "run_node policy_context N_retrieve_policy None interpreted_state = Inr (Updates ?st)"
    using merged asked
    by (simp add: updating_def retrieve_policy_def state)
      (simp add: policy_context_def desk_retrieves desk_result_def)
  moreover have "sound_state ?st"
    by (simp add: the_states sound_defs value_checks normalize_issue_location_def [of None])
  then have "edge N_retrieve_policy ?st = Inr (Some N_find_duplicates)"
    by (simp add: sound_state_def route_after_policy_def)
  ultimately show ?thesis using demo_task by blast
qed

theorem repairs_planned_under_policy_witness:
  "\<exists>st' category. st_issue_category st' = Some category \<and>
     run_task policy_context N_retrieve_policy None interpreted_state = Inr (Task_done st' (Some N_find_duplicates)) \<and>
     length (st_policy_evidence_ids st') \<le> 5"
proof -
  obtain st' where run: "run_task policy_context N_retrieve_policy None interpreted_state =
      Inr (Task_done st' (Some N_find_duplicates))"
    using policy_context_runs by blast
  have "nc_retrieve_policy policy_context = (\<lambda>q. retrieve policy_desk q short_policies)"
    by (simp add: policy_context_def)
  from repairs_planned_under_policy [OF run this] run show ?thesis by (metis length_map)
qed

end
