(* ===== verification/Spec2Isabelle.thy ===== *)
theory Spec2Isabelle
  imports Access EventLog Queries Delivery EventPayloads CaseHistory ReliabilityHistory Routing PolicyGuarantees
begin

text \<open>
  FixFlow is a maintenance-ticket service. A resident reports a fault, a worker is booked, the worker
  reports from the visit, the resident accepts or asks for rework, and operators step in. This
  development models the deterministic core under \<open>src/backend/app/\<close>.

  \<^bold>\<open>The parts and how they interact.\<close> An application use case loads snapshots from the tables, asks a pure
  domain rule, writes the new snapshots, appends history rows and one outbox row, and commits, all
  under the idempotency key of the command. A dispatcher claims outbox rows and projects them into the
  trace of agent runs. When the answer to a command was lost, a reconciliation case looks for evidence of the
  command in the same tables. Residents talk to an agent: a graph of tasks over a checkpointed state that
  interprets messages, retrieves policy evidence, looks for duplicates, and sends the commands above as
  tool calls. Its runs leave messages, public results and human review cases behind, and the online
  language models are called behind a gate, a circuit breaker and a time budget.

  \<^bold>\<open>Theories and sources\<close> (paths under \<open>src/backend/app/\<close>).
  \<^item> \<open>Prelude\<close>, \<open>Text\<close>: exceptions as values, the error monad \<open>outcome\<close>, lists with keys, the few
    string functions of Python that the program uses. An exception is \<open>Exn\<close> of its class, its
    message and its details; \<open>Inl\<close> is a raise.
  \<^item> \<open>Enums\<close>, \<open>DomainModels\<close>, \<open>DomainInvariants\<close>, \<open>Tickets\<close>, \<open>Appointments\<close>, \<open>WorkerEvents\<close>:
    \<open>domain/\<close>, one theory per file. Snapshots are records, enumerations are datatypes with their wire
    values, every \<open>ensure_*\<close> check is a function into \<open>outcome\<close>.
  \<^item> \<open>Commands\<close>, \<open>Service\<close>, \<open>TicketService\<close>, \<open>AppointmentService\<close>, \<open>WorkerEventService\<close>, \<open>UseCases\<close>:
    \<open>application/\<close>. A use case is a function of the session state; \<open>dispatch\<close> runs one command in one
    transaction, as \<open>services.py\<close> does.
  \<^item> \<open>Store\<close>: \<open>infrastructure/database/\<close>. A table is a list of rows, a session holds the committed and
    the working copy, constraints are checked when rows are flushed.
  \<^item> \<open>Effects\<close>, \<open>AuditTrail\<close>, \<open>Lifecycle\<close>, \<open>Journeys\<close>, \<open>EventLog\<close>, \<open>Access\<close>, \<open>Demo\<close>, \<open>Scenarios\<close>: what
    the reachable stores satisfy, and the small town on which it is exercised.
  \<^item> \<open>Slots\<close>, \<open>Queries\<close>: the read side (\<open>application/slot_queries.py\<close>, \<open>query_service.py\<close>).
  \<^item> \<open>LeaseQueue\<close>, \<open>Outbox\<close>, \<open>Delivery\<close>, \<open>Trace\<close>, \<open>EventPayloads\<close>: \<open>outbox/\<close> and \<open>trace/\<close>.
  \<^item> \<open>Evidence\<close>, \<open>Reconciliation\<close>, \<open>CaseHistory\<close>: \<open>reconciliation/\<close>.
  \<^item> \<open>Reliability\<close>, \<open>ReliabilityFacts\<close>, \<open>ReliabilityHistory\<close>: \<open>application/agent_reliability.py\<close> and its
    repository.
  \<^item> \<open>Circuit\<close>, \<open>Routing\<close>: \<open>llm/online/\<close> circuit, budget, gate and routing.
  \<^item> \<open>AgentState\<close>, \<open>AgentMerge\<close>: \<open>agent/\<close>, the state with its validators and the merge of an interpretation.
  \<^item> \<open>AgentTools\<close>: \<open>property_operations/contracts/\<close> and \<open>agent_runtime/mcp/\<close>.
  \<^item> \<open>Policy\<close>: \<open>policy/\<close> with its tables and repository.
  \<^item> \<open>AgentNodes\<close>, \<open>AgentDialogue\<close>, \<open>AgentGraph\<close>: the nodes and edges of \<open>agent_runtime/\<close>; \<open>run_graph\<close> is the
    loop of LangGraph with its recursion limit as fuel.
  \<^item> \<open>AgentThread\<close>: \<open>agent_runtime/orchestration.py\<close> and \<open>reconciliation/coordinator.py\<close>.
  \<^item> \<open>ToolServer\<close>: \<open>src/mcp_server/application_adapter.py\<close>, the eight tools over the use cases and the
    queries, and the wire between the client and this server, on which answers can be lost.
  \<^item> \<open>AgentRuns\<close>, \<open>AgentHistory\<close>, \<open>AgentDemo\<close>: what every task keeps, what holds over whole
    conversations, and a desk on which they are exercised.
  \<^item> \<open>AgentGuarantees\<close>, \<open>AgentFailures\<close>, \<open>AgentTickets\<close>, \<open>AgentService\<close>, \<open>AgentProofs\<close>,
    \<open>PolicyGuarantees\<close>: the guarantees of the agent, the ways its threads get stuck, and what it knows of
    tickets, commands and policies when it runs against the service itself.

  \<^bold>\<open>What the lemmas show.\<close> Each domain rule is characterised on every branch and refines a small
  transition table. The interface locales state the contracts between the parts: \<open>use_case\<close> is the
  idempotent execution of a handler, \<open>audited_table\<close> is a table whose history replays to its rows, and
  \<open>leased_table\<close> is a table claimed under fencing tokens; each is interpreted on the model's own operations
  (tickets, appointments, review cases; outbox and reconciliation). Over any sequence of committed
  transactions the tables satisfy the invariants of \<open>Lifecycle\<close>, \<open>EventLog\<close>, \<open>CaseHistory\<close> and
  \<open>ReliabilityFacts\<close>. Theorems of kind error show where the code falls short of what it means to do.

  \<^bold>\<open>Bounds and fuel.\<close> Loops are structural recursions over lists. The loops that run forever in
  production (dispatcher and reconciliation worker) are modelled as single iterations that the step
  relations repeat; the dispatcher is shown to drain the outbox in a bounded number of rounds.
  A run of the agent has the recursion limit of LangGraph as fuel; twelve tasks are shown to be enough
  while the tickets read are open.
  Times are integers, in microseconds since the epoch; UUIDs are naturals below \<open>2 ^ 128\<close> where
  text form matters.

  \<^bold>\<open>Parameters.\<close> SHA-256, UUID5, random UUIDs, clocks and locked rows are arguments; so are the answers of
  language models, embeddings, the Chinese texts and the update of a checkpoint by LangGraph. Where a property
  needs a digest to tell two inputs apart, this is a named hypothesis, and its witness evaluates
  with a concrete function.

  \<^bold>\<open>Not modelled.\<close> The prompts of language models, their providers and their evaluation; the storage of
  checkpoints and the trace and replay hooks around a task of the agent; the HTTP adapters and
  the MCP transport, which map requests to the operations modelled here; recording and replay of runs; migrations and
  start-up. Inside a modelled part: isolation anomalies between concurrent
  transactions, except for the claims of \<open>LeaseQueue\<close> and the rows locked by others; surrogate keys;
  text beyond ASCII.
\<close>

end
